(* ===== verification/Go_Prelude.thy ===== *)
theory Go_Prelude
  imports Main
begin

text \<open>
  The part of Go and of its standard library the control plane uses, shared by
  every component theory: byte strings (\<^verbatim>\<open>strings\<close>, \<^verbatim>\<open>strconv\<close>), instants and
  durations in nanoseconds (\<^verbatim>\<open>time\<close>) with the UTC calendar, and the generic list
  lemmas the component proofs rest on. A Go \<open>string\<close> is a list of bytes, which is
  Isabelle's \<^typ>\<open>string\<close>; character classes are those of ASCII.
\<close>

named_theorems go_simps \<open>unfolding rules for the modelled library calls\<close>

section \<open>Strings\<close>

type_synonym go_error = string

text \<open>\<^verbatim>\<open>strings.Split(s, sep)\<close> for a one-byte separator: never an empty list.\<close>

fun split_on :: "char \<Rightarrow> string \<Rightarrow> string list" where
  "split_on c [] = [[]]"
| "split_on c (x # xs) =
     (if x = c then [] # split_on c xs
      else (case split_on c xs of [] \<Rightarrow> [[x]] | y # ys \<Rightarrow> (x # y) # ys))"

definition is_space :: "char \<Rightarrow> bool" where
  "is_space c \<longleftrightarrow> c \<in> {CHR 0x09, CHR 0x0A, CHR 0x0B, CHR 0x0C, CHR 0x0D, CHR '' ''}"

text \<open>\<^verbatim>\<open>strings.Fields\<close>: maximal runs of non-space bytes.\<close>

fun fields_acc :: "string \<Rightarrow> string \<Rightarrow> string list" where
  "fields_acc cur [] = (if cur = [] then [] else [rev cur])"
| "fields_acc cur (c # cs) =
     (if is_space c then (if cur = [] then fields_acc [] cs else rev cur # fields_acc [] cs)
      else fields_acc (c # cur) cs)"

definition str_fields :: "string \<Rightarrow> string list" where
  "str_fields s = fields_acc [] s"

definition trim_space :: "string \<Rightarrow> string" where
  "trim_space s = rev (dropWhile is_space (rev (dropWhile is_space s)))"

text \<open>\<^verbatim>\<open>strings.Index(s, sub)\<close> for a one-byte \<open>sub\<close>; \<open>None\<close> is \<open>-1\<close>.\<close>

fun str_index :: "char \<Rightarrow> string \<Rightarrow> nat option" where
  "str_index c [] = None"
| "str_index c (x # xs) = (if x = c then Some 0 else map_option Suc (str_index c xs))"

definition has_prefix :: "string \<Rightarrow> string \<Rightarrow> bool" where
  "has_prefix s p \<longleftrightarrow> take (length p) s = p"

definition has_suffix :: "string \<Rightarrow> string \<Rightarrow> bool" where
  "has_suffix s p \<longleftrightarrow> drop (length s - length p) s = p"

fun str_contains :: "string \<Rightarrow> string \<Rightarrow> bool" where
  "str_contains [] p = (p = [])"
| "str_contains (x # xs) p = (has_prefix (x # xs) p \<or> str_contains xs p)"

definition to_upper :: "char \<Rightarrow> char" where
  "to_upper c = (let n = of_char c :: nat in if 97 \<le> n \<and> n \<le> 122 then char_of (n - 32) else c)"

definition to_lower :: "char \<Rightarrow> char" where
  "to_lower c = (let n = of_char c :: nat in if 65 \<le> n \<and> n \<le> 90 then char_of (n + 32) else c)"

definition is_digit :: "char \<Rightarrow> bool" where
  "is_digit c \<longleftrightarrow> 48 \<le> (of_char c :: nat) \<and> (of_char c :: nat) \<le> 57"

definition digit_val :: "char \<Rightarrow> int" where
  "digit_val c = int (of_char c) - 48"

text \<open>\<^verbatim>\<open>strconv.Atoi\<close>: an optional sign, at least one digit, within \<open>int64\<close>.\<close>

definition max_int64 :: int where "max_int64 = 9223372036854775807"
definition min_int64 :: int where "min_int64 = - 9223372036854775808"

definition digits_val :: "string \<Rightarrow> int" where
  "digits_val ds = foldl (\<lambda>a d. 10 * a + digit_val d) 0 ds"

definition atoi :: "string \<Rightarrow> int option" where
  "atoi s =
     (let neg = (case s of [] \<Rightarrow> False | c # _ \<Rightarrow> c = CHR ''-'');
          ds = (case s of [] \<Rightarrow> [] | c # cs \<Rightarrow> if c = CHR ''-'' \<or> c = CHR ''+'' then cs else s)
      in if ds = [] \<or> \<not> list_all is_digit ds then None
         else let v = (if neg then - digits_val ds else digits_val ds)
              in if min_int64 \<le> v \<and> v \<le> max_int64 then Some v else None)"

text \<open>The value an \<open>int64\<close> operation stores: two's complement wrap-around.\<close>

definition wrap_int64 :: "int \<Rightarrow> int" where
  "wrap_int64 x = (x + 9223372036854775808) mod 18446744073709551616 - 9223372036854775808"

text \<open>The \<^verbatim>\<open>%d\<close> verb.\<close>

fun show_nat :: "nat \<Rightarrow> string" where
  "show_nat n = (if n < 10 then [char_of (48 + n)] else show_nat (n div 10) @ [char_of (48 + n mod 10)])"

declare show_nat.simps [simp del]

definition show_int :: "int \<Rightarrow> string" where
  "show_int i = (if i < 0 then CHR ''-'' # show_nat (nat (- i)) else show_nat (nat i))"

text \<open>The \<^verbatim>\<open>%q\<close> verb on ASCII; bytes above 127 are copied.\<close>

definition hex_digit :: "nat \<Rightarrow> char" where
  "hex_digit n = (if n < 10 then char_of (48 + n) else char_of (87 + n))"

definition quote_char :: "char \<Rightarrow> string" where
  "quote_char c =
     (let n = (of_char c :: nat) in
      if n = 34 then [CHR 0x5C, CHR 0x22]
      else if n = 92 then [CHR 0x5C, CHR 0x5C]
      else if n = 7 then [CHR 0x5C, CHR ''a'']
      else if n = 8 then [CHR 0x5C, CHR ''b'']
      else if n = 12 then [CHR 0x5C, CHR ''f'']
      else if n = 10 then [CHR 0x5C, CHR ''n'']
      else if n = 13 then [CHR 0x5C, CHR ''r'']
      else if n = 9 then [CHR 0x5C, CHR ''t'']
      else if n = 11 then [CHR 0x5C, CHR ''v'']
      else if n < 32 \<or> n = 127 then [CHR 0x5C, CHR ''x'', hex_digit (n div 16), hex_digit (n mod 16)]
      else [c])"

definition go_quote :: "string \<Rightarrow> string" where
  "go_quote s = CHR 0x22 # concat (map quote_char s) @ [CHR 0x22]"

text \<open>The non-ASCII literals of the source, as their UTF-8 bytes.\<close>

definition ellipsis :: string where "ellipsis = [CHR 0xE2, CHR 0x80, CHR 0xA6]"
definition em_dash :: string where "em_dash = [CHR 0xE2, CHR 0x80, CHR 0x94]"
definition right_arrow :: string where "right_arrow = [CHR 0xE2, CHR 0x86, CHR 0x92]"

section \<open>Instants, durations and the UTC calendar\<close>

text \<open>
  An instant is the number of nanoseconds since the Unix epoch, a duration a number of
  nanoseconds (\<^verbatim>\<open>time.Duration\<close>).
\<close>

type_synonym time = int
type_synonym duration = int

definition Second :: duration where "Second = 1000000000"
definition Minute :: duration where "Minute = 60 * Second"
definition Hour :: duration where "Hour = 60 * Minute"

lemmas duration_simps [go_simps] = Second_def Minute_def Hour_def

definition truncate_to :: "time \<Rightarrow> duration \<Rightarrow> time" where
  "truncate_to t d = t - t mod d"

definition unix_day :: "time \<Rightarrow> int" where "unix_day t = t div (24 * Hour)"
definition t_Minute :: "time \<Rightarrow> int" where "t_Minute t = (t div Minute) mod 60"
definition t_Hour :: "time \<Rightarrow> int" where "t_Hour t = (t div Hour) mod 24"
definition t_Sec :: "time \<Rightarrow> int" where "t_Sec t = (t div Second) mod 60"

text \<open>Day 719162 of the proleptic Gregorian calendar that starts on 1 January of year 1 is the epoch.\<close>

definition abs_day :: "time \<Rightarrow> int" where "abs_day t = unix_day t + 719162"

definition t_Weekday :: "time \<Rightarrow> int" where "t_Weekday t = (abs_day t + 1) mod 7"

definition is_leap :: "int \<Rightarrow> bool" where
  "is_leap y \<longleftrightarrow> y mod 4 = 0 \<and> (y mod 100 \<noteq> 0 \<or> y mod 400 = 0)"

text \<open>The year of a day and its zero-based day of the year.\<close>

definition year_yday :: "int \<Rightarrow> int \<times> int" where
  "year_yday d =
     (let n400 = d div 146097; d1 = d mod 146097;
          n100 = min 3 (d1 div 36524); d2 = d1 - 36524 * n100;
          n4 = d2 div 1461; d3 = d2 mod 1461;
          n1 = min 3 (d3 div 365)
      in (400 * n400 + 100 * n100 + 4 * n4 + n1 + 1, d3 - 365 * n1))"

definition month_lengths :: "bool \<Rightarrow> int list" where
  "month_lengths leap = [31, if leap then 29 else 28, 31, 30, 31, 30, 31, 31, 30, 31, 30, 31]"

fun find_month :: "int \<Rightarrow> int list \<Rightarrow> int \<Rightarrow> int \<times> int" where
  "find_month m [] y = (m, y + 1)"
| "find_month m [l] y = (m, y + 1)"
| "find_month m (l # l' # ls) y = (if y < l then (m, y + 1) else find_month (m + 1) (l' # ls) (y - l))"

definition civil :: "time \<Rightarrow> int \<times> int \<times> int" where
  "civil t = (let (y, yday) = year_yday (abs_day t); (m, d) = find_month 1 (month_lengths (is_leap y)) yday
              in (y, m, d))"

definition t_Year :: "time \<Rightarrow> int" where "t_Year t = fst (civil t)"
definition t_Month :: "time \<Rightarrow> int" where "t_Month t = fst (snd (civil t))"
definition t_Day :: "time \<Rightarrow> int" where "t_Day t = snd (snd (civil t))"

text \<open>\<^verbatim>\<open>t.Format(time.RFC3339)\<close> for a UTC instant.\<close>

definition pad2 :: "int \<Rightarrow> string" where
  "pad2 i = (if i < 10 then CHR ''0'' # show_int i else show_int i)"

definition rfc3339 :: "time \<Rightarrow> string" where
  "rfc3339 t =
     (let y = show_int (t_Year t) in replicate (4 - length y) (CHR ''0'') @ y) @ ''-'' @ pad2 (t_Month t) @ ''-'' @
     pad2 (t_Day t) @ ''T'' @ pad2 (t_Hour t) @ '':'' @ pad2 (t_Minute t) @ '':'' @ pad2 (t_Sec t) @ ''Z''"

section \<open>Lemmas\<close>

lemma split_on_not_Nil [simp]: "split_on c s \<noteq> []"
  by (induction s) (auto split: list.splits)

lemma Second_pos [simp]: "0 < Second" by (simp add: Second_def)
lemma Minute_pos [simp]: "0 < Minute" by (simp add: Minute_def)
lemma Hour_pos [simp]: "0 < Hour" by (simp add: Hour_def)

lemma mod_range: "0 < k \<Longrightarrow> 0 \<le> (x :: int) mod k \<and> x mod k \<le> k - 1"
  by (simp add: zle_diff1_eq)

lemma t_Minute_range: "0 \<le> t_Minute t \<and> t_Minute t \<le> 59"
  using mod_range [of 60 "t div Minute"] by (simp add: t_Minute_def)

lemma t_Hour_range: "0 \<le> t_Hour t \<and> t_Hour t \<le> 23"
  using mod_range [of 24 "t div Hour"] by (simp add: t_Hour_def)

lemma t_Weekday_range: "0 \<le> t_Weekday t \<and> t_Weekday t \<le> 6"
  using mod_range [of 7 "abs_day t + 1"] by (simp add: t_Weekday_def)

lemma div_bounds: "0 < k \<Longrightarrow> k * ((x :: int) div k) \<le> x \<and> x < k * (x div k) + k"
  by (metis add.commute add_less_cancel_left mult_div_mod_eq pos_mod_bound pos_mod_sign le_add_same_cancel1)

lemma year_yday_range: "0 \<le> snd (year_yday d) \<and> snd (year_yday d) \<le> 365"
proof -
  define d1 where "d1 = d mod 146097"
  define n100 where "n100 = min 3 (d1 div 36524)"
  define d3 where "d3 = (d1 - 36524 * n100) mod 1461"
  have "snd (year_yday d) = d3 - 365 * min 3 (d3 div 365)"
    unfolding year_yday_def Let_def d1_def n100_def d3_def by (rule snd_conv)
  moreover have "0 \<le> d3" "d3 < 1461" unfolding d3_def by (rule pos_mod_sign pos_mod_bound, simp)+
  ultimately show ?thesis using div_bounds [of 365 d3] by linarith
qed

lemma find_month_range:
  assumes "\<forall>l \<in> set ls. 1 \<le> l \<and> l \<le> 31" "ls \<noteq> []" "0 \<le> y" "y < sum_list ls"
  shows "m \<le> fst (find_month m ls y) \<and> fst (find_month m ls y) < m + int (length ls)
       \<and> 1 \<le> snd (find_month m ls y) \<and> snd (find_month m ls y) \<le> 31"
  using assms by (induction m ls y rule: find_month.induct) auto

lemma leap_yday: "snd (year_yday d) = 365 \<Longrightarrow> is_leap (fst (year_yday d))"
proof -
  assume y: "snd (year_yday d) = 365"
  define d1 where "d1 = d mod 146097"
  define n400 where "n400 = d div 146097"
  define n100 where "n100 = min 3 (d1 div 36524)"
  define d2 where "d2 = d1 - 36524 * n100"
  define n4 where "n4 = d2 div 1461"
  define d3 where "d3 = d2 mod 1461"
  have yr: "fst (year_yday d) = 400 * n400 + 100 * n100 + 4 * n4 + min 3 (d3 div 365) + 1"
    and yd: "snd (year_yday d) = d3 - 365 * min 3 (d3 div 365)"
    unfolding year_yday_def Let_def d1_def n400_def n100_def d2_def n4_def d3_def
    by (rule fst_conv snd_conv)+
  have d3: "0 \<le> d3" "d3 < 1461" unfolding d3_def by (rule pos_mod_sign pos_mod_bound, simp)+
  have "d3 = 1460" using y yd d3 div_bounds [of 365 d3] by linarith
  then have n1: "min 3 (d3 div 365) = 3" by simp
  have d1: "0 \<le> d1" "d1 < 146097" unfolding d1_def by (rule pos_mod_sign pos_mod_bound, simp)+
  have n100: "0 \<le> n100" "n100 \<le> 3" using d1 by (simp_all add: n100_def)
  have d2: "0 \<le> d2" "d2 \<le> 36524" "n100 < 3 \<longrightarrow> d2 < 36524"
    using d1 div_bounds [of 36524 d1] unfolding d2_def n100_def by linarith+
  have d2eq: "d2 = 1461 * n4 + 1460" using \<open>d3 = 1460\<close> by (simp add: n4_def d3_def flip: minus_mult_div_eq_mod)
  have n4: "0 \<le> n4" "n4 \<le> 24" "n100 < 3 \<longrightarrow> n4 < 24" using d2 d2eq by auto
  have "fst (year_yday d) = 400 * n400 + 100 * n100 + 4 * (n4 + 1)" using yr n1 by simp
  then have yeq: "fst (year_yday d) = 100 * (4 * n400 + n100) + 4 * (n4 + 1)" by simp
  show ?thesis
  proof (cases "n4 = 24")
    case True
    with n4 n100 have "n100 = 3" by linarith
    with True yeq have "fst (year_yday d) = 400 * (n400 + 1)" by simp
    then show ?thesis by (simp add: is_leap_def)
  next
    case False
    with n4 have r: "0 < 4 * (n4 + 1)" "4 * (n4 + 1) < 100" by auto
    have "fst (year_yday d) mod 100 = (4 * (n4 + 1)) mod 100"
      unfolding yeq by (rule mod_mult_self4)
    with r have "fst (year_yday d) mod 100 \<noteq> 0" by simp
    moreover have "fst (year_yday d) = 4 * (25 * (4 * n400 + n100) + n4 + 1)" using yeq by simp
    then have "fst (year_yday d) mod 4 = 0" by simp
    ultimately show ?thesis by (simp add: is_leap_def)
  qed
qed

lemma civil_range:
  "1 \<le> t_Month t \<and> t_Month t \<le> 12 \<and> 1 \<le> t_Day t \<and> t_Day t \<le> 31"
proof -
  define y where "y = fst (year_yday (abs_day t))"
  define yd where "yd = snd (year_yday (abs_day t))"
  have "0 \<le> yd" "yd \<le> 365" "yd = 365 \<Longrightarrow> is_leap y"
    using year_yday_range leap_yday by (simp_all add: yd_def y_def)
  then have "0 \<le> yd" "yd < sum_list (month_lengths (is_leap y))"
    by (cases "yd = 365"; auto simp: month_lengths_def)+
  moreover have "\<forall>l \<in> set (month_lengths (is_leap y)). 1 \<le> l \<and> l \<le> 31" "month_lengths (is_leap y) \<noteq> []"
    "length (month_lengths (is_leap y)) = 12"
    by (simp_all add: month_lengths_def)
  ultimately have "let p = find_month 1 (month_lengths (is_leap y)) yd
     in 1 \<le> fst p \<and> fst p < 13 \<and> 1 \<le> snd p \<and> snd p \<le> 31"
    using find_month_range [of "month_lengths (is_leap y)" yd 1] by (auto simp: Let_def)
  then show ?thesis
    by (simp add: t_Month_def t_Day_def civil_def y_def yd_def Let_def case_prod_beta)
qed

end
