(* ===== verification/Cron.thy ===== *)
theory Cron
  imports Go_Prelude
begin

text \<open>
  The control plane's one 5-field cron evaluator, \<^verbatim>\<open>src/cron/cron.go\<close>: the term
  parser, matching, save-time validation and the backwards walk \<^verbatim>\<open>PreviousFires\<close> that
  the snapshot scheduler, the staleness alarm and the automation scheduler share. The
  lemmas give the evaluator a set-based meaning, show that the walk returns exactly the
  newest matching minutes of its window, and say how far validation reaches.
\<close>

section \<open>The evaluator\<close>

definition ErrInvalid :: go_error where "ErrInvalid = ''invalid cron field''"

record fieldSpec =
  fs_name :: string
  fs_min :: int
  fs_max :: int

definition cron_fields :: "fieldSpec list" where
  "cron_fields =
     [\<lparr>fs_name = ''minute'', fs_min = 0, fs_max = 59\<rparr>,
      \<lparr>fs_name = ''hour'', fs_min = 0, fs_max = 23\<rparr>,
      \<lparr>fs_name = ''day-of-month'', fs_min = 1, fs_max = 31\<rparr>,
      \<lparr>fs_name = ''month'', fs_min = 1, fs_max = 12\<rparr>,
      \<lparr>fs_name = ''day-of-week'', fs_min = 0, fs_max = 6\<rparr>]"

definition parseRange :: "string \<Rightarrow> int \<Rightarrow> int \<Rightarrow> int \<Rightarrow> go_error + int \<times> int \<times> int" where
  "parseRange rangeExpr mn mx step =
     (if rangeExpr = ''*'' then Inr (mn, mx, step)
      else case str_index (CHR ''-'') rangeExpr of
        Some idx \<Rightarrow>
          (case atoi (take idx rangeExpr) of
             None \<Rightarrow> Inl ErrInvalid
           | Some a \<Rightarrow>
             (case atoi (drop (idx + 1) rangeExpr) of
                None \<Rightarrow> Inl ErrInvalid
              | Some b \<Rightarrow> if a > b then Inl ErrInvalid else Inr (a, b, step)))
      | None \<Rightarrow>
          (case atoi rangeExpr of
             None \<Rightarrow> Inl ErrInvalid
           | Some n \<Rightarrow> if step = 0 then Inr (n, n, 0) else Inr (n, mx, step)))"

definition parseTerm :: "string \<Rightarrow> int \<Rightarrow> int \<Rightarrow> go_error + int \<times> int \<times> int" where
  "parseTerm term mn mx =
     (case str_index (CHR ''/'') term of
        None \<Rightarrow> parseRange term mn mx 0
      | Some idx \<Rightarrow>
          (case atoi (drop (idx + 1) term) of
             None \<Rightarrow> Inl ErrInvalid
           | Some s \<Rightarrow> if s \<le> 0 then Inl ErrInvalid else parseRange (take idx term) mn mx s))"

definition termMatches :: "string \<Rightarrow> int \<Rightarrow> int \<Rightarrow> int \<Rightarrow> go_error + bool" where
  "termMatches term value mn mx =
     (case parseTerm term mn mx of
        Inl e \<Rightarrow> Inl e
      | Inr (lo, hi, step) \<Rightarrow>
          if value < lo \<or> value > hi then Inr False
          else if step = 0 then Inr True
          else Inr ((value - lo) mod step = 0))"

fun termsMatch :: "string list \<Rightarrow> int \<Rightarrow> int \<Rightarrow> int \<Rightarrow> go_error + bool" where
  "termsMatch [] value mn mx = Inr False"
| "termsMatch (part # parts) value mn mx =
     (case termMatches (trim_space part) value mn mx of
        Inl e \<Rightarrow> Inl e
      | Inr matched \<Rightarrow> if matched then Inr True else termsMatch parts value mn mx)"

definition fieldMatches :: "string \<Rightarrow> int \<Rightarrow> int \<Rightarrow> int \<Rightarrow> go_error + bool" where
  "fieldMatches field value mn mx = termsMatch (split_on (CHR '','') field) value mn mx"

definition time_values :: "time \<Rightarrow> int list" where
  "time_values t = [t_Minute t, t_Hour t, t_Day t, t_Month t, t_Weekday t]"

definition Matches :: "string \<Rightarrow> time \<Rightarrow> bool" where
  "Matches expr t =
     (let parts = str_fields expr in
      if length parts \<noteq> 5 then False
      else list_all (\<lambda>(part, value, spec). fieldMatches part value (fs_min spec) (fs_max spec) = Inr True)
             (zip parts (zip (time_values t) cron_fields)))"

fun validateTerms :: "string list \<Rightarrow> string \<Rightarrow> fieldSpec \<Rightarrow> go_error option" where
  "validateTerms [] part spec = None"
| "validateTerms (term # terms) part spec =
     (case parseTerm (trim_space term) (fs_min spec) (fs_max spec) of
        Inl e \<Rightarrow> Some (fs_name spec @ '' field '' @ go_quote part @ '' is not valid'')
      | Inr (lo, hi, _) \<Rightarrow>
          if lo < fs_min spec \<or> hi > fs_max spec
          then Some (fs_name spec @ '' field '' @ go_quote part @ '' is outside '' @
                     show_int (fs_min spec) @ ''-'' @ show_int (fs_max spec))
          else validateTerms terms part spec)"

fun validateFields :: "(string \<times> fieldSpec) list \<Rightarrow> go_error option" where
  "validateFields [] = None"
| "validateFields ((part, spec) # rest) =
     (case validateTerms (split_on (CHR '','') part) part spec of
        Some e \<Rightarrow> Some e
      | None \<Rightarrow> validateFields rest)"

definition Validate :: "string \<Rightarrow> go_error option" where
  "Validate expr =
     (let parts = str_fields expr in
      if length parts \<noteq> 5
      then Some (''cron expression must have 5 fields (minute hour day-of-month month day-of-week), got '' @
                 show_int (int (length parts)))
      else validateFields (zip parts cron_fields))"

function previousFiresLoop :: "string \<Rightarrow> time \<Rightarrow> time \<Rightarrow> int \<Rightarrow> time list \<Rightarrow> time list" where
  "previousFiresLoop expr t limit count fires =
     (if limit < t then
        (if Matches expr t then
           (let fires' = fires @ [t] in
            if int (length fires') = count then fires'
            else previousFiresLoop expr (t - Minute) limit count fires')
         else previousFiresLoop expr (t - Minute) limit count fires)
      else fires)"
  by pat_completeness auto
termination
  by (relation "measure (\<lambda>(expr, t, limit, count, fires). nat (t - limit))") (auto simp: duration_simps)

declare previousFiresLoop.simps [simp del]

definition PreviousFires :: "string \<Rightarrow> time \<Rightarrow> int \<Rightarrow> duration \<Rightarrow> time list" where
  "PreviousFires expr start count maxLookback =
     (if length (str_fields expr) \<noteq> 5 \<or> count \<le> 0 then []
      else previousFiresLoop expr (truncate_to start Minute) (start - maxLookback) count [])"

section \<open>The set of values a field stands for\<close>

definition term_set :: "string \<Rightarrow> fieldSpec \<Rightarrow> int set" where
  "term_set term spec =
     (case parseTerm (trim_space term) (fs_min spec) (fs_max spec) of
        Inl _ \<Rightarrow> {}
      | Inr (lo, hi, step) \<Rightarrow> {v. lo \<le> v \<and> v \<le> hi \<and> (step = 0 \<or> step dvd (v - lo))})"

definition field_set :: "string \<Rightarrow> fieldSpec \<Rightarrow> int set" where
  "field_set part spec = (\<Union>term \<in> set (split_on (CHR '','') part). term_set term spec)"

text \<open>The terms of a field, each parsed: what validation guarantees.\<close>

definition term_parses :: "string \<Rightarrow> fieldSpec \<Rightarrow> bool" where
  "term_parses term spec = (case parseTerm (trim_space term) (fs_min spec) (fs_max spec) of
     Inl _ \<Rightarrow> False | Inr (lo, hi, step) \<Rightarrow> fs_min spec \<le> lo \<and> hi \<le> fs_max spec)"

lemma validateTerms_None:
  "validateTerms ts part spec = None \<longleftrightarrow> (\<forall>term \<in> set ts. term_parses term spec)"
  by (induction ts) (auto simp: term_parses_def split: sum.splits prod.splits)

lemma validateFields_None:
  "validateFields ps = None \<longleftrightarrow>
   (\<forall>(part, spec) \<in> set ps. \<forall>term \<in> set (split_on (CHR '','') part). term_parses term spec)"
proof (induction ps rule: validateFields.induct)
  case (2 part spec rest)
  then show ?case
    by (cases "validateTerms (split_on (CHR '','') part) part spec") (auto simp flip: validateTerms_None [of _ part])
qed simp

lemma termMatches_set:
  "term_parses term spec \<Longrightarrow>
   termMatches (trim_space term) v (fs_min spec) (fs_max spec) = Inr (v \<in> term_set term spec)"
  by (auto simp: term_parses_def termMatches_def term_set_def mod_eq_0_iff_dvd split: sum.splits prod.splits)

lemma termsMatch_set:
  "\<forall>term \<in> set ts. term_parses term spec \<Longrightarrow>
   termsMatch ts v (fs_min spec) (fs_max spec) = Inr (v \<in> (\<Union>term \<in> set ts. term_set term spec))"
  by (induction ts) (auto simp: termMatches_set)

lemma five_parts:
  "length parts = 5 \<longleftrightarrow> (\<exists>a b c d e. parts = [a, b, c, d, e])"
  by (auto simp: numeral_eq_Suc length_Suc_conv)

lemma Validate_None:
  "Validate expr = None \<longleftrightarrow>
   length (str_fields expr) = 5 \<and>
   (\<forall>(part, spec) \<in> set (zip (str_fields expr) cron_fields).
      \<forall>term \<in> set (split_on (CHR '','') part). term_parses term spec)"
  by (auto simp: Validate_def Let_def validateFields_None)

lemma fieldMatches_set:
  "\<forall>term \<in> set (split_on (CHR '','') part). term_parses term spec \<Longrightarrow>
   fieldMatches part v (fs_min spec) (fs_max spec) = Inr (v \<in> field_set part spec)"
  by (simp add: fieldMatches_def field_set_def termsMatch_set)

text \<open>
  C20. On an expression that validation accepts, the evaluator fires at an instant exactly
  when each of the five calendar values of the instant lies in the set the corresponding
  field denotes: no term is skipped, none is an error, steps are counted from the start of
  their own range.
\<close>

theorem Matches_denotes:
  assumes "Validate expr = None"
  shows "Matches expr t \<longleftrightarrow>
    list_all (\<lambda>(part, value, spec). value \<in> field_set part spec)
      (zip (str_fields expr) (zip (time_values t) cron_fields))"
proof -
  obtain a b c d e where p: "str_fields expr = [a, b, c, d, e]"
    using assms by (auto simp: Validate_None five_parts)
  have "fieldMatches part v (fs_min spec) (fs_max spec) = Inr True \<longleftrightarrow> v \<in> field_set part spec"
    if "(part, spec) \<in> set (zip (str_fields expr) cron_fields)" for part v spec
    using that assms by (subst fieldMatches_set) (auto simp: Validate_None)
  from this [of a "\<lparr>fs_name = ''minute'', fs_min = 0, fs_max = 59\<rparr>"]
    this [of b "\<lparr>fs_name = ''hour'', fs_min = 0, fs_max = 23\<rparr>"]
    this [of c "\<lparr>fs_name = ''day-of-month'', fs_min = 1, fs_max = 31\<rparr>"]
    this [of d "\<lparr>fs_name = ''month'', fs_min = 1, fs_max = 12\<rparr>"]
    this [of e "\<lparr>fs_name = ''day-of-week'', fs_min = 0, fs_max = 6\<rparr>"]
  show ?thesis
    by (simp add: Matches_def p cron_fields_def time_values_def)
qed

theorem Matches_denotes_witness:
  "Validate ''*/15 3 * * 1-5'' = None \<and>
   (Matches ''*/15 3 * * 1-5'' 0 \<longleftrightarrow>
    list_all (\<lambda>(part, value, spec). value \<in> field_set part spec)
      (zip (str_fields ''*/15 3 * * 1-5'') (zip (time_values 0) cron_fields)))"
proof -
  have v: "Validate ''*/15 3 * * 1-5'' = None" by code_simp
  show ?thesis using v Matches_denotes [OF v, of 0] by blast
qed

section \<open>Validation\<close>

text \<open>
  Every field of a validated expression whose terms are not empty ranges can match: if
  each term starts at or below its end, then for each of the five positions there is a value
  inside the field's bounds that the evaluator accepts there. Nothing that passes validation
  can then be silently dead because of a single field.
\<close>

theorem Validate_field_matchable:
  assumes "Validate expr = None"
    and "(part, spec) \<in> set (zip (str_fields expr) cron_fields)"
    and "\<forall>term \<in> set (split_on (CHR '','') part). \<forall>lo hi step.
           parseTerm (trim_space term) (fs_min spec) (fs_max spec) = Inr (lo, hi, step) \<longrightarrow> lo \<le> hi"
  shows "\<exists>v. fs_min spec \<le> v \<and> v \<le> fs_max spec \<and>
             fieldMatches part v (fs_min spec) (fs_max spec) = Inr True"
proof -
  obtain tm where t: "tm \<in> set (split_on (CHR '','') part)"
    using split_on_not_Nil by (metis list.set_sel(1))
  have ok: "\<forall>term \<in> set (split_on (CHR '','') part). term_parses term spec"
    using assms(1,2) by (auto simp: Validate_None)
  then obtain lo hi step where
    p: "parseTerm (trim_space tm) (fs_min spec) (fs_max spec) = Inr (lo, hi, step)"
    and b: "fs_min spec \<le> lo" "hi \<le> fs_max spec"
    using t by (fastforce simp: term_parses_def split: sum.splits prod.splits)
  have le: "lo \<le> hi" using assms(3) t p by blast
  then have "lo \<in> field_set part spec"
    using t p by (auto simp: field_set_def term_set_def intro!: bexI [of _ tm])
  then show ?thesis
    using b le by (intro exI [of _ lo]) (simp add: fieldMatches_set [OF ok])
qed

theorem Validate_field_matchable_witness:
  "\<exists>v. 0 \<le> v \<and> v \<le> 59 \<and> fieldMatches ''5/20'' v 0 59 = Inr True"
proof -
  have v: "Validate ''5/20 * * * *'' = None" by code_simp
  have m: "(''5/20'', \<lparr>fs_name = ''minute'', fs_min = 0, fs_max = 59\<rparr>)
    \<in> set (zip (str_fields ''5/20 * * * *'') cron_fields)" by code_simp
  have s: "split_on (CHR '','') ''5/20'' = [''5/20'']" by code_simp
  have p: "parseTerm (trim_space ''5/20'') 0 59 = Inr (5, 59, 20)" by code_simp
  show ?thesis
    using Validate_field_matchable [OF v m] by (simp add: s p)
qed

text \<open>
  The range check of validation has a hole. A term of the form \<open>n/step\<close> runs from \<open>n\<close>
  to the field's maximum, and the check compares only the lower end with the minimum and the
  upper end with the maximum, so a start above the maximum is accepted although no minute
  ever matches: the schedule saves, renders and silently never fires, which is what the
  check exists to prevent.
\<close>

theorem Validate_accepts_dead_schedule:
  "Validate ''61/5 * * * *'' = None \<and> (\<forall>t. \<not> Matches ''61/5 * * * *'' t)"
proof
  show "Validate ''61/5 * * * *'' = None" by code_simp
  have f: "str_fields ''61/5 * * * *'' = [''61/5'', ''*'', ''*'', ''*'', ''*'']" by code_simp
  have s: "split_on (CHR '','') ''61/5'' = [''61/5'']" by code_simp
  have p: "parseTerm (trim_space ''61/5'') 0 59 = Inr (61, 59, 5)" by code_simp
  have "fieldMatches ''61/5'' v 0 59 = Inr False" for v
    by (auto simp: fieldMatches_def s termMatches_def p)
  then show "\<forall>t. \<not> Matches ''61/5 * * * *'' t"
    by (simp add: Matches_def f cron_fields_def time_values_def)
qed

section \<open>The backwards walk\<close>

lemma minute_step_gap:
  "Minute dvd (t :: int) \<Longrightarrow> Minute dvd u \<Longrightarrow> u < t \<Longrightarrow> u \<le> t - Minute"
  by (smt (verit) Minute_pos dvd_diff zdvd_imp_le)

text \<open>
  The newest at most \<open>k\<close> fires of the window between \<open>limit\<close> (excluded) and \<open>t\<close>.
\<close>

definition newest_fires :: "string \<Rightarrow> time \<Rightarrow> time \<Rightarrow> nat \<Rightarrow> time list \<Rightarrow> bool" where
  "newest_fires expr limit t k fires \<longleftrightarrow>
     length fires \<le> k \<and> sorted_wrt (>) fires
   \<and> (\<forall>u \<in> set fires. Matches expr u \<and> Minute dvd u \<and> limit < u \<and> u \<le> t)
   \<and> (\<forall>u. Matches expr u \<and> Minute dvd u \<and> limit < u \<and> u \<le> t \<longrightarrow>
        u \<in> set fires \<or> (length fires = k \<and> (\<forall>w \<in> set fires. u < w)))"

lemma minus_Minute_less: "(u :: int) \<le> t - Minute \<Longrightarrow> u < t"
  using Minute_pos by linarith

lemma newest_fires_empty: "\<not> limit < t \<Longrightarrow> newest_fires expr limit t k []"
  by (auto simp: newest_fires_def)

lemma newest_fires_one:
  "Matches expr t \<Longrightarrow> Minute dvd t \<Longrightarrow> limit < t \<Longrightarrow> newest_fires expr limit t (Suc 0) [t]"
  by (auto simp: newest_fires_def)

lemma newest_fires_cons:
  assumes "newest_fires expr limit (t - Minute) k fires" "Matches expr t" "Minute dvd t" "limit < t"
  shows "newest_fires expr limit t (Suc k) (t # fires)"
  unfolding newest_fires_def
proof (intro conjI allI impI)
  have below: "\<forall>u \<in> set fires. u < t"
    using assms(1) minus_Minute_less by (auto simp: newest_fires_def)
  then show "sorted_wrt (>) (t # fires)" using assms(1) by (simp add: newest_fires_def)
  show "\<forall>u \<in> set (t # fires). Matches expr u \<and> Minute dvd u \<and> limit < u \<and> u \<le> t"
    using assms below by (fastforce simp: newest_fires_def)
  fix u assume u: "Matches expr u \<and> Minute dvd u \<and> limit < u \<and> u \<le> t"
  show "u \<in> set (t # fires) \<or> (length (t # fires) = Suc k \<and> (\<forall>w \<in> set (t # fires). u < w))"
  proof (cases "u = t")
    case False
    with u have "u \<le> t - Minute" using minute_step_gap [OF assms(3)] by simp
    with u assms(1) False show ?thesis by (auto simp: newest_fires_def)
  qed simp
qed (use assms(1) in \<open>simp add: newest_fires_def\<close>)

lemma newest_fires_skip:
  assumes "newest_fires expr limit (t - Minute) k fires" "\<not> Matches expr t" "Minute dvd t"
  shows "newest_fires expr limit t k fires"
proof -
  have "u \<le> t - Minute" if "Matches expr u" "Minute dvd u" "u \<le> t" for u
    using minute_step_gap [OF assms(3) that(2)] that assms(2) by (cases "u = t") auto
  then show ?thesis
    using assms(1) minus_Minute_less by (fastforce simp: newest_fires_def)
qed

lemma previousFiresLoop_newest:
  assumes "Minute dvd t" "length fires < nat count"
  shows "\<exists>new. previousFiresLoop expr t limit count fires = fires @ new
             \<and> newest_fires expr limit t (nat count - length fires) new"
  using assms
proof (induction expr t limit count fires rule: previousFiresLoop.induct)
  case (1 expr t limit count fires)
  note unfold = previousFiresLoop.simps [of expr t limit count fires]
  have al: "Minute dvd (t - Minute)" using "1.prems"(1) by (simp add: dvd_diff)
  consider "\<not> limit < t" | "limit < t" "Matches expr t" "int (length (fires @ [t])) = count"
    | "limit < t" "Matches expr t" "int (length (fires @ [t])) \<noteq> count" | "limit < t" "\<not> Matches expr t"
    by blast
  then show ?case
  proof cases
    case 1
    then show ?thesis by (simp add: unfold newest_fires_empty)
  next
    case 2
    then have "nat count - length fires = Suc 0" by auto
    with 2 "1.prems"(1) show ?thesis by (simp add: unfold newest_fires_one)
  next
    case 3
    with "1.prems"(2) have "length (fires @ [t]) < nat count" by auto
    from "1.IH"(1) [OF 3(1,2) refl 3(3) al this] obtain new where
      "previousFiresLoop expr (t - Minute) limit count (fires @ [t]) = (fires @ [t]) @ new"
      and new: "newest_fires expr limit (t - Minute) (nat count - length (fires @ [t])) new" by blast
    moreover have "nat count - length fires = Suc (nat count - length (fires @ [t]))"
      using \<open>length (fires @ [t]) < nat count\<close> by simp
    ultimately show ?thesis
      using 3 newest_fires_cons [OF new 3(2) "1.prems"(1) 3(1)]
      by (intro exI [of _ "t # new"]) (simp add: unfold Let_def)
  next
    case 4
    from "1.IH"(2) [OF 4 al "1.prems"(2)] obtain new where
      "previousFiresLoop expr (t - Minute) limit count fires = fires @ new"
      "newest_fires expr limit (t - Minute) (nat count - length fires) new" by blast
    with 4 newest_fires_skip "1.prems"(1) show ?thesis by (auto simp: unfold)
  qed
qed

lemma truncate_aligned: "Minute dvd truncate_to t Minute"
  by (simp add: truncate_to_def minus_mod_eq_div_mult)

lemma truncate_le: "truncate_to t Minute \<le> t"
  by (simp add: truncate_to_def)

lemma aligned_le_truncate: "Minute dvd u \<Longrightarrow> u \<le> t \<Longrightarrow> u \<le> truncate_to t Minute"
  using Minute_pos
  by (metis dvd_div_mult_self minus_mod_eq_div_mult mult_right_mono order_less_imp_le truncate_to_def zdiv_mono1)

lemma PreviousFires_newest_fires:
  assumes "length (str_fields expr) = 5" and "0 < count"
  shows "newest_fires expr (start - lookback) start (nat count) (PreviousFires expr start count lookback)"
proof -
  have "newest_fires expr (start - lookback) (truncate_to start Minute) (nat count) (PreviousFires expr start count lookback)"
    using previousFiresLoop_newest [of "truncate_to start Minute" "[]" count expr "start - lookback"] assms
    by (auto simp: PreviousFires_def truncate_aligned)
  then show ?thesis
    using truncate_le [of start] aligned_le_truncate [of _ start]
    by (auto simp: newest_fires_def intro: order_trans)
qed

text \<open>
  C21. The backwards walk terminates and returns the newest fires of its window: at most
  \<open>count\<close> strictly descending minute-aligned instants, each of which matches and lies in
  the window, and any other matching minute of the window is older than all of them and was
  left out only because the list is full.
\<close>

theorem PreviousFires_newest:
  assumes "length (str_fields expr) = 5" and "0 < count"
  shows "let fires = PreviousFires expr start count lookback in
     int (length fires) \<le> count \<and> sorted_wrt (>) fires
   \<and> (\<forall>u \<in> set fires. Matches expr u \<and> Minute dvd u \<and> start - lookback < u \<and> u \<le> start)
   \<and> (\<forall>u. Matches expr u \<and> Minute dvd u \<and> start - lookback < u \<and> u \<le> start \<longrightarrow>
        u \<in> set fires \<or> (int (length fires) = count \<and> (\<forall>w \<in> set fires. u < w)))"
  using PreviousFires_newest_fires [OF assms, of start lookback] assms(2)
  by (auto simp: newest_fires_def Let_def)

theorem PreviousFires_newest_witness:
  "PreviousFires ''*/5 * * * *'' (7 * Minute) 2 Hour = [5 * Minute, 0] \<and> Matches ''*/5 * * * *'' (- 5 * Minute) \<and>
   list_all (\<lambda>w. - 5 * Minute < w) (PreviousFires ''*/5 * * * *'' (7 * Minute) 2 Hour)"
proof -
  have e: "PreviousFires ''*/5 * * * *'' (7 * Minute) 2 Hour = [5 * Minute, 0]" by code_simp
  have f: "length (str_fields ''*/5 * * * *'') = 5" by code_simp
  have m: "Matches ''*/5 * * * *'' (- 5 * Minute)" by code_simp
  have d: "Minute dvd - 5 * Minute" "7 * Minute - Hour < - 5 * Minute" by (simp_all add: Minute_def Hour_def Second_def)
  show ?thesis
    using PreviousFires_newest [OF f, of 2 "7 * Minute" Hour] m d
    by (simp add: e Let_def)
qed

section \<open>The two most recent fires, as the schedulers read them\<close>

text \<open>A slot the schedulers see is never in the future and the period is a positive number of minutes.\<close>

lemma PreviousFires_pair:
  assumes "PreviousFires expr start 2 lookback = s1 # s2 # rest"
  shows "rest = [] \<and> s2 < s1 \<and> s1 \<le> start \<and> start - lookback < s2 \<and> Minute \<le> s1 - s2"
proof -
  have five: "length (str_fields expr) = 5"
    using assms by (auto simp: PreviousFires_def split: if_splits)
  have spec: "newest_fires expr (start - lookback) start 2 (s1 # s2 # rest)"
    using PreviousFires_newest_fires [OF five, of 2 start lookback] assms by simp
  then have "Minute dvd s1" "Minute dvd s2" "s2 < s1" by (auto simp: newest_fires_def)
  then have "s2 \<le> s1 - Minute" by (simp add: minute_step_gap)
  with spec show ?thesis by (auto simp: newest_fires_def)
qed

end
