(* ===== verification/Worker_Hub.thy ===== *)
theory Worker_Hub
  imports Go_Prelude
begin

text \<open>
  The registry of connected workers, \<^verbatim>\<open>src/socket/hub.go\<close>. Session objects live in a
  store addressed by a number, since the hub, the connection handler and a replaced
  connection all hold references to the same session; the hub's table maps a worker to the
  address of its current session. A send never blocks: it queues, or fails because the worker
  is not connected or its queue is full.
\<close>

section \<open>Values and messages\<close>

text \<open>JSON values, as \<^verbatim>\<open>encoding/json\<close> decodes them into \<^verbatim>\<open>any\<close>; a number that is not an integer is opaque.\<close>

datatype json =
    JNull
  | JBool bool
  | JInt int
  | JFloat string
  | JStr string
  | JList "json list"
  | JObj "(string \<times> json) list"

record envelope =
  env_Type :: string
  env_Payload :: "(string \<times> json) list"

definition NewCommand :: "string \<Rightarrow> (string \<times> json) list \<Rightarrow> envelope" where
  "NewCommand msgType payload = \<lparr>env_Type = msgType, env_Payload = payload\<rparr>"

section \<open>Sessions and the hub\<close>

record workerSession =
  ws_WorkerID :: int
  ws_Send :: "envelope list"
  ws_Closed :: bool
  ws_Replaced :: bool
  ws_Cause :: "string option"

record workerHub =
  hub_sessions :: "(int \<times> nat) list"
  hub_objs :: "nat \<Rightarrow> workerSession"

definition MaxWorkerSessions :: nat where "MaxWorkerSessions = 500"

text \<open>The capacity of a session's send channel.\<close>

definition sendBufferSize :: nat where "sendBufferSize = 128"

definition ErrWorkerNotConnected :: go_error where "ErrWorkerNotConnected = ''worker is not connected''"
definition ErrSendQueueFull :: go_error where "ErrSendQueueFull = ''worker send queue is full''"
definition ErrMaxConnections :: go_error where "ErrMaxConnections = ''maximum connections reached''"

definition upd_session :: "nat \<Rightarrow> (workerSession \<Rightarrow> workerSession) \<Rightarrow> workerHub \<Rightarrow> workerHub" where
  "upd_session sid f h = h\<lparr>hub_objs := (hub_objs h)(sid := f (hub_objs h sid))\<rparr>"

definition session_Close :: "nat \<Rightarrow> workerHub \<Rightarrow> workerHub" where
  "session_Close sid h = upd_session sid (\<lambda>s. s\<lparr>ws_Closed := True\<rparr>) h"

definition setCloseCause :: "nat \<Rightarrow> string \<Rightarrow> workerHub \<Rightarrow> workerHub" where
  "setCloseCause sid e h =
     upd_session sid (\<lambda>s. if ws_Cause s = None then s\<lparr>ws_Cause := Some e\<rparr> else s) h"

definition del_key :: "int \<Rightarrow> (int \<times> 'v) list \<Rightarrow> (int \<times> 'v) list" where
  "del_key k xs = filter (\<lambda>(k', _). k' \<noteq> k) xs"

definition put_key :: "int \<Rightarrow> 'v \<Rightarrow> (int \<times> 'v) list \<Rightarrow> (int \<times> 'v) list" where
  "put_key k v xs = (k, v) # del_key k xs"

definition Register :: "nat \<Rightarrow> workerHub \<Rightarrow> go_error option \<times> workerHub" where
  "Register sid h =
     (let wid = ws_WorkerID (hub_objs h sid) in
      case map_of (hub_sessions h) wid of
        Some old \<Rightarrow>
          (let h1 = upd_session old (\<lambda>s. s\<lparr>ws_Replaced := True\<rparr>) h;
               h2 = setCloseCause old ''replaced by a new connection from the same worker'' h1;
               h3 = session_Close old h2
           in (None, h3\<lparr>hub_sessions := put_key wid sid (hub_sessions h3)\<rparr>))
      | None \<Rightarrow>
          if length (hub_sessions h) \<ge> MaxWorkerSessions then (Some ErrMaxConnections, h)
          else (None, h\<lparr>hub_sessions := put_key wid sid (hub_sessions h)\<rparr>))"

definition Unregister :: "int \<Rightarrow> workerHub \<Rightarrow> workerHub" where
  "Unregister wid h =
     (case map_of (hub_sessions h) wid of
        None \<Rightarrow> h
      | Some sid \<Rightarrow> session_Close sid (h\<lparr>hub_sessions := del_key wid (hub_sessions h)\<rparr>))"

definition removeIfMatch :: "nat \<Rightarrow> workerHub \<Rightarrow> workerHub" where
  "removeIfMatch sid h =
     (let wid = ws_WorkerID (hub_objs h sid) in
      if map_of (hub_sessions h) wid = Some sid
      then h\<lparr>hub_sessions := del_key wid (hub_sessions h)\<rparr> else h)"

definition IsConnected :: "int \<Rightarrow> workerHub \<Rightarrow> bool" where
  "IsConnected wid h \<longleftrightarrow> map_of (hub_sessions h) wid \<noteq> None"

definition ListConnectedIDs :: "workerHub \<Rightarrow> int list" where
  "ListConnectedIDs h = map fst (hub_sessions h)"

text \<open>
  \<open>pick\<close> resolves the \<^verbatim>\<open>select\<close>: when the session is shutting down and its queue still has
  room both cases are ready and Go chooses either.
\<close>

definition SendToWorker :: "bool \<Rightarrow> int \<Rightarrow> envelope \<Rightarrow> workerHub \<Rightarrow> go_error option \<times> workerHub" where
  "SendToWorker pick wid payload h =
     (case map_of (hub_sessions h) wid of
        None \<Rightarrow> (Some (ErrWorkerNotConnected @ '': '' @ show_int wid), h)
      | Some sid \<Rightarrow>
          (let s = hub_objs h sid in
           if length (ws_Send s) < sendBufferSize \<and> (\<not> ws_Closed s \<or> pick)
           then (None, upd_session sid (\<lambda>s. s\<lparr>ws_Send := ws_Send s @ [payload]\<rparr>) h)
           else if ws_Closed s then (Some (ErrWorkerNotConnected @ '': '' @ show_int wid), h)
           else (Some (ErrSendQueueFull @ '': '' @ show_int wid), h)))"

section \<open>The hub's invariant\<close>

text \<open>
  One entry per worker, each naming a session of that worker, never more than the cap, no
  queue over its capacity.
\<close>

definition hub_inv :: "workerHub \<Rightarrow> bool" where
  "hub_inv h \<longleftrightarrow> distinct (map fst (hub_sessions h))
     \<and> length (hub_sessions h) \<le> MaxWorkerSessions
     \<and> (\<forall>(wid, sid) \<in> set (hub_sessions h). ws_WorkerID (hub_objs h sid) = wid)
     \<and> (\<forall>sid. length (ws_Send (hub_objs h sid)) \<le> sendBufferSize)"

named_theorems hub_simps \<open>definitions of the hub's operations\<close>

lemmas [hub_simps] = upd_session_def session_Close_def setCloseCause_def

lemma distinct_del_key: "distinct (map fst xs) \<Longrightarrow> distinct (map fst (del_key k xs))"
  by (induction xs) (auto simp: del_key_def)

lemma length_del_key: "length (del_key k xs) \<le> length xs"
  by (simp add: del_key_def)

lemma fst_del_key: "k \<notin> fst ` set (del_key k xs)"
  by (auto simp: del_key_def)

lemma set_del_key: "set (del_key k xs) \<subseteq> set xs"
  by (auto simp: del_key_def)

lemma length_del_key_mem: "map_of xs k = Some v \<Longrightarrow> length (del_key k xs) < length xs"
  using map_of_SomeD [of xs k v] length_filter_less [of "(k, v)" xs "\<lambda>(k', _). k' \<noteq> k"] by (simp add: del_key_def)

lemma map_of_del_key: "map_of (del_key k xs) k' = (if k' = k then None else map_of xs k')"
  by (induction xs) (auto simp: del_key_def)

lemma map_of_put_key [simp]: "map_of (put_key k v xs) k' = (if k' = k then Some v else map_of xs k')"
  by (simp add: put_key_def map_of_del_key)

lemma distinct_put_key: "distinct (map fst xs) \<Longrightarrow> distinct (map fst (put_key k v xs))"
  using fst_del_key [of k xs] by (simp add: put_key_def distinct_del_key)

lemma length_put_key: "length (put_key k v xs) \<le> Suc (length xs)"
  by (simp add: put_key_def length_del_key)

lemma length_put_key_mem: "map_of xs k = Some u \<Longrightarrow> length (put_key k v xs) \<le> length xs"
  using length_del_key_mem [of xs k u] by (simp add: put_key_def)

lemma hub_inv_upd:
  assumes "hub_inv h" "\<And>s. ws_WorkerID (f s) = ws_WorkerID s"
    "length (ws_Send (f (hub_objs h sid))) \<le> sendBufferSize"
  shows "hub_inv (upd_session sid f h)"
  using assms by (auto simp: hub_inv_def upd_session_def)

lemma hub_inv_put:
  assumes "hub_inv h" "ws_WorkerID (hub_objs h sid) = wid"
    "length (put_key wid sid (hub_sessions h)) \<le> MaxWorkerSessions"
  shows "hub_inv (h\<lparr>hub_sessions := put_key wid sid (hub_sessions h)\<rparr>)"
  using assms set_del_key [of wid "hub_sessions h"]
  by (auto simp: hub_inv_def distinct_put_key) (auto simp: put_key_def)

lemma hub_inv_del: "hub_inv h \<Longrightarrow> hub_inv (h\<lparr>hub_sessions := del_key wid (hub_sessions h)\<rparr>)"
  using set_del_key [of wid "hub_sessions h"] length_del_key [of wid "hub_sessions h"]
  by (auto simp: hub_inv_def distinct_del_key)

lemma hub_inv_queue: "hub_inv h \<Longrightarrow> length (ws_Send (hub_objs h sid)) \<le> sendBufferSize"
  by (simp add: hub_inv_def)

lemma session_Close_inv: "hub_inv h \<Longrightarrow> hub_inv (session_Close sid h)"
  by (simp add: session_Close_def hub_inv_upd hub_inv_queue)

lemma setCloseCause_inv: "hub_inv h \<Longrightarrow> hub_inv (setCloseCause sid e h)"
  by (simp add: setCloseCause_def hub_inv_upd hub_inv_queue)

lemma upd_worker [simp]: "(\<And>s. ws_WorkerID (f s) = ws_WorkerID s) \<Longrightarrow>
    ws_WorkerID (hub_objs (upd_session sid f h) i) = ws_WorkerID (hub_objs h i)"
  by (simp add: upd_session_def)

lemma upd_sessions [simp]: "hub_sessions (upd_session sid f h) = hub_sessions h"
  by (simp add: upd_session_def)

lemma Register_inv:
  assumes inv: "hub_inv h"
  shows "hub_inv (snd (Register sid h))"
proof (cases "map_of (hub_sessions h) (ws_WorkerID (hub_objs h sid))")
  case None
  let ?wid = "ws_WorkerID (hub_objs h sid)"
  have "hub_inv (h\<lparr>hub_sessions := put_key ?wid sid (hub_sessions h)\<rparr>)"
    if "\<not> MaxWorkerSessions \<le> length (hub_sessions h)"
    using inv that length_put_key [of ?wid sid "hub_sessions h"] by (intro hub_inv_put) auto
  with None inv show ?thesis by (simp add: Register_def Let_def)
next
  case (Some old)
  define h3 where "h3 = session_Close old (setCloseCause old ''replaced by a new connection from the same worker''
    (upd_session old (\<lambda>s. s\<lparr>ws_Replaced := True\<rparr>) h))"
  have "hub_inv h3"
    unfolding h3_def by (intro session_Close_inv setCloseCause_inv hub_inv_upd inv) (simp_all add: hub_inv_queue inv)
  moreover have "hub_sessions h3 = hub_sessions h" "ws_WorkerID (hub_objs h3 sid) = ws_WorkerID (hub_objs h sid)"
    by (simp_all add: h3_def session_Close_def setCloseCause_def)
  moreover have "length (put_key (ws_WorkerID (hub_objs h sid)) sid (hub_sessions h)) \<le> MaxWorkerSessions"
    using length_put_key_mem [OF Some, of sid] inv by (simp add: hub_inv_def)
  ultimately have "hub_inv (h3\<lparr>hub_sessions := put_key (ws_WorkerID (hub_objs h sid)) sid (hub_sessions h3)\<rparr>)"
    by (intro hub_inv_put) simp_all
  with Some show ?thesis by (simp add: Register_def Let_def h3_def)
qed

lemma Unregister_inv: "hub_inv h \<Longrightarrow> hub_inv (Unregister wid h)"
  by (simp add: Unregister_def session_Close_inv hub_inv_del split: option.split)

lemma removeIfMatch_inv: "hub_inv h \<Longrightarrow> hub_inv (removeIfMatch sid h)"
  by (simp add: removeIfMatch_def Let_def hub_inv_del)

lemma SendToWorker_inv: "hub_inv h \<Longrightarrow> hub_inv (snd (SendToWorker pick wid m h))"
  by (simp add: SendToWorker_def Let_def hub_inv_upd split: option.split)

lemma SendToWorker_sessions [simp]: "hub_sessions (snd (SendToWorker pick wid m h)) = hub_sessions h"
  by (simp add: SendToWorker_def hub_simps Let_def split: option.split)

lemma SendToWorker_error_frame: "fst (SendToWorker pick wid m h) \<noteq> None \<Longrightarrow> snd (SendToWorker pick wid m h) = h"
  by (auto simp: SendToWorker_def Let_def split: option.splits if_splits)

text \<open>Any sequence of hub operations, as the connection handlers interleave them.\<close>

datatype hub_op = OpRegister nat | OpUnregister int | OpRemoveIfMatch nat | OpSend bool int envelope

fun hub_step :: "hub_op \<Rightarrow> workerHub \<Rightarrow> workerHub" where
  "hub_step (OpRegister sid) h = snd (Register sid h)"
| "hub_step (OpUnregister wid) h = Unregister wid h"
| "hub_step (OpRemoveIfMatch sid) h = removeIfMatch sid h"
| "hub_step (OpSend pick wid m) h = snd (SendToWorker pick wid m h)"

lemma hub_step_inv: "hub_inv h \<Longrightarrow> hub_inv (hub_step op h)"
  by (cases op) (simp_all add: Register_inv Unregister_inv removeIfMatch_inv SendToWorker_inv)

text \<open>
  C18. Whatever order connections, replacements, disconnects and sends arrive in, the hub
  keeps at most one session per worker, never more than the cap of 500, only sessions of the
  worker they are filed under, and no send queue beyond its capacity.
\<close>

theorem hub_inv_preserved:
  assumes "hub_inv h"
  shows "hub_inv (fold hub_step ops h)"
  using assms by (induction ops arbitrary: h) (simp_all add: hub_step_inv)

definition example_hub :: workerHub where
  "example_hub = \<lparr>hub_sessions = [],
     hub_objs = (\<lambda>sid. \<lparr>ws_WorkerID = 7, ws_Send = [], ws_Closed = False, ws_Replaced = False, ws_Cause = None\<rparr>)\<rparr>"

theorem hub_inv_preserved_witness:
  "hub_inv (fold hub_step [OpRegister 0, OpRegister 1, OpRemoveIfMatch 0] example_hub)
   \<and> IsConnected 7 (fold hub_step [OpRegister 0, OpRegister 1, OpRemoveIfMatch 0] example_hub)"
proof
  have "hub_inv example_hub" by (simp add: hub_inv_def example_hub_def)
  then show "hub_inv (fold hub_step [OpRegister 0, OpRegister 1, OpRemoveIfMatch 0] example_hub)"
    by (rule hub_inv_preserved)
  show "IsConnected 7 (fold hub_step [OpRegister 0, OpRegister 1, OpRemoveIfMatch 0] example_hub)"
    by (simp add: example_hub_def IsConnected_def Register_def removeIfMatch_def MaxWorkerSessions_def
        put_key_def del_key_def hub_simps Let_def)
qed

text \<open>
  C19. A reconnecting worker is never dropped by its old connection: registering a new
  session closes the replaced one, keeps the worker connected, and the old connection's
  teardown, which runs later, removes nothing, while a message sent then lands in the new
  session's queue.
\<close>

theorem reconnect_survives_old_teardown:
  assumes "map_of (hub_sessions h) wid = Some old" and "new \<noteq> old"
    and "ws_WorkerID (hub_objs h new) = wid" and "ws_WorkerID (hub_objs h old) = wid"
    and "\<not> ws_Closed (hub_objs h new)" and "length (ws_Send (hub_objs h new)) < sendBufferSize"
  shows "let (e, h1) = Register new h; h2 = removeIfMatch old h1; (e', h3) = SendToWorker pick wid m h2 in
     e = None \<and> ws_Closed (hub_objs h1 old) \<and> ws_Replaced (hub_objs h1 old)
     \<and> hub_sessions h2 = hub_sessions h1 \<and> IsConnected wid h2
     \<and> e' = None \<and> ws_Send (hub_objs h3 new) = ws_Send (hub_objs h new) @ [m]"
  using assms
  by (simp add: Register_def removeIfMatch_def SendToWorker_def IsConnected_def hub_simps Let_def)

theorem reconnect_survives_old_teardown_witness:
  "let h = snd (Register 0 example_hub); h1 = snd (Register 1 h); h2 = removeIfMatch 0 h1 in
     hub_sessions h2 = hub_sessions h1 \<and> IsConnected 7 h2"
proof -
  have "map_of (hub_sessions (snd (Register 0 example_hub))) 7 = Some 0"
    "ws_WorkerID (hub_objs (snd (Register 0 example_hub)) 1) = 7"
    "ws_WorkerID (hub_objs (snd (Register 0 example_hub)) 0) = 7"
    "\<not> ws_Closed (hub_objs (snd (Register 0 example_hub)) 1)"
    "length (ws_Send (hub_objs (snd (Register 0 example_hub)) 1)) < sendBufferSize"
    by (simp_all add: example_hub_def Register_def MaxWorkerSessions_def sendBufferSize_def)
  from reconnect_survives_old_teardown [OF this(1) _ this(2-), of True "NewCommand ''ping'' []"]
  show ?thesis by (simp add: Let_def case_prod_beta)
qed

end
