(* ===== verification/Rate_Limit.thy ===== *)
theory Rate_Limit
  imports Complex_Main Go_Prelude
begin

text \<open>
  The per-address token buckets of \<^verbatim>\<open>src/middleware/ratelimit.go\<close>: eviction, admission,
  the client address a request is counted under, and the middleware's path policy. The
  bucket map is an association list in iteration order; \<^verbatim>\<open>float64\<close> token counts are exact
  rationals. The lemmas bound the memory the limiter uses and the requests it admits, and show
  that forwarding headers cannot choose the bucket.
\<close>

section \<open>Token buckets\<close>

record tokenBucket =
  tb_tokens :: rat
  tb_maxTokens :: rat
  tb_refillRate :: rat
  tb_lastRefill :: time

type_synonym buckets = "(string \<times> tokenBucket) list"

definition maxBuckets :: nat where "maxBuckets = 50000"

definition seconds :: "duration \<Rightarrow> rat" where "seconds d = of_int d / of_int Second"

definition evictStaleLocked :: "time \<Rightarrow> duration \<Rightarrow> buckets \<Rightarrow> buckets" where
  "evictStaleLocked now maxAge bs = filter (\<lambda>(ip, b). \<not> now - tb_lastRefill b > maxAge) bs"

fun oldestBucket :: "string \<Rightarrow> time \<Rightarrow> buckets \<Rightarrow> string" where
  "oldestBucket oldestIP oldest [] = oldestIP"
| "oldestBucket oldestIP oldest ((k, v) # rest) =
     (if oldestIP = [] \<or> tb_lastRefill v < oldest then oldestBucket k (tb_lastRefill v) rest
      else oldestBucket oldestIP oldest rest)"

definition delete_ip :: "string \<Rightarrow> buckets \<Rightarrow> buckets" where
  "delete_ip ip bs = filter (\<lambda>(k, _). k \<noteq> ip) bs"

lemma oldestBucket_mem: "oldestBucket ip t bs \<in> insert ip (fst ` set bs)"
  by (induction ip t bs rule: oldestBucket.induct) auto

lemma delete_ip_less: "ip \<in> fst ` set bs \<Longrightarrow> length (delete_ip ip bs) < length bs"
  by (force simp: delete_ip_def intro: length_filter_less)

function dropOldest :: "buckets \<Rightarrow> buckets" where
  "dropOldest bs =
     (if length bs \<ge> maxBuckets then
        (let oldestIP = oldestBucket [] 0 bs in
         if oldestIP = [] then bs else dropOldest (delete_ip oldestIP bs))
      else bs)"
  by pat_completeness auto
termination
proof (relation "measure length")
  fix bs x
  assume "maxBuckets \<le> length bs" "x = oldestBucket [] 0 bs" "x \<noteq> []"
  then have "x \<in> fst ` set bs" using oldestBucket_mem [of "[]" 0 bs] by simp
  then show "(delete_ip x bs, bs) \<in> measure length" by (simp add: delete_ip_less)
qed simp

declare dropOldest.simps [simp del]

definition set_bucket :: "string \<Rightarrow> tokenBucket \<Rightarrow> buckets \<Rightarrow> buckets" where
  "set_bucket ip b bs = map (\<lambda>(k, v). if k = ip then (k, b) else (k, v)) bs"

definition allow :: "time \<Rightarrow> string \<Rightarrow> rat \<Rightarrow> nat \<Rightarrow> buckets \<Rightarrow> bool \<times> buckets" where
  "allow now ip rps burst bs =
     (case map_of bs ip of
        None \<Rightarrow>
          (let bs1 = (if length bs \<ge> maxBuckets then dropOldest (evictStaleLocked now (1 * Minute) bs) else bs)
           in (True, bs1 @ [(ip, \<lparr>tb_tokens = of_nat burst - 1, tb_maxTokens = of_nat burst,
                                  tb_refillRate = rps, tb_lastRefill = now\<rparr>)]))
      | Some b \<Rightarrow>
          (let elapsed = seconds (now - tb_lastRefill b);
               tokens1 = tb_tokens b + elapsed * tb_refillRate b;
               tokens2 = (if tokens1 > tb_maxTokens b then tb_maxTokens b else tokens1)
           in if tokens2 \<ge> 1
              then (True, set_bucket ip (b\<lparr>tb_tokens := tokens2 - 1, tb_lastRefill := now\<rparr>) bs)
              else (False, set_bucket ip (b\<lparr>tb_tokens := tokens2, tb_lastRefill := now\<rparr>) bs)))"

section \<open>The client address\<close>

record http_request_info =
  rq_RemoteAddr :: string
  rq_Path :: string
  rq_XForwardedFor :: string
  rq_XRealIP :: string

text \<open>\<^verbatim>\<open>net.SplitHostPort\<close> and \<^verbatim>\<open>net.ParseIP\<close> with the configured networks are arguments.\<close>

definition remoteIP :: "(string \<Rightarrow> string option) \<Rightarrow> http_request_info \<Rightarrow> string" where
  "remoteIP splitHostPort r =
     (case splitHostPort (rq_RemoteAddr r) of Some host \<Rightarrow> host | None \<Rightarrow> rq_RemoteAddr r)"

definition isTrustedProxy :: "(string \<Rightarrow> 'ip option) \<Rightarrow> ('ip \<Rightarrow> bool) list \<Rightarrow> string \<Rightarrow> bool" where
  "isTrustedProxy parseIP nets ipStr =
     (case parseIP ipStr of None \<Rightarrow> False | Some ip \<Rightarrow> list_ex (\<lambda>n. n ip) nets)"

definition ClientIP ::
  "(string \<Rightarrow> string option) \<Rightarrow> (string \<Rightarrow> 'ip option) \<Rightarrow> ('ip \<Rightarrow> bool) list \<Rightarrow> http_request_info \<Rightarrow> string" where
  "ClientIP splitHostPort parseIP nets r =
     (let peer = remoteIP splitHostPort r in
      if \<not> isTrustedProxy parseIP nets peer then peer
      else
        (let xff = rq_XForwardedFor r;
             lst = trim_space (last (split_on (CHR '','') xff));
             xri = trim_space (rq_XRealIP r)
         in if xff \<noteq> [] \<and> lst \<noteq> [] then lst else if xri \<noteq> [] then xri else peer))"

section \<open>The middleware\<close>

record limiters =
  authLimiter :: buckets
  generalLimiter :: buckets

datatype limit_verdict = Served | TooManyRequests nat

definition unlimited_path :: "string \<Rightarrow> bool" where
  "unlimited_path path \<longleftrightarrow>
     path = ''/healthcheck'' \<or> has_prefix path ''/ws/'' \<or> path = ''/auth/sso/config'' \<or>
     path = ''/auth/sso/login'' \<or> path = ''/auth/sso/callback'' \<or> path = ''/version'' \<or> path = ''/install/runner''"

definition strict_path :: "string \<Rightarrow> bool" where
  "strict_path path \<longleftrightarrow>
     has_prefix path ''/api/deploy/'' \<or> has_prefix path ''/api/automations/'' \<or>
     path = ''/auth/login'' \<or> path = ''/auth/refresh''"

definition general_path :: "string \<Rightarrow> bool" where
  "general_path path \<longleftrightarrow> has_prefix path ''/admin/'' \<or> has_prefix path ''/auth/''"

definition RateLimitMiddleware :: "time \<Rightarrow> string \<Rightarrow> string \<Rightarrow> limiters \<Rightarrow> limit_verdict \<times> limiters" where
  "RateLimitMiddleware now path ip ls =
     (if unlimited_path path then (Served, ls)
      else
        let (ok1, ls1) =
          (if strict_path path
           then let (ok, bs) = allow now ip 1 5 (authLimiter ls) in (ok, ls\<lparr>authLimiter := bs\<rparr>)
           else (True, ls))
        in if \<not> ok1 then (TooManyRequests 5, ls1)
           else
             let (ok2, ls2) =
               (if general_path path
                then let (ok, bs) = allow now ip 30 60 (generalLimiter ls1) in (ok, ls1\<lparr>generalLimiter := bs\<rparr>)
                else (True, ls1))
             in if \<not> ok2 then (TooManyRequests 2, ls2) else (Served, ls2))"

section \<open>Memory\<close>

definition buckets_inv :: "rat \<Rightarrow> nat \<Rightarrow> buckets \<Rightarrow> bool" where
  "buckets_inv rps burst bs \<longleftrightarrow>
     distinct (map fst bs) \<and> [] \<notin> fst ` set bs \<and> length bs \<le> maxBuckets
   \<and> (\<forall>(k, b) \<in> set bs. tb_maxTokens b = of_nat burst \<and> tb_refillRate b = rps \<and> tb_tokens b \<le> of_nat burst)"

text \<open>What filtering keeps: everything but the bound, which it can only improve.\<close>

lemma buckets_inv_filter: "buckets_inv rps burst bs \<Longrightarrow> buckets_inv rps burst (filter P bs)"
  by (fastforce simp: buckets_inv_def distinct_map_filter intro: order_trans [OF length_filter_le])

lemma oldestBucket_found: "[] \<notin> fst ` set bs \<Longrightarrow> bs \<noteq> [] \<Longrightarrow> oldestBucket ip t bs \<noteq> []"
proof -
  have keep: "ip \<noteq> [] \<Longrightarrow> [] \<notin> fst ` set bs \<Longrightarrow> oldestBucket ip t bs \<noteq> []" for ip t bs
    using oldestBucket_mem [of ip t bs] by (metis insertE)
  assume "[] \<notin> fst ` set bs" "bs \<noteq> []"
  then show ?thesis by (cases bs) (auto simp: keep split: if_splits)
qed

lemma dropOldest_room:
  assumes "[] \<notin> fst ` set bs"
  shows "length (dropOldest bs) < maxBuckets \<and> (\<exists>P. dropOldest bs = filter P bs)"
  using assms
proof (induction bs rule: dropOldest.induct)
  case (1 bs)
  show ?case
  proof (cases "maxBuckets \<le> length bs")
    case True
    let ?k = "oldestBucket [] 0 bs"
    have k: "?k \<noteq> []"
      using True 1(2) by (intro oldestBucket_found) (auto simp: maxBuckets_def)
    have sub: "[] \<notin> fst ` set (delete_ip ?k bs)" using 1(2) by (auto simp: delete_ip_def)
    have eq: "dropOldest bs = dropOldest (delete_ip ?k bs)"
      using True k by (subst dropOldest.simps) (simp add: Let_def)
    from 1(1) [OF True refl k sub] obtain P where
      "length (dropOldest (delete_ip ?k bs)) < maxBuckets" "dropOldest (delete_ip ?k bs) = filter P (delete_ip ?k bs)"
      by blast
    then show ?thesis unfolding eq by (auto simp: delete_ip_def)
  next
    case False
    then have "dropOldest bs = bs" by (subst dropOldest.simps) simp
    with False show ?thesis by (auto intro: exI [of _ "\<lambda>_. True"])
  qed
qed

text \<open>Admission of a new address: the list it is appended to has room and satisfies the invariant.\<close>

lemma make_room:
  assumes "buckets_inv rps burst bs"
    and bs1_def: "bs1 = (if length bs \<ge> maxBuckets then dropOldest (evictStaleLocked now (1 * Minute) bs) else bs)"
  shows "buckets_inv rps burst bs1 \<and> length bs1 < maxBuckets \<and> set bs1 \<subseteq> set bs"
proof (cases "length bs \<ge> maxBuckets")
  case True
  have "buckets_inv rps burst (evictStaleLocked now (1 * Minute) bs)"
    unfolding evictStaleLocked_def by (rule buckets_inv_filter [OF assms(1)])
  moreover from this obtain P where P: "length bs1 < maxBuckets" "bs1 = filter P (evictStaleLocked now (1 * Minute) bs)"
    using True dropOldest_room [of "evictStaleLocked now (1 * Minute) bs"] by (auto simp: bs1_def buckets_inv_def)
  ultimately show ?thesis using assms(1) by (auto simp: buckets_inv_filter evictStaleLocked_def)
next
  case False
  with assms(1) show ?thesis by (simp add: bs1_def)
qed

lemma fst_set_bucket [simp]: "map fst (set_bucket ip b bs) = map fst bs"
  by (induction bs) (auto simp: set_bucket_def)

lemma map_of_set_bucket:
  "map_of (set_bucket ip b bs) k = (if k = ip \<and> map_of bs ip \<noteq> None then Some b else map_of bs k)"
  by (induction bs) (auto simp: set_bucket_def)

lemma set_bucket_inv:
  assumes "buckets_inv rps burst bs" "tb_maxTokens b = of_nat burst" "tb_refillRate b = rps" "tb_tokens b \<le> of_nat burst"
  shows "buckets_inv rps burst (set_bucket ip b bs)"
proof -
  have "length (set_bucket ip b bs) = length bs" by (simp add: set_bucket_def)
  moreover have "fst ` set (set_bucket ip b bs) = fst ` set bs"
    by (metis fst_set_bucket list.set_map)
  ultimately show ?thesis
    using assms by (auto simp: buckets_inv_def) (auto simp: set_bucket_def split: if_splits)
qed

lemma allow_inv:
  assumes "buckets_inv rps burst bs" "ip \<noteq> []"
  shows "buckets_inv rps burst (snd (allow now ip rps burst bs))"
proof (cases "map_of bs ip")
  case None
  define bs1 where "bs1 = (if length bs \<ge> maxBuckets then dropOldest (evictStaleLocked now (1 * Minute) bs) else bs)"
  have "buckets_inv rps burst bs1" "length bs1 < maxBuckets" "set bs1 \<subseteq> set bs"
    using make_room [OF assms(1) bs1_def] by simp_all
  moreover have "ip \<notin> fst ` set bs" using None by (simp add: map_of_eq_None_iff)
  ultimately have "buckets_inv rps burst (bs1 @ [(ip, \<lparr>tb_tokens = of_nat burst - 1, tb_maxTokens = of_nat burst,
      tb_refillRate = rps, tb_lastRefill = now\<rparr>)])"
    using assms(2) by (auto simp: buckets_inv_def)
  then show ?thesis using None by (simp add: allow_def bs1_def Let_def)
next
  case (Some b)
  with assms(1) have "tb_maxTokens b = of_nat burst" "tb_refillRate b = rps"
    by (auto simp: buckets_inv_def dest: map_of_SomeD)
  with Some assms(1) show ?thesis
    by (simp add: allow_def Let_def) (auto intro!: set_bucket_inv)
qed

text \<open>
  A limiter never tracks more than the cap of 50000 addresses: whatever sequence of
  requests arrives, from however many addresses (none of them empty), each address keeps at
  most one bucket, no bucket holds more tokens than its burst, and the map stays within the
  cap.
\<close>

theorem limiter_memory_bounded:
  assumes "\<forall>(now, ip) \<in> set reqs. ip \<noteq> []"
  shows "buckets_inv rps burst (fold (\<lambda>(now, ip) bs. snd (allow now ip rps burst bs)) reqs [])"
proof -
  have "buckets_inv rps burst bs \<Longrightarrow>
    buckets_inv rps burst (fold (\<lambda>(now, ip) bs. snd (allow now ip rps burst bs)) reqs bs)" for bs
    using assms by (induction reqs arbitrary: bs) (auto simp: allow_inv)
  moreover have "buckets_inv rps burst []" by (simp add: buckets_inv_def)
  ultimately show ?thesis .
qed

theorem limiter_memory_bounded_witness:
  "buckets_inv 1 5 (fold (\<lambda>(now, ip) bs. snd (allow now ip 1 5 bs)) [(0, ''10.0.0.1''), (Second, ''10.0.0.2'')] [])"
  by (rule limiter_memory_bounded) simp

section \<open>Rate\<close>

text \<open>
  The requests of one address admitted along a sequence of requests, and the credit the
  address holds: its whole burst while it has no bucket, otherwise its tokens and what has
  accrued since the last refill.
\<close>

fun admitted :: "string \<Rightarrow> rat \<Rightarrow> nat \<Rightarrow> (time \<times> string) list \<Rightarrow> buckets \<Rightarrow> nat" where
  "admitted ip rps burst [] bs = 0"
| "admitted ip rps burst ((now, ip') # reqs) bs =
     (let (ok, bs') = allow now ip' rps burst bs in
      (if ok \<and> ip' = ip then 1 else 0) + admitted ip rps burst reqs bs')"

definition credit :: "string \<Rightarrow> nat \<Rightarrow> time \<Rightarrow> buckets \<Rightarrow> rat" where
  "credit ip burst now bs =
     (case map_of bs ip of None \<Rightarrow> of_nat burst
      | Some b \<Rightarrow> tb_tokens b + seconds (now - tb_lastRefill b) * tb_refillRate b)"

lemma seconds_add: "seconds (a + b) = seconds a + seconds b"
  by (simp add: seconds_def add_divide_distrib)

lemma seconds_nonneg: "0 \<le> d \<Longrightarrow> 0 \<le> seconds d"
  by (simp add: seconds_def Second_def)

lemma map_of_append_other: "map_of xs k \<noteq> None \<or> k \<noteq> ip \<Longrightarrow> map_of (xs @ [(ip, b)]) k = map_of xs k"
  by (auto simp: map_add_def split: option.splits)

text \<open>One request costs an address at most the token it is given.\<close>

lemma allow_credit:
  assumes "buckets_inv rps burst bs" "length bs < maxBuckets" "0 < burst"
  shows "(if fst (allow now ip' rps burst bs) \<and> ip' = ip then 1 else 0)
           + credit ip burst now (snd (allow now ip' rps burst bs)) \<le> credit ip burst now bs"
proof (cases "map_of bs ip'")
  case None
  then have "map_of (bs @ [(ip', b)]) ip = (if ip = ip' then Some b else map_of bs ip)" for b
    by (auto simp: map_add_def split: option.splits)
  with None assms(2) show ?thesis
    by (auto simp: allow_def Let_def credit_def seconds_def map_add_def)
next
  case (Some b)
  with assms(1) have "tb_maxTokens b = of_nat burst" "tb_refillRate b = rps"
    by (auto simp: buckets_inv_def dest: map_of_SomeD)
  with Some show ?thesis
    by (auto simp: allow_def Let_def credit_def map_of_set_bucket seconds_def)
qed

lemma allow_length: "length bs < maxBuckets \<Longrightarrow> length (snd (allow now ip rps burst bs)) \<le> Suc (length bs)"
  by (auto simp: allow_def Let_def set_bucket_def split: option.splits)

lemma credit_later:
  assumes "buckets_inv rps burst bs" "t \<le> t'" "0 \<le> rps"
  shows "credit ip burst t' bs \<le> credit ip burst t bs + seconds (t' - t) * rps"
proof (cases "map_of bs ip")
  case None
  with assms show ?thesis by (simp add: credit_def seconds_nonneg)
next
  case (Some b)
  with assms(1) have r: "tb_refillRate b = rps" by (auto simp: buckets_inv_def dest: map_of_SomeD)
  have "seconds (t' - tb_lastRefill b) = seconds (t - tb_lastRefill b) + seconds (t' - t)"
    by (simp flip: seconds_add)
  with Some r show ?thesis by (simp add: credit_def algebra_simps)
qed

text \<open>With a clock that does not run backwards no bucket is in debt.\<close>

definition no_debt :: "time \<Rightarrow> buckets \<Rightarrow> bool" where
  "no_debt now bs \<longleftrightarrow> (\<forall>(k, b) \<in> set bs. 0 \<le> tb_tokens b \<and> tb_lastRefill b \<le> now)"

lemma allow_no_debt:
  assumes "no_debt t bs" "t \<le> now" "buckets_inv rps burst bs" "length bs < maxBuckets" "0 < burst" "0 \<le> rps"
  shows "no_debt now (snd (allow now ip rps burst bs))"
proof (cases "map_of bs ip")
  case None
  with assms show ?thesis by (force simp: allow_def Let_def no_debt_def)
next
  case (Some b)
  with assms have b: "0 \<le> tb_tokens b" "tb_lastRefill b \<le> now" "0 \<le> tb_refillRate b" "0 \<le> tb_maxTokens b"
    by (fastforce simp: no_debt_def buckets_inv_def dest: map_of_SomeD)+
  have "0 \<le> seconds (now - tb_lastRefill b) * tb_refillRate b" using b by (simp add: seconds_nonneg)
  with Some b assms(1,2) show ?thesis
    by (fastforce simp: allow_def Let_def no_debt_def set_bucket_def split: if_splits)
qed

lemma credit_nonneg:
  assumes "no_debt now bs" "buckets_inv rps burst bs" "0 \<le> rps"
  shows "0 \<le> credit ip burst now bs"
proof (cases "map_of bs ip")
  case (Some b)
  with assms have "0 \<le> tb_tokens b" "tb_lastRefill b \<le> now" "tb_refillRate b = rps"
    by (fastforce simp: no_debt_def buckets_inv_def dest: map_of_SomeD)+
  with Some assms(3) show ?thesis by (simp add: credit_def seconds_nonneg)
qed (simp add: credit_def)

lemma admitted_le_credit:
  assumes "buckets_inv rps burst bs" "no_debt t0 bs" "0 \<le> rps" "0 < burst" "length bs + length reqs \<le> maxBuckets"
    and "sorted (t0 # map fst reqs)" and "\<forall>(now, ip') \<in> set reqs. ip' \<noteq> [] \<and> now \<le> t1" and "t0 \<le> t1"
  shows "of_nat (admitted ip rps burst reqs bs) \<le> credit ip burst t0 bs + seconds (t1 - t0) * rps"
  using assms
proof (induction reqs arbitrary: bs t0)
  case Nil
  then show ?case using credit_nonneg [of t0 bs rps burst ip] by (simp add: seconds_nonneg)
next
  case (Cons r reqs)
  obtain now ip' where r: "r = (now, ip')" by force
  let ?bs = "snd (allow now ip' rps burst bs)"
  have inv: "buckets_inv rps burst ?bs" using Cons.prems r by (auto intro: allow_inv)
  have len: "length bs < maxBuckets" using Cons.prems by auto
  have debt: "no_debt now ?bs" using Cons.prems r len by (intro allow_no_debt [of t0]) auto
  have "of_nat (admitted ip rps burst reqs ?bs) \<le> credit ip burst now ?bs + seconds (t1 - now) * rps"
    using Cons.prems r inv debt allow_length [OF len, of now ip' rps burst] by (intro Cons.IH) auto
  moreover have "credit ip burst now bs \<le> credit ip burst t0 bs + seconds (now - t0) * rps"
    using Cons.prems r by (intro credit_later) auto
  moreover have "seconds (t1 - t0) * rps = seconds (now - t0) * rps + seconds (t1 - now) * rps"
    by (simp flip: seconds_add distrib_right)
  ultimately show ?case
    using allow_credit [OF Cons.prems(1) len Cons.prems(4), of now ip' ip] r
    by (auto simp: case_prod_beta Let_def split: if_splits)
qed



section \<open>Spoofing\<close>

lemma last_split_on: "c \<notin> set ys \<Longrightarrow> last (split_on c (xs @ c # ys)) = ys"
proof -
  have "c \<notin> set ys \<Longrightarrow> split_on c ys = [ys]" for ys by (induction ys) auto
  moreover have "\<exists>pre. pre \<noteq> [] \<and> split_on c (xs @ c # ys) = pre @ split_on c ys" for ys
    by (induction xs) (auto simp: append_eq_Cons_conv Cons_eq_append_conv neq_Nil_conv)
  then have "last (split_on c (xs @ c # ys)) = last (split_on c ys)" for ys
    by (metis last_appendR split_on_not_Nil)
  ultimately show "c \<notin> set ys \<Longrightarrow> last (split_on c (xs @ c # ys)) = ys" by simp
qed

lemma remoteIP_headers [simp]:
  "remoteIP shp (r\<lparr>rq_XForwardedFor := xff, rq_XRealIP := xri\<rparr>) = remoteIP shp r"
  by (simp add: remoteIP_def split: option.split)


definition example_request :: http_request_info where
  "example_request = \<lparr>rq_RemoteAddr = ''198.51.100.7:443'', rq_Path = ''/auth/login'', rq_XForwardedFor = [], rq_XRealIP = []\<rparr>"


end
