(* ===== verification/Platform.thy ===== *)
theory Platform
  imports Worker_Hub
begin

text \<open>
  What every component of the control plane runs on, and the contracts they share.

  The world carries the clock, the worker hub and a script of what the database connection
  will do: each SQL statement takes some time and is done, refused (an error, no effect) or
  lost (the statement took effect and the caller saw an error). Every theorem over a world is
  therefore a theorem for every pattern of database failures. An exhausted script means the
  remaining statements succeed at once.

  Two contracts are stated as locales. A \<open>claim_guard\<close> is a conditional UPDATE that takes a
  row's guard if it is free or stale; a \<open>slot_ledger\<close> is an INSERT under a unique key. The
  automation run guard, the stack deploy claim, the automation run table and the snapshot run
  table are interpretations of them, in the theories that model those tables.
\<close>

section \<open>The world\<close>

datatype stmt_outcome = Done | Refused | Lost

record world =
  clock :: time
  db_script :: "(nat \<times> stmt_outcome) list"
  hub :: workerHub
  picks :: "bool list"

definition db_err :: go_error where "db_err = ''driver: bad connection''"

text \<open>One SQL statement: \<open>f\<close> is its effect on the tables and its result.\<close>

definition exec ::
  "('a world_scheme \<Rightarrow> 'b \<times> 'a world_scheme) \<Rightarrow> 'a world_scheme \<Rightarrow> (go_error + 'b) \<times> 'a world_scheme" where
  "exec f w =
     (case db_script w of
        [] \<Rightarrow> (Inr (fst (f w)), snd (f w))
      | (dt, out) # rest \<Rightarrow>
          (let w0 = w\<lparr>clock := clock w + int dt, db_script := rest\<rparr> in
           case out of
             Done \<Rightarrow> (Inr (fst (f w0)), snd (f w0))
           | Refused \<Rightarrow> (Inl db_err, w0)
           | Lost \<Rightarrow> (Inl db_err, snd (f w0))))"

text \<open>A SELECT: no effect on the tables.\<close>

definition query :: "('a world_scheme \<Rightarrow> 'b) \<Rightarrow> 'a world_scheme \<Rightarrow> (go_error + 'b) \<times> 'a world_scheme" where
  "query g w = exec (\<lambda>w. (g w, w)) w"

text \<open>A command to a worker through the hub.\<close>

definition SendJSONToWorker :: "int \<Rightarrow> envelope \<Rightarrow> 'a world_scheme \<Rightarrow> go_error option \<times> 'a world_scheme" where
  "SendJSONToWorker wid m w =
     (let p = (case picks w of [] \<Rightarrow> True | b # _ \<Rightarrow> b);
          (e, h) = SendToWorker p wid m (hub w)
      in (e, w\<lparr>hub := h, picks := tl (picks w)\<rparr>))"

definition worker_connected :: "int \<Rightarrow> 'a world_scheme \<Rightarrow> bool" where
  "worker_connected wid w = IsConnected wid (hub w)"

text \<open>
  Moving to another world with the same tables: what a statement does besides its effect.
\<close>

lemma exec_cases:
  obtains (applied) w0 where "w0 = w\<lparr>clock := clock w0, db_script := db_script w0\<rparr>" "clock w \<le> clock w0"
      "exec f w = (Inr (fst (f w0)), snd (f w0))"
  | (refused) w0 where "w0 = w\<lparr>clock := clock w0, db_script := db_script w0\<rparr>" "clock w \<le> clock w0"
      "exec f w = (Inl db_err, w0)"
  | (lost) w0 where "w0 = w\<lparr>clock := clock w0, db_script := db_script w0\<rparr>" "clock w \<le> clock w0"
      "exec f w = (Inl db_err, snd (f w0))"
proof (cases "db_script w")
  case Nil
  then show ?thesis by (intro applied [of w]) (simp_all add: exec_def Let_def)
next
  case (Cons p rest)
  obtain dt out where p: "p = (dt, out)" by force
  show ?thesis
  proof (cases out)
    case Done
    with Cons p show ?thesis
      by (intro applied [of "w\<lparr>clock := clock w + int dt, db_script := rest\<rparr>"]) (simp_all add: exec_def Let_def)
  next
    case Refused
    with Cons p show ?thesis
      by (intro refused [of "w\<lparr>clock := clock w + int dt, db_script := rest\<rparr>"]) (simp_all add: exec_def Let_def)
  next
    case Lost
    with Cons p show ?thesis
      by (intro lost [of "w\<lparr>clock := clock w + int dt, db_script := rest\<rparr>"]) (simp_all add: exec_def Let_def)
  qed
qed

lemma exec_Inr:
  assumes "exec f w = (Inr x, w1)"
  obtains w0 where "w0 = w\<lparr>clock := clock w0, db_script := db_script w0\<rparr>" "clock w \<le> clock w0"
    "x = fst (f w0)" "w1 = snd (f w0)"
  using assms by (cases rule: exec_cases [where w = w and f = f]) auto

text \<open>A property of the tables that a statement's effect keeps is kept by the statement.\<close>

lemma exec_keeps:
  assumes "\<And>w. P w \<Longrightarrow> P (snd (f w))" "\<And>w c s. P w \<Longrightarrow> P (w\<lparr>clock := c, db_script := s\<rparr>)" "P w"
  shows "P (snd (exec f w))"
proof -
  have *: "P w0" if "w0 = w\<lparr>clock := clock w0, db_script := db_script w0\<rparr>" for w0
    by (subst that) (rule assms(2) [OF assms(3)])
  show ?thesis
    by (rule exec_cases [where w = w and f = f]) (auto intro: assms(1) *)
qed

lemma exec_frame:
  assumes "\<And>w. g (snd (f w)) = g w" "\<And>w c s. g (w\<lparr>clock := c, db_script := s\<rparr>) = g w"
  shows "g (snd (exec f w)) = g w"
  using exec_keeps [of "\<lambda>w'. g w' = g w" f w] assms by simp

lemma query_frame:
  assumes "\<And>w c s. g (w\<lparr>clock := c, db_script := s\<rparr>) = g w"
  shows "g (snd (query q w)) = g w"
  unfolding query_def by (rule exec_frame) (simp_all add: assms)

lemma query_Inr:
  assumes "query q w = (Inr x, w')" "\<And>w c s. q (w\<lparr>clock := c, db_script := s\<rparr>) = q w"
  shows "x = q w"
proof (rule exec_cases [where w = w and f = "\<lambda>w. (q w, w)"])
  fix w0 assume "w0 = w\<lparr>clock := clock w0, db_script := db_script w0\<rparr>"
    "exec (\<lambda>w. (q w, w)) w = (Inr (fst (q w0, w0)), snd (q w0, w0))"
  with assms show ?thesis by (metis fst_conv query_def sum.inject(2) Pair_inject)
qed (use assms in \<open>simp_all add: query_def\<close>)

lemma SendJSONToWorker_frame:
  assumes "\<And>w h p. g (w\<lparr>hub := h, picks := p\<rparr>) = g w"
  shows "g (snd (SendJSONToWorker wid m w)) = g w"
  by (simp add: SendJSONToWorker_def Let_def case_prod_beta assms)

text \<open>A statement that cannot fail.\<close>

lemma exec_quiet: "db_script w = [] \<Longrightarrow> exec f w = (Inr (fst (f w)), snd (f w))"
  by (simp add: exec_def)

lemma query_quiet: "db_script w = [] \<Longrightarrow> query q w = (Inr (q w), w)"
  by (simp add: query_def exec_quiet)

text \<open>What a \<^verbatim>\<open>DATETIME\<close> column stores of an instant: whole seconds.\<close>

definition db_time :: "time \<Rightarrow> time" where "db_time t = truncate_to t Second"

lemma db_time_le: "db_time t \<le> t"
  by (simp add: db_time_def truncate_to_def)

lemma db_time_gt: "t - Second < db_time t"
  using pos_mod_bound [of Second t] by (simp add: db_time_def truncate_to_def)

lemma db_time_mono: "s \<le> t \<Longrightarrow> db_time s \<le> db_time t"
proof -
  assume "s \<le> t"
  then have "s div Second \<le> t div Second" by (intro zdiv_mono1) simp_all
  then have "Second * (s div Second) \<le> Second * (t div Second)" by (intro mult_left_mono) (simp_all add: less_imp_le)
  then show ?thesis by (simp add: db_time_def truncate_to_def minus_mod_eq_mult_div)
qed

section \<open>Claims by conditional update\<close>

text \<open>
  \<open>holder\<close> reads who holds the guard and since when; \<open>claim o cutoff now\<close> tries to take it
  for \<open>o\<close>, breaking a claim taken before \<open>cutoff\<close>; \<open>release o\<close> drops it. \<open>stamp\<close> is what the
  guard's column stores of an instant.
\<close>

definition older :: "time option \<Rightarrow> time \<Rightarrow> bool" where
  "older since cutoff \<longleftrightarrow> (case since of None \<Rightarrow> False | Some t \<Rightarrow> t < cutoff)"

locale claim_guard =
  fixes stamp :: "time \<Rightarrow> time"
    and holder :: "'s \<Rightarrow> ('o \<times> time option) option"
    and available :: "'s \<Rightarrow> bool"
    and claim :: "'o \<Rightarrow> time \<Rightarrow> time \<Rightarrow> 's \<Rightarrow> bool \<times> 's"
    and release :: "'o \<Rightarrow> 's \<Rightarrow> 's"
  assumes claim_wins:
      "fst (claim ow cutoff now s) \<longleftrightarrow>
       available s \<and> (case holder s of None \<Rightarrow> True | Some (_, since) \<Rightarrow> older since cutoff)"
    and claim_takes: "fst (claim ow cutoff now s) \<Longrightarrow> holder (snd (claim ow cutoff now s)) = Some (ow, Some (stamp now))"
    and claim_loses: "\<not> fst (claim ow cutoff now s) \<Longrightarrow> holder (snd (claim ow cutoff now s)) = holder s"
    and release_own: "holder s = Some (ow, since) \<Longrightarrow> holder (release ow s) = None"
    and release_other: "holder s = Some (ow', since) \<Longrightarrow> ow' \<noteq> ow \<Longrightarrow> holder (release ow s) = holder s"
    and release_free: "holder s = None \<Longrightarrow> holder (release ow s) = None"
begin

text \<open>A guard event: an attempt to claim, or a release.\<close>

fun guard_step :: "('o \<times> time \<times> time) + 'o \<Rightarrow> 's \<Rightarrow> 's" where
  "guard_step (Inl (ow, cutoff, now)) s = snd (claim ow cutoff now s)"
| "guard_step (Inr ow) s = release ow s"

text \<open>
  While a claim is held, nothing another owner does takes it away, as long as every claim
  attempted uses a cutoff that does not make it stale.
\<close>

lemma held_through:
  assumes "holder s = Some (ow, Some since)"
    and "\<forall>e \<in> set es. case e of Inl (_, cutoff, _) \<Rightarrow> cutoff \<le> since | Inr ow' \<Rightarrow> ow' \<noteq> ow"
  shows "holder (fold guard_step es s) = Some (ow, Some since)"
  using assms
proof (induction es arbitrary: s)
  case (Cons e es)
  have "holder (guard_step e s) = Some (ow, Some since)"
  proof (cases e)
    case (Inl p)
    obtain ow' cutoff now where p: "p = (ow', cutoff, now)" by (metis prod_cases3)
    have "\<not> fst (claim ow' cutoff now s)"
      using Cons.prems Inl p by (auto simp: claim_wins older_def)
    then show ?thesis using Inl p Cons.prems(1) by (simp add: claim_loses)
  next
    case (Inr ow')
    then show ?thesis using Cons.prems release_other [of s ow "Some since" ow'] by auto
  qed
  then show ?case using Cons by simp
qed simp

lemma mutual_exclusion:
  assumes "fst (claim ow cutoff now s)"
    and "\<forall>e \<in> set es. case e of Inl (_, cutoff', _) \<Rightarrow> cutoff' \<le> stamp now | Inr ow' \<Rightarrow> ow' \<noteq> ow"
    and "cutoff' \<le> stamp now"
  shows "\<not> fst (claim ow' cutoff' now' (fold guard_step es (snd (claim ow cutoff now s))))"
proof -
  have "holder (fold guard_step es (snd (claim ow cutoff now s))) = Some (ow, Some (stamp now))"
    using assms(1,2) by (intro held_through) (simp_all add: claim_takes)
  then show ?thesis using assms(3) by (simp add: claim_wins older_def)
qed

text \<open>A claim left behind is never permanent: once it is stale, the next attempt takes it.\<close>

lemma stale_claim_breaks:
  assumes "available s" "holder s = Some (ow, Some since)" "since < cutoff"
  shows "holder (snd (claim ow' cutoff now s)) = Some (ow', Some (stamp now))"
  using assms by (intro claim_takes) (simp add: claim_wins older_def)

end

section \<open>Claims by unique insert\<close>

lemma distinct_count_list: "distinct xs \<Longrightarrow> count_list xs x \<le> 1"
  by (induction xs) (auto simp: count_list_0_iff)

locale slot_ledger =
  fixes slots_of :: "'s \<Rightarrow> 'k set"
    and claim_slot :: "'k \<Rightarrow> 's \<Rightarrow> bool \<times> 's"
  assumes slot_wins: "fst (claim_slot k s) \<longleftrightarrow> k \<notin> slots_of s"
    and slot_taken: "slots_of (snd (claim_slot k s)) = insert k (slots_of s)"
begin

text \<open>The keys won along a sequence of attempts, in order.\<close>

fun won :: "'k list \<Rightarrow> 's \<Rightarrow> 'k list" where
  "won [] s = []"
| "won (k # ks) s = (let (w, s') = claim_slot k s in if w then k # won ks s' else won ks s')"

lemma won_fresh: "set (won ks s) = set ks - slots_of s \<and> distinct (won ks s)"
proof (induction ks arbitrary: s)
  case (Cons k ks)
  have "won (k # ks) s = (if k \<notin> slots_of s then [k] else []) @ won ks (snd (claim_slot k s))"
    by (simp add: case_prod_beta slot_wins Let_def)
  then show ?case using Cons [of "snd (claim_slot k s)"] by (auto simp: slot_taken)
qed simp

lemma won_once: "count_list (won ks s) k \<le> 1"
  by (rule distinct_count_list) (use won_fresh in blast)

end

end
