(* ===== verification/Structs.thy ===== *)
theory Structs
  imports Platform
begin

text \<open>
  The domain rows several components read: users, stacks, containers and registries
  (\<^verbatim>\<open>src/structs\<close>), and the SELECTs over them that the automations and the deployments share.
\<close>

record user =
  u_ID :: int
  u_Email :: string
  u_Name :: "string option"
  u_AuthType :: string
  u_PasswordHash :: "string option"
  u_SSOSubject :: "string option"
  u_ProfileImageURL :: "string option"
  u_Role :: string
  u_Active :: bool
  u_TokensRevokedAt :: "time option"

text \<open>A text column that holds a JSON document: NULL, empty, text that does not parse, or the document.\<close>

datatype jsonColumn = NullColumn | EmptyText | BadText | JsonText json

record stack =
  st_ID :: int
  st_Name :: string
  st_Description :: "string option"
  st_WorkerID :: "int option"
  st_Status :: string
  st_DeploymentStrategy :: string
  st_AutoDeploy :: bool
  st_EnvVars :: jsonColumn
  st_SecretEnvKeys :: jsonColumn
  st_ComposeYAML :: "string option"
  st_PlacementConstraints :: jsonColumn
  st_deploy_claimed_at :: "time option"
  st_Active :: bool

text \<open>
  The column \<^verbatim>\<open>port_mappings\<close> as the port ledger reads it, into a slice of structs with the one
  field \<^verbatim>\<open>host_port\<close>: NULL or empty, text that does not decode, or the list of host ports.
\<close>

datatype portMappings = NoMappings | UnparsableMappings | HostPorts "string list"

fun host_port_member :: "(string \<times> json) list \<Rightarrow> string \<Rightarrow> string option" where
  "host_port_member [] port = Some port"
| "host_port_member ((k, v) # kvs) port =
     (if map to_lower k \<noteq> ''host_port'' then host_port_member kvs port
      else case v of JStr p \<Rightarrow> host_port_member kvs p | JNull \<Rightarrow> host_port_member kvs port | _ \<Rightarrow> None)"

definition host_port_of :: "json \<Rightarrow> string option" where
  "host_port_of v = (case v of JObj kvs \<Rightarrow> host_port_member kvs [] | JNull \<Rightarrow> Some [] | _ \<Rightarrow> None)"

definition port_view :: "jsonColumn \<Rightarrow> portMappings" where
  "port_view c =
     (case c of
        NullColumn \<Rightarrow> NoMappings
      | EmptyText \<Rightarrow> NoMappings
      | BadText \<Rightarrow> UnparsableMappings
      | JsonText v \<Rightarrow>
          (case v of
             JNull \<Rightarrow> HostPorts []
           | JList xs \<Rightarrow>
               (if list_all (\<lambda>x. host_port_of x \<noteq> None) xs then HostPorts (map (the \<circ> host_port_of) xs) else UnparsableMappings)
           | _ \<Rightarrow> UnparsableMappings))"

record container =
  c_ID :: int
  c_StackID :: int
  c_Name :: string
  c_Image :: string
  c_Tag :: string
  c_Status :: string
  c_PortMappings :: jsonColumn
  c_EnvVars :: jsonColumn
  c_Volumes :: jsonColumn
  c_CPULimit :: "string option"
  c_MemoryLimit :: "int option"
  c_Replicas :: int
  c_RestartPolicy :: "string option"
  c_Command :: jsonColumn
  c_Entrypoint :: jsonColumn
  c_HealthCheck :: jsonColumn
  c_Ulimits :: jsonColumn
  c_HealthStatus :: string
  c_RegistryID :: "int option"
  c_DependsOn :: jsonColumn
  c_NetworkAliases :: jsonColumn
  c_Active :: bool
  c_StartedAt :: "time option"

record registry =
  reg_ID :: int
  reg_URL :: string
  reg_Username :: "string option"
  reg_Password :: "string option"

definition DEFAULT_LIMIT :: nat where "DEFAULT_LIMIT = 50"
definition MAX_LIMIT :: nat where "MAX_LIMIT = 500"

text \<open>A negative limit is a huge one once it is a \<^verbatim>\<open>uint64\<close>.\<close>

definition page :: "int \<Rightarrow> int \<Rightarrow> 'b list \<Rightarrow> 'b list" where
  "page limit offset xs =
     (let n = (if limit = 0 \<or> limit > int MAX_LIMIT then int DEFAULT_LIMIT else limit);
          rest = (if offset > 0 then drop (nat offset) xs else xs)
      in if n < 0 then rest else take (nat n) rest)"

definition ErrNotFound :: go_error where "ErrNotFound = ''resource not found''"

record tables = world +
  users :: "user list"
  stacks :: "stack list"
  containers :: "container list"
  registries :: "registry list"

text \<open>A \<^verbatim>\<open>QueryRow\<close> and its scan: \<^verbatim>\<open>sql.ErrNoRows\<close> becomes \<^verbatim>\<open>ErrNotFound\<close>.\<close>

definition one_row :: "string \<Rightarrow> ('a world_scheme \<Rightarrow> 'b option) \<Rightarrow> 'a world_scheme \<Rightarrow> (go_error + 'b) \<times> 'a world_scheme" where
  "one_row prefix q w =
     (case query q w of
        (Inl e, w1) \<Rightarrow> (Inl (prefix @ e), w1)
      | (Inr None, w1) \<Rightarrow> (Inl ErrNotFound, w1)
      | (Inr (Some x), w1) \<Rightarrow> (Inr x, w1))"

definition select_stack :: "int \<Rightarrow> stack list \<Rightarrow> stack option" where
  "select_stack i ss = List.find (\<lambda>s. st_ID s = i \<and> st_Active s) ss"

definition GetUserByID :: "int \<Rightarrow> 'a tables_scheme \<Rightarrow> (go_error + user) \<times> 'a tables_scheme" where
  "GetUserByID i w =
     (case query (\<lambda>w. List.find (\<lambda>u. u_ID u = i) (users w)) w of
        (Inl e, w1) \<Rightarrow> (Inl (''failed to scan user: '' @ e), w1)
      | (Inr None, w1) \<Rightarrow> (Inl ErrNotFound, w1)
      | (Inr (Some u), w1) \<Rightarrow> (Inr u, w1))"

definition GetStackByID :: "int \<Rightarrow> 'a tables_scheme \<Rightarrow> (go_error + stack) \<times> 'a tables_scheme" where
  "GetStackByID i w =
     (case query (\<lambda>w. select_stack i (stacks w)) w of
        (Inl e, w1) \<Rightarrow> (Inl (''failed to scan stack: '' @ e), w1)
      | (Inr None, w1) \<Rightarrow> (Inl ''failed to scan stack: sql: no rows in result set'', w1)
      | (Inr (Some s), w1) \<Rightarrow> (Inr s, w1))"

definition ListContainersByStack :: "int \<Rightarrow> 'a tables_scheme \<Rightarrow> (go_error + container list) \<times> 'a tables_scheme" where
  "ListContainersByStack i w =
     (case query (\<lambda>w. take MAX_LIMIT (sort_key c_ID (filter (\<lambda>c. c_StackID c = i \<and> c_Active c) (containers w)))) w of
        (Inl e, w1) \<Rightarrow> (Inl (''failed to execute sql query: '' @ e), w1)
      | (Inr cs, w1) \<Rightarrow> (Inr cs, w1))"

definition trim_prefix :: "string \<Rightarrow> string \<Rightarrow> string" where
  "trim_prefix s p = (if has_prefix s p then drop (length p) s else s)"

definition trim_suffix :: "string \<Rightarrow> string \<Rightarrow> string" where
  "trim_suffix s p = (if has_suffix s p then take (length s - length p) s else s)"

definition registry_auth :: "registry \<Rightarrow> (string \<times> json) list" where
  "registry_auth r =
     (case (reg_Username r, reg_Password r) of
        (Some u, Some p) \<Rightarrow> [(''auth'', JObj [(''username'', JStr u), (''password'', JStr p)])]
      | _ \<Rightarrow> [])"

definition registry_host :: "registry \<Rightarrow> string" where
  "registry_host r = trim_suffix (trim_prefix (trim_prefix (reg_URL r) ''https://'') ''http://'') ''/''"

definition recreateContainerPayload :: "container \<Rightarrow> 'a tables_scheme \<Rightarrow> (string \<times> json) list \<times> 'a tables_scheme" where
  "recreateContainerPayload c w =
     (let payload = [(''container_name'', JStr (c_Name c)), (''container_id'', JInt (c_ID c)),
                     (''image'', JStr (c_Image c)), (''tag'', JStr (c_Tag c))]
      in case c_RegistryID c of
           Some rid \<Rightarrow>
             (case query (\<lambda>w. List.find (\<lambda>r. reg_ID r = rid) (registries w)) w of
                (Inr (Some r), w1) \<Rightarrow> (payload @ registry_auth r, w1)
              | (_, w1) \<Rightarrow> (payload, w1))
         | None \<Rightarrow>
             (case query registries w of
                (Inl _, w1) \<Rightarrow> (payload, w1)
              | (Inr rs, w1) \<Rightarrow>
                  (case List.find (\<lambda>r. has_prefix (c_Image c) (registry_host r @ ''/'') \<or> c_Image c = registry_host r) rs of
                     None \<Rightarrow> (payload, w1)
                   | Some r \<Rightarrow> (payload @ registry_auth r, w1))))"

definition MsgRecreate :: string where "MsgRecreate = ''recreate''"

definition RecreateContainer :: "container \<Rightarrow> int \<Rightarrow> 'a tables_scheme \<Rightarrow> go_error option \<times> 'a tables_scheme" where
  "RecreateContainer c wid w =
     (let (payload, w1) = recreateContainerPayload c w
      in SendJSONToWorker wid (NewCommand MsgRecreate payload) w1)"

section \<open>Row updates\<close>

text \<open>An \<^verbatim>\<open>engine.Exec\<close> whose only result is an error.\<close>

definition exec_unit :: "('a world_scheme \<Rightarrow> 'a world_scheme) \<Rightarrow> 'a world_scheme \<Rightarrow> go_error option \<times> 'a world_scheme" where
  "exec_unit f w = (case exec (\<lambda>w. ((), f w)) w of (Inl e, w1) \<Rightarrow> (Some e, w1) | (Inr _, w1) \<Rightarrow> (None, w1))"

lemma snd_exec_unit: "snd (exec_unit f w) = snd (exec (\<lambda>w. ((), f w)) w)"
  by (simp add: exec_unit_def split: prod.split sum.split)

lemma exec_unit_quiet: "db_script w = [] \<Longrightarrow> exec_unit f w = (None, f w)"
  by (simp add: exec_unit_def exec_quiet)

text \<open>
  An UPDATE with a WHERE clause, and a SET list in which an absent request field leaves its
  column alone. \<open>keeps g f\<close> says an update leaves the column \<open>g\<close> alone.
\<close>

definition update_where :: "('a \<Rightarrow> bool) \<Rightarrow> ('a \<Rightarrow> 'a) \<Rightarrow> 'a list \<Rightarrow> 'a list" where
  "update_where p f xs = map (\<lambda>x. if p x then f x else x) xs"

definition set_opt :: "'b option \<Rightarrow> ('b \<Rightarrow> 'a \<Rightarrow> 'a) \<Rightarrow> 'a \<Rightarrow> 'a" where
  "set_opt v f x = (case v of None \<Rightarrow> x | Some b \<Rightarrow> f b x)"

definition keeps :: "('a \<Rightarrow> 'c) \<Rightarrow> ('a \<Rightarrow> 'a) \<Rightarrow> bool" where
  "keeps g f \<longleftrightarrow> (\<forall>x. g (f x) = g x)"

named_theorems keeps_intros \<open>rules for composed row updates\<close>

lemma keepsD: "keeps g f \<Longrightarrow> g (f x) = g x"
  by (simp add: keeps_def)

lemma keeps_comp [keeps_intros]: "keeps g f \<Longrightarrow> keeps g h \<Longrightarrow> keeps g (f \<circ> h)"
  by (simp add: keeps_def)

lemma keeps_set_opt [keeps_intros]: "(\<And>v x. g (f v x) = g x) \<Longrightarrow> keeps g (set_opt o1 f)"
  by (simp add: keeps_def set_opt_def split: option.split)

lemma keeps_if [keeps_intros]: "(\<And>x. g (f x) = g x) \<Longrightarrow> keeps g h \<Longrightarrow> keeps g (if c then f else h)"
  by (simp add: keeps_def)

lemma keeps_id [keeps_intros]: "keeps g id"
  by (simp add: keeps_def)

lemma update_where_map_key:
  "(\<And>x. p x \<Longrightarrow> k (f x) = k x) \<Longrightarrow> map k (update_where p f xs) = map k xs"
  by (simp add: update_where_def)

lemma set_update_where: "set (update_where p f xs) = (\<lambda>x. if p x then f x else x) ` set xs"
  by (simp add: update_where_def)

lemma update_where_filter_key:
  "(\<And>x. p x \<Longrightarrow> k (f x) = k x) \<Longrightarrow> (\<And>x. p x \<Longrightarrow> q (f x) = q x) \<Longrightarrow>
   map k (filter q (update_where p f xs)) = map k (filter q xs)"
  by (induction xs) (auto simp: update_where_def)

lemma find_update_where:
  "(\<And>x. q (f x) = q x) \<Longrightarrow>
   List.find q (update_where p f xs) = map_option (\<lambda>x. if p x then f x else x) (List.find q xs)"
  by (induction xs) (auto simp: update_where_def)

section \<open>Frames\<close>

text \<open>
  A component's own tables are fields that neither the clock, the database script nor the
  hub's state is part of; each of these calls leaves such a field alone.
\<close>

definition frame_field :: "('a world_scheme \<Rightarrow> 'b) \<Rightarrow> bool" where
  "frame_field g \<longleftrightarrow> (\<forall>w c s. g (w\<lparr>clock := c, db_script := s\<rparr>) = g w) \<and> (\<forall>w h p. g (w\<lparr>hub := h, picks := p\<rparr>) = g w)"

lemma frame_query: "frame_field g \<Longrightarrow> g (snd (query q w)) = g w"
  by (rule query_frame) (simp add: frame_field_def)

lemma frame_exec: "frame_field g \<Longrightarrow> (\<And>w. g (snd (f w)) = g w) \<Longrightarrow> g (snd (exec f w)) = g w"
  by (rule exec_frame) (simp_all add: frame_field_def)

lemma frame_send: "frame_field g \<Longrightarrow> g (snd (SendJSONToWorker wid m w)) = g w"
  by (rule SendJSONToWorker_frame) (simp add: frame_field_def)

lemma frame_queryD: "frame_field g \<Longrightarrow> query q w = (r, w1) \<Longrightarrow> g w1 = g w"
  using frame_query [of g q w] by simp

lemma frame_recreateContainerPayload: "frame_field g \<Longrightarrow> g (snd (recreateContainerPayload c w)) = g w"
  by (auto simp: recreateContainerPayload_def Let_def dest: frame_queryD
      split: option.split sum.split prod.split)

lemma frame_RecreateContainer: "frame_field g \<Longrightarrow> g (snd (RecreateContainer c wid w)) = g w"
  by (simp add: RecreateContainer_def Let_def case_prod_beta frame_send frame_recreateContainerPayload)

lemma frame_GetStackByID: "frame_field g \<Longrightarrow> g (snd (GetStackByID i w)) = g w"
  using frame_query [of g "\<lambda>w. select_stack i (stacks w)" w]
  by (auto simp: GetStackByID_def split: prod.splits sum.splits option.splits)

lemma frame_GetUserByID: "frame_field g \<Longrightarrow> g (snd (GetUserByID i w)) = g w"
  using frame_query [of g "\<lambda>w. List.find (\<lambda>u. u_ID u = i) (users w)" w]
  by (auto simp: GetUserByID_def split: prod.splits sum.splits option.splits)

lemma frame_ListContainersByStack: "frame_field g \<Longrightarrow> g (snd (ListContainersByStack i w)) = g w"
  unfolding ListContainersByStack_def
  using frame_query [of g "\<lambda>w. take MAX_LIMIT (sort_key c_ID (filter (\<lambda>c. c_StackID c = i \<and> c_Active c) (containers w)))" w]
  by (auto split: prod.splits sum.splits)

lemmas frame_rules = frame_query frame_exec frame_send frame_RecreateContainer frame_GetStackByID
  frame_GetUserByID frame_ListContainersByStack

end
