(* ===== verification/Automation_Store.thy ===== *)
theory Automation_Store
  imports Structs
begin

text \<open>
  The automations' data (\<^verbatim>\<open>src/structs/Automation.struct.go\<close>) and their tables with the SQL of
  \<^verbatim>\<open>src/query/automations.query.go\<close> and \<^verbatim>\<open>src/query/automation_runs.query.go\<close>, one definition
  per query. A row is the record the scan functions build; the JSON columns \<^verbatim>\<open>trigger_config\<close>,
  \<^verbatim>\<open>actions\<close> and \<^verbatim>\<open>steps\<close> hold the value the code marshals into them. The theory ends with the
  two claims the tables provide: the run guard is a \<open>claim_guard\<close> and the schedule slot a
  \<open>slot_ledger\<close>.
\<close>

section \<open>Data\<close>

definition AutomationTriggerWebhook :: string where "AutomationTriggerWebhook = ''webhook''"
definition AutomationTriggerSchedule :: string where "AutomationTriggerSchedule = ''schedule''"

record automationTrigger =
  tr_Type :: string
  tr_Cron :: string

definition AutomationActionRedeployContainer :: string where
  "AutomationActionRedeployContainer = ''redeploy_container''"
definition AutomationActionHTTPRequest :: string where
  "AutomationActionHTTPRequest = ''http_request''"

text \<open>
  A \<^verbatim>\<open>json.RawMessage\<close>: absent, text the decoder rejects with the given error, or a JSON value.
\<close>

datatype rawMessage = RawEmpty | RawMalformed go_error | Raw json

record automationAction =
  ac_Type :: string
  ac_ContinueOnError :: bool
  ac_Config :: rawMessage

record redeployContainerConfig =
  rc_StackID :: int
  rc_ContainerName :: string

record httpRequestConfig =
  hc_Method :: string
  hc_URL :: string
  hc_Headers :: "(string \<times> string) list"
  hc_Body :: string
  hc_TimeoutSeconds :: int

record automation =
  au_ID :: int
  au_Name :: string
  au_Description :: "string option"
  au_Enabled :: bool
  au_Trigger :: automationTrigger
  au_Actions :: "automationAction list"
  au_WebhookTokenHash :: "string option"
  au_WebhookLastUsedAt :: "time option"
  au_RunAsUserID :: int
  au_CreatedBy :: int
  au_RunningRunID :: "int option"
  au_RunningSince :: "time option"
  au_Active :: bool
  au_UpdatedAt :: time
  au_InsertedAt :: time

datatype automationTriggerSource = AutomationSourceWebhook | AutomationSourceSchedule | AutomationSourceManual

datatype automationRunStatus =
  AutomationRunInProgress | AutomationRunSucceeded | AutomationRunFailed | AutomationRunSkipped

datatype automationStepStatus =
  AutomationStepPending | AutomationStepSucceeded | AutomationStepFailed | AutomationStepSkipped

record automationStepResult =
  sr_Step :: int
  sr_Type :: string
  sr_Status :: automationStepStatus
  sr_ContinueOnError :: bool
  sr_Summary :: string
  sr_Error :: "string option"
  sr_StartedAt :: "time option"
  sr_DurationMs :: int

record automationRun =
  rn_ID :: int
  rn_AutomationID :: int
  rn_TriggerSource :: automationTriggerSource
  rn_TriggerDetail :: "string option"
  rn_ScheduledAt :: "time option"
  rn_Status :: automationRunStatus
  rn_SkipReason :: "string option"
  rn_FailedStep :: "int option"
  rn_Error :: "string option"
  rn_Steps :: "automationStepResult list"
  rn_RunAsUserID :: "int option"
  rn_TriggeredBy :: "int option"
  rn_StartedAt :: time
  rn_FinishedAt :: "time option"
  rn_InsertedAt :: time
  rn_UpdatedAt :: time

record createAuditLogRequest =
  al_UserID :: "int option"
  al_Action :: string
  al_ResourceType :: string
  al_ResourceID :: "int option"
  al_AutomationRunID :: "int option"
  al_Details :: "string option"
  al_IPAddress :: "string option"

text \<open>One outbound request and what the network does with the next one.\<close>

record webhookRequest =
  rq_Method :: string
  rq_URL :: string
  rq_Headers :: "(string \<times> string) list"
  rq_Body :: string
  rq_Secret :: "string option"
  rq_Timeout :: duration

datatype http_event = Reply nat int string | NoReply nat go_error | Crash nat string

record auto_world = tables +
  w_automations :: "automation list"
  w_runs :: "automationRun list"
  w_next_id :: int
  w_audit :: "createAuditLogRequest list"
  w_slots :: nat
  w_http :: "http_event list"
  w_http_sent :: "webhookRequest list"

section \<open>Queries on automations\<close>

record listAutomationsRequest =
  la_Limit :: int
  la_Offset :: int
  la_Enabled :: "bool option"

text \<open>A query's rows, or the error the caller wraps.\<close>

definition wrap_err :: "string \<Rightarrow> (go_error + 'b) \<times> 'w \<Rightarrow> (go_error + 'b) \<times> 'w" where
  "wrap_err prefix r = (case r of (Inl e, w) \<Rightarrow> (Inl (prefix @ e), w) | (Inr x, w) \<Rightarrow> (Inr x, w))"

definition ListAutomations ::
  "listAutomationsRequest \<Rightarrow> 'a auto_world_scheme \<Rightarrow> (go_error + automation list) \<times> 'a auto_world_scheme" where
  "ListAutomations req w =
     wrap_err ''failed to execute sql query: ''
       (query (\<lambda>w. page (la_Limit req) (la_Offset req) (rev (sort_key au_ID
          (filter (\<lambda>a. au_Active a \<and> (case la_Enabled req of None \<Rightarrow> True | Some b \<Rightarrow> au_Enabled a = b))
             (w_automations w))))) w)"

definition ListScheduledAutomations :: "'a auto_world_scheme \<Rightarrow> (go_error + automation list) \<times> 'a auto_world_scheme" where
  "ListScheduledAutomations w =
     (case ListAutomations \<lparr>la_Limit = int MAX_LIMIT, la_Offset = 0, la_Enabled = Some True\<rparr> w of
        (Inl e, w1) \<Rightarrow> (Inl e, w1)
      | (Inr all, w1) \<Rightarrow> (Inr (filter (\<lambda>a. tr_Type (au_Trigger a) = AutomationTriggerSchedule) all), w1))"

definition GetAutomationByID :: "int \<Rightarrow> 'a auto_world_scheme \<Rightarrow> (go_error + automation) \<times> 'a auto_world_scheme" where
  "GetAutomationByID i w =
     one_row ''failed to scan automation: '' (\<lambda>w. List.find (\<lambda>a. au_ID a = i \<and> au_Active a) (w_automations w)) w"

definition GetAutomationByWebhookHash ::
  "string \<Rightarrow> 'a auto_world_scheme \<Rightarrow> (go_error + automation) \<times> 'a auto_world_scheme" where
  "GetAutomationByWebhookHash tokenHash w =
     one_row ''failed to scan automation: ''
       (\<lambda>w. List.find (\<lambda>a. au_WebhookTokenHash a = Some tokenHash \<and> au_Active a) (w_automations w)) w"

record createAutomationRequest =
  cr_Name :: string
  cr_Description :: "string option"
  cr_Enabled :: bool
  cr_Trigger :: automationTrigger
  cr_Actions :: "automationAction list"
  cr_WebhookTokenHash :: "string option"
  cr_RunAsUserID :: int
  cr_CreatedBy :: int

definition duplicate_entry :: go_error where "duplicate_entry = ''Error 1062 (23000): Duplicate entry''"

text \<open>The INSERT fails on a token hash another row holds (\<^verbatim>\<open>idx_automations_webhook_token\<close>).\<close>

definition insert_automation ::
  "createAutomationRequest \<Rightarrow> 'a auto_world_scheme \<Rightarrow> int option \<times> 'a auto_world_scheme" where
  "insert_automation req w =
     (if cr_WebhookTokenHash req \<noteq> None
         \<and> (\<exists>a \<in> set (w_automations w). au_WebhookTokenHash a = cr_WebhookTokenHash req)
      then (None, w)
      else (Some (w_next_id w),
        w\<lparr>w_automations := w_automations w @
            [\<lparr>au_ID = w_next_id w, au_Name = cr_Name req, au_Description = cr_Description req,
              au_Enabled = cr_Enabled req, au_Trigger = cr_Trigger req, au_Actions = cr_Actions req,
              au_WebhookTokenHash = cr_WebhookTokenHash req, au_WebhookLastUsedAt = None,
              au_RunAsUserID = cr_RunAsUserID req, au_CreatedBy = cr_CreatedBy req,
              au_RunningRunID = None, au_RunningSince = None, au_Active = True,
              au_UpdatedAt = db_time (clock w), au_InsertedAt = db_time (clock w)\<rparr>],
          w_next_id := w_next_id w + 1\<rparr>))"

definition CreateAutomation ::
  "createAutomationRequest \<Rightarrow> 'a auto_world_scheme \<Rightarrow> (go_error + automation) \<times> 'a auto_world_scheme" where
  "CreateAutomation req w =
     (case exec (insert_automation req) w of
        (Inl e, w1) \<Rightarrow> (Inl (''failed to execute sql query: '' @ e), w1)
      | (Inr None, w1) \<Rightarrow> (Inl (''failed to execute sql query: '' @ duplicate_entry), w1)
      | (Inr (Some i), w1) \<Rightarrow> GetAutomationByID i w1)"

record updateAutomationRequest =
  ur_Name :: "string option"
  ur_Description :: "string option"
  ur_ClearDescription :: bool
  ur_Enabled :: "bool option"
  ur_Trigger :: "automationTrigger option"
  ur_Actions :: "automationAction list option"
  ur_WebhookTokenHash :: "string option"
  ur_ClearWebhookToken :: bool
  ur_RunAsUserID :: "int option"

text \<open>The SET list the request builds, applied to one row.\<close>

definition automation_sets :: "updateAutomationRequest \<Rightarrow> automation \<Rightarrow> automation" where
  "automation_sets req =
     set_opt (ur_RunAsUserID req) (\<lambda>v a. a\<lparr>au_RunAsUserID := v\<rparr>) \<circ>
     (if ur_ClearWebhookToken req then (\<lambda>a. a\<lparr>au_WebhookTokenHash := None\<rparr>)
      else set_opt (ur_WebhookTokenHash req) (\<lambda>v a. a\<lparr>au_WebhookTokenHash := Some v\<rparr>)) \<circ>
     set_opt (ur_Actions req) (\<lambda>v a. a\<lparr>au_Actions := v\<rparr>) \<circ>
     set_opt (ur_Trigger req) (\<lambda>v a. a\<lparr>au_Trigger := v\<rparr>) \<circ>
     set_opt (ur_Enabled req) (\<lambda>v a. a\<lparr>au_Enabled := v\<rparr>) \<circ>
     (if ur_ClearDescription req then (\<lambda>a. a\<lparr>au_Description := None\<rparr>)
      else set_opt (ur_Description req) (\<lambda>v a. a\<lparr>au_Description := Some v\<rparr>)) \<circ>
     set_opt (ur_Name req) (\<lambda>v a. a\<lparr>au_Name := v\<rparr>)"

text \<open>\<^verbatim>\<open>ON UPDATE current_timestamp()\<close> stamps a row whose columns change.\<close>

definition apply_automation_update :: "updateAutomationRequest \<Rightarrow> time \<Rightarrow> automation \<Rightarrow> automation" where
  "apply_automation_update req now a =
     (let a1 = automation_sets req a in if a1 = a then a else a1\<lparr>au_UpdatedAt := db_time now\<rparr>)"

definition automation_update_has :: "updateAutomationRequest \<Rightarrow> bool" where
  "automation_update_has req \<longleftrightarrow> ur_Name req \<noteq> None \<or> ur_ClearDescription req \<or> ur_Description req \<noteq> None
     \<or> ur_Enabled req \<noteq> None \<or> ur_Trigger req \<noteq> None \<or> ur_Actions req \<noteq> None \<or> ur_ClearWebhookToken req
     \<or> ur_WebhookTokenHash req \<noteq> None \<or> ur_RunAsUserID req \<noteq> None"

text \<open>The UPDATE fails as a whole when the new token hash is another row's.\<close>

definition update_automation ::
  "int \<Rightarrow> updateAutomationRequest \<Rightarrow> 'a auto_world_scheme \<Rightarrow> bool \<times> 'a auto_world_scheme" where
  "update_automation i req w =
     (if \<not> ur_ClearWebhookToken req \<and> ur_WebhookTokenHash req \<noteq> None
         \<and> (\<exists>a \<in> set (w_automations w). au_ID a = i \<and> au_Active a)
         \<and> (\<exists>a \<in> set (w_automations w). au_ID a \<noteq> i \<and> au_WebhookTokenHash a = ur_WebhookTokenHash req)
      then (False, w)
      else (True, w\<lparr>w_automations := update_where (\<lambda>a. au_ID a = i \<and> au_Active a)
                      (apply_automation_update req (clock w)) (w_automations w)\<rparr>))"

definition UpdateAutomation ::
  "int \<Rightarrow> updateAutomationRequest \<Rightarrow> 'a auto_world_scheme \<Rightarrow> (go_error + automation) \<times> 'a auto_world_scheme" where
  "UpdateAutomation i req w =
     (if automation_update_has req then
        (case exec (update_automation i req) w of
           (Inl e, w1) \<Rightarrow> (Inl (''failed to execute sql query: '' @ e), w1)
         | (Inr False, w1) \<Rightarrow> (Inl (''failed to execute sql query: '' @ duplicate_entry), w1)
         | (Inr True, w1) \<Rightarrow> GetAutomationByID i w1)
      else GetAutomationByID i w)"

definition DeleteAutomation :: "int \<Rightarrow> 'a auto_world_scheme \<Rightarrow> go_error option \<times> 'a auto_world_scheme" where
  "DeleteAutomation i w =
     exec_unit (\<lambda>w. w\<lparr>w_automations := update_where (\<lambda>a. au_ID a = i)
        (\<lambda>a. a\<lparr>au_Active := False, au_Enabled := False, au_WebhookTokenHash := None,
               au_UpdatedAt := db_time (clock w)\<rparr>) (w_automations w)\<rparr>) w"

definition TouchAutomationWebhook :: "int \<Rightarrow> 'a auto_world_scheme \<Rightarrow> go_error option \<times> 'a auto_world_scheme" where
  "TouchAutomationWebhook i w =
     (let now = clock w in
      exec_unit (\<lambda>w. w\<lparr>w_automations := update_where (\<lambda>a. au_ID a = i)
        (\<lambda>a. a\<lparr>au_WebhookLastUsedAt := Some (db_time now)\<rparr>) (w_automations w)\<rparr>) w)"

text \<open>
  The run guard. \<open>now\<close> is read before the statement is sent, \<open>guard_free\<close> is its WHERE clause;
  a NULL \<^verbatim>\<open>running_since\<close> is not less than anything.
\<close>

definition guard_free :: "time \<Rightarrow> automation \<Rightarrow> bool" where
  "guard_free staleBefore a \<longleftrightarrow> au_RunningRunID a = None \<or> older (au_RunningSince a) staleBefore"

definition claim_row :: "int \<Rightarrow> time \<Rightarrow> time \<Rightarrow> automation \<Rightarrow> bool \<times> automation" where
  "claim_row runID staleBefore now a =
     (if au_Active a \<and> guard_free staleBefore a
      then (True, a\<lparr>au_RunningRunID := Some runID, au_RunningSince := Some (db_time now)\<rparr>) else (False, a))"

definition release_row :: "int \<Rightarrow> automation \<Rightarrow> automation" where
  "release_row runID a =
     (if au_RunningRunID a = Some runID then a\<lparr>au_RunningRunID := None, au_RunningSince := None\<rparr> else a)"

definition ClaimAutomationRun ::
  "int \<Rightarrow> int \<Rightarrow> time \<Rightarrow> 'a auto_world_scheme \<Rightarrow> (go_error + bool) \<times> 'a auto_world_scheme" where
  "ClaimAutomationRun automationID runID staleBefore w =
     (let now = clock w in
      wrap_err ''failed to claim automation run: ''
        (exec (\<lambda>w. (\<exists>a \<in> set (w_automations w). au_ID a = automationID \<and> fst (claim_row runID staleBefore now a),
                    w\<lparr>w_automations := update_where (\<lambda>a. au_ID a = automationID)
                        (\<lambda>a. snd (claim_row runID staleBefore now a)) (w_automations w)\<rparr>)) w))"

definition ReleaseAutomationRun :: "int \<Rightarrow> int \<Rightarrow> 'a auto_world_scheme \<Rightarrow> go_error option \<times> 'a auto_world_scheme" where
  "ReleaseAutomationRun automationID runID w =
     exec_unit (\<lambda>w. w\<lparr>w_automations := update_where (\<lambda>a. au_ID a = automationID)
        (release_row runID) (w_automations w)\<rparr>) w"

section \<open>Queries on runs\<close>

record createAutomationRunRequest =
  cq_AutomationID :: int
  cq_TriggerSource :: automationTriggerSource
  cq_TriggerDetail :: "string option"
  cq_ScheduledAt :: "time option"
  cq_Status :: automationRunStatus
  cq_SkipReason :: "string option"
  cq_RunAsUserID :: "int option"
  cq_TriggeredBy :: "int option"
  cq_Steps :: "automationStepResult list"
  cq_StartedAt :: time
  cq_Finished :: bool

definition GetAutomationRunByID :: "int \<Rightarrow> 'a auto_world_scheme \<Rightarrow> (go_error + automationRun) \<times> 'a auto_world_scheme" where
  "GetAutomationRunByID i w =
     one_row ''failed to scan automation run: '' (\<lambda>w. List.find (\<lambda>r. rn_ID r = i) (w_runs w)) w"

text \<open>
  The unique key \<^verbatim>\<open>(automation_id, scheduled_at)\<close>, which ignores NULLs; a \<^verbatim>\<open>DATETIME\<close> keeps
  whole seconds.
\<close>

definition run_slots :: "automationRun list \<Rightarrow> (int \<times> time) set" where
  "run_slots rs = {(rn_AutomationID r, t) | r t. r \<in> set rs \<and> rn_ScheduledAt r = Some t}"

definition slot_taken_by :: "int \<Rightarrow> time option \<Rightarrow> automationRun list \<Rightarrow> bool" where
  "slot_taken_by aid slot rs \<longleftrightarrow>
     (case slot of None \<Rightarrow> False | Some t \<Rightarrow> list_ex (\<lambda>r. rn_AutomationID r = aid \<and> rn_ScheduledAt r = Some (db_time t)) rs)"

definition run_row :: "int \<Rightarrow> time \<Rightarrow> time option \<Rightarrow> createAutomationRunRequest \<Rightarrow> automationRun" where
  "run_row i now finishedAt req =
     \<lparr>rn_ID = i, rn_AutomationID = cq_AutomationID req, rn_TriggerSource = cq_TriggerSource req,
      rn_TriggerDetail = cq_TriggerDetail req, rn_ScheduledAt = map_option db_time (cq_ScheduledAt req),
      rn_Status = cq_Status req, rn_SkipReason = cq_SkipReason req, rn_FailedStep = None, rn_Error = None,
      rn_Steps = cq_Steps req, rn_RunAsUserID = cq_RunAsUserID req, rn_TriggeredBy = cq_TriggeredBy req,
      rn_StartedAt = db_time (cq_StartedAt req), rn_FinishedAt = finishedAt,
      rn_InsertedAt = db_time now, rn_UpdatedAt = db_time now\<rparr>"

definition insert_run ::
  "time option \<Rightarrow> createAutomationRunRequest \<Rightarrow> 'a auto_world_scheme \<Rightarrow> int option \<times> 'a auto_world_scheme" where
  "insert_run finishedAt req w =
     (if slot_taken_by (cq_AutomationID req) (cq_ScheduledAt req) (w_runs w) then (None, w)
      else (Some (w_next_id w),
            w\<lparr>w_runs := w_runs w @ [run_row (w_next_id w) (clock w) finishedAt req],
              w_next_id := w_next_id w + 1\<rparr>))"

text \<open>\<open>Inr None\<close> is the losing insert, \<^verbatim>\<open>(nil, false, nil)\<close>.\<close>

definition CreateAutomationRun ::
  "createAutomationRunRequest \<Rightarrow> 'a auto_world_scheme \<Rightarrow> (go_error + automationRun option) \<times> 'a auto_world_scheme" where
  "CreateAutomationRun req w =
     (let finishedAt = (if cq_Finished req then Some (db_time (clock w)) else None) in
      case exec (insert_run finishedAt req) w of
        (Inl e, w1) \<Rightarrow> (Inl (''failed to create automation run: '' @ e), w1)
      | (Inr None, w1) \<Rightarrow> (Inr None, w1)
      | (Inr (Some i), w1) \<Rightarrow>
          (case GetAutomationRunByID i w1 of
             (Inl e, w2) \<Rightarrow> (Inl e, w2)
           | (Inr run, w2) \<Rightarrow> (Inr (Some run), w2)))"

record updateAutomationRunRequest =
  uq_Status :: "automationRunStatus option"
  uq_SkipReason :: "string option"
  uq_FailedStep :: "int option"
  uq_Error :: "string option"
  uq_Steps :: "automationStepResult list option"
  uq_Finished :: bool

definition no_run_update :: updateAutomationRunRequest where
  "no_run_update = \<lparr>uq_Status = None, uq_SkipReason = None, uq_FailedStep = None, uq_Error = None,
                    uq_Steps = None, uq_Finished = False\<rparr>"

definition apply_run_update :: "updateAutomationRunRequest \<Rightarrow> time \<Rightarrow> automationRun \<Rightarrow> automationRun" where
  "apply_run_update req now =
     (if uq_Finished req then (\<lambda>r. r\<lparr>rn_FinishedAt := Some (db_time now)\<rparr>) else id) \<circ>
     set_opt (uq_Steps req) (\<lambda>v r. r\<lparr>rn_Steps := v\<rparr>) \<circ>
     set_opt (uq_Error req) (\<lambda>v r. r\<lparr>rn_Error := Some v\<rparr>) \<circ>
     set_opt (uq_FailedStep req) (\<lambda>v r. r\<lparr>rn_FailedStep := Some v\<rparr>) \<circ>
     set_opt (uq_SkipReason req) (\<lambda>v r. r\<lparr>rn_SkipReason := Some v\<rparr>) \<circ>
     set_opt (uq_Status req) (\<lambda>v r. r\<lparr>rn_Status := v\<rparr>)"

definition UpdateAutomationRun ::
  "int \<Rightarrow> updateAutomationRunRequest \<Rightarrow> 'a auto_world_scheme \<Rightarrow> go_error option \<times> 'a auto_world_scheme" where
  "UpdateAutomationRun i req w =
     (if req = no_run_update then (None, w)
      else let now = clock w in
        exec_unit (\<lambda>w. w\<lparr>w_runs := update_where (\<lambda>r. rn_ID r = i) (apply_run_update req now) (w_runs w)\<rparr>) w)"

definition ListAutomationRuns ::
  "int \<Rightarrow> int \<Rightarrow> int \<Rightarrow> 'a auto_world_scheme \<Rightarrow> (go_error + automationRun list) \<times> 'a auto_world_scheme" where
  "ListAutomationRuns automationID limit offset w =
     (let lim = (if limit \<le> 0 \<or> limit > int MAX_LIMIT then int DEFAULT_LIMIT else limit);
          off = (if offset > 0 then nat offset else 0)
      in wrap_err ''failed to execute sql query: ''
           (query (\<lambda>w. take (nat lim) (drop off (rev (sort_key rn_ID
              (filter (\<lambda>r. rn_AutomationID r = automationID) (w_runs w)))))) w))"

text \<open>\<^verbatim>\<open>MAX(id) ... GROUP BY automation_id\<close>.\<close>

definition is_latest :: "int list \<Rightarrow> automationRun list \<Rightarrow> automationRun \<Rightarrow> bool" where
  "is_latest aids rs r \<longleftrightarrow> rn_AutomationID r \<in> set aids
     \<and> list_all (\<lambda>r'. rn_AutomationID r' = rn_AutomationID r \<longrightarrow> rn_ID r' \<le> rn_ID r) rs"

definition ListLatestAutomationRuns ::
  "int list \<Rightarrow> 'a auto_world_scheme \<Rightarrow> (go_error + (int \<rightharpoonup> automationRun)) \<times> 'a auto_world_scheme" where
  "ListLatestAutomationRuns automationIDs w =
     (if automationIDs = [] then (Inr Map.empty, w)
      else case wrap_err ''failed to execute sql query: '' (query (\<lambda>w. filter (is_latest automationIDs (w_runs w)) (w_runs w)) w) of
             (Inl e, w1) \<Rightarrow> (Inl e, w1)
           | (Inr rs, w1) \<Rightarrow> (Inr (fold (\<lambda>r m. m(rn_AutomationID r \<mapsto> r)) rs Map.empty), w1))"

definition ListStuckAutomationRuns ::
  "time \<Rightarrow> 'a auto_world_scheme \<Rightarrow> (go_error + automationRun list) \<times> 'a auto_world_scheme" where
  "ListStuckAutomationRuns cutoff w =
     wrap_err ''failed to execute sql query: ''
       (query (\<lambda>w. take MAX_LIMIT (filter (\<lambda>r. rn_Status r = AutomationRunInProgress \<and> rn_StartedAt r < cutoff) (w_runs w))) w)"

definition CreateAuditLog :: "createAuditLogRequest \<Rightarrow> 'a auto_world_scheme \<Rightarrow> go_error option \<times> 'a auto_world_scheme" where
  "CreateAuditLog req w = exec_unit (\<lambda>w. w\<lparr>w_audit := w_audit w @ [req]\<rparr>) w"

section \<open>What the tables promise\<close>

text \<open>
  Well-formed tables: primary keys are unique and below the next id, no schedule slot is
  stored twice, and only rows that are active carry a webhook token.
\<close>

definition auto_inv :: "'a auto_world_scheme \<Rightarrow> bool" where
  "auto_inv w \<longleftrightarrow> distinct (map au_ID (w_automations w)) \<and> distinct (map rn_ID (w_runs w))
     \<and> (\<forall>a \<in> set (w_automations w). au_ID a < w_next_id w) \<and> (\<forall>r \<in> set (w_runs w). rn_ID r < w_next_id w)
     \<and> distinct (map (\<lambda>r. (rn_AutomationID r, rn_ScheduledAt r)) (filter (\<lambda>r. rn_ScheduledAt r \<noteq> None) (w_runs w)))
     \<and> (\<forall>a \<in> set (w_automations w). au_WebhookTokenHash a \<noteq> None \<longrightarrow> au_Active a)"

lemma apply_run_update_keeps:
  "keeps rn_ID (apply_run_update req now)" "keeps rn_AutomationID (apply_run_update req now)"
  "keeps rn_ScheduledAt (apply_run_update req now)"
  unfolding apply_run_update_def by (intro keeps_intros; simp)+

lemma automation_sets_keeps:
  "keeps au_ID (automation_sets req)" "keeps au_Active (automation_sets req)"
  "keeps au_RunningRunID (automation_sets req)" "keeps au_RunningSince (automation_sets req)"
  unfolding automation_sets_def by (intro keeps_intros; simp)+

lemmas apply_run_update_keys [simp] = apply_run_update_keeps [THEN keepsD]
lemmas automation_sets_keys [simp] = automation_sets_keeps [THEN keepsD]

lemma apply_automation_update_keys [simp]:
  "au_ID (apply_automation_update req now a) = au_ID a"
  "au_Active (apply_automation_update req now a) = au_Active a"
  "au_RunningRunID (apply_automation_update req now a) = au_RunningRunID a"
  "au_RunningSince (apply_automation_update req now a) = au_RunningSince a"
  by (simp_all add: apply_automation_update_def Let_def)

lemma claim_row_keys [simp]:
  "au_ID (snd (claim_row r s n a)) = au_ID a" "au_Active (snd (claim_row r s n a)) = au_Active a"
  "au_WebhookTokenHash (snd (claim_row r s n a)) = au_WebhookTokenHash a"
  by (simp_all add: claim_row_def)

lemma release_row_keys [simp]:
  "au_ID (release_row r a) = au_ID a" "au_Active (release_row r a) = au_Active a"
  "au_WebhookTokenHash (release_row r a) = au_WebhookTokenHash a"
  by (simp_all add: release_row_def)

text \<open>The guard of one row is a \<open>claim_guard\<close> owned by run ids.\<close>

definition guard_holder :: "automation \<Rightarrow> (int \<times> time option) option" where
  "guard_holder a = map_option (\<lambda>r. (r, au_RunningSince a)) (au_RunningRunID a)"

interpretation run_guard: claim_guard db_time guard_holder au_Active claim_row release_row
  by unfold_locales
    (auto simp: claim_row_def release_row_def guard_free_def guard_holder_def split: option.splits if_splits)

text \<open>
  A schedule slot is a \<open>slot_ledger\<close>, keyed by automation and minute: the INSERT under the
  unique key, whatever else the row carries.
\<close>

definition minute_slots :: "'a auto_world_scheme \<Rightarrow> (int \<times> int) set" where
  "minute_slots w = {(aid, m). (aid, m * Minute) \<in> run_slots (w_runs w)}"

definition claim_minute ::
  "time option \<Rightarrow> createAutomationRunRequest \<Rightarrow> int \<times> int \<Rightarrow> 'a auto_world_scheme \<Rightarrow> bool \<times> 'a auto_world_scheme" where
  "claim_minute finishedAt req k w =
     (case insert_run finishedAt (req\<lparr>cq_AutomationID := fst k, cq_ScheduledAt := Some (snd k * Minute)\<rparr>) w of
        (r, w') \<Rightarrow> (r \<noteq> None, w'))"

lemma Minute_nonzero [simp]: "Minute \<noteq> 0"
  using Minute_pos by linarith

lemma db_time_minute [simp]: "db_time (m * Minute) = m * Minute"
  by (simp add: db_time_def truncate_to_def Minute_def)

lemma slot_taken_by_slots: "slot_taken_by aid (Some t) rs \<longleftrightarrow> (aid, db_time t) \<in> run_slots rs"
  by (auto simp: slot_taken_by_def run_slots_def list_ex_iff)

lemma run_slots_append:
  "run_slots (rs @ [run_row i n f req]) =
   run_slots rs \<union> (case cq_ScheduledAt req of None \<Rightarrow> {} | Some t \<Rightarrow> {(cq_AutomationID req, db_time t)})"
proof -
  have "rn_AutomationID (run_row i n f req) = cq_AutomationID req"
    "rn_ScheduledAt (run_row i n f req) = map_option db_time (cq_ScheduledAt req)"
    by (simp_all add: run_row_def)
  then show ?thesis unfolding run_slots_def by (cases "cq_ScheduledAt req") force+
qed

interpretation schedule_slot: slot_ledger minute_slots "claim_minute finishedAt req" for finishedAt req
proof
  fix k :: "int \<times> int" and w :: "'a auto_world_scheme"
  show "fst (claim_minute finishedAt req k w) \<longleftrightarrow> k \<notin> minute_slots w"
    by (cases k) (simp add: claim_minute_def insert_run_def minute_slots_def slot_taken_by_slots)
  show "minute_slots (snd (claim_minute finishedAt req k w)) = insert k (minute_slots w)"
    by (cases k) (auto simp: claim_minute_def insert_run_def minute_slots_def slot_taken_by_slots
        run_slots_append)
qed

subsection \<open>Every operation keeps the tables well-formed\<close>

lemma auto_inv_io: "auto_inv w \<Longrightarrow> auto_inv (w\<lparr>clock := c, db_script := s\<rparr>)"
  by (simp add: auto_inv_def)

lemma auto_inv_query: "auto_inv w \<Longrightarrow> auto_inv (snd (query q w))"
  unfolding query_def by (rule exec_keeps) (simp_all add: auto_inv_io)

lemma auto_inv_queryD: "query q w = (r, w1) \<Longrightarrow> auto_inv w \<Longrightarrow> auto_inv w1"
  using auto_inv_query [of w q] by simp

lemma auto_inv_exec: "auto_inv w \<Longrightarrow> (\<And>w. auto_inv w \<Longrightarrow> auto_inv (snd (f w))) \<Longrightarrow> auto_inv (snd (exec f w))"
  by (rule exec_keeps) (simp_all add: auto_inv_io)

lemma auto_inv_execD: "exec f w = (r, w1) \<Longrightarrow> auto_inv w \<Longrightarrow> (\<And>w. auto_inv w \<Longrightarrow> auto_inv (snd (f w))) \<Longrightarrow> auto_inv w1"
  using auto_inv_exec [of w f] by simp

lemma auto_inv_one_row: "auto_inv w \<Longrightarrow> auto_inv (snd (one_row p q w))"
  by (auto simp: one_row_def dest: auto_inv_queryD split: prod.split sum.split option.split)

lemma snd_wrap_err [simp]: "snd (wrap_err p r) = snd r"
  by (cases r; cases "fst r") (auto simp: wrap_err_def)

lemma auto_inv_exec_unit: "auto_inv w \<Longrightarrow> (\<And>w. auto_inv w \<Longrightarrow> auto_inv (f w)) \<Longrightarrow> auto_inv (snd (exec_unit f w))"
  unfolding snd_exec_unit by (rule auto_inv_exec) simp_all

text \<open>An UPDATE of automations that keeps the key and never gives a retired row a token.\<close>

lemma auto_inv_update_automations:
  assumes "auto_inv w" "\<And>a. au_ID (f a) = au_ID a"
    "\<And>a. p a \<Longrightarrow> (au_WebhookTokenHash a \<noteq> None \<longrightarrow> au_Active a) \<Longrightarrow> au_WebhookTokenHash (f a) \<noteq> None \<Longrightarrow> au_Active (f a)"
  shows "auto_inv (w\<lparr>w_automations := update_where p f (w_automations w)\<rparr>)"
  using assms unfolding auto_inv_def by (simp add: update_where_map_key) (auto simp: set_update_where)

lemma auto_inv_update_runs:
  assumes "auto_inv w" "\<And>r. rn_ID (f r) = rn_ID r" "\<And>r. rn_AutomationID (f r) = rn_AutomationID r"
    "\<And>r. rn_ScheduledAt (f r) = rn_ScheduledAt r"
  shows "auto_inv (w\<lparr>w_runs := update_where p f (w_runs w)\<rparr>)"
  using assms unfolding auto_inv_def
  by (simp add: update_where_map_key update_where_filter_key) (auto simp: set_update_where)

lemma auto_inv_insert_run: "auto_inv w \<Longrightarrow> auto_inv (snd (insert_run fin req w))"
  by (auto simp: auto_inv_def insert_run_def run_row_def slot_taken_by_def list_ex_iff
      less_le split: option.splits)

lemma auto_inv_insert_automation: "auto_inv w \<Longrightarrow> auto_inv (snd (insert_automation req w))"
  by (auto simp: auto_inv_def insert_automation_def less_le)

text \<open>The store's operations, as the handlers, the executor and the sweeps interleave them.\<close>

datatype store_op =
    OpCreateAutomation createAutomationRequest
  | OpUpdateAutomation int updateAutomationRequest
  | OpDeleteAutomation int
  | OpTouch int
  | OpClaim int int time
  | OpRelease int int
  | OpCreateRun createAutomationRunRequest
  | OpUpdateRun int updateAutomationRunRequest

fun store_step :: "store_op \<Rightarrow> 'a auto_world_scheme \<Rightarrow> 'a auto_world_scheme" where
  "store_step (OpCreateAutomation req) w = snd (CreateAutomation req w)"
| "store_step (OpUpdateAutomation i req) w = snd (UpdateAutomation i req w)"
| "store_step (OpDeleteAutomation i) w = snd (DeleteAutomation i w)"
| "store_step (OpTouch i) w = snd (TouchAutomationWebhook i w)"
| "store_step (OpClaim i r c) w = snd (ClaimAutomationRun i r c w)"
| "store_step (OpRelease i r) w = snd (ReleaseAutomationRun i r w)"
| "store_step (OpCreateRun req) w = snd (CreateAutomationRun req w)"
| "store_step (OpUpdateRun i req) w = snd (UpdateAutomationRun i req w)"

lemma auto_inv_GetAutomationByID: "auto_inv w \<Longrightarrow> auto_inv (snd (GetAutomationByID i w))"
  by (simp add: GetAutomationByID_def auto_inv_one_row)

lemma auto_inv_CreateAutomation: "auto_inv w \<Longrightarrow> auto_inv (snd (CreateAutomation req w))"
  by (auto simp: CreateAutomation_def auto_inv_GetAutomationByID split: prod.split sum.split option.split
      dest: auto_inv_execD [OF _ _ auto_inv_insert_automation])

lemma auto_inv_update_automation: "auto_inv w \<Longrightarrow> auto_inv (snd (update_automation i req w))"
  by (auto simp: update_automation_def intro!: auto_inv_update_automations)

lemma auto_inv_UpdateAutomation: "auto_inv w \<Longrightarrow> auto_inv (snd (UpdateAutomation i req w))"
  by (auto simp: UpdateAutomation_def auto_inv_GetAutomationByID split: prod.split sum.split bool.split
      dest: auto_inv_execD [OF _ _ auto_inv_update_automation])

lemma auto_inv_DeleteAutomation: "auto_inv w \<Longrightarrow> auto_inv (snd (DeleteAutomation i w))"
  unfolding DeleteAutomation_def by (rule auto_inv_exec_unit) (auto intro: auto_inv_update_automations)

lemma auto_inv_TouchAutomationWebhook: "auto_inv w \<Longrightarrow> auto_inv (snd (TouchAutomationWebhook i w))"
  unfolding TouchAutomationWebhook_def Let_def by (rule auto_inv_exec_unit) (auto intro: auto_inv_update_automations)

lemma auto_inv_ClaimAutomationRun: "auto_inv w \<Longrightarrow> auto_inv (snd (ClaimAutomationRun i r c w))"
  unfolding ClaimAutomationRun_def Let_def snd_wrap_err
  by (rule auto_inv_exec) (auto intro!: auto_inv_update_automations)

lemma auto_inv_ReleaseAutomationRun: "auto_inv w \<Longrightarrow> auto_inv (snd (ReleaseAutomationRun i r w))"
  unfolding ReleaseAutomationRun_def by (rule auto_inv_exec_unit) (auto intro!: auto_inv_update_automations)

lemma auto_inv_CreateAutomationRun: "auto_inv w \<Longrightarrow> auto_inv (snd (CreateAutomationRun req w))"
proof -
  assume inv: "auto_inv w"
  let ?fin = "if cq_Finished req then Some (db_time (clock w)) else None"
  obtain r w1 where e: "exec (insert_run ?fin req) w = (r, w1)" by force
  have "auto_inv (snd (exec (insert_run ?fin req) w))"
    by (rule auto_inv_exec [OF inv auto_inv_insert_run])
  then have "auto_inv w1" by (simp add: e)
  then have "auto_inv (snd (GetAutomationRunByID i w1))" for i
    by (simp add: GetAutomationRunByID_def auto_inv_one_row)
  with \<open>auto_inv w1\<close> show ?thesis
    unfolding CreateAutomationRun_def Let_def e
    by (auto split: sum.split option.split prod.split) (metis snd_conv)+
qed

lemma auto_inv_UpdateAutomationRun: "auto_inv w \<Longrightarrow> auto_inv (snd (UpdateAutomationRun i req w))"
  by (auto simp: UpdateAutomationRun_def Let_def intro!: auto_inv_exec_unit auto_inv_update_runs)

lemmas auto_inv_ops = auto_inv_CreateAutomation auto_inv_UpdateAutomation auto_inv_DeleteAutomation
  auto_inv_TouchAutomationWebhook auto_inv_ClaimAutomationRun auto_inv_ReleaseAutomationRun
  auto_inv_CreateAutomationRun auto_inv_UpdateAutomationRun

lemma auto_inv_store_step: "auto_inv w \<Longrightarrow> auto_inv (store_step op1 w)"
  by (cases op1) (simp_all add: auto_inv_ops)

section \<open>Properties\<close>

text \<open>
  C24. Whatever sequence of store operations runs, and however the database fails in between,
  the tables stay well-formed: ids are unique, no schedule slot of an automation is stored
  twice, and a deleted automation holds no webhook token.
\<close>

theorem auto_inv_preserved:
  assumes "auto_inv w"
  shows "auto_inv (fold store_step ops w)"
  using assms by (induction ops arbitrary: w) (simp_all add: auto_inv_store_step)

definition empty_world :: auto_world where
  "empty_world = \<lparr>clock = 0, db_script = [], hub = \<lparr>hub_sessions = [], hub_objs = (\<lambda>_. undefined)\<rparr>, picks = [],
     users = [], stacks = [], containers = [], registries = [], w_automations = [], w_runs = [], w_next_id = 1,
     w_audit = [], w_slots = 0, w_http = [], w_http_sent = []\<rparr>"

definition a_webhook :: createAutomationRequest where
  "a_webhook = \<lparr>cr_Name = ''ci'', cr_Description = None, cr_Enabled = True,
     cr_Trigger = \<lparr>tr_Type = ''webhook'', tr_Cron = []\<rparr>, cr_Actions = [], cr_WebhookTokenHash = Some ''h'',
     cr_RunAsUserID = 7, cr_CreatedBy = 7\<rparr>"

theorem auto_inv_preserved_witness:
  "auto_inv (fold store_step [OpCreateAutomation a_webhook, OpCreateAutomation a_webhook, OpClaim 1 5 0,
      OpDeleteAutomation 1] empty_world)"
  by (rule auto_inv_preserved) (simp add: auto_inv_def empty_world_def)

text \<open>
  One automation never runs twice at once. After run \<open>r\<close> has taken the guard at \<open>now\<close>, and
  through any sequence of further claims and of releases by other runs, no claim succeeds as
  long as its staleness cutoff is not past the stamp of \<open>r\<close>'s claim.
\<close>

theorem run_guard_exclusive:
  assumes "fst (claim_row r cutoff now a)"
    and "\<forall>e \<in> set es. case e of Inl (_, cutoff', _) \<Rightarrow> cutoff' \<le> db_time now | Inr r' \<Rightarrow> r' \<noteq> r"
    and "cutoff' \<le> db_time now"
  shows "\<not> fst (claim_row r' cutoff' now' (fold run_guard.guard_step es (snd (claim_row r cutoff now a))))"
  using assms by (rule run_guard.mutual_exclusion)

definition a_row :: automation where
  "a_row = \<lparr>au_ID = 1, au_Name = ''ci'', au_Description = None, au_Enabled = True,
     au_Trigger = \<lparr>tr_Type = ''webhook'', tr_Cron = []\<rparr>, au_Actions = [], au_WebhookTokenHash = Some ''h'',
     au_WebhookLastUsedAt = None, au_RunAsUserID = 7, au_CreatedBy = 7, au_RunningRunID = None,
     au_RunningSince = None, au_Active = True, au_UpdatedAt = 0, au_InsertedAt = 0\<rparr>"

theorem run_guard_exclusive_witness:
  "\<not> fst (claim_row 6 0 (60 * Second) (fold run_guard.guard_step [Inl (4, - Second, Second), Inr 4]
        (snd (claim_row 5 (- Second) 0 a_row))))"
proof (rule run_guard_exclusive)
  show "fst (claim_row 5 (- Second) 0 a_row)" by (simp add: claim_row_def a_row_def guard_free_def)
  show "\<forall>e \<in> set [Inl (4, - Second, Second), Inr 4]. case e of Inl (_, cutoff', _) \<Rightarrow> cutoff' \<le> db_time 0 | Inr r' \<Rightarrow> r' \<noteq> (5 :: int)"
    by (simp add: db_time_def truncate_to_def Second_def)
  show "(0 :: int) \<le> db_time 0" by (simp add: db_time_def truncate_to_def)
qed

text \<open>
  A schedule slot fires once however many ticks, and however many control planes, try it:
  along any sequence of attempts the slots won are exactly the ones nobody had, each once.
\<close>

theorem schedule_slot_fires_once:
  "set (schedule_slot.won fin req ks w) = set ks - minute_slots w \<and> distinct (schedule_slot.won fin req ks w)"
  by (rule schedule_slot.won_fresh)

end
