(* ===== verification/Automation_Policy.thy ===== *)
theory Automation_Policy
  imports Automation_Store Cron
begin

text \<open>
  What an automation may do and how its steps run: \<^verbatim>\<open>src/automations/actions.go\<close> (the action
  kinds, strict config decoding, redaction, truncation), \<^verbatim>\<open>src/automations/authorize.go\<close> (the
  authorisation model) and \<^verbatim>\<open>Executor.Validate\<close> and \<^verbatim>\<open>RedactActions\<close> of
  \<^verbatim>\<open>src/automations/executor.go\<close>.

  The executor's injected functions and the parts of the standard library that parse URLs and
  hash are the fields of \<open>exec_env\<close>. JSON object keys are matched as \<^verbatim>\<open>encoding/json\<close> does,
  exactly first and then ignoring ASCII case. A context is its deadline.
\<close>

section \<open>Constants and the environment\<close>

definition RUN_BUDGET :: duration where "RUN_BUDGET = 50 * Second"
definition CLAIM_STALE_AFTER :: duration where "CLAIM_STALE_AFTER = RUN_BUDGET + Minute"
definition MAX_CONCURRENT_RUNS :: nat where "MAX_CONCURRENT_RUNS = 10"
definition MAX_ACTIONS :: nat where "MAX_ACTIONS = 20"
definition REDEPLOY_ACTION_TIMEOUT :: duration where "REDEPLOY_ACTION_TIMEOUT = 10 * Second"
definition HTTP_ACTION_DEFAULT_TIMEOUT :: duration where "HTTP_ACTION_DEFAULT_TIMEOUT = 10 * Second"
definition HTTP_ACTION_MAX_TIMEOUT :: duration where "HTTP_ACTION_MAX_TIMEOUT = 30 * Second"
definition MAX_HTTP_BODY_BYTES :: nat where "MAX_HTTP_BODY_BYTES = 65536"
definition maxSkipReasonLen :: nat where "maxSkipReasonLen = 255"
definition maxTriggerDetailLen :: nat where "maxTriggerDetailLen = 255"

record exec_env =
  ee_validateURL :: "string \<Rightarrow> go_error option"
  ee_HashToken :: "string \<Rightarrow> string"
  ee_parseURL :: "string \<Rightarrow> (string \<times> string) option"
  ee_hmac :: "string \<Rightarrow> string \<Rightarrow> string"

section \<open>Strict config decoding\<close>

fun json_kind :: "json \<Rightarrow> string" where
  "json_kind JNull = ''null''"
| "json_kind (JBool _) = ''bool''"
| "json_kind (JInt _) = ''number''"
| "json_kind (JFloat _) = ''number''"
| "json_kind (JStr _) = ''string''"
| "json_kind (JList _) = ''array''"
| "json_kind (JObj _) = ''object''"

definition type_error :: "string \<Rightarrow> string \<Rightarrow> string \<Rightarrow> go_error" where
  "type_error kind field ty = ''json: cannot unmarshal '' @ kind @ '' into Go struct field '' @ field @ '' of type '' @ ty"

text \<open>Storing a JSON value into a field: the new value, or the error and the old value.\<close>

fun store_string :: "string \<Rightarrow> json \<Rightarrow> string \<Rightarrow> go_error option \<times> string" where
  "store_string field (JStr s) old = (None, s)"
| "store_string field JNull old = (None, old)"
| "store_string field v old = (Some (type_error (json_kind v) field ''string''), old)"

fun store_int :: "string \<Rightarrow> json \<Rightarrow> int \<Rightarrow> go_error option \<times> int" where
  "store_int field (JInt n) old =
     (if min_int64 \<le> n \<and> n \<le> max_int64 then (None, n)
      else (Some (type_error (''number '' @ show_int n) field ''int''), old))"
| "store_int field (JFloat s) old = (Some (type_error (''number '' @ s) field ''int''), old)"
| "store_int field JNull old = (None, old)"
| "store_int field v old = (Some (type_error (json_kind v) field ''int''), old)"

definition first_err :: "go_error option \<Rightarrow> go_error option \<Rightarrow> go_error option" where
  "first_err a b = (case a of None \<Rightarrow> b | Some e \<Rightarrow> Some e)"

definition put_header :: "string \<Rightarrow> string \<Rightarrow> (string \<times> string) list \<Rightarrow> (string \<times> string) list" where
  "put_header k v hs = (if k \<in> fst ` set hs then map (\<lambda>(k', v'). (k', if k' = k then v else v')) hs else hs @ [(k, v)])"

fun store_headers :: "string \<Rightarrow> (string \<times> json) list \<Rightarrow> (string \<times> string) list \<Rightarrow> go_error option \<times> (string \<times> string) list" where
  "store_headers field [] hs = (None, hs)"
| "store_headers field ((k, v) # kvs) hs =
     (let (e, s) = store_string field v []; (e', hs') = store_headers field kvs (put_header k s hs)
      in (first_err e e', hs'))"

fun store_map :: "string \<Rightarrow> json \<Rightarrow> (string \<times> string) list \<Rightarrow> go_error option \<times> (string \<times> string) list" where
  "store_map field (JObj kvs) old = store_headers field kvs old"
| "store_map field JNull old = (None, [])"
| "store_map field v old = (Some (type_error (json_kind v) field ''map[string]string''), old)"

text \<open>The struct field a key names.\<close>

definition match_field :: "string list \<Rightarrow> string \<Rightarrow> string option" where
  "match_field names key =
     (if key \<in> set names then Some key
      else List.find (\<lambda>n. map to_lower n = map to_lower key) names)"

text \<open>
  Decoding an object: members in document order, the first error wins and does not stop the
  others; an unknown member is an error only when decoding strictly.
\<close>

fun decode_members ::
  "bool \<Rightarrow> string list \<Rightarrow> (string \<Rightarrow> json \<Rightarrow> 'c \<Rightarrow> go_error option \<times> 'c) \<Rightarrow> (string \<times> json) list \<Rightarrow> 'c \<Rightarrow> go_error option \<times> 'c" where
  "decode_members strict names store [] cfg = (None, cfg)"
| "decode_members strict names store ((k, v) # kvs) cfg =
     (let (e, cfg1) = (case match_field names k of
            Some n \<Rightarrow> store n v cfg
          | None \<Rightarrow> (if strict then Some (''json: unknown field '' @ go_quote k) else None, cfg));
          (e', cfg2) = decode_members strict names store kvs cfg1
      in (first_err e e', cfg2))"

fun unmarshal ::
  "bool \<Rightarrow> string \<Rightarrow> string list \<Rightarrow> (string \<Rightarrow> json \<Rightarrow> 'c \<Rightarrow> go_error option \<times> 'c) \<Rightarrow> json \<Rightarrow> 'c \<Rightarrow> go_error + 'c" where
  "unmarshal strict tyname names store (JObj kvs) zero =
     (case decode_members strict names store kvs zero of (None, cfg) \<Rightarrow> Inr cfg | (Some e, _) \<Rightarrow> Inl e)"
| "unmarshal strict tyname names store JNull zero = Inr zero"
| "unmarshal strict tyname names store v zero =
     Inl (''json: cannot unmarshal '' @ json_kind v @ '' into Go value of type '' @ tyname)"

definition decodeConfig ::
  "string \<Rightarrow> string list \<Rightarrow> (string \<Rightarrow> json \<Rightarrow> 'c \<Rightarrow> go_error option \<times> 'c) \<Rightarrow> 'c \<Rightarrow> rawMessage \<Rightarrow> go_error + 'c" where
  "decodeConfig tyname names store zero raw =
     (case raw of
        RawEmpty \<Rightarrow> Inl ''config is required''
      | Raw JNull \<Rightarrow> Inl ''config is required''
      | RawMalformed e \<Rightarrow> Inl (''invalid config: '' @ e)
      | Raw v \<Rightarrow>
          (case unmarshal True tyname names store v zero of
             Inl e \<Rightarrow> Inl (''invalid config: '' @ e)
           | Inr cfg \<Rightarrow> Inr cfg))"

definition redeploy_fields :: "string list" where
  "redeploy_fields = [''stack_id'', ''container_name'']"

definition store_redeploy :: "string \<Rightarrow> json \<Rightarrow> redeployContainerConfig \<Rightarrow> go_error option \<times> redeployContainerConfig" where
  "store_redeploy n v cfg =
     (if n = ''stack_id''
      then (let (e, x) = store_int ''RedeployContainerConfig.stack_id'' v (rc_StackID cfg) in (e, cfg\<lparr>rc_StackID := x\<rparr>))
      else (let (e, x) = store_string ''RedeployContainerConfig.container_name'' v (rc_ContainerName cfg) in (e, cfg\<lparr>rc_ContainerName := x\<rparr>)))"

definition decodeRedeploy :: "rawMessage \<Rightarrow> go_error + redeployContainerConfig" where
  "decodeRedeploy = decodeConfig ''structs.RedeployContainerConfig'' redeploy_fields store_redeploy
     \<lparr>rc_StackID = 0, rc_ContainerName = []\<rparr>"

definition http_fields :: "string list" where
  "http_fields = [''method'', ''url'', ''headers'', ''body'', ''timeout_seconds'']"

definition zero_http :: httpRequestConfig where
  "zero_http = \<lparr>hc_Method = [], hc_URL = [], hc_Headers = [], hc_Body = [], hc_TimeoutSeconds = 0\<rparr>"

definition store_http :: "string \<Rightarrow> json \<Rightarrow> httpRequestConfig \<Rightarrow> go_error option \<times> httpRequestConfig" where
  "store_http n v cfg =
     (let f = ''HTTPRequestConfig.'' @ n in
      if n = ''method'' then (let (e, x) = store_string f v (hc_Method cfg) in (e, cfg\<lparr>hc_Method := x\<rparr>))
      else if n = ''url'' then (let (e, x) = store_string f v (hc_URL cfg) in (e, cfg\<lparr>hc_URL := x\<rparr>))
      else if n = ''headers'' then (let (e, x) = store_map f v (hc_Headers cfg) in (e, cfg\<lparr>hc_Headers := x\<rparr>))
      else if n = ''body'' then (let (e, x) = store_string f v (hc_Body cfg) in (e, cfg\<lparr>hc_Body := x\<rparr>))
      else (let (e, x) = store_int f v (hc_TimeoutSeconds cfg) in (e, cfg\<lparr>hc_TimeoutSeconds := x\<rparr>)))"

definition decodeHTTP :: "rawMessage \<Rightarrow> go_error + httpRequestConfig" where
  "decodeHTTP = decodeConfig ''structs.HTTPRequestConfig'' http_fields store_http zero_http"

section \<open>Helpers of the actions\<close>

text \<open>\<^verbatim>\<open>utf8.RuneStart\<close>: not a continuation byte.\<close>

definition rune_start :: "char \<Rightarrow> bool" where
  "rune_start c \<longleftrightarrow> (let n = (of_char c :: nat) in \<not> (128 \<le> n \<and> n < 192))"

fun backOff :: "string \<Rightarrow> nat \<Rightarrow> nat" where
  "backOff s n = (if n > 0 \<and> \<not> rune_start (s ! n) then backOff s (n - 1) else n)"

declare backOff.simps [simp del]

definition truncate_str :: "string \<Rightarrow> nat \<Rightarrow> string" where
  "truncate_str s n = (if length s \<le> n then s else take (backOff s n) s @ ellipsis)"

definition describeURL :: "exec_env \<Rightarrow> string \<Rightarrow> string" where
  "describeURL env raw =
     (case ee_parseURL env raw of
        None \<Rightarrow> ''(unparseable url)''
      | Some (scheme, host) \<Rightarrow> if host = [] then ''(unparseable url)'' else scheme @ ''://'' @ host)"

definition contains_any :: "string \<Rightarrow> string \<Rightarrow> bool" where
  "contains_any s cs \<longleftrightarrow> list_ex (\<lambda>c. c \<in> set cs) s"

record stepEffect =
  se_summary :: string
  se_auditAction :: string
  se_resourceType :: string
  se_resourceID :: "int option"

text \<open>\<^verbatim>\<open>time.Duration(n) * time.Second\<close> on \<open>int64\<close>.\<close>

definition seconds_duration :: "int \<Rightarrow> duration" where
  "seconds_duration n = wrap_int64 (n * Second)"

section \<open>The action kinds\<close>

datatype actionKind = RedeployContainer | HttpRequest

definition kindFor :: "string \<Rightarrow> go_error + actionKind" where
  "kindFor t =
     (if t = AutomationActionRedeployContainer then Inr RedeployContainer
      else if t = AutomationActionHTTPRequest then Inr HttpRequest
      else Inl (''unknown action type '' @ go_quote t))"

definition roleAdmin :: string where "roleAdmin = ''admin''"
definition roleEditor :: string where "roleEditor = ''editor''"
definition roleViewer :: string where "roleViewer = ''viewer''"

fun requiredRole :: "actionKind \<Rightarrow> string" where
  "requiredRole RedeployContainer = roleEditor"
| "requiredRole HttpRequest = roleAdmin"

definition httpTimeout :: "rawMessage \<Rightarrow> duration" where
  "httpTimeout raw =
     (case decodeHTTP raw of
        Inl _ \<Rightarrow> HTTP_ACTION_DEFAULT_TIMEOUT
      | Inr cfg \<Rightarrow>
          if hc_TimeoutSeconds cfg \<le> 0 then HTTP_ACTION_DEFAULT_TIMEOUT
          else if seconds_duration (hc_TimeoutSeconds cfg) < HTTP_ACTION_MAX_TIMEOUT
          then seconds_duration (hc_TimeoutSeconds cfg) else HTTP_ACTION_MAX_TIMEOUT)"

fun kindTimeout :: "actionKind \<Rightarrow> rawMessage \<Rightarrow> duration" where
  "kindTimeout RedeployContainer raw = REDEPLOY_ACTION_TIMEOUT"
| "kindTimeout HttpRequest raw = httpTimeout raw"

definition resolveContainer ::
  "redeployContainerConfig \<Rightarrow> 'a auto_world_scheme \<Rightarrow> (go_error + stack \<times> container) \<times> 'a auto_world_scheme" where
  "resolveContainer cfg w =
     (case GetStackByID (rc_StackID cfg) w of
        (Inl _, w1) \<Rightarrow> (Inl (''stack #'' @ show_int (rc_StackID cfg) @ '' was not found (deleted?)''), w1)
      | (Inr st, w1) \<Rightarrow>
          (case ListContainersByStack (st_ID st) w1 of
             (Inl e, w2) \<Rightarrow> (Inl (''could not list the containers of stack '' @ go_quote (st_Name st) @ '': '' @ e), w2)
           | (Inr cs, w2) \<Rightarrow>
               (case List.find (\<lambda>c. c_Name c = rc_ContainerName cfg) cs of
                  Some c \<Rightarrow> (Inr (st, c), w2)
                | None \<Rightarrow> (Inl (''container '' @ go_quote (rc_ContainerName cfg) @ '' was not found in stack '' @
                             go_quote (st_Name st) @ '' (#'' @ show_int (st_ID st) @ '')''), w2))))"

definition validateRedeploy :: "rawMessage \<Rightarrow> 'a auto_world_scheme \<Rightarrow> go_error option \<times> 'a auto_world_scheme" where
  "validateRedeploy raw w =
     (case decodeRedeploy raw of
        Inl e \<Rightarrow> (Some e, w)
      | Inr cfg \<Rightarrow>
          if rc_StackID cfg \<le> 0 then (Some ''stack_id is required'', w)
          else if trim_space (rc_ContainerName cfg) = [] then (Some ''container_name is required'', w)
          else (case resolveContainer cfg w of (Inl e, w1) \<Rightarrow> (Some e, w1) | (Inr _, w1) \<Rightarrow> (None, w1)))"

definition httpRequestMethods :: "string list" where
  "httpRequestMethods = [''GET'', ''POST'', ''PUT'', ''PATCH'', ''DELETE'', ''HEAD'']"

definition header_name_chars :: string where
  "header_name_chars = [CHR '' '', CHR 0x09, CHR 0x0D, CHR 0x0A, CHR '':'']"

definition line_breaks :: string where "line_breaks = [CHR 0x0D, CHR 0x0A]"

fun validateHeaders :: "(string \<times> string) list \<Rightarrow> go_error option" where
  "validateHeaders [] = None"
| "validateHeaders ((name, value) # hs) =
     (if name = [] \<or> contains_any name header_name_chars then Some (''header name '' @ go_quote name @ '' is not valid'')
      else if contains_any value line_breaks then Some (''header '' @ go_quote name @ '' contains a line break'')
      else validateHeaders hs)"

definition validateHTTP :: "exec_env \<Rightarrow> rawMessage \<Rightarrow> go_error option" where
  "validateHTTP env raw =
     (case decodeHTTP raw of
        Inl e \<Rightarrow> Some e
      | Inr cfg \<Rightarrow>
          (let method = map to_upper (hc_Method cfg) in
           if method \<notin> set httpRequestMethods
           then Some (''method '' @ go_quote (hc_Method cfg) @ '' is not one of GET, POST, PUT, PATCH, DELETE, HEAD'')
           else case ee_validateURL env (hc_URL cfg) of
             Some e \<Rightarrow> Some (''url: '' @ e)
           | None \<Rightarrow>
               (case validateHeaders (hc_Headers cfg) of
                  Some e \<Rightarrow> Some e
                | None \<Rightarrow>
                    if length (hc_Body cfg) > MAX_HTTP_BODY_BYTES
                    then Some (''body is '' @ show_nat (length (hc_Body cfg)) @ '' bytes; the limit is '' @ show_nat MAX_HTTP_BODY_BYTES)
                    else if hc_Body cfg \<noteq> [] \<and> (method = ''GET'' \<or> method = ''HEAD'')
                    then Some (method @ '' requests cannot carry a body'')
                    else if hc_TimeoutSeconds cfg < 0 \<or> seconds_duration (hc_TimeoutSeconds cfg) > HTTP_ACTION_MAX_TIMEOUT
                    then Some (''timeout_seconds must be between 0 and '' @ show_int (HTTP_ACTION_MAX_TIMEOUT div Second))
                    else None)))"

fun kindValidate :: "actionKind \<Rightarrow> exec_env \<Rightarrow> rawMessage \<Rightarrow> 'a auto_world_scheme \<Rightarrow> go_error option \<times> 'a auto_world_scheme" where
  "kindValidate RedeployContainer env raw w = validateRedeploy raw w"
| "kindValidate HttpRequest env raw w = (validateHTTP env raw, w)"

section \<open>Outbound HTTP\<close>

text \<open>
  \<^verbatim>\<open>http.Header.Set\<close>: the name is brought to canonical form (a capital at the start and after
  each hyphen) when it is made of token bytes, and replaces an earlier value.
\<close>

definition is_token_byte :: "char \<Rightarrow> bool" where
  "is_token_byte c \<longleftrightarrow> (let n = (of_char c :: nat) in
     (48 \<le> n \<and> n \<le> 57) \<or> (65 \<le> n \<and> n \<le> 90) \<or> (97 \<le> n \<and> n \<le> 122) \<or> c \<in> set ''!#$%&*+-.^_`|~'' \<or> n = 39)"

fun canon_bytes :: "bool \<Rightarrow> string \<Rightarrow> string" where
  "canon_bytes up [] = []"
| "canon_bytes up (c # cs) = (if up then to_upper c else to_lower c) # canon_bytes (c = CHR ''-'') cs"

definition canonical_header :: "string \<Rightarrow> string" where
  "canonical_header k = (if list_all is_token_byte k then canon_bytes True k else k)"

definition header_set :: "(string \<times> string) list \<Rightarrow> string \<Rightarrow> string \<Rightarrow> (string \<times> string) list" where
  "header_set hs k v = put_header (canonical_header k) v hs"

definition DEFAULT_TIMEOUT :: duration where "DEFAULT_TIMEOUT = 10 * Second"
definition MAX_RESPONSE_SNIPPET :: nat where "MAX_RESPONSE_SNIPPET = 512"
definition USER_AGENT :: string where "USER_AGENT = ''Lattice-Webhook/1.0''"

definition ctx_deadline_exceeded :: go_error where "ctx_deadline_exceeded = ''context deadline exceeded''"

definition ctx_err :: "time \<Rightarrow> 'a world_scheme \<Rightarrow> go_error option" where
  "ctx_err deadline w = (if deadline \<le> clock w then Some ctx_deadline_exceeded else None)"

text \<open>The request as it goes out, and the network's answer within the two bounds.\<close>

definition deliver_request :: "exec_env \<Rightarrow> webhookRequest \<Rightarrow> webhookRequest" where
  "deliver_request env r =
     (let h0 = header_set [] ''User-Agent'' USER_AGENT;
          h1 = fold (\<lambda>(k, v) hs. header_set hs k v) (rq_Headers r) h0;
          h2 = (case rq_Secret r of
                  None \<Rightarrow> h1
                | Some s \<Rightarrow> if s = [] then h1
                    else header_set h1 ''X-Lattice-Signature'' (''sha256='' @ ee_hmac env s (rq_Body r)))
      in r\<lparr>rq_Method := (if rq_Method r = [] then ''POST'' else rq_Method r), rq_Headers := h2,
           rq_Timeout := (if rq_Timeout r \<le> 0 then DEFAULT_TIMEOUT else rq_Timeout r)\<rparr>)"

definition elapse :: "time \<Rightarrow> nat \<Rightarrow> 'a auto_world_scheme \<Rightarrow> 'a auto_world_scheme" where
  "elapse limit dt w = w\<lparr>clock := min (clock w + int dt) (max (clock w) limit), w_http := tl (w_http w)\<rparr>"

definition Deliver ::
  "exec_env \<Rightarrow> time \<Rightarrow> webhookRequest \<Rightarrow> 'a auto_world_scheme \<Rightarrow> (string + (go_error + int \<times> string)) \<times> 'a auto_world_scheme" where
  "Deliver env deadline r w =
     (let out = deliver_request env r;
          limit = min deadline (clock w + rq_Timeout out);
          w1 = (if clock w < limit then w\<lparr>w_http_sent := w_http_sent w @ [out]\<rparr> else w)
      in if limit \<le> clock w then (Inr (Inl ctx_deadline_exceeded), w)
         else case w_http w of
           [] \<Rightarrow> (Inr (Inl ''connection refused''), w1)
         | Reply dt status body # _ \<Rightarrow>
             if clock w + int dt < limit then (Inr (Inr (status, take MAX_RESPONSE_SNIPPET body)), elapse limit dt w1)
             else (Inr (Inl ctx_deadline_exceeded), elapse limit dt w1)
         | NoReply dt e # _ \<Rightarrow>
             if clock w + int dt < limit then (Inr (Inl e), elapse limit dt w1)
             else (Inr (Inl ctx_deadline_exceeded), elapse limit dt w1)
         | Crash dt e # _ \<Rightarrow> (Inl e, elapse limit dt w1))"

section \<open>Executing a step\<close>

text \<open>The result of an action: a panic, or the effect with the error.\<close>

type_synonym step_result = "string + (stepEffect \<times> go_error option)"

definition executeRedeploy :: "time \<Rightarrow> rawMessage \<Rightarrow> 'a auto_world_scheme \<Rightarrow> step_result \<times> 'a auto_world_scheme" where
  "executeRedeploy deadline raw w =
     (let effect = \<lparr>se_summary = [], se_auditAction = ''recreate'', se_resourceType = ''container'', se_resourceID = None\<rparr> in
      case decodeRedeploy raw of
        Inl e \<Rightarrow> (Inr (effect, Some e), w)
      | Inr cfg \<Rightarrow>
          (let effect1 = effect\<lparr>se_summary := ''recreate stack #'' @ show_int (rc_StackID cfg) @ '' / '' @ rc_ContainerName cfg\<rparr> in
           case resolveContainer cfg w of
             (Inl e, w1) \<Rightarrow> (Inr (effect1, Some e), w1)
           | (Inr (st, c), w1) \<Rightarrow>
               (let effect2 = effect1\<lparr>se_resourceID := Some (c_ID c),
                      se_summary := ''recreate '' @ st_Name st @ ''/'' @ c_Name c @ '' (container #'' @ show_int (c_ID c) @ '')''\<rparr> in
                case st_WorkerID st of
                  None \<Rightarrow> (Inr (effect2, Some (''stack '' @ go_quote (st_Name st) @ '' has no worker assigned'')), w1)
                | Some wid \<Rightarrow>
                    (case ctx_err deadline w1 of
                       Some e \<Rightarrow> (Inr (effect2, Some e), w1)
                     | None \<Rightarrow>
                         (case RecreateContainer c wid w1 of
                            (Some e, w2) \<Rightarrow>
                              (Inr (effect2, Some (''worker #'' @ show_int wid @ '' did not accept the recreate for '' @
                                 st_Name st @ ''/'' @ c_Name c @ '': '' @ e)), w2)
                          | (None, w2) \<Rightarrow>
                              (Inr (effect2\<lparr>se_summary := ''recreate dispatched: '' @ st_Name st @ ''/'' @ c_Name c @
                                 '' (container #'' @ show_int (c_ID c) @ '') to worker #'' @ show_int wid\<rparr>, None), w2))))))"

definition executeHTTP :: "exec_env \<Rightarrow> time \<Rightarrow> rawMessage \<Rightarrow> 'a auto_world_scheme \<Rightarrow> step_result \<times> 'a auto_world_scheme" where
  "executeHTTP env deadline raw w =
     (let effect = \<lparr>se_summary = [], se_auditAction = ''http_request'', se_resourceType = ''automation'', se_resourceID = None\<rparr> in
      case decodeHTTP raw of
        Inl e \<Rightarrow> (Inr (effect, Some e), w)
      | Inr cfg \<Rightarrow>
          (let method = map to_upper (hc_Method cfg);
               tgt = describeURL env (hc_URL cfg);
               h0 = [(''User-Agent'', ''Lattice-Automation/1.0'')];
               h1 = (if hc_Body cfg \<noteq> [] then put_header ''Content-Type'' ''application/json'' h0 else h0);
               headers = fold (\<lambda>(k, v) hs. put_header k v hs) (hc_Headers cfg) h1
           in case Deliver env deadline \<lparr>rq_Method = method, rq_URL = hc_URL cfg, rq_Headers = headers,
                     rq_Body = hc_Body cfg, rq_Secret = None, rq_Timeout = httpTimeout raw\<rparr> w of
                (Inl p, w1) \<Rightarrow> (Inl p, w1)
              | (Inr (Inl e), w1) \<Rightarrow>
                  (Inr (effect\<lparr>se_summary := method @ '' '' @ tgt @ '' '' @ right_arrow @ '' no response''\<rparr>,
                        Some (method @ '' '' @ tgt @ '': '' @ e)), w1)
              | (Inr (Inr (status, body)), w1) \<Rightarrow>
                  (Inr (effect\<lparr>se_summary := method @ '' '' @ tgt @ '' '' @ right_arrow @ '' '' @ show_int status\<rparr>,
                        if status < 200 \<or> status > 299
                        then Some (method @ '' '' @ tgt @ '' returned '' @ show_int status @ '': '' @ truncate_str (trim_space body) 200)
                        else None), w1)))"

fun kindExecute :: "actionKind \<Rightarrow> exec_env \<Rightarrow> time \<Rightarrow> rawMessage \<Rightarrow> 'a auto_world_scheme \<Rightarrow> step_result \<times> 'a auto_world_scheme" where
  "kindExecute RedeployContainer env deadline raw w = executeRedeploy deadline raw w"
| "kindExecute HttpRequest env deadline raw w = executeHTTP env deadline raw w"

section \<open>Redaction\<close>

definition REDACTED :: string where "REDACTED = ''[redacted]''"

definition redacted_entirely :: json where "redacted_entirely = JObj [(''redacted'', JBool True)]"

text \<open>\<^verbatim>\<open>json.Marshal\<close> of the struct: \<^verbatim>\<open>omitempty\<close> members are left out.\<close>

definition marshal_http :: "httpRequestConfig \<Rightarrow> json" where
  "marshal_http cfg = JObj ([(''method'', JStr (hc_Method cfg)), (''url'', JStr (hc_URL cfg))]
     @ (if hc_Headers cfg = [] then [] else [(''headers'', JObj (map (\<lambda>(k, v). (k, JStr v)) (hc_Headers cfg)))])
     @ (if hc_Body cfg = [] then [] else [(''body'', JStr (hc_Body cfg))])
     @ (if hc_TimeoutSeconds cfg = 0 then [] else [(''timeout_seconds'', JInt (hc_TimeoutSeconds cfg))]))"

definition redactHTTP :: "rawMessage \<Rightarrow> rawMessage" where
  "redactHTTP raw =
     (case raw of
        Raw v \<Rightarrow>
          (case unmarshal False ''structs.HTTPRequestConfig'' http_fields store_http v zero_http of
             Inl _ \<Rightarrow> Raw redacted_entirely
           | Inr cfg \<Rightarrow>
               Raw (marshal_http (cfg\<lparr>hc_Headers := map (\<lambda>(k, _). (k, REDACTED)) (hc_Headers cfg),
                                       hc_Body := (if hc_Body cfg \<noteq> [] then REDACTED else [])\<rparr>)))
      | _ \<Rightarrow> Raw redacted_entirely)"

fun kindRedact :: "actionKind \<Rightarrow> rawMessage \<Rightarrow> rawMessage" where
  "kindRedact RedeployContainer raw = raw"
| "kindRedact HttpRequest raw = redactHTTP raw"

definition RedactActions :: "automationAction list \<Rightarrow> automationAction list" where
  "RedactActions actions =
     map (\<lambda>a. case kindFor (ac_Type a) of
                Inr kind \<Rightarrow> a\<lparr>ac_Config := kindRedact kind (ac_Config a)\<rparr>
              | Inl _ \<Rightarrow> a\<lparr>ac_Config := Raw redacted_entirely\<rparr>) actions"

section \<open>The authorisation model\<close>

definition roleRank :: "string \<Rightarrow> nat" where
  "roleRank r = (if r = roleViewer then 1 else if r = roleEditor then 2 else if r = roleAdmin then 3 else 0)"

definition roleAllows :: "string \<Rightarrow> string \<Rightarrow> bool" where
  "roleAllows have need \<longleftrightarrow> roleRank have > 0 \<and> roleRank have \<ge> roleRank need"

definition triggerRole :: "string \<Rightarrow> go_error + string" where
  "triggerRole t =
     (if t = AutomationTriggerWebhook then Inr roleAdmin
      else if t = AutomationTriggerSchedule then Inr roleEditor
      else Inl (''unknown trigger type '' @ go_quote t))"

definition describeUser :: "user option \<Rightarrow> string" where
  "describeUser u = (case u of None \<Rightarrow> ''no user''
     | Some u \<Rightarrow> ''user #'' @ show_int (u_ID u) @ '' ('' @ u_Email u @ '')'')"

fun authoriseSteps :: "user \<Rightarrow> nat \<Rightarrow> automationAction list \<Rightarrow> go_error option" where
  "authoriseSteps u i [] = None"
| "authoriseSteps u i (a # as) =
     (case kindFor (ac_Type a) of
        Inl e \<Rightarrow> Some (''step '' @ show_nat (i + 1) @ '': '' @ e)
      | Inr kind \<Rightarrow>
          if \<not> roleAllows (u_Role u) (requiredRole kind)
          then Some (''step '' @ show_nat (i + 1) @ '' ('' @ ac_Type a @ '') requires the '' @ requiredRole kind @
                 '' role; '' @ describeUser (Some u) @ '' is '' @ u_Role u)
          else authoriseSteps u (i + 1) as)"

definition Authorise :: "user option \<Rightarrow> automationTrigger \<Rightarrow> automationAction list \<Rightarrow> go_error option" where
  "Authorise user trigger actions =
     (case user of
        None \<Rightarrow> Some ''there is no user to act as''
      | Some u \<Rightarrow>
          if \<not> u_Active u then Some (describeUser user @ '' is deactivated'')
          else if roleRank (u_Role u) = 0
          then Some (describeUser user @ '' has role '' @ go_quote (u_Role u) @ '', which cannot run automations'')
          else case triggerRole (tr_Type trigger) of
            Inl e \<Rightarrow> Some e
          | Inr need \<Rightarrow>
              if \<not> roleAllows (u_Role u) need
              then Some (tr_Type trigger @ '' triggers require the '' @ need @ '' role; '' @ describeUser user @ '' is '' @ u_Role u)
              else authoriseSteps u 0 actions)"

section \<open>Validation of a definition\<close>

fun validateSteps :: "exec_env \<Rightarrow> nat \<Rightarrow> automationAction list \<Rightarrow> 'a auto_world_scheme \<Rightarrow> go_error option \<times> 'a auto_world_scheme" where
  "validateSteps env i [] w = (None, w)"
| "validateSteps env i (a # as) w =
     (case kindFor (ac_Type a) of
        Inl e \<Rightarrow> (Some (''step '' @ show_nat (i + 1) @ '': '' @ e), w)
      | Inr kind \<Rightarrow>
          (case kindValidate kind env (ac_Config a) w of
             (Some e, w1) \<Rightarrow> (Some (''step '' @ show_nat (i + 1) @ '' ('' @ ac_Type a @ ''): '' @ e), w1)
           | (None, w1) \<Rightarrow> validateSteps env (i + 1) as w1))"

definition validateTrigger :: "automationTrigger \<Rightarrow> go_error option" where
  "validateTrigger trigger =
     (if tr_Type trigger = AutomationTriggerWebhook then
        (if tr_Cron trigger \<noteq> [] then Some ''a webhook trigger takes no cron expression'' else None)
      else if tr_Type trigger = AutomationTriggerSchedule then
        map_option (\<lambda>e. ''schedule trigger: '' @ e) (Cron.Validate (tr_Cron trigger))
      else Some (''unknown trigger type '' @ go_quote (tr_Type trigger)))"

definition ValidateDefinition ::
  "exec_env \<Rightarrow> automationTrigger \<Rightarrow> automationAction list \<Rightarrow> 'a auto_world_scheme \<Rightarrow> go_error option \<times> 'a auto_world_scheme" where
  "ValidateDefinition env trigger actions w =
     (case validateTrigger trigger of
        Some e \<Rightarrow> (Some e, w)
      | None \<Rightarrow>
          if actions = [] then (Some ''an automation needs at least one action'', w)
          else if length actions > MAX_ACTIONS
          then (Some (''an automation may have at most '' @ show_nat MAX_ACTIONS @ '' actions, got '' @ show_nat (length actions)), w)
          else validateSteps env 0 actions w)"

section \<open>Authorisation\<close>

lemma authoriseSteps_None:
  "authoriseSteps u i as = None \<longleftrightarrow>
   (\<forall>a \<in> set as. \<exists>k. kindFor (ac_Type a) = Inr k \<and> roleAllows (u_Role u) (requiredRole k))"
  by (induction u i as rule: authoriseSteps.induct) (auto split: sum.splits)

text \<open>
  A run is authorised exactly when its identity exists, is active, and today has a role at
  least as high as the trigger and every single step require; an unknown trigger or step type
  is never authorised.
\<close>

theorem Authorise_iff:
  "Authorise user trigger actions = None \<longleftrightarrow>
   (\<exists>u need. user = Some u \<and> u_Active u \<and> triggerRole (tr_Type trigger) = Inr need \<and> roleAllows (u_Role u) need
     \<and> (\<forall>a \<in> set actions. \<exists>k. kindFor (ac_Type a) = Inr k \<and> roleAllows (u_Role u) (requiredRole k)))"
  by (auto simp: Authorise_def authoriseSteps_None roleAllows_def split: option.splits sum.splits)

definition webhook_trigger :: automationTrigger where
  "webhook_trigger = \<lparr>tr_Type = ''webhook'', tr_Cron = []\<rparr>"

definition redeploy_action :: automationAction where
  "redeploy_action = \<lparr>ac_Type = ''redeploy_container'', ac_ContinueOnError = False,
     ac_Config = Raw (JObj [(''stack_id'', JInt 3), (''container_name'', JStr ''web'')])\<rparr>"

definition admin_user :: user where
  "admin_user = \<lparr>u_ID = 7, u_Email = ''a@b'', u_Name = None, u_AuthType = ''local'', u_PasswordHash = Some ''h'',
     u_SSOSubject = None, u_ProfileImageURL = None, u_Role = ''admin'', u_Active = True, u_TokensRevokedAt = None\<rparr>"

lemmas policy_consts = AutomationActionRedeployContainer_def AutomationActionHTTPRequest_def
  AutomationTriggerWebhook_def AutomationTriggerSchedule_def roleAdmin_def roleEditor_def roleViewer_def

theorem Authorise_iff_witness:
  "Authorise (Some admin_user) webhook_trigger [redeploy_action] = None \<and>
   Authorise (Some (admin_user\<lparr>u_Role := ''editor''\<rparr>)) webhook_trigger [redeploy_action] \<noteq> None"
  unfolding Authorise_iff
  by (simp add: admin_user_def webhook_trigger_def redeploy_action_def triggerRole_def kindFor_def
      roleAllows_def roleRank_def policy_consts)

section \<open>Truncation\<close>

lemma backOff_le: "backOff s n \<le> n"
  by (induction s n rule: backOff.induct) (subst backOff.simps, auto)

lemma backOff_start: "backOff s n = 0 \<or> rune_start (s ! backOff s n)"
proof (induction s n rule: backOff.induct)
  case (1 s n)
  then show ?case by (cases "n > 0 \<and> \<not> rune_start (s ! n)") (auto simp: backOff.simps [of s n])
qed

text \<open>The encoding of one code point: a start byte followed by continuation bytes.\<close>

definition is_rune :: "string \<Rightarrow> bool" where
  "is_rune r \<longleftrightarrow> (case r of [] \<Rightarrow> False | c # cs \<Rightarrow> rune_start c \<and> list_all (\<lambda>c. \<not> rune_start c) cs)"

lemma take_at_rune_boundary:
  assumes "\<forall>r \<in> set rs. is_rune r" "k < length (concat rs)" "k = 0 \<or> rune_start (concat rs ! k)"
  shows "\<exists>j. take k (concat rs) = concat (take j rs)"
  using assms
proof (induction rs arbitrary: k)
  case (Cons r rs)
  show ?case
  proof (cases "k < length r")
    case True
    have "is_rune r" using Cons.prems by simp
    then obtain c cs where r: "r = c # cs" "list_all (\<lambda>c. \<not> rune_start c) cs"
      by (auto simp: is_rune_def split: list.splits)
    have "k = 0"
    proof (rule ccontr)
      assume "k \<noteq> 0"
      with True Cons.prems(3) r have "rune_start (cs ! (k - 1))" "k - 1 < length cs"
        by (auto simp: nth_append nth_Cons' split: if_splits)
      with r show False by (simp add: list_all_length)
    qed
    then show ?thesis by (intro exI [of _ 0]) simp
  next
    case False
    have "k - length r = 0 \<or> rune_start (concat rs ! (k - length r))"
      using Cons.prems(3) False by (auto simp: nth_append)
    moreover have "k - length r < length (concat rs)" using Cons.prems(2) False by simp
    ultimately obtain j where "take (k - length r) (concat rs) = concat (take j rs)"
      using Cons.IH [of "k - length r"] Cons.prems(1) by auto
    with False show ?thesis by (intro exI [of _ "Suc j"]) simp
  qed
qed simp

text \<open>
  Truncation keeps UTF-8 whole: the result of shortening a sequence of code points is a
  prefix of those code points followed by the ellipsis, never part of one, and it is at most
  the limit plus the three bytes of the ellipsis, so a skip reason or trigger detail always fits
  its 255-byte column.
\<close>

theorem truncate_whole_runes:
  assumes "\<forall>r \<in> set rs. is_rune r"
  shows "(truncate_str (concat rs) n = concat rs \<or> (\<exists>j. truncate_str (concat rs) n = concat (take j rs) @ ellipsis))
     \<and> length (truncate_str (concat rs) n) \<le> n + 3"
proof (cases "length (concat rs) \<le> n")
  case False
  let ?k = "backOff (concat rs) n"
  have k: "?k \<le> n" by (rule backOff_le)
  with False have "?k < length (concat rs)" by linarith
  then obtain j where "take ?k (concat rs) = concat (take j rs)"
    using take_at_rune_boundary [OF assms] backOff_start by blast
  moreover have "truncate_str (concat rs) n = take ?k (concat rs) @ ellipsis"
    using False by (simp add: truncate_str_def)
  moreover have "length ellipsis = 3" by (simp add: ellipsis_def)
  moreover have "length (take ?k (concat rs)) \<le> n" using k by simp
  ultimately show ?thesis by auto
qed (simp add: truncate_str_def)

theorem truncate_whole_runes_witness:
  "truncate_str [CHR ''a'', CHR 0xC3, CHR 0xA9, CHR ''b''] 2 = ''a'' @ ellipsis \<and>
   length (truncate_str (concat [''a'', [CHR 0xC3, CHR 0xA9], ''b'']) 2) \<le> 2 + 3"
proof -
  have e: "truncate_str [CHR ''a'', CHR 0xC3, CHR 0xA9, CHR ''b''] 2 = ''a'' @ ellipsis" by code_simp
  have "\<forall>r \<in> set [''a'', [CHR 0xC3, CHR 0xA9], ''b'']. is_rune r" by code_simp
  from truncate_whole_runes [OF this, of 2] e show ?thesis by blast
qed

section \<open>Redaction hides header values and bodies\<close>

text \<open>What a non-admin may learn of an \<^verbatim>\<open>http_request\<close> config.\<close>

definition public_view :: "rawMessage \<Rightarrow> (string \<times> string \<times> string list \<times> bool \<times> int) option" where
  "public_view raw =
     (case raw of
        Raw v \<Rightarrow>
          (case unmarshal False ''structs.HTTPRequestConfig'' http_fields store_http v zero_http of
             Inl _ \<Rightarrow> None
           | Inr cfg \<Rightarrow> Some (hc_Method cfg, hc_URL cfg, map fst (hc_Headers cfg), hc_Body cfg \<noteq> [], hc_TimeoutSeconds cfg))
      | _ \<Rightarrow> None)"

definition same_public :: "automationAction \<Rightarrow> automationAction \<Rightarrow> bool" where
  "same_public a b \<longleftrightarrow> ac_Type a = ac_Type b \<and> ac_ContinueOnError a = ac_ContinueOnError b
     \<and> (case kindFor (ac_Type a) of
          Inl _ \<Rightarrow> True
        | Inr RedeployContainer \<Rightarrow> ac_Config a = ac_Config b
        | Inr HttpRequest \<Rightarrow> public_view (ac_Config a) = public_view (ac_Config b))"

definition redact_cfg :: "httpRequestConfig \<Rightarrow> httpRequestConfig" where
  "redact_cfg cfg = cfg\<lparr>hc_Headers := map (\<lambda>(k, _). (k, REDACTED)) (hc_Headers cfg),
                        hc_Body := (if hc_Body cfg \<noteq> [] then REDACTED else [])\<rparr>"

lemma redact_headers_names: "map (\<lambda>(k, _). (k, REDACTED)) hs = map (\<lambda>k. (k, REDACTED)) (map fst hs)"
  by (induction hs) auto

lemma redact_cfg_public:
  assumes "hc_Method c = hc_Method d" "hc_URL c = hc_URL d" "map fst (hc_Headers c) = map fst (hc_Headers d)"
    "(hc_Body c \<noteq> []) = (hc_Body d \<noteq> [])" "hc_TimeoutSeconds c = hc_TimeoutSeconds d"
  shows "redact_cfg c = redact_cfg d"
  using assms unfolding redact_cfg_def redact_headers_names by (cases c; cases d) simp

text \<open>The config a raw message leniently decodes to.\<close>

definition lenient :: "rawMessage \<Rightarrow> httpRequestConfig option" where
  "lenient raw =
     (case raw of
        Raw v \<Rightarrow>
          (case unmarshal False ''structs.HTTPRequestConfig'' http_fields store_http v zero_http of
             Inl _ \<Rightarrow> None | Inr cfg \<Rightarrow> Some cfg)
      | _ \<Rightarrow> None)"

lemma public_view_lenient:
  "public_view raw = map_option (\<lambda>cfg. (hc_Method cfg, hc_URL cfg, map fst (hc_Headers cfg), hc_Body cfg \<noteq> [], hc_TimeoutSeconds cfg)) (lenient raw)"
  by (simp add: public_view_def lenient_def split: rawMessage.split sum.split)

lemma redactHTTP_lenient:
  "redactHTTP raw = (case lenient raw of None \<Rightarrow> Raw redacted_entirely | Some cfg \<Rightarrow> Raw (marshal_http (redact_cfg cfg)))"
  by (simp add: redactHTTP_def lenient_def redact_cfg_def split: rawMessage.split sum.split)

lemma redactHTTP_public: "public_view r = public_view s \<Longrightarrow> redactHTTP r = redactHTTP s"
  by (cases "lenient r"; cases "lenient s")
    (auto simp: public_view_lenient redactHTTP_lenient intro: arg_cong [OF redact_cfg_public])

lemma RedactActions_one: "same_public a b \<Longrightarrow> RedactActions [a] = RedactActions [b]"
  by (cases a; cases b)
    (auto simp: same_public_def RedactActions_def dest: redactHTTP_public split: sum.splits actionKind.splits)

text \<open>
  What a non-admin sees of an automation's steps does not depend on any secret: two step
  lists that differ only in the header values and bodies of their HTTP steps, or in the configs
  of step types this build does not know, are redacted to the same thing.
\<close>

theorem RedactActions_hides_secrets:
  assumes "list_all2 same_public as bs"
  shows "RedactActions as = RedactActions bs"
  using assms
proof (induction rule: list_all2_induct)
  case (Cons a as b bs)
  have "RedactActions (x # xs) = RedactActions [x] @ RedactActions xs" for x xs
    by (simp add: RedactActions_def)
  with Cons RedactActions_one show ?case by metis
qed simp

definition slack_action :: "string \<Rightarrow> string \<Rightarrow> automationAction" where
  "slack_action token text =
     \<lparr>ac_Type = ''http_request'', ac_ContinueOnError = False,
      ac_Config = Raw (JObj [(''method'', JStr ''POST''), (''url'', JStr ''https://h''),
        (''headers'', JObj [(''Authorization'', JStr token)]), (''Body'', JStr text)])\<rparr>"

theorem RedactActions_hides_secrets_witness:
  "RedactActions [slack_action ''Bearer 1'' ''one''] = RedactActions [slack_action ''Bearer 2'' ''two'']"
proof (rule RedactActions_hides_secrets)
  have "same_public (slack_action ''Bearer 1'' ''one'') (slack_action ''Bearer 2'' ''two'')" by code_simp
  then show "list_all2 same_public [slack_action ''Bearer 1'' ''one''] [slack_action ''Bearer 2'' ''two'']" by simp
qed

section \<open>Timeouts\<close>

text \<open>\<^verbatim>\<open>timeout_seconds\<close> = \<open>2 ^ 55\<close>; \<open>2 ^ 55\<close> seconds in nanoseconds are a multiple of \<open>2 ^ 64\<close>.\<close>

definition overflow_config :: rawMessage where
  "overflow_config = Raw (JObj [(''method'', JStr ''GET''), (''url'', JStr ''https://h''),
     (''timeout_seconds'', JInt 36028797018963968)])"

definition overflow_cfg :: httpRequestConfig where
  "overflow_cfg = \<lparr>hc_Method = ''GET'', hc_URL = ''https://h'', hc_Headers = [], hc_Body = [],
     hc_TimeoutSeconds = 36028797018963968\<rparr>"

lemma decode_overflow: "decodeHTTP overflow_config = Inr overflow_cfg"
  by code_simp

lemma overflow_duration: "seconds_duration 36028797018963968 = 0"
  by (simp add: seconds_duration_def wrap_int64_def Second_def)

lemma overflow_timeout: "httpTimeout overflow_config = 0"
  by (simp add: httpTimeout_def decode_overflow overflow_cfg_def overflow_duration HTTP_ACTION_MAX_TIMEOUT_def)

text \<open>
  The check of \<^verbatim>\<open>timeout_seconds\<close> multiplies before it compares, so a huge value wraps
  around and passes: such a step is saved although it claims a timeout of a billion years, and
  when it runs its context has already expired, so it fails every time without sending anything.
\<close>

theorem overflowing_timeout_accepted:
  assumes "ee_validateURL env ''https://h'' = None"
  shows "validateHTTP env overflow_config = None
     \<and> (\<exists>eff e. executeHTTP env (clock w + httpTimeout overflow_config) overflow_config w = (Inr (eff, Some e), w))"
proof
  have m: "map to_upper ''GET'' = ''GET''" by code_simp
  show "validateHTTP env overflow_config = None"
    using assms by (simp add: validateHTTP_def decode_overflow overflow_cfg_def overflow_duration Let_def
        m [simplified] httpRequestMethods_def HTTP_ACTION_MAX_TIMEOUT_def Second_def)
  show "\<exists>eff e. executeHTTP env (clock w + httpTimeout overflow_config) overflow_config w = (Inr (eff, Some e), w)"
    by (simp add: executeHTTP_def decode_overflow Deliver_def overflow_timeout Let_def min_def
        deliver_request_def DEFAULT_TIMEOUT_def overflow_cfg_def)
qed

definition open_env :: exec_env where
  "open_env = \<lparr>ee_validateURL = (\<lambda>_. None), ee_HashToken = id, ee_parseURL = (\<lambda>u. Some (''https'', u)),
     ee_hmac = (\<lambda>k m. m)\<rparr>"

theorem overflowing_timeout_accepted_witness:
  "validateHTTP open_env overflow_config = None \<and>
   (\<exists>eff e. executeHTTP open_env (clock empty_world + httpTimeout overflow_config) overflow_config empty_world
      = (Inr (eff, Some e), empty_world))"
  by (rule overflowing_timeout_accepted) (simp add: open_env_def)

section \<open>Validation has no side effects\<close>

lemma frame_resolveContainer: "frame_field g \<Longrightarrow> g (snd (resolveContainer cfg w)) = g w"
  using frame_GetStackByID [of g "rc_StackID cfg" w]
  by (auto simp: resolveContainer_def frame_ListContainersByStack dest: sym
      split: prod.split sum.split option.split) (metis frame_ListContainersByStack snd_conv)+

lemma frame_kindValidate: "frame_field g \<Longrightarrow> g (snd (kindValidate k env raw w)) = g w"
proof (cases k)
  case RedeployContainer
  assume g: "frame_field g"
  with frame_resolveContainer [OF g] show ?thesis
    unfolding RedeployContainer kindValidate.simps validateRedeploy_def
    by (auto split: sum.split prod.split) (metis snd_conv)+
qed simp

lemma frame_validateSteps: "frame_field g \<Longrightarrow> g (snd (validateSteps env i as w)) = g w"
proof (induction as arbitrary: i w)
  case (Cons a as)
  show ?case
    using frame_kindValidate [OF Cons(2), of _ env "ac_Config a" w] Cons(1) [OF Cons(2)]
    by (auto split: sum.split prod.split option.split) (metis snd_conv)+
qed simp

lemma validateSteps_kinds: "fst (validateSteps env i as w) = None \<Longrightarrow> \<forall>a \<in> set as. \<exists>k. kindFor (ac_Type a) = Inr k"
  by (induction env i as w rule: validateSteps.induct) (auto split: sum.splits prod.splits option.splits)

end
