(* ===== verification/Automation_Executor.thy ===== *)
theory Automation_Executor
  imports Automation_Policy
begin

text \<open>
  The executor of \<^verbatim>\<open>src/automations/executor.go\<close>: one firing creates a run row, takes a runner
  slot and the automation's run guard, authorises, runs the steps in order and records the
  outcome. Go's deferred calls are written out on every path, the recovered panic included: the
  guard and the slot are released before a crashed run is recorded. \<open>FireScheduled\<close> runs its
  goroutine to completion.
\<close>

section \<open>Firings and outcomes\<close>

record firing =
  f_Source :: automationTriggerSource
  f_Detail :: string
  f_ScheduledAt :: "time option"
  f_TriggeredBy :: "int option"
  f_IP :: "string option"

datatype run_result = ResultSucceeded | ResultFailed | ResultSkipped | ResultDisabled

record outcome =
  oc_Result :: run_result
  oc_Run :: automationRun

definition ErrInvalidToken :: go_error where "ErrInvalidToken = ''invalid automation token''"
definition ErrSlotClaimed :: go_error where "ErrSlotClaimed = ''schedule slot already claimed''"

fun show_source :: "automationTriggerSource \<Rightarrow> string" where
  "show_source AutomationSourceWebhook = ''webhook''"
| "show_source AutomationSourceSchedule = ''schedule''"
| "show_source AutomationSourceManual = ''manual''"

section \<open>Steps\<close>

definition pendingStep :: "nat \<Rightarrow> automationAction \<Rightarrow> automationStepResult" where
  "pendingStep i a =
     \<lparr>sr_Step = int i + 1, sr_Type = ac_Type a, sr_Status = AutomationStepPending,
      sr_ContinueOnError = ac_ContinueOnError a, sr_Summary = ''pending'', sr_Error = None,
      sr_StartedAt = None, sr_DurationMs = 0\<rparr>"

definition pendingSteps :: "automationAction list \<Rightarrow> automationStepResult list" where
  "pendingSteps actions = map (\<lambda>(i, a). pendingStep i a) (enumerate 0 actions)"

definition skip_pending :: "string \<Rightarrow> automationStepResult \<Rightarrow> automationStepResult" where
  "skip_pending reason s =
     (if sr_Status s = AutomationStepPending
      then s\<lparr>sr_Status := AutomationStepSkipped, sr_Summary := reason\<rparr> else s)"

text \<open>\<open>start\<close> is the source's \<^verbatim>\<open>from\<close>.\<close>

definition finishPending :: "automationStepResult list \<Rightarrow> nat \<Rightarrow> string \<Rightarrow> automationStepResult list" where
  "finishPending steps start reason = take start steps @ map (skip_pending reason) (drop start steps)"

section \<open>Recording\<close>

definition createRun :: "automation \<Rightarrow> firing \<Rightarrow> 'a auto_world_scheme \<Rightarrow> (go_error + automationRun option) \<times> 'a auto_world_scheme" where
  "createRun a f w =
     CreateAutomationRun
       \<lparr>cq_AutomationID = au_ID a, cq_TriggerSource = f_Source f,
        cq_TriggerDetail = (if f_Detail f \<noteq> [] then Some (truncate_str (f_Detail f) (maxTriggerDetailLen - 3)) else None),
        cq_ScheduledAt = f_ScheduledAt f, cq_Status = AutomationRunInProgress, cq_SkipReason = None,
        cq_RunAsUserID = Some (au_RunAsUserID a), cq_TriggeredBy = f_TriggeredBy f,
        cq_Steps = pendingSteps (au_Actions a), cq_StartedAt = clock w, cq_Finished = False\<rparr> w"

definition persistSteps :: "int \<Rightarrow> automationStepResult list \<Rightarrow> 'a auto_world_scheme \<Rightarrow> 'a auto_world_scheme" where
  "persistSteps runID steps w = snd (UpdateAutomationRun runID (no_run_update\<lparr>uq_Steps := Some steps\<rparr>) w)"

definition finish ::
  "automationRun \<Rightarrow> automationStepResult list \<Rightarrow> int option \<Rightarrow> string option \<Rightarrow> 'a auto_world_scheme \<Rightarrow> outcome \<times> 'a auto_world_scheme" where
  "finish run steps failedStep runErr w =
     (let failed = (failedStep \<noteq> None \<or> runErr \<noteq> None);
          status = (if failed then AutomationRunFailed else AutomationRunSucceeded);
          w1 = snd (UpdateAutomationRun (rn_ID run)
                 \<lparr>uq_Status = Some status, uq_SkipReason = None, uq_FailedStep = failedStep, uq_Error = runErr,
                  uq_Steps = Some steps, uq_Finished = True\<rparr> w)
      in (\<lparr>oc_Result = (if failed then ResultFailed else ResultSucceeded),
           oc_Run = run\<lparr>rn_Status := status, rn_FailedStep := failedStep, rn_Error := runErr, rn_Steps := steps,
                        rn_FinishedAt := Some (clock w1)\<rparr>\<rparr>, w1))"

definition skip_run :: "automationRun \<Rightarrow> string \<Rightarrow> run_result \<Rightarrow> 'a auto_world_scheme \<Rightarrow> outcome \<times> 'a auto_world_scheme" where
  "skip_run run reason0 result w =
     (let reason = truncate_str reason0 (maxSkipReasonLen - 3);
          steps = finishPending (rn_Steps run) 0 (''not run: '' @ reason);
          w1 = snd (UpdateAutomationRun (rn_ID run)
                 \<lparr>uq_Status = Some AutomationRunSkipped, uq_SkipReason = Some reason, uq_FailedStep = None, uq_Error = None,
                  uq_Steps = Some steps, uq_Finished = True\<rparr> w)
      in (\<lparr>oc_Result = result,
           oc_Run = run\<lparr>rn_Status := AutomationRunSkipped, rn_SkipReason := Some reason, rn_Steps := steps,
                        rn_FinishedAt := Some (clock w1)\<rparr>\<rparr>, w1))"

definition overlapReason :: "int \<Rightarrow> 'a auto_world_scheme \<Rightarrow> string \<times> 'a auto_world_scheme" where
  "overlapReason automationID w =
     (case GetAutomationByID automationID w of
        (Inl _, w1) \<Rightarrow> (''automation is already running; this firing was skipped, not queued'', w1)
      | (Inr a, w1) \<Rightarrow>
          (case au_RunningRunID a of
             None \<Rightarrow> (''automation is already running; this firing was skipped, not queued'', w1)
           | Some r \<Rightarrow>
               (''automation is already running (run #'' @ show_int r @
                (case au_RunningSince a of None \<Rightarrow> [] | Some t \<Rightarrow> '' since '' @ rfc3339 t) @
                ''); this firing was skipped, not queued'', w1)))"

definition slotsBusyReason :: string where
  "slotsBusyReason = ''all '' @ show_nat MAX_CONCURRENT_RUNS @ '' automation runner slots are busy; this firing was skipped, not queued''"

definition tryAcquireSlot :: "'a auto_world_scheme \<Rightarrow> bool \<times> 'a auto_world_scheme" where
  "tryAcquireSlot w = (if w_slots w < MAX_CONCURRENT_RUNS then (True, w\<lparr>w_slots := w_slots w + 1\<rparr>) else (False, w))"

definition releaseSlot :: "'a auto_world_scheme \<Rightarrow> 'a auto_world_scheme" where
  "releaseSlot w = w\<lparr>w_slots := w_slots w - 1\<rparr>"

section \<open>One step\<close>

fun auditAttempts :: "nat \<Rightarrow> createAuditLogRequest \<Rightarrow> go_error option \<Rightarrow> 'a auto_world_scheme \<Rightarrow> go_error option \<times> 'a auto_world_scheme" where
  "auditAttempts 0 req e w = (e, w)"
| "auditAttempts (Suc n) req e w =
     (case CreateAuditLog req w of
        (None, w1) \<Rightarrow> (None, w1)
      | (Some e1, w1) \<Rightarrow> auditAttempts n req (Some e1) (w1\<lparr>clock := clock w1 + 200 * 1000000\<rparr>))"

definition audit_details :: "automation \<Rightarrow> automationRun \<Rightarrow> user \<Rightarrow> nat \<Rightarrow> stepEffect \<Rightarrow> go_error option \<Rightarrow> string" where
  "audit_details a run u i effect stepErr =
     ''via automation #'' @ show_int (au_ID a) @ '' '' @ go_quote (au_Name a) @ '', run #'' @ show_int (rn_ID run) @
     '' step '' @ show_nat (i + 1) @ ''/'' @ show_nat (length (au_Actions a)) @ '' ('' @ show_source (rn_TriggerSource run) @
     '', acting as '' @ describeUser (Some u) @ ''): '' @ se_summary effect @ '' '' @ em_dash @ '' '' @
     (case stepErr of None \<Rightarrow> ''succeeded'' | Some e \<Rightarrow> ''failed: '' @ e)"

definition audit ::
  "automation \<Rightarrow> automationRun \<Rightarrow> user \<Rightarrow> firing \<Rightarrow> nat \<Rightarrow> stepEffect \<Rightarrow> go_error option \<Rightarrow> 'a auto_world_scheme \<Rightarrow> go_error option \<times> 'a auto_world_scheme" where
  "audit a run u f i effect stepErr w =
     (if se_auditAction effect = [] then (None, w)
      else auditAttempts 3
        \<lparr>al_UserID = Some (u_ID u), al_Action = se_auditAction effect, al_ResourceType = se_resourceType effect,
         al_ResourceID = (if se_resourceID effect = None \<and> se_resourceType effect = ''automation'' then Some (au_ID a)
                          else se_resourceID effect),
         al_AutomationRunID = Some (rn_ID run), al_Details = Some (audit_details a run u i effect stepErr),
         al_IPAddress = f_IP f\<rparr> None w)"

definition no_effect :: stepEffect where
  "no_effect = \<lparr>se_summary = [], se_auditAction = [], se_resourceType = [], se_resourceID = None\<rparr>"

definition dispatchStep :: "exec_env \<Rightarrow> time \<Rightarrow> automationAction \<Rightarrow> 'a auto_world_scheme \<Rightarrow> step_result \<times> 'a auto_world_scheme" where
  "dispatchStep env deadline action w =
     (case kindFor (ac_Type action) of
        Inl e \<Rightarrow> (Inr (no_effect, Some e), w)
      | Inr kind \<Rightarrow> kindExecute kind env (min deadline (clock w + kindTimeout kind (ac_Config action))) (ac_Config action) w)"

definition step_record :: "nat \<Rightarrow> automationAction \<Rightarrow> time \<Rightarrow> time \<Rightarrow> stepEffect \<Rightarrow> go_error option \<Rightarrow> automationStepResult" where
  "step_record i action started ended effect err =
     \<lparr>sr_Step = int i + 1, sr_Type = ac_Type action,
      sr_Status = (case err of None \<Rightarrow> AutomationStepSucceeded | Some _ \<Rightarrow> AutomationStepFailed),
      sr_ContinueOnError = ac_ContinueOnError action,
      sr_Summary = (case err of None \<Rightarrow> se_summary effect | Some e \<Rightarrow> if se_summary effect = [] then e else se_summary effect),
      sr_Error = err, sr_StartedAt = Some started, sr_DurationMs = (ended - started) div 1000000\<rparr>"

text \<open>\<open>Inl\<close> is a panic.\<close>

definition runStep ::
  "exec_env \<Rightarrow> time \<Rightarrow> automation \<Rightarrow> automationRun \<Rightarrow> user \<Rightarrow> firing \<Rightarrow> nat \<Rightarrow> automationAction \<Rightarrow> 'a auto_world_scheme
   \<Rightarrow> (string + automationStepResult) \<times> 'a auto_world_scheme" where
  "runStep env deadline a run u f i action w =
     (let started = clock w in
      case dispatchStep env deadline action w of
        (Inl p, w1) \<Rightarrow> (Inl p, w1)
      | (Inr (effect, err), w1) \<Rightarrow>
          (let result = step_record i action started (clock w1) effect err in
           case audit a run u f i effect err w1 of
             (None, w2) \<Rightarrow> (Inr result, w2)
           | (Some _, w2) \<Rightarrow> (Inr (result\<lparr>sr_Summary := sr_Summary result @ '' (audit record could not be written)''\<rparr>), w2)))"

section \<open>One run\<close>

definition index_panic :: "nat \<Rightarrow> nat \<Rightarrow> string" where
  "index_panic i n = ''runtime error: index out of range ['' @ show_nat i @ ''] with length '' @ show_nat n"

definition budget_msg :: "nat \<Rightarrow> string" where
  "budget_msg i = ''the run budget of 50s was exhausted before step '' @ show_nat (i + 1) @ '' could start''"

definition first_failed :: "int option \<Rightarrow> nat \<Rightarrow> int option" where
  "first_failed failedStep i = (case failedStep of None \<Rightarrow> Some (int i + 1) | Some k \<Rightarrow> Some k)"

text \<open>The loop over the steps from \<open>i\<close> on: a panic, or the steps, the first failed one and the run's error.\<close>

fun runSteps ::
  "exec_env \<Rightarrow> time \<Rightarrow> automation \<Rightarrow> automationRun \<Rightarrow> user \<Rightarrow> firing \<Rightarrow> nat \<Rightarrow> automationAction list \<Rightarrow>
   automationStepResult list \<Rightarrow> int option \<Rightarrow> 'a auto_world_scheme
   \<Rightarrow> (string + (automationStepResult list \<times> int option \<times> string option)) \<times> 'a auto_world_scheme" where
  "runSteps env deadline a run u f i [] steps failedStep w = (Inr (steps, failedStep, None), w)"
| "runSteps env deadline a run u f i (action # rest) steps failedStep w =
     (if ctx_err deadline w \<noteq> None then
        (if i < length steps then
           (let s = (steps ! i)\<lparr>sr_Status := AutomationStepFailed, sr_Summary := ''not started: run budget exhausted'',
                                sr_Error := Some (budget_msg i)\<rparr>
            in (Inr (finishPending (steps[i := s]) (i + 1) ''not run: the run budget was exhausted'',
                     first_failed failedStep i, Some (budget_msg i)), w))
         else (Inl (index_panic i (length steps)), w))
      else case runStep env deadline a run u f i action w of
             (Inl p, w1) \<Rightarrow> (Inl p, w1)
           | (Inr s, w1) \<Rightarrow>
               if \<not> i < length steps then (Inl (index_panic i (length steps)), w1)
               else let steps1 = steps[i := s]; w2 = persistSteps (rn_ID run) steps1 w1 in
                 if sr_Status s = AutomationStepFailed then
                   (if \<not> ac_ContinueOnError action
                    then (Inr (finishPending steps1 (i + 1) (''not run: step '' @ show_nat (i + 1) @ '' failed''),
                               first_failed failedStep i, None), w2)
                    else runSteps env deadline a run u f (i + 1) rest steps1 (first_failed failedStep i) w2)
                 else runSteps env deadline a run u f (i + 1) rest steps1 failedStep w2)"

definition authErr :: "automation \<Rightarrow> 'a auto_world_scheme \<Rightarrow> (go_error + user) \<times> 'a auto_world_scheme" where
  "authErr a w =
     (case GetUserByID (au_RunAsUserID a) w of
        (Inl _, w1) \<Rightarrow> (Inl (''run-as user #'' @ show_int (au_RunAsUserID a) @ '' no longer exists''), w1)
      | (Inr u, w1) \<Rightarrow>
          (case Authorise (Some u) (au_Trigger a) (au_Actions a) of
             Some e \<Rightarrow> (Inl e, w1)
           | None \<Rightarrow> (Inr u, w1)))"

text \<open>What runs while the guard is held, up to the deferred release.\<close>

definition executeHeld ::
  "exec_env \<Rightarrow> automation \<Rightarrow> automationRun \<Rightarrow> firing \<Rightarrow> 'a auto_world_scheme \<Rightarrow> (string + outcome) \<times> 'a auto_world_scheme" where
  "executeHeld env a run f w =
     (case authErr a w of
        (Inl e, w1) \<Rightarrow>
          (let (out, w2) = finish run (finishPending (rn_Steps run) 0 ''not run: the run was not authorised'') None
                             (Some (''refused before any step ran: '' @ e)) w1 in (Inr out, w2))
      | (Inr u, w1) \<Rightarrow>
          (case runSteps env (clock w1 + RUN_BUDGET) a run u f 0 (au_Actions a) (rn_Steps run) None w1 of
             (Inl p, w2) \<Rightarrow> (Inl p, w2)
           | (Inr (steps, failedStep, runErr), w2) \<Rightarrow>
               (let (out, w3) = finish run steps failedStep runErr w2 in (Inr out, w3))))"

definition execute :: "exec_env \<Rightarrow> automation \<Rightarrow> automationRun \<Rightarrow> firing \<Rightarrow> 'a auto_world_scheme \<Rightarrow> outcome \<times> 'a auto_world_scheme" where
  "execute env a run f w =
     (case ClaimAutomationRun (au_ID a) (rn_ID run) (clock w - CLAIM_STALE_AFTER) w of
        (Inl e, w1) \<Rightarrow>
          finish run (finishPending (rn_Steps run) 0 ''not run: the run guard could not be taken'') None
            (Some (''could not take the automation's run guard: '' @ e)) w1
      | (Inr False, w1) \<Rightarrow>
          (let (reason, w2) = overlapReason (au_ID a) w1 in skip_run run reason ResultSkipped w2)
      | (Inr True, w1) \<Rightarrow>
          (case executeHeld env a run f w1 of
             (Inr out, w2) \<Rightarrow> (out, snd (ReleaseAutomationRun (au_ID a) (rn_ID run) w2))
           | (Inl p, w2) \<Rightarrow>
               finish run (finishPending (rn_Steps run) 0 ''not run: the run crashed'') None
                 (Some (''internal error: '' @ p)) (snd (ReleaseAutomationRun (au_ID a) (rn_ID run) w2))))"

section \<open>Firing\<close>

definition disabledReason :: string where "disabledReason = ''automation is disabled; nothing was run''"

definition fire :: "exec_env \<Rightarrow> automation \<Rightarrow> firing \<Rightarrow> 'a auto_world_scheme \<Rightarrow> (go_error + outcome) \<times> 'a auto_world_scheme" where
  "fire env a f w =
     (case createRun a f w of
        (Inl e, w1) \<Rightarrow> (Inl e, w1)
      | (Inr None, w1) \<Rightarrow> (Inl ErrSlotClaimed, w1)
      | (Inr (Some run), w1) \<Rightarrow>
          if \<not> au_Enabled a then (let (out, w2) = skip_run run disabledReason ResultDisabled w1 in (Inr out, w2))
          else case tryAcquireSlot w1 of
                 (False, w2) \<Rightarrow> (let (out, w3) = skip_run run slotsBusyReason ResultSkipped w2 in (Inr out, w3))
               | (True, w2) \<Rightarrow> (let (out, w3) = execute env a run f w2 in (Inr out, releaseSlot w3)))"

definition FireWebhook :: "exec_env \<Rightarrow> string \<Rightarrow> firing \<Rightarrow> 'a auto_world_scheme \<Rightarrow> (go_error + outcome) \<times> 'a auto_world_scheme" where
  "FireWebhook env token f w =
     (if token = [] then (Inl ErrInvalidToken, w)
      else case GetAutomationByWebhookHash (ee_HashToken env token) w of
             (Inl e, w1) \<Rightarrow> (Inl (if e = ErrNotFound then ErrInvalidToken else e), w1)
           | (Inr a, w1) \<Rightarrow>
               if tr_Type (au_Trigger a) \<noteq> AutomationTriggerWebhook then (Inl ErrInvalidToken, w1)
               else fire env a f (snd (TouchAutomationWebhook (au_ID a) w1)))"

definition FireScheduled :: "exec_env \<Rightarrow> automation \<Rightarrow> time \<Rightarrow> string \<Rightarrow> 'a auto_world_scheme \<Rightarrow> 'a auto_world_scheme" where
  "FireScheduled env a slot skipReason w =
     (let f = \<lparr>f_Source = AutomationSourceSchedule, f_Detail = ''slot '' @ rfc3339 slot, f_ScheduledAt = Some slot,
               f_TriggeredBy = None, f_IP = None\<rparr> in
      case createRun a f w of
        (Inl _, w1) \<Rightarrow> w1
      | (Inr None, w1) \<Rightarrow> w1
      | (Inr (Some run), w1) \<Rightarrow>
          if skipReason \<noteq> [] then snd (skip_run run skipReason ResultSkipped w1)
          else if \<not> au_Enabled a then snd (skip_run run disabledReason ResultDisabled w1)
          else case tryAcquireSlot w1 of
                 (False, w2) \<Rightarrow> snd (skip_run run slotsBusyReason ResultSkipped w2)
               | (True, w2) \<Rightarrow> releaseSlot (snd (execute env a run f w2)))"

definition stuckRunMsg :: string where
  "stuckRunMsg = ''no outcome was recorded within 1m50s of starting '' @ em_dash @
     '' the control plane most likely restarted mid-run. Steps marked succeeded did take effect; the audit log has the rest''"

definition failStuckRun :: "automationRun \<Rightarrow> 'a auto_world_scheme \<Rightarrow> 'a auto_world_scheme" where
  "failStuckRun run w =
     (let w1 = snd (UpdateAutomationRun (rn_ID run)
                \<lparr>uq_Status = Some AutomationRunFailed, uq_SkipReason = None, uq_FailedStep = None, uq_Error = Some stuckRunMsg,
                 uq_Steps = Some (finishPending (rn_Steps run) 0 ''not run: the run was interrupted''), uq_Finished = True\<rparr> w)
      in snd (ReleaseAutomationRun (rn_AutomationID run) (rn_ID run) w1))"

definition FailStuckRuns :: "'a auto_world_scheme \<Rightarrow> 'a auto_world_scheme" where
  "FailStuckRuns w =
     (case ListStuckAutomationRuns (clock w - CLAIM_STALE_AFTER) w of
        (Inl _, w1) \<Rightarrow> w1
      | (Inr runs, w1) \<Rightarrow> fold failStuckRun runs w1)"

section \<open>Frames\<close>

text \<open>
  \<open>io_frame g\<close>: the SQL of a firing does not touch \<open>g\<close>. \<open>step_frame g\<close>: neither does running
  the steps.
\<close>

definition io_frame :: "('a auto_world_scheme \<Rightarrow> 'b) \<Rightarrow> bool" where
  "io_frame g \<longleftrightarrow> (\<forall>w c s. g (w\<lparr>clock := c, db_script := s\<rparr>) = g w) \<and> (\<forall>w x. g (w\<lparr>w_runs := x\<rparr>) = g w)
     \<and> (\<forall>w x. g (w\<lparr>w_automations := x\<rparr>) = g w) \<and> (\<forall>w x y. g (w\<lparr>w_runs := x, w_next_id := y\<rparr>) = g w)"

definition step_frame :: "('a auto_world_scheme \<Rightarrow> 'b) \<Rightarrow> bool" where
  "step_frame g \<longleftrightarrow> io_frame g \<and> (\<forall>w h p. g (w\<lparr>hub := h, picks := p\<rparr>) = g w) \<and> (\<forall>w x. g (w\<lparr>w_audit := x\<rparr>) = g w)
     \<and> (\<forall>w c. g (w\<lparr>clock := c\<rparr>) = g w) \<and> (\<forall>w c x. g (w\<lparr>clock := c, w_http := x\<rparr>) = g w)
     \<and> (\<forall>w x. g (w\<lparr>w_http_sent := x\<rparr>) = g w)"

lemma step_frame_io: "step_frame g \<Longrightarrow> io_frame g"
  by (simp add: step_frame_def)

lemma step_frame_field: "step_frame g \<Longrightarrow> frame_field g"
  by (simp add: step_frame_def io_frame_def frame_field_def)

lemma io_exec: "io_frame g \<Longrightarrow> (\<And>w. g (snd (f w)) = g w) \<Longrightarrow> g (snd (exec f w)) = g w"
  by (rule exec_frame) (simp_all add: io_frame_def)

lemma io_query: "io_frame g \<Longrightarrow> g (snd (query q w)) = g w"
  unfolding query_def by (rule io_exec) simp_all

lemma io_exec_unit: "io_frame g \<Longrightarrow> (\<And>w. g (f w) = g w) \<Longrightarrow> g (snd (exec_unit f w)) = g w"
  unfolding snd_exec_unit by (rule io_exec) simp_all

lemma snd_one_row: "snd (one_row p q w) = snd (query q w)"
  by (simp add: one_row_def split: prod.split sum.split option.split)

lemma snd_GetUserByID: "snd (GetUserByID i w) = snd (query (\<lambda>w. List.find (\<lambda>u. u_ID u = i) (users w)) w)"
  by (simp add: GetUserByID_def split: prod.split sum.split option.split)

named_theorems io_rules \<open>calls that only touch the automation tables\<close>

lemma io_UpdateAutomationRun [io_rules]: "io_frame g \<Longrightarrow> g (snd (UpdateAutomationRun i req w)) = g w"
  by (simp add: UpdateAutomationRun_def Let_def io_exec_unit io_frame_def)

lemma io_ClaimAutomationRun [io_rules]: "io_frame g \<Longrightarrow> g (snd (ClaimAutomationRun a r c w)) = g w"
  by (simp add: ClaimAutomationRun_def Let_def io_exec io_frame_def)

lemma io_ReleaseAutomationRun [io_rules]: "io_frame g \<Longrightarrow> g (snd (ReleaseAutomationRun a r w)) = g w"
  by (simp add: ReleaseAutomationRun_def io_exec_unit io_frame_def)

lemma io_TouchAutomationWebhook [io_rules]: "io_frame g \<Longrightarrow> g (snd (TouchAutomationWebhook i w)) = g w"
  by (simp add: TouchAutomationWebhook_def Let_def io_exec_unit io_frame_def)

lemma io_GetAutomationByID [io_rules]: "io_frame g \<Longrightarrow> g (snd (GetAutomationByID i w)) = g w"
  by (simp add: GetAutomationByID_def snd_one_row io_query)

lemma io_GetUserByID [io_rules]: "io_frame g \<Longrightarrow> g (snd (GetUserByID i w)) = g w"
  by (simp add: snd_GetUserByID io_query)

lemma io_insert_run: "io_frame g \<Longrightarrow> g (snd (insert_run fin req w)) = g w"
  by (simp add: insert_run_def io_frame_def)

lemma io_CreateAutomationRun [io_rules]:
  assumes g: "io_frame g"
  shows "g (snd (CreateAutomationRun req w)) = g w"
proof -
  have i: "g w1 = g w" if "exec (insert_run fin req) w = (r, w1)" for fin r w1
    using io_exec [of g "insert_run fin req" w] io_insert_run [OF g] g that by simp
  have q: "g w2 = g w1" if "GetAutomationRunByID i w1 = (r, w2)" for i w1 r w2
  proof -
    have "g (snd (GetAutomationRunByID i w1)) = g w1" by (simp add: GetAutomationRunByID_def snd_one_row io_query g)
    then show ?thesis using that by simp
  qed
  show ?thesis unfolding CreateAutomationRun_def Let_def
    by (auto dest!: i q split: sum.split option.split prod.split)
qed

lemma io_createRun [io_rules]: "io_frame g \<Longrightarrow> g (snd (createRun a f w)) = g w"
  by (simp add: createRun_def io_rules)

lemma io_finish [io_rules]: "io_frame g \<Longrightarrow> g (snd (finish run steps fs re w)) = g w"
  by (simp add: finish_def Let_def io_rules)

lemma io_skip_run [io_rules]: "io_frame g \<Longrightarrow> g (snd (skip_run run reason res w)) = g w"
  by (simp add: skip_run_def Let_def io_rules)

lemma io_overlapReason [io_rules]: "io_frame g \<Longrightarrow> g (snd (overlapReason i w)) = g w"
  using io_GetAutomationByID [of g i w]
  by (auto simp: overlapReason_def split: prod.split sum.split option.split)

lemma io_authErr [io_rules]: "io_frame g \<Longrightarrow> g (snd (authErr a w)) = g w"
  using io_GetUserByID [of g "au_RunAsUserID a" w]
  by (auto simp: authErr_def split: prod.split sum.split option.split)

lemma io_persistSteps [io_rules]: "io_frame g \<Longrightarrow> g (persistSteps i steps w) = g w"
  by (simp add: persistSteps_def io_rules)

lemma step_auditAttempts: "step_frame g \<Longrightarrow> g (snd (auditAttempts n req e w)) = g w"
proof (induction n arbitrary: e w)
  case (Suc n)
  have "g (snd (CreateAuditLog req w)) = g w"
    unfolding CreateAuditLog_def using Suc(2) by (intro io_exec_unit) (simp_all add: step_frame_def)
  then show ?case using Suc by (auto simp: step_frame_def split: prod.split option.split)
qed simp

lemma step_Deliver: "step_frame g \<Longrightarrow> g (snd (Deliver env d r w)) = g w"
  by (simp add: Deliver_def Let_def elapse_def step_frame_def split: list.split http_event.split)

lemma step_executeHTTP: "step_frame g \<Longrightarrow> g (snd (executeHTTP env d raw w)) = g w"
proof -
  assume g: "step_frame g"
  have "g w1 = g w" if "Deliver env d r w = (x, w1)" for r x w1
    using step_Deliver [OF g, of env d r w] that by simp
  then show ?thesis
    by (auto simp: executeHTTP_def Let_def split: sum.split prod.split)
qed

lemma step_executeRedeploy: "step_frame g \<Longrightarrow> g (snd (executeRedeploy d raw w)) = g w"
proof -
  assume g: "step_frame g"
  have r: "g w1 = g w" if "resolveContainer cfg w = (x, w1)" for cfg x w1
    using frame_resolveContainer [OF step_frame_field [OF g], of cfg w] that by simp
  have c: "g w2 = g w1" if "RecreateContainer c wid w1 = (x, w2)" for c wid w1 x w2
    using frame_RecreateContainer [OF step_frame_field [OF g], of c wid w1] that by simp
  show ?thesis
    by (auto simp: executeRedeploy_def Let_def dest!: r c split: sum.split prod.split option.split)
qed

lemma step_dispatchStep: "step_frame g \<Longrightarrow> g (snd (dispatchStep env d action w)) = g w"
  unfolding dispatchStep_def
  by (cases "kindFor (ac_Type action)"; cases "projr (kindFor (ac_Type action))")
    (simp_all add: step_executeHTTP step_executeRedeploy)

lemma step_audit: "step_frame g \<Longrightarrow> g (snd (audit a run u f i eff e w)) = g w"
  by (simp add: audit_def step_auditAttempts)

lemma step_runStep:
  assumes g: "step_frame g"
  shows "g (snd (runStep env d a run u f i action w)) = g w"
proof -
  have d: "g w1 = g w" if "dispatchStep env d action w = (x, w1)" for x w1
    using step_dispatchStep [OF g, of env d action w] that by simp
  have a: "g w2 = g w1" if "audit a run u f i eff e w1 = (x, w2)" for eff e w1 x w2
    using step_audit [OF g, of a run u f i eff e w1] that by simp
  show ?thesis
    by (auto simp: runStep_def Let_def dest!: d a split: sum.split prod.split option.split)
qed

lemma step_runSteps: "step_frame g \<Longrightarrow> g (snd (runSteps env d a run u f i actions steps fs w)) = g w"
proof (induction actions arbitrary: i steps fs w)
  case (Cons action rest)
  have p: "g (persistSteps r ss w) = g w" for r ss w using Cons(2) by (simp add: io_rules step_frame_io)
  have r: "g w1 = g w" if "runStep env d a run u f i action w = (x, w1)" for x w1
    using step_runStep [OF Cons(2), of env d a run u f i action w] that by simp
  show ?case using Cons p
    by (auto simp: Let_def dest!: r split: sum.split prod.split)
qed simp

lemma step_executeHeld:
  assumes g: "step_frame g"
  shows "g (snd (executeHeld env a run f w)) = g w"
proof -
  have a: "g w1 = g w" if "authErr a w = (x, w1)" for x w1
    using io_authErr [OF step_frame_io [OF g], of a w] that by simp
  have s: "g w2 = g w1" if "runSteps env d a run u f 0 as ss None w1 = (x, w2)" for d u as ss w1 x w2
    using step_runSteps [OF g, of env d a run u f 0 as ss None w1] that by simp
  have e: "g w2 = g w1" if "finish run ss fs re w1 = (x, w2)" for ss fs re w1 x w2
    using io_finish [OF step_frame_io [OF g], of run ss fs re w1] that by simp
  show ?thesis
    by (auto simp: executeHeld_def Let_def dest!: a s e split: sum.split prod.split)
qed

lemma step_execute:
  assumes g: "step_frame g"
  shows "g (snd (execute env a run f w)) = g w"
proof -
  note io = step_frame_io [OF g]
  have c: "g w1 = g w" if "ClaimAutomationRun i r t w = (x, w1)" for i r t x w1
    using io_ClaimAutomationRun [OF io, of i r t w] that by simp
  have h: "g w2 = g w1" if "executeHeld env a run f w1 = (x, w2)" for w1 x w2
    using step_executeHeld [OF g, of env a run f w1] that by simp
  have o: "g w2 = g w1" if "overlapReason i w1 = (x, w2)" for i w1 x w2
    using io_overlapReason [OF io, of i w1] that by simp
  show ?thesis
    by (auto simp: execute_def io_finish [OF io] io_skip_run [OF io] io_ReleaseAutomationRun [OF io]
        dest!: c h o split: sum.split prod.split bool.split)
qed

section \<open>Slots, tokens and authority\<close>

lemma step_frame_slots [simp]: "step_frame w_slots"
  by (simp add: step_frame_def io_frame_def)

lemma slots_releaseSlot: "w_slots w = Suc n \<Longrightarrow> w_slots (releaseSlot w) = n"
  by (simp add: releaseSlot_def)

lemma slots_after_execute: "w_slots (snd (execute env a run f w)) = w_slots w"
  by (simp add: step_execute)

lemma slots_skip_run: "w_slots (snd (skip_run run reason res w)) = w_slots w"
  by (simp add: io_skip_run step_frame_io)

lemma slots_createRun: "createRun a f w = (r, w1) \<Longrightarrow> w_slots w1 = w_slots w"
  using io_createRun [of w_slots a f w] by (simp add: step_frame_io)

text \<open>
  C25. A runner slot is never leaked: however a firing ends (a lost schedule slot, a database
  error, a disabled automation, an overlap, a refused authorisation, a failed or crashed step),
  the number of slots in use afterwards is what it was before.
\<close>

theorem slots_restored: "w_slots (snd (fire env a f w)) = w_slots w"
proof -
  have e: "w_slots (releaseSlot w3) = w_slots w2" if "execute env a run f (w2\<lparr>w_slots := Suc (w_slots w2)\<rparr>) = (x, w3)" for run w2 x w3
    using slots_after_execute [of env a run f "w2\<lparr>w_slots := Suc (w_slots w2)\<rparr>"] that
    by (intro slots_releaseSlot) simp
  have s: "w_slots w3 = w_slots w2" if "skip_run run reason res w2 = (x, w3)" for run reason res w2 x w3
    using slots_skip_run [of run reason res w2] that by simp
  show ?thesis
    by (auto simp: fire_def tryAcquireSlot_def dest!: slots_createRun e s split: prod.split sum.split option.split)
qed

text \<open>Nothing but the clock and the database's behaviour moved on.\<close>

definition untouched :: "'a auto_world_scheme \<Rightarrow> 'a auto_world_scheme \<Rightarrow> bool" where
  "untouched w w' \<longleftrightarrow> w' = w\<lparr>clock := clock w', db_script := db_script w'\<rparr>"

lemma untouched_query: "untouched w (snd (query q w))"
proof -
  have "untouched w w0" if "w0 = w\<lparr>clock := clock w0, db_script := db_script w0\<rparr>" for w0
    using that by (simp add: untouched_def)
  then show ?thesis
    unfolding query_def by (rule_tac exec_cases [where w = w and f = "\<lambda>w. (q w, w)"]) auto
qed

lemma untouched_one_row: "one_row p q w = (r, w') \<Longrightarrow> untouched w w'"
  using untouched_query [of w q] snd_one_row [of p q w] by simp

lemma one_row_Inr:
  assumes "one_row p q w = (Inr x, w')" "\<And>w c s. q (w\<lparr>clock := c, db_script := s\<rparr>) = q w"
  shows "q w = Some x"
  using assms query_Inr [of q w] by (auto simp: one_row_def split: prod.splits sum.splits option.splits)

text \<open>
  A webhook call with an empty, unknown, rotated or deleted token, or with the token of an
  automation whose trigger is no longer a webhook, is refused having written nothing at all: no
  touch, no run row, no claim, no command, no request.
\<close>

theorem invalid_token_writes_nothing:
  assumes "token = [] \<or> (\<forall>a \<in> set (w_automations w). au_WebhookTokenHash a = Some (ee_HashToken env token) \<longrightarrow>
             \<not> au_Active a \<or> tr_Type (au_Trigger a) \<noteq> AutomationTriggerWebhook)"
  shows "(\<exists>e. fst (FireWebhook env token f w) = Inl e) \<and> untouched w (snd (FireWebhook env token f w))"
proof (cases "token = []")
  case True
  then show ?thesis by (simp add: FireWebhook_def untouched_def)
next
  case False
  obtain r w1 where g: "GetAutomationByWebhookHash (ee_HashToken env token) w = (r, w1)" by force
  then have u: "untouched w w1" by (auto simp: GetAutomationByWebhookHash_def dest: untouched_one_row)
  have "tr_Type (au_Trigger a) \<noteq> AutomationTriggerWebhook" if "r = Inr a" for a
  proof -
    have "List.find (\<lambda>a. au_WebhookTokenHash a = Some (ee_HashToken env token) \<and> au_Active a) (w_automations w) = Some a"
      using g that unfolding GetAutomationByWebhookHash_def by (auto dest: one_row_Inr)
    then have "a \<in> set (w_automations w)" "au_WebhookTokenHash a = Some (ee_HashToken env token)" "au_Active a"
      by (auto simp: find_Some_iff)
    then show ?thesis using assms False by blast
  qed
  with g u False show ?thesis by (cases r) (simp_all add: FireWebhook_def)
qed

theorem invalid_token_writes_nothing_witness:
  "untouched (empty_world\<lparr>w_automations := [a_row]\<rparr>)
     (snd (FireWebhook open_env ''guess'' \<lparr>f_Source = AutomationSourceWebhook, f_Detail = [], f_ScheduledAt = None,
        f_TriggeredBy = None, f_IP = None\<rparr> (empty_world\<lparr>w_automations := [a_row]\<rparr>)))"
proof -
  have "''guess'' = [] \<or> (\<forall>a \<in> set (w_automations (empty_world\<lparr>w_automations := [a_row]\<rparr>)).
      au_WebhookTokenHash a = Some (ee_HashToken open_env ''guess'') \<longrightarrow>
      \<not> au_Active a \<or> tr_Type (au_Trigger a) \<noteq> AutomationTriggerWebhook)"
    by (simp add: empty_world_def a_row_def open_env_def)
  from invalid_token_writes_nothing [OF this] show ?thesis by blast
qed

text \<open>What a run does to the outside: commands, requests and the audit log.\<close>

definition effects :: "'a auto_world_scheme \<Rightarrow> workerHub \<times> webhookRequest list \<times> createAuditLogRequest list" where
  "effects w = (hub w, w_http_sent w, w_audit w)"

lemma io_frame_effects [simp]: "io_frame effects" and io_frame_users [simp]: "io_frame users"
  by (simp_all add: io_frame_def effects_def)

lemma authErr_Inr:
  assumes "authErr a w = (Inr u, w1)"
  shows "List.find (\<lambda>u. u_ID u = au_RunAsUserID a) (users w) = Some u \<and> Authorise (Some u) (au_Trigger a) (au_Actions a) = None"
proof -
  have "List.find (\<lambda>u. u_ID u = au_RunAsUserID a) (users w) = Some x"
    if "query (\<lambda>w. List.find (\<lambda>u. u_ID u = au_RunAsUserID a) (users w)) w = (Inr (Some x), w2)" for x w2
    using query_Inr [OF that] by simp
  then show ?thesis using assms
    by (auto simp: authErr_def GetUserByID_def split: prod.splits sum.splits option.splits)
qed

definition unauthorised :: "automation \<Rightarrow> 'a auto_world_scheme \<Rightarrow> bool" where
  "unauthorised a w \<longleftrightarrow>
     (case List.find (\<lambda>u. u_ID u = au_RunAsUserID a) (users w) of
        None \<Rightarrow> True | Some u \<Rightarrow> Authorise (Some u) (au_Trigger a) (au_Actions a) \<noteq> None)"

lemma unauthorised_executeHeld:
  assumes "unauthorised a w"
  shows "effects (snd (executeHeld env a run f w)) = effects w \<and> (\<exists>out. fst (executeHeld env a run f w) = Inr out \<and> oc_Result out = ResultFailed)"
proof -
  obtain r w1 where e: "authErr a w = (r, w1)" by force
  obtain m where r: "r = Inl m"
  proof (cases r)
    case (Inr u)
    then show ?thesis using authErr_Inr [of a w u w1] e assms by (simp add: unauthorised_def)
  qed
  have "effects w1 = effects w" using io_authErr [of effects a w] e by simp
  moreover have "oc_Result (fst (finish run ss None (Some x) w1)) = ResultFailed" for ss x
    by (simp add: finish_def Let_def)
  ultimately show ?thesis using e r
    by (simp add: executeHeld_def case_prod_beta io_finish del: append.simps)
qed

lemma unauthorised_execute:
  assumes "unauthorised a w"
  shows "effects (snd (execute env a run f w)) = effects w \<and> oc_Result (fst (execute env a run f w)) \<noteq> ResultSucceeded"
proof -
  obtain r w1 where c: "ClaimAutomationRun (au_ID a) (rn_ID run) (clock w - CLAIM_STALE_AFTER) w = (r, w1)" by force
  have w1: "effects w1 = effects w" "users w1 = users w"
    using io_ClaimAutomationRun [of effects "au_ID a" "rn_ID run" "clock w - CLAIM_STALE_AFTER" w]
      io_ClaimAutomationRun [of users "au_ID a" "rn_ID run" "clock w - CLAIM_STALE_AFTER" w] c by simp_all
  then have "unauthorised a w1" using assms by (simp add: unauthorised_def)
  then obtain out w2 where h: "executeHeld env a run f w1 = (Inr out, w2)" "effects w2 = effects w1" "oc_Result out = ResultFailed"
    using unauthorised_executeHeld [of a w1 env run f] by (metis prod.collapse)
  show ?thesis
  proof (cases r)
    case (Inl e)
    then show ?thesis using c w1 by (simp add: execute_def io_finish) (simp add: finish_def Let_def)
  next
    case (Inr b)
    then show ?thesis using c h w1
      by (cases b) (simp_all add: execute_def io_ReleaseAutomationRun case_prod_beta io_skip_run io_overlapReason,
          simp add: skip_run_def Let_def)
  qed
qed

text \<open>
  C26. Authority is checked when the automation fires, before the first side effect: if the user
  it runs as is gone, deactivated, or today lacks the role for its trigger or for any one of its
  steps, then no command is sent to any worker, no request leaves the control plane, nothing is
  written to the audit log, and the firing does not succeed.
\<close>

theorem unauthorised_run_has_no_effect:
  assumes "unauthorised a w"
  shows "effects (snd (fire env a f w)) = effects w \<and>
         (\<forall>out. fst (fire env a f w) = Inr out \<longrightarrow> oc_Result out \<noteq> ResultSucceeded)"
proof -
  obtain r w1 where c: "createRun a f w = (r, w1)" by force
  have w1: "effects w1 = effects w" "users w1 = users w"
    using io_createRun [of effects a f w] io_createRun [of users a f w] c by simp_all
  have eff: "effects (w\<lparr>w_slots := n\<rparr>) = effects w" "users (w\<lparr>w_slots := n\<rparr>) = users w" for n and w :: "'a auto_world_scheme"
    by (simp_all add: effects_def)
  have un: "unauthorised a (w1\<lparr>w_slots := Suc (w_slots w1)\<rparr>)" using assms w1 by (simp add: unauthorised_def)
  have skip: "effects (snd (skip_run run reason res w1)) = effects w1" "oc_Result (fst (skip_run run reason res w1)) = res" for run reason res
    by (simp_all add: io_skip_run) (simp add: skip_run_def Let_def)
  show ?thesis
    using c w1 skip unauthorised_execute [OF un, of env _ f] eff
    by (auto simp: fire_def tryAcquireSlot_def releaseSlot_def case_prod_beta Let_def split: sum.split option.split)
qed

theorem unauthorised_run_has_no_effect_witness:
  "unauthorised a_row (empty_world\<lparr>users := [admin_user\<lparr>u_Role := ''editor''\<rparr>]\<rparr>) \<and>
   effects (snd (fire open_env a_row \<lparr>f_Source = AutomationSourceWebhook, f_Detail = [], f_ScheduledAt = None,
      f_TriggeredBy = None, f_IP = None\<rparr> (empty_world\<lparr>users := [admin_user\<lparr>u_Role := ''editor''\<rparr>]\<rparr>)))
   = effects empty_world"
proof -
  have u: "unauthorised a_row (empty_world\<lparr>users := [admin_user\<lparr>u_Role := ''editor''\<rparr>]\<rparr>)"
    by (simp add: unauthorised_def empty_world_def a_row_def admin_user_def Authorise_def roleRank_def
        triggerRole_def roleAllows_def policy_consts)
  have "effects (empty_world\<lparr>users := us\<rparr>) = effects empty_world" for us by (simp add: effects_def)
  with u unauthorised_run_has_no_effect [OF u, of open_env] show ?thesis by simp
qed

section \<open>The order of steps\<close>

definition skipped :: "automationStepResult \<Rightarrow> bool" where
  "skipped s \<longleftrightarrow> sr_Status s = AutomationStepSkipped"

text \<open>
  The shape of an executed step list: steps are attempted in order, after a failure without
  \<^verbatim>\<open>continue_on_error\<close> (or when the budget ran out) everything is skipped, and nothing else is.
\<close>

fun run_shape :: "automationStepResult list \<Rightarrow> bool" where
  "run_shape [] = True"
| "run_shape (s # ss) =
     (case sr_Status s of
        AutomationStepSucceeded \<Rightarrow> run_shape ss
      | AutomationStepFailed \<Rightarrow> if sr_ContinueOnError s then run_shape ss \<or> list_all skipped ss else list_all skipped ss
      | _ \<Rightarrow> False)"

fun first_failure :: "nat \<Rightarrow> automationStepResult list \<Rightarrow> int option" where
  "first_failure i [] = None"
| "first_failure i (s # ss) = (if sr_Status s = AutomationStepFailed then Some (int i + 1) else first_failure (i + 1) ss)"

definition all_pending :: "automationStepResult list \<Rightarrow> bool" where
  "all_pending ss \<longleftrightarrow> list_all (\<lambda>s. sr_Status s = AutomationStepPending) ss"

lemma finishPending_from:
  "n \<le> length steps \<Longrightarrow> finishPending steps n reason = take n steps @ map (skip_pending reason) (drop n steps)"
  by (simp add: finishPending_def)

lemma skip_all_pending: "all_pending ss \<Longrightarrow> list_all skipped (map (skip_pending reason) ss)"
  by (simp add: all_pending_def list_all_iff skipped_def skip_pending_def)

lemma runStep_result:
  assumes "runStep env d a run u f i action w = (Inr s, w1)"
  shows "sr_ContinueOnError s = ac_ContinueOnError action \<and> sr_Status s \<in> {AutomationStepSucceeded, AutomationStepFailed}"
  using assms by (auto simp: runStep_def Let_def step_record_def split: prod.splits sum.splits option.splits)

lemma first_failure_skipped: "list_all skipped ss \<Longrightarrow> first_failure i ss = None"
  by (induction ss arbitrary: i) (auto simp: skipped_def)

text \<open>What the loop returns from step \<open>i\<close> on: \<open>tail\<close> replaces the pending steps.\<close>

definition loop_post :: "nat \<Rightarrow> automationStepResult list \<Rightarrow> int option \<Rightarrow> automationStepResult list \<times> int option \<times> string option \<Rightarrow> bool" where
  "loop_post i steps fs out \<longleftrightarrow>
     (case out of (steps', fs', re) \<Rightarrow>
       \<exists>rest. steps' = take i steps @ rest \<and> length rest = length steps - i \<and> run_shape rest
         \<and> fs' = (case fs of Some k \<Rightarrow> Some k | None \<Rightarrow> first_failure i rest) \<and> (re \<noteq> None \<longrightarrow> fs' \<noteq> None))"

lemma loop_post_stop:
  assumes "i < length steps" "all_pending (drop (Suc i) steps)" "sr_Status s = AutomationStepFailed"
  shows "loop_post i steps fs (finishPending (steps[i := s]) (i + 1) reason, first_failed fs i, re)"
proof -
  let ?rest = "s # map (skip_pending reason) (drop (Suc i) steps)"
  have "finishPending (steps[i := s]) (i + 1) reason = take i steps @ ?rest"
    using assms(1) by (simp add: finishPending_from take_Suc_conv_app_nth)
  moreover have sk: "list_all skipped (map (skip_pending reason) (drop (Suc i) steps))"
    using assms(2) by (rule skip_all_pending)
  moreover have "length ?rest = length steps - i" using assms(1) by simp
  ultimately show ?thesis using assms(3)
    unfolding loop_post_def first_failed_def by (auto split: option.splits intro!: exI [of _ ?rest])
qed

lemma loop_post_step:
  assumes "loop_post (i + 1) (steps[i := s]) fs1 out" "i < length steps"
    "sr_Status s = AutomationStepSucceeded \<and> fs1 = fs \<or>
     sr_Status s = AutomationStepFailed \<and> sr_ContinueOnError s \<and> fs1 = first_failed fs i"
  shows "loop_post i steps fs out"
proof -
  obtain steps' fs' re where out: "out = (steps', fs', re)" by (metis prod_cases3)
  from assms(1) obtain rest where r: "steps' = take (i + 1) (steps[i := s]) @ rest" "length rest = length steps - (i + 1)"
    "run_shape rest" "fs' = (case fs1 of Some k \<Rightarrow> Some k | None \<Rightarrow> first_failure (i + 1) rest)" "re \<noteq> None \<longrightarrow> fs' \<noteq> None"
    by (simp only: loop_post_def out prod.case length_list_update) (elim exE conjE, rule that)
  have "steps' = take i steps @ (s # rest)" using r(1) assms(2) by (simp add: take_Suc_conv_app_nth)
  moreover have "length (s # rest) = length steps - i" using r(2) assms(2) by simp
  moreover have "run_shape (s # rest)" using r(3) assms(3) by auto
  moreover have "fs' = (case fs of Some k \<Rightarrow> Some k | None \<Rightarrow> first_failure i (s # rest))"
    using r(4) assms(3) by (auto simp: first_failed_def split: option.splits)
  ultimately show ?thesis using r(5)
    by (simp only: loop_post_def out prod.case) (rule exI [of _ "s # rest"], simp only: simp_thms)
qed

lemma runSteps_post:
  assumes "length steps = i + length actions" "all_pending (drop i steps)"
    "runSteps env d a run u f i actions steps fs w = (Inr out, w')"
  shows "loop_post i steps fs out"
  using assms
proof (induction actions arbitrary: i steps fs w)
  case Nil
  then show ?case by (auto simp: loop_post_def split: option.splits)
next
  case (Cons action rest)
  have i: "i < length steps" using Cons.prems(1) by simp
  have "drop i steps = steps ! i # drop (Suc i) steps" using i by (simp add: Cons_nth_drop_Suc)
  then have pend: "all_pending (drop (Suc i) steps)" and "all_pending (drop (i + 1) (steps[i := s]))" for s
    using Cons.prems(2) by (simp_all add: all_pending_def)
  show ?case
  proof (cases "ctx_err d w = None")
    case False
    then show ?thesis using Cons.prems(3) i pend by (auto simp: Let_def intro!: loop_post_stop simp del: One_nat_def add_Suc_right)
  next
    case True
    then obtain s w1 where s: "runStep env d a run u f i action w = (Inr s, w1)"
      using Cons.prems(3) by (auto split: prod.splits sum.splits)
    note res = runStep_result [OF s]
    have IH: "loop_post (i + 1) (steps[i := s]) fs1 out"
      if "runSteps env d a run u f (i + 1) rest (steps[i := s]) fs1 w2 = (Inr out, w')" for fs1 w2
      using Cons.IH [OF _ _ that] Cons.prems(1) \<open>\<And>s. all_pending (drop (i + 1) (steps[i := s]))\<close> by simp
    show ?thesis
    proof (cases "sr_Status s = AutomationStepFailed")
      case failed: True
      show ?thesis
      proof (cases "ac_ContinueOnError action")
        case True
        then have "runSteps env d a run u f (i + 1) rest (steps[i := s]) (first_failed fs i) (persistSteps (rn_ID run) (steps[i := s]) w1) = (Inr out, w')"
          using Cons.prems(3) \<open>ctx_err d w = None\<close> s i failed by (simp add: Let_def)
        from loop_post_step [OF IH [OF this] i] show ?thesis using res True failed by simp
      next
        case False
        then have "out = (finishPending (steps[i := s]) (i + 1) (''not run: step '' @ show_nat (i + 1) @ '' failed''), first_failed fs i, None)"
          using Cons.prems(3) \<open>ctx_err d w = None\<close> s i failed by (simp add: Let_def)
        then show ?thesis using loop_post_stop [OF i pend failed] by simp
      qed
    next
      case ok: False
      then have "runSteps env d a run u f (i + 1) rest (steps[i := s]) fs (persistSteps (rn_ID run) (steps[i := s]) w1) = (Inr out, w')"
        using Cons.prems(3) \<open>ctx_err d w = None\<close> s i by (simp add: Let_def)
      from loop_post_step [OF IH [OF this] i] show ?thesis using res ok by simp
    qed
  qed
qed

section \<open>A firing's outcome\<close>

lemma find_snoc: "List.find p xs = None \<Longrightarrow> List.find p (xs @ [x]) = (if p x then Some x else None)"
  by (induction xs) (auto split: if_splits)

lemma createRun_steps:
  assumes "auto_inv w" "createRun a f w = (Inr (Some run), w1)"
  shows "rn_Steps run = pendingSteps (au_Actions a) \<and> rn_ID run = w_next_id w \<and> rn_AutomationID run = au_ID a"
proof -
  define req where "req = \<lparr>cq_AutomationID = au_ID a, cq_TriggerSource = f_Source f,
        cq_TriggerDetail = (if f_Detail f \<noteq> [] then Some (truncate_str (f_Detail f) (maxTriggerDetailLen - 3)) else None),
        cq_ScheduledAt = f_ScheduledAt f, cq_Status = AutomationRunInProgress, cq_SkipReason = None,
        cq_RunAsUserID = Some (au_RunAsUserID a), cq_TriggeredBy = f_TriggeredBy f,
        cq_Steps = pendingSteps (au_Actions a), cq_StartedAt = clock w, cq_Finished = False\<rparr>"
  have "CreateAutomationRun req w = (Inr (Some run), w1)" using assms(2) by (simp add: createRun_def req_def)
  then obtain i w2 where ins: "exec (insert_run None req) w = (Inr (Some i), w2)" and get: "GetAutomationRunByID i w2 = (Inr run, w1)"
    by (auto simp: CreateAutomationRun_def req_def split: prod.splits sum.splits option.splits)
  from ins obtain w0 where w0: "w0 = w\<lparr>clock := clock w0, db_script := db_script w0\<rparr>" "Some i = fst (insert_run None req w0)"
    "w2 = snd (insert_run None req w0)" by (rule exec_Inr)
  have "w_runs w0 = w_runs w" "w_next_id w0 = w_next_id w" by (subst w0(1), simp)+
  with w0 have i: "i = w_next_id w" and w2: "w_runs w2 = w_runs w @ [run_row i (clock w0) None req]"
    by (auto simp: insert_run_def split: if_splits)
  have "List.find (\<lambda>r. rn_ID r = i) (w_runs w2) = Some run"
    using get unfolding GetAutomationRunByID_def by (rule one_row_Inr) simp
  moreover have "\<forall>r \<in> set (w_runs w). rn_ID r \<noteq> i" using assms(1) i by (auto simp: auto_inv_def)
  then have "List.find (\<lambda>r. rn_ID r = i) (w_runs w) = None" by (simp add: find_None_iff)
  ultimately have "run = run_row i (clock w0) None req"
    unfolding w2 by (auto simp: find_snoc run_row_def)
  then show ?thesis using i by (simp add: run_row_def req_def)
qed

lemma pendingSteps_pending: "all_pending (pendingSteps as) \<and> length (pendingSteps as) = length as"
  by (auto simp: all_pending_def pendingSteps_def list_all_iff pendingStep_def)

text \<open>The three ways a firing's run can end.\<close>

definition finished_run :: "automation \<Rightarrow> automationRun \<Rightarrow> bool" where
  "finished_run a run \<longleftrightarrow> length (rn_Steps run) = length (au_Actions a) \<and>
     (case rn_Status run of
        AutomationRunSkipped \<Rightarrow> list_all skipped (rn_Steps run) \<and> rn_SkipReason run \<noteq> None
      | AutomationRunFailed \<Rightarrow>
          (list_all skipped (rn_Steps run) \<and> rn_Error run \<noteq> None) \<or>
          (run_shape (rn_Steps run) \<and> rn_FailedStep run = first_failure 0 (rn_Steps run) \<and> rn_FailedStep run \<noteq> None)
      | AutomationRunSucceeded \<Rightarrow>
          list_all (\<lambda>s. sr_Status s = AutomationStepSucceeded) (rn_Steps run) \<and> rn_FailedStep run = None \<and> rn_Error run = None
      | AutomationRunInProgress \<Rightarrow> False)"

lemma shape_no_failure: "run_shape ss \<Longrightarrow> first_failure i ss = None \<Longrightarrow> list_all (\<lambda>s. sr_Status s = AutomationStepSucceeded) ss"
  by (induction ss arbitrary: i) (auto split: automationStepStatus.splits if_splits)

lemma finishPending_all: "all_pending steps \<Longrightarrow> list_all skipped (finishPending steps 0 reason) \<and> length (finishPending steps 0 reason) = length steps"
  by (simp add: finishPending_def skip_all_pending)

lemma finished_skip_run:
  "all_pending (rn_Steps run) \<Longrightarrow> length (rn_Steps run) = length (au_Actions a) \<Longrightarrow> finished_run a (oc_Run (fst (skip_run run reason res w)))"
  by (simp add: finished_run_def skip_run_def Let_def finishPending_all)

lemma finished_refused:
  "all_pending (rn_Steps run) \<Longrightarrow> length (rn_Steps run) = length (au_Actions a) \<Longrightarrow>
   finished_run a (oc_Run (fst (finish run (finishPending (rn_Steps run) 0 reason) None (Some e) w)))"
  by (simp add: finished_run_def finish_def Let_def finishPending_all)

lemma finished_executed:
  assumes "loop_post 0 (rn_Steps run) None (steps, fs, re)" "length (rn_Steps run) = length (au_Actions a)"
  shows "finished_run a (oc_Run (fst (finish run steps fs re w)))"
proof -
  from assms have s: "length steps = length (au_Actions a)" "run_shape steps" "fs = first_failure 0 steps" "re \<noteq> None \<longrightarrow> fs \<noteq> None"
    by (auto simp: loop_post_def)
  then show ?thesis using shape_no_failure [of steps 0]
    by (cases fs) (auto simp: finished_run_def finish_def Let_def)
qed

lemma finished_executeHeld:
  assumes "all_pending (rn_Steps run)" "length (rn_Steps run) = length (au_Actions a)" "executeHeld env a run f w = (Inr out, w')"
  shows "finished_run a (oc_Run out)"
proof -
  obtain r w1 where e: "authErr a w = (r, w1)" by force
  show ?thesis
  proof (cases r)
    case (Inl m)
    have "out = fst (finish run (finishPending (rn_Steps run) 0 ''not run: the run was not authorised'') None
                             (Some (''refused before any step ran: '' @ m)) w1)"
      using assms(3) e Inl by (simp add: executeHeld_def case_prod_beta del: append.simps)
    then show ?thesis using finished_refused [OF assms(1,2)] by (simp del: append.simps)
  next
    case (Inr u)
    then obtain steps fs re w2 where rs: "runSteps env (clock w1 + RUN_BUDGET) a run u f 0 (au_Actions a) (rn_Steps run) None w1 = (Inr (steps, fs, re), w2)"
      and out: "out = fst (finish run steps fs re w2)"
      using assms(3) e by (auto simp: executeHeld_def split: prod.splits sum.splits)
    show ?thesis unfolding out using runSteps_post [OF _ _ rs] assms(1,2) by (intro finished_executed) simp_all
  qed
qed

lemma finished_execute:
  assumes "all_pending (rn_Steps run)" "length (rn_Steps run) = length (au_Actions a)"
  shows "finished_run a (oc_Run (fst (execute env a run f w)))"
proof -
  have "finished_run a (oc_Run out)" if "executeHeld env a run f w1 = (Inr out, w2)" for w1 out w2
    using assms that by (rule finished_executeHeld)
  then show ?thesis
    using finished_refused [OF assms] finished_skip_run [OF assms]
    by (auto simp: execute_def case_prod_beta split: sum.split prod.split bool.split simp del: append.simps)
qed

text \<open>
  Whatever happens while an automation fires, the run it reports is closed and tells the
  truth about its steps: it is skipped with a reason and every step skipped; or it failed before
  or outside its steps, with every step skipped and an error; or its steps ran in order, stopping
  at the first failure that does not carry \<^verbatim>\<open>continue_on_error\<close> (or at the budget), with the first
  failed step named; and it succeeded only if every single step succeeded. No finished run keeps
  a pending step.
\<close>

theorem fire_outcome_closed:
  assumes "auto_inv w" "fst (fire env a f w) = Inr out"
  shows "finished_run a (oc_Run out)"
proof -
  obtain r w1 where c: "createRun a f w = (r, w1)" by force
  then obtain run where r: "r = Inr (Some run)"
    using assms(2) by (auto simp: fire_def split: sum.splits option.splits)
  have "rn_Steps run = pendingSteps (au_Actions a)" using createRun_steps assms(1) c r by blast
  then have run: "all_pending (rn_Steps run)" "length (rn_Steps run) = length (au_Actions a)"
    using pendingSteps_pending by simp_all
  then show ?thesis
    using assms(2) c r finished_skip_run [OF run] finished_execute [OF run, of env f]
    by (auto simp: fire_def tryAcquireSlot_def case_prod_beta Let_def split: if_splits)
qed

text \<open>Two requests; the first is answered with 200, the second crashes the client.\<close>

definition ping_action :: automationAction where
  "ping_action = \<lparr>ac_Type = ''http_request'', ac_ContinueOnError = False,
     ac_Config = Raw (JObj [(''method'', JStr ''GET''), (''url'', JStr ''https://h'')])\<rparr>"

definition pinger :: automation where
  "pinger = a_row\<lparr>au_Actions := [ping_action, ping_action]\<rparr>"

definition crash_world :: auto_world where
  "crash_world = empty_world\<lparr>users := [admin_user], w_automations := [pinger], w_next_id := 5,
     w_http := [Reply 0 200 [], Crash 0 ''boom'']\<rparr>"

definition a_firing :: firing where
  "a_firing = \<lparr>f_Source = AutomationSourceManual, f_Detail = [], f_ScheduledAt = None, f_TriggeredBy = Some 7, f_IP = None\<rparr>"

definition crash_view :: "(go_error + outcome) \<times> auto_world \<Rightarrow> (automationStepStatus list \<times> nat \<times> string list) option" where
  "crash_view r = (case r of (Inl _, _) \<Rightarrow> None
     | (Inr out, w) \<Rightarrow> Some (map sr_Status (rn_Steps (oc_Run out)), length (w_http_sent w), map al_Action (w_audit w)))"

lemma crash_run: "crash_view (fire open_env pinger a_firing crash_world) =
  Some ([AutomationStepSkipped, AutomationStepSkipped], 2, [''http_request''])"
  by code_simp

theorem fire_outcome_closed_witness:
  "\<exists>out. fst (fire open_env pinger a_firing crash_world) = Inr out \<and> finished_run pinger (oc_Run out)"
proof -
  have inv: "auto_inv crash_world" by (simp add: auto_inv_def crash_world_def empty_world_def pinger_def a_row_def)
  obtain out where "fst (fire open_env pinger a_firing crash_world) = Inr out"
    using crash_run by (cases "fst (fire open_env pinger a_firing crash_world)") (auto simp: crash_view_def case_prod_beta)
  then show ?thesis using fire_outcome_closed [OF inv] by blast
qed

text \<open>
  A crash rewrites history: there is a firing whose first step was carried out, answered
  with 200 and audited as succeeded, and whose second step crashed, and the run it records says
  of both that they were skipped, which the step status defines as never attempted.
\<close>

theorem crashed_run_forgets_steps:
  "\<exists>env a f (w :: auto_world) out. auto_inv w \<and> w_http_sent w = [] \<and> fst (fire env a f w) = Inr out
     \<and> length (w_http_sent (snd (fire env a f w))) = 2 \<and> map al_Action (w_audit (snd (fire env a f w))) = [''http_request'']
     \<and> map sr_Status (rn_Steps (oc_Run out)) = [AutomationStepSkipped, AutomationStepSkipped]"
proof -
  obtain out where "fst (fire open_env pinger a_firing crash_world) = Inr out"
    using crash_run by (cases "fst (fire open_env pinger a_firing crash_world)") (auto simp: crash_view_def case_prod_beta)
  moreover have "auto_inv crash_world" "w_http_sent crash_world = []"
    by (simp_all add: auto_inv_def crash_world_def empty_world_def pinger_def a_row_def)
  ultimately show ?thesis using crash_run
    by (intro exI [of _ open_env] exI [of _ pinger] exI [of _ a_firing] exI [of _ crash_world] exI [of _ out])
      (simp add: crash_view_def case_prod_beta)
qed

section \<open>The sweep of dead runs\<close>

definition stuck :: "time \<Rightarrow> automationRun \<Rightarrow> bool" where
  "stuck cutoff r \<longleftrightarrow> rn_Status r = AutomationRunInProgress \<and> rn_StartedAt r < cutoff"

definition stuck_update :: "automationRun \<Rightarrow> updateAutomationRunRequest" where
  "stuck_update run = \<lparr>uq_Status = Some AutomationRunFailed, uq_SkipReason = None, uq_FailedStep = None, uq_Error = Some stuckRunMsg,
     uq_Steps = Some (finishPending (rn_Steps run) 0 ''not run: the run was interrupted''), uq_Finished = True\<rparr>"

lemma failStuckRun_quiet:
  assumes "db_script w = []"
  shows "failStuckRun run w = w\<lparr>
      w_runs := update_where (\<lambda>r. rn_ID r = rn_ID run) (apply_run_update (stuck_update run) (clock w)) (w_runs w),
      w_automations := update_where (\<lambda>a. au_ID a = rn_AutomationID run) (release_row (rn_ID run)) (w_automations w)\<rparr>"
  using assms by (simp add: failStuckRun_def UpdateAutomationRun_def ReleaseAutomationRun_def no_run_update_def
      exec_unit_quiet Let_def stuck_update_def)

lemma apply_stuck_update:
  "rn_Status (apply_run_update (stuck_update run) now r) = AutomationRunFailed"
  "rn_StartedAt (apply_run_update (stuck_update run) now r) = rn_StartedAt r"
  by (simp_all add: apply_run_update_def stuck_update_def set_opt_def)

text \<open>What the sweep leaves of the two tables: closed runs stay closed, freed guards stay free.\<close>

definition swept :: "int set \<Rightarrow> automationRun list \<Rightarrow> automationRun list \<Rightarrow> bool" where
  "swept ids rs rs' \<longleftrightarrow>
     list_all2 (\<lambda>r r'. rn_ID r' = rn_ID r \<and> rn_StartedAt r' = rn_StartedAt r
       \<and> (if rn_ID r \<in> ids then rn_Status r' = AutomationRunFailed else r' = r)) rs rs'"

definition no_guard :: "(int \<times> int) set \<Rightarrow> automation list \<Rightarrow> bool" where
  "no_guard ks as \<longleftrightarrow> (\<forall>a \<in> set as. \<forall>(aid, rid) \<in> ks. au_ID a = aid \<longrightarrow> au_RunningRunID a \<noteq> Some rid)"

lemma swept_step:
  "swept ids rs rs' \<Longrightarrow>
   swept (insert i ids) rs (update_where (\<lambda>r. rn_ID r = i) (apply_run_update (stuck_update run) now) rs')"
  by (auto simp: swept_def update_where_def list_all2_conv_all_nth apply_stuck_update)

lemma no_guard_step:
  "no_guard ks as \<Longrightarrow> no_guard (insert (aid, rid) ks) (update_where (\<lambda>a. au_ID a = aid) (release_row rid) as)"
  by (auto simp: no_guard_def set_update_where release_row_def split: if_splits)

lemma fold_failStuckRun:
  assumes "db_script w = []" "swept ids rs (w_runs w)" "no_guard ks (w_automations w)"
  shows "swept (rn_ID ` set runs \<union> ids) rs (w_runs (fold failStuckRun runs w))
     \<and> no_guard ((\<lambda>r. (rn_AutomationID r, rn_ID r)) ` set runs \<union> ks) (w_automations (fold failStuckRun runs w))"
  using assms
proof (induction runs arbitrary: w ids ks)
  case (Cons run runs)
  have "swept (insert (rn_ID run) ids) rs (w_runs (failStuckRun run w))"
    "no_guard (insert (rn_AutomationID run, rn_ID run) ks) (w_automations (failStuckRun run w))"
    "db_script (failStuckRun run w) = []"
    using Cons.prems by (simp_all add: failStuckRun_quiet swept_step no_guard_step)
  from Cons.IH [OF this(3,1,2)] show ?case by simp
qed simp


definition dead_run :: automationRun where
  "dead_run = \<lparr>rn_ID = 3, rn_AutomationID = 1, rn_TriggerSource = AutomationSourceManual, rn_TriggerDetail = None,
     rn_ScheduledAt = None, rn_Status = AutomationRunInProgress, rn_SkipReason = None, rn_FailedStep = None, rn_Error = None,
     rn_Steps = [], rn_RunAsUserID = Some 7, rn_TriggeredBy = None, rn_StartedAt = 0, rn_FinishedAt = None,
     rn_InsertedAt = 0, rn_UpdatedAt = 0\<rparr>"

definition dead_world :: auto_world where
  "dead_world = empty_world\<lparr>clock := Hour, w_runs := [dead_run],
     w_automations := [a_row\<lparr>au_RunningRunID := Some 3, au_RunningSince := Some 0\<rparr>]\<rparr>"


end
