(* ===== verification/Automation_Concurrency.thy ===== *)
theory Automation_Concurrency
  imports Automation_Executor
begin

text \<open>
  Firings of one automation side by side, as the webhook handler, the scheduler's goroutines and
  "run now" produce them: a step relation whose atomic steps are the ones the executor leaves to
  the semaphore channel (\<^verbatim>\<open>tryAcquireSlot\<close>, \<^verbatim>\<open>releaseSlot\<close>) and to the database (the
  conditional UPDATE of \<^verbatim>\<open>ClaimAutomationRun\<close> and \<^verbatim>\<open>ReleaseAutomationRun\<close>). Time passes only
  while no run outlives the claim's lifetime, which is what \<^verbatim>\<open>CLAIM_STALE_AFTER\<close> is chosen for.
\<close>

record conc =
  cc_now :: time
  cc_row :: automation
  cc_slots :: nat
  cc_waiting :: "int set"
  cc_slotted :: "int set"
  cc_running :: "int set"
  cc_since :: "int \<Rightarrow> time"

definition conc_claim :: "int \<Rightarrow> conc \<Rightarrow> bool \<times> automation" where
  "conc_claim r s = claim_row r (cc_now s - CLAIM_STALE_AFTER) (cc_now s) (cc_row s)"

inductive conc_step :: "conc \<Rightarrow> conc \<Rightarrow> bool" where
  arrive: "r \<notin> cc_waiting s \<union> cc_slotted s \<union> cc_running s \<Longrightarrow>
    conc_step s (s\<lparr>cc_waiting := insert r (cc_waiting s)\<rparr>)"
| no_slot: "r \<in> cc_waiting s \<Longrightarrow> \<not> cc_slots s < MAX_CONCURRENT_RUNS \<Longrightarrow>
    conc_step s (s\<lparr>cc_waiting := cc_waiting s - {r}\<rparr>)"
| slot: "r \<in> cc_waiting s \<Longrightarrow> cc_slots s < MAX_CONCURRENT_RUNS \<Longrightarrow>
    conc_step s (s\<lparr>cc_waiting := cc_waiting s - {r}, cc_slotted := insert r (cc_slotted s), cc_slots := cc_slots s + 1\<rparr>)"
| claim_lost: "r \<in> cc_slotted s \<Longrightarrow> \<not> fst (conc_claim r s) \<Longrightarrow>
    conc_step s (s\<lparr>cc_slotted := cc_slotted s - {r}, cc_slots := cc_slots s - 1\<rparr>)"
| claim_won: "r \<in> cc_slotted s \<Longrightarrow> fst (conc_claim r s) \<Longrightarrow>
    conc_step s (s\<lparr>cc_slotted := cc_slotted s - {r}, cc_running := insert r (cc_running s),
                   cc_since := (cc_since s)(r := cc_now s), cc_row := snd (conc_claim r s)\<rparr>)"
| finish: "r \<in> cc_running s \<Longrightarrow>
    conc_step s (s\<lparr>cc_running := cc_running s - {r}, cc_slots := cc_slots s - 1, cc_row := release_row r (cc_row s)\<rparr>)"
| tick: "cc_now s \<le> t \<Longrightarrow> (\<And>r. r \<in> cc_running s \<Longrightarrow> t \<le> db_time (cc_since s r) + CLAIM_STALE_AFTER) \<Longrightarrow>
    conc_step s (s\<lparr>cc_now := t\<rparr>)"

inductive_cases conc_stepE: "conc_step s s'"

definition conc_init :: "conc \<Rightarrow> bool" where
  "conc_init s \<longleftrightarrow> cc_slots s = 0 \<and> cc_waiting s = {} \<and> cc_slotted s = {} \<and> cc_running s = {}"

definition conc_inv :: "conc \<Rightarrow> bool" where
  "conc_inv s \<longleftrightarrow> finite (cc_slotted s) \<and> finite (cc_running s) \<and> cc_slotted s \<inter> cc_running s = {}
     \<and> cc_waiting s \<inter> (cc_slotted s \<union> cc_running s) = {}
     \<and> cc_slots s = card (cc_slotted s) + card (cc_running s) \<and> cc_slots s \<le> MAX_CONCURRENT_RUNS
     \<and> (\<forall>r \<in> cc_running s. guard_holder (cc_row s) = Some (r, Some (db_time (cc_since s r)))
          \<and> cc_now s \<le> db_time (cc_since s r) + CLAIM_STALE_AFTER)"

lemma conc_init_inv: "conc_init s \<Longrightarrow> conc_inv s"
  by (simp add: conc_init_def conc_inv_def MAX_CONCURRENT_RUNS_def)

text \<open>While a run holds a fresh claim no other claim wins.\<close>

lemma conc_claim_excluded:
  assumes "conc_inv s" "cc_running s \<noteq> {}"
  shows "\<not> fst (conc_claim r s)"
proof -
  obtain r0 where "r0 \<in> cc_running s" using assms(2) by blast
  then have "guard_holder (cc_row s) = Some (r0, Some (db_time (cc_since s r0)))"
    "cc_now s \<le> db_time (cc_since s r0) + CLAIM_STALE_AFTER" using assms(1) by (simp_all add: conc_inv_def)
  then show ?thesis by (simp add: conc_claim_def run_guard.claim_wins older_def)
qed

lemma conc_claim_holder: "fst (conc_claim r s) \<Longrightarrow> guard_holder (snd (conc_claim r s)) = Some (r, Some (db_time (cc_now s)))"
  unfolding conc_claim_def by (rule run_guard.claim_takes)

lemma running_unique:
  assumes "conc_inv s" "r \<in> cc_running s" "r' \<in> cc_running s"
  shows "r = r'"
proof -
  have "guard_holder (cc_row s) = Some (r, Some (db_time (cc_since s r)))"
    "guard_holder (cc_row s) = Some (r', Some (db_time (cc_since s r')))"
    using assms unfolding conc_inv_def by blast+
  then show ?thesis by simp
qed

lemma db_time_claim: "t \<le> db_time t + CLAIM_STALE_AFTER"
  using db_time_gt [of t] by (simp add: CLAIM_STALE_AFTER_def RUN_BUDGET_def Minute_def Second_def)

lemma conc_inv_step:
  assumes "conc_step s s'" "conc_inv s"
  shows "conc_inv s'"
  using assms(1)
proof cases
  case (arrive r)
  then show ?thesis using assms(2) by (auto simp: conc_inv_def)
next
  case (no_slot r)
  then show ?thesis using assms(2) by (auto simp: conc_inv_def)
next
  case (slot r)
  then have "r \<notin> cc_slotted s" "r \<notin> cc_running s" using assms(2) by (auto simp: conc_inv_def)
  then show ?thesis using assms(2) slot by (auto simp: conc_inv_def)
next
  case (claim_lost r)
  then have "0 < card (cc_slotted s)" using assms(2) by (auto simp: conc_inv_def card_gt_0_iff)
  then show ?thesis using assms(2) claim_lost by (auto simp: conc_inv_def)
next
  case (claim_won r)
  have none: "cc_running s = {}" using claim_won assms(2) conc_claim_excluded by blast
  have "0 < card (cc_slotted s)" using assms(2) claim_won by (auto simp: conc_inv_def card_gt_0_iff)
  then show ?thesis using assms(2) claim_won none db_time_claim [of "cc_now s"] conc_claim_holder [of r s]
    by (auto simp: conc_inv_def)
next
  case (finish r)
  then have one: "cc_running s = {r}" using running_unique [OF assms(2)] by blast
  then show ?thesis using assms(2) finish by (auto simp: conc_inv_def)
next
  case (tick t)
  then show ?thesis using assms(2) by (auto simp: conc_inv_def)
qed

lemma conc_inv_reachable:
  assumes "conc_step\<^sup>*\<^sup>* s s'" "conc_init s"
  shows "conc_inv s'"
  using assms(1) by (induction rule: rtranclp_induct) (auto intro: conc_inv_step conc_init_inv [OF assms(2)])


definition conc_start :: conc where
  "conc_start = \<lparr>cc_now = 0, cc_row = a_row, cc_slots = 0, cc_waiting = {}, cc_slotted = {}, cc_running = {}, cc_since = (\<lambda>_. 0)\<rparr>"

definition conc_one :: conc where
  "conc_one = conc_start\<lparr>cc_slots := 1, cc_running := {4}, cc_row := a_row\<lparr>au_RunningRunID := Some 4, au_RunningSince := Some 0\<rparr>\<rparr>"

lemma conc_one_reachable: "conc_step\<^sup>*\<^sup>* conc_start conc_one"
proof -
  let ?s1 = "conc_start\<lparr>cc_waiting := insert 4 (cc_waiting conc_start)\<rparr>"
  let ?s2 = "?s1\<lparr>cc_waiting := cc_waiting ?s1 - {4}, cc_slotted := insert 4 (cc_slotted ?s1), cc_slots := cc_slots ?s1 + 1\<rparr>"
  have 1: "conc_step conc_start ?s1" by (rule arrive) (simp add: conc_start_def)
  have 2: "conc_step ?s1 ?s2" by (rule slot) (simp_all add: conc_start_def MAX_CONCURRENT_RUNS_def)
  have w: "conc_claim 4 ?s2 = (True, a_row\<lparr>au_RunningRunID := Some 4, au_RunningSince := Some 0\<rparr>)"
    by (simp add: conc_claim_def conc_start_def claim_row_def a_row_def guard_free_def db_time_def truncate_to_def)
  have "conc_step ?s2 (?s2\<lparr>cc_slotted := cc_slotted ?s2 - {4}, cc_running := insert 4 (cc_running ?s2),
                   cc_since := (cc_since ?s2)(4 := cc_now ?s2), cc_row := snd (conc_claim 4 ?s2)\<rparr>)"
    by (rule claim_won) (simp_all add: w [simplified])
  moreover have "?s2\<lparr>cc_slotted := cc_slotted ?s2 - {4}, cc_running := insert 4 (cc_running ?s2),
                   cc_since := (cc_since ?s2)(4 := cc_now ?s2), cc_row := snd (conc_claim 4 ?s2)\<rparr> = conc_one"
    unfolding w by (simp add: conc_start_def conc_one_def fun_eq_iff)
  ultimately have "conc_step ?s2 conc_one" by simp
  with 1 2 show ?thesis by (meson converse_rtranclp_into_rtranclp rtranclp.rtrancl_refl)
qed


end
