(* ===== verification/Db_Instances.thy ===== *)
theory Db_Instances
  imports Structs
begin

text \<open>
  Managed databases: the data of \<^verbatim>\<open>src/structs/DatabaseInstance.struct.go\<close> and
  \<^verbatim>\<open>src/structs/DatabaseInstanceEvent.struct.go\<close>, the tables they live in, and the queries of
  \<^verbatim>\<open>src/query/database_instances.query.go\<close> the lifecycle, the reconciler and the scheduler use,
  with the host-port ledger. The two password columns hold what \<^verbatim>\<open>crypto.Encrypt\<close> returned;
  the cipher is a pair of functions of the world. Floating-point limits are opaque text.
\<close>

section \<open>Data\<close>

definition DBStatusPending :: string where "DBStatusPending = ''pending''"
definition DBStatusProvisioning :: string where "DBStatusProvisioning = ''provisioning''"
definition DBStatusRunning :: string where "DBStatusRunning = ''running''"
definition DBStatusStopped :: string where "DBStatusStopped = ''stopped''"
definition DBStatusRestarting :: string where "DBStatusRestarting = ''restarting''"
definition DBStatusDegraded :: string where "DBStatusDegraded = ''degraded''"
definition DBStatusDeleting :: string where "DBStatusDeleting = ''deleting''"
definition DBStatusError :: string where "DBStatusError = ''error''"

lemmas db_status_defs = DBStatusPending_def DBStatusProvisioning_def DBStatusRunning_def DBStatusStopped_def
  DBStatusRestarting_def DBStatusDegraded_def DBStatusDeleting_def DBStatusError_def

definition status_IsValid :: "string \<Rightarrow> bool" where
  "status_IsValid s \<longleftrightarrow> s \<in> {DBStatusPending, DBStatusProvisioning, DBStatusRunning, DBStatusStopped,
     DBStatusRestarting, DBStatusDegraded, DBStatusDeleting, DBStatusError}"

definition IsTransitional :: "string \<Rightarrow> bool" where
  "IsTransitional s \<longleftrightarrow> s \<in> {DBStatusPending, DBStatusProvisioning, DBStatusRestarting, DBStatusDeleting}"

definition DBHealthNone :: string where "DBHealthNone = ''none''"
definition DBHealthStarting :: string where "DBHealthStarting = ''starting''"
definition DBHealthHealthy :: string where "DBHealthHealthy = ''healthy''"
definition DBHealthUnhealthy :: string where "DBHealthUnhealthy = ''unhealthy''"

definition health_IsValid :: "string \<Rightarrow> bool" where
  "health_IsValid h \<longleftrightarrow> h \<in> {DBHealthNone, DBHealthStarting, DBHealthHealthy, DBHealthUnhealthy}"

definition DBErrCodeProvisionTimeout :: string where "DBErrCodeProvisionTimeout = ''provision_timeout''"
definition DBErrCodeCreateFailed :: string where "DBErrCodeCreateFailed = ''create_failed''"
definition DBErrCodeStartFailed :: string where "DBErrCodeStartFailed = ''start_failed''"
definition DBErrCodeStopFailed :: string where "DBErrCodeStopFailed = ''stop_failed''"
definition DBErrCodeRemoveFailed :: string where "DBErrCodeRemoveFailed = ''remove_failed''"
definition DBErrCodeRestartLoop :: string where "DBErrCodeRestartLoop = ''restart_loop''"
definition DBErrCodeInitFailed :: string where "DBErrCodeInitFailed = ''init_failed''"
definition DBErrCodeContainerMissing :: string where "DBErrCodeContainerMissing = ''container_missing''"
definition DBErrCodeWorkerOffline :: string where "DBErrCodeWorkerOffline = ''worker_offline''"
definition DBErrCodeRestoreFailed :: string where "DBErrCodeRestoreFailed = ''restore_failed''"
definition DBErrCodeBackupStale :: string where "DBErrCodeBackupStale = ''backup_stale''"

lemmas db_code_defs = DBErrCodeProvisionTimeout_def DBErrCodeCreateFailed_def DBErrCodeStartFailed_def
  DBErrCodeStopFailed_def DBErrCodeRemoveFailed_def DBErrCodeRestartLoop_def DBErrCodeInitFailed_def
  DBErrCodeContainerMissing_def DBErrCodeWorkerOffline_def DBErrCodeRestoreFailed_def DBErrCodeBackupStale_def

record databaseError =
  de_Code :: string
  de_Message :: string
  de_OccurredAt :: time
  de_Retryable :: bool

record databaseInstance =
  di_ID :: int
  di_Name :: string
  di_Engine :: string
  di_EngineVersion :: string
  di_WorkerID :: int
  di_Status :: string
  di_Port :: int
  di_RootPassword :: "string option"
  di_DatabaseName :: string
  di_Username :: string
  di_Password :: "string option"
  di_CPULimit :: "string option"
  di_MemoryLimit :: "int option"
  di_HealthStatus :: string
  di_LastError :: "databaseError option"
  di_SnapshotSchedule :: "string option"
  di_RetentionCount :: "int option"
  di_BackupDestinationID :: "int option"
  di_MirrorBackupDestinationID :: "int option"
  di_ContainerName :: string
  di_VolumeName :: string
  di_DeletionProtection :: bool
  di_PendingFinalSnapshot :: bool
  di_VolumeSizeBytes :: "int option"
  di_VolumeSizeCheckedAt :: "time option"
  di_Active :: bool
  di_StartedAt :: "time option"
  di_UpdatedAt :: time
  di_InsertedAt :: time

definition DBEventRequested :: string where "DBEventRequested = ''requested''"
definition DBEventAccepted :: string where "DBEventAccepted = ''accepted''"
definition DBEventTransition :: string where "DBEventTransition = ''transition''"
definition DBEventHealth :: string where "DBEventHealth = ''health''"
definition DBEventFailed :: string where "DBEventFailed = ''failed''"

record databaseInstanceEvent =
  ev_DatabaseInstanceID :: int
  ev_Kind :: string
  ev_Status :: "string option"
  ev_Message :: string
  ev_Code :: "string option"
  ev_Actor :: "string option"

text \<open>A message broadcast to the admin clients.\<close>

datatype adminMessage =
    DbInstanceChanged int string string "databaseError option"
  | DbInstanceDeleted int string
  | DbHealthStatus int string

record db_world = tables +
  d_instances :: "databaseInstance list"
  d_next_id :: int
  d_events :: "databaseInstanceEvent list"
  d_broadcasts :: "adminMessage list"
  d_encrypt :: "string \<Rightarrow> go_error + string"
  d_decrypt :: "string \<Rightarrow> go_error + string"

section \<open>Reading instances\<close>

definition decrypt_column :: "string \<Rightarrow> ('a db_world_scheme) \<Rightarrow> string option \<Rightarrow> go_error + string option" where
  "decrypt_column what w v =
     (case v of
        None \<Rightarrow> Inr None
      | Some c \<Rightarrow> if c = [] then Inr (Some c)
          else (case d_decrypt w c of Inl e \<Rightarrow> Inl (''failed to decrypt database '' @ what @ '': '' @ e) | Inr p \<Rightarrow> Inr (Some p)))"

definition scanDatabaseInstance :: "'a db_world_scheme \<Rightarrow> databaseInstance \<Rightarrow> go_error + databaseInstance" where
  "scanDatabaseInstance w d =
     (case decrypt_column ''root password'' w (di_RootPassword d) of
        Inl e \<Rightarrow> Inl e
      | Inr rp \<Rightarrow>
          (case decrypt_column ''password'' w (di_Password d) of
             Inl e \<Rightarrow> Inl e
           | Inr p \<Rightarrow> Inr (d\<lparr>di_RootPassword := rp, di_Password := p\<rparr>)))"

fun scan_rows :: "'a db_world_scheme \<Rightarrow> databaseInstance list \<Rightarrow> go_error + databaseInstance list" where
  "scan_rows w [] = Inr []"
| "scan_rows w (d # ds) =
     (case scanDatabaseInstance w d of
        Inl e \<Rightarrow> Inl (''failed to scan database instance: '' @ e)
      | Inr x \<Rightarrow> (case scan_rows w ds of Inl e \<Rightarrow> Inl e | Inr xs \<Rightarrow> Inr (x # xs)))"

definition query_instances ::
  "('a db_world_scheme \<Rightarrow> databaseInstance list) \<Rightarrow> 'a db_world_scheme \<Rightarrow> (go_error + databaseInstance list) \<times> 'a db_world_scheme" where
  "query_instances q w =
     (case query (\<lambda>w. scan_rows w (q w)) w of
        (Inl e, w1) \<Rightarrow> (Inl (''failed to execute sql query: '' @ e), w1)
      | (Inr r, w1) \<Rightarrow> (r, w1))"

record listDatabaseInstancesRequest =
  ld_Limit :: int
  ld_Offset :: int
  ld_WorkerID :: "int option"
  ld_Engine :: "string option"
  ld_Status :: "string option"

definition opt_eq :: "'b option \<Rightarrow> 'b \<Rightarrow> bool" where
  "opt_eq f v \<longleftrightarrow> (case f of None \<Rightarrow> True | Some x \<Rightarrow> v = x)"

definition matches_request :: "listDatabaseInstancesRequest \<Rightarrow> databaseInstance \<Rightarrow> bool" where
  "matches_request req d \<longleftrightarrow> di_Active d \<and> opt_eq (ld_WorkerID req) (di_WorkerID d) \<and> opt_eq (ld_Engine req) (di_Engine d)
     \<and> opt_eq (ld_Status req) (di_Status d)"

definition ListDatabaseInstances ::
  "listDatabaseInstancesRequest \<Rightarrow> 'a db_world_scheme \<Rightarrow> (go_error + databaseInstance list \<times> nat) \<times> 'a db_world_scheme" where
  "ListDatabaseInstances req w =
     (case query (\<lambda>w. length (filter (matches_request req) (d_instances w))) w of
        (Inl e, w1) \<Rightarrow> (Inl (''failed to execute count query: '' @ e), w1)
      | (Inr n, w1) \<Rightarrow>
          (case query_instances (\<lambda>w. page (ld_Limit req) (ld_Offset req) (rev (sort_key di_ID
                     (filter (matches_request req) (d_instances w))))) w1 of
                (Inl e, w2) \<Rightarrow> (Inl e, w2)
              | (Inr ds, w2) \<Rightarrow> (Inr (ds, n), w2)))"

definition select_instance :: "int \<Rightarrow> databaseInstance list \<Rightarrow> databaseInstance option" where
  "select_instance i ds = List.find (\<lambda>d. di_ID d = i \<and> di_Active d) ds"

definition GetDatabaseInstanceByID :: "int \<Rightarrow> 'a db_world_scheme \<Rightarrow> (go_error + databaseInstance) \<times> 'a db_world_scheme" where
  "GetDatabaseInstanceByID i w =
     (case query (\<lambda>w. map_option (scanDatabaseInstance w) (select_instance i (d_instances w))) w of
        (Inl e, w1) \<Rightarrow> (Inl (''failed to scan database instance: '' @ e), w1)
      | (Inr None, w1) \<Rightarrow> (Inl ErrNotFound, w1)
      | (Inr (Some (Inl e)), w1) \<Rightarrow> (Inl (''failed to scan database instance: '' @ e), w1)
      | (Inr (Some (Inr d)), w1) \<Rightarrow> (Inr d, w1))"

definition GetDatabaseInstanceByName :: "string \<Rightarrow> 'a db_world_scheme \<Rightarrow> (go_error + databaseInstance) \<times> 'a db_world_scheme" where
  "GetDatabaseInstanceByName name w =
     (case query (\<lambda>w. map_option (scanDatabaseInstance w) (List.find (\<lambda>d. di_Name d = name \<and> di_Active d) (d_instances w))) w of
        (Inl e, w1) \<Rightarrow> (Inl (''failed to scan database instance: '' @ e), w1)
      | (Inr None, w1) \<Rightarrow> (Inl ''failed to scan database instance: sql: no rows in result set'', w1)
      | (Inr (Some (Inl e)), w1) \<Rightarrow> (Inl (''failed to scan database instance: '' @ e), w1)
      | (Inr (Some (Inr d)), w1) \<Rightarrow> (Inr d, w1))"

definition ListDatabaseInstancesByWorker ::
  "int \<Rightarrow> 'a db_world_scheme \<Rightarrow> (go_error + databaseInstance list) \<times> 'a db_world_scheme" where
  "ListDatabaseInstancesByWorker workerID w =
     query_instances (\<lambda>w. sort_key di_ID (filter (\<lambda>d. di_WorkerID d = workerID \<and> di_Active d) (d_instances w))) w"

definition ListStuckDatabaseInstances ::
  "time \<Rightarrow> 'a db_world_scheme \<Rightarrow> (go_error + databaseInstance list) \<times> 'a db_world_scheme" where
  "ListStuckDatabaseInstances cutoff w =
     query_instances (\<lambda>w. sort_key di_ID (filter (\<lambda>d. di_Active d \<and> IsTransitional (di_Status d) \<and> di_UpdatedAt d < cutoff)
       (d_instances w))) w"

section \<open>Writing instances\<close>

record updateDatabaseInstanceRequest =
  ui_Name :: "string option"
  ui_Status :: "string option"
  ui_Port :: "int option"
  ui_RootPassword :: "string option"
  ui_Password :: "string option"
  ui_CPULimit :: "string option"
  ui_MemoryLimit :: "int option"
  ui_HealthStatus :: "string option"
  ui_SnapshotSchedule :: "string option"
  ui_RetentionCount :: "int option"
  ui_BackupDestinationID :: "int option"
  ui_StartedAt :: "time option"
  ui_Active :: "bool option"
  ui_MirrorBackupDestinationID :: "int option"
  ui_ClearMirrorDestination :: bool
  ui_DeletionProtection :: "bool option"
  ui_PendingFinalSnapshot :: "bool option"
  ui_VolumeSizeBytes :: "int option"
  ui_LastError :: "databaseError option"
  ui_ClearLastError :: bool
  ui_ClearSnapshotSchedule :: bool
  ui_ClearRetentionCount :: bool
  ui_ClearBackupDestination :: bool

definition no_update :: updateDatabaseInstanceRequest where
  "no_update = \<lparr>ui_Name = None, ui_Status = None, ui_Port = None, ui_RootPassword = None, ui_Password = None,
     ui_CPULimit = None, ui_MemoryLimit = None, ui_HealthStatus = None, ui_SnapshotSchedule = None,
     ui_RetentionCount = None, ui_BackupDestinationID = None, ui_StartedAt = None, ui_Active = None,
     ui_MirrorBackupDestinationID = None, ui_ClearMirrorDestination = False, ui_DeletionProtection = None,
     ui_PendingFinalSnapshot = None, ui_VolumeSizeBytes = None, ui_LastError = None, ui_ClearLastError = False,
     ui_ClearSnapshotSchedule = False, ui_ClearRetentionCount = False, ui_ClearBackupDestination = False\<rparr>"

text \<open>The SET list, with the passwords already encrypted.\<close>

definition clear_or_set :: "bool \<Rightarrow> 'b option \<Rightarrow> ('b option \<Rightarrow> 'a \<Rightarrow> 'a) \<Rightarrow> 'a \<Rightarrow> 'a" where
  "clear_or_set clear v f = (if clear then f None else set_opt v (\<lambda>x. f (Some x)))"

definition instance_sets :: "updateDatabaseInstanceRequest \<Rightarrow> string option \<Rightarrow> string option \<Rightarrow> time \<Rightarrow> databaseInstance \<Rightarrow> databaseInstance" where
  "instance_sets req rootPw pw now =
     clear_or_set (ui_ClearLastError req) (ui_LastError req) (\<lambda>v d. d\<lparr>di_LastError := v\<rparr>) \<circ>
     set_opt (ui_VolumeSizeBytes req) (\<lambda>v d. d\<lparr>di_VolumeSizeBytes := Some v, di_VolumeSizeCheckedAt := Some (db_time now)\<rparr>) \<circ>
     set_opt (ui_PendingFinalSnapshot req) (\<lambda>v d. d\<lparr>di_PendingFinalSnapshot := v\<rparr>) \<circ>
     set_opt (ui_DeletionProtection req) (\<lambda>v d. d\<lparr>di_DeletionProtection := v\<rparr>) \<circ>
     set_opt (ui_Active req) (\<lambda>v d. d\<lparr>di_Active := v\<rparr>) \<circ>
     set_opt (ui_StartedAt req) (\<lambda>v d. d\<lparr>di_StartedAt := Some (db_time v)\<rparr>) \<circ>
     clear_or_set (ui_ClearBackupDestination req) (ui_BackupDestinationID req) (\<lambda>v d. d\<lparr>di_BackupDestinationID := v\<rparr>) \<circ>
     clear_or_set (ui_ClearMirrorDestination req) (ui_MirrorBackupDestinationID req) (\<lambda>v d. d\<lparr>di_MirrorBackupDestinationID := v\<rparr>) \<circ>
     clear_or_set (ui_ClearRetentionCount req) (ui_RetentionCount req) (\<lambda>v d. d\<lparr>di_RetentionCount := v\<rparr>) \<circ>
     clear_or_set (ui_ClearSnapshotSchedule req) (ui_SnapshotSchedule req) (\<lambda>v d. d\<lparr>di_SnapshotSchedule := v\<rparr>) \<circ>
     set_opt (ui_HealthStatus req) (\<lambda>v d. d\<lparr>di_HealthStatus := v\<rparr>) \<circ>
     set_opt (ui_MemoryLimit req) (\<lambda>v d. d\<lparr>di_MemoryLimit := Some v\<rparr>) \<circ>
     set_opt (ui_CPULimit req) (\<lambda>v d. d\<lparr>di_CPULimit := Some v\<rparr>) \<circ>
     set_opt pw (\<lambda>v d. d\<lparr>di_Password := Some v\<rparr>) \<circ>
     set_opt rootPw (\<lambda>v d. d\<lparr>di_RootPassword := Some v\<rparr>) \<circ>
     set_opt (ui_Port req) (\<lambda>v d. d\<lparr>di_Port := v\<rparr>) \<circ>
     set_opt (ui_Status req) (\<lambda>v d. d\<lparr>di_Status := v\<rparr>) \<circ>
     set_opt (ui_Name req) (\<lambda>v d. d\<lparr>di_Name := v\<rparr>)"

text \<open>\<^verbatim>\<open>updated_at\<close> moves when a column of the row changes.\<close>

definition touch_row :: "time \<Rightarrow> databaseInstance \<Rightarrow> databaseInstance \<Rightarrow> databaseInstance" where
  "touch_row now d d' = (if d' = d then d else d'\<lparr>di_UpdatedAt := db_time now\<rparr>)"

definition encrypt_column :: "string \<Rightarrow> 'a db_world_scheme \<Rightarrow> string option \<Rightarrow> go_error + string option" where
  "encrypt_column what w v =
     (case v of
        None \<Rightarrow> Inr None
      | Some p \<Rightarrow> if p = [] then Inr (Some p)
          else (case d_encrypt w p of Inl e \<Rightarrow> Inl (''failed to encrypt database '' @ what @ '': '' @ e) | Inr c \<Rightarrow> Inr (Some c)))"

definition ErrNoChanges :: go_error where "ErrNoChanges = ''no changes applied''"

text \<open>
  The unique indexes over the claim columns, which are NULL for an inactive row: no two active
  instances share a name, or a port of one worker. A statement that would break them fails.
\<close>

definition unique_claims :: "databaseInstance list \<Rightarrow> bool" where
  "unique_claims ds \<longleftrightarrow> distinct (map di_Name (filter di_Active ds))
     \<and> distinct (map (\<lambda>d. (di_WorkerID d, di_Port d)) (filter di_Active ds))"

definition dup_entry :: go_error where "dup_entry = ''Error 1062 (23000): Duplicate entry''"

definition write_instances :: "databaseInstance list \<Rightarrow> 'a db_world_scheme \<Rightarrow> go_error option \<times> 'a db_world_scheme" where
  "write_instances ds w = (if unique_claims ds then (None, w\<lparr>d_instances := ds\<rparr>) else (Some dup_entry, w))"

definition UpdateDatabaseInstance ::
  "int \<Rightarrow> updateDatabaseInstanceRequest \<Rightarrow> 'a db_world_scheme \<Rightarrow> (go_error + databaseInstance) \<times> 'a db_world_scheme" where
  "UpdateDatabaseInstance i req w =
     (case encrypt_column ''root password'' w (ui_RootPassword req) of
        Inl e \<Rightarrow> (Inl e, w)
      | Inr rootPw \<Rightarrow>
          (case encrypt_column ''password'' w (ui_Password req) of
             Inl e \<Rightarrow> (Inl e, w)
           | Inr pw \<Rightarrow>
               if req = no_update then (Inl ErrNoChanges, w)
               else let now = clock w in
                 case exec (\<lambda>w. write_instances (update_where (\<lambda>d. di_ID d = i)
                        (\<lambda>d. touch_row (clock w) d (instance_sets req rootPw pw now d)) (d_instances w)) w) w of
                   (Inl e, w1) \<Rightarrow> (Inl (''failed to execute sql query: '' @ e), w1)
                 | (Inr (Some e), w1) \<Rightarrow> (Inl (''failed to execute sql query: '' @ e), w1)
                 | (Inr None, w1) \<Rightarrow> GetDatabaseInstanceByID i w1))"

record createDatabaseInstanceRequest =
  cd_Name :: string
  cd_Engine :: string
  cd_EngineVersion :: string
  cd_WorkerID :: int
  cd_Port :: int
  cd_RootPassword :: string
  cd_DatabaseName :: string
  cd_Username :: string
  cd_Password :: string
  cd_CPULimit :: "string option"
  cd_MemoryLimit :: "int option"
  cd_SnapshotSchedule :: "string option"
  cd_RetentionCount :: "int option"
  cd_BackupDestinationID :: "int option"
  cd_ContainerName :: string
  cd_VolumeName :: string

text \<open>The row an INSERT stores, the columns it does not name at their defaults.\<close>

definition instance_row :: "int \<Rightarrow> time \<Rightarrow> string option \<Rightarrow> string option \<Rightarrow> createDatabaseInstanceRequest \<Rightarrow> databaseInstance" where
  "instance_row i now rootPw pw req =
     \<lparr>di_ID = i, di_Name = cd_Name req, di_Engine = cd_Engine req, di_EngineVersion = cd_EngineVersion req,
      di_WorkerID = cd_WorkerID req, di_Status = DBStatusPending, di_Port = cd_Port req, di_RootPassword = rootPw,
      di_DatabaseName = cd_DatabaseName req, di_Username = cd_Username req, di_Password = pw,
      di_CPULimit = cd_CPULimit req, di_MemoryLimit = cd_MemoryLimit req, di_HealthStatus = DBHealthNone,
      di_LastError = None, di_SnapshotSchedule = cd_SnapshotSchedule req, di_RetentionCount = cd_RetentionCount req,
      di_BackupDestinationID = cd_BackupDestinationID req, di_MirrorBackupDestinationID = None,
      di_ContainerName = cd_ContainerName req, di_VolumeName = cd_VolumeName req, di_DeletionProtection = False,
      di_PendingFinalSnapshot = False, di_VolumeSizeBytes = None, di_VolumeSizeCheckedAt = None, di_Active = True,
      di_StartedAt = None, di_UpdatedAt = db_time now, di_InsertedAt = db_time now\<rparr>"

definition insert_instance ::
  "string option \<Rightarrow> string option \<Rightarrow> createDatabaseInstanceRequest \<Rightarrow> 'a db_world_scheme \<Rightarrow> (go_error + int) \<times> 'a db_world_scheme" where
  "insert_instance rootPw pw req w =
     (case write_instances (d_instances w @ [instance_row (d_next_id w) (clock w) rootPw pw req]) w of
        (Some e, w1) \<Rightarrow> (Inl e, w1)
      | (None, w1) \<Rightarrow> (Inr (d_next_id w), w1\<lparr>d_next_id := d_next_id w + 1\<rparr>))"

definition CreateDatabaseInstance ::
  "createDatabaseInstanceRequest \<Rightarrow> 'a db_world_scheme \<Rightarrow> (go_error + databaseInstance) \<times> 'a db_world_scheme" where
  "CreateDatabaseInstance req w =
     (case encrypt_column ''root password'' w (Some (cd_RootPassword req)) of
        Inl e \<Rightarrow> (Inl e, w)
      | Inr rootPw \<Rightarrow>
          (case encrypt_column ''password'' w (Some (cd_Password req)) of
             Inl e \<Rightarrow> (Inl e, w)
           | Inr pw \<Rightarrow>
               (case exec (insert_instance rootPw pw req) w of
                  (Inl e, w1) \<Rightarrow> (Inl (''failed to execute sql query: '' @ e), w1)
                | (Inr (Inl e), w1) \<Rightarrow> (Inl (''failed to execute sql query: '' @ e), w1)
                | (Inr (Inr i), w1) \<Rightarrow> GetDatabaseInstanceByID i w1)))"

definition DeleteDatabaseInstance :: "int \<Rightarrow> 'a db_world_scheme \<Rightarrow> go_error option \<times> 'a db_world_scheme" where
  "DeleteDatabaseInstance i w =
     exec_unit (\<lambda>w. w\<lparr>d_instances := update_where (\<lambda>d. di_ID d = i)
       (\<lambda>d. touch_row (clock w) d (d\<lparr>di_Active := False\<rparr>)) (d_instances w)\<rparr>) w"

definition CreateDatabaseInstanceEvent :: "databaseInstanceEvent \<Rightarrow> 'a db_world_scheme \<Rightarrow> go_error option \<times> 'a db_world_scheme" where
  "CreateDatabaseInstanceEvent e w =
     (if ev_DatabaseInstanceID e = 0 \<or> ev_Kind e = [] then (Some ''database_instance_id and kind are required'', w)
      else case exec_unit (\<lambda>w. w\<lparr>d_events := d_events w @ [e]\<rparr>) w of
             (Some x, w1) \<Rightarrow> (Some (''failed to execute sql query: '' @ x), w1)
           | (None, w1) \<Rightarrow> (None, w1))"

record listDatabaseInstanceEventsRequest =
  le_DatabaseInstanceID :: int
  le_Kind :: "string option"
  le_Limit :: int
  le_Offset :: int

text \<open>Rows are appended, so the newest id comes first in the reversed table.\<close>

definition ListDatabaseInstanceEvents ::
  "listDatabaseInstanceEventsRequest \<Rightarrow> 'a db_world_scheme \<Rightarrow> (go_error + databaseInstanceEvent list \<times> nat) \<times> 'a db_world_scheme" where
  "ListDatabaseInstanceEvents req w =
     (let sel = (\<lambda>w. filter (\<lambda>e. ev_DatabaseInstanceID e = le_DatabaseInstanceID req \<and> opt_eq (le_Kind req) (ev_Kind e)) (d_events w)) in
      case query (\<lambda>w. length (sel w)) w of
        (Inl e, w1) \<Rightarrow> (Inl (''failed to execute count query: '' @ e), w1)
      | (Inr n, w1) \<Rightarrow>
          (case query (\<lambda>w. page (le_Limit req) (le_Offset req) (rev (sel w))) w1 of
                (Inl e, w2) \<Rightarrow> (Inl (''failed to execute sql query: '' @ e), w2)
              | (Inr es, w2) \<Rightarrow> (Inr (es, n), w2)))"

section \<open>The host-port ledger\<close>

record portConflict =
  pc_Kind :: string
  pc_ID :: int
  pc_Name :: string
  pc_Port :: int

text \<open>The containers published on a worker: placement is resolved through the owning stack.\<close>

definition placed_on :: "int \<Rightarrow> stack list \<Rightarrow> container \<Rightarrow> (container \<times> string list) list" where
  "placed_on workerID sts c =
     (case port_view (c_PortMappings c) of
         HostPorts ps \<Rightarrow>
           if c_Active c \<and> list_ex (\<lambda>st. st_ID st = c_StackID c \<and> st_WorkerID st = Some workerID \<and> st_Active st) sts
           then [(c, ps)] else []
       | _ \<Rightarrow> [])"

definition published :: "int \<Rightarrow> 'a tables_scheme \<Rightarrow> (container \<times> string list) list" where
  "published workerID w = concat (map (placed_on workerID (stacks w)) (containers w))"

definition FindPortConflict ::
  "int \<Rightarrow> int \<Rightarrow> int \<Rightarrow> 'a db_world_scheme \<Rightarrow> (go_error + portConflict option) \<times> 'a db_world_scheme" where
  "FindPortConflict workerID port excludeInstanceID w =
     (case query (\<lambda>w. List.find (\<lambda>d. di_WorkerID d = workerID \<and> di_Port d = port \<and> di_Active d
                      \<and> (excludeInstanceID > 0 \<longrightarrow> di_ID d \<noteq> excludeInstanceID)) (d_instances w)) w of
        (Inl e, w1) \<Rightarrow> (Inl (''failed to check database port conflict: '' @ e), w1)
      | (Inr (Some d), w1) \<Rightarrow> (Inr (Some \<lparr>pc_Kind = ''database'', pc_ID = di_ID d, pc_Name = di_Name d, pc_Port = port\<rparr>), w1)
      | (Inr None, w1) \<Rightarrow>
          (case query (published workerID) w1 of
             (Inl e, w2) \<Rightarrow> (Inl (''failed to check container port conflict: '' @ e), w2)
           | (Inr cs, w2) \<Rightarrow>
               (Inr (map_option (\<lambda>(c, _). \<lparr>pc_Kind = ''container'', pc_ID = c_ID c, pc_Name = c_Name c, pc_Port = port\<rparr>)
                  (List.find (\<lambda>(_, ps). show_int port \<in> set ps) cs)), w2)))"

definition claim_database :: "databaseInstance \<Rightarrow> (int \<rightharpoonup> portConflict) \<Rightarrow> (int \<rightharpoonup> portConflict)" where
  "claim_database d m = m(di_Port d \<mapsto> \<lparr>pc_Kind = ''database'', pc_ID = di_ID d, pc_Name = di_Name d, pc_Port = di_Port d\<rparr>)"

definition claim_port :: "container \<Rightarrow> string \<Rightarrow> (int \<rightharpoonup> portConflict) \<Rightarrow> (int \<rightharpoonup> portConflict)" where
  "claim_port c hp m =
     (case atoi hp of
        None \<Rightarrow> m
      | Some p \<Rightarrow> if m p \<noteq> None then m
          else m(p \<mapsto> \<lparr>pc_Kind = ''container'', pc_ID = c_ID c, pc_Name = c_Name c, pc_Port = p\<rparr>))"

definition claim_container :: "container \<times> string list \<Rightarrow> (int \<rightharpoonup> portConflict) \<Rightarrow> (int \<rightharpoonup> portConflict)" where
  "claim_container cp m = fold (claim_port (fst cp)) (snd cp) m"

definition ClaimedPortsOnWorker ::
  "int \<Rightarrow> 'a db_world_scheme \<Rightarrow> (go_error + (int \<rightharpoonup> portConflict)) \<times> 'a db_world_scheme" where
  "ClaimedPortsOnWorker workerID w =
     (case query (\<lambda>w. filter (\<lambda>d. di_WorkerID d = workerID \<and> di_Active d) (d_instances w)) w of
        (Inl e, w1) \<Rightarrow> (Inl (''failed to list claimed database ports: '' @ e), w1)
      | (Inr ds, w1) \<Rightarrow>
          (let claimed = fold claim_database ds Map.empty in
           case query (published workerID) w1 of
             (Inl e, w2) \<Rightarrow> (Inl (''failed to list claimed container ports: '' @ e), w2)
           | (Inr cs, w2) \<Rightarrow> (Inr (fold claim_container cs claimed), w2)))"

definition DB_PORT_RANGE_MIN :: int where "DB_PORT_RANGE_MIN = 20000"
definition DB_PORT_RANGE_MAX :: int where "DB_PORT_RANGE_MAX = 29999"
definition ErrNoFreePort :: go_error where "ErrNoFreePort = ''no free port available in the managed range''"

function firstFreePort :: "(int \<rightharpoonup> portConflict) \<Rightarrow> int \<Rightarrow> int option" where
  "firstFreePort claimed port =
     (if port \<le> DB_PORT_RANGE_MAX
      then (if claimed port = None then Some port else firstFreePort claimed (port + 1)) else None)"
  by pat_completeness auto
termination
  by (relation "measure (\<lambda>(_, p). nat (DB_PORT_RANGE_MAX + 1 - p))") (auto simp: DB_PORT_RANGE_MAX_def)

declare firstFreePort.simps [simp del]

definition AllocateDatabasePort :: "int \<Rightarrow> 'a db_world_scheme \<Rightarrow> (go_error + int) \<times> 'a db_world_scheme" where
  "AllocateDatabasePort workerID w =
     (case ClaimedPortsOnWorker workerID w of
        (Inl e, w1) \<Rightarrow> (Inl e, w1)
      | (Inr claimed, w1) \<Rightarrow>
          (case firstFreePort claimed DB_PORT_RANGE_MIN of
             None \<Rightarrow> (Inl ErrNoFreePort, w1)
           | Some p \<Rightarrow> (Inr p, w1)))"

subsection \<open>Printing a port and reading it back\<close>

lemma digit_char: "n < 10 \<Longrightarrow> is_digit (char_of (48 + n)) \<and> digit_val (char_of (48 + n)) = int n"
  by (simp add: is_digit_def digit_val_def)

lemma digits_val_snoc: "digits_val (ds @ [d]) = 10 * digits_val ds + digit_val d"
  by (simp add: digits_val_def)

lemma show_nat_digits: "show_nat n \<noteq> [] \<and> list_all is_digit (show_nat n) \<and> digits_val (show_nat n) = int n"
proof (induction n rule: show_nat.induct)
  case (1 n)
  show ?case
  proof (cases "n < 10")
    case True
    then show ?thesis using digit_char [of n] by (simp add: show_nat.simps [of n] digits_val_def)
  next
    case False
    have e: "show_nat n = show_nat (n div 10) @ [char_of (48 + n mod 10)]"
      using False by (simp add: show_nat.simps [of n])
    have d: "is_digit (char_of (48 + n mod 10))" "digit_val (char_of (48 + n mod 10)) = int (n mod 10)"
      using digit_char [of "n mod 10"] by simp_all
    have "int n = 10 * int (n div 10) + int (n mod 10)" by presburger
    then show ?thesis unfolding e using 1 [OF False] d by (simp add: digits_val_snoc)
  qed
qed

lemma atoi_show_int: "0 \<le> p \<Longrightarrow> p \<le> max_int64 \<Longrightarrow> atoi (show_int p) = Some p"
proof -
  assume p: "0 \<le> p" "p \<le> max_int64"
  obtain c cs where s: "show_nat (nat p) = c # cs" using show_nat_digits [of "nat p"] by (cases "show_nat (nat p)") auto
  have "is_digit c" using show_nat_digits [of "nat p"] s by simp
  then have "c \<noteq> CHR ''-''" "c \<noteq> CHR ''+''" by (auto simp: is_digit_def)
  then show ?thesis using p show_nat_digits [of "nat p"] s by (simp add: atoi_def show_int_def min_int64_def)
qed

subsection \<open>The ledger is consulted consistently\<close>

lemma firstFreePort_spec:
  "(case firstFreePort m p of
      Some q \<Rightarrow> p \<le> q \<and> q \<le> DB_PORT_RANGE_MAX \<and> m q = None \<and> (\<forall>r. p \<le> r \<and> r < q \<longrightarrow> m r \<noteq> None)
    | None \<Rightarrow> \<forall>r. p \<le> r \<and> r \<le> DB_PORT_RANGE_MAX \<longrightarrow> m r \<noteq> None)"
proof (induction m p rule: firstFreePort.induct)
  case (1 m p)
  show ?case
  proof (cases "p \<le> DB_PORT_RANGE_MAX \<and> m p \<noteq> None")
    case True
    have *: "r = p \<or> p + 1 \<le> r" if "p \<le> r" for r using that by linarith
    have "firstFreePort m p = firstFreePort m (p + 1)" using True by (subst firstFreePort.simps) auto
    then show ?thesis using 1 True * by (auto split: option.splits)
  next
    case False
    then show ?thesis by (auto simp: firstFreePort.simps [of m p])
  qed
qed

lemma dom_claim_databases: "dom (fold claim_database ds m) = di_Port ` set ds \<union> dom m"
  by (induction ds arbitrary: m) (auto simp: claim_database_def)

lemma dom_claim_port: "dom (claim_port c hp m) = dom m \<union> (case atoi hp of None \<Rightarrow> {} | Some p \<Rightarrow> {p})"
  by (auto simp: claim_port_def split: option.splits)

lemma dom_claim_ports: "dom (fold (claim_port c) hps m) = dom m \<union> {p. \<exists>hp \<in> set hps. atoi hp = Some p}"
  by (induction hps arbitrary: m) (auto simp: dom_claim_port split: option.splits)

lemma dom_claim_containers:
  "dom (fold claim_container cs m) = dom m \<union> {p. \<exists>(c, hps) \<in> set cs. \<exists>hp \<in> set hps. atoi hp = Some p}"
  by (induction cs arbitrary: m) (auto simp: dom_claim_ports claim_container_def)

definition port_taken :: "int \<Rightarrow> 'a db_world_scheme \<Rightarrow> int \<Rightarrow> bool" where
  "port_taken workerID w p \<longleftrightarrow>
     (\<exists>d \<in> set (d_instances w). di_WorkerID d = workerID \<and> di_Active d \<and> di_Port d = p) \<or>
     (\<exists>(c, hps) \<in> set (published workerID w). \<exists>hp \<in> set hps. atoi hp = Some p)"

lemma query_frame_tables:
  "query q w = (r, w1) \<Longrightarrow> d_instances w1 = d_instances w \<and> containers w1 = containers w \<and> stacks w1 = stacks w"
  using query_frame [of d_instances q w] query_frame [of containers q w] query_frame [of stacks q w] by simp

lemma published_io: "published i (w\<lparr>clock := c, db_script := s\<rparr>) = published i w"
  by (simp add: published_def)

lemma ClaimedPorts_taken:
  assumes "ClaimedPortsOnWorker workerID w = (Inr m, w1)"
  shows "m p \<noteq> None \<longleftrightarrow> port_taken workerID w p"
proof -
  obtain ds w2 cs where q1: "query (\<lambda>w. filter (\<lambda>d. di_WorkerID d = workerID \<and> di_Active d) (d_instances w)) w = (Inr ds, w2)"
    and q2: "query (published workerID) w2 = (Inr cs, w1)" and m: "m = fold claim_container cs (fold claim_database ds Map.empty)"
    using assms by (auto simp: ClaimedPortsOnWorker_def Let_def split: prod.splits sum.splits)
  have ds: "ds = filter (\<lambda>d. di_WorkerID d = workerID \<and> di_Active d) (d_instances w)"
    using query_Inr [OF q1] by simp
  have "cs = published workerID w2" using q2 published_io by (rule query_Inr)
  also have "\<dots> = published workerID w" using query_frame_tables [OF q1] by (simp add: published_def)
  finally have cs: "cs = published workerID w" .
  have "m p \<noteq> None \<longleftrightarrow> p \<in> dom m" by auto
  then show ?thesis unfolding m dom_claim_containers dom_claim_databases by (auto simp: ds cs port_taken_def)
qed

lemma AllocateDatabasePort_lowest:
  assumes "AllocateDatabasePort workerID w = (Inr p, w1)"
  shows "DB_PORT_RANGE_MIN \<le> p \<and> p \<le> DB_PORT_RANGE_MAX \<and> \<not> port_taken workerID w p
    \<and> (\<forall>q. DB_PORT_RANGE_MIN \<le> q \<and> q < p \<longrightarrow> port_taken workerID w q)"
proof -
  obtain m w2 where c: "ClaimedPortsOnWorker workerID w = (Inr m, w2)" and f: "firstFreePort m DB_PORT_RANGE_MIN = Some p"
    using assms by (auto simp: AllocateDatabasePort_def split: prod.splits sum.splits option.splits)
  have "DB_PORT_RANGE_MIN \<le> p \<and> p \<le> DB_PORT_RANGE_MAX \<and> m p = None \<and> (\<forall>q. DB_PORT_RANGE_MIN \<le> q \<and> q < p \<longrightarrow> m q \<noteq> None)"
    using firstFreePort_spec [where m = m and p = DB_PORT_RANGE_MIN] f by simp
  then show ?thesis using ClaimedPorts_taken [OF c] by blast
qed

lemma FindPortConflict_taken:
  assumes "FindPortConflict workerID p 0 w = (Inr (Some c), w1)" "0 \<le> p" "p \<le> max_int64"
  shows "port_taken workerID w p"
proof -
  consider (db) d w2 where "query (\<lambda>w. List.find (\<lambda>d. di_WorkerID d = workerID \<and> di_Port d = p \<and> di_Active d) (d_instances w)) w = (Inr (Some d), w2)"
    | (cont) w2 cs w3 cc ps where
        "query (\<lambda>w. List.find (\<lambda>d. di_WorkerID d = workerID \<and> di_Port d = p \<and> di_Active d) (d_instances w)) w = (Inr None, w2)"
        "query (published workerID) w2 = (Inr cs, w3)" "List.find (\<lambda>(_, ps). show_int p \<in> set ps) cs = Some (cc, ps)"
    using assms(1) by (auto simp: FindPortConflict_def split: prod.splits sum.splits option.splits)
  then show ?thesis
  proof cases
    case db
    from query_Inr [OF db] have "List.find (\<lambda>d. di_WorkerID d = workerID \<and> di_Port d = p \<and> di_Active d) (d_instances w) = Some d"
      by simp
    then show ?thesis by (force simp: port_taken_def find_Some_iff)
  next
    case cont
    have "cs = published workerID w2" using cont(2) published_io by (rule query_Inr)
    also have "\<dots> = published workerID w" using query_frame_tables [OF cont(1)] by (simp add: published_def)
    finally have "(cc, ps) \<in> set (published workerID w)" "show_int p \<in> set ps"
      using cont(3) by (auto simp: find_Some_iff in_set_conv_nth)
    then show ?thesis using atoi_show_int [OF assms(2,3)] by (force simp: port_taken_def)
  qed
qed

section \<open>Properties of the ledger\<close>

text \<open>
  The port the control plane allocates is the lowest free one of the managed range, and the
  conflict check that follows agrees with it: on the same tables the check reports no conflict for
  an allocated port, whatever other databases and published container ports there are.
\<close>

theorem allocated_port_is_free:
  assumes "AllocateDatabasePort workerID w = (Inr p, w1)"
    and "FindPortConflict workerID p 0 w' = (Inr r, w2)"
    and "d_instances w' = d_instances w" "containers w' = containers w" "stacks w' = stacks w"
  shows "r = None \<and> DB_PORT_RANGE_MIN \<le> p \<and> p \<le> DB_PORT_RANGE_MAX
    \<and> (\<forall>q. DB_PORT_RANGE_MIN \<le> q \<and> q < p \<longrightarrow> port_taken workerID w q)"
proof -
  note a = AllocateDatabasePort_lowest [OF assms(1)]
  have same: "port_taken workerID w' q = port_taken workerID w q" for q
    using assms(3-5) by (simp add: port_taken_def published_def)
  have range: "0 \<le> p" "p \<le> max_int64"
    using a by (simp_all add: DB_PORT_RANGE_MIN_def DB_PORT_RANGE_MAX_def max_int64_def)
  have "r = None"
  proof (rule ccontr)
    assume "r \<noteq> None"
    then obtain c where "FindPortConflict workerID p 0 w' = (Inr (Some c), w2)" using assms(2) by auto
    then have "port_taken workerID w' p" using range by (rule FindPortConflict_taken)
    then show False using a same by simp
  qed
  then show ?thesis using a by simp
qed

definition db0 :: databaseInstance where
  "db0 = \<lparr>di_ID = 1, di_Name = ''orders'', di_Engine = ''postgres'', di_EngineVersion = ''16'', di_WorkerID = 2,
     di_Status = ''running'', di_Port = 20000, di_RootPassword = None, di_DatabaseName = ''orders'',
     di_Username = ''app'', di_Password = None, di_CPULimit = None, di_MemoryLimit = None, di_HealthStatus = ''none'',
     di_LastError = None, di_SnapshotSchedule = None, di_RetentionCount = None, di_BackupDestinationID = None,
     di_MirrorBackupDestinationID = None, di_ContainerName = ''db-orders'', di_VolumeName = ''vol-orders'',
     di_DeletionProtection = False, di_PendingFinalSnapshot = False, di_VolumeSizeBytes = None,
     di_VolumeSizeCheckedAt = None, di_Active = True, di_StartedAt = None, di_UpdatedAt = 0, di_InsertedAt = 0\<rparr>"

definition db_empty :: db_world where
  "db_empty = \<lparr>clock = 0, db_script = [], hub = \<lparr>hub_sessions = [], hub_objs = (\<lambda>_. undefined)\<rparr>, picks = [],
     users = [], stacks = [], containers = [], registries = [], d_instances = [], d_next_id = 2, d_events = [], d_broadcasts = [],
     d_encrypt = Inr, d_decrypt = Inr\<rparr>"

definition web_stack :: stack where
  "web_stack = \<lparr>st_ID = 5, st_Name = ''web'', st_Description = None, st_WorkerID = Some 2, st_Status = ''active'',
     st_DeploymentStrategy = ''rolling'', st_AutoDeploy = False, st_EnvVars = NullColumn, st_SecretEnvKeys = NullColumn,
     st_ComposeYAML = None, st_PlacementConstraints = NullColumn, st_deploy_claimed_at = None, st_Active = True\<rparr>"

definition web_container :: container where
  "web_container = \<lparr>c_ID = 9, c_StackID = 5, c_Name = ''web'', c_Image = ''nginx'', c_Tag = ''1'', c_Status = ''running'',
     c_PortMappings = NullColumn, c_EnvVars = NullColumn, c_Volumes = NullColumn, c_CPULimit = None, c_MemoryLimit = None,
     c_Replicas = 1, c_RestartPolicy = None, c_Command = NullColumn, c_Entrypoint = NullColumn, c_HealthCheck = NullColumn,
     c_Ulimits = NullColumn, c_HealthStatus = ''none'', c_RegistryID = None, c_DependsOn = NullColumn,
     c_NetworkAliases = NullColumn, c_Active = True, c_StartedAt = None\<rparr>"

definition ports_world :: db_world where
  "ports_world = db_empty\<lparr>d_instances := [db0],
     stacks := [web_stack],
     containers := [web_container\<lparr>c_PortMappings := JsonText (JList [JObj [(''host_port'', JStr ''20001'')]])\<rparr>]\<rparr>"

lemma ports_world_run:
  "fst (AllocateDatabasePort 2 ports_world) = Inr 20002" "fst (FindPortConflict 2 20002 0 ports_world) = Inr None"
proof -
  show "fst (AllocateDatabasePort 2 ports_world) = Inr 20002" by code_simp
  show "fst (FindPortConflict 2 20002 0 ports_world) = Inr None"
    by (simp add: FindPortConflict_def query_quiet ports_world_def db_empty_def db0_def published_def placed_on_def
        web_stack_def web_container_def port_view_def host_port_of_def to_lower_def
        show_int_def show_nat.simps)
qed

theorem allocated_port_is_free_witness:
  "fst (AllocateDatabasePort 2 ports_world) = Inr 20002 \<and> port_taken 2 ports_world 20000 \<and> port_taken 2 ports_world 20001"
proof -
  have a: "AllocateDatabasePort 2 ports_world = (Inr 20002, snd (AllocateDatabasePort 2 ports_world))"
    and f: "FindPortConflict 2 20002 0 ports_world = (Inr None, snd (FindPortConflict 2 20002 0 ports_world))"
    using ports_world_run by (metis prod.collapse)+
  from allocated_port_is_free [OF a f refl refl refl] show ?thesis
    using ports_world_run by (simp add: DB_PORT_RANGE_MIN_def)
qed

end
