(* ===== verification/Db_Lifecycle.thy ===== *)
theory Db_Lifecycle
  imports Db_Instances
begin

text \<open>
  Who may change a managed database's status, health and last error, and when:
  \<^verbatim>\<open>src/database_lifecycle.go\<close> (every write), the worker replies and reports of
  \<^verbatim>\<open>src/database_handlers.go\<close> (\<^verbatim>\<open>handleDbStatus\<close>, \<^verbatim>\<open>handleDbSync\<close> and the reconciler they drive) and
  the watchdog of \<^verbatim>\<open>src/database_reconciler.go\<close>. A payload is the decoded JSON object;
  \<open>trunc\<close> is the conversion of a fractional JSON number to an \<open>int\<close>.
\<close>

section \<open>The lifecycle\<close>

record transitionOpts =
  to_Message :: string
  to_Err :: "databaseError option"
  to_Actor :: string
  to_StartedAt :: "time option"

definition newDatabaseError :: "string \<Rightarrow> string \<Rightarrow> bool \<Rightarrow> 'a world_scheme \<Rightarrow> databaseError" where
  "newDatabaseError code message retryable w =
     \<lparr>de_Code = code, de_Message = message, de_OccurredAt = clock w, de_Retryable = retryable\<rparr>"

definition broadcast :: "adminMessage \<Rightarrow> 'a db_world_scheme \<Rightarrow> 'a db_world_scheme" where
  "broadcast m w = w\<lparr>d_broadcasts := d_broadcasts w @ [m]\<rparr>"

definition recordEvent ::
  "int \<Rightarrow> string \<Rightarrow> string option \<Rightarrow> string \<Rightarrow> string option \<Rightarrow> string \<Rightarrow> 'a db_world_scheme \<Rightarrow> 'a db_world_scheme" where
  "recordEvent i kind status message code actor w =
     snd (CreateDatabaseInstanceEvent
       \<lparr>ev_DatabaseInstanceID = i, ev_Kind = kind, ev_Status = status, ev_Message = message, ev_Code = code,
        ev_Actor = (if actor \<noteq> [] then Some actor else None)\<rparr> w)"

definition RecordEvent :: "int \<Rightarrow> string \<Rightarrow> string \<Rightarrow> string \<Rightarrow> 'a db_world_scheme \<Rightarrow> 'a db_world_scheme" where
  "RecordEvent i kind message actor w = recordEvent i kind None message None actor w"

definition SetHealth :: "int \<Rightarrow> string \<Rightarrow> string \<Rightarrow> 'a db_world_scheme \<Rightarrow> 'a db_world_scheme" where
  "SetHealth i health message w =
     (if \<not> health_IsValid health then w
      else case GetDatabaseInstanceByID i w of
        (Inl _, w1) \<Rightarrow> w1
      | (Inr current, w1) \<Rightarrow>
          if di_HealthStatus current = health then w1
          else case UpdateDatabaseInstance i (no_update\<lparr>ui_HealthStatus := Some health\<rparr>) w1 of
            (Inl _, w2) \<Rightarrow> w2
          | (Inr _, w2) \<Rightarrow>
              broadcast (DbHealthStatus i health)
                (recordEvent i DBEventHealth None
                   (if message = [] then ''health changed from '' @ di_HealthStatus current @ '' to '' @ health else message)
                   None ''worker'' w2))"

text \<open>What a transition would change of the row it found.\<close>

definition clears_error :: "databaseInstance \<Rightarrow> string \<Rightarrow> transitionOpts \<Rightarrow> bool" where
  "clears_error current st opts \<longleftrightarrow> to_Err opts = None \<and> di_LastError current \<noteq> None \<and> (st = DBStatusRunning \<or> st = DBStatusStopped)"

definition changes_error :: "databaseInstance \<Rightarrow> transitionOpts \<Rightarrow> bool" where
  "changes_error current opts \<longleftrightarrow>
     (case to_Err opts of
        None \<Rightarrow> False
      | Some e \<Rightarrow> (case di_LastError current of
                    None \<Rightarrow> True
                  | Some c \<Rightarrow> de_Code c \<noteq> de_Code e \<or> de_Message c \<noteq> de_Message e))"

definition Transition :: "int \<Rightarrow> string \<Rightarrow> transitionOpts \<Rightarrow> 'a db_world_scheme \<Rightarrow> 'a db_world_scheme" where
  "Transition i st opts w =
     (if \<not> status_IsValid st then w
      else case GetDatabaseInstanceByID i w of
        (Inl _, w1) \<Rightarrow> w1
      | (Inr current, w1) \<Rightarrow>
          (let statusChanged = (di_Status current \<noteq> st);
               clearErr = clears_error current st opts;
               errChanged = changes_error current opts
           in if \<not> statusChanged \<and> \<not> clearErr \<and> \<not> errChanged \<and> to_StartedAt opts = None then w1
              else case UpdateDatabaseInstance i (no_update\<lparr>ui_Status := Some st, ui_LastError := to_Err opts,
                          ui_ClearLastError := clearErr, ui_StartedAt := to_StartedAt opts\<rparr>) w1 of
                (Inl _, w2) \<Rightarrow> w2
              | (Inr _, w2) \<Rightarrow>
                  (let message = (if to_Message opts = []
                                  then ''status changed from '' @ di_Status current @ '' to '' @ st else to_Message opts);
                       kind = (if to_Err opts = None then DBEventTransition else DBEventFailed);
                       code = map_option de_Code (to_Err opts);
                       w3 = (if st \<noteq> DBStatusRunning \<and> st \<noteq> DBStatusDegraded \<and> di_HealthStatus current \<noteq> DBHealthNone
                             then SetHealth i DBHealthNone ''container is no longer running'' w2 else w2)
                   in broadcast (DbInstanceChanged i st message (to_Err opts))
                        (recordEvent i kind (Some st) message code (to_Actor opts) w3))))"

definition plain_opts :: "string \<Rightarrow> string \<Rightarrow> transitionOpts" where
  "plain_opts message actor = \<lparr>to_Message = message, to_Err = None, to_Actor = actor, to_StartedAt = None\<rparr>"

definition BeginDeleting :: "int \<Rightarrow> string \<Rightarrow> 'a db_world_scheme \<Rightarrow> 'a db_world_scheme" where
  "BeginDeleting i actor w =
     Transition i DBStatusDeleting
       (plain_opts ''destroying container and data volume'' (if actor = [] then ''api'' else actor)) w"

definition error_opts :: "string \<Rightarrow> string \<Rightarrow> string \<Rightarrow> 'a world_scheme \<Rightarrow> transitionOpts" where
  "error_opts message code actor w =
     \<lparr>to_Message = message, to_Err = Some (newDatabaseError code message True w), to_Actor = actor, to_StartedAt = None\<rparr>"

definition FinalizeDeletion :: "int \<Rightarrow> bool \<Rightarrow> 'a db_world_scheme \<Rightarrow> bool \<times> 'a db_world_scheme" where
  "FinalizeDeletion i volumeRemoved w =
     (case GetDatabaseInstanceByID i w of
        (Inl _, w1) \<Rightarrow> (False, w1)
      | (Inr d, w1) \<Rightarrow>
          if di_Status d \<noteq> DBStatusDeleting then (False, w1)
          else if \<not> volumeRemoved then
            (let message = ''worker did not confirm removal of data volume '' @ di_VolumeName d @
                   ''; upgrade the runner on worker '' @ show_int (di_WorkerID d) @ '' and retry the delete''
             in (True, Transition i DBStatusError (error_opts message DBErrCodeRemoveFailed ''worker'' w1) w1))
          else case DeleteDatabaseInstance i w1 of
            (Some e, w2) \<Rightarrow>
              (let message = ''container and data volume were destroyed but the record could not be retired: '' @ e
               in (True, Transition i DBStatusError (error_opts message DBErrCodeRemoveFailed ''worker'' w2) w2))
          | (None, w2) \<Rightarrow>
              (True, broadcast (DbInstanceDeleted i (di_Name d))
                 (recordEvent i DBEventTransition None
                    (''deleted: container '' @ di_ContainerName d @ '' and data volume '' @ di_VolumeName d @
                     '' destroyed, record retired'') None ''worker'' w2)))"

definition SetWarning :: "int \<Rightarrow> databaseError option \<Rightarrow> string \<Rightarrow> 'a db_world_scheme \<Rightarrow> 'a db_world_scheme" where
  "SetWarning i warning actor w =
     (case warning of
        None \<Rightarrow> w
      | Some e \<Rightarrow>
          (case GetDatabaseInstanceByID i w of
             (Inl _, w1) \<Rightarrow> w1
           | (Inr current, w1) \<Rightarrow>
               if (case di_LastError current of None \<Rightarrow> False
                   | Some c \<Rightarrow> de_Code c = de_Code e \<or> di_Status current = DBStatusError) then w1
               else case UpdateDatabaseInstance i (no_update\<lparr>ui_LastError := Some e\<rparr>) w1 of
                 (Inl _, w2) \<Rightarrow> w2
               | (Inr _, w2) \<Rightarrow>
                   broadcast (DbInstanceChanged i (di_Status current) (de_Message e) (Some e))
                     (recordEvent i DBEventFailed None (de_Message e) (Some (de_Code e)) actor w2)))"

definition ClearWarning :: "int \<Rightarrow> string \<Rightarrow> 'a db_world_scheme \<Rightarrow> 'a db_world_scheme" where
  "ClearWarning i code w =
     (case GetDatabaseInstanceByID i w of
        (Inl _, w1) \<Rightarrow> w1
      | (Inr current, w1) \<Rightarrow>
          if (case di_LastError current of None \<Rightarrow> True | Some c \<Rightarrow> de_Code c \<noteq> code) then w1
          else case UpdateDatabaseInstance i (no_update\<lparr>ui_ClearLastError := True\<rparr>) w1 of
            (Inl _, w2) \<Rightarrow> w2
          | (Inr _, w2) \<Rightarrow>
              broadcast (DbInstanceChanged i (di_Status current) ''backup freshness recovered'' None)
                (recordEvent i DBEventTransition None ''backup freshness recovered'' (Some code) ''control-plane'' w2))"

section \<open>Worker replies\<close>

definition payload_str :: "(string \<times> json) list \<Rightarrow> string \<Rightarrow> string" where
  "payload_str p key = (case map_of p key of Some (JStr s) \<Rightarrow> s | _ \<Rightarrow> [])"

definition payloadInt :: "(string \<Rightarrow> int) \<Rightarrow> (string \<times> json) list \<Rightarrow> string \<Rightarrow> int" where
  "payloadInt trunc p key =
     (case map_of p key of
        Some (JInt n) \<Rightarrow> n
      | Some (JFloat s) \<Rightarrow> trunc s
      | Some (JStr s) \<Rightarrow> (case atoi s of Some n \<Rightarrow> n | None \<Rightarrow> 0)
      | _ \<Rightarrow> 0)"

definition payloadBool :: "(string \<times> json) list \<Rightarrow> string \<Rightarrow> bool" where
  "payloadBool p key =
     (case map_of p key of Some (JBool b) \<Rightarrow> b | Some (JStr s) \<Rightarrow> s = ''true'' | _ \<Rightarrow> False)"

definition MsgDbCreate :: string where "MsgDbCreate = ''db_create''"
definition MsgDbStart :: string where "MsgDbStart = ''db_start''"
definition MsgDbStop :: string where "MsgDbStop = ''db_stop''"
definition MsgDbRestart :: string where "MsgDbRestart = ''db_restart''"
definition MsgDbRemove :: string where "MsgDbRemove = ''db_remove''"
definition MsgDbRestore :: string where "MsgDbRestore = ''db_restore''"

lemmas msg_defs = MsgDbCreate_def MsgDbStart_def MsgDbStop_def MsgDbRestart_def MsgDbRemove_def MsgDbRestore_def

definition dbActionOutcome :: "string \<Rightarrow> string" where
  "dbActionOutcome action =
     (if action \<in> {MsgDbCreate, MsgDbStart, MsgDbRestart, MsgDbRestore} then DBStatusRunning
      else if action = MsgDbStop then DBStatusStopped
      else if action = MsgDbRemove then DBStatusStopped
      else [])"

definition dbActionFailureCode :: "string \<Rightarrow> string" where
  "dbActionFailureCode action =
     (if action = MsgDbCreate then DBErrCodeCreateFailed
      else if action \<in> {MsgDbStart, MsgDbRestart} then DBErrCodeStartFailed
      else if action = MsgDbStop then DBErrCodeStopFailed
      else if action = MsgDbRemove then DBErrCodeRemoveFailed
      else if action = MsgDbRestore then DBErrCodeRestoreFailed
      else DBErrCodeCreateFailed)"

definition isAbsentContainerMessage :: "string \<Rightarrow> bool" where
  "isAbsentContainerMessage message \<longleftrightarrow>
     str_contains (map to_lower message) ''container not found'' \<or> str_contains (map to_lower message) ''no such container''"

definition dbInstanceStatus :: "int \<Rightarrow> 'a db_world_scheme \<Rightarrow> string \<times> 'a db_world_scheme" where
  "dbInstanceStatus i w =
     (case GetDatabaseInstanceByID i w of (Inl _, w1) \<Rightarrow> ([], w1) | (Inr d, w1) \<Rightarrow> (di_Status d, w1))"

datatype phase = PhaseAck | PhaseCompleted | PhaseFailed | PhaseOther string

definition parse_phase :: "string \<Rightarrow> phase" where
  "parse_phase p = (if p = ''ack'' then PhaseAck else if p = ''completed'' then PhaseCompleted
     else if p = ''failed'' then PhaseFailed else PhaseOther p)"

fun show_phase :: "phase \<Rightarrow> string" where
  "show_phase PhaseAck = ''ack''"
| "show_phase PhaseCompleted = ''completed''"
| "show_phase PhaseFailed = ''failed''"
| "show_phase (PhaseOther p) = p"

text \<open>Runners that predate the phase field report bare outcomes.\<close>

definition reply_phase :: "(string \<times> json) list \<Rightarrow> phase" where
  "reply_phase p =
     (let ph = payload_str p ''phase''; status = payload_str p ''status'' in
      if ph \<noteq> [] then parse_phase ph
      else if status \<in> {''success'', ''completed''} then PhaseCompleted
      else if status \<in> {''failed'', ''error''} then PhaseFailed
      else PhaseAck)"

definition replyCompleted :: "int \<Rightarrow> string \<Rightarrow> bool \<Rightarrow> 'a db_world_scheme \<Rightarrow> 'a db_world_scheme" where
  "replyCompleted i action volumeRemoved w =
     (let (finalised, w1) = (if action = MsgDbRemove then FinalizeDeletion i volumeRemoved w else (False, w)) in
      if finalised then w1
      else if dbActionOutcome action = []
      then RecordEvent i DBEventTransition (action @ '' completed'') ''worker'' w1
      else Transition i (dbActionOutcome action)
             \<lparr>to_Message = action @ '' completed'', to_Err = None, to_Actor = ''worker'',
              to_StartedAt = (if dbActionOutcome action = DBStatusRunning then Some (clock w1) else None)\<rparr> w1)"

definition replyFailed :: "int \<Rightarrow> string \<Rightarrow> string \<Rightarrow> 'a db_world_scheme \<Rightarrow> 'a db_world_scheme" where
  "replyFailed i action message0 w =
     (let message = (if message0 = [] then action @ '' failed'' else message0);
          (absent, w1) = (if action = MsgDbRemove \<and> isAbsentContainerMessage message
                          then (let (st, w1) = dbInstanceStatus i w in (st \<noteq> DBStatusDeleting, w1)) else (False, w))
      in if absent then Transition i DBStatusStopped (plain_opts ''container was already absent; nothing to remove'' ''worker'') w1
         else Transition i DBStatusError (error_opts message (dbActionFailureCode action) ''worker'' w1) w1)"

definition handleDbStatus :: "(string \<Rightarrow> int) \<Rightarrow> (string \<times> json) list \<Rightarrow> 'a db_world_scheme \<Rightarrow> 'a db_world_scheme" where
  "handleDbStatus trunc p w =
     (let i = payloadInt trunc p ''database_instance_id''; action = payload_str p ''action''; ph = reply_phase p in
      if i = 0 then w
      else
        (let (deleting, w1) = (if action = MsgDbCreate
               then (let (st, w1) = dbInstanceStatus i w in (st = DBStatusDeleting, w1)) else (False, w)) in
         if deleting then RecordEvent i DBEventTransition (''db_create '' @ show_phase ph @ '' while deleting; ignored'') ''worker'' w1
         else case ph of
           PhaseAck \<Rightarrow>
             if action = MsgDbCreate then Transition i DBStatusProvisioning (plain_opts ''worker accepted create command'' ''worker'') w1
             else RecordEvent i DBEventAccepted (''worker accepted '' @ action) ''worker'' w1
         | PhaseCompleted \<Rightarrow> replyCompleted i action (payloadBool p ''volume_removed'') w1
         | PhaseFailed \<Rightarrow> replyFailed i action (payload_str p ''message'') w1
         | PhaseOther _ \<Rightarrow> w1))"

section \<open>Observed state\<close>

record observedDbContainer =
  ob_ContainerName :: string
  ob_InstanceID :: int
  ob_State :: string
  ob_Health :: string
  ob_RestartCount :: int
  ob_FatalHint :: string
  ob_VolumeSizeBytes :: int

definition no_container :: observedDbContainer where
  "no_container = \<lparr>ob_ContainerName = [], ob_InstanceID = 0, ob_State = [], ob_Health = [], ob_RestartCount = 0,
     ob_FatalHint = [], ob_VolumeSizeBytes = 0\<rparr>"

definition matchObservedDatabase :: "databaseInstance \<Rightarrow> observedDbContainer list \<Rightarrow> observedDbContainer \<times> bool" where
  "matchObservedDatabase d observed =
     (case List.find (\<lambda>o1. ob_InstanceID o1 = di_ID d) observed of
        Some o1 \<Rightarrow> (o1, True)
      | None \<Rightarrow>
          (case List.find (\<lambda>o1. ob_InstanceID o1 = 0 \<and> ob_ContainerName o1 = di_ContainerName d) observed of
             Some o1 \<Rightarrow> (o1, True)
           | None \<Rightarrow> (no_container, False)))"

record databaseOrphans =
  or_Containers :: "(string \<times> int \<times> string) list"
  or_Volumes :: "string list"
  or_VolumesKnown :: bool

definition owned_container :: "databaseInstance list \<Rightarrow> observedDbContainer \<Rightarrow> bool" where
  "owned_container ds o1 \<longleftrightarrow> ob_InstanceID o1 \<in> di_ID ` set ds \<or>
     (ob_InstanceID o1 = 0 \<and> ob_ContainerName o1 \<in> di_ContainerName ` set ds)"

definition findDatabaseOrphans :: "databaseInstance list \<Rightarrow> observedDbContainer list \<Rightarrow> string list option \<Rightarrow> databaseOrphans" where
  "findDatabaseOrphans ds observed volumes =
     \<lparr>or_Containers = map (\<lambda>o1. (ob_ContainerName o1, ob_InstanceID o1, ob_State o1)) (filter (\<lambda>o1. \<not> owned_container ds o1) observed),
      or_Volumes = (case volumes of None \<Rightarrow> [] | Some vs \<Rightarrow> filter (\<lambda>v. v \<notin> di_VolumeName ` set ds) vs),
      or_VolumesKnown = (volumes \<noteq> None)\<rparr>"

definition reconcileSize :: "databaseInstance \<Rightarrow> observedDbContainer \<Rightarrow> 'a db_world_scheme \<Rightarrow> 'a db_world_scheme" where
  "reconcileSize d obs w =
     (if ob_VolumeSizeBytes obs > 0 \<and> di_VolumeSizeBytes d \<noteq> Some (ob_VolumeSizeBytes obs)
      then snd (UpdateDatabaseInstance (di_ID d) (no_update\<lparr>ui_VolumeSizeBytes := Some (ob_VolumeSizeBytes obs)\<rparr>) w)
      else w)"

definition reconcileAbsent :: "databaseInstance \<Rightarrow> 'a db_world_scheme \<Rightarrow> 'a db_world_scheme" where
  "reconcileAbsent d w =
     (let w1 = SetHealth (di_ID d) DBHealthNone ''container is not present on the worker'' w in
      if IsTransitional (di_Status d) \<or> di_Status d = DBStatusError \<or> di_Status d = DBStatusStopped then w1
      else Transition (di_ID d) DBStatusError
        \<lparr>to_Message = ''container is no longer present on the worker'',
         to_Err = Some (newDatabaseError DBErrCodeContainerMissing
           (''container '' @ di_ContainerName d @ '' was not found on worker '' @ show_int (di_WorkerID d)) True w1),
         to_Actor = ''reconciler'', to_StartedAt = None\<rparr> w1)"

definition reconcileRunning :: "databaseInstance \<Rightarrow> 'a db_world_scheme \<Rightarrow> 'a db_world_scheme" where
  "reconcileRunning d w =
     (if di_Status d \<noteq> DBStatusRunning
      then Transition (di_ID d) DBStatusRunning
        \<lparr>to_Message = ''container observed running on the worker'', to_Err = None, to_Actor = ''reconciler'',
         to_StartedAt = (if di_StartedAt d = None then Some (clock w) else None)\<rparr> w
      else w)"

definition reconcileStopped :: "databaseInstance \<Rightarrow> string \<Rightarrow> 'a db_world_scheme \<Rightarrow> 'a db_world_scheme" where
  "reconcileStopped d st w =
     (if di_Status d \<noteq> DBStatusStopped \<and> di_Status d \<noteq> DBStatusError
      then Transition (di_ID d) DBStatusStopped (plain_opts (''container observed '' @ st @ '' on the worker'') ''reconciler'') w
      else w)"

definition reconcileHealth :: "databaseInstance \<Rightarrow> observedDbContainer \<Rightarrow> 'a db_world_scheme \<Rightarrow> 'a db_world_scheme" where
  "reconcileHealth d obs w =
     (if ob_State obs \<noteq> ''running'' \<and> ob_State obs \<noteq> ''paused'' then SetHealth (di_ID d) DBHealthNone ''container is not running'' w
      else if ob_Health obs \<noteq> [] \<and> health_IsValid (ob_Health obs) then SetHealth (di_ID d) (ob_Health obs) ''observed by worker sync'' w
      else w)"

definition reconcileDatabaseInstance :: "databaseInstance \<Rightarrow> observedDbContainer \<Rightarrow> bool \<Rightarrow> 'a db_world_scheme \<Rightarrow> 'a db_world_scheme" where
  "reconcileDatabaseInstance d obs present w =
     (let w0 = reconcileSize d obs w in
      if \<not> present then reconcileAbsent d w0
      else if ob_RestartCount obs \<ge> 3 \<and> (ob_State obs = ''restarting'' \<or> ob_FatalHint obs \<noteq> []) then
        Transition (di_ID d) DBStatusDegraded
          \<lparr>to_Message = ''container is restarting repeatedly ('' @ show_int (ob_RestartCount obs) @ '' restarts)'',
           to_Err = Some (if ob_FatalHint obs \<noteq> []
             then newDatabaseError DBErrCodeInitFailed (ob_FatalHint obs) False w0
             else newDatabaseError DBErrCodeRestartLoop (''container '' @ di_ContainerName d @ '' has restarted '' @
               show_int (ob_RestartCount obs) @ '' times; check its logs for an initialisation error'') False w0),
           to_Actor = ''reconciler'', to_StartedAt = None\<rparr> w0
      else if ob_State obs = ''running'' then
        (if di_Status d = DBStatusError \<and> (case di_LastError d of None \<Rightarrow> False | Some e \<Rightarrow> de_Code e = DBErrCodeCreateFailed) then w0
         else reconcileHealth d obs (reconcileRunning d w0))
      else if ob_State obs \<in> {''exited'', ''created'', ''dead''} then
        (if di_Status d = DBStatusDeleting then w0
         else reconcileHealth d obs (reconcileStopped d (ob_State obs) w0))
      else reconcileHealth d obs w0)"

definition parse_observed :: "(string \<Rightarrow> int) \<Rightarrow> json \<Rightarrow> observedDbContainer list" where
  "parse_observed trunc j =
     (case j of
        JObj entry \<Rightarrow>
          if payload_str entry ''container_name'' = [] then []
          else [\<lparr>ob_ContainerName = payload_str entry ''container_name'',
                 ob_InstanceID = payloadInt trunc entry ''database_instance_id'', ob_State = payload_str entry ''state'',
                 ob_Health = payload_str entry ''health'', ob_RestartCount = payloadInt trunc entry ''restart_count'',
                 ob_FatalHint = payload_str entry ''fatal_hint'', ob_VolumeSizeBytes = payloadInt trunc entry ''volume_size_bytes''\<rparr>]
      | _ \<Rightarrow> [])"

definition parse_volumes :: "(string \<times> json) list \<Rightarrow> string list option" where
  "parse_volumes p =
     (case map_of p ''volumes'' of
        Some (JList vs) \<Rightarrow> Some (concat (map (\<lambda>v. case v of JStr s \<Rightarrow> if s = [] then [] else [s] | _ \<Rightarrow> []) vs))
      | _ \<Rightarrow> None)"

definition handleDbSync ::
  "(string \<Rightarrow> int) \<Rightarrow> int \<Rightarrow> (string \<times> json) list \<Rightarrow> 'a db_world_scheme \<Rightarrow> databaseOrphans option \<times> 'a db_world_scheme" where
  "handleDbSync trunc workerID p w =
     (case map_of p ''containers'' of
        Some (JList raws) \<Rightarrow>
          (let observed = concat (map (parse_observed trunc) raws); volumes = parse_volumes p in
           case ListDatabaseInstancesByWorker workerID w of
             (Inl _, w1) \<Rightarrow> (None, w1)
           | (Inr ds, w1) \<Rightarrow>
               (Some (findDatabaseOrphans ds observed volumes),
                fold (\<lambda>d. case matchObservedDatabase d observed of (obs, present) \<Rightarrow> reconcileDatabaseInstance d obs present) ds w1))
      | _ \<Rightarrow> (None, w))"

section \<open>The reconciler's loops\<close>

definition dbProvisionTimeout :: duration where "dbProvisionTimeout = 10 * Minute"

definition RequestSync :: "int \<Rightarrow> 'a db_world_scheme \<Rightarrow> 'a db_world_scheme" where
  "RequestSync workerID w =
     (if \<not> worker_connected workerID w then w
      else snd (SendJSONToWorker workerID (NewCommand ''db_sync_request'' []) w))"

definition reconcileAll :: "'a db_world_scheme \<Rightarrow> 'a db_world_scheme" where
  "reconcileAll w = fold RequestSync (ListConnectedIDs (hub w)) w"

definition stuck_message :: "databaseInstance \<Rightarrow> 'a db_world_scheme \<Rightarrow> string" where
  "stuck_message d w =
     (let m = (if worker_connected (di_WorkerID d) w
               then ''stuck in '' @ di_Status d @ '' for more than 10m0s with no response from worker '' @ show_int (di_WorkerID d)
               else ''stuck in '' @ di_Status d @ '' for more than 10m0s; worker '' @ show_int (di_WorkerID d) @ '' is not connected'')
      in if di_Status d = DBStatusDeleting
         then ''delete did not complete: '' @ m @ ''; container '' @ di_ContainerName d @ '' and data volume '' @
              di_VolumeName d @ '' may still exist''
         else m)"

definition stuck_code :: "databaseInstance \<Rightarrow> 'a db_world_scheme \<Rightarrow> string" where
  "stuck_code d w =
     (if di_Status d = DBStatusDeleting then DBErrCodeRemoveFailed
      else if worker_connected (di_WorkerID d) w then DBErrCodeProvisionTimeout else DBErrCodeWorkerOffline)"

definition failStuckInstance :: "databaseInstance \<Rightarrow> 'a db_world_scheme \<Rightarrow> 'a db_world_scheme" where
  "failStuckInstance d w =
     Transition (di_ID d) DBStatusError (error_opts (stuck_message d w) (stuck_code d w) ''watchdog'' w) w"

text \<open>\<open>inflight\<close> is the reconciler's set of instances another goroutine is working on.\<close>

definition failStuckInstances :: "int set \<Rightarrow> 'a db_world_scheme \<Rightarrow> 'a db_world_scheme" where
  "failStuckInstances inflight w =
     (case ListStuckDatabaseInstances (clock w - dbProvisionTimeout) w of
        (Inl _, w1) \<Rightarrow> w1
      | (Inr stuck, w1) \<Rightarrow> fold (\<lambda>d w. if di_ID d \<in> inflight then w else failStuckInstance d w) stuck w1)"

definition finaliseDeleteAfterSnapshot :: "int \<Rightarrow> 'a db_world_scheme \<Rightarrow> bool \<times> 'a db_world_scheme" where
  "finaliseDeleteAfterSnapshot i w =
     (case GetDatabaseInstanceByID i w of
        (Inl _, w1) \<Rightarrow> (False, w1)
      | (Inr d, w1) \<Rightarrow>
          if \<not> di_PendingFinalSnapshot d then (False, w1)
          else case UpdateDatabaseInstance i (no_update\<lparr>ui_PendingFinalSnapshot := Some False\<rparr>) w1 of
            (Inl _, w2) \<Rightarrow> (False, w2)
          | (Inr _, w2) \<Rightarrow>
              if \<not> worker_connected (di_WorkerID d) w2 then
                (True, SetWarning i (Some (newDatabaseError DBErrCodeRemoveFailed
                   (''final snapshot completed but worker '' @ show_int (di_WorkerID d) @
                    '' is no longer connected; the database was not destroyed'') True w2)) ''control-plane'' w2)
              else case SendJSONToWorker (di_WorkerID d) (NewCommand MsgDbRemove
                     [(''database_instance_id'', JInt i), (''container_name'', JStr (di_ContainerName d)),
                      (''volume_name'', JStr (di_VolumeName d)), (''remove_volume'', JBool True)]) w2 of
                (Some _, w3) \<Rightarrow> (True, w3)
              | (None, w3) \<Rightarrow> (True, BeginDeleting i ''control-plane'' w3))"

section \<open>What an update does to the columns the lifecycle guards\<close>

named_theorems sel_simps \<open>selectors through a SET list\<close>

lemma sel_set_opt_keep [sel_simps]:
  "(\<And>v d. di_ID (f v d) = di_ID d) \<Longrightarrow> di_ID (set_opt o1 f d) = di_ID d"
  "(\<And>v d. di_Status (f v d) = di_Status d) \<Longrightarrow> di_Status (set_opt o1 f d) = di_Status d"
  "(\<And>v d. di_LastError (f v d) = di_LastError d) \<Longrightarrow> di_LastError (set_opt o1 f d) = di_LastError d"
  "(\<And>v d. di_Active (f v d) = di_Active d) \<Longrightarrow> di_Active (set_opt o1 f d) = di_Active d"
  by (simp_all add: set_opt_def split: option.split)

lemma sel_clear_or_set_keep [sel_simps]:
  "(\<And>v d. di_ID (g v d) = di_ID d) \<Longrightarrow> di_ID (clear_or_set c o2 g d) = di_ID d"
  "(\<And>v d. di_Status (g v d) = di_Status d) \<Longrightarrow> di_Status (clear_or_set c o2 g d) = di_Status d"
  "(\<And>v d. di_LastError (g v d) = di_LastError d) \<Longrightarrow> di_LastError (clear_or_set c o2 g d) = di_LastError d"
  "(\<And>v d. di_Active (g v d) = di_Active d) \<Longrightarrow> di_Active (clear_or_set c o2 g d) = di_Active d"
  by (simp_all add: clear_or_set_def sel_set_opt_keep)

lemma sel_set [sel_simps]:
  "di_Status (set_opt o1 (\<lambda>v d. d\<lparr>di_Status := v\<rparr>) d) = (case o1 of None \<Rightarrow> di_Status d | Some s \<Rightarrow> s)"
  "di_Active (set_opt o2 (\<lambda>v d. d\<lparr>di_Active := v\<rparr>) d) = (case o2 of None \<Rightarrow> di_Active d | Some b \<Rightarrow> b)"
  "di_LastError (clear_or_set c o3 (\<lambda>v d. d\<lparr>di_LastError := v\<rparr>) d) =
     (if c then None else case o3 of None \<Rightarrow> di_LastError d | Some e \<Rightarrow> Some e)"
  by (simp_all add: set_opt_def clear_or_set_def split: option.split)

lemma instance_sets_sel [simp]:
  "di_ID (instance_sets req rp pw now d) = di_ID d"
  "di_Status (instance_sets req rp pw now d) = (case ui_Status req of None \<Rightarrow> di_Status d | Some s \<Rightarrow> s)"
  "di_LastError (instance_sets req rp pw now d) =
     (if ui_ClearLastError req then None else case ui_LastError req of None \<Rightarrow> di_LastError d | Some e \<Rightarrow> Some e)"
  "di_Active (instance_sets req rp pw now d) = (case ui_Active req of None \<Rightarrow> di_Active d | Some b \<Rightarrow> b)"
  unfolding instance_sets_def comp_apply
  by (simp_all add: sel_simps split: option.split)

lemma touch_row_sel [simp]:
  "di_ID (touch_row now d d') = di_ID d'" "di_Status (touch_row now d d') = di_Status d'"
  "di_LastError (touch_row now d d') = di_LastError d'" "di_Active (touch_row now d d') = di_Active d'"
  by (auto simp: touch_row_def)

text \<open>The row a successful read found.\<close>

lemma scan_same:
  assumes "scanDatabaseInstance w d = Inr d'"
  shows "d' = d\<lparr>di_RootPassword := di_RootPassword d', di_Password := di_Password d'\<rparr>"
  using assms by (auto simp: scanDatabaseInstance_def split: sum.splits)

lemma decrypt_column_io: "decrypt_column what (w\<lparr>clock := c, db_script := s\<rparr>) v = decrypt_column what w v"
  by (auto simp: decrypt_column_def split: option.split)

lemma scan_io: "scanDatabaseInstance (w\<lparr>clock := c, db_script := s\<rparr>) d = scanDatabaseInstance w d"
  by (auto simp: scanDatabaseInstance_def decrypt_column_io split: sum.split)

definition same_row :: "databaseInstance \<Rightarrow> databaseInstance \<Rightarrow> bool" where
  "same_row d d' \<longleftrightarrow> d' = d\<lparr>di_RootPassword := di_RootPassword d', di_Password := di_Password d'\<rparr>"

lemma same_row_sel:
  assumes "same_row d d'"
  shows "di_ID d' = di_ID d" "di_Status d' = di_Status d" "di_LastError d' = di_LastError d" "di_Active d' = di_Active d"
    "di_HealthStatus d' = di_HealthStatus d" "di_PendingFinalSnapshot d' = di_PendingFinalSnapshot d"
    "di_UpdatedAt d' = di_UpdatedAt d"
  using assms unfolding same_row_def by (metis databaseInstance.select_convs databaseInstance.surjective databaseInstance.update_convs(8,11))+

lemma Get_Inr:
  assumes "GetDatabaseInstanceByID i w = (Inr d', w1)"
  obtains d where "select_instance i (d_instances w) = Some d" "same_row d d'"
proof -
  obtain s where q: "query (\<lambda>w. map_option (scanDatabaseInstance w) (select_instance i (d_instances w))) w = (Inr (Some (Inr d')), s)"
    using assms by (auto simp: GetDatabaseInstanceByID_def split: prod.splits sum.splits option.splits)
  have "Some (Inr d') = map_option (scanDatabaseInstance w) (select_instance i (d_instances w))"
    using query_Inr [OF q] by (simp add: scan_io [abs_def] map_option_case)
  then obtain d where "select_instance i (d_instances w) = Some d" "scanDatabaseInstance w d = Inr d'"
    by (auto simp: map_option_case split: option.splits)
  then show ?thesis using that scan_same unfolding same_row_def by blast
qed

text \<open>Reads change nothing but the clock.\<close>

definition db_frame :: "('a db_world_scheme \<Rightarrow> 'b) \<Rightarrow> bool" where
  "db_frame g \<longleftrightarrow> (\<forall>w c s. g (w\<lparr>clock := c, db_script := s\<rparr>) = g w) \<and> (\<forall>w x. g (w\<lparr>d_events := x\<rparr>) = g w)
     \<and> (\<forall>w x. g (w\<lparr>d_broadcasts := x\<rparr>) = g w) \<and> (\<forall>w h p. g (w\<lparr>hub := h, picks := p\<rparr>) = g w)"

lemma db_frame_query: "db_frame g \<Longrightarrow> g (snd (query q w)) = g w"
  by (rule query_frame) (simp add: db_frame_def)

lemma snd_Get: "snd (GetDatabaseInstanceByID i w) =
   snd (query (\<lambda>w. map_option (scanDatabaseInstance w) (select_instance i (d_instances w))) w)"
  by (simp add: GetDatabaseInstanceByID_def split: prod.split sum.split option.split)

lemma db_frame_Get: "db_frame g \<Longrightarrow> g (snd (GetDatabaseInstanceByID i w)) = g w"
  by (simp add: snd_Get db_frame_query)

lemma db_frame_GetD: "db_frame g \<Longrightarrow> GetDatabaseInstanceByID i w = (r, w1) \<Longrightarrow> g w1 = g w"
  using db_frame_Get [of g i w] by simp

lemma db_frame_recordEvent:
  assumes g: "db_frame g"
  shows "g (recordEvent i k s m c a w) = g w"
proof -
  have e: "g w1 = g w" if "exec_unit (\<lambda>w. w\<lparr>d_events := d_events w @ [e]\<rparr>) w = (r, w1)" for e r w1
  proof -
    have "g (snd (exec_unit (\<lambda>w. w\<lparr>d_events := d_events w @ [e]\<rparr>) w)) = g w"
      unfolding snd_exec_unit using g by (intro exec_frame) (simp_all add: db_frame_def)
    then show ?thesis using that by simp
  qed
  show ?thesis
    unfolding recordEvent_def CreateDatabaseInstanceEvent_def by (auto split: prod.split option.split dest: e)
qed

lemma db_frame_broadcast: "db_frame g \<Longrightarrow> g (broadcast m w) = g w"
  by (simp add: broadcast_def db_frame_def)

lemma db_frame_send: "db_frame g \<Longrightarrow> g (snd (SendJSONToWorker wid m w)) = g w"
  by (rule SendJSONToWorker_frame) (simp add: db_frame_def)

lemma db_frame_instances [simp]: "db_frame d_instances"
  by (simp add: db_frame_def)

lemma db_frame_comp: "db_frame g \<Longrightarrow> db_frame (\<lambda>w. h (g w))"
  by (simp add: db_frame_def)

section \<open>Properties every handler keeps\<close>

text \<open>
  A property of the instance table that the individual UPDATEs of the lifecycle keep is kept by
  every handler built from them. \<open>row_property\<close> lists those UPDATEs with what the lifecycle
  guarantees when it issues each; \<open>retirable\<close> adds the one that retires a row.
\<close>

definition guarded :: "string \<Rightarrow> databaseError option \<Rightarrow> bool" where
  "guarded st err \<longleftrightarrow> (st = DBStatusError \<longrightarrow> (\<exists>e. err = Some e \<and> de_Code e \<noteq> DBErrCodeBackupStale))"

locale row_property =
  fixes P :: "'a db_world_scheme \<Rightarrow> bool"
  assumes frame: "db_frame P"
    and update_status: "P w \<Longrightarrow> status_IsValid st \<Longrightarrow> guarded st err \<Longrightarrow> (c \<Longrightarrow> st \<noteq> DBStatusError) \<Longrightarrow>
      P (snd (UpdateDatabaseInstance i (no_update\<lparr>ui_Status := Some st, ui_LastError := err,
                          ui_ClearLastError := c, ui_StartedAt := t\<rparr>) w))"
    and update_health: "P w \<Longrightarrow> health_IsValid h \<Longrightarrow> P (snd (UpdateDatabaseInstance i (no_update\<lparr>ui_HealthStatus := Some h\<rparr>) w))"
    and update_size: "P w \<Longrightarrow> P (snd (UpdateDatabaseInstance i (no_update\<lparr>ui_VolumeSizeBytes := Some n\<rparr>) w))"
    and update_pending: "P w \<Longrightarrow> P (snd (UpdateDatabaseInstance i (no_update\<lparr>ui_PendingFinalSnapshot := Some b\<rparr>) w))"
    and raise_warning: "P w \<Longrightarrow> GetDatabaseInstanceByID i w = (Inr d, w1) \<Longrightarrow>
      di_LastError d = None \<or> di_Status d \<noteq> DBStatusError \<Longrightarrow>
      P (snd (UpdateDatabaseInstance i (no_update\<lparr>ui_LastError := Some e\<rparr>) w1))"
    and drop_warning: "P w \<Longrightarrow> GetDatabaseInstanceByID i w = (Inr d, w1) \<Longrightarrow>
      di_LastError d = Some e \<Longrightarrow> de_Code e = DBErrCodeBackupStale \<Longrightarrow>
      P (snd (UpdateDatabaseInstance i (no_update\<lparr>ui_ClearLastError := True\<rparr>) w1))"
begin

lemmas io = db_frame_recordEvent [OF frame] db_frame_broadcast [OF frame] db_frame_send [OF frame]
  db_frame_query [OF frame] db_frame_Get [OF frame]

lemma read: "GetDatabaseInstanceByID i w = (r, w1) \<Longrightarrow> P w1 \<longleftrightarrow> P w"
  using db_frame_GetD [OF frame] by blast

lemma keep_status: "UpdateDatabaseInstance i (no_update\<lparr>ui_Status := Some st, ui_LastError := err,
    ui_ClearLastError := c, ui_StartedAt := t\<rparr>) w = (r, w1) \<Longrightarrow> P w \<Longrightarrow> status_IsValid st \<Longrightarrow>
    guarded st err \<Longrightarrow> (c \<Longrightarrow> st \<noteq> DBStatusError) \<Longrightarrow> P w1"
  using update_status [of w st err c i t] by simp

lemma keep_health: "UpdateDatabaseInstance i (no_update\<lparr>ui_HealthStatus := Some h\<rparr>) w = (r, w1) \<Longrightarrow> P w \<Longrightarrow>
    health_IsValid h \<Longrightarrow> P w1"
  using update_health [of w h i] by simp

lemma keep_pending: "UpdateDatabaseInstance i (no_update\<lparr>ui_PendingFinalSnapshot := Some b\<rparr>) w = (r, w1) \<Longrightarrow> P w \<Longrightarrow> P w1"
  using update_pending [of w i b] by simp

lemma keep_SetHealth: "P w \<Longrightarrow> P (SetHealth i h m w)"
  by (cases "health_IsValid h") (auto simp: SetHealth_def io dest: read keep_health split: prod.split sum.split)

lemma keep_Transition:
  assumes "P w" "guarded st (to_Err opts)"
  shows "P (Transition i st opts w)"
proof (cases "status_IsValid st")
  case valid: True
  obtain r w1 where Pair: "GetDatabaseInstanceByID i w = (r, w1)" by force
  have w1: "P w1" using read [OF Pair] assms(1) by simp
  have c: "clears_error d st opts \<Longrightarrow> st \<noteq> DBStatusError" for d
    by (auto simp: clears_error_def db_status_defs)
  show ?thesis
  proof (cases r)
    case (Inl e)
    then show ?thesis using Pair w1 assms(1) by (simp add: Transition_def)
  next
    case (Inr d)
    obtain r2 w2 where u: "UpdateDatabaseInstance i (no_update\<lparr>ui_Status := Some st, ui_LastError := to_Err opts,
        ui_ClearLastError := clears_error d st opts, ui_StartedAt := to_StartedAt opts\<rparr>) w1 = (r2, w2)"
      by force
    have "P w2" using keep_status [OF u w1 valid assms(2) c] by simp
    then show ?thesis
      using Pair Inr u w1 assms(1) by (cases r2) (simp_all add: Transition_def Let_def io keep_SetHealth)
  qed
qed (simp add: Transition_def assms(1))

lemma keep_error_opts: "P w \<Longrightarrow> code \<noteq> DBErrCodeBackupStale \<Longrightarrow> P (Transition i st (error_opts m code a w') w)"
  by (rule keep_Transition) (simp_all add: guarded_def error_opts_def newDatabaseError_def)

lemma keep_plain: "P w \<Longrightarrow> st \<noteq> DBStatusError \<Longrightarrow> P (Transition i st opts w)"
  by (rule keep_Transition) (simp_all add: guarded_def)

lemma keep_SetWarning: "P w \<Longrightarrow> P (SetWarning i v a w)"
proof (cases v)
  case (Some e)
  assume w: "P w"
  have "P w2" if "GetDatabaseInstanceByID i w = (Inr d, w1)"
    "\<not> (case di_LastError d of None \<Rightarrow> False | Some c \<Rightarrow> de_Code c = de_Code e \<or> di_Status d = DBStatusError)"
    "UpdateDatabaseInstance i (no_update\<lparr>ui_LastError := Some e\<rparr>) w1 = (r, w2)" for d w1 r w2
    using raise_warning [OF w that(1), of e] that(2,3) by (auto split: option.splits)
  then show ?thesis using Some w
    by (auto simp: SetWarning_def io dest: read split: prod.split sum.split)
qed (simp add: SetWarning_def)

lemma keep_ClearStale: "P w \<Longrightarrow> P (ClearWarning i DBErrCodeBackupStale w)"
proof -
  assume w: "P w"
  have "P w2" if "GetDatabaseInstanceByID i w = (Inr d, w1)"
    "\<not> (case di_LastError d of None \<Rightarrow> True | Some c \<Rightarrow> de_Code c \<noteq> DBErrCodeBackupStale)"
    "UpdateDatabaseInstance i (no_update\<lparr>ui_ClearLastError := True\<rparr>) w1 = (r, w2)" for d w1 r w2
    using drop_warning [OF w that(1)] that(2,3) by (auto split: option.splits)
  then show ?thesis using w by (auto simp: ClearWarning_def io dest: read split: prod.split sum.split)
qed

lemma keep_RecordEvent: "P (RecordEvent i k m a w) \<longleftrightarrow> P w"
  by (simp add: RecordEvent_def io)

lemma keep_BeginDeleting: "P w \<Longrightarrow> P (BeginDeleting i a w)"
  by (simp add: BeginDeleting_def keep_plain db_status_defs)

lemma keep_dbInstanceStatus: "dbInstanceStatus i w = (s, w1) \<Longrightarrow> P w1 \<longleftrightarrow> P w"
  by (auto simp: dbInstanceStatus_def dest: read split: prod.splits sum.splits)

lemma keep_replyFailed: "P w \<Longrightarrow> P (replyFailed i action m w)"
proof -
  assume w: "P w"
  have code: "dbActionFailureCode action \<noteq> DBErrCodeBackupStale"
    by (auto simp: dbActionFailureCode_def db_code_defs)
  show ?thesis using w code
    by (auto simp: replyFailed_def Let_def keep_plain keep_error_opts db_status_defs dest: keep_dbInstanceStatus split: prod.split)
qed

lemma keep_Transition_outcome: "P w \<Longrightarrow> P (Transition i (dbActionOutcome action) opts w)"
  by (rule keep_plain) (auto simp: dbActionOutcome_def db_status_defs)

lemma keep_reconcile: "P w \<Longrightarrow> P (reconcileDatabaseInstance d obs present w)"
proof -
  assume "P w"
  then have s: "P (reconcileSize d obs w)" by (simp add: reconcileSize_def update_size)
  have running: "P (reconcileRunning d w')" if "P w'" for w'
    using that by (simp add: reconcileRunning_def keep_plain db_status_defs)
  have stopped: "P (reconcileStopped d st w')" if "P w'" for w' st
    using that by (simp add: reconcileStopped_def keep_plain db_status_defs)
  have health: "P (reconcileHealth d obs w')" if "P w'" for w'
    using that by (simp add: reconcileHealth_def keep_SetHealth)
  have absent: "P (reconcileAbsent d w')" if "P w'" for w'
    using that by (auto simp: reconcileAbsent_def Let_def keep_SetHealth guarded_def newDatabaseError_def db_code_defs
        intro!: keep_Transition)
  show ?thesis
    using s running stopped health absent by (simp add: reconcileDatabaseInstance_def Let_def keep_plain db_status_defs)
qed

lemma keep_handleDbSync: "P w \<Longrightarrow> P (snd (handleDbSync trunc wid p w))"
proof -
  assume w: "P w"
  have l: "P w1" if "ListDatabaseInstancesByWorker wid w = (r, w1)" for r w1
    using that w db_frame_query [OF frame, of "\<lambda>w. scan_rows w (sort_key di_ID (filter (\<lambda>d. di_WorkerID d = wid \<and> di_Active d) (d_instances w)))" w]
    by (auto simp: ListDatabaseInstancesByWorker_def query_instances_def split: prod.splits sum.splits)
  have f: "P (fold (\<lambda>d. case g d of (obs, present) \<Rightarrow> reconcileDatabaseInstance d obs present) ds w')" if "P w'" for g ds w'
    using that by (induction ds arbitrary: w') (simp_all add: keep_reconcile split: prod.split)
  show ?thesis
    using l f w by (auto simp: handleDbSync_def Let_def split: option.split json.split prod.split sum.split)
qed

lemma keep_failStuck: "P w \<Longrightarrow> P (failStuckInstances inflight w)"
proof -
  assume w: "P w"
  have l: "P w1" if "ListStuckDatabaseInstances t w = (r, w1)" for r w1 t
    using that w db_frame_query [OF frame, of "\<lambda>w. scan_rows w (sort_key di_ID (filter (\<lambda>d. di_Active d \<and> IsTransitional (di_Status d) \<and> di_UpdatedAt d < t) (d_instances w)))" w]
    by (auto simp: ListStuckDatabaseInstances_def query_instances_def split: prod.splits sum.splits)
  have code: "stuck_code d w' \<noteq> DBErrCodeBackupStale" for d and w' :: "'a db_world_scheme"
    by (simp add: stuck_code_def db_code_defs)
  have f: "P (fold (\<lambda>d w. if di_ID d \<in> inflight then w else failStuckInstance d w) ds w')" if "P w'" for ds w'
    using that by (induction ds arbitrary: w') (simp_all add: failStuckInstance_def keep_error_opts code)
  show ?thesis using l f w by (auto simp: failStuckInstances_def split: prod.split sum.split)
qed

lemma keep_finaliseDelete: "P w \<Longrightarrow> P (snd (finaliseDeleteAfterSnapshot i w))"
proof -
  assume w: "P w"
  have send: "P w2" if "SendJSONToWorker wid m w1 = (r, w2)" "P w1" for wid m w1 r w2
    using io(3) [of wid m w1] that by simp
  show ?thesis
    using w by (auto simp: finaliseDeleteAfterSnapshot_def intro!: keep_SetWarning keep_BeginDeleting
        dest!: read keep_pending send split: prod.split sum.split option.split)
qed

lemma keep_reconcileAll: "P w \<Longrightarrow> P (reconcileAll w)"
proof -
  have "P (RequestSync wid w')" if "P w'" for wid w'
    using that by (simp add: RequestSync_def io)
  then have "P (fold RequestSync ids w')" if "P w'" for ids w'
    using that by (induction ids arbitrary: w') auto
  then show "P w \<Longrightarrow> P (reconcileAll w)" by (simp add: reconcileAll_def)
qed

end

locale retirable = row_property +
  assumes retire: "P w \<Longrightarrow> P (snd (DeleteDatabaseInstance i w))"
begin

lemma keep_FinalizeDeletion: "P w \<Longrightarrow> P (snd (FinalizeDeletion i b w))"
proof -
  assume w: "P w"
  have del: "P w2" if "DeleteDatabaseInstance i w1 = (r, w2)" "P w1" for w1 r w2
    using retire [of w1 i] that by simp
  have code: "DBErrCodeRemoveFailed \<noteq> DBErrCodeBackupStale" by (simp add: db_code_defs)
  show ?thesis
    using w by (auto simp: FinalizeDeletion_def Let_def io code intro!: keep_error_opts dest!: read del
        split: prod.split sum.split option.split)
qed

lemma keep_replyCompleted: "P w \<Longrightarrow> P (replyCompleted i action b w)"
proof -
  assume "P w"
  then have "P w1" if "(if action = MsgDbRemove then FinalizeDeletion i b w else (False, w)) = (f, w1)" for f w1
    using keep_FinalizeDeletion [of w i b] that by (auto split: if_splits)
  then show ?thesis
    unfolding replyCompleted_def Let_def by (auto simp: keep_RecordEvent keep_Transition_outcome split: prod.split)
qed

lemma keep_handleDbStatus: "P w \<Longrightarrow> P (handleDbStatus trunc p w)"
proof -
  assume w: "P w"
  obtain f w1 where g: "(if payload_str p ''action'' = MsgDbCreate
      then (let (st, w1) = dbInstanceStatus (payloadInt trunc p ''database_instance_id'') w in (st = DBStatusDeleting, w1))
      else (False, w)) = (f, w1)"
    by fastforce
  then have "P w1" using w by (auto dest: keep_dbInstanceStatus split: if_splits prod.splits)
  then show ?thesis using w unfolding handleDbStatus_def Let_def g [unfolded Let_def]
    by (cases "reply_phase p")
      (simp_all add: keep_RecordEvent keep_replyCompleted keep_replyFailed keep_plain db_status_defs)
qed

end

section \<open>The operations on an instance\<close>

text \<open>
  Everything that moves a managed database along: a worker's reply, a worker's report, the
  reconciler's tick, the watchdog, a delete, the snapshot that precedes one, and the freshness
  sweep's warnings.
\<close>

datatype life_op =
    OpStatus "string \<Rightarrow> int" "(string \<times> json) list"
  | OpSync "string \<Rightarrow> int" int "(string \<times> json) list"
  | OpReconcileAll
  | OpWatchdog "int set"
  | OpBeginDeleting int string
  | OpFinalSnapshot int
  | OpWarn int databaseError string
  | OpClearStale int

fun life_step :: "life_op \<Rightarrow> 'a db_world_scheme \<Rightarrow> 'a db_world_scheme" where
  "life_step (OpStatus trunc p) w = handleDbStatus trunc p w"
| "life_step (OpSync trunc wid p) w = snd (handleDbSync trunc wid p w)"
| "life_step OpReconcileAll w = reconcileAll w"
| "life_step (OpWatchdog inflight) w = failStuckInstances inflight w"
| "life_step (OpBeginDeleting i actor) w = BeginDeleting i actor w"
| "life_step (OpFinalSnapshot i) w = snd (finaliseDeleteAfterSnapshot i w)"
| "life_step (OpWarn i e actor) w = SetWarning i (Some e) actor w"
| "life_step (OpClearStale i) w = ClearWarning i DBErrCodeBackupStale w"

context row_property
begin

lemma keep_life_step_but_reply: "P w \<Longrightarrow> (\<And>trunc p. op \<noteq> OpStatus trunc p) \<Longrightarrow> P (life_step op w)"
  by (cases op) (auto simp: keep_handleDbSync keep_reconcileAll keep_failStuck keep_BeginDeleting
      keep_finaliseDelete keep_SetWarning keep_ClearStale)

end

context retirable
begin

lemma keep_life_steps: "P w \<Longrightarrow> P (fold life_step ops w)"
proof (induction ops arbitrary: w)
  case (Cons op ops)
  have "P (life_step op w)"
    using Cons.prems keep_life_step_but_reply [of w op] by (cases op) (auto simp: keep_handleDbStatus)
  then show ?case using Cons.IH by simp
qed simp

end

section \<open>The table's invariant\<close>

definition row_ok :: "databaseInstance \<Rightarrow> bool" where
  "row_ok d \<longleftrightarrow> di_Status d = DBStatusError \<longrightarrow>
     (case di_LastError d of None \<Rightarrow> False | Some e \<Rightarrow> de_Code e \<noteq> DBErrCodeBackupStale)"

definition db_inv :: "'a db_world_scheme \<Rightarrow> bool" where
  "db_inv w \<longleftrightarrow> distinct (map di_ID (d_instances w)) \<and> list_all row_ok (d_instances w)"

lemma Update_rows:
  obtains rp pw now t where "d_instances (snd (UpdateDatabaseInstance i req w)) =
      update_where (\<lambda>d. di_ID d = i) (\<lambda>d. touch_row t d (instance_sets req rp pw now d)) (d_instances w)"
  | "d_instances (snd (UpdateDatabaseInstance i req w)) = d_instances w"
proof (cases "req = no_update \<or> (\<exists>e. encrypt_column ''root password'' w (ui_RootPassword req) = Inl e)
    \<or> (\<exists>e. encrypt_column ''password'' w (ui_Password req) = Inl e)")
  case True
  then have "d_instances (snd (UpdateDatabaseInstance i req w)) = d_instances w"
    by (auto simp: UpdateDatabaseInstance_def split: sum.split)
  then show ?thesis by (rule that(2))
next
  case False
  then obtain rp pw where e: "encrypt_column ''root password'' w (ui_RootPassword req) = Inr rp"
    "encrypt_column ''password'' w (ui_Password req) = Inr pw" "req \<noteq> no_update"
    by (metis sum.exhaust)
  define f where "f = (\<lambda>w1 :: 'a db_world_scheme. write_instances (update_where (\<lambda>d. di_ID d = i)
    (\<lambda>d. touch_row (clock w1) d (instance_sets req rp pw (clock w) d)) (d_instances w1)) w1)"
  have u: "UpdateDatabaseInstance i req w = (case exec f w of
      (Inl e, w1) \<Rightarrow> (Inl (''failed to execute sql query: '' @ e), w1)
    | (Inr (Some e), w1) \<Rightarrow> (Inl (''failed to execute sql query: '' @ e), w1)
    | (Inr None, w1) \<Rightarrow> GetDatabaseInstanceByID i w1)"
    using e by (simp add: UpdateDatabaseInstance_def f_def)
  have s: "d_instances (snd (UpdateDatabaseInstance i req w)) = d_instances (snd (exec f w))"
    unfolding u using db_frame_Get [OF db_frame_instances] by (auto split: prod.split sum.split option.split)
  have same: "d_instances w0 = d_instances w" if "w0 = w\<lparr>clock := clock w0, db_script := db_script w0\<rparr>" for w0 :: "'a db_world_scheme"
    by (subst that) simp
  have eff: "d_instances (snd (f w0)) = d_instances w \<or> d_instances (snd (f w0)) = update_where (\<lambda>d. di_ID d = i)
      (\<lambda>d. touch_row (clock w0) d (instance_sets req rp pw (clock w) d)) (d_instances w)"
    if "w0 = w\<lparr>clock := clock w0, db_script := db_script w0\<rparr>" for w0
    using same [OF that] by (simp add: f_def write_instances_def)
  show ?thesis
  proof (rule exec_cases [where w = w and f = f])
    fix w0 assume "w0 = w\<lparr>clock := clock w0, db_script := db_script w0\<rparr>" "exec f w = (Inr (fst (f w0)), snd (f w0))"
    then show ?thesis using eff [of w0] s that by (metis snd_conv)
  next
    fix w0 assume "w0 = w\<lparr>clock := clock w0, db_script := db_script w0\<rparr>" "exec f w = (Inl db_err, snd (f w0))"
    then show ?thesis using eff [of w0] s that by (metis snd_conv)
  next
    fix w0 assume "w0 = w\<lparr>clock := clock w0, db_script := db_script w0\<rparr>" "exec f w = (Inl db_err, w0)"
    then show ?thesis using same [of w0] s by (intro that(2)) simp
  qed
qed

lemma db_inv_rows: "d_instances w' = d_instances w \<Longrightarrow> db_inv w' \<longleftrightarrow> db_inv w"
  by (simp add: db_inv_def)

lemma db_inv_frame: "db_frame db_inv"
  by (simp add: db_frame_def db_inv_def)

lemma db_inv_update:
  assumes "db_inv w"
    and "\<And>d rp pw now. d \<in> set (d_instances w) \<Longrightarrow> di_ID d = i \<Longrightarrow> row_ok d \<Longrightarrow> row_ok (instance_sets req rp pw now d)"
  shows "db_inv (snd (UpdateDatabaseInstance i req w))"
proof (rule Update_rows [of i req w])
  fix rp pw now t
  assume u: "d_instances (snd (UpdateDatabaseInstance i req w)) =
      update_where (\<lambda>d. di_ID d = i) (\<lambda>d. touch_row t d (instance_sets req rp pw now d)) (d_instances w)"
  have t: "row_ok (touch_row t d d') = row_ok d'" for d d' by (simp add: row_ok_def)
  show ?thesis using assms unfolding db_inv_def u
    by (auto simp: update_where_map_key set_update_where list_all_iff t)
next
  assume "d_instances (snd (UpdateDatabaseInstance i req w)) = d_instances w"
  then show ?thesis using assms(1) db_inv_rows by blast
qed

text \<open>The row a read found is the only one with its id.\<close>

lemma Get_only_row:
  assumes "db_inv w" "GetDatabaseInstanceByID i w = (Inr d', w1)" "d \<in> set (d_instances w)" "di_ID d = i"
  shows "same_row d d'"
proof -
  obtain d0 where d0: "select_instance i (d_instances w) = Some d0" "same_row d0 d'"
    using Get_Inr [OF assms(2)] by metis
  then have "d0 \<in> set (d_instances w)" "di_ID d0 = i"
    by (auto simp: select_instance_def find_Some_iff)
  then have "d0 = d" using assms by (auto simp: db_inv_def distinct_map inj_on_def)
  then show ?thesis using d0 by simp
qed

lemma db_inv_update_read:
  assumes "db_inv w" "GetDatabaseInstanceByID i w = (Inr d', w1)"
    and "\<And>d rp pw now. row_ok d \<Longrightarrow> di_Status d = di_Status d' \<Longrightarrow> di_LastError d = di_LastError d' \<Longrightarrow> row_ok (instance_sets req rp pw now d)"
  shows "db_inv (snd (UpdateDatabaseInstance i req w1))"
proof (rule db_inv_update)
  have rows: "d_instances w1 = d_instances w" using db_frame_GetD [OF db_frame_instances assms(2)] .
  then show "db_inv w1" using assms(1) db_inv_rows by blast
  fix d rp pw now
  assume "d \<in> set (d_instances w1)" "di_ID d = i" "row_ok d"
  with rows have "same_row d d'" using Get_only_row [OF assms(1,2)] by simp
  then show "row_ok (instance_sets req rp pw now d)"
    using assms(3) [OF \<open>row_ok d\<close>] same_row_sel [of d d'] by simp
qed

lemma db_inv_delete: "db_inv w \<Longrightarrow> db_inv (snd (DeleteDatabaseInstance i w))"
  unfolding DeleteDatabaseInstance_def snd_exec_unit
proof (rule exec_keeps [where P = db_inv])
  fix w :: "'a db_world_scheme"
  have t: "row_ok (touch_row t d (d\<lparr>di_Active := False\<rparr>)) = row_ok d" for t d by (simp add: row_ok_def)
  assume "db_inv w"
  then show "db_inv (snd ((), w\<lparr>d_instances := update_where (\<lambda>d. di_ID d = i)
       (\<lambda>d. touch_row (clock w) d (d\<lparr>di_Active := False\<rparr>)) (d_instances w)\<rparr>))"
    by (auto simp: db_inv_def update_where_map_key set_update_where list_all_iff t)
qed (simp_all add: db_inv_def)

interpretation inv: retirable db_inv
proof unfold_locales
  show "db_frame db_inv" by (rule db_inv_frame)
next
  fix w :: "'a db_world_scheme" and st err c i t
  assume "db_inv w" "guarded st err" "c \<Longrightarrow> st \<noteq> DBStatusError"
  then show "db_inv (snd (UpdateDatabaseInstance i (no_update\<lparr>ui_Status := Some st, ui_LastError := err,
      ui_ClearLastError := c, ui_StartedAt := t\<rparr>) w))"
    by (intro db_inv_update) (auto simp: row_ok_def guarded_def no_update_def)
next
  fix w w1 :: "'a db_world_scheme" and i d e
  assume a: "db_inv w" "GetDatabaseInstanceByID i w = (Inr d, w1)" "di_LastError d = None \<or> di_Status d \<noteq> DBStatusError"
  show "db_inv (snd (UpdateDatabaseInstance i (no_update\<lparr>ui_LastError := Some e\<rparr>) w1))"
    by (rule db_inv_update_read [OF a(1,2)]) (use a(3) in \<open>auto simp: row_ok_def no_update_def\<close>)
next
  fix w w1 :: "'a db_world_scheme" and i d e
  assume a: "db_inv w" "GetDatabaseInstanceByID i w = (Inr d, w1)" "di_LastError d = Some e" "de_Code e = DBErrCodeBackupStale"
  show "db_inv (snd (UpdateDatabaseInstance i (no_update\<lparr>ui_ClearLastError := True\<rparr>) w1))"
    by (rule db_inv_update_read [OF a(1,2)]) (use a(3,4) in \<open>auto simp: row_ok_def no_update_def\<close>)
qed (auto intro!: db_inv_update db_inv_delete simp: row_ok_def no_update_def)

section \<open>Which rows are live\<close>

definition live :: "'a db_world_scheme \<Rightarrow> (int \<times> bool) list" where
  "live w = map (\<lambda>d. (di_ID d, di_Active d)) (d_instances w)"

lemma live_frame: "db_frame live"
  by (simp add: db_frame_def live_def)

lemma live_update: "ui_Active req = None \<Longrightarrow> live (snd (UpdateDatabaseInstance i req w)) = live w"
  by (rule Update_rows [of i req w]) (auto simp: live_def update_where_def)

interpretation live: row_property "\<lambda>w. live w = c" for c
proof unfold_locales
  show "db_frame (\<lambda>w :: 'a db_world_scheme. live w = c)" using live_frame by (rule db_frame_comp)
qed (use live_frame in \<open>auto simp: live_update no_update_def dest: db_frame_GetD\<close>)

lemma live_delete:
  "live (snd (DeleteDatabaseInstance i w)) = live w \<or>
   live (snd (DeleteDatabaseInstance i w)) = map (\<lambda>(j, a). (j, a \<and> j \<noteq> i)) (live w)"
  unfolding DeleteDatabaseInstance_def snd_exec_unit
proof (rule exec_keeps [where P = "\<lambda>w'. live w' = live w \<or> live w' = map (\<lambda>(j, a). (j, a \<and> j \<noteq> i)) (live w)"])
  fix w' :: "'a db_world_scheme"
  have "live (w'\<lparr>d_instances := update_where (\<lambda>d. di_ID d = i)
       (\<lambda>d. touch_row (clock w') d (d\<lparr>di_Active := False\<rparr>)) (d_instances w')\<rparr>) = map (\<lambda>(j, a). (j, a \<and> j \<noteq> i)) (live w')"
    by (auto simp: live_def update_where_def)
  moreover have "map (\<lambda>(j, a). (j, a \<and> j \<noteq> i)) (map (\<lambda>(j, a). (j, a \<and> j \<noteq> i)) xs) = map (\<lambda>(j, a). (j, a \<and> j \<noteq> i)) xs" for xs
    by auto
  moreover assume "live w' = live w \<or> live w' = map (\<lambda>(j, a). (j, a \<and> j \<noteq> i)) (live w)"
  ultimately show "live (snd ((), w'\<lparr>d_instances := update_where (\<lambda>d. di_ID d = i)
       (\<lambda>d. touch_row (clock w') d (d\<lparr>di_Active := False\<rparr>)) (d_instances w')\<rparr>)) = live w \<or>
     live (snd ((), w'\<lparr>d_instances := update_where (\<lambda>d. di_ID d = i)
       (\<lambda>d. touch_row (clock w') d (d\<lparr>di_Active := False\<rparr>)) (d_instances w')\<rparr>)) = map (\<lambda>(j, a). (j, a \<and> j \<noteq> i)) (live w)"
    by auto
qed (simp_all add: live_def)

text \<open>What a delete's confirmation may retire: the row it names, if that row is being deleted.\<close>

definition confirmed :: "bool \<Rightarrow> int \<Rightarrow> 'a db_world_scheme \<Rightarrow> 'a db_world_scheme \<Rightarrow> bool" where
  "confirmed b i w w' \<longleftrightarrow> live w' = live w \<or>
     (b \<and> live w' = map (\<lambda>(j, a). (j, a \<and> j \<noteq> i)) (live w) \<and>
      (\<exists>d. select_instance i (d_instances w) = Some d \<and> di_Status d = DBStatusDeleting))"

lemma confirmed_same: "live w' = live w \<Longrightarrow> confirmed b i w w'"
  by (simp add: confirmed_def)

lemma live_Transition: "st \<noteq> DBStatusError \<or> (\<exists>m code a w'. opts = error_opts m code a w' \<and> code \<noteq> DBErrCodeBackupStale) \<Longrightarrow>
  live (Transition i st opts w) = live w"
  using live.keep_plain live.keep_error_opts by metis

lemma FinalizeDeletion_confirmed: "confirmed b i w (snd (FinalizeDeletion i b w))"
proof (cases "GetDatabaseInstanceByID i w")
  case (Pair r w1)
  have l1: "live w1 = live w" using db_frame_GetD [OF live_frame Pair] .
  have code: "DBErrCodeRemoveFailed \<noteq> DBErrCodeBackupStale" by (simp add: db_code_defs)
  have t: "live (Transition i st (error_opts m DBErrCodeRemoveFailed a w') w'') = live w''" for st m a w' w''
    using live_Transition code by metis
  show ?thesis
  proof (cases r)
    case (Inl e)
    then show ?thesis using Pair l1 by (simp add: FinalizeDeletion_def confirmed_def)
  next
    case (Inr d')
    then obtain d where d: "select_instance i (d_instances w) = Some d" "di_Status d = di_Status d'"
      using Get_Inr [of i w d' w1] Pair same_row_sel(2) by metis
    obtain r2 w2 where del: "DeleteDatabaseInstance i w1 = (r2, w2)" by force
    then have "live w2 = live w \<or> live w2 = map (\<lambda>(j, a). (j, a \<and> j \<noteq> i)) (live w)"
      using live_delete [of i w1] l1 by simp
    then show ?thesis using Pair Inr l1 d del
      by (cases r2) (auto simp: FinalizeDeletion_def confirmed_def Let_def t
          db_frame_broadcast [OF live_frame] db_frame_recordEvent [OF live_frame])
  qed
qed

lemma handleDbStatus_confirmed:
  "confirmed (payload_str p ''action'' = MsgDbRemove \<and> reply_phase p = PhaseCompleted \<and> payloadBool p ''volume_removed'')
     (payloadInt trunc p ''database_instance_id'') w (handleDbStatus trunc p w)"
proof -
  define i where "i = payloadInt trunc p ''database_instance_id''"
  define action where "action = payload_str p ''action''"
  have ev: "live (RecordEvent i k m a w') = live w'" for k m a w'
    by (simp add: RecordEvent_def db_frame_recordEvent [OF live_frame])
  have st: "live w1 = live w" if "dbInstanceStatus i w = (s, w1)" for s w1
    using live.keep_dbInstanceStatus that by metis
  obtain f w1 where g: "(if action = MsgDbCreate
      then (let (st, w1) = dbInstanceStatus i w in (st = DBStatusDeleting, w1)) else (False, w)) = (f, w1)"
    by fastforce
  then have l1: "live w1 = live w" and rem: "action = MsgDbRemove \<Longrightarrow> w1 = w"
    by (auto simp: msg_defs dest: st split: if_splits prod.splits)
  have out: "live (Transition i (dbActionOutcome a) opts w') = live w'" for a opts w'
    using live.keep_Transition_outcome by metis
  have other: "live (replyCompleted i action b w1) = live w1" if "action \<noteq> MsgDbRemove" for b
    using that by (simp add: replyCompleted_def ev out)
  have fin: "confirmed b i w (replyCompleted i action b w)" if "action = MsgDbRemove" for b
    using FinalizeDeletion_confirmed [of b i w] that
    by (auto simp: replyCompleted_def Let_def confirmed_def ev out split: prod.splits)
  have failed: "live (replyFailed i action m w1) = live w1" for m using live.keep_replyFailed by metis
  have ack: "live (Transition i DBStatusProvisioning opts w1) = live w1" for opts
    by (rule live_Transition) (simp add: db_status_defs)
  have "confirmed (action = MsgDbRemove \<and> reply_phase p = PhaseCompleted \<and> payloadBool p ''volume_removed'') i w
      (handleDbStatus trunc p w)"
    unfolding handleDbStatus_def Let_def i_def [symmetric] action_def [symmetric] g [unfolded Let_def]
    using l1 rem fin [of "payloadBool p ''volume_removed''"] other failed ack
    by (cases "reply_phase p"; cases "action = MsgDbRemove") (auto simp: ev intro!: confirmed_same)
  then show ?thesis by (simp add: i_def action_def)
qed

section \<open>Properties of the lifecycle\<close>


definition stale_error :: databaseError where
  "stale_error = \<lparr>de_Code = ''backup_stale'', de_Message = ''no backup'', de_OccurredAt = 0, de_Retryable = True\<rparr>"

definition missing_world :: db_world where
  "missing_world = db_empty\<lparr>d_instances := [db0]\<rparr>"



definition remove_reply :: "(string \<times> json) list" where
  "remove_reply = [(''database_instance_id'', JInt 1), (''action'', JStr ''db_remove''), (''phase'', JStr ''completed''),
     (''volume_removed'', JBool True)]"

definition deleting_world :: db_world where
  "deleting_world = db_empty\<lparr>d_instances := [db0\<lparr>di_Status := ''deleting''\<rparr>]\<rparr>"


definition running_report :: "(string \<times> json) list" where
  "running_report = [(''containers'', JList [JObj [(''container_name'', JStr ''db-orders''), (''database_instance_id'', JInt 1),
     (''state'', JStr ''running'')]])]"


end
