(* ===== verification/Db_Backups.thy ===== *)
theory Db_Backups
  imports Db_Lifecycle Cron
begin

text \<open>
  Backups of managed databases: the snapshot, run, replica and destination tables
  (\<^verbatim>\<open>src/query/database_snapshots.query.go\<close>, \<^verbatim>\<open>database_snapshot_runs.query.go\<close>,
  \<^verbatim>\<open>database_snapshot_replicas.query.go\<close>, \<^verbatim>\<open>backup_destinations.query.go\<close>), the start of a snapshot and
  the removal of one (\<^verbatim>\<open>src/routers/HandleDatabaseSnapshots.router.go\<close>), and what the control plane
  does when a snapshot finishes: retention, mirroring, closing its run, freshness
  (\<^verbatim>\<open>src/database_handlers.go\<close>, \<^verbatim>\<open>src/database_reconciler.go\<close>, \<^verbatim>\<open>src/ws_dispatch.go\<close>).
  \<open>b_unmarshal\<close> is \<^verbatim>\<open>encoding/json\<close> reading an object; \<open>b_uuid\<close> is the random
  request id drawn at an instant.
\<close>

section \<open>Data\<close>

definition SnapshotRunClaimed :: string where "SnapshotRunClaimed = ''claimed''"
definition SnapshotRunRunning :: string where "SnapshotRunRunning = ''running''"
definition SnapshotRunDone :: string where "SnapshotRunDone = ''completed''"
definition SnapshotRunFailed :: string where "SnapshotRunFailed = ''failed''"
definition SnapshotRunSkipped :: string where "SnapshotRunSkipped = ''skipped''"

lemmas run_status_defs = SnapshotRunClaimed_def SnapshotRunRunning_def SnapshotRunDone_def SnapshotRunFailed_def SnapshotRunSkipped_def

record databaseSnapshotRun =
  rr_ID :: int
  rr_DatabaseInstanceID :: int
  rr_ScheduledAt :: time
  rr_Status :: string
  rr_SkipReason :: "string option"
  rr_SnapshotID :: "int option"
  rr_DispatchedAt :: "time option"
  rr_FinishedAt :: "time option"
  rr_InsertedAt :: time
  rr_UpdatedAt :: time

record databaseSnapshot =
  sn_ID :: int
  sn_DatabaseInstanceID :: int
  sn_BackupDestinationID :: "int option"
  sn_Filename :: string
  sn_SizeBytes :: "int option"
  sn_Engine :: string
  sn_DatabaseName :: string
  sn_Status :: string
  sn_TriggerType :: string
  sn_ErrorMessage :: "string option"
  sn_CompletedAt :: "time option"
  sn_Active :: bool
  sn_UpdatedAt :: time
  sn_InsertedAt :: time

definition ReplicaRolePrimary :: string where "ReplicaRolePrimary = ''primary''"
definition ReplicaRoleMirror :: string where "ReplicaRoleMirror = ''mirror''"
definition ReplicaPending :: string where "ReplicaPending = ''pending''"
definition ReplicaCompleted :: string where "ReplicaCompleted = ''completed''"
definition ReplicaFailed :: string where "ReplicaFailed = ''failed''"

record databaseSnapshotReplica =
  rp_SnapshotID :: int
  rp_BackupDestinationID :: int
  rp_Role :: string
  rp_Status :: string
  rp_SizeBytes :: "int option"
  rp_ErrorMessage :: "string option"
  rp_CompletedAt :: "time option"

definition LocalityUnknown :: string where "LocalityUnknown = ''unknown''"
definition LocalitySameHost :: string where "LocalitySameHost = ''same_host''"
definition LocalitySameFleet :: string where "LocalitySameFleet = ''same_fleet''"
definition LocalityOffsite :: string where "LocalityOffsite = ''offsite''"

definition IsValidLocality :: "string \<Rightarrow> bool" where
  "IsValidLocality s \<longleftrightarrow> s \<in> {LocalityUnknown, LocalitySameHost, LocalitySameFleet, LocalityOffsite}"

record backupDestination =
  bd_ID :: int
  bd_Name :: string
  bd_Type :: string
  bd_Locality :: string
  bd_Config :: "string option"
  bd_Active :: bool

record backup_world = db_world +
  b_snapshots :: "databaseSnapshot list"
  b_next_snapshot :: int
  b_runs :: "databaseSnapshotRun list"
  b_next_run :: int
  b_replicas :: "databaseSnapshotReplica list"
  b_destinations :: "backupDestination list"
  b_next_destination :: int
  b_unmarshal :: "string \<Rightarrow> go_error + (string \<times> json) list"
  b_uuid :: "time \<Rightarrow> string"

section \<open>Snapshot runs\<close>

definition slot_claimed :: "int \<Rightarrow> time \<Rightarrow> databaseSnapshotRun list \<Rightarrow> bool" where
  "slot_claimed i slot rs \<longleftrightarrow> list_ex (\<lambda>r. rr_DatabaseInstanceID r = i \<and> rr_ScheduledAt r = db_time slot) rs"

definition snapshot_run_row :: "int \<Rightarrow> int \<Rightarrow> time \<Rightarrow> time \<Rightarrow> databaseSnapshotRun" where
  "snapshot_run_row rid i slot now =
     \<lparr>rr_ID = rid, rr_DatabaseInstanceID = i, rr_ScheduledAt = db_time slot, rr_Status = SnapshotRunClaimed,
      rr_SkipReason = None, rr_SnapshotID = None, rr_DispatchedAt = None, rr_FinishedAt = None,
      rr_InsertedAt = db_time now, rr_UpdatedAt = db_time now\<rparr>"

text \<open>The INSERT under the unique key; \<open>None\<close> is the duplicate-entry error.\<close>

definition insert_snapshot_run :: "int \<Rightarrow> time \<Rightarrow> 'a backup_world_scheme \<Rightarrow> int option \<times> 'a backup_world_scheme" where
  "insert_snapshot_run i slot w =
     (if slot_claimed i slot (b_runs w) then (None, w)
      else (Some (b_next_run w),
            w\<lparr>b_runs := b_runs w @ [snapshot_run_row (b_next_run w) i slot (clock w)], b_next_run := b_next_run w + 1\<rparr>))"

definition GetSnapshotRunByID :: "int \<Rightarrow> 'a backup_world_scheme \<Rightarrow> (go_error + databaseSnapshotRun) \<times> 'a backup_world_scheme" where
  "GetSnapshotRunByID rid w =
     one_row ''failed to scan snapshot run: '' (\<lambda>w. List.find (\<lambda>r. rr_ID r = rid) (b_runs w)) w"

definition ClaimSnapshotRun ::
  "int \<Rightarrow> time \<Rightarrow> 'a backup_world_scheme \<Rightarrow> (go_error + databaseSnapshotRun option) \<times> 'a backup_world_scheme" where
  "ClaimSnapshotRun i slot w =
     (case exec (insert_snapshot_run i slot) w of
        (Inl e, w1) \<Rightarrow> (Inl (''failed to claim snapshot run: '' @ e), w1)
      | (Inr None, w1) \<Rightarrow> (Inr None, w1)
      | (Inr (Some rid), w1) \<Rightarrow>
          (case GetSnapshotRunByID rid w1 of (Inl e, w2) \<Rightarrow> (Inl e, w2) | (Inr r, w2) \<Rightarrow> (Inr (Some r), w2)))"

definition run_open :: "databaseSnapshotRun \<Rightarrow> bool" where
  "run_open r \<longleftrightarrow> rr_Status r = SnapshotRunClaimed \<or> rr_Status r = SnapshotRunRunning"

definition HasRunInFlight :: "int \<Rightarrow> int \<Rightarrow> 'a backup_world_scheme \<Rightarrow> (go_error + bool) \<times> 'a backup_world_scheme" where
  "HasRunInFlight i excludeRunID w =
     (case query (\<lambda>w. length (filter (\<lambda>r. rr_DatabaseInstanceID r = i \<and> rr_ID r \<noteq> excludeRunID \<and> run_open r) (b_runs w))) w of
        (Inl e, w1) \<Rightarrow> (Inl (''failed to count in-flight runs: '' @ e), w1)
      | (Inr n, w1) \<Rightarrow> (Inr (0 < n), w1))"

record updateSnapshotRunRequest =
  ur_Status :: "string option"
  ur_SkipReason :: "string option"
  ur_SnapshotID :: "int option"
  ur_DispatchedAt :: "time option"
  ur_Finished :: bool

definition no_snapshot_run_update :: updateSnapshotRunRequest where
  "no_snapshot_run_update = \<lparr>ur_Status = None, ur_SkipReason = None, ur_SnapshotID = None, ur_DispatchedAt = None, ur_Finished = False\<rparr>"

definition snapshot_run_sets :: "updateSnapshotRunRequest \<Rightarrow> time \<Rightarrow> databaseSnapshotRun \<Rightarrow> databaseSnapshotRun" where
  "snapshot_run_sets req now =
     (if ur_Finished req then (\<lambda>r. r\<lparr>rr_FinishedAt := Some (db_time now)\<rparr>) else id) \<circ>
     set_opt (ur_DispatchedAt req) (\<lambda>v r. r\<lparr>rr_DispatchedAt := Some (db_time v)\<rparr>) \<circ>
     set_opt (ur_SnapshotID req) (\<lambda>v r. r\<lparr>rr_SnapshotID := Some v\<rparr>) \<circ>
     set_opt (ur_SkipReason req) (\<lambda>v r. r\<lparr>rr_SkipReason := Some v\<rparr>) \<circ>
     set_opt (ur_Status req) (\<lambda>v r. r\<lparr>rr_Status := v\<rparr>)"

definition touch_run :: "time \<Rightarrow> databaseSnapshotRun \<Rightarrow> databaseSnapshotRun \<Rightarrow> databaseSnapshotRun" where
  "touch_run now r r' = (if r' = r then r else r'\<lparr>rr_UpdatedAt := db_time now\<rparr>)"

definition UpdateSnapshotRun :: "int \<Rightarrow> updateSnapshotRunRequest \<Rightarrow> 'a backup_world_scheme \<Rightarrow> go_error option \<times> 'a backup_world_scheme" where
  "UpdateSnapshotRun rid req w =
     (if req = no_snapshot_run_update then (None, w)
      else let now = clock w in
        exec_unit (\<lambda>w. w\<lparr>b_runs := update_where (\<lambda>r. rr_ID r = rid)
          (\<lambda>r. touch_run (clock w) r (snapshot_run_sets req now r)) (b_runs w)\<rparr>) w)"

definition FindRunBySnapshotID :: "int \<Rightarrow> 'a backup_world_scheme \<Rightarrow> (go_error + databaseSnapshotRun) \<times> 'a backup_world_scheme" where
  "FindRunBySnapshotID sid w =
     one_row ''failed to scan snapshot run: ''
       (\<lambda>w. List.find (\<lambda>r. rr_SnapshotID r = Some sid) (rev (sort_key rr_ID (b_runs w)))) w"

definition ListStuckSnapshotRuns :: "time \<Rightarrow> 'a backup_world_scheme \<Rightarrow> (go_error + databaseSnapshotRun list) \<times> 'a backup_world_scheme" where
  "ListStuckSnapshotRuns cutoff w =
     (case query (\<lambda>w. take MAX_LIMIT (filter (\<lambda>r. run_open r \<and> rr_ScheduledAt r < cutoff) (b_runs w))) w of
        (Inl e, w1) \<Rightarrow> (Inl (''failed to execute sql query: '' @ e), w1)
      | (Inr rs, w1) \<Rightarrow> (Inr rs, w1))"

definition ListSnapshotRunsByInstance ::
  "int \<Rightarrow> int \<Rightarrow> 'a backup_world_scheme \<Rightarrow> (go_error + databaseSnapshotRun list) \<times> 'a backup_world_scheme" where
  "ListSnapshotRunsByInstance i limit w =
     (let n = (if limit \<le> 0 \<or> limit > int MAX_LIMIT then DEFAULT_LIMIT else nat limit) in
      case query (\<lambda>w. take n (rev (sort_key rr_ScheduledAt (filter (\<lambda>r. rr_DatabaseInstanceID r = i) (b_runs w))))) w of
        (Inl e, w1) \<Rightarrow> (Inl (''failed to execute sql query: '' @ e), w1)
      | (Inr rs, w1) \<Rightarrow> (Inr rs, w1))"

section \<open>Snapshots\<close>

definition ListSnapshotsByInstance :: "int \<Rightarrow> 'a backup_world_scheme \<Rightarrow> (go_error + databaseSnapshot list) \<times> 'a backup_world_scheme" where
  "ListSnapshotsByInstance i w =
     (case query (\<lambda>w. take MAX_LIMIT (rev (sort_key sn_InsertedAt
              (filter (\<lambda>s. sn_DatabaseInstanceID s = i \<and> sn_Active s) (b_snapshots w))))) w of
        (Inl e, w1) \<Rightarrow> (Inl (''failed to execute sql query: '' @ e), w1)
      | (Inr ss, w1) \<Rightarrow> (Inr ss, w1))"

definition GetSnapshotByID :: "int \<Rightarrow> 'a backup_world_scheme \<Rightarrow> (go_error + databaseSnapshot) \<times> 'a backup_world_scheme" where
  "GetSnapshotByID sid w =
     one_row ''failed to scan database snapshot: '' (\<lambda>w. List.find (\<lambda>s. sn_ID s = sid \<and> sn_Active s) (b_snapshots w)) w"

definition GetSnapshotByInstanceAndFilename ::
  "int \<Rightarrow> string \<Rightarrow> 'a backup_world_scheme \<Rightarrow> (go_error + databaseSnapshot) \<times> 'a backup_world_scheme" where
  "GetSnapshotByInstanceAndFilename i filename w =
     one_row ''failed to scan database snapshot: ''
       (\<lambda>w. List.find (\<lambda>s. sn_DatabaseInstanceID s = i \<and> sn_Filename s = filename \<and> sn_Active s)
          (rev (sort_key sn_ID (b_snapshots w)))) w"

record createSnapshotRequest =
  cs_DatabaseInstanceID :: int
  cs_BackupDestinationID :: "int option"
  cs_Filename :: string
  cs_Engine :: string
  cs_DatabaseName :: string
  cs_TriggerType :: string

definition snapshot_row :: "int \<Rightarrow> time \<Rightarrow> createSnapshotRequest \<Rightarrow> databaseSnapshot" where
  "snapshot_row sid now req =
     \<lparr>sn_ID = sid, sn_DatabaseInstanceID = cs_DatabaseInstanceID req, sn_BackupDestinationID = cs_BackupDestinationID req,
      sn_Filename = cs_Filename req, sn_SizeBytes = None, sn_Engine = cs_Engine req, sn_DatabaseName = cs_DatabaseName req,
      sn_Status = ''pending'', sn_TriggerType = cs_TriggerType req, sn_ErrorMessage = None, sn_CompletedAt = None,
      sn_Active = True, sn_UpdatedAt = db_time now, sn_InsertedAt = db_time now\<rparr>"

definition CreateSnapshot :: "createSnapshotRequest \<Rightarrow> 'a backup_world_scheme \<Rightarrow> (go_error + databaseSnapshot) \<times> 'a backup_world_scheme" where
  "CreateSnapshot req w =
     (case exec (\<lambda>w. (b_next_snapshot w, w\<lparr>b_snapshots := b_snapshots w @ [snapshot_row (b_next_snapshot w) (clock w) req],
                        b_next_snapshot := b_next_snapshot w + 1\<rparr>)) w of
        (Inl e, w1) \<Rightarrow> (Inl (''failed to execute sql query: '' @ e), w1)
      | (Inr sid, w1) \<Rightarrow> GetSnapshotByID sid w1)"

definition touch_snapshot :: "time \<Rightarrow> databaseSnapshot \<Rightarrow> databaseSnapshot \<Rightarrow> databaseSnapshot" where
  "touch_snapshot now s s' = (if s' = s then s else s'\<lparr>sn_UpdatedAt := db_time now\<rparr>)"

definition snapshot_sets :: "string \<Rightarrow> int option \<Rightarrow> string option \<Rightarrow> time \<Rightarrow> databaseSnapshot \<Rightarrow> databaseSnapshot" where
  "snapshot_sets status sizeBytes errorMsg now =
     (if status = ''completed'' then (\<lambda>s. s\<lparr>sn_CompletedAt := Some (db_time now)\<rparr>) else id) \<circ>
     set_opt errorMsg (\<lambda>v s. s\<lparr>sn_ErrorMessage := Some v\<rparr>) \<circ>
     set_opt sizeBytes (\<lambda>v s. s\<lparr>sn_SizeBytes := Some v\<rparr>) \<circ>
     (\<lambda>s. s\<lparr>sn_Status := status\<rparr>)"

definition UpdateSnapshotStatus ::
  "int \<Rightarrow> string \<Rightarrow> int option \<Rightarrow> string option \<Rightarrow> 'a backup_world_scheme \<Rightarrow> go_error option \<times> 'a backup_world_scheme" where
  "UpdateSnapshotStatus sid status sizeBytes errorMsg w =
     (let now = clock w in
      exec_unit (\<lambda>w. w\<lparr>b_snapshots := update_where (\<lambda>s. sn_ID s = sid)
        (\<lambda>s. touch_snapshot (clock w) s (snapshot_sets status sizeBytes errorMsg now s)) (b_snapshots w)\<rparr>) w)"

text \<open>A copy: a live snapshot that completed.\<close>

definition is_copy :: "int \<Rightarrow> databaseSnapshot \<Rightarrow> bool" where
  "is_copy i s \<longleftrightarrow> sn_DatabaseInstanceID s = i \<and> sn_Active s \<and> sn_Status s = ''completed''"

definition CountSnapshotsByInstance :: "int \<Rightarrow> 'a backup_world_scheme \<Rightarrow> (go_error + nat) \<times> 'a backup_world_scheme" where
  "CountSnapshotsByInstance i w =
     (case query (\<lambda>w. length (filter (is_copy i) (b_snapshots w))) w of
        (Inl e, w1) \<Rightarrow> (Inl (''failed to count snapshots: '' @ e), w1)
      | (Inr n, w1) \<Rightarrow> (Inr n, w1))"

definition max_of :: "time list \<Rightarrow> time option" where
  "max_of ts = (case ts of [] \<Rightarrow> None | t # us \<Rightarrow> Some (fold max us t))"

definition completion_time :: "databaseSnapshot \<Rightarrow> time" where
  "completion_time s = (case sn_CompletedAt s of Some t \<Rightarrow> t | None \<Rightarrow> sn_UpdatedAt s)"

definition GetLastSuccessfulSnapshotAt :: "int \<Rightarrow> 'a backup_world_scheme \<Rightarrow> (go_error + time option) \<times> 'a backup_world_scheme" where
  "GetLastSuccessfulSnapshotAt i w =
     (case query (\<lambda>w. max_of (map completion_time (filter (is_copy i) (b_snapshots w)))) w of
        (Inl e, w1) \<Rightarrow> (Inl (''failed to read last successful snapshot: '' @ e), w1)
      | (Inr t, w1) \<Rightarrow> (Inr t, w1))"

definition DeleteSnapshot :: "int \<Rightarrow> 'a backup_world_scheme \<Rightarrow> go_error option \<times> 'a backup_world_scheme" where
  "DeleteSnapshot sid w =
     exec_unit (\<lambda>w. w\<lparr>b_snapshots := update_where (\<lambda>s. sn_ID s = sid)
       (\<lambda>s. touch_snapshot (clock w) s (s\<lparr>sn_Active := False\<rparr>)) (b_snapshots w)\<rparr>) w"

section \<open>Replicas\<close>

record upsertReplicaRequest =
  up_SnapshotID :: int
  up_BackupDestinationID :: int
  up_Role :: string
  up_Status :: string
  up_SizeBytes :: "int option"
  up_ErrorMessage :: "string option"

definition replica_key :: "databaseSnapshotReplica \<Rightarrow> int \<times> int" where
  "replica_key r = (rp_SnapshotID r, rp_BackupDestinationID r)"

definition upsert_replica :: "upsertReplicaRequest \<Rightarrow> time \<Rightarrow> databaseSnapshotReplica list \<Rightarrow> databaseSnapshotReplica list" where
  "upsert_replica req now rs =
     (let completedAt = (if up_Status req = ReplicaCompleted then Some (db_time now) else None);
          k = (up_SnapshotID req, up_BackupDestinationID req)
      in if list_ex (\<lambda>r. replica_key r = k) rs
         then update_where (\<lambda>r. replica_key r = k)
           (\<lambda>r. r\<lparr>rp_Status := up_Status req,
                  rp_SizeBytes := (case up_SizeBytes req of None \<Rightarrow> rp_SizeBytes r | Some n \<Rightarrow> Some n),
                  rp_ErrorMessage := up_ErrorMessage req, rp_CompletedAt := completedAt\<rparr>) rs
         else rs @ [\<lparr>rp_SnapshotID = up_SnapshotID req, rp_BackupDestinationID = up_BackupDestinationID req, rp_Role = up_Role req,
                     rp_Status = up_Status req, rp_SizeBytes = up_SizeBytes req, rp_ErrorMessage = up_ErrorMessage req,
                     rp_CompletedAt = completedAt\<rparr>])"

definition UpsertSnapshotReplica :: "upsertReplicaRequest \<Rightarrow> 'a backup_world_scheme \<Rightarrow> go_error option \<times> 'a backup_world_scheme" where
  "UpsertSnapshotReplica req w =
     (case exec_unit (\<lambda>w. w\<lparr>b_replicas := upsert_replica req (clock w) (b_replicas w)\<rparr>) w of
        (Some e, w1) \<Rightarrow> (Some (''failed to record snapshot replica: '' @ e), w1)
      | (None, w1) \<Rightarrow> (None, w1))"

text \<open>\<^verbatim>\<open>ORDER BY role\<close>: the roles in use are two, and \<^verbatim>\<open>mirror\<close> sorts before \<^verbatim>\<open>primary\<close>.\<close>

definition ListReplicasBySnapshot :: "int \<Rightarrow> 'a backup_world_scheme \<Rightarrow> (go_error + databaseSnapshotReplica list) \<times> 'a backup_world_scheme" where
  "ListReplicasBySnapshot sid w =
     (case query (\<lambda>w. let rs = filter (\<lambda>r. rp_SnapshotID r = sid) (b_replicas w) in
              filter (\<lambda>r. rp_Role r = ReplicaRoleMirror) rs @ filter (\<lambda>r. rp_Role r \<noteq> ReplicaRoleMirror) rs) w of
        (Inl e, w1) \<Rightarrow> (Inl (''failed to execute sql query: '' @ e), w1)
      | (Inr rs, w1) \<Rightarrow> (Inr rs, w1))"

definition fresh_replica :: "int \<Rightarrow> time \<Rightarrow> 'a backup_world_scheme \<Rightarrow> databaseSnapshotReplica \<Rightarrow> bool" where
  "fresh_replica i since w r \<longleftrightarrow>
     list_ex (\<lambda>s. sn_ID s = rp_SnapshotID r \<and> sn_DatabaseInstanceID s = i \<and> sn_Active s) (b_snapshots w)
     \<and> rp_Status r = ReplicaCompleted \<and> (case rp_CompletedAt r of None \<Rightarrow> False | Some t \<Rightarrow> since \<le> t)"

definition count_fresh :: "int \<Rightarrow> time \<Rightarrow> 'a backup_world_scheme \<Rightarrow> (int \<times> nat) list" where
  "count_fresh i since w =
     (let ds = map rp_BackupDestinationID (filter (fresh_replica i since w) (b_replicas w))
      in map (\<lambda>d. (d, count_list ds d)) (remdups ds))"

definition FreshReplicasByDestination ::
  "int \<Rightarrow> time \<Rightarrow> 'a backup_world_scheme \<Rightarrow> (go_error + (int \<times> nat) list) \<times> 'a backup_world_scheme" where
  "FreshReplicasByDestination i since w =
     (case query (count_fresh i since) w of
        (Inl e, w1) \<Rightarrow> (Inl (''failed to execute sql query: '' @ e), w1)
      | (Inr m, w1) \<Rightarrow> (Inr m, w1))"

section \<open>Destinations\<close>

definition scanBackupDestination :: "'a backup_world_scheme \<Rightarrow> backupDestination \<Rightarrow> go_error + backupDestination" where
  "scanBackupDestination w b =
     (case bd_Config b of
        None \<Rightarrow> Inr b
      | Some c \<Rightarrow> if c = [] then Inr b
          else (case d_decrypt w c of
                  Inl e \<Rightarrow> Inl (''failed to decrypt backup destination config: '' @ e)
                | Inr p \<Rightarrow> Inr (b\<lparr>bd_Config := Some p\<rparr>)))"

definition GetBackupDestinationByID :: "int \<Rightarrow> 'a backup_world_scheme \<Rightarrow> (go_error + backupDestination) \<times> 'a backup_world_scheme" where
  "GetBackupDestinationByID i w =
     (case query (\<lambda>w. map_option (scanBackupDestination w) (List.find (\<lambda>b. bd_ID b = i) (b_destinations w))) w of
        (Inl e, w1) \<Rightarrow> (Inl (''failed to scan backup destination: '' @ e), w1)
      | (Inr None, w1) \<Rightarrow> (Inl ErrNotFound, w1)
      | (Inr (Some (Inl e)), w1) \<Rightarrow> (Inl (''failed to scan backup destination: '' @ e), w1)
      | (Inr (Some (Inr b)), w1) \<Rightarrow> (Inr b, w1))"

fun scan_destinations :: "'a backup_world_scheme \<Rightarrow> backupDestination list \<Rightarrow> go_error + backupDestination list" where
  "scan_destinations w [] = Inr []"
| "scan_destinations w (b # bs) =
     (case scanBackupDestination w b of
        Inl e \<Rightarrow> Inl (''failed to scan backup destination: '' @ e)
      | Inr x \<Rightarrow> (case scan_destinations w bs of Inl e \<Rightarrow> Inl e | Inr xs \<Rightarrow> Inr (x # xs)))"

definition ListBackupDestinations :: "'a backup_world_scheme \<Rightarrow> (go_error + backupDestination list) \<times> 'a backup_world_scheme" where
  "ListBackupDestinations w =
     (case query (\<lambda>w. scan_destinations w (take MAX_LIMIT (rev (sort_key bd_ID (filter bd_Active (b_destinations w)))))) w of
        (Inl e, w1) \<Rightarrow> (Inl (''failed to execute sql query: '' @ e), w1)
      | (Inr r, w1) \<Rightarrow> (r, w1))"

definition localityOrDefault :: "string \<Rightarrow> string" where
  "localityOrDefault l = (if IsValidLocality l then l else LocalityUnknown)"

definition encrypt_config :: "'a backup_world_scheme \<Rightarrow> string \<Rightarrow> go_error + string" where
  "encrypt_config w c =
     (if c = [] then Inr c
      else (case d_encrypt w c of
              Inl e \<Rightarrow> Inl (''failed to encrypt backup destination config: '' @ e) | Inr x \<Rightarrow> Inr x))"

record createBackupDestinationRequest =
  cb_Name :: string
  cb_Type :: string
  cb_Locality :: string
  cb_Config :: string

definition CreateBackupDestination ::
  "createBackupDestinationRequest \<Rightarrow> 'a backup_world_scheme \<Rightarrow> (go_error + backupDestination) \<times> 'a backup_world_scheme" where
  "CreateBackupDestination req w =
     (case encrypt_config w (cb_Config req) of
        Inl e \<Rightarrow> (Inl e, w)
      | Inr cfg \<Rightarrow>
          (case exec (\<lambda>w. (b_next_destination w,
                  w\<lparr>b_destinations := b_destinations w @ [\<lparr>bd_ID = b_next_destination w, bd_Name = cb_Name req, bd_Type = cb_Type req,
                      bd_Locality = localityOrDefault (cb_Locality req), bd_Config = Some cfg, bd_Active = True\<rparr>],
                    b_next_destination := b_next_destination w + 1\<rparr>)) w of
             (Inl e, w1) \<Rightarrow> (Inl (''failed to execute sql query: '' @ e), w1)
           | (Inr i, w1) \<Rightarrow> GetBackupDestinationByID i w1))"

record updateBackupDestinationRequest =
  ub_Name :: "string option"
  ub_Type :: "string option"
  ub_Locality :: "string option"
  ub_Config :: "string option"
  ub_Active :: "bool option"

definition no_destination_update :: updateBackupDestinationRequest where
  "no_destination_update = \<lparr>ub_Name = None, ub_Type = None, ub_Locality = None, ub_Config = None, ub_Active = None\<rparr>"

definition destination_sets :: "updateBackupDestinationRequest \<Rightarrow> string option \<Rightarrow> backupDestination \<Rightarrow> backupDestination" where
  "destination_sets req cfg =
     set_opt (ub_Active req) (\<lambda>v b. b\<lparr>bd_Active := v\<rparr>) \<circ>
     set_opt cfg (\<lambda>v b. b\<lparr>bd_Config := Some v\<rparr>) \<circ>
     set_opt (ub_Locality req) (\<lambda>v b. b\<lparr>bd_Locality := localityOrDefault v\<rparr>) \<circ>
     set_opt (ub_Type req) (\<lambda>v b. b\<lparr>bd_Type := v\<rparr>) \<circ>
     set_opt (ub_Name req) (\<lambda>v b. b\<lparr>bd_Name := v\<rparr>)"

definition UpdateBackupDestination ::
  "int \<Rightarrow> updateBackupDestinationRequest \<Rightarrow> 'a backup_world_scheme \<Rightarrow> (go_error + backupDestination) \<times> 'a backup_world_scheme" where
  "UpdateBackupDestination i req w =
     (case (case ub_Config req of None \<Rightarrow> Inr None
            | Some c \<Rightarrow> (case encrypt_config w c of Inl e \<Rightarrow> Inl e | Inr x \<Rightarrow> Inr (Some x))) of
        Inl e \<Rightarrow> (Inl e, w)
      | Inr cfg \<Rightarrow>
          if req = no_destination_update then (Inl ErrNoChanges, w)
          else case exec_unit (\<lambda>w. w\<lparr>b_destinations := update_where (\<lambda>b. bd_ID b = i) (destination_sets req cfg) (b_destinations w)\<rparr>) w of
                 (Some e, w1) \<Rightarrow> (Inl (''failed to execute sql query: '' @ e), w1)
               | (None, w1) \<Rightarrow> GetBackupDestinationByID i w1)"

definition DeleteBackupDestination :: "int \<Rightarrow> 'a backup_world_scheme \<Rightarrow> go_error option \<times> 'a backup_world_scheme" where
  "DeleteBackupDestination i w =
     exec_unit (\<lambda>w. w\<lparr>b_destinations := update_where (\<lambda>b. bd_ID b = i) (\<lambda>b. b\<lparr>bd_Active := False\<rparr>) (b_destinations w)\<rparr>) w"

text \<open>What a worker is told of a destination; a config that does not parse is left out.\<close>

definition destinationPayload :: "backupDestination \<Rightarrow> 'a backup_world_scheme \<Rightarrow> json" where
  "destinationPayload b w =
     JObj ([(''type'', JStr (bd_Type b))] @
       (case bd_Config b of
          None \<Rightarrow> []
        | Some c \<Rightarrow> (case b_unmarshal w c of Inl _ \<Rightarrow> [] | Inr cfg \<Rightarrow> [(''config'', JObj cfg)])))"

section \<open>Taking and removing a snapshot\<close>

definition MsgDbSnapshot :: string where "MsgDbSnapshot = ''db_snapshot''"
definition MsgDbDeleteSnapshot :: string where "MsgDbDeleteSnapshot = ''db_delete_snapshot_file''"
definition MsgDbMirrorSnapshot :: string where "MsgDbMirrorSnapshot = ''db_mirror_snapshot''"

definition dbCommandPayload :: "int \<Rightarrow> string \<Rightarrow> 'a backup_world_scheme \<Rightarrow> (string \<times> json) list" where
  "dbCommandPayload i action w =
     [(''database_instance_id'', JInt i), (''request_id'', JStr (b_uuid w (clock w))),
      (''idempotency_key'', JStr (action @ '':'' @ show_int i))]"

text \<open>\<^verbatim>\<open>Format("20060102T150405Z")\<close>.\<close>

definition compact_time :: "time \<Rightarrow> string" where
  "compact_time t =
     (let y = show_int (t_Year t) in replicate (4 - length y) (CHR ''0'') @ y) @ pad2 (t_Month t) @ pad2 (t_Day t) @ ''T'' @
     pad2 (t_Hour t) @ pad2 (t_Minute t) @ pad2 (t_Sec t) @ ''Z''"

definition snapshot_filename :: "databaseInstance \<Rightarrow> time \<Rightarrow> string" where
  "snapshot_filename d now = di_ContainerName d @ ''_'' @ di_DatabaseName d @ ''_'' @ compact_time now @ ''.sql.gz''"

definition snapshot_payload :: "databaseInstance \<Rightarrow> int \<Rightarrow> string \<Rightarrow> json \<Rightarrow> 'a backup_world_scheme \<Rightarrow> (string \<times> json) list" where
  "snapshot_payload d sid filename dest w =
     dbCommandPayload (di_ID d) MsgDbSnapshot w @
     [(''snapshot_id'', JInt sid), (''container_name'', JStr (di_ContainerName d)), (''engine'', JStr (di_Engine d)),
      (''database_name'', JStr (di_DatabaseName d)), (''username'', JStr (di_Username d)), (''filename'', JStr filename)] @
     (case di_Password d of None \<Rightarrow> [] | Some p \<Rightarrow> [(''password'', JStr p)]) @ [(''backup_destination'', dest)]"

definition StartSnapshot ::
  "databaseInstance \<Rightarrow> int \<Rightarrow> string \<Rightarrow> 'a backup_world_scheme \<Rightarrow> (go_error + databaseSnapshot) \<times> 'a backup_world_scheme" where
  "StartSnapshot d destID trigger w =
     (case GetBackupDestinationByID destID w of
        (Inl e, w1) \<Rightarrow> (Inl e, w1)
      | (Inr dest, w1) \<Rightarrow>
          (let filename = snapshot_filename d (clock w1) in
           case CreateSnapshot \<lparr>cs_DatabaseInstanceID = di_ID d, cs_BackupDestinationID = Some destID, cs_Filename = filename,
                  cs_Engine = di_Engine d, cs_DatabaseName = di_DatabaseName d, cs_TriggerType = trigger\<rparr> w1 of
             (Inl e, w2) \<Rightarrow> (Inl e, w2)
           | (Inr s, w2) \<Rightarrow>
               (case (case bd_Config dest of
                        None \<Rightarrow> Inr []
                      | Some c \<Rightarrow> (case b_unmarshal w2 c of
                          Inl e \<Rightarrow> Inl (''backup destination '' @ show_int (bd_ID dest) @ '' has unparseable config: '' @ e)
                        | Inr cfg \<Rightarrow> Inr [(''config'', JObj cfg)])) of
                  Inl e \<Rightarrow> (Inl e, w2)
                | Inr cfg \<Rightarrow>
                    (case SendJSONToWorker (di_WorkerID d) (NewCommand MsgDbSnapshot
                            (snapshot_payload d (sn_ID s) filename (JObj ((''type'', JStr (bd_Type dest)) # cfg)) w2)) w2 of
                       (Some e, w3) \<Rightarrow> (Inl (''failed to send snapshot command: '' @ e), w3)
                     | (None, w3) \<Rightarrow> (Inr s, w3)))))"

text \<open>\<open>inst\<close> is \<^verbatim>\<open>nil\<close> when the instance can no longer be resolved.\<close>

definition DeleteSnapshotArtifactCtx ::
  "databaseSnapshot \<Rightarrow> databaseInstance option \<Rightarrow> 'a backup_world_scheme \<Rightarrow> go_error option \<times> 'a backup_world_scheme" where
  "DeleteSnapshotArtifactCtx s inst w =
     DeleteSnapshot (sn_ID s)
       (case (sn_BackupDestinationID s, inst) of
          (Some destID, Some d) \<Rightarrow>
            (case GetBackupDestinationByID destID w of
               (Inl _, w1) \<Rightarrow> w1
             | (Inr dest, w1) \<Rightarrow>
                 if \<not> worker_connected (di_WorkerID d) w1 then w1
                 else snd (SendJSONToWorker (di_WorkerID d) (NewCommand MsgDbDeleteSnapshot
                        (dbCommandPayload (di_ID d) MsgDbDeleteSnapshot w1 @
                         [(''snapshot_id'', JInt (sn_ID s)), (''filename'', JStr (sn_Filename s)),
                          (''backup_destination'', destinationPayload dest w1)])) w1))
        | _ \<Rightarrow> w)"

definition ensureScheduledSnapshotRow ::
  "int \<Rightarrow> string \<Rightarrow> 'a backup_world_scheme \<Rightarrow> (go_error + databaseSnapshot) \<times> 'a backup_world_scheme" where
  "ensureScheduledSnapshotRow i filename w =
     (case GetSnapshotByInstanceAndFilename i filename w of
        (Inr s, w1) \<Rightarrow> (Inr s, w1)
      | (Inl e, w1) \<Rightarrow>
          if e \<noteq> ErrNotFound then (Inl e, w1)
          else case GetDatabaseInstanceByID i w1 of
            (Inl e2, w2) \<Rightarrow> (Inl e2, w2)
          | (Inr d, w2) \<Rightarrow>
              CreateSnapshot \<lparr>cs_DatabaseInstanceID = di_ID d, cs_BackupDestinationID = di_BackupDestinationID d,
                cs_Filename = filename, cs_Engine = di_Engine d, cs_DatabaseName = di_DatabaseName d,
                cs_TriggerType = ''scheduled''\<rparr> w2)"

section \<open>When a snapshot finishes\<close>

definition closeRunForSnapshot :: "int \<Rightarrow> bool \<Rightarrow> 'a backup_world_scheme \<Rightarrow> 'a backup_world_scheme" where
  "closeRunForSnapshot sid succeeded w =
     (case FindRunBySnapshotID sid w of
        (Inl _, w1) \<Rightarrow> w1
      | (Inr r, w1) \<Rightarrow>
          snd (UpdateSnapshotRun (rr_ID r)
            (no_snapshot_run_update\<lparr>ur_Status := Some (if succeeded then SnapshotRunDone else SnapshotRunFailed), ur_Finished := True\<rparr>) w1))"

definition minSnapshotRedundancy :: int where "minSnapshotRedundancy = 2"

definition retention_keep :: "int \<Rightarrow> nat" where
  "retention_keep count = nat (if count < minSnapshotRedundancy then minSnapshotRedundancy else count)"

text \<open>The copies retention may remove: all but the newest \<open>keep\<close>.\<close>

definition expired :: "nat \<Rightarrow> databaseSnapshot list \<Rightarrow> databaseSnapshot list" where
  "expired keep ss = drop keep (rev (sort_key sn_ID (filter (\<lambda>s. sn_Status s = ''completed'') ss)))"

definition applySnapshotRetention :: "int \<Rightarrow> 'a backup_world_scheme \<Rightarrow> 'a backup_world_scheme" where
  "applySnapshotRetention i w =
     (case GetDatabaseInstanceByID i w of
        (Inl _, w1) \<Rightarrow> w1
      | (Inr d, w1) \<Rightarrow>
          (case di_RetentionCount d of
             None \<Rightarrow> w1
           | Some count \<Rightarrow>
               if count \<le> 0 then w1
               else case ListSnapshotsByInstance i w1 of
                 (Inl _, w2) \<Rightarrow> w2
               | (Inr ss, w2) \<Rightarrow>
                   fold (\<lambda>s w. snd (DeleteSnapshotArtifactCtx s (Some d) w)) (expired (retention_keep count) ss) w2))"

definition mirror_replica :: "int \<Rightarrow> int \<Rightarrow> string \<Rightarrow> string option \<Rightarrow> 'a backup_world_scheme \<Rightarrow> 'a backup_world_scheme" where
  "mirror_replica sid target status err w =
     snd (UpsertSnapshotReplica \<lparr>up_SnapshotID = sid, up_BackupDestinationID = target, up_Role = ReplicaRoleMirror,
       up_Status = status, up_SizeBytes = None, up_ErrorMessage = err\<rparr> w)"

definition dispatchMirror ::
  "databaseSnapshot \<Rightarrow> databaseInstance \<Rightarrow> backupDestination \<Rightarrow> backupDestination \<Rightarrow> 'a backup_world_scheme \<Rightarrow> 'a backup_world_scheme" where
  "dispatchMirror s d source target w =
     (let w1 = mirror_replica (sn_ID s) (bd_ID target) ReplicaPending None w in
      if \<not> worker_connected (di_WorkerID d) w1
      then mirror_replica (sn_ID s) (bd_ID target) ReplicaFailed
             (Some (''worker '' @ show_int (di_WorkerID d) @ '' is not connected'')) w1
      else case SendJSONToWorker (di_WorkerID d) (NewCommand MsgDbMirrorSnapshot
             [(''database_instance_id'', JInt (di_ID d)), (''snapshot_id'', JInt (sn_ID s)), (''filename'', JStr (sn_Filename s)),
              (''source_destination'', destinationPayload source w1), (''target_destination'', destinationPayload target w1)]) w1 of
             (None, w2) \<Rightarrow> w2
           | (Some e, w2) \<Rightarrow> mirror_replica (sn_ID s) (bd_ID target) ReplicaFailed (Some e) w2)"

definition recordPrimaryReplicaAndMirror :: "int \<Rightarrow> int option \<Rightarrow> 'a backup_world_scheme \<Rightarrow> 'a backup_world_scheme" where
  "recordPrimaryReplicaAndMirror sid sizeBytes w =
     (case GetSnapshotByID sid w of
        (Inl _, w1) \<Rightarrow> w1
      | (Inr s, w1) \<Rightarrow>
          (case sn_BackupDestinationID s of
             None \<Rightarrow> w1
           | Some dest \<Rightarrow>
               (let w2 = snd (UpsertSnapshotReplica \<lparr>up_SnapshotID = sn_ID s, up_BackupDestinationID = dest,
                           up_Role = ReplicaRolePrimary, up_Status = ReplicaCompleted, up_SizeBytes = sizeBytes, up_ErrorMessage = None\<rparr> w1)
                in case GetDatabaseInstanceByID (sn_DatabaseInstanceID s) w2 of
                     (Inl _, w3) \<Rightarrow> w3
                   | (Inr d, w3) \<Rightarrow>
                       (case di_MirrorBackupDestinationID d of
                          None \<Rightarrow> w3
                        | Some mirror \<Rightarrow>
                            if mirror = dest then w3
                            else case GetBackupDestinationByID dest w3 of
                              (Inl _, w4) \<Rightarrow> w4
                            | (Inr source, w4) \<Rightarrow>
                                (case GetBackupDestinationByID mirror w4 of
                                   (Inl _, w5) \<Rightarrow> w5
                                 | (Inr target, w5) \<Rightarrow> dispatchMirror s d source target w5)))))"

text \<open>A JSON number greater than zero, read as \<^verbatim>\<open>int64\<close>.\<close>

definition payload_size :: "(string \<Rightarrow> int) \<Rightarrow> (string \<times> json) list \<Rightarrow> string \<Rightarrow> int option" where
  "payload_size trunc p key =
     (case map_of p key of
        Some (JInt n) \<Rightarrow> if n > 0 then Some n else None
      | Some (JFloat s) \<Rightarrow> if has_prefix s ''-'' then None else Some (trunc s)
      | _ \<Rightarrow> None)"

definition payload_opt_str :: "(string \<times> json) list \<Rightarrow> string \<Rightarrow> string option" where
  "payload_opt_str p key = (if payload_str p key = [] then None else Some (payload_str p key))"

definition handleMirrorStatus :: "(string \<Rightarrow> int) \<Rightarrow> (string \<times> json) list \<Rightarrow> 'a backup_world_scheme \<Rightarrow> 'a backup_world_scheme" where
  "handleMirrorStatus trunc p w =
     (let sid = payloadInt trunc p ''snapshot_id''; status = payload_str p ''status'' in
      if sid = 0 \<or> status = [] then w
      else case GetSnapshotByID sid w of
        (Inl _, w1) \<Rightarrow> w1
      | (Inr s, w1) \<Rightarrow>
          (case GetDatabaseInstanceByID (sn_DatabaseInstanceID s) w1 of
             (Inl _, w2) \<Rightarrow> w2
           | (Inr d, w2) \<Rightarrow>
               (case di_MirrorBackupDestinationID d of
                  None \<Rightarrow> w2
                | Some mirror \<Rightarrow>
                    snd (UpsertSnapshotReplica \<lparr>up_SnapshotID = sid, up_BackupDestinationID = mirror, up_Role = ReplicaRoleMirror,
                      up_Status = (if status = ''completed'' then ReplicaCompleted else ReplicaFailed),
                      up_SizeBytes = (if status = ''completed'' then payload_size trunc p ''size_bytes'' else None),
                      up_ErrorMessage = (if status = ''completed'' then None else payload_opt_str p ''error_message'')\<rparr> w2))))"

text \<open>The snapshot a progress report is about: the one it names, or the scheduled one it is adopted as.\<close>

definition reported_snapshot :: "(string \<Rightarrow> int) \<Rightarrow> (string \<times> json) list \<Rightarrow> 'a backup_world_scheme \<Rightarrow> int option \<times> 'a backup_world_scheme" where
  "reported_snapshot trunc p w =
     (let sid = payloadInt trunc p ''snapshot_id'' in
      if sid \<noteq> 0 then (Some sid, w)
      else let i = payloadInt trunc p ''database_instance_id''; filename = payload_str p ''filename'' in
        if i = 0 \<or> filename = [] then (None, w)
        else case ensureScheduledSnapshotRow i filename w of
               (Inl _, w1) \<Rightarrow> (None, w1)
             | (Inr s, w1) \<Rightarrow> (Some (sn_ID s), w1))"

definition afterCompleted :: "int \<Rightarrow> 'a backup_world_scheme \<Rightarrow> 'a backup_world_scheme" where
  "afterCompleted i w =
     (let w1 = ClearWarning i DBErrCodeBackupStale w in
      case finaliseDeleteAfterSnapshot i w1 of
        (True, w2) \<Rightarrow> w2
      | (False, w2) \<Rightarrow> applySnapshotRetention i w2)"

definition handleDbSnapshotProgress :: "(string \<Rightarrow> int) \<Rightarrow> (string \<times> json) list \<Rightarrow> 'a backup_world_scheme \<Rightarrow> 'a backup_world_scheme" where
  "handleDbSnapshotProgress trunc p w =
     (let status = payload_str p ''status'' in
      if status = [] then w
      else case reported_snapshot trunc p w of
        (None, w1) \<Rightarrow> w1
      | (Some sid, w1) \<Rightarrow>
          (let sizeBytes = payload_size trunc p ''size_bytes''; errMsg = payload_opt_str p ''error_message'' in
           case UpdateSnapshotStatus sid status sizeBytes errMsg w1 of
             (Some _, w2) \<Rightarrow> w2
           | (None, w2) \<Rightarrow>
               (let i = payloadInt trunc p ''database_instance_id'';
                    w3 = (if i \<noteq> 0 \<and> status = ''failed''
                          then RecordEvent i DBEventFailed
                                 (''snapshot '' @ (case errMsg of Some m \<Rightarrow> m | None \<Rightarrow> ''snapshot failed'')) ''worker'' w2 else w2);
                    w4 = (if status = ''completed'' \<or> status = ''failed''
                          then closeRunForSnapshot sid (status = ''completed'') w3 else w3);
                    w5 = (if status = ''completed'' then recordPrimaryReplicaAndMirror sid sizeBytes w4 else w4)
                in if i \<noteq> 0 \<and> status = ''completed'' then afterCompleted i w5 else w5)))"

section \<open>Freshness\<close>

definition staleBackupLookback :: duration where "staleBackupLookback = 70 * 24 * Hour"

definition describeLastSuccess :: "time option \<Rightarrow> string" where
  "describeLastSuccess t =
     (case t of None \<Rightarrow> ''this database was created (it has never produced one)'' | Some t \<Rightarrow> rfc3339 t)"

definition schedulable :: "databaseInstance \<Rightarrow> (string \<times> int) option" where
  "schedulable d =
     (case (di_SnapshotSchedule d, di_BackupDestinationID d) of
        (Some expr, Some dest) \<Rightarrow> if expr = [] then None else Some (expr, dest)
      | _ \<Rightarrow> None)"

definition flagStaleBackup :: "time \<Rightarrow> databaseInstance \<Rightarrow> 'a backup_world_scheme \<Rightarrow> 'a backup_world_scheme" where
  "flagStaleBackup now d w =
     (case schedulable d of
        None \<Rightarrow> w
      | Some (expr, _) \<Rightarrow>
          (case PreviousFires expr now 2 staleBackupLookback of
             _ # deadline # _ \<Rightarrow>
               if di_InsertedAt d > deadline then w
               else (case GetLastSuccessfulSnapshotAt (di_ID d) w of
                       (Inl _, w1) \<Rightarrow> w1
                     | (Inr lastSuccess, w1) \<Rightarrow>
                         if (case lastSuccess of None \<Rightarrow> False | Some t \<Rightarrow> deadline \<le> t)
                         then ClearWarning (di_ID d) DBErrCodeBackupStale w1
                         else SetWarning (di_ID d)
                           (Some (newDatabaseError DBErrCodeBackupStale
                              (''no successful snapshot since '' @ describeLastSuccess lastSuccess @ ''; schedule '' @ go_quote expr @
                               '' should have run at least twice by now'') True w1)) ''control-plane'' w1)
           | _ \<Rightarrow> w))"

definition all_instances :: listDatabaseInstancesRequest where
  "all_instances = \<lparr>ld_Limit = int MAX_LIMIT, ld_Offset = 0, ld_WorkerID = None, ld_Engine = None, ld_Status = None\<rparr>"

definition flagStaleBackups :: "'a backup_world_scheme \<Rightarrow> 'a backup_world_scheme" where
  "flagStaleBackups w =
     (case ListDatabaseInstances all_instances w of
        (Inl _, w1) \<Rightarrow> w1
      | (Inr (ds, _), w1) \<Rightarrow> fold (flagStaleBackup (clock w1)) ds w1)"

section \<open>What retention removes\<close>

lemma snapshots_frame [simp]: "frame_field b_snapshots"
  by (simp add: frame_field_def)

lemma frame_Get: "frame_field g \<Longrightarrow> g (snd (GetDatabaseInstanceByID i w)) = g w"
  by (simp add: snd_Get frame_query)

lemma frame_GetD: "frame_field g \<Longrightarrow> GetDatabaseInstanceByID i w = (r, w1) \<Longrightarrow> g w1 = g w"
  using frame_Get [of g i w] by simp

lemma frame_destination: "frame_field g \<Longrightarrow> g (snd (GetBackupDestinationByID i w)) = g w"
  using frame_query [of g "\<lambda>w. map_option (scanBackupDestination w) (List.find (\<lambda>b. bd_ID b = i) (b_destinations w))" w]
  by (auto simp: GetBackupDestinationByID_def split: prod.splits sum.splits option.splits)

lemma frame_destinationD: "frame_field g \<Longrightarrow> GetBackupDestinationByID i w = (r, w1) \<Longrightarrow> g w1 = g w"
  using frame_destination [of g i w] by simp

text \<open>
  \<open>pruned E\<close> relates two snapshot tables that differ only in that some rows with ids in \<open>E\<close>
  were retired.
\<close>

definition pruned :: "int set \<Rightarrow> databaseSnapshot list \<Rightarrow> databaseSnapshot list \<Rightarrow> bool" where
  "pruned E = list_all2 (\<lambda>s s'. sn_ID s' = sn_ID s \<and> sn_DatabaseInstanceID s' = sn_DatabaseInstanceID s
     \<and> sn_Status s' = sn_Status s \<and> (sn_Active s' = sn_Active s \<or> sn_ID s \<in> E \<and> \<not> sn_Active s'))"

lemma pruned_refl [simp]: "pruned E ss ss"
  by (simp add: pruned_def list_all2_refl)

lemma pruned_trans: "pruned E ss ts \<Longrightarrow> pruned F ts us \<Longrightarrow> pruned (E \<union> F) ss us"
  unfolding pruned_def by (erule (1) list_all2_trans [rotated]) auto

lemma pruned_ids: "pruned E ss ts \<Longrightarrow> map sn_ID ts = map sn_ID ss"
  unfolding pruned_def by (induction rule: list_all2_induct) auto

lemma pruned_copies:
  assumes "pruned E ss ts"
  shows "sn_ID ` set (filter (is_copy i) ts) \<subseteq> sn_ID ` set (filter (is_copy i) ss)"
    and "sn_ID ` set (filter (is_copy i) ss) - E \<subseteq> sn_ID ` set (filter (is_copy i) ts)"
  using assms unfolding pruned_def
  by (induction rule: list_all2_induct) (auto simp: is_copy_def)

lemma DeleteSnapshot_pruned: "pruned {sid} (b_snapshots w) (b_snapshots (snd (DeleteSnapshot sid w)))"
  unfolding DeleteSnapshot_def snd_exec_unit
proof (rule exec_keeps [where P = "\<lambda>w'. pruned {sid} (b_snapshots w) (b_snapshots w')"])
  fix w' :: "'a backup_world_scheme"
  have "pruned {sid} (b_snapshots w') (update_where (\<lambda>s. sn_ID s = sid)
      (\<lambda>s. touch_snapshot (clock w') s (s\<lparr>sn_Active := False\<rparr>)) (b_snapshots w'))"
    by (auto simp: pruned_def update_where_def list.rel_map touch_snapshot_def intro: list_all2_refl)
  then show "pruned {sid} (b_snapshots w) (b_snapshots w') \<Longrightarrow>
    pruned {sid} (b_snapshots w) (b_snapshots (snd ((), w'\<lparr>b_snapshots := update_where (\<lambda>s. sn_ID s = sid)
      (\<lambda>s. touch_snapshot (clock w') s (s\<lparr>sn_Active := False\<rparr>)) (b_snapshots w')\<rparr>)))"
    using pruned_trans [of "{sid}" "b_snapshots w" "b_snapshots w'" "{sid}"] by simp
qed simp_all

lemma DeleteSnapshotArtifact_pruned:
  "pruned {sn_ID s} (b_snapshots w) (b_snapshots (snd (DeleteSnapshotArtifactCtx s inst w)))"
proof -
  have *: "pruned {sn_ID s} (b_snapshots w) (b_snapshots (snd (DeleteSnapshot (sn_ID s) w')))"
    if "b_snapshots w' = b_snapshots w" for w'
    using DeleteSnapshot_pruned [of "sn_ID s" w'] that by simp
  show ?thesis unfolding DeleteSnapshotArtifactCtx_def
    by (rule *) (auto simp: frame_send dest: frame_destinationD [OF snapshots_frame] split: option.split prod.split sum.split)
qed

lemma fold_delete_pruned:
  "pruned (sn_ID ` set ss) (b_snapshots w)
     (b_snapshots (fold (\<lambda>s w. snd (DeleteSnapshotArtifactCtx s inst w)) ss w))"
proof (induction ss arbitrary: w)
  case (Cons s ss)
  from pruned_trans [OF DeleteSnapshotArtifact_pruned [of s w inst] Cons] show ?case by simp
qed simp

text \<open>Whatever is dropped from a list of copies, newest first, leaves \<open>keep\<close> newer ones in front.\<close>

lemma dropped_outranked:
  assumes "distinct (map k xs)" "x \<in> set (drop keep (rev (sort_key k xs)))"
  defines "K \<equiv> map k (take keep (rev (sort_key k xs)))"
  shows "length K = keep" "distinct K" "\<forall>y \<in> set K. k x < y" "set K \<subseteq> k ` set xs - k ` set (drop keep (rev (sort_key k xs)))"
proof -
  define M where "M = map k (rev (sort_key k xs))"
  have "distinct (map k (sort_key k xs))" using assms(1) by (simp add: distinct_map)
  then have d: "distinct M" by (simp add: M_def rev_map [symmetric])
  have K: "K = take keep M" by (simp add: K_def M_def take_map)
  have x: "k x \<in> set (drop keep M)" using assms(2) by (simp add: M_def drop_map)
  show "length K = keep" using x by (cases "keep \<le> length M") (auto simp: K)
  show "distinct K" using d by (simp add: K)
  have disj: "set (take keep M) \<inter> set (drop keep M) = {}" using d by (rule set_take_disj_set_drop_if_distinct) simp
  have "sorted (rev M)" by (simp add: M_def rev_map)
  then have "sorted_wrt (\<lambda>a b. b \<le> a) (take keep M @ drop keep M)" by (simp add: sorted_wrt_rev)
  then have "k x \<le> y" if "y \<in> set K" for y using that x unfolding sorted_wrt_append K by blast
  moreover have "k x \<noteq> y" if "y \<in> set K" for y using that x disj K by auto
  ultimately show "\<forall>y \<in> set K. k x < y" by (simp add: order_less_le)
  have "set K \<subseteq> k ` set xs" using set_take_subset [of keep M] by (auto simp: K M_def)
  moreover have "set K \<inter> k ` set (drop keep (rev (sort_key k xs))) = {}" using disj by (simp add: K M_def drop_map)
  ultimately show "set K \<subseteq> k ` set xs - k ` set (drop keep (rev (sort_key k xs)))" by blast
qed

definition copy_ids :: "int \<Rightarrow> 'a backup_world_scheme \<Rightarrow> int list" where
  "copy_ids i w = map sn_ID (filter (is_copy i) (b_snapshots w))"

lemma applySnapshotRetention_cases:
  obtains "b_snapshots (applySnapshotRetention i w) = b_snapshots w"
  | d count ss where "select_instance i (d_instances w) = Some d" "di_RetentionCount d = Some count" "0 < count"
      "ss = take MAX_LIMIT (rev (sort_key sn_InsertedAt (filter (\<lambda>s. sn_DatabaseInstanceID s = i \<and> sn_Active s) (b_snapshots w))))"
      "pruned (sn_ID ` set (expired (retention_keep count) ss)) (b_snapshots w) (b_snapshots (applySnapshotRetention i w))"
proof (cases "GetDatabaseInstanceByID i w")
  case (Pair r w1)
  have b1: "b_snapshots w1 = b_snapshots w" using frame_GetD [OF snapshots_frame Pair] .
  define q where "q = (\<lambda>w :: 'a backup_world_scheme. take MAX_LIMIT (rev (sort_key sn_InsertedAt
    (filter (\<lambda>s. sn_DatabaseInstanceID s = i \<and> sn_Active s) (b_snapshots w)))))"
  obtain r2 w2 where q2: "query q w1 = (r2, w2)" by force
  have b2: "b_snapshots w2 = b_snapshots w" using frame_queryD [OF snapshots_frame q2] b1 by simp
  have l: "ListSnapshotsByInstance i w1 = (case r2 of Inl e \<Rightarrow> (Inl (''failed to execute sql query: '' @ e), w2) | Inr ss \<Rightarrow> (Inr ss, w2))"
    using q2 by (simp add: ListSnapshotsByInstance_def q_def split: sum.split)
  show ?thesis
  proof (cases r)
    case (Inl e)
    then show ?thesis using Pair b1 by (intro that(1)) (simp add: applySnapshotRetention_def)
  next
    case (Inr d')
    then obtain d where d: "select_instance i (d_instances w) = Some d" "same_row d d'"
      using Get_Inr [of i w d' w1] Pair by metis
    have rc: "di_RetentionCount d = di_RetentionCount d'"
      using d(2) unfolding same_row_def by (metis databaseInstance.select_convs(17) databaseInstance.surjective databaseInstance.update_convs(8,11))
    show ?thesis
    proof (cases "(\<exists>count. di_RetentionCount d' = Some count \<and> 0 < count) \<and> \<not> isl r2")
      case False
      then have "b_snapshots (applySnapshotRetention i w) = b_snapshots w"
        using Pair Inr l b1 b2 by (cases r2) (auto simp: applySnapshotRetention_def split: option.splits)
      then show ?thesis by (rule that(1))
    next
      case True
      then obtain count ss where c: "di_RetentionCount d' = Some count" "0 < count" "r2 = Inr ss" by (cases r2) auto
      have "ss = q w1" using q2 c(3) by (intro query_Inr [of q w1 ss w2]) (simp_all add: q_def)
      then have ss: "ss = q w" using b1 by (simp add: q_def)
      have "applySnapshotRetention i w =
          fold (\<lambda>s w. snd (DeleteSnapshotArtifactCtx s (Some d') w)) (expired (retention_keep count) ss) w2"
        using Pair Inr l c by (simp add: applySnapshotRetention_def)
      then have p: "pruned (sn_ID ` set (expired (retention_keep count) ss)) (b_snapshots w) (b_snapshots (applySnapshotRetention i w))"
        using fold_delete_pruned [of "expired (retention_keep count) ss" w2 "Some d'"] b2 by simp
      show ?thesis using c(1) rc by (intro that(2) [OF d(1) _ c(2) ss [unfolded q_def] p]) simp
    qed
  qed
qed

section \<open>Properties of backups\<close>

text \<open>
  C7. Retention expires only copies that newer ones outrank. Whatever the retention count, the
  database's failures and the worker's state: if a completed snapshot of the instance is gone
  after retention ran, then a positive retention count \<open>n\<close> is set and at least \<open>n\<close>, and never
  fewer than two, newer completed snapshots are still there.
\<close>

theorem retention_keeps_newer_copies:
  assumes "distinct (map sn_ID (b_snapshots w))" "x \<in> set (copy_ids i w)"
    and "x \<notin> set (copy_ids i (applySnapshotRetention i w))"
  shows "\<exists>d n. select_instance i (d_instances w) = Some d \<and> di_RetentionCount d = Some n \<and> 0 < n \<and>
    max 2 (nat n) \<le> length (filter (\<lambda>y. x < y) (copy_ids i (applySnapshotRetention i w)))"
proof (rule applySnapshotRetention_cases [of i w])
  assume "b_snapshots (applySnapshotRetention i w) = b_snapshots w"
  then show ?thesis using assms(2,3) by (simp add: copy_ids_def)
next
  fix d n and ss :: "databaseSnapshot list"
  define keep where "keep = retention_keep n"
  define C where "C = filter (\<lambda>s. sn_Status s = ''completed'') ss"
  define L where "L = rev (sort_key sn_ID C)"
  assume d: "select_instance i (d_instances w) = Some d" "di_RetentionCount d = Some n" "0 < n"
    and ss: "ss = take MAX_LIMIT (rev (sort_key sn_InsertedAt (filter (\<lambda>s. sn_DatabaseInstanceID s = i \<and> sn_Active s) (b_snapshots w))))"
    and "pruned (sn_ID ` set (expired (retention_keep n) ss)) (b_snapshots w) (b_snapshots (applySnapshotRetention i w))"
  then have p: "pruned (sn_ID ` set (drop keep L)) (b_snapshots w) (b_snapshots (applySnapshotRetention i w))"
    by (simp add: expired_def keep_def L_def C_def)
  have sub: "set ss \<subseteq> {s \<in> set (b_snapshots w). sn_DatabaseInstanceID s = i \<and> sn_Active s}"
    unfolding ss using set_take_subset [of MAX_LIMIT] by fastforce
  have dist: "distinct (map sn_ID C)"
    using assms(1) sub unfolding C_def ss by (auto simp: distinct_map inj_on_def)
  have C_copy: "sn_ID ` set C \<subseteq> sn_ID ` set (filter (is_copy i) (b_snapshots w))"
    using sub by (auto simp: C_def is_copy_def)
  have "x \<in> sn_ID ` set (drop keep L)"
    using pruned_copies(2) [OF p, of i] assms(2,3) unfolding copy_ids_def set_map by blast
  then obtain s where s: "s \<in> set (drop keep L)" "x = sn_ID s" by auto
  define K where "K = map sn_ID (take keep L)"
  note out = dropped_outranked [OF dist s(1) [unfolded L_def], folded L_def K_def]
  have K_in: "set K \<subseteq> set (copy_ids i (applySnapshotRetention i w))"
    unfolding copy_ids_def set_map
    by (rule order_trans [OF order_trans [OF out(4) Diff_mono [OF C_copy order_refl]] pruned_copies(2) [OF p]])
  have "card (set K) \<le> card (set (filter (\<lambda>y. x < y) (copy_ids i (applySnapshotRetention i w))))"
    using K_in out(3) s(2) by (intro card_mono) auto
  also have "\<dots> \<le> length (filter (\<lambda>y. x < y) (copy_ids i (applySnapshotRetention i w)))" by (rule card_length)
  finally have "keep \<le> length (filter (\<lambda>y. x < y) (copy_ids i (applySnapshotRetention i w)))"
    using distinct_card [OF out(2)] out(1) by simp
  moreover have "max 2 (nat n) = keep" using d(3) by (simp add: keep_def retention_keep_def minSnapshotRedundancy_def)
  ultimately show ?thesis using d by auto
qed

definition copy0 :: databaseSnapshot where
  "copy0 = \<lparr>sn_ID = 1, sn_DatabaseInstanceID = 1, sn_BackupDestinationID = None, sn_Filename = ''a.sql.gz'', sn_SizeBytes = None,
     sn_Engine = ''postgres'', sn_DatabaseName = ''orders'', sn_Status = ''completed'', sn_TriggerType = ''scheduled'',
     sn_ErrorMessage = None, sn_CompletedAt = Some 0, sn_Active = True, sn_UpdatedAt = 0, sn_InsertedAt = 0\<rparr>"

definition backup_empty :: backup_world where
  "backup_empty = db_world.extend db_empty
     \<lparr>b_snapshots = [], b_next_snapshot = 1, b_runs = [], b_next_run = 1, b_replicas = [], b_destinations = [],
      b_next_destination = 1, b_unmarshal = (\<lambda>_. Inr []), b_uuid = (\<lambda>_. ''u'')\<rparr>"

definition retention_world :: backup_world where
  "retention_world = backup_empty\<lparr>d_instances := [db0\<lparr>di_RetentionCount := Some 1\<rparr>],
     b_snapshots := [copy0, copy0\<lparr>sn_ID := 2\<rparr>, copy0\<lparr>sn_ID := 3\<rparr>]\<rparr>"

theorem retention_keeps_newer_copies_witness:
  "copy_ids 1 retention_world = [1, 2, 3] \<and> copy_ids 1 (applySnapshotRetention 1 retention_world) = [2, 3] \<and>
   (\<exists>d n. select_instance 1 (d_instances retention_world) = Some d \<and> di_RetentionCount d = Some n \<and> 0 < n \<and>
      max 2 (nat n) \<le> length (filter (\<lambda>y. 1 < y) (copy_ids 1 (applySnapshotRetention 1 retention_world))))"
proof -
  have c: "copy_ids 1 retention_world = [1, 2, 3]" "copy_ids 1 (applySnapshotRetention 1 retention_world) = [2, 3]"
    "distinct (map sn_ID (b_snapshots retention_world))"
    by code_simp+
  then show ?thesis using retention_keeps_newer_copies [OF c(3), of 1 1] by simp
qed

end
