(* ===== verification/Scheduler.thy ===== *)
theory Scheduler
  imports Db_Backups Automation_Executor "HOL-Library.Word"
begin

text \<open>
  The control plane's one scheduler: when a scheduled snapshot or automation is due and what is
  dispatched for it (\<^verbatim>\<open>src/database_scheduler.go\<close>, \<^verbatim>\<open>src/automation_scheduler.go\<close>). The jitter is the
  64-bit FNV-1a hash of \<^verbatim>\<open>hash/fnv\<close>; the deployment seed is derived from the build's version, a
  parameter.
\<close>

unbundle bit_operations_syntax

section \<open>Jitter\<close>

definition schedulerCatchUpWindow :: duration where "schedulerCatchUpWindow = 2 * Hour"
definition schedulerMaxJitter :: duration where "schedulerMaxJitter = 5 * Minute"
definition snapshotRunTimeout :: duration where "snapshotRunTimeout = 2 * Hour"

definition fnv_step :: "64 word \<Rightarrow> char \<Rightarrow> 64 word" where
  "fnv_step h c = (h XOR of_nat (of_char c)) * 1099511628211"

definition fnv64a :: "string \<Rightarrow> 64 word" where
  "fnv64a s = foldl fnv_step 14695981039346656037 s"

definition deploymentJitterSeed :: "string \<Rightarrow> 64 word" where
  "deploymentJitterSeed version = fnv64a (''lattice-snapshot-scheduler'' @ version)"

definition jitterForKey :: "64 word \<Rightarrow> string \<Rightarrow> duration \<Rightarrow> duration" where
  "jitterForKey seed key period =
     (let mx = (if period > 0 \<and> period < schedulerMaxJitter then period div 2 else schedulerMaxJitter) in
      if mx \<le> 0 then 0 else (uint (fnv64a key XOR seed) mod (mx div Second + 1)) * Second)"

definition jitterFor :: "64 word \<Rightarrow> int \<Rightarrow> duration \<Rightarrow> duration" where
  "jitterFor seed i period = jitterForKey seed (''instance:'' @ show_int i) period"

text \<open>The newest nominal slot, once its jittered moment has come.\<close>

definition due_slot :: "64 word \<Rightarrow> string \<Rightarrow> string \<Rightarrow> time \<Rightarrow> time option" where
  "due_slot seed key expr now =
     (case PreviousFires expr now 2 staleBackupLookback of
        [] \<Rightarrow> None
      | slot # older_fires \<Rightarrow>
          (let period = (case older_fires of [] \<Rightarrow> 0 | s2 # _ \<Rightarrow> slot - s2) in
           if now < slot + jitterForKey seed key period then None else Some slot))"

text \<open>\<^verbatim>\<open>Duration.Round(time.Minute)\<close> and \<^verbatim>\<open>Duration.String\<close> of a whole number of minutes.\<close>

definition round_minutes :: "duration \<Rightarrow> duration" where
  "round_minutes d = ((d + 30 * Second) div Minute) * Minute"

definition show_minutes :: "duration \<Rightarrow> string" where
  "show_minutes d =
     (let h = d div Hour; m = (d mod Hour) div Minute in
      if h > 0 then show_int h @ ''h'' @ show_int m @ ''m0s''
      else if m > 0 then show_int m @ ''m0s'' else ''0s'')"

definition stale_reason :: "duration \<Rightarrow> string" where
  "stale_reason age = ''slot was '' @ show_minutes (round_minutes age) @ '' old; beyond the 2h0m0s catch-up window''"

section \<open>Dispatching\<close>

definition skipRun :: "int \<Rightarrow> string \<Rightarrow> 'a backup_world_scheme \<Rightarrow> 'a backup_world_scheme" where
  "skipRun rid reason w =
     snd (UpdateSnapshotRun rid
       (no_snapshot_run_update\<lparr>ur_Status := Some SnapshotRunSkipped, ur_SkipReason := Some reason, ur_Finished := True\<rparr>) w)"

definition startRun :: "databaseInstance \<Rightarrow> int \<Rightarrow> databaseSnapshotRun \<Rightarrow> 'a backup_world_scheme \<Rightarrow> 'a backup_world_scheme" where
  "startRun d dest run w =
     (case StartSnapshot d dest ''scheduled'' w of
        (Inl e, w1) \<Rightarrow>
          snd (UpdateSnapshotRun (rr_ID run)
            (no_snapshot_run_update\<lparr>ur_Status := Some SnapshotRunFailed, ur_SkipReason := Some e, ur_Finished := True\<rparr>) w1)
      | (Inr s, w1) \<Rightarrow>
          snd (UpdateSnapshotRun (rr_ID run)
            (no_snapshot_run_update\<lparr>ur_Status := Some SnapshotRunRunning, ur_SnapshotID := Some (sn_ID s),
               ur_DispatchedAt := Some (clock w1)\<rparr>) w1))"

definition dispatchSlot :: "databaseInstance \<Rightarrow> int \<Rightarrow> time \<Rightarrow> time \<Rightarrow> 'a backup_world_scheme \<Rightarrow> 'a backup_world_scheme" where
  "dispatchSlot d dest slot now w =
     (case ClaimSnapshotRun (di_ID d) slot w of
        (Inl _, w1) \<Rightarrow> w1
      | (Inr None, w1) \<Rightarrow> w1
      | (Inr (Some run), w1) \<Rightarrow>
          if now - slot > schedulerCatchUpWindow then skipRun (rr_ID run) (stale_reason (now - slot)) w1
          else case HasRunInFlight (di_ID d) (rr_ID run) w1 of
            (Inr True, w2) \<Rightarrow> skipRun (rr_ID run) ''the previous scheduled snapshot is still running'' w2
          | (_, w2) \<Rightarrow>
              if di_Status d \<noteq> DBStatusRunning then skipRun (rr_ID run) (''database is '' @ di_Status d) w2
              else if \<not> worker_connected (di_WorkerID d) w2
              then skipRun (rr_ID run) (''worker '' @ show_int (di_WorkerID d) @ '' is not connected'') w2
              else startRun d dest run w2)"

definition dispatchInstance :: "64 word \<Rightarrow> time \<Rightarrow> databaseInstance \<Rightarrow> 'a backup_world_scheme \<Rightarrow> 'a backup_world_scheme" where
  "dispatchInstance seed now d w =
     (case schedulable d of
        None \<Rightarrow> w
      | Some (expr, dest) \<Rightarrow>
          (case due_slot seed (''instance:'' @ show_int (di_ID d)) expr now of
             None \<Rightarrow> w
           | Some slot \<Rightarrow> dispatchSlot d dest slot now w))"

definition dispatchDue :: "64 word \<Rightarrow> 'a backup_world_scheme \<Rightarrow> 'a backup_world_scheme" where
  "dispatchDue seed w =
     (case ListDatabaseInstances all_instances w of
        (Inl _, w1) \<Rightarrow> w1
      | (Inr (ds, _), w1) \<Rightarrow> fold (dispatchInstance seed (clock w1)) ds w1)"

definition timeout_reason :: string where
  "timeout_reason = ''no result within 2h0m0s of its scheduled time''"

definition failStuckSnapshotRuns :: "'a backup_world_scheme \<Rightarrow> 'a backup_world_scheme" where
  "failStuckSnapshotRuns w =
     (case ListStuckSnapshotRuns (clock w - snapshotRunTimeout) w of
        (Inl _, w1) \<Rightarrow> w1
      | (Inr rs, w1) \<Rightarrow>
          fold (\<lambda>r w. snd (UpdateSnapshotRun (rr_ID r)
            (no_snapshot_run_update\<lparr>ur_Status := Some SnapshotRunFailed, ur_SkipReason := Some timeout_reason, ur_Finished := True\<rparr>) w)) rs w1)"

section \<open>Automations on the same scheduler\<close>

definition dispatchAutomation ::
  "exec_env \<Rightarrow> 64 word \<Rightarrow> time \<Rightarrow> automation \<Rightarrow> 'a auto_world_scheme \<Rightarrow> 'a auto_world_scheme" where
  "dispatchAutomation env seed now a w =
     (case due_slot seed (''automation:'' @ show_int (au_ID a)) (tr_Cron (au_Trigger a)) now of
        None \<Rightarrow> w
      | Some slot \<Rightarrow>
          if slot < au_UpdatedAt a then w
          else FireScheduled env a slot (if now - slot > schedulerCatchUpWindow then stale_reason (now - slot) else []) w)"

definition dispatchDueAutomations :: "exec_env \<Rightarrow> 64 word \<Rightarrow> 'a auto_world_scheme \<Rightarrow> 'a auto_world_scheme" where
  "dispatchDueAutomations env seed w =
     (case ListScheduledAutomations w of
        (Inl _, w1) \<Rightarrow> w1
      | (Inr as, w1) \<Rightarrow> fold (dispatchAutomation env seed (clock w1)) as w1)"

section \<open>How far a slot is held\<close>

lemma jitterForKey_range:
  "0 \<le> jitterForKey seed key period \<and> jitterForKey seed key period \<le> schedulerMaxJitter \<and>
   (0 < period \<and> period < schedulerMaxJitter \<longrightarrow> jitterForKey seed key period \<le> period div 2)"
proof -
  define mx where "mx = (if period > 0 \<and> period < schedulerMaxJitter then period div 2 else schedulerMaxJitter)"
  define o1 where "o1 = uint (fnv64a key XOR seed) mod (mx div Second + 1)"
  have j: "jitterForKey seed key period = (if mx \<le> 0 then 0 else o1 * Second)"
    by (simp add: jitterForKey_def mx_def o1_def Let_def)
  have b: "0 \<le> o1 * Second \<and> o1 * Second \<le> mx" if "0 < mx"
  proof -
    have p: "0 < mx div Second + 1" using that by (simp add: pos_imp_zdiv_nonneg_iff add_nonneg_pos)
    then have "0 \<le> o1" "o1 \<le> mx div Second"
      using pos_mod_bound [OF p, of "uint (fnv64a key XOR seed)"] pos_mod_sign [OF p] by (simp_all add: o1_def)
    then have "0 \<le> o1 * Second" "o1 * Second \<le> (mx div Second) * Second" by (simp_all add: mult_right_mono less_imp_le [OF Second_pos])
    moreover have "(mx div Second) * Second \<le> mx" using div_bounds [of Second mx] by (simp add: mult.commute)
    ultimately show ?thesis by linarith
  qed
  have "mx \<le> schedulerMaxJitter" "0 < schedulerMaxJitter" by (auto simp: mx_def schedulerMaxJitter_def)
  then show ?thesis using b j by (auto simp: mx_def split: if_splits)
qed

section \<open>A claimed slot stays claimed\<close>

definition run_keys :: "'a backup_world_scheme \<Rightarrow> (int \<times> time) list" where
  "run_keys w = map (\<lambda>r. (rr_DatabaseInstanceID r, rr_ScheduledAt r)) (b_runs w)"

lemma run_keys_upd [simp]:
  "run_keys (w\<lparr>clock := c, db_script := s\<rparr>) = run_keys w" "run_keys (w\<lparr>b_snapshots := x\<rparr>) = run_keys w"
  "run_keys (w\<lparr>b_snapshots := x, b_next_snapshot := y\<rparr>) = run_keys w" "run_keys (w\<lparr>b_replicas := z\<rparr>) = run_keys w"
  "run_keys (w\<lparr>hub := h, picks := p\<rparr>) = run_keys w" "run_keys (w\<lparr>b_runs := rs\<rparr>) = map (\<lambda>r. (rr_DatabaseInstanceID r, rr_ScheduledAt r)) rs"
  by (simp_all add: run_keys_def)

lemma slot_claimed_keys: "slot_claimed i slot (b_runs w) \<longleftrightarrow> (i, db_time slot) \<in> set (run_keys w)"
  by (auto simp: slot_claimed_def run_keys_def list_ex_iff image_iff)

text \<open>
  A property that no column of \<^verbatim>\<open>database_instances\<close>, no event and no command is part of is a
  row property of the lifecycle, and retirable.
\<close>

definition instance_free :: "('a db_world_scheme \<Rightarrow> bool) \<Rightarrow> bool" where
  "instance_free P \<longleftrightarrow> db_frame P \<and> (\<forall>w ds. P (w\<lparr>d_instances := ds\<rparr>) = P w)"

lemma instance_free_exec:
  "instance_free P \<Longrightarrow> (\<And>w. P (snd (f w)) = P w) \<Longrightarrow> P (snd (exec f w)) = P w"
  by (rule exec_frame) (simp_all add: instance_free_def db_frame_def)

lemma instance_free_update: "instance_free P \<Longrightarrow> P (snd (UpdateDatabaseInstance i req w)) = P w"
proof -
  assume P: "instance_free P"
  have e: "P (snd (exec (\<lambda>w. write_instances (g w) w) w)) = P w" for g :: "'a db_world_scheme \<Rightarrow> databaseInstance list" and w
    using P by (intro instance_free_exec) (simp_all add: instance_free_def write_instances_def)
  have eD: "P w1 = P w" if "exec (\<lambda>w. write_instances (g w) w) w = (r, w1)"
    for g :: "'a db_world_scheme \<Rightarrow> databaseInstance list" and w r w1
    using e [of g w] that by simp
  have get: "P (snd (GetDatabaseInstanceByID i w)) = P w" for w
    using P by (intro db_frame_Get) (simp add: instance_free_def)
  show ?thesis
    by (auto simp: UpdateDatabaseInstance_def Let_def get dest: eD split: sum.split prod.split option.split)
qed

lemma instance_free_retirable: "instance_free P \<Longrightarrow> retirable P"
proof unfold_locales
  assume P: "instance_free P"
  show f: "db_frame P" using P by (simp add: instance_free_def)
  fix w w1 :: "'a db_world_scheme" and i d e
  show "P w \<Longrightarrow> P (snd (DeleteDatabaseInstance i w))"
    unfolding DeleteDatabaseInstance_def snd_exec_unit using P
    by (subst instance_free_exec) (simp_all add: instance_free_def)
  show "P w \<Longrightarrow> GetDatabaseInstanceByID i w = (Inr d, w1) \<Longrightarrow> di_LastError d = None \<or> di_Status d \<noteq> DBStatusError \<Longrightarrow>
      P (snd (UpdateDatabaseInstance i (no_update\<lparr>ui_LastError := Some e\<rparr>) w1))"
    using db_frame_GetD [OF f] instance_free_update [OF P] by metis
  show "P w \<Longrightarrow> GetDatabaseInstanceByID i w = (Inr d, w1) \<Longrightarrow> di_LastError d = Some e \<Longrightarrow> de_Code e = DBErrCodeBackupStale \<Longrightarrow>
      P (snd (UpdateDatabaseInstance i (no_update\<lparr>ui_ClearLastError := True\<rparr>) w1))"
    using db_frame_GetD [OF f] instance_free_update [OF P] by metis
qed (simp_all add: instance_free_update)

lemma run_keys_free: "instance_free (\<lambda>w. k \<in> set (run_keys w))"
  by (simp add: instance_free_def db_frame_def run_keys_def)

interpretation slots: retirable "\<lambda>w :: 'a backup_world_scheme. k \<in> set (run_keys w)" for k
  by (rule instance_free_retirable) (rule run_keys_free)

text \<open>No operation but the claim of a slot changes the keys, and the claim only adds one.\<close>

lemma keys_frame [simp]: "frame_field (run_keys :: 'a backup_world_scheme \<Rightarrow> _)"
  by (simp add: frame_field_def run_keys_def)

lemma keys_one_row: "run_keys (snd (one_row p q w)) = run_keys w"
  by (simp add: snd_one_row frame_query)

lemma keys_one_rowD: "one_row p q w = (r, w1) \<Longrightarrow> run_keys w1 = run_keys w"
  using keys_one_row [of p q w] by simp

lemma keys_exec_unit: "(\<And>w. run_keys (f w) = run_keys w) \<Longrightarrow> run_keys (snd (exec_unit f w)) = run_keys w"
  unfolding snd_exec_unit by (rule frame_exec) simp_all

lemma keys_UpdateSnapshotRun: "run_keys (snd (UpdateSnapshotRun rid req w)) = run_keys w"
proof -
  have s: "rr_DatabaseInstanceID (touch_run t r (snapshot_run_sets req now r)) = rr_DatabaseInstanceID r"
    "rr_ScheduledAt (touch_run t r (snapshot_run_sets req now r)) = rr_ScheduledAt r" for t r now
    by (auto simp: touch_run_def snapshot_run_sets_def set_opt_def split: option.split)
  have "run_keys (w'\<lparr>b_runs := update_where (\<lambda>r. rr_ID r = rid)
      (\<lambda>r. touch_run (clock w') r (snapshot_run_sets req now r)) (b_runs w')\<rparr>) = run_keys w'" for w' :: "'a backup_world_scheme" and now
    unfolding run_keys_def by (simp add: update_where_map_key s)
  then show ?thesis by (simp add: UpdateSnapshotRun_def Let_def keys_exec_unit)
qed

lemma keys_insert: "set (run_keys (snd (insert_snapshot_run i slot w))) = insert (i, db_time slot) (set (run_keys w))"
  by (auto simp: insert_snapshot_run_def run_keys_def snapshot_run_row_def slot_claimed_def list_ex_iff image_iff)

lemma keys_Claim: "k \<in> set (run_keys w) \<Longrightarrow> k \<in> set (run_keys (snd (ClaimSnapshotRun i slot w)))"
proof -
  assume k: "k \<in> set (run_keys w)"
  have e: "k \<in> set (run_keys w1)" if "exec (insert_snapshot_run i slot) w = (r, w1)" for r w1
  proof -
    have "k \<in> set (run_keys (snd (exec (insert_snapshot_run i slot) w)))"
      using k by (intro exec_keeps [where P = "\<lambda>w. k \<in> set (run_keys w)"]) (simp_all add: keys_insert)
    then show ?thesis using that by simp
  qed
  have g: "run_keys w2 = run_keys w1" if "GetSnapshotRunByID rid w1 = (r, w2)" for rid r w1 w2
    using that unfolding GetSnapshotRunByID_def by (rule keys_one_rowD)
  show ?thesis by (auto simp: ClaimSnapshotRun_def dest!: e g split: prod.split sum.split option.split)
qed

lemma keys_Get: "GetDatabaseInstanceByID i w = (r, w1) \<Longrightarrow> run_keys w1 = run_keys w"
  by (rule frame_GetD) simp

lemma keys_Dest: "GetBackupDestinationByID i w = (r, w1) \<Longrightarrow> run_keys w1 = run_keys w"
  by (rule frame_destinationD) simp

lemma keys_send: "SendJSONToWorker wid m w = (r, w1) \<Longrightarrow> run_keys w1 = run_keys w"
  using frame_send [OF keys_frame, of wid m w] by simp

lemma keys_CreateSnapshot: "CreateSnapshot req w = (r, w1) \<Longrightarrow> run_keys w1 = run_keys w"
proof -
  have e: "run_keys w2 = run_keys w" if "exec (\<lambda>w. (b_next_snapshot w, w\<lparr>b_snapshots := b_snapshots w @ [snapshot_row (b_next_snapshot w) (clock w) req],
      b_next_snapshot := b_next_snapshot w + 1\<rparr>)) w = (r, w2)" for r w2
  proof -
    have "run_keys (snd (exec (\<lambda>w. (b_next_snapshot w, w\<lparr>b_snapshots := b_snapshots w @ [snapshot_row (b_next_snapshot w) (clock w) req],
      b_next_snapshot := b_next_snapshot w + 1\<rparr>)) w)) = run_keys w"
      by (rule frame_exec) simp_all
    then show ?thesis using that by simp
  qed
  have g: "run_keys w2 = run_keys w1" if "GetSnapshotByID sid w1 = (r, w2)" for sid r w1 w2
    using that unfolding GetSnapshotByID_def by (rule keys_one_rowD)
  have "run_keys (snd (CreateSnapshot req w)) = run_keys w"
    by (auto simp: CreateSnapshot_def dest!: e split: prod.split sum.split) (metis g prod.collapse)
  then show "CreateSnapshot req w = (r, w1) \<Longrightarrow> run_keys w1 = run_keys w" by simp
qed

lemma keys_GetSnapshot: "GetSnapshotByID sid w = (r, w1) \<Longrightarrow> run_keys w1 = run_keys w"
  unfolding GetSnapshotByID_def by (rule keys_one_rowD)

lemma keys_StartSnapshot: "run_keys (snd (StartSnapshot d dest t w)) = run_keys w"
  unfolding StartSnapshot_def Let_def
  by (auto dest!: keys_Dest keys_CreateSnapshot keys_send split: prod.split sum.split option.split)

lemma keys_UpdateStatus: "UpdateSnapshotStatus sid s n e w = (r, w1) \<Longrightarrow> run_keys w1 = run_keys w"
  using keys_exec_unit [of "\<lambda>w'. w'\<lparr>b_snapshots := update_where (\<lambda>s. sn_ID s = sid)
      (\<lambda>x. touch_snapshot (clock w') x (snapshot_sets s n e (clock w) x)) (b_snapshots w')\<rparr>" w]
  by (simp add: UpdateSnapshotStatus_def Let_def)

lemma keys_Upsert: "run_keys (snd (UpsertSnapshotReplica req w)) = run_keys w"
  using keys_exec_unit [of "\<lambda>w. w\<lparr>b_replicas := upsert_replica req (clock w) (b_replicas w)\<rparr>" w]
  by (auto simp: UpsertSnapshotReplica_def split: prod.split option.split)

lemma keys_DeleteArtifact: "run_keys (snd (DeleteSnapshotArtifactCtx s inst w)) = run_keys w"
proof -
  have "run_keys (snd (DeleteSnapshot sid w')) = run_keys w'" for sid and w' :: "'a backup_world_scheme"
    unfolding DeleteSnapshot_def by (rule keys_exec_unit) simp
  then show ?thesis
    by (auto simp: DeleteSnapshotArtifactCtx_def frame_send [OF keys_frame] dest!: keys_Dest split: option.split prod.split sum.split)
qed

lemma keys_retention: "run_keys (applySnapshotRetention i w) = run_keys w"
proof -
  have l: "run_keys w2 = run_keys w1" if "ListSnapshotsByInstance i w1 = (r, w2)" for r w1 w2
    using that frame_query [OF keys_frame, of "\<lambda>w. take MAX_LIMIT (rev (sort_key sn_InsertedAt
        (filter (\<lambda>s. sn_DatabaseInstanceID s = i \<and> sn_Active s) (b_snapshots w))))" w1]
    by (auto simp: ListSnapshotsByInstance_def split: prod.splits sum.splits)
  have f: "run_keys (fold (\<lambda>s w. snd (DeleteSnapshotArtifactCtx s inst w)) ss w') = run_keys w'" for ss inst w'
    by (induction ss arbitrary: w') (simp_all add: keys_DeleteArtifact)
  show ?thesis by (auto simp: applySnapshotRetention_def f dest!: keys_Get l split: prod.split sum.split option.split)
qed

lemma keys_mirror: "run_keys (recordPrimaryReplicaAndMirror sid n w) = run_keys w"
proof -
  have m: "run_keys (mirror_replica a b c d w') = run_keys w'" for a b c d w' by (simp add: mirror_replica_def keys_Upsert)
  have d: "run_keys (dispatchMirror s d src tgt w') = run_keys w'" for s d src tgt w'
    by (auto simp: dispatchMirror_def Let_def m dest!: keys_send split: prod.split option.split)
  have u: "run_keys (snd (UpsertSnapshotReplica req w')) = run_keys w'" for req w' by (rule keys_Upsert)
  have g: "run_keys w2 = run_keys w1" if "GetDatabaseInstanceByID i (snd (UpsertSnapshotReplica req w1)) = (r, w2)" for i req r w1 w2
    using keys_Get [OF that] u by simp
  show ?thesis
    by (auto simp: recordPrimaryReplicaAndMirror_def Let_def d dest!: keys_GetSnapshot g keys_Dest split: prod.split sum.split option.split)
qed

lemma keys_closeRun: "run_keys (closeRunForSnapshot sid b w) = run_keys w"
proof -
  have "run_keys w1 = run_keys w" if "FindRunBySnapshotID sid w = (r, w1)" for r w1
    using that unfolding FindRunBySnapshotID_def by (rule keys_one_rowD)
  then show ?thesis by (auto simp: closeRunForSnapshot_def keys_UpdateSnapshotRun split: prod.split sum.split)
qed

lemma keys_ensure: "run_keys (snd (ensureScheduledSnapshotRow i f w)) = run_keys w"
proof -
  have g: "run_keys w2 = run_keys w1" if "GetSnapshotByInstanceAndFilename i f w1 = (r, w2)" for i f r w1 w2
    using that unfolding GetSnapshotByInstanceAndFilename_def by (rule keys_one_rowD)
  have c: "run_keys (snd (CreateSnapshot req w')) = run_keys w'" for req w'
    using keys_CreateSnapshot [of req w'] by (metis prod.collapse)
  show ?thesis by (auto simp: ensureScheduledSnapshotRow_def c dest!: g keys_Get split: prod.split sum.split)
qed

text \<open>The operations that run against the snapshot tables, one at a time, in any order.\<close>

datatype sched_op =
    OpTick "64 word"
  | OpDispatch databaseInstance int time time
  | OpSweep
  | OpProgress "string \<Rightarrow> int" "(string \<times> json) list"
  | OpMirror "string \<Rightarrow> int" "(string \<times> json) list"
  | OpFreshness
  | OpLife life_op

fun sched_step :: "sched_op \<Rightarrow> 'a backup_world_scheme \<Rightarrow> 'a backup_world_scheme" where
  "sched_step (OpTick seed) w = dispatchDue seed w"
| "sched_step (OpDispatch d dest slot now) w = dispatchSlot d dest slot now w"
| "sched_step OpSweep w = failStuckSnapshotRuns w"
| "sched_step (OpProgress trunc p) w = handleDbSnapshotProgress trunc p w"
| "sched_step (OpMirror trunc p) w = handleMirrorStatus trunc p w"
| "sched_step OpFreshness w = flagStaleBackups w"
| "sched_step (OpLife op) w = life_step op w"

lemma claimed_dispatchSlot: "k \<in> set (run_keys w) \<Longrightarrow> k \<in> set (run_keys (dispatchSlot d dest slot now w))"
proof -
  assume k: "k \<in> set (run_keys w)"
  have c: "k \<in> set (run_keys w1)" if "ClaimSnapshotRun (di_ID d) slot w = (r, w1)" for r w1
    using keys_Claim [OF k, of "di_ID d" slot] that by simp
  have h: "run_keys w2 = run_keys w1" if "HasRunInFlight i x w1 = (r, w2)" for i x r w1 w2
    using that frame_query [OF keys_frame, of "\<lambda>w. length (filter (\<lambda>r. rr_DatabaseInstanceID r = i \<and> rr_ID r \<noteq> x \<and> run_open r) (b_runs w))" w1]
    by (auto simp: HasRunInFlight_def split: prod.splits sum.splits)
  have s: "run_keys (skipRun rid reason w') = run_keys w'" for rid reason w' by (simp add: skipRun_def keys_UpdateSnapshotRun)
  have st: "run_keys (startRun d dest run w') = run_keys w'" for run w'
    using keys_StartSnapshot [of d dest "''scheduled''" w']
    by (auto simp: startRun_def keys_UpdateSnapshotRun split: prod.split sum.split)
  show ?thesis
    by (auto simp: dispatchSlot_def s st dest!: c h split: prod.split sum.split option.split bool.split)
qed

lemma keys_list: "ListDatabaseInstances req w = (r, w1) \<Longrightarrow> run_keys w1 = run_keys w"
proof -
  have q: "run_keys w2 = run_keys w1" if "query_instances f w1 = (r, w2)" for f r w1 and w2 :: "'a backup_world_scheme"
    using that frame_query [OF keys_frame, of "\<lambda>w. scan_rows w (f w)" w1]
    by (auto simp: query_instances_def split: prod.splits sum.splits)
  have "run_keys (snd (ListDatabaseInstances req w)) = run_keys w"
    unfolding ListDatabaseInstances_def Let_def
    by (auto dest!: q frame_queryD [OF keys_frame] split: prod.split sum.split)
  then show "ListDatabaseInstances req w = (r, w1) \<Longrightarrow> run_keys w1 = run_keys w" by simp
qed

lemma fold_claimed: "(\<And>x w. k \<in> set (run_keys w) \<Longrightarrow> k \<in> set (run_keys (f x w))) \<Longrightarrow> k \<in> set (run_keys w) \<Longrightarrow>
  k \<in> set (run_keys (fold f xs w))"
  by (induction xs arbitrary: w) simp_all

lemma claimed_dispatchDue: "k \<in> set (run_keys w) \<Longrightarrow> k \<in> set (run_keys (dispatchDue seed w))"
proof -
  have i: "k \<in> set (run_keys (dispatchInstance seed now d w))" if "k \<in> set (run_keys w)" for now d and w :: "'a backup_world_scheme"
    using that by (simp add: dispatchInstance_def claimed_dispatchSlot split: option.split prod.split)
  show "k \<in> set (run_keys w) \<Longrightarrow> k \<in> set (run_keys (dispatchDue seed w))"
    by (auto simp: dispatchDue_def intro: fold_claimed [OF i] dest!: keys_list split: prod.split sum.split)
qed

lemma keys_failStuck: "run_keys (failStuckSnapshotRuns w) = run_keys w"
proof -
  have l: "run_keys w1 = run_keys w" if "ListStuckSnapshotRuns c w = (r, w1)" for c r w1
    using that frame_query [OF keys_frame, of "\<lambda>w. take MAX_LIMIT (filter (\<lambda>r. run_open r \<and> rr_ScheduledAt r < c) (b_runs w))" w]
    by (auto simp: ListStuckSnapshotRuns_def split: prod.splits sum.splits)
  have f: "run_keys (fold (\<lambda>r w. snd (UpdateSnapshotRun (rr_ID r) req w)) rs w') = run_keys w'" for req rs and w' :: "'a backup_world_scheme"
    by (induction rs arbitrary: w') (simp_all add: keys_UpdateSnapshotRun)
  show ?thesis by (auto simp: failStuckSnapshotRuns_def f dest!: l split: prod.split sum.split)
qed

lemma claimed_progress: "k \<in> set (run_keys w) \<Longrightarrow> k \<in> set (run_keys (handleDbSnapshotProgress trunc p w))"
proof -
  assume k: "k \<in> set (run_keys w)"
  have r: "run_keys w1 = run_keys w" if "reported_snapshot trunc p w = (x, w1)" for x w1
  proof -
    have "run_keys (snd (reported_snapshot trunc p w)) = run_keys w"
      using keys_ensure [of "payloadInt trunc p ''database_instance_id''" "payload_str p ''filename''" w]
      by (auto simp: reported_snapshot_def Let_def split: prod.split sum.split)
    then show ?thesis using that by simp
  qed
  have a: "k \<in> set (run_keys (afterCompleted i w'))" if "k \<in> set (run_keys w')" for i w'
    using slots.keep_finaliseDelete [OF slots.keep_ClearStale [OF that], of i i]
    by (auto simp: afterCompleted_def Let_def keys_retention split: prod.split bool.split)
  show ?thesis unfolding handleDbSnapshotProgress_def Let_def
    by (auto simp: k slots.keep_RecordEvent keys_closeRun keys_mirror intro!: a dest!: r keys_UpdateStatus split: prod.split option.split)
qed

lemma keys_handleMirror: "run_keys (handleMirrorStatus trunc p w) = run_keys w"
  unfolding handleMirrorStatus_def Let_def
  by (auto simp: keys_Upsert dest!: keys_GetSnapshot keys_Get split: prod.split sum.split option.split)

lemma claimed_freshness: "k \<in> set (run_keys w) \<Longrightarrow> k \<in> set (run_keys (flagStaleBackups w))"
proof -
  have l: "run_keys w1 = run_keys w" if "GetLastSuccessfulSnapshotAt i w = (r, w1)" for i r and w w1 :: "'a backup_world_scheme"
    using that frame_query [OF keys_frame, of "\<lambda>w. max_of (map completion_time (filter (is_copy i) (b_snapshots w)))" w]
    by (auto simp: GetLastSuccessfulSnapshotAt_def split: prod.splits sum.splits)
  have f: "k \<in> set (run_keys (flagStaleBackup now d w))" if "k \<in> set (run_keys w)" for now d and w :: "'a backup_world_scheme"
    using that unfolding flagStaleBackup_def
    by (auto simp: slots.keep_ClearStale slots.keep_SetWarning dest!: l split: option.split prod.split list.split sum.split)
  show "k \<in> set (run_keys w) \<Longrightarrow> k \<in> set (run_keys (flagStaleBackups w))"
    by (auto simp: flagStaleBackups_def intro: fold_claimed [OF f] dest!: keys_list split: prod.split sum.split)
qed

lemma claimed_sched_step: "k \<in> set (run_keys w) \<Longrightarrow> k \<in> set (run_keys (sched_step op w))"
  using slots.keep_life_steps [where ops = "[life_op]" for life_op]
  by (cases op) (simp_all add: claimed_dispatchDue claimed_dispatchSlot keys_failStuck claimed_progress keys_handleMirror claimed_freshness)

lemma dispatch_claimed:
  assumes "slot_claimed (di_ID d) slot (b_runs w)"
  shows "\<exists>c s. dispatchSlot d dest slot now w = w\<lparr>clock := c, db_script := s\<rparr>"
proof -
  have lose: "insert_snapshot_run (di_ID d) slot w0 = (None, w0)" if "w0 = w\<lparr>clock := clock w0, db_script := db_script w0\<rparr>" for w0
    using assms by (subst that, subst (2) that) (simp add: insert_snapshot_run_def)
  have "\<exists>r w0. exec (insert_snapshot_run (di_ID d) slot) w = (r, w0) \<and> (r = Inl db_err \<or> r = Inr None)
      \<and> w0 = w\<lparr>clock := clock w0, db_script := db_script w0\<rparr>"
    by (rule exec_cases [where w = w and f = "insert_snapshot_run (di_ID d) slot"]) (auto simp: lose)
  then obtain r w0 where "exec (insert_snapshot_run (di_ID d) slot) w = (r, w0)" "r = Inl db_err \<or> r = Inr None"
    and w0: "w0 = w\<lparr>clock := clock w0, db_script := db_script w0\<rparr>" by blast
  then have "dispatchSlot d dest slot now w = w0"
    by (auto simp: dispatchSlot_def ClaimSnapshotRun_def)
  then show ?thesis using w0 by metis
qed

section \<open>Properties of the scheduler\<close>

text \<open>
  C12. A slot is dispatched at most once. Once a run row holds a database's nominal slot, then
  after any sequence of ticks, sweeps, worker reports and lifecycle operations, with the
  database failing in any way, another attempt at that slot changes nothing: no run, no
  snapshot, no command.
\<close>

theorem slot_dispatched_once:
  assumes "slot_claimed (di_ID d) slot (b_runs w)"
  shows "\<exists>c s. dispatchSlot d dest slot now (fold sched_step ops w) = (fold sched_step ops w)\<lparr>clock := c, db_script := s\<rparr>"
proof (rule dispatch_claimed)
  have "(di_ID d, db_time slot) \<in> set (run_keys (fold sched_step ops w))"
    using slot_claimed_keys [THEN iffD1, OF assms] by (intro fold_claimed claimed_sched_step)
  then show "slot_claimed (di_ID d) slot (b_runs (fold sched_step ops w))" by (simp add: slot_claimed_keys)
qed

definition sched_hub :: workerHub where
  "sched_hub = \<lparr>hub_sessions = [(2, 0)],
     hub_objs = (\<lambda>_. \<lparr>ws_WorkerID = 2, ws_Send = [], ws_Closed = False, ws_Replaced = False, ws_Cause = None\<rparr>)\<rparr>"

definition sched_db :: databaseInstance where
  "sched_db = db0\<lparr>di_SnapshotSchedule := Some ''*/5 * * * *'', di_BackupDestinationID := Some 1\<rparr>"

definition sched_world :: backup_world where
  "sched_world = backup_empty\<lparr>hub := sched_hub, d_instances := [sched_db],
     b_destinations := [\<lparr>bd_ID = 1, bd_Name = ''s3'', bd_Type = ''s3'', bd_Locality = ''offsite'', bd_Config = None, bd_Active = True\<rparr>]\<rparr>"

theorem slot_dispatched_once_witness:
  "map rr_Status (b_runs (dispatchSlot (sched_db\<lparr>di_Status := ''stopped''\<rparr>) 1 0 0 sched_world)) = [''skipped''] \<and>
   (\<exists>c s. dispatchSlot sched_db 1 0 0 (fold sched_step [OpSweep] (dispatchSlot (sched_db\<lparr>di_Status := ''stopped''\<rparr>) 1 0 0 sched_world)) =
      (fold sched_step [OpSweep] (dispatchSlot (sched_db\<lparr>di_Status := ''stopped''\<rparr>) 1 0 0 sched_world))\<lparr>clock := c, db_script := s\<rparr>)"
proof
  show "map rr_Status (b_runs (dispatchSlot (sched_db\<lparr>di_Status := ''stopped''\<rparr>) 1 0 0 sched_world)) = [''skipped'']" by code_simp
  have "slot_claimed (di_ID sched_db) 0 (b_runs (dispatchSlot (sched_db\<lparr>di_Status := ''stopped''\<rparr>) 1 0 0 sched_world))" by code_simp
  from slot_dispatched_once [OF this, of 1 0 "[OpSweep]"]
  show "\<exists>c s. dispatchSlot sched_db 1 0 0 (fold sched_step [OpSweep] (dispatchSlot (sched_db\<lparr>di_Status := ''stopped''\<rparr>) 1 0 0 sched_world)) =
      (fold sched_step [OpSweep] (dispatchSlot (sched_db\<lparr>di_Status := ''stopped''\<rparr>) 1 0 0 sched_world))\<lparr>clock := c, db_script := s\<rparr>" .
qed

text \<open>
  The offset a slot is held by is never negative, never more than five minutes, and shorter
  than the schedule's own period, unless that period is exactly five minutes.
\<close>

theorem jitter_bounded:
  "0 \<le> jitterForKey seed key period \<and> jitterForKey seed key period \<le> schedulerMaxJitter \<and>
   (0 < period \<and> period \<noteq> schedulerMaxJitter \<longrightarrow> jitterForKey seed key period < period)"
proof -
  note r = jitterForKey_range [of seed key period]
  have "period div 2 < period" if "0 < period" using that by simp
  then show ?thesis using r by (cases "period < schedulerMaxJitter") auto
qed

theorem jitter_bounded_witness: "jitterForKey 12345 ''instance:7'' (2 * Minute) < 2 * Minute"
  using jitter_bounded [of 12345 "''instance:7''" "2 * Minute"] by (simp add: schedulerMaxJitter_def)

subsection \<open>A five-minute schedule\<close>

lemma five_minute_values: "(m :: int) mod 60 mod 5 = m mod 5"
  by (simp add: mod_mod_cancel)

lemma Matches_every5: "Minute dvd t \<Longrightarrow> Matches ''*/5 * * * *'' t \<longleftrightarrow> schedulerMaxJitter dvd t"
proof -
  assume "Minute dvd t"
  then obtain m where m: "t = Minute * m" by blast
  have f: "str_fields ''*/5 * * * *'' = [''*/5'', ''*'', ''*'', ''*'', ''*'']" by code_simp
  have s1: "split_on (CHR '','') ''*'' = [''*'']" "trim_space ''*'' = ''*''" "str_index (CHR ''/'') ''*'' = None" by code_simp+
  have star: "fieldMatches ''*'' v lo hi = Inr (lo \<le> v \<and> v \<le> hi)" for v lo hi
    by (simp add: fieldMatches_def s1 termMatches_def parseTerm_def parseRange_def)
  have five: "parseTerm ''*/5'' 0 59 = Inr (0, 59, 5)" by code_simp
  have s5: "split_on (CHR '','') ''*/5'' = [''*/5'']" "trim_space ''*/5'' = ''*/5''" by code_simp+
  have min: "fieldMatches ''*/5'' v 0 59 = Inr (0 \<le> v \<and> v \<le> 59 \<and> v mod 5 = 0)" for v
    by (simp add: fieldMatches_def s5 termMatches_def five)
  have "Matches ''*/5 * * * *'' t \<longleftrightarrow> t_Minute t mod 5 = 0"
    using t_Minute_range [of t] t_Hour_range [of t] t_Weekday_range [of t] civil_range [of t]
    by (simp add: Matches_def f Let_def time_values_def cron_fields_def star min)
  also have "\<dots> \<longleftrightarrow> m mod 5 = 0" by (simp add: t_Minute_def five_minute_values m)
  also have "\<dots> \<longleftrightarrow> schedulerMaxJitter dvd t" by (simp add: schedulerMaxJitter_def m mult.commute [of 5] mod_eq_0_iff_dvd)
  finally show ?thesis .
qed

lemma PreviousFires_every5:
  "PreviousFires ''*/5 * * * *'' now 2 staleBackupLookback =
     [schedulerMaxJitter * (now div schedulerMaxJitter), schedulerMaxJitter * (now div schedulerMaxJitter) - schedulerMaxJitter]"
    (is "?fires = [?u, _]")
proof -
  have pos: "0 < schedulerMaxJitter" "Minute dvd schedulerMaxJitter" by (simp_all add: schedulerMaxJitter_def)
  have "length (str_fields ''*/5 * * * *'') = 5" by code_simp
  then have spec: "newest_fires ''*/5 * * * *'' (now - staleBackupLookback) now 2 ?fires"
    using PreviousFires_newest_fires [of "''*/5 * * * *''" 2 now staleBackupLookback] by simp
  have u: "?u \<le> now" "now < ?u + schedulerMaxJitter" using div_bounds [OF pos(1), of now] by simp_all
  have low: "now - staleBackupLookback < ?u - schedulerMaxJitter"
    using u by (simp add: staleBackupLookback_def schedulerMaxJitter_def duration_simps)
  have fires_ok: "schedulerMaxJitter dvd v \<and> v \<le> now" if "v \<in> set ?fires" for v
    using that spec Matches_every5 [of v] by (auto simp: newest_fires_def)
  have le: "v \<le> ?u" if "v \<in> set ?fires" for v
    using fires_ok [OF that] pos(1)
    by (metis dvd_mult_div_cancel less_imp_le mult_left_mono zdiv_mono1)
  have gap: "v \<le> ?u - schedulerMaxJitter" if "schedulerMaxJitter dvd v" "v < ?u" for v
    using that by (smt (verit) dvd_diff dvd_triv_left pos(1) zdvd_imp_le)
  have M: "Matches ''*/5 * * * *'' v \<and> Minute dvd v" if "schedulerMaxJitter dvd v" for v
    using that pos(2) Matches_every5 [of v] by (meson dvd_trans)
  have len: "length ?fires \<le> 2" "sorted_wrt (>) ?fires" using spec by (auto simp: newest_fires_def)
  have ne: "v \<in> set ?fires \<or> length ?fires = 2 \<and> (\<forall>x \<in> set ?fires. v < x)"
    if "schedulerMaxJitter dvd v" "now - staleBackupLookback < v" "v \<le> now" for v
    using that spec M [OF that(1)] by (auto simp: newest_fires_def)
  have u_in: "?u \<in> set ?fires"
    using ne [of ?u] u(1) low pos(1) le by (cases ?fires) force+
  have v_in: "?u - schedulerMaxJitter \<in> set ?fires"
  proof (rule ccontr)
    assume "?u - schedulerMaxJitter \<notin> set ?fires"
    then have l2: "length ?fires = 2" "\<forall>x \<in> set ?fires. ?u - schedulerMaxJitter < x"
      using ne [of "?u - schedulerMaxJitter"] low u(1) pos(1) by auto
    then have "\<forall>x \<in> set ?fires. x = ?u" using gap le fires_ok by (metis linorder_not_less order_le_less)
    moreover obtain a b where "?fires = [a, b]" using l2(1) by (auto simp: numeral_2_eq_2 length_Suc_conv)
    ultimately show False using len(2) by simp
  qed
  obtain a b where ab: "?fires = [a, b]"
  proof -
    have "?u \<noteq> ?u - schedulerMaxJitter" using pos(1) by simp
    then have "length ?fires \<noteq> 0" "length ?fires \<noteq> 1" using u_in v_in by (auto simp: length_Suc_conv)
    then have "length ?fires = 2" using len(1) by linarith
    then show ?thesis using that by (auto simp: numeral_2_eq_2 length_Suc_conv)
  qed
  then show ?thesis using u_in v_in len(2) pos(1) by auto
qed

text \<open>
  C29. A schedule whose period is exactly the jitter cap can starve. There is a deployment seed
  under which a database backed up every five minutes is never dispatched: whenever the
  scheduler looks, the newest slot is still being held, and by the time it would be released the
  next slot has taken its place.
\<close>

theorem five_minute_schedule_starves:
  "\<exists>seed. \<forall>now d w. dispatchInstance seed now (d\<lparr>di_ID := 7, di_SnapshotSchedule := Some ''*/5 * * * *''\<rparr>) w = w"
proof (intro exI allI)
  fix now :: time and d :: databaseInstance and w :: "'a backup_world_scheme"
  define seed :: "64 word" where "seed = fnv64a (''instance:'' @ show_int 7) XOR 300"
  have "fnv64a (''instance:'' @ show_int 7) XOR seed = 300" by (simp add: seed_def flip: xor.assoc)
  then have j: "jitterForKey seed (''instance:'' @ show_int 7) schedulerMaxJitter = schedulerMaxJitter"
    by (simp add: jitterForKey_def schedulerMaxJitter_def duration_simps)
  have "now < schedulerMaxJitter * (now div schedulerMaxJitter) + schedulerMaxJitter"
    using div_bounds [of schedulerMaxJitter now] by (simp add: schedulerMaxJitter_def)
  then have "due_slot seed (''instance:'' @ show_int 7) ''*/5 * * * *'' now = None"
    unfolding due_slot_def PreviousFires_every5 by (simp add: Let_def j del: append.simps)
  then show "dispatchInstance (fnv64a (''instance:'' @ show_int 7) XOR 300) now
      (d\<lparr>di_ID := 7, di_SnapshotSchedule := Some ''*/5 * * * *''\<rparr>) w = w"
    by (simp add: dispatchInstance_def schedulable_def seed_def del: append.simps split: option.split)
qed

section \<open>A due slot is backed up\<close>

lemma one_row_quiet: "db_script w = [] \<Longrightarrow> one_row p q w = ((case q w of None \<Rightarrow> Inl ErrNotFound | Some x \<Rightarrow> Inr x), w)"
  by (simp add: one_row_def query_quiet split: option.split)

lemma find_append_last:
  "\<forall>x \<in> set xs. k x < (n :: int) \<Longrightarrow> k y = n \<Longrightarrow> List.find (\<lambda>x. k x = n) (xs @ [y]) = Some y"
  by (induction xs) auto

lemma filter_none: "\<forall>x \<in> set xs. \<not> P x \<Longrightarrow> filter P xs = []"
  by (induction xs) auto

lemma touch_run_sel [simp]:
  "rr_ID (touch_run t r r') = rr_ID r'" "rr_Status (touch_run t r r') = rr_Status r'"
  "rr_SnapshotID (touch_run t r r') = rr_SnapshotID r'" "rr_ScheduledAt (touch_run t r r') = rr_ScheduledAt r'"
  "rr_DatabaseInstanceID (touch_run t r r') = rr_DatabaseInstanceID r'"
  by (auto simp: touch_run_def)

definition fresh_ids :: "'a backup_world_scheme \<Rightarrow> bool" where
  "fresh_ids w \<longleftrightarrow> (\<forall>r \<in> set (b_runs w). rr_ID r < b_next_run w) \<and> (\<forall>s \<in> set (b_snapshots w). sn_ID s < b_next_snapshot w)"

lemma Claim_quiet:
  assumes "db_script w = []" "fresh_ids w" "\<not> slot_claimed i slot (b_runs w)"
  shows "ClaimSnapshotRun i slot w =
    (Inr (Some (snapshot_run_row (b_next_run w) i slot (clock w))),
     w\<lparr>b_runs := b_runs w @ [snapshot_run_row (b_next_run w) i slot (clock w)], b_next_run := b_next_run w + 1\<rparr>)"
proof -
  have "List.find (\<lambda>r. rr_ID r = b_next_run w) (b_runs w @ [snapshot_run_row (b_next_run w) i slot (clock w)]) =
      Some (snapshot_run_row (b_next_run w) i slot (clock w))"
    using assms(2) by (intro find_append_last) (simp_all add: fresh_ids_def snapshot_run_row_def)
  then show ?thesis
    using assms by (simp add: ClaimSnapshotRun_def exec_quiet insert_snapshot_run_def GetSnapshotRunByID_def one_row_quiet)
qed

lemma CreateSnapshot_quiet:
  assumes "db_script w = []" "fresh_ids w"
  shows "CreateSnapshot req w = (Inr (snapshot_row (b_next_snapshot w) (clock w) req),
     w\<lparr>b_snapshots := b_snapshots w @ [snapshot_row (b_next_snapshot w) (clock w) req], b_next_snapshot := b_next_snapshot w + 1\<rparr>)"
proof -
  have f: "List.find (\<lambda>s. sn_ID s = n \<and> sn_Active s) (xs @ [y]) = Some y"
    if "\<forall>s \<in> set xs. sn_ID s < n" "sn_ID y = n" "sn_Active y" for xs n y
    using that by (induction xs) auto
  have "List.find (\<lambda>s. sn_ID s = b_next_snapshot w \<and> sn_Active s) (b_snapshots w @ [snapshot_row (b_next_snapshot w) (clock w) req]) =
      Some (snapshot_row (b_next_snapshot w) (clock w) req)"
    using assms(2) by (intro f) (simp_all add: fresh_ids_def snapshot_row_def)
  then show ?thesis using assms(1) by (simp add: CreateSnapshot_def exec_quiet GetSnapshotByID_def one_row_quiet)
qed

text \<open>A worker whose queue takes the next command.\<close>

definition accepts :: "int \<Rightarrow> 'a world_scheme \<Rightarrow> bool" where
  "accepts wid w \<longleftrightarrow> worker_connected wid w \<and> (\<forall>m. fst (SendJSONToWorker wid m w) = None)"

lemma accepts_cong: "hub w' = hub w \<Longrightarrow> picks w' = picks w \<Longrightarrow> accepts wid w' \<longleftrightarrow> accepts wid w"
  by (simp add: accepts_def worker_connected_def SendJSONToWorker_def Let_def case_prod_beta)

lemma accepts_send: "accepts wid w \<Longrightarrow> \<exists>h p. SendJSONToWorker wid m w = (None, w\<lparr>hub := h, picks := p\<rparr>)"
  by (auto simp: accepts_def SendJSONToWorker_def Let_def case_prod_beta)

lemma StartSnapshot_quiet:
  assumes "db_script w = []" "fresh_ids w" "accepts (di_WorkerID d) w"
    and "List.find (\<lambda>b. bd_ID b = dest) (b_destinations w) = Some b" "bd_Config b = None"
  shows "\<exists>h p s. StartSnapshot d dest t w = (Inr s, w\<lparr>b_snapshots := b_snapshots w @ [s],
      b_next_snapshot := b_next_snapshot w + 1, hub := h, picks := p\<rparr>) \<and> sn_ID s = b_next_snapshot w \<and> sn_DatabaseInstanceID s = di_ID d
      \<and> sn_Status s = ''pending'' \<and> sn_TriggerType s = t \<and> sn_BackupDestinationID s = Some dest"
proof -
  define req where "req = \<lparr>cs_DatabaseInstanceID = di_ID d, cs_BackupDestinationID = Some dest, cs_Filename = snapshot_filename d (clock w),
     cs_Engine = di_Engine d, cs_DatabaseName = di_DatabaseName d, cs_TriggerType = t\<rparr>"
  define s where "s = snapshot_row (b_next_snapshot w) (clock w) req"
  define w2 where "w2 = w\<lparr>b_snapshots := b_snapshots w @ [s], b_next_snapshot := b_next_snapshot w + 1\<rparr>"
  have g: "GetBackupDestinationByID dest w = (Inr b, w)"
    using assms(1,4,5) by (simp add: GetBackupDestinationByID_def query_quiet scanBackupDestination_def)
  have c: "CreateSnapshot req w = (Inr s, w2)" using CreateSnapshot_quiet [OF assms(1,2)] by (simp add: s_def w2_def)
  have "accepts (di_WorkerID d) w2" using assms(3) by (simp add: w2_def cong: accepts_cong)
  from accepts_send [OF this] obtain h p where
    "SendJSONToWorker (di_WorkerID d) (NewCommand MsgDbSnapshot (snapshot_payload d (sn_ID s) (snapshot_filename d (clock w))
        (JObj ((''type'', JStr (bd_Type b)) # [])) w2)) w2 = (None, w2\<lparr>hub := h, picks := p\<rparr>)" by metis
  then have "StartSnapshot d dest t w = (Inr s, w2\<lparr>hub := h, picks := p\<rparr>)"
    using g c assms(5) by (simp add: StartSnapshot_def req_def del: append.simps)
  then show ?thesis by (intro exI [of _ h] exI [of _ p] exI [of _ s]) (simp add: w2_def, simp add: s_def snapshot_row_def req_def)
qed



end
