(* ===== verification/Http.thy ===== *)
theory Http
  imports Scheduler
begin

text \<open>
  What the HTTP handlers share: the request as they read it, the responses of \<^verbatim>\<open>src/responder\<close>,
  the decoding of a JSON body into a struct, the validators of \<^verbatim>\<open>src/tools/validate.go\<close>, the
  worker rows of \<^verbatim>\<open>src/query/workers.query.go\<close> and the audit trail of \<^verbatim>\<open>src/routers/audit.go\<close>.

  A request carries what the router, the authentication middleware and \<^verbatim>\<open>ClientIP\<close> made of it;
  its body is what the JSON parser made of the bytes. A response carries the value handed to
  the responder, before it is rendered. The printed name of an anonymous struct type, which
  only shows in the text of a 400, is shortened to \<^verbatim>\<open>struct\<close>. An audit row is written by a
  goroutine: the world keeps the list of the rows asked for. \<open>a_rand\<close> is what \<^verbatim>\<open>crypto/rand\<close>
  returns at each draw, in hexadecimal.
\<close>

section \<open>Requests and responses\<close>

record httpRequest =
  hr_Vars :: "(string \<times> string) list"
  hr_Query :: "(string \<times> string) list"
  hr_Path :: string
  hr_Body :: "go_error + json"
  hr_User :: "user option"
  hr_IP :: string

text \<open>\<^verbatim>\<open>url.Values.Get\<close>: the first value, or the empty string.\<close>

definition query_param :: "httpRequest \<Rightarrow> string \<Rightarrow> string" where
  "query_param r k = (case map_of (hr_Query r) k of None \<Rightarrow> [] | Some v \<Rightarrow> v)"

definition path_int :: "httpRequest \<Rightarrow> string \<Rightarrow> int option" where
  "path_int r k = (case map_of (hr_Vars r) k of None \<Rightarrow> None | Some v \<Rightarrow> atoi v)"

definition opt_param :: "httpRequest \<Rightarrow> string \<Rightarrow> string option" where
  "opt_param r k = (if query_param r k = [] then None else Some (query_param r k))"

definition int_param :: "httpRequest \<Rightarrow> string \<Rightarrow> int option" where
  "int_param r k = (if query_param r k = [] then None else atoi (query_param r k))"

record backupPosture =
  bp_Copies :: nat
  bp_CopiesOK :: bool
  bp_Media :: nat
  bp_MediaOK :: bool
  bp_Offsite :: nat
  bp_OffsiteOK :: bool
  bp_Score :: nat
  bp_Detail :: "string list"
  bp_Warnings :: "string list"

text \<open>The value a handler hands to the responder.\<close>

record worker =
  wk_ID :: int
  wk_Name :: string
  wk_Hostname :: string
  wk_IPAddress :: "string option"
  wk_Status :: string
  wk_OS :: "string option"
  wk_Arch :: "string option"
  wk_DockerVersion :: "string option"
  wk_RunnerVersion :: "string option"
  wk_LastHeartbeatAt :: "time option"
  wk_Labels :: "string option"
  wk_PendingAction :: jsonColumn
  wk_Active :: bool

datatype apiData =
    NoData
  | DataInstance databaseInstance
  | DataInstances "databaseInstance list"
  | DataEvents "databaseInstanceEvent list"
  | DataSnapshot databaseSnapshot
  | DataSnapshots "databaseSnapshot list"
  | DataRuns "databaseSnapshotRun list"
  | DataDestination backupDestination
  | DataDestinations "backupDestination list"
  | DataPosture backupPosture
  | DataMap "(string \<times> json) list"
  | DataList "json list"
  | DataStack stack
  | DataStacks "stack list"
  | DataContainer container
  | DataContainers "container list"
  | DataExport stack "container list"
  | DataCompose stack "int list"
  | DataWorker worker
  | DataWorkers "worker list"

datatype response =
    Success int string "nat option" apiData
  | Failure int string int "string option"

definition lower :: "string \<Rightarrow> string" where "lower s = map to_lower s"

definition New :: "apiData \<Rightarrow> string \<Rightarrow> response" where
  "New d message = Success 200 (lower message) None d"

definition NewCreated :: "apiData \<Rightarrow> string \<Rightarrow> response" where
  "NewCreated d message = Success 201 (lower message) None d"

definition NewWithCount :: "apiData \<Rightarrow> nat \<Rightarrow> string \<Rightarrow> response" where
  "NewWithCount d n message = Success 200 (lower message) (Some n) d"

definition shown_error :: "int \<Rightarrow> go_error option \<Rightarrow> string option" where
  "shown_error status err =
     (case err of None \<Rightarrow> None | Some e \<Rightarrow> Some (if status \<ge> 500 then ''internal server error'' else e))"

definition SendErrorWithCode :: "int \<Rightarrow> string \<Rightarrow> int \<Rightarrow> go_error option \<Rightarrow> response" where
  "SendErrorWithCode status message code err = Failure status (lower message) code (shown_error status err)"

definition SendError :: "int \<Rightarrow> string \<Rightarrow> go_error option \<Rightarrow> response" where
  "SendError status message err = Failure status (lower message) 1000 (shown_error status err)"

definition SendUpstreamError :: "int \<Rightarrow> string \<Rightarrow> go_error option \<Rightarrow> response" where
  "SendUpstreamError status message err =
     (case err of
        None \<Rightarrow> Failure status (lower message) 1000 None
      | Some e \<Rightarrow> Failure status (lower message @ '': '' @ e) 1000 (Some e))"

definition BadBody :: "go_error \<Rightarrow> response" where
  "BadBody e = SendError 400 (''invalid request body: '' @ e) None"

definition MissingBodyFields :: "string \<Rightarrow> response" where
  "MissingBodyFields message = SendError 400 (''Missing required body fields: '' @ message) None"

definition NotFound :: response where "NotFound = SendError 404 ''resource not found'' None"

definition QueryError :: "go_error \<Rightarrow> string \<Rightarrow> response" where
  "QueryError e message = (if e = ErrNotFound then NotFound else SendError 500 message (Some e))"

text \<open>\<^verbatim>\<open>errors.Is\<close> of a hub error: the hub wraps its sentinels with the worker id after them.\<close>

definition hub_error_is :: "go_error \<Rightarrow> go_error \<Rightarrow> bool" where
  "hub_error_is e sentinel = has_prefix e sentinel"

definition dispatchErrorMessage :: "string \<Rightarrow> go_error \<Rightarrow> string" where
  "dispatchErrorMessage command e =
     ''failed to send '' @ command @ '' command'' @
     (if hub_error_is e ErrWorkerNotConnected then '': '' @ ErrWorkerNotConnected
      else if hub_error_is e ErrSendQueueFull then '': '' @ ErrSendQueueFull else [])"

definition sendDispatchError :: "string \<Rightarrow> go_error \<Rightarrow> response" where
  "sendDispatchError command e = SendError 500 (dispatchErrorMessage command e) (Some e)"

section \<open>Decoding a body\<close>

text \<open>A struct is described by the list of its JSON names, each with the store into its field.\<close>

type_synonym 'c body_field = "string \<times> (string \<Rightarrow> json \<Rightarrow> 'c \<Rightarrow> go_error option \<times> 'c)"

definition into :: "(string \<Rightarrow> json \<Rightarrow> 'v \<Rightarrow> go_error option \<times> 'v) \<Rightarrow> ('c \<Rightarrow> 'v) \<Rightarrow> ('v \<Rightarrow> 'c \<Rightarrow> 'c) \<Rightarrow> string \<Rightarrow> json \<Rightarrow> 'c \<Rightarrow> go_error option \<times> 'c" where
  "into st fget fset n v c = (let (e, x) = st (CHR ''.'' # n) v (fget c) in (e, fset x c))"

text \<open>A pointer field: null stores nil, anything else is stored into a fresh value.\<close>

definition store_ptr :: "(string \<Rightarrow> json \<Rightarrow> 'v \<Rightarrow> go_error option \<times> 'v) \<Rightarrow> 'v \<Rightarrow> string \<Rightarrow> json \<Rightarrow> 'v option \<Rightarrow> go_error option \<times> 'v option" where
  "store_ptr st zero field v old =
     (if v = JNull then (None, None)
      else let (e, x) = st field v (case old of None \<Rightarrow> zero | Some y \<Rightarrow> y) in (e, Some x))"

fun store_bool :: "string \<Rightarrow> json \<Rightarrow> bool \<Rightarrow> go_error option \<times> bool" where
  "store_bool field (JBool b) old = (None, b)"
| "store_bool field JNull old = (None, old)"
| "store_bool field v old = (Some (type_error (json_kind v) field ''bool''), old)"

text \<open>A \<^verbatim>\<open>float64\<close> is opaque text.\<close>

fun store_float :: "string \<Rightarrow> json \<Rightarrow> string \<Rightarrow> go_error option \<times> string" where
  "store_float field (JInt n) old = (None, show_int n)"
| "store_float field (JFloat s) old = (None, s)"
| "store_float field JNull old = (None, old)"
| "store_float field v old = (Some (type_error (json_kind v) field ''float64''), old)"

definition put_member :: "string \<Rightarrow> json \<Rightarrow> (string \<times> json) list \<Rightarrow> (string \<times> json) list" where
  "put_member k v m = (if k \<in> fst ` set m then map (\<lambda>(k', v'). (k', if k' = k then v else v')) m else m @ [(k, v)])"

fun store_object :: "string \<Rightarrow> json \<Rightarrow> (string \<times> json) list \<Rightarrow> go_error option \<times> (string \<times> json) list" where
  "store_object field (JObj kvs) old = (None, fold (\<lambda>(k, v). put_member k v) kvs old)"
| "store_object field JNull old = (None, [])"
| "store_object field v old = (Some (type_error (json_kind v) field ''map[string]interface {}''), old)"

definition store_fields :: "'c body_field list \<Rightarrow> string \<Rightarrow> json \<Rightarrow> 'c \<Rightarrow> go_error option \<times> 'c" where
  "store_fields fs n v c = (case map_of fs n of None \<Rightarrow> (None, c) | Some st \<Rightarrow> st n v c)"

definition decode_body :: "'c body_field list \<Rightarrow> 'c \<Rightarrow> httpRequest \<Rightarrow> go_error + 'c" where
  "decode_body fs zero r =
     (case hr_Body r of
        Inl e \<Rightarrow> Inl e
      | Inr v \<Rightarrow> unmarshal False ''struct'' (map fst fs) (store_fields fs) v zero)"

text \<open>A struct inside the body: its members, \<^verbatim>\<open>null\<close>, or a type error.\<close>

definition store_struct :: "string \<Rightarrow> 'c body_field list \<Rightarrow> string \<Rightarrow> json \<Rightarrow> 'c \<Rightarrow> go_error option \<times> 'c" where
  "store_struct ty fs field v old =
     (case v of
        JObj kvs \<Rightarrow> decode_members False (map fst fs) (\<lambda>n. store_fields fs n) kvs old
      | JNull \<Rightarrow> (None, old)
      | _ \<Rightarrow> (Some (type_error (json_kind v) field ty), old))"

fun store_each :: "('c \<Rightarrow> json \<Rightarrow> go_error option \<times> 'c) \<Rightarrow> 'c \<Rightarrow> json list \<Rightarrow> go_error option \<times> 'c list" where
  "store_each st zero [] = (None, [])"
| "store_each st zero (v # vs) =
     (let (e, x) = st zero v; (e', xs) = store_each st zero vs in (first_err e e', x # xs))"

text \<open>The same body as \<^verbatim>\<open>map[string]json.RawMessage\<close>: is the key there, and \<^verbatim>\<open>null\<close>?\<close>

definition isExplicitNull :: "httpRequest \<Rightarrow> string \<Rightarrow> bool" where
  "isExplicitNull r k = (case hr_Body r of Inr (JObj kvs) \<Rightarrow> map_of (rev kvs) k = Some JNull | _ \<Rightarrow> False)"

section \<open>Validators\<close>

definition is_alnum :: "char \<Rightarrow> bool" where
  "is_alnum c \<longleftrightarrow> (let n = (of_char c :: nat) in (48 \<le> n \<and> n \<le> 57) \<or> (65 \<le> n \<and> n \<le> 90) \<or> (97 \<le> n \<and> n \<le> 122))"

definition name_char :: "char \<Rightarrow> bool" where "name_char c \<longleftrightarrow> is_alnum c \<or> c \<in> set ''._-''"

definition ValidateName :: "string \<Rightarrow> go_error option" where
  "ValidateName s =
     (if (case s of [] \<Rightarrow> False | c # cs \<Rightarrow> is_alnum c \<and> length cs \<le> 127 \<and> list_all name_char cs) then None
      else Some ''name must be 1-128 chars, alphanumeric with ._- allowed, must start with alphanumeric'')"

text \<open>\<^verbatim>\<open>utf8.RuneCountInString\<close> of well-formed text: the bytes that start a rune.\<close>

definition rune_count :: "string \<Rightarrow> nat" where "rune_count s = length (filter rune_start s)"

definition ValidatePassword :: "string \<Rightarrow> go_error option" where
  "ValidatePassword p =
     (if rune_count p < 8 then Some ''password must be at least 8 characters''
      else if rune_count p > 128 then Some ''password must be at most 128 characters'' else None)"

definition MaxYAMLSize :: nat where "MaxYAMLSize = 1 * 1024 * 1024"

definition ValidateYAMLSize :: "string \<Rightarrow> go_error option" where
  "ValidateYAMLSize y = (if length y > MaxYAMLSize then Some ''YAML content exceeds maximum size of 1MB'' else None)"

section \<open>The API's world\<close>


record auditRequest =
  ar_UserID :: "int option"
  ar_Action :: string
  ar_ResourceType :: string
  ar_ResourceID :: "int option"
  ar_Details :: "string option"
  ar_IPAddress :: string

record api_world = backup_world +
  a_workers :: "worker list"
  a_audits :: "auditRequest list"
  a_rand :: "nat \<Rightarrow> go_error + string"
  a_drawn :: nat

definition GetWorkerByID :: "int \<Rightarrow> 'a api_world_scheme \<Rightarrow> (go_error + worker) \<times> 'a api_world_scheme" where
  "GetWorkerByID i w = one_row ''failed to scan worker: '' (\<lambda>w. List.find (\<lambda>k. wk_ID k = i) (a_workers w)) w"

definition logAudit ::
  "httpRequest \<Rightarrow> string \<Rightarrow> string \<Rightarrow> int option \<Rightarrow> string option \<Rightarrow> 'a api_world_scheme \<Rightarrow> 'a api_world_scheme" where
  "logAudit r action resourceType resourceID details w =
     w\<lparr>a_audits := a_audits w @ [\<lparr>ar_UserID = map_option u_ID (hr_User r), ar_Action = action, ar_ResourceType = resourceType,
         ar_ResourceID = resourceID, ar_Details = details, ar_IPAddress = hr_IP r\<rparr>]\<rparr>"

definition random_hex :: "'a api_world_scheme \<Rightarrow> (go_error + string) \<times> 'a api_world_scheme" where
  "random_hex w = (a_rand w (a_drawn w), w\<lparr>a_drawn := a_drawn w + 1\<rparr>)"

end
