(* ===== verification/Db_Router.thy ===== *)
theory Db_Router
  imports Http
begin

text \<open>
  The HTTP handlers of managed databases and their backups
  (\<^verbatim>\<open>src/routers/HandleDatabaseInstances.router.go\<close>, \<^verbatim>\<open>HandleDatabaseSnapshots.router.go\<close>,
  \<^verbatim>\<open>HandleDatabaseObservability.router.go\<close>, \<^verbatim>\<open>HandleBackupPosture.router.go\<close>,
  \<^verbatim>\<open>HandleBackupDestinations.router.go\<close> and \<^verbatim>\<open>database_schedule.go\<close>). Each is a function of the
  request and the world to the response and the new world.
\<close>

section \<open>Helpers\<close>

definition DBEventReveal :: string where "DBEventReveal = ''reveal''"
definition DBEventConsoleOpen :: string where "DBEventConsoleOpen = ''console_open''"

definition dbActor :: "httpRequest \<Rightarrow> string" where
  "dbActor r = (case hr_User r of None \<Rightarrow> [] | Some u \<Rightarrow> u_Email u)"

definition dbEvent :: "int \<Rightarrow> string \<Rightarrow> string \<Rightarrow> httpRequest \<Rightarrow> 'a db_world_scheme \<Rightarrow> 'a db_world_scheme" where
  "dbEvent i kind message r w =
     snd (CreateDatabaseInstanceEvent
       \<lparr>ev_DatabaseInstanceID = i, ev_Kind = kind, ev_Status = None, ev_Message = message, ev_Code = None,
        ev_Actor = map_option u_Email (hr_User r)\<rparr> w)"

definition MsgDbUpdateSchedule :: string where "MsgDbUpdateSchedule = ''db_update_schedule''"
definition MsgBackupDestTest :: string where "MsgBackupDestTest = ''backup_dest_test''"

definition PushDbSchedule :: "databaseInstance \<Rightarrow> 'a backup_world_scheme \<Rightarrow> 'a backup_world_scheme" where
  "PushDbSchedule d w =
     (if \<not> worker_connected (di_WorkerID d) w then w
      else snd (SendJSONToWorker (di_WorkerID d) (NewCommand MsgDbUpdateSchedule
        [(''database_instance_id'', JInt (di_ID d)), (''container_name'', JStr (di_ContainerName d)),
         (''cron'', JStr []), (''retention_count'', JInt 0)]) w))"

definition DistributeDbSchedules :: "int \<Rightarrow> 'a backup_world_scheme \<Rightarrow> 'a backup_world_scheme" where
  "DistributeDbSchedules workerID w =
     (case ListDatabaseInstances (all_instances\<lparr>ld_WorkerID := Some workerID\<rparr>) w of
        (Inl _, w1) \<Rightarrow> w1
      | (Inr (ds, _), w1) \<Rightarrow> fold PushDbSchedule ds w1)"

definition BuildDbSchedulePayload ::
  "databaseInstance option \<Rightarrow> 'a backup_world_scheme \<Rightarrow> (string \<times> json) list option \<times> 'a backup_world_scheme" where
  "BuildDbSchedulePayload inst w =
     (case inst of
        None \<Rightarrow> (None, w)
      | Some d \<Rightarrow>
          (case schedulable d of
             None \<Rightarrow> (None, w)
           | Some (cron, destID) \<Rightarrow>
               (case GetBackupDestinationByID destID w of
                  (Inl _, w1) \<Rightarrow> (None, w1)
                | (Inr dest, w1) \<Rightarrow>
                    (case (case bd_Config dest of None \<Rightarrow> Inr JNull
                           | Some c \<Rightarrow> (case b_unmarshal w1 c of Inl e \<Rightarrow> Inl e | Inr cfg \<Rightarrow> Inr (JObj cfg))) of
                       Inl _ \<Rightarrow> (None, w1)
                     | Inr cfg \<Rightarrow>
                         (Some [(''database_instance_id'', JInt (di_ID d)), (''container_name'', JStr (di_ContainerName d)),
                            (''engine'', JStr (di_Engine d)), (''database_name'', JStr (di_DatabaseName d)),
                            (''username'', JStr (di_Username d)),
                            (''password'', JStr (case di_Password d of None \<Rightarrow> [] | Some p \<Rightarrow> p)),
                            (''root_password'', JStr (case di_RootPassword d of None \<Rightarrow> [] | Some p \<Rightarrow> p)),
                            (''cron'', JStr cron),
                            (''retention_count'', JInt (case di_RetentionCount d of None \<Rightarrow> 0 | Some n \<Rightarrow> n)),
                            (''backup_destination'', JObj [(''type'', JStr (bd_Type dest)), (''config'', cfg)])], w1)))))"

section \<open>Reading\<close>

definition HandleListDatabaseInstances :: "httpRequest \<Rightarrow> 'a api_world_scheme \<Rightarrow> response \<times> 'a api_world_scheme" where
  "HandleListDatabaseInstances r w =
     (case ListDatabaseInstances
         \<lparr>ld_Limit = (case int_param r ''limit'' of None \<Rightarrow> 0 | Some n \<Rightarrow> n),
          ld_Offset = (case int_param r ''offset'' of None \<Rightarrow> 0 | Some n \<Rightarrow> n), ld_WorkerID = int_param r ''worker_id'',
          ld_Engine = opt_param r ''engine'', ld_Status = opt_param r ''status''\<rparr> w of
        (Inl e, w1) \<Rightarrow> (QueryError e ''failed to list database instances'', w1)
      | (Inr (ds, n), w1) \<Rightarrow> (NewWithCount (DataInstances ds) n ''database instances retrieved'', w1))"

text \<open>The handlers that start with an instance id in the path; \<open>k\<close> is the rest.\<close>

definition bad_instance_id :: response where
  "bad_instance_id = SendError 400 ''invalid database instance id'' None"

definition loadInstanceForObservability ::
  "httpRequest \<Rightarrow> (int \<Rightarrow> databaseInstance \<Rightarrow> 'a db_world_scheme \<Rightarrow> response \<times> 'a db_world_scheme) \<Rightarrow> 'a db_world_scheme \<Rightarrow> response \<times> 'a db_world_scheme" where
  "loadInstanceForObservability r k w =
     (case path_int r ''id'' of
        None \<Rightarrow> (bad_instance_id, w)
      | Some i \<Rightarrow>
          (case GetDatabaseInstanceByID i w of
             (Inl _, w1) \<Rightarrow> (NotFound, w1)
           | (Inr d, w1) \<Rightarrow> k i d w1))"

definition HandleGetDatabaseInstance :: "httpRequest \<Rightarrow> 'a api_world_scheme \<Rightarrow> response \<times> 'a api_world_scheme" where
  "HandleGetDatabaseInstance r w =
     loadInstanceForObservability r (\<lambda>i d w. (New (DataInstance d) ''database instance retrieved'', w)) w"

definition HandleListDatabaseInstanceEvents :: "httpRequest \<Rightarrow> 'a api_world_scheme \<Rightarrow> response \<times> 'a api_world_scheme" where
  "HandleListDatabaseInstanceEvents r w =
     (case path_int r ''id'' of
        None \<Rightarrow> (bad_instance_id, w)
      | Some i \<Rightarrow>
          (case ListDatabaseInstanceEvents
              \<lparr>le_DatabaseInstanceID = i, le_Kind = opt_param r ''kind'',
               le_Limit = (case int_param r ''limit'' of None \<Rightarrow> 0 | Some n \<Rightarrow> n),
               le_Offset = (case int_param r ''offset'' of None \<Rightarrow> 0 | Some n \<Rightarrow> n)\<rparr> w of
             (Inl e, w1) \<Rightarrow> (QueryError e ''failed to list database instance events'', w1)
           | (Inr (es, n), w1) \<Rightarrow> (NewWithCount (DataEvents es) n ''database instance events retrieved'', w1)))"

definition conflict_json :: "portConflict \<Rightarrow> json" where
  "conflict_json c = JObj [(''kind'', JStr (pc_Kind c)), (''id'', JInt (pc_ID c)), (''name'', JStr (pc_Name c)), (''port'', JInt (pc_Port c))]"

text \<open>
  The list of claims is the range of a Go map: \<open>order\<close> is the order in which it yields its keys.
\<close>

definition HandleGetWorkerPortAvailability ::
  "((int \<rightharpoonup> portConflict) \<Rightarrow> int list) \<Rightarrow> httpRequest \<Rightarrow> 'a api_world_scheme \<Rightarrow> response \<times> 'a api_world_scheme" where
  "HandleGetWorkerPortAvailability order r w =
     (case path_int r ''id'' of
        None \<Rightarrow> (SendError 400 ''invalid worker id'' None, w)
      | Some wid \<Rightarrow>
          (case ClaimedPortsOnWorker wid w of
             (Inl e, w1) \<Rightarrow> (QueryError e ''failed to read claimed ports'', w1)
           | (Inr claimed, w1) \<Rightarrow>
               if query_param r ''port'' \<noteq> []
               then (case atoi (query_param r ''port'') of
                       None \<Rightarrow> (SendError 400 ''invalid port'' None, w1)
                     | Some port \<Rightarrow>
                         (New (DataMap ([(''port'', JInt port), (''available'', JBool (claimed port = None))] @
                            (case claimed port of None \<Rightarrow> [] | Some c \<Rightarrow> [(''conflict'', conflict_json c)])))
                            ''port availability retrieved'', w1))
               else (case AllocateDatabasePort wid w1 of
                       (a, w2) \<Rightarrow>
                         (New (DataMap [(''worker_id'', JInt wid),
                             (''claimed'', JList (map conflict_json (List.map_filter claimed (order claimed)))),
                             (''suggested_port'', case a of Inl _ \<Rightarrow> JNull | Inr p \<Rightarrow> JInt p),
                             (''range_min'', JInt DB_PORT_RANGE_MIN), (''range_max'', JInt DB_PORT_RANGE_MAX)])
                            ''port availability retrieved'', w2))))"

section \<open>Creating\<close>

definition defaultBinlogRetentionSeconds :: int where "defaultBinlogRetentionSeconds = 7 * 24 * 60 * 60"

definition errScheduleNeedsDestination :: string where
  "errScheduleNeedsDestination = ''a snapshot schedule requires a backup destination; set backup_destination_id, or clear snapshot_schedule''"

text \<open>The empty string when the combination is valid.\<close>

definition validateSnapshotSchedulable :: "string option \<Rightarrow> int option \<Rightarrow> string" where
  "validateSnapshotSchedulable schedule destinationID =
     (case schedule of
        None \<Rightarrow> []
      | Some s \<Rightarrow> if s = [] then [] else if destinationID = None then errScheduleNeedsDestination else [])"

record createBody = createDatabaseInstanceRequest +
  cb_AdoptExistingVolume :: bool

definition zero_create :: createBody where
  "zero_create = \<lparr>cd_Name = [], cd_Engine = [], cd_EngineVersion = [], cd_WorkerID = 0, cd_Port = 0, cd_RootPassword = [],
     cd_DatabaseName = [], cd_Username = [], cd_Password = [], cd_CPULimit = None, cd_MemoryLimit = None,
     cd_SnapshotSchedule = None, cd_RetentionCount = None, cd_BackupDestinationID = None, cd_ContainerName = [],
     cd_VolumeName = [], cb_AdoptExistingVolume = False\<rparr>"

definition create_fields :: "createBody body_field list" where
  "create_fields =
     [(''name'', into store_string cd_Name (\<lambda>x b. b\<lparr>cd_Name := x\<rparr>)),
      (''engine'', into store_string cd_Engine (\<lambda>x b. b\<lparr>cd_Engine := x\<rparr>)),
      (''engine_version'', into store_string cd_EngineVersion (\<lambda>x b. b\<lparr>cd_EngineVersion := x\<rparr>)),
      (''worker_id'', into store_int cd_WorkerID (\<lambda>x b. b\<lparr>cd_WorkerID := x\<rparr>)),
      (''port'', into store_int cd_Port (\<lambda>x b. b\<lparr>cd_Port := x\<rparr>)),
      (''root_password'', into store_string cd_RootPassword (\<lambda>x b. b\<lparr>cd_RootPassword := x\<rparr>)),
      (''database_name'', into store_string cd_DatabaseName (\<lambda>x b. b\<lparr>cd_DatabaseName := x\<rparr>)),
      (''username'', into store_string cd_Username (\<lambda>x b. b\<lparr>cd_Username := x\<rparr>)),
      (''password'', into store_string cd_Password (\<lambda>x b. b\<lparr>cd_Password := x\<rparr>)),
      (''cpu_limit'', into (store_ptr store_float []) cd_CPULimit (\<lambda>x b. b\<lparr>cd_CPULimit := x\<rparr>)),
      (''memory_limit'', into (store_ptr store_int 0) cd_MemoryLimit (\<lambda>x b. b\<lparr>cd_MemoryLimit := x\<rparr>)),
      (''snapshot_schedule'', into (store_ptr store_string []) cd_SnapshotSchedule (\<lambda>x b. b\<lparr>cd_SnapshotSchedule := x\<rparr>)),
      (''retention_count'', into (store_ptr store_int 0) cd_RetentionCount (\<lambda>x b. b\<lparr>cd_RetentionCount := x\<rparr>)),
      (''backup_destination_id'', into (store_ptr store_int 0) cd_BackupDestinationID (\<lambda>x b. b\<lparr>cd_BackupDestinationID := x\<rparr>)),
      (''adopt_existing_volume'', into store_bool cb_AdoptExistingVolume (\<lambda>x b. b\<lparr>cb_AdoptExistingVolume := x\<rparr>))]"

definition default_version :: "string \<Rightarrow> string" where
  "default_version engine = (if engine = ''mysql'' then ''8'' else if engine = ''mariadb'' then ''11'' else ''16'')"

definition port_in_use :: "int \<Rightarrow> int \<Rightarrow> portConflict \<Rightarrow> response" where
  "port_in_use port wid c =
     SendError 409 (''port '' @ show_int port @ '' is already in use on worker '' @ show_int wid @ '' by '' @ pc_Kind c @ '' '' @
       go_quote (pc_Name c)) None"

text \<open>The port the instance gets, or the refusal.\<close>

definition choose_port :: "createBody \<Rightarrow> 'a db_world_scheme \<Rightarrow> (response + int) \<times> 'a db_world_scheme" where
  "choose_port b w =
     (if cd_Port b = 0
      then (case AllocateDatabasePort (cd_WorkerID b) w of
              (Inl e, w1) \<Rightarrow>
                (Inl (if e = ErrNoFreePort
                      then SendError 409 (''no free host port available on worker '' @ show_int (cd_WorkerID b) @ '' in range '' @
                             show_int DB_PORT_RANGE_MIN @ ''-'' @ show_int DB_PORT_RANGE_MAX) None
                      else QueryError e ''failed to allocate a host port''), w1)
            | (Inr p, w1) \<Rightarrow> (Inr p, w1))
      else (case FindPortConflict (cd_WorkerID b) (cd_Port b) 0 w of
              (Inl e, w1) \<Rightarrow> (Inl (QueryError e ''failed to check port availability''), w1)
            | (Inr (Some c), w1) \<Rightarrow> (Inl (port_in_use (cd_Port b) (cd_WorkerID b) c), w1)
            | (Inr None, w1) \<Rightarrow> (Inr (cd_Port b), w1)))"

text \<open>A generated password where none was given.\<close>

definition choose_password ::
  "string \<Rightarrow> string \<Rightarrow> 'a api_world_scheme \<Rightarrow> (response + string) \<times> 'a api_world_scheme" where
  "choose_password what given w =
     (if given \<noteq> [] then (Inr given, w)
      else case random_hex w of
        (Inl e, w1) \<Rightarrow> (Inl (SendError 500 (''failed to generate '' @ what) (Some e)), w1)
      | (Inr p, w1) \<Rightarrow> (Inr p, w1))"

text \<open>The checks on the body, before anything is chosen; \<open>None\<close> when they pass.\<close>

definition check_create :: "createBody \<Rightarrow> 'a db_world_scheme \<Rightarrow> response option \<times> 'a db_world_scheme" where
  "check_create b w =
     (if cd_Name b = [] then (Some (MissingBodyFields ''name''), w)
      else case ValidateName (cd_Name b) of
        Some e \<Rightarrow> (Some (SendError 400 (''invalid name: '' @ e) None), w)
      | None \<Rightarrow>
          (case GetDatabaseInstanceByName (cd_Name b) w of
             (Inr _, w1) \<Rightarrow> (Some (SendError 409 ''a database instance with that name already exists'' None), w1)
           | (Inl _, w1) \<Rightarrow>
               (if cd_Engine b = [] then Some (MissingBodyFields ''engine'')
                else if cd_DatabaseName b = [] then Some (MissingBodyFields ''database_name'')
                else if cd_Username b = [] then Some (MissingBodyFields ''username'')
                else if cd_WorkerID b = 0 then Some (MissingBodyFields ''worker_id'')
                else if cd_Engine b \<notin> {''mysql'', ''mariadb'', ''postgres''}
                then Some (SendError 400 ''engine must be one of: mysql, mariadb, postgres'' None)
                else if validateSnapshotSchedulable (cd_SnapshotSchedule b) (cd_BackupDestinationID b) \<noteq> []
                then Some (SendError 400 (validateSnapshotSchedulable (cd_SnapshotSchedule b) (cd_BackupDestinationID b)) None)
                else None, w1)))"

definition create_payload :: "createBody \<Rightarrow> int \<Rightarrow> 'a backup_world_scheme \<Rightarrow> (string \<times> json) list" where
  "create_payload b i w =
     dbCommandPayload i MsgDbCreate w @
     [(''container_name'', JStr (cd_ContainerName b)), (''volume_name'', JStr (cd_VolumeName b)), (''engine'', JStr (cd_Engine b)),
      (''engine_version'', JStr (cd_EngineVersion b)), (''port'', JInt (cd_Port b)), (''root_password'', JStr (cd_RootPassword b)),
      (''database_name'', JStr (cd_DatabaseName b)), (''username'', JStr (cd_Username b)), (''password'', JStr (cd_Password b)),
      (''adopt_existing_volume'', JBool (cb_AdoptExistingVolume b)), (''binlog_retention_seconds'', JInt defaultBinlogRetentionSeconds)] @
     (case cd_CPULimit b of None \<Rightarrow> [] | Some c \<Rightarrow> [(''cpu_limit'', JFloat c)]) @
     (case cd_MemoryLimit b of None \<Rightarrow> [] | Some m \<Rightarrow> [(''memory_limit'', JInt (wrap_int64 (m * 1024 * 1024)))])"

text \<open>Go's zero \<^verbatim>\<open>time.Time\<close>, 1 January of year 1.\<close>

definition zero_time :: time where "zero_time = - (719162 * 24 * Hour)"

text \<open>The command that could not be sent: the row is parked in \<^verbatim>\<open>error\<close> with the reason.\<close>

definition create_dispatch_failed :: "int \<Rightarrow> go_error \<Rightarrow> httpRequest \<Rightarrow> 'a api_world_scheme \<Rightarrow> response \<times> 'a api_world_scheme" where
  "create_dispatch_failed i e r w =
     (let msg = ''failed to send create command to worker: '' @ e;
          w1 = snd (UpdateDatabaseInstance i (no_update\<lparr>ui_Status := Some DBStatusError,
                 ui_LastError := Some \<lparr>de_Code = DBErrCodeWorkerOffline, de_Message = msg, de_OccurredAt = zero_time, de_Retryable = True\<rparr>\<rparr>) w)
      in (SendError 500 msg (Some e), dbEvent i DBEventFailed msg r w1))"

definition finish_create :: "createBody \<Rightarrow> httpRequest \<Rightarrow> 'a api_world_scheme \<Rightarrow> response \<times> 'a api_world_scheme" where
  "finish_create b r w =
     (if \<not> worker_connected (cd_WorkerID b) w then (SendError 400 ''worker is not connected'' None, w)
      else case CreateDatabaseInstance (createDatabaseInstanceRequest.truncate b) w of
        (Inl e, w1) \<Rightarrow> (QueryError e ''failed to create database instance'', w1)
      | (Inr d, w1) \<Rightarrow>
          (let w2 = dbEvent (di_ID d) DBEventRequested
                      (''create requested on worker '' @ show_int (cd_WorkerID b) @ '', port '' @ show_int (cd_Port b)) r w1 in
           case SendJSONToWorker (cd_WorkerID b) (NewCommand MsgDbCreate (create_payload b (di_ID d) w2)) w2 of
             (Some e, w3) \<Rightarrow> create_dispatch_failed (di_ID d) e r w3
           | (None, w3) \<Rightarrow>
               (NewCreated (DataInstance d) ''database instance created'',
                logAudit r ''create'' ''database_instance'' (Some (di_ID d)) (Some (di_Name d)) (PushDbSchedule d w3))))"

definition HandleCreateDatabaseInstance :: "httpRequest \<Rightarrow> 'a api_world_scheme \<Rightarrow> response \<times> 'a api_world_scheme" where
  "HandleCreateDatabaseInstance r w =
     (case decode_body create_fields zero_create r of
        Inl e \<Rightarrow> (BadBody e, w)
      | Inr b0 \<Rightarrow>
          (case check_create b0 w of
             (Some refusal, w1) \<Rightarrow> (refusal, w1)
           | (None, w1) \<Rightarrow>
               (let b1 = (if cd_EngineVersion b0 = [] then b0\<lparr>cd_EngineVersion := default_version (cd_Engine b0)\<rparr> else b0) in
                case choose_port b1 w1 of
                  (Inl refusal, w2) \<Rightarrow> (refusal, w2)
                | (Inr port, w2) \<Rightarrow>
                    (case choose_password ''root password'' (cd_RootPassword b1) w2 of
                       (Inl refusal, w3) \<Rightarrow> (refusal, w3)
                     | (Inr rootPw, w3) \<Rightarrow>
                         (case choose_password ''password'' (cd_Password b1) w3 of
                            (Inl refusal, w4) \<Rightarrow> (refusal, w4)
                          | (Inr pw, w4) \<Rightarrow>
                              finish_create (b1\<lparr>cd_Port := port, cd_ContainerName := ''lattice-db-'' @ cd_Name b1,
                                cd_VolumeName := ''lattice-dbdata-'' @ cd_Name b1, cd_RootPassword := rootPw, cd_Password := pw\<rparr>) r w4)))))"

section \<open>Updating\<close>

definition zero_update :: updateDatabaseInstanceRequest where "zero_update = no_update"

definition update_fields :: "updateDatabaseInstanceRequest body_field list" where
  "update_fields =
     [(''name'', into (store_ptr store_string []) ui_Name (\<lambda>x b. b\<lparr>ui_Name := x\<rparr>)),
      (''status'', into (store_ptr store_string []) ui_Status (\<lambda>x b. b\<lparr>ui_Status := x\<rparr>)),
      (''port'', into (store_ptr store_int 0) ui_Port (\<lambda>x b. b\<lparr>ui_Port := x\<rparr>)),
      (''root_password'', into (store_ptr store_string []) ui_RootPassword (\<lambda>x b. b\<lparr>ui_RootPassword := x\<rparr>)),
      (''password'', into (store_ptr store_string []) ui_Password (\<lambda>x b. b\<lparr>ui_Password := x\<rparr>)),
      (''cpu_limit'', into (store_ptr store_float []) ui_CPULimit (\<lambda>x b. b\<lparr>ui_CPULimit := x\<rparr>)),
      (''memory_limit'', into (store_ptr store_int 0) ui_MemoryLimit (\<lambda>x b. b\<lparr>ui_MemoryLimit := x\<rparr>)),
      (''health_status'', into (store_ptr store_string []) ui_HealthStatus (\<lambda>x b. b\<lparr>ui_HealthStatus := x\<rparr>)),
      (''snapshot_schedule'', into (store_ptr store_string []) ui_SnapshotSchedule (\<lambda>x b. b\<lparr>ui_SnapshotSchedule := x\<rparr>)),
      (''retention_count'', into (store_ptr store_int 0) ui_RetentionCount (\<lambda>x b. b\<lparr>ui_RetentionCount := x\<rparr>)),
      (''backup_destination_id'', into (store_ptr store_int 0) ui_BackupDestinationID (\<lambda>x b. b\<lparr>ui_BackupDestinationID := x\<rparr>)),
      (''mirror_backup_destination_id'',
         into (store_ptr store_int 0) ui_MirrorBackupDestinationID (\<lambda>x b. b\<lparr>ui_MirrorBackupDestinationID := x\<rparr>)),
      (''active'', into (store_ptr store_bool False) ui_Active (\<lambda>x b. b\<lparr>ui_Active := x\<rparr>)),
      (''deletion_protection'', into (store_ptr store_bool False) ui_DeletionProtection (\<lambda>x b. b\<lparr>ui_DeletionProtection := x\<rparr>))]"

definition with_clears :: "httpRequest \<Rightarrow> updateDatabaseInstanceRequest \<Rightarrow> updateDatabaseInstanceRequest" where
  "with_clears r b =
     b\<lparr>ui_ClearSnapshotSchedule := isExplicitNull r ''snapshot_schedule'', ui_ClearRetentionCount := isExplicitNull r ''retention_count'',
       ui_ClearBackupDestination := isExplicitNull r ''backup_destination_id'',
       ui_ClearMirrorDestination := isExplicitNull r ''mirror_backup_destination_id''\<rparr>"

text \<open>A new port must be free on the instance's worker; \<open>None\<close> when it is, or when none is asked for.\<close>

definition check_moved_port :: "int \<Rightarrow> int option \<Rightarrow> 'a db_world_scheme \<Rightarrow> response option \<times> 'a db_world_scheme" where
  "check_moved_port i port w =
     (case port of
        None \<Rightarrow> (None, w)
      | Some p \<Rightarrow>
          (case GetDatabaseInstanceByID i w of
             (Inl _, w1) \<Rightarrow> (Some NotFound, w1)
           | (Inr d, w1) \<Rightarrow>
               (case FindPortConflict (di_WorkerID d) p i w1 of
                  (Inl e, w2) \<Rightarrow> (Some (QueryError e ''failed to check port availability''), w2)
                | (Inr (Some c), w2) \<Rightarrow> (Some (port_in_use p (di_WorkerID d) c), w2)
                | (Inr None, w2) \<Rightarrow> (None, w2))))"

definition effective :: "bool \<Rightarrow> 'v option \<Rightarrow> 'v option \<Rightarrow> 'v option" where
  "effective clear given old = (if clear then None else case given of None \<Rightarrow> old | Some v \<Rightarrow> Some v)"

definition apply_update :: "int \<Rightarrow> updateDatabaseInstanceRequest \<Rightarrow> httpRequest \<Rightarrow> 'a api_world_scheme \<Rightarrow> response \<times> 'a api_world_scheme" where
  "apply_update i req r w =
     (case GetDatabaseInstanceByID i w of
        (Inl _, w1) \<Rightarrow> (NotFound, w1)
      | (Inr d, w1) \<Rightarrow>
          (let msg = validateSnapshotSchedulable
                 (effective (ui_ClearSnapshotSchedule req) (ui_SnapshotSchedule req) (di_SnapshotSchedule d))
                 (effective (ui_ClearBackupDestination req) (ui_BackupDestinationID req) (di_BackupDestinationID d)) in
           if msg \<noteq> [] then (SendError 400 msg None, w1)
           else case UpdateDatabaseInstance i req w1 of
             (Inl e, w2) \<Rightarrow> (QueryError e ''failed to update database instance'', w2)
           | (Inr d', w2) \<Rightarrow>
               (New (DataInstance d') ''database instance updated'',
                logAudit r ''update'' ''database_instance'' (Some i) None (PushDbSchedule d' w2))))"

definition HandleUpdateDatabaseInstance :: "httpRequest \<Rightarrow> 'a api_world_scheme \<Rightarrow> response \<times> 'a api_world_scheme" where
  "HandleUpdateDatabaseInstance r w =
     (case path_int r ''id'' of
        None \<Rightarrow> (bad_instance_id, w)
      | Some i \<Rightarrow>
          (case decode_body update_fields zero_update r of
             Inl e \<Rightarrow> (BadBody e, w)
           | Inr b \<Rightarrow>
               (let req = with_clears r b in
                if (case ui_Status req of None \<Rightarrow> False | Some s \<Rightarrow> \<not> status_IsValid s)
                then (SendError 400 ''status must be one of: pending, provisioning, running, stopped, restarting, degraded, deleting, error'' None, w)
                else if (case ui_HealthStatus req of None \<Rightarrow> False | Some h \<Rightarrow> \<not> health_IsValid h)
                then (SendError 400 ''health_status must be one of: none, starting, healthy, unhealthy'' None, w)
                else case check_moved_port i (ui_Port req) w of
                  (Some refusal, w1) \<Rightarrow> (refusal, w1)
                | (None, w1) \<Rightarrow> apply_update i req r w1)))"

section \<open>Deleting\<close>

definition beginDeleteWithFinalSnapshot ::
  "databaseInstance \<Rightarrow> httpRequest \<Rightarrow> 'a api_world_scheme \<Rightarrow> response \<times> 'a api_world_scheme" where
  "beginDeleteWithFinalSnapshot d r w =
     (case di_BackupDestinationID d of
        None \<Rightarrow> (SendError 400 ''a final snapshot needs a backup destination; configure one, or delete without final_snapshot'' None, w)
      | Some dest \<Rightarrow>
          if \<not> worker_connected (di_WorkerID d) w
          then (SendError 409 (''worker '' @ show_int (di_WorkerID d) @ '' is not connected, so a final snapshot cannot be taken'') None, w)
          else if di_Status d \<noteq> DBStatusRunning
          then (SendError 409 (''database is '' @ di_Status d @ '' '' @ em_dash @ '' a final snapshot can only be taken from a running instance'') None, w)
          else case StartSnapshot d dest ''final'' w of
            (Inl e, w1) \<Rightarrow> (QueryError e ''failed to start the final snapshot'', w1)
          | (Inr s, w1) \<Rightarrow>
              (case UpdateDatabaseInstance (di_ID d) (no_update\<lparr>ui_PendingFinalSnapshot := Some True\<rparr>) w1 of
                 (Inl e, w2) \<Rightarrow> (QueryError e ''failed to record the pending delete'', w2)
               | (Inr _, w2) \<Rightarrow>
                   (New (DataSnapshot s) ''final snapshot started; the database will be destroyed once it completes'',
                    logAudit r ''delete'' ''database_instance'' (Some (di_ID d)) (Some (di_Name d))
                      (dbEvent (di_ID d) DBEventRequested (''delete requested, pending final snapshot '' @ sn_Filename s) r w2))))"

text \<open>The worker is offline: refused, or with \<^verbatim>\<open>force\<close> the record is retired alone.\<close>

definition delete_offline :: "int \<Rightarrow> databaseInstance \<Rightarrow> httpRequest \<Rightarrow> 'a api_world_scheme \<Rightarrow> response \<times> 'a api_world_scheme" where
  "delete_offline i d r w =
     (if query_param r ''force'' \<noteq> ''true''
      then (SendError 409 (''worker '' @ show_int (di_WorkerID d) @ '' is not connected, so container '' @ di_ContainerName d @
              '' and data volume '' @ di_VolumeName d @
              '' cannot be destroyed; retry once it reconnects, or pass ?force=true to retire the record and abandon them'') None, w)
      else
        (let w1 = dbEvent i DBEventRequested
               (''delete forced while worker '' @ show_int (di_WorkerID d) @ '' was offline '' @ em_dash @ '' container '' @
                di_ContainerName d @ '' and data volume '' @ di_VolumeName d @ '' abandoned on the worker'') r w in
         case DeleteDatabaseInstance i w1 of
           (Some e, w2) \<Rightarrow> (QueryError e ''failed to delete database instance'', w2)
         | (None, w2) \<Rightarrow>
             (New NoData ''database instance record deleted; container and data volume left on the offline worker'',
              logAudit r ''delete'' ''database_instance'' (Some i) (Some (di_Name d)) w2)))"

definition remove_payload :: "int \<Rightarrow> databaseInstance \<Rightarrow> 'a backup_world_scheme \<Rightarrow> (string \<times> json) list" where
  "remove_payload i d w =
     dbCommandPayload i MsgDbRemove w @
     [(''container_name'', JStr (di_ContainerName d)), (''volume_name'', JStr (di_VolumeName d)), (''remove_volume'', JBool True)]"

definition HandleDeleteDatabaseInstance :: "httpRequest \<Rightarrow> 'a api_world_scheme \<Rightarrow> response \<times> 'a api_world_scheme" where
  "HandleDeleteDatabaseInstance r w =
     (case path_int r ''id'' of
        None \<Rightarrow> (bad_instance_id, w)
      | Some i \<Rightarrow>
          (case GetDatabaseInstanceByID i w of
             (Inl e, w1) \<Rightarrow> (QueryError e ''failed to get database instance'', w1)
           | (Inr d, w1) \<Rightarrow>
               if di_DeletionProtection d
               then (SendError 409 (''database '' @ go_quote (di_Name d) @
                       '' has deletion protection enabled; turn it off in settings before deleting'') None, w1)
               else if query_param r ''final_snapshot'' = ''true'' then beginDeleteWithFinalSnapshot d r w1
               else if \<not> worker_connected (di_WorkerID d) w1 then delete_offline i d r w1
               else case SendJSONToWorker (di_WorkerID d) (NewCommand MsgDbRemove (remove_payload i d w1)) w1 of
                 (Some e, w2) \<Rightarrow>
                   (SendError 500 (''failed to send delete command to worker '' @ show_int (di_WorkerID d) @ '': '' @ e) (Some e), w2)
               | (None, w2) \<Rightarrow>
                   (New NoData ''deleting database: destroying container and data volume'',
                    logAudit r ''delete'' ''database_instance'' (Some i) (Some (di_Name d))
                      (BeginDeleting i (dbActor r)
                        (dbEvent i DBEventRequested (''delete requested '' @ em_dash @ '' container and data volume'') r w2)))))"

section \<open>Actions\<close>

definition action_message :: "string \<Rightarrow> string option" where
  "action_message action =
     (if action = ''start'' then Some MsgDbStart
      else if action = ''stop'' then Some MsgDbStop
      else if action = ''restart'' then Some MsgDbRestart
      else if action = ''remove'' then Some MsgDbRemove else None)"

definition HandleDatabaseAction :: "httpRequest \<Rightarrow> 'a api_world_scheme \<Rightarrow> response \<times> 'a api_world_scheme" where
  "HandleDatabaseAction r w =
     (case path_int r ''id'' of
        None \<Rightarrow> (bad_instance_id, w)
      | Some i \<Rightarrow>
          (let action = last (split_on (CHR ''/'') (trim_suffix (hr_Path r) ''/'')) in
           case action_message action of
             None \<Rightarrow> (SendError 400 (''unknown action: '' @ action) None, w)
           | Some msg \<Rightarrow>
               (case GetDatabaseInstanceByID i w of
                  (Inl _, w1) \<Rightarrow> (NotFound, w1)
                | (Inr d, w1) \<Rightarrow>
                    if \<not> worker_connected (di_WorkerID d) w1 then (SendError 400 ''worker is not connected'' None, w1)
                    else case SendJSONToWorker (di_WorkerID d) (NewCommand msg
                           (dbCommandPayload i msg w1 @ [(''container_name'', JStr (di_ContainerName d))] @
                            (if msg = MsgDbRemove then [(''volume_name'', JStr (di_VolumeName d))] else []))) w1 of
                      (Some e, w2) \<Rightarrow> (sendDispatchError action e, w2)
                    | (None, w2) \<Rightarrow>
                        (New NoData (''database instance '' @ action @ '' command sent''),
                         logAudit r action ''database_instance'' (Some i) (Some (di_Name d))
                           (dbEvent i DBEventRequested (action @ '' requested'') r w2)))))"

section \<open>Connection details and credentials\<close>

text \<open>\<^verbatim>\<open>url.QueryEscape\<close>: a space becomes a plus, any byte but the unreserved ones \<^verbatim>\<open>%XX\<close>.\<close>

definition upper_hex :: "nat \<Rightarrow> char" where
  "upper_hex n = (if n < 10 then char_of (48 + n) else char_of (55 + n))"

definition unreserved :: "char \<Rightarrow> bool" where "unreserved c \<longleftrightarrow> is_alnum c \<or> c \<in> set ''-_.~''"

definition escape_char :: "char \<Rightarrow> string" where
  "escape_char c =
     (if c = CHR '' '' then ''+''
      else if unreserved c then [c]
      else [CHR ''%'', upper_hex (of_char c div 16), upper_hex (of_char c mod 16)])"

definition QueryEscape :: "string \<Rightarrow> string" where
  "QueryEscape s = concat (map escape_char s)"

definition connection_string :: "databaseInstance \<Rightarrow> string \<Rightarrow> worker \<Rightarrow> string" where
  "connection_string d password k =
     (let rest = ''://'' @ QueryEscape (di_Username d) @ '':'' @ QueryEscape password @ ''@'' @ wk_Hostname k @ '':'' @
            show_int (di_Port d) @ ''/'' @ di_DatabaseName d in
      if di_Engine d = ''mysql'' \<or> di_Engine d = ''mariadb'' then ''mysql'' @ rest
      else if di_Engine d = ''postgres'' then ''postgresql'' @ rest else [])"

definition plain :: "string option \<Rightarrow> string" where "plain v = (case v of None \<Rightarrow> [] | Some p \<Rightarrow> p)"

definition with_worker ::
  "httpRequest \<Rightarrow> (int \<Rightarrow> databaseInstance \<Rightarrow> worker \<Rightarrow> 'a api_world_scheme \<Rightarrow> response \<times> 'a api_world_scheme) \<Rightarrow> 'a api_world_scheme \<Rightarrow> response \<times> 'a api_world_scheme" where
  "with_worker r k w =
     loadInstanceForObservability r (\<lambda>i d w1.
       case GetWorkerByID (di_WorkerID d) w1 of
         (Inl e, w2) \<Rightarrow> (QueryError e ''failed to get worker'', w2)
       | (Inr wk, w2) \<Rightarrow> k i d wk w2) w"

definition HandleGetDatabaseConnection :: "httpRequest \<Rightarrow> 'a api_world_scheme \<Rightarrow> response \<times> 'a api_world_scheme" where
  "HandleGetDatabaseConnection r w =
     with_worker r (\<lambda>i d k w1.
       (New (DataMap [(''host'', JStr (wk_Hostname k)), (''port'', JInt (di_Port d)), (''database_name'', JStr (di_DatabaseName d)),
          (''username'', JStr (di_Username d)), (''engine'', JStr (di_Engine d))]) ''database connection details retrieved'', w1)) w"

text \<open>Only the flag of the body counts, and a body that does not decode leaves it as far as it was read.\<close>

definition include_root :: "httpRequest \<Rightarrow> bool" where
  "include_root r =
     (case hr_Body r of
        Inr (JObj kvs) \<Rightarrow> snd (decode_members False [''include_root''] (\<lambda>n v b. store_bool n v b) kvs False)
      | _ \<Rightarrow> False)"

definition HandleRevealDatabaseCredentials :: "httpRequest \<Rightarrow> 'a api_world_scheme \<Rightarrow> response \<times> 'a api_world_scheme" where
  "HandleRevealDatabaseCredentials r w =
     with_worker r (\<lambda>i d k w1.
       let detail = (if include_root r then ''root credentials revealed'' else ''application credentials revealed'') in
       (New (DataMap ([(''username'', JStr (di_Username d)), (''password'', JStr (plain (di_Password d))),
           (''connection_string'', JStr (connection_string d (plain (di_Password d)) k)), (''host'', JStr (wk_Hostname k)),
           (''port'', JInt (di_Port d)), (''database_name'', JStr (di_DatabaseName d))] @
           (if include_root r then [(''root_password'', JStr (plain (di_RootPassword d)))] else [])))
          ''database credentials retrieved'',
        logAudit r ''reveal_credentials'' ''database_instance'' (Some i) (Some detail)
          (dbEvent i DBEventReveal detail r w1))) w"

definition HandleGetDatabaseCredentials :: "httpRequest \<Rightarrow> 'a api_world_scheme \<Rightarrow> response \<times> 'a api_world_scheme" where
  "HandleGetDatabaseCredentials r w =
     with_worker r (\<lambda>i d k w1.
       (New (DataMap [(''root_password'', JStr (plain (di_RootPassword d))), (''username'', JStr (di_Username d)),
           (''password'', JStr (plain (di_Password d))),
           (''connection_string'', JStr (connection_string d (plain (di_Password d)) k)), (''host'', JStr (wk_Hostname k)),
           (''port'', JInt (di_Port d))]) ''database credentials retrieved'',
        logAudit r ''reveal_credentials'' ''database_instance'' (Some i) (Some ''legacy GET endpoint'')
          (dbEvent i DBEventReveal ''credentials read via deprecated GET endpoint'' r w1))) w"

section \<open>The console\<close>

text \<open>Single quotes are closed, escaped and reopened.\<close>

definition quote_byte :: "char \<Rightarrow> string" where
  "quote_byte c = (if c = CHR 0x27 then [CHR 0x27, CHR 0x5C, CHR 0x27, CHR 0x27] else [c])"

definition shellQuote :: "string \<Rightarrow> string" where
  "shellQuote s = [CHR 0x27] @ concat (map quote_byte s) @ [CHR 0x27]"

definition console_command :: "databaseInstance \<Rightarrow> string list option" where
  "console_command d =
     (let password = plain (di_Password d) in
      if di_Engine d = ''mysql'' \<or> di_Engine d = ''mariadb''
      then Some [if di_Engine d = ''mysql'' then ''mysql'' else ''mariadb'', ''-u'', di_Username d, ''-p'' @ password, di_DatabaseName d]
      else if di_Engine d = ''postgres''
      then Some [''sh'', ''-c'', ''PGPASSWORD='' @ shellQuote password @ '' exec psql -U '' @ shellQuote (di_Username d) @ '' -d '' @
                  shellQuote (di_DatabaseName d)]
      else None)"

definition HandleOpenDatabaseConsole :: "httpRequest \<Rightarrow> 'a api_world_scheme \<Rightarrow> response \<times> 'a api_world_scheme" where
  "HandleOpenDatabaseConsole r w =
     loadInstanceForObservability r (\<lambda>i d w1.
       if \<not> worker_connected (di_WorkerID d) w1 then (SendError 400 ''worker is not connected'' None, w1)
       else if di_Status d \<noteq> DBStatusRunning
       then (SendError 409 (''database is '' @ di_Status d @ '' '' @ em_dash @ '' a console can only be opened against a running instance'') None, w1)
       else case console_command d of
         None \<Rightarrow> (SendError 400 ''unsupported engine for console access'' None, w1)
       | Some cmd \<Rightarrow>
           (New (DataMap [(''worker_id'', JInt (di_WorkerID d)), (''container_name'', JStr (di_ContainerName d)),
               (''cmd'', JList (map JStr cmd)), (''engine'', JStr (di_Engine d)), (''database_name'', JStr (di_DatabaseName d))])
              ''database console authorised'',
            logAudit r ''console'' ''database_instance'' (Some i) (Some (di_Name d))
              (dbEvent i DBEventConsoleOpen (''console opened against '' @ di_ContainerName d) r w1))) w"

definition HandleGetDatabaseInstanceRuns :: "httpRequest \<Rightarrow> 'a api_world_scheme \<Rightarrow> response \<times> 'a api_world_scheme" where
  "HandleGetDatabaseInstanceRuns r w =
     loadInstanceForObservability r (\<lambda>i d w1.
       case ListSnapshotRunsByInstance (di_ID d) (case int_param r ''limit'' of None \<Rightarrow> 0 | Some n \<Rightarrow> n) w1 of
         (Inl e, w2) \<Rightarrow> (QueryError e ''failed to fetch snapshot runs'', w2)
       | (Inr rs, w2) \<Rightarrow> (New (DataRuns rs) ''snapshot runs retrieved'', w2)) w"

section \<open>Snapshots\<close>

definition HandleListSnapshots :: "httpRequest \<Rightarrow> 'a api_world_scheme \<Rightarrow> response \<times> 'a api_world_scheme" where
  "HandleListSnapshots r w =
     (case path_int r ''id'' of
        None \<Rightarrow> (bad_instance_id, w)
      | Some i \<Rightarrow>
          (case ListSnapshotsByInstance i w of
             (Inl e, w1) \<Rightarrow> (QueryError e ''failed to list snapshots'', w1)
           | (Inr ss, w1) \<Rightarrow> (New (DataSnapshots ss) ''snapshots retrieved'', w1)))"

definition HandleCreateSnapshot :: "httpRequest \<Rightarrow> 'a api_world_scheme \<Rightarrow> response \<times> 'a api_world_scheme" where
  "HandleCreateSnapshot r w =
     loadInstanceForObservability r (\<lambda>i d w1.
       case di_BackupDestinationID d of
         None \<Rightarrow> (SendError 400 ''no backup destination configured for this database'' None, w1)
       | Some dest \<Rightarrow>
           if \<not> worker_connected (di_WorkerID d) w1 then (SendError 400 ''worker is not connected'' None, w1)
           else if di_HealthStatus d = DBHealthStarting
           then (SendError 409 ''database is still starting and is not accepting connections yet; wait for it to become healthy'' None, w1)
           else case StartSnapshot d dest ''manual'' w1 of
             (Inl e, w2) \<Rightarrow> (QueryError e ''failed to create snapshot'', w2)
           | (Inr s, w2) \<Rightarrow>
               (NewCreated (DataSnapshot s) ''snapshot created'',
                logAudit r ''create'' ''database_snapshot'' (Some (sn_ID s)) (Some (di_Name d))
                  (dbEvent (di_ID d) DBEventRequested (''snapshot requested: '' @ sn_Filename s) r w2))) w"

definition restore_payload :: "databaseInstance \<Rightarrow> databaseSnapshot \<Rightarrow> (string \<times> json) list \<Rightarrow> 'a backup_world_scheme \<Rightarrow> (string \<times> json) list" where
  "restore_payload d s dest w =
     dbCommandPayload (di_ID d) MsgDbRestore w @
     [(''snapshot_id'', JInt (sn_ID s)), (''container_name'', JStr (di_ContainerName d)), (''engine'', JStr (di_Engine d)),
      (''database_name'', JStr (di_DatabaseName d)), (''username'', JStr (di_Username d)), (''filename'', JStr (sn_Filename s)),
      (''backup_destination'', JObj dest)] @
     (case di_Password d of None \<Rightarrow> [] | Some p \<Rightarrow> [(''password'', JStr p)])"

definition dispatch_restore ::
  "databaseInstance \<Rightarrow> databaseSnapshot \<Rightarrow> backupDestination \<Rightarrow> httpRequest \<Rightarrow> 'a api_world_scheme \<Rightarrow> response \<times> 'a api_world_scheme" where
  "dispatch_restore d s dest r w =
     (case (case bd_Config dest of None \<Rightarrow> Inr [] | Some c \<Rightarrow> map_sum id (\<lambda>cfg. [(''config'', JObj cfg)]) (b_unmarshal w c)) of
        Inl e \<Rightarrow> (SendError 500 ''failed to parse backup destination config'' (Some e), w)
      | Inr cfg \<Rightarrow>
          (case SendJSONToWorker (di_WorkerID d) (NewCommand MsgDbRestore
                  (restore_payload d s ((''type'', JStr (bd_Type dest)) # cfg) w)) w of
             (Some e, w1) \<Rightarrow> (sendDispatchError ''restore'' e, w1)
           | (None, w1) \<Rightarrow>
               (New NoData ''restore command sent'',
                logAudit r ''restore'' ''database_snapshot'' (Some (sn_ID s)) (Some (di_Name d))
                  (dbEvent (di_ID d) DBEventRequested (''restore requested from '' @ sn_Filename s) r w1))))"

definition HandleRestoreSnapshot :: "httpRequest \<Rightarrow> 'a api_world_scheme \<Rightarrow> response \<times> 'a api_world_scheme" where
  "HandleRestoreSnapshot r w =
     (case path_int r ''id'' of
        None \<Rightarrow> (bad_instance_id, w)
      | Some i \<Rightarrow>
          (case decode_body [(''snapshot_id'', into store_int id (\<lambda>x _. x))] 0 r of
             Inl e \<Rightarrow> (BadBody e, w)
           | Inr sid \<Rightarrow>
               if sid = 0 then (MissingBodyFields ''snapshot_id'', w)
               else case GetSnapshotByID sid w of
                 (Inl _, w1) \<Rightarrow> (NotFound, w1)
               | (Inr s, w1) \<Rightarrow>
                   if sn_DatabaseInstanceID s \<noteq> i
                   then (SendError 400 ''snapshot does not belong to this database instance'' None, w1)
                   else case GetDatabaseInstanceByID i w1 of
                     (Inl _, w2) \<Rightarrow> (NotFound, w2)
                   | (Inr d, w2) \<Rightarrow>
                       (case sn_BackupDestinationID s of
                          None \<Rightarrow> (SendError 400 ''snapshot has no backup destination'' None, w2)
                        | Some destID \<Rightarrow>
                            (case GetBackupDestinationByID destID w2 of
                               (Inl e, w3) \<Rightarrow> (QueryError e ''failed to get backup destination'', w3)
                             | (Inr dest, w3) \<Rightarrow>
                                 if \<not> worker_connected (di_WorkerID d) w3
                                 then (SendError 400 ''worker is not connected'' None, w3)
                                 else dispatch_restore d s dest r w3))))"

definition HandleDeleteSnapshot :: "httpRequest \<Rightarrow> 'a api_world_scheme \<Rightarrow> response \<times> 'a api_world_scheme" where
  "HandleDeleteSnapshot r w =
     (case path_int r ''id'' of
        None \<Rightarrow> (SendError 400 ''invalid snapshot id'' None, w)
      | Some sid \<Rightarrow>
          (case GetSnapshotByID sid w of
             (Inl _, w1) \<Rightarrow> (NotFound, w1)
           | (Inr s, w1) \<Rightarrow>
               (case GetDatabaseInstanceByID (sn_DatabaseInstanceID s) w1 of
                  (found, w2) \<Rightarrow>
                    (case DeleteSnapshotArtifactCtx s (case found of Inl _ \<Rightarrow> None | Inr d \<Rightarrow> Some d) w2 of
                       (Some e, w3) \<Rightarrow> (QueryError e ''failed to delete snapshot'', w3)
                     | (None, w3) \<Rightarrow>
                         (New NoData ''snapshot deleted'',
                          logAudit r ''delete'' ''database_snapshot'' (Some sid) (Some (sn_Filename s)) w3)))))"

section \<open>Backup destinations\<close>

definition bad_destination_id :: response where
  "bad_destination_id = SendError 400 ''invalid backup destination id'' None"

definition HandleListBackupDestinations :: "httpRequest \<Rightarrow> 'a api_world_scheme \<Rightarrow> response \<times> 'a api_world_scheme" where
  "HandleListBackupDestinations r w =
     (case ListBackupDestinations w of
        (Inl e, w1) \<Rightarrow> (QueryError e ''failed to list backup destinations'', w1)
      | (Inr bs, w1) \<Rightarrow> (New (DataDestinations bs) ''backup destinations retrieved'', w1))"

definition HandleGetBackupDestination :: "httpRequest \<Rightarrow> 'a api_world_scheme \<Rightarrow> response \<times> 'a api_world_scheme" where
  "HandleGetBackupDestination r w =
     (case path_int r ''id'' of
        None \<Rightarrow> (bad_destination_id, w)
      | Some i \<Rightarrow>
          (case GetBackupDestinationByID i w of
             (Inl _, w1) \<Rightarrow> (NotFound, w1)
           | (Inr b, w1) \<Rightarrow> (New (DataDestination b) ''backup destination retrieved'', w1)))"

record destinationBody =
  db_Name :: string
  db_Type :: string
  db_Locality :: string
  db_Config :: "(string \<times> json) list option"

definition destination_fields :: "destinationBody body_field list" where
  "destination_fields =
     [(''name'', into store_string db_Name (\<lambda>x b. b\<lparr>db_Name := x\<rparr>)),
      (''type'', into store_string db_Type (\<lambda>x b. b\<lparr>db_Type := x\<rparr>)),
      (''locality'', into store_string db_Locality (\<lambda>x b. b\<lparr>db_Locality := x\<rparr>)),
      (''config'', into (store_ptr store_object []) db_Config (\<lambda>x b. b\<lparr>db_Config := x\<rparr>))]"

definition valid_destination_type :: "string \<Rightarrow> bool" where
  "valid_destination_type t \<longleftrightarrow> t \<in> {''s3'', ''google_drive'', ''samba''}"

text \<open>\<open>marshal\<close> is \<^verbatim>\<open>json.Marshal\<close> of a \<^verbatim>\<open>map[string]any\<close> that came from a JSON document, which cannot fail.\<close>

definition HandleCreateBackupDestination ::
  "((string \<times> json) list \<Rightarrow> string) \<Rightarrow> httpRequest \<Rightarrow> 'a api_world_scheme \<Rightarrow> response \<times> 'a api_world_scheme" where
  "HandleCreateBackupDestination marshal r w =
     (case decode_body destination_fields \<lparr>db_Name = [], db_Type = [], db_Locality = [], db_Config = None\<rparr> r of
        Inl e \<Rightarrow> (BadBody e, w)
      | Inr b \<Rightarrow>
          if db_Name b = [] then (MissingBodyFields ''name'', w)
          else if db_Type b = [] then (MissingBodyFields ''type'', w)
          else if \<not> valid_destination_type (db_Type b)
          then (SendError 400 ''type must be one of: s3, google_drive, samba'' None, w)
          else case CreateBackupDestination \<lparr>cb_Name = db_Name b, cb_Type = db_Type b, cb_Locality = db_Locality b,
                   cb_Config = (case db_Config b of None \<Rightarrow> [] | Some cfg \<Rightarrow> marshal cfg)\<rparr> w of
            (Inl e, w1) \<Rightarrow> (QueryError e ''failed to create backup destination'', w1)
          | (Inr d, w1) \<Rightarrow>
              (NewCreated (DataDestination d) ''backup destination created'',
               logAudit r ''create'' ''backup_destination'' (Some (bd_ID d)) (Some (bd_Name d)) w1))"

text \<open>A null in the patch removes its key, anything else overwrites it.\<close>

definition patch_member :: "string \<times> json \<Rightarrow> (string \<times> json) list \<Rightarrow> (string \<times> json) list" where
  "patch_member kv m = (if snd kv = JNull then filter (\<lambda>x. fst x \<noteq> fst kv) m else put_member (fst kv) (snd kv) m)"

definition mergeBackupConfig ::
  "((string \<times> json) list \<Rightarrow> string) \<Rightarrow> string option \<Rightarrow> (string \<times> json) list \<Rightarrow> bool \<Rightarrow> 'a backup_world_scheme \<Rightarrow> go_error + string" where
  "mergeBackupConfig marshal stored patch sameType w =
     (case (if sameType \<and> stored \<noteq> None \<and> stored \<noteq> Some [] then b_unmarshal w (plain stored) else Inr []) of
        Inl e \<Rightarrow> Inl e
      | Inr old \<Rightarrow> Inr (marshal (fold patch_member patch old)))"

record destinationPatch =
  dp_Name :: "string option"
  dp_Type :: "string option"
  dp_Locality :: "string option"
  dp_Config :: "(string \<times> json) list option"
  dp_Active :: "bool option"

definition patch_fields :: "destinationPatch body_field list" where
  "patch_fields =
     [(''name'', into (store_ptr store_string []) dp_Name (\<lambda>x b. b\<lparr>dp_Name := x\<rparr>)),
      (''type'', into (store_ptr store_string []) dp_Type (\<lambda>x b. b\<lparr>dp_Type := x\<rparr>)),
      (''locality'', into (store_ptr store_string []) dp_Locality (\<lambda>x b. b\<lparr>dp_Locality := x\<rparr>)),
      (''config'', into (store_ptr store_object []) dp_Config (\<lambda>x b. b\<lparr>dp_Config := x\<rparr>)),
      (''active'', into (store_ptr store_bool False) dp_Active (\<lambda>x b. b\<lparr>dp_Active := x\<rparr>))]"

text \<open>The config the update will store: none, the merged one, or a refusal.\<close>

definition merged_config ::
  "((string \<times> json) list \<Rightarrow> string) \<Rightarrow> int \<Rightarrow> destinationPatch \<Rightarrow> 'a backup_world_scheme \<Rightarrow> (response + string option) \<times> 'a backup_world_scheme" where
  "merged_config marshal i b w =
     (case dp_Config b of
        None \<Rightarrow> (Inr None, w)
      | Some patch \<Rightarrow>
          (case GetBackupDestinationByID i w of
             (Inl _, w1) \<Rightarrow> (Inl NotFound, w1)
           | (Inr old, w1) \<Rightarrow>
               (case mergeBackupConfig marshal (bd_Config old) patch (dp_Type b = None \<or> dp_Type b = Some (bd_Type old)) w1 of
                  Inl e \<Rightarrow> (Inl (SendError 500 ''failed to merge backup destination config'' (Some e)), w1)
                | Inr c \<Rightarrow> (Inr (Some c), w1))))"

definition HandleUpdateBackupDestination ::
  "((string \<times> json) list \<Rightarrow> string) \<Rightarrow> httpRequest \<Rightarrow> 'a api_world_scheme \<Rightarrow> response \<times> 'a api_world_scheme" where
  "HandleUpdateBackupDestination marshal r w =
     (case path_int r ''id'' of
        None \<Rightarrow> (bad_destination_id, w)
      | Some i \<Rightarrow>
          (case decode_body patch_fields \<lparr>dp_Name = None, dp_Type = None, dp_Locality = None, dp_Config = None, dp_Active = None\<rparr> r of
             Inl e \<Rightarrow> (BadBody e, w)
           | Inr b \<Rightarrow>
               if (case dp_Type b of None \<Rightarrow> False | Some t \<Rightarrow> \<not> valid_destination_type t)
               then (SendError 400 ''type must be s3, google_drive, or samba'' None, w)
               else case merged_config marshal i b w of
                 (Inl refusal, w1) \<Rightarrow> (refusal, w1)
               | (Inr cfg, w1) \<Rightarrow>
                   (case UpdateBackupDestination i \<lparr>ub_Name = dp_Name b, ub_Type = dp_Type b, ub_Locality = dp_Locality b,
                          ub_Config = cfg, ub_Active = dp_Active b\<rparr> w1 of
                      (Inl e, w2) \<Rightarrow> (QueryError e ''failed to update backup destination'', w2)
                    | (Inr d, w2) \<Rightarrow>
                        (New (DataDestination d) ''backup destination updated'',
                         logAudit r ''update'' ''backup_destination'' (Some i) None w2))))"

definition HandleDeleteBackupDestination :: "httpRequest \<Rightarrow> 'a api_world_scheme \<Rightarrow> response \<times> 'a api_world_scheme" where
  "HandleDeleteBackupDestination r w =
     (case path_int r ''id'' of
        None \<Rightarrow> (bad_destination_id, w)
      | Some i \<Rightarrow>
          (case DeleteBackupDestination i w of
             (Some e, w1) \<Rightarrow> (QueryError e ''failed to delete backup destination'', w1)
           | (None, w1) \<Rightarrow>
               (New NoData ''backup destination deleted'', logAudit r ''delete'' ''backup_destination'' (Some i) None w1)))"

definition HandleTestBackupDestination :: "httpRequest \<Rightarrow> 'a api_world_scheme \<Rightarrow> response \<times> 'a api_world_scheme" where
  "HandleTestBackupDestination r w =
     (case path_int r ''id'' of
        None \<Rightarrow> (bad_destination_id, w)
      | Some i \<Rightarrow>
          if query_param r ''worker_id'' = [] then (SendError 400 ''worker_id query parameter required'' None, w)
          else case int_param r ''worker_id'' of
            None \<Rightarrow> (SendError 400 ''invalid worker_id'' None, w)
          | Some wid \<Rightarrow>
              (case GetBackupDestinationByID i w of
                 (Inl _, w1) \<Rightarrow> (NotFound, w1)
               | (Inr dest, w1) \<Rightarrow>
                   if \<not> worker_connected wid w1 then (SendError 400 ''worker is not connected'' None, w1)
                   else case (case bd_Config dest of None \<Rightarrow> Inr []
                              | Some c \<Rightarrow> map_sum id (\<lambda>cfg. [(''config'', JObj cfg)]) (b_unmarshal w1 c)) of
                     Inl e \<Rightarrow> (SendError 500 ''failed to parse backup destination config'' (Some e), w1)
                   | Inr cfg \<Rightarrow>
                       (case SendJSONToWorker wid (NewCommand MsgBackupDestTest
                               ([(''backup_destination_id'', JInt (bd_ID dest)), (''type'', JStr (bd_Type dest))] @ cfg)) w1 of
                          (Some e, w2) \<Rightarrow> (sendDispatchError ''test'' e, w2)
                        | (None, w2) \<Rightarrow> (New NoData ''test command sent'', w2))))"

section \<open>The 3-2-1 posture\<close>

definition postureFreshnessWindow :: duration where "postureFreshnessWindow = 8 * 24 * Hour"

definition finalisePosture :: "backupPosture \<Rightarrow> backupPosture" where
  "finalisePosture p =
     (let c = bp_Copies p \<ge> 3; m = bp_Media p \<ge> 2; f = bp_Offsite p \<ge> 1
      in p\<lparr>bp_CopiesOK := c, bp_MediaOK := m, bp_OffsiteOK := f,
           bp_Score := bp_Score p + length (filter id [c, m, f])\<rparr>)"

definition live_copy :: backupPosture where
  "live_copy = \<lparr>bp_Copies = 1, bp_CopiesOK = False, bp_Media = 0, bp_MediaOK = False, bp_Offsite = 0, bp_OffsiteOK = False,
     bp_Score = 0, bp_Detail = [''the live data volume on the worker''], bp_Warnings = []\<rparr>"

definition snapshots_on :: "nat \<Rightarrow> string \<Rightarrow> string \<Rightarrow> string" where
  "snapshots_on n name place = show_nat n @ '' snapshot(s) on '' @ go_quote name @ '' ('' @ place @ '')''"

definition count_destination :: "backupDestination \<Rightarrow> nat \<Rightarrow> backupPosture \<Rightarrow> backupPosture" where
  "count_destination dest n p =
     (let p1 = p\<lparr>bp_Copies := bp_Copies p + n\<rparr>; q = go_quote (bd_Name dest) in
      if bd_Locality dest = LocalityOffsite
      then p1\<lparr>bp_Offsite := bp_Offsite p + 1, bp_Detail := bp_Detail p @ [snapshots_on n (bd_Name dest) ''off-site'']\<rparr>
      else if bd_Locality dest = LocalitySameHost
      then p1\<lparr>bp_Detail := bp_Detail p @ [snapshots_on n (bd_Name dest) ''same host as the database''],
              bp_Warnings := bp_Warnings p @ [q @ '' shares a machine with this database: one hardware failure takes the data and its backups together. Object-lock guarantees do not apply '' @ em_dash @ '' immutability enforced by a process whose filesystem you can reach is not immutability'']\<rparr>
      else if bd_Locality dest = LocalitySameFleet
      then p1\<lparr>bp_Detail := bp_Detail p @ [snapshots_on n (bd_Name dest) ''same fleet''],
              bp_Warnings := bp_Warnings p @ [q @ '' is in the same failure domain as this database '' @ em_dash @ '' a site-level loss takes both'']\<rparr>
      else p1\<lparr>bp_Detail := bp_Detail p @ [snapshots_on n (bd_Name dest) ''locality unconfirmed''],
              bp_Warnings := bp_Warnings p @ [''nobody has confirmed where '' @ q @ '' physically lives, so it is not counted as off-site. Lattice cannot infer this: an S3 endpoint may be a bucket on this very worker or one in another country'']\<rparr>)"

text \<open>The loop over the destinations, with the media types seen so far.\<close>

fun count_destinations ::
  "(int \<times> nat) list \<Rightarrow> string list \<Rightarrow> backupPosture \<Rightarrow> 'a backup_world_scheme \<Rightarrow> (string list \<times> backupPosture) \<times> 'a backup_world_scheme" where
  "count_destinations [] types p w = ((types, p), w)"
| "count_destinations ((destID, n) # rest) types p w =
     (case GetBackupDestinationByID destID w of
        (Inl _, w1) \<Rightarrow> count_destinations rest types p w1
      | (Inr dest, w1) \<Rightarrow> count_destinations rest (List.insert (bd_Type dest) types) (count_destination dest n p) w1)"

text \<open>\<open>order\<close> is the order in which Go's map yields its entries.\<close>

definition computeBackupPosture ::
  "((int \<times> nat) list \<Rightarrow> (int \<times> nat) list) \<Rightarrow> databaseInstance \<Rightarrow> 'a backup_world_scheme \<Rightarrow> backupPosture \<times> 'a backup_world_scheme" where
  "computeBackupPosture order d w =
     (case FreshReplicasByDestination (di_ID d) (clock w - postureFreshnessWindow) w of
        (Inl _, w1) \<Rightarrow> (finalisePosture (live_copy\<lparr>bp_Warnings := [''could not read this database'' @ [CHR 0x27] @ ''s snapshot copies'']\<rparr>), w1)
      | (Inr [], w1) \<Rightarrow>
          (finalisePosture (live_copy\<lparr>bp_Warnings := [''no successful snapshot in the last 8 days '' @ em_dash @ '' this database has exactly one copy'']\<rparr>), w1)
      | (Inr fresh, w1) \<Rightarrow>
          (let ((types, p), w2) = count_destinations (order fresh) [] live_copy w1
           in (finalisePosture (p\<lparr>bp_Media := length types\<rparr>), w2)))"

definition HandleGetDatabaseBackupPosture ::
  "((int \<times> nat) list \<Rightarrow> (int \<times> nat) list) \<Rightarrow> httpRequest \<Rightarrow> 'a api_world_scheme \<Rightarrow> response \<times> 'a api_world_scheme" where
  "HandleGetDatabaseBackupPosture order r w =
     loadInstanceForObservability r (\<lambda>i d w1.
       case computeBackupPosture order d w1 of (p, w2) \<Rightarrow> (New (DataPosture p) ''backup posture retrieved'', w2)) w"

section \<open>A delete that waits for its final snapshot\<close>

definition sent_to :: "int \<Rightarrow> 'a world_scheme \<Rightarrow> envelope list" where
  "sent_to wid w = (case map_of (hub_sessions (hub w)) wid of None \<Rightarrow> [] | Some sid \<Rightarrow> ws_Send (hub_objs (hub w) sid))"

definition destroys_volume :: "envelope \<Rightarrow> bool" where
  "destroys_volume m \<longleftrightarrow> env_Type m = MsgDbRemove \<and> map_of (env_Payload m) ''remove_volume'' = Some (JBool True)"

text \<open>
  The state a DELETE with \<^verbatim>\<open>final_snapshot=true\<close> leaves behind: the flag is set and snapshot 1, the
  final one, is pending. Snapshot 2 is one an operator takes by hand later.
\<close>

definition final_pending :: "bool \<Rightarrow> backup_world" where
  "final_pending protected = sched_world\<lparr>d_instances := [sched_db\<lparr>di_PendingFinalSnapshot := True, di_DeletionProtection := protected\<rparr>],
     b_snapshots := [copy0\<lparr>sn_Status := ''pending'', sn_TriggerType := ''final'', sn_CompletedAt := None\<rparr>,
                     copy0\<lparr>sn_ID := 2, sn_Status := ''pending'', sn_TriggerType := ''manual'', sn_CompletedAt := None\<rparr>]\<rparr>"

definition snapshot_report :: "int \<Rightarrow> string \<Rightarrow> (string \<times> json) list" where
  "snapshot_report sid status = [(''snapshot_id'', JInt sid), (''database_instance_id'', JInt 1), (''status'', JStr status)]"


section \<open>The vocabulary of status and health\<close>

definition row_typed :: "databaseInstance \<Rightarrow> bool" where
  "row_typed d \<longleftrightarrow> status_IsValid (di_Status d) \<and> health_IsValid (di_HealthStatus d)"

definition typed :: "'a db_world_scheme \<Rightarrow> bool" where
  "typed w \<longleftrightarrow> list_all row_typed (d_instances w)"

lemma typed_frame: "db_frame typed"
  by (simp add: db_frame_def typed_def)

lemma typed_same: "d_instances w' = d_instances w \<Longrightarrow> typed w' \<longleftrightarrow> typed w"
  by (simp add: typed_def)

definition valid_opt :: "(string \<Rightarrow> bool) \<Rightarrow> string option \<Rightarrow> bool" where
  "valid_opt p v \<longleftrightarrow> (case v of None \<Rightarrow> True | Some s \<Rightarrow> p s)"

lemma health_set_opt: "(\<And>v d. di_HealthStatus (f v d) = di_HealthStatus d) \<Longrightarrow> di_HealthStatus (set_opt o1 f d) = di_HealthStatus d"
  by (simp add: set_opt_def split: option.split)

lemma health_set: "di_HealthStatus (set_opt o1 (\<lambda>v d. d\<lparr>di_HealthStatus := v\<rparr>) d) = (case o1 of None \<Rightarrow> di_HealthStatus d | Some h \<Rightarrow> h)"
  by (simp add: set_opt_def split: option.split)

lemma health_sel [simp]:
  "di_HealthStatus (instance_sets req rp pw now d) = (case ui_HealthStatus req of None \<Rightarrow> di_HealthStatus d | Some h \<Rightarrow> h)"
  "di_HealthStatus (touch_row now d d') = di_HealthStatus d'"
  unfolding instance_sets_def comp_apply
  by (simp_all add: health_set health_set_opt clear_or_set_def touch_row_def split: option.split)

lemma typed_update:
  assumes "typed w" "valid_opt status_IsValid (ui_Status req)" "valid_opt health_IsValid (ui_HealthStatus req)"
  shows "typed (snd (UpdateDatabaseInstance i req w))"
proof (rule Update_rows [of i req w])
  fix rp pw now t
  assume u: "d_instances (snd (UpdateDatabaseInstance i req w)) =
      update_where (\<lambda>d. di_ID d = i) (\<lambda>d. touch_row t d (instance_sets req rp pw now d)) (d_instances w)"
  have "row_typed (touch_row t d (instance_sets req rp pw now d))" if "row_typed d" for d
    using that assms(2,3) by (auto simp: row_typed_def valid_opt_def split: option.splits)
  then show ?thesis using assms(1) unfolding typed_def u by (auto simp: set_update_where list_all_iff)
next
  assume "d_instances (snd (UpdateDatabaseInstance i req w)) = d_instances w"
  then show ?thesis using assms(1) typed_same by blast
qed

lemma typed_retire: "typed w \<Longrightarrow> typed (snd (DeleteDatabaseInstance i w))"
  unfolding DeleteDatabaseInstance_def snd_exec_unit
proof (rule exec_keeps [where P = typed])
  fix w :: "'a db_world_scheme"
  assume "typed w"
  then show "typed (snd ((), w\<lparr>d_instances := update_where (\<lambda>d. di_ID d = i)
       (\<lambda>d. touch_row (clock w) d (d\<lparr>di_Active := False\<rparr>)) (d_instances w)\<rparr>))"
    by (auto simp: typed_def row_typed_def set_update_where list_all_iff)
qed (simp_all add: typed_def)

interpretation typed: retirable typed
proof unfold_locales
  show "db_frame (typed :: 'a db_world_scheme \<Rightarrow> bool)" by (rule typed_frame)
  fix w w1 :: "'a db_world_scheme" and i d e
  show "typed w \<Longrightarrow> GetDatabaseInstanceByID i w = (Inr d, w1) \<Longrightarrow> typed (snd (UpdateDatabaseInstance i (no_update\<lparr>ui_LastError := Some e\<rparr>) w1))"
    by (rule typed_update) (use db_frame_GetD [OF typed_frame] in \<open>auto simp: valid_opt_def no_update_def\<close>)
  show "typed w \<Longrightarrow> GetDatabaseInstanceByID i w = (Inr d, w1) \<Longrightarrow> typed (snd (UpdateDatabaseInstance i (no_update\<lparr>ui_ClearLastError := True\<rparr>) w1))"
    by (rule typed_update) (use db_frame_GetD [OF typed_frame] in \<open>auto simp: valid_opt_def no_update_def\<close>)
qed (auto intro!: typed_update typed_retire simp: valid_opt_def no_update_def)

text \<open>What the handlers do besides an instance's own statements leaves the instances alone.\<close>

lemma same_frame [simp]: "frame_field (d_instances :: 'a db_world_scheme \<Rightarrow> _)"
  by (simp add: frame_field_def)

lemma same_GetD: "GetDatabaseInstanceByID i w = (r, w1) \<Longrightarrow> d_instances w1 = d_instances w"
  by (rule frame_GetD) simp

lemma same_one_rowD: "one_row p q w = (r, w1) \<Longrightarrow> d_instances w1 = d_instances w"
  using frame_query [OF same_frame, of q w] snd_one_row [of p q w] by simp

lemma same_ByNameD: "GetDatabaseInstanceByName n w = (r, w1) \<Longrightarrow> d_instances w1 = d_instances w"
  by (auto simp: GetDatabaseInstanceByName_def dest!: frame_queryD [OF same_frame] split: prod.splits sum.splits option.splits)

lemma same_ClaimedD: "ClaimedPortsOnWorker i w = (r, w1) \<Longrightarrow> d_instances w1 = d_instances w"
  by (auto simp: ClaimedPortsOnWorker_def Let_def dest!: frame_queryD [OF same_frame] split: prod.splits sum.splits)

lemma same_AllocateD: "AllocateDatabasePort i w = (r, w1) \<Longrightarrow> d_instances w1 = d_instances w"
  by (auto simp: AllocateDatabasePort_def dest!: same_ClaimedD split: prod.splits sum.splits option.splits)

lemma same_ConflictD: "FindPortConflict i p x w = (r, w1) \<Longrightarrow> d_instances w1 = d_instances w"
  by (auto simp: FindPortConflict_def Let_def dest!: frame_queryD [OF same_frame] split: prod.splits sum.splits option.splits)

lemma same_sendD: "SendJSONToWorker wid m w = (r, w1) \<Longrightarrow> d_instances w1 = d_instances w"
  using frame_send [OF same_frame, of wid m w] by simp

lemma snd_CreateEvent:
  "snd (CreateDatabaseInstanceEvent e w) = (if ev_DatabaseInstanceID e = 0 \<or> ev_Kind e = [] then w
     else snd (exec_unit (\<lambda>w. w\<lparr>d_events := d_events w @ [e]\<rparr>) w))"
  by (simp add: CreateDatabaseInstanceEvent_def split: prod.split option.split)

lemma same_event: "d_instances (dbEvent i k m r w) = d_instances w"
  unfolding dbEvent_def snd_CreateEvent snd_exec_unit by (simp add: frame_exec)

lemma same_audit: "d_instances (logAudit r a t i d w) = d_instances w"
  by (simp add: logAudit_def)

lemma same_push: "d_instances (PushDbSchedule d w) = d_instances w"
  by (simp add: PushDbSchedule_def frame_send)

lemma same_passwordD: "choose_password what given w = (r, w1) \<Longrightarrow> d_instances w1 = d_instances w"
  by (auto simp: choose_password_def random_hex_def split: if_splits sum.splits)

lemma same_portD: "choose_port b w = (r, w1) \<Longrightarrow> d_instances w1 = d_instances w"
  by (auto simp: choose_port_def dest!: same_AllocateD same_ConflictD split: if_splits prod.splits sum.splits option.splits)

lemma same_checkD: "check_create b w = (r, w1) \<Longrightarrow> d_instances w1 = d_instances w"
  by (auto simp: check_create_def dest!: same_ByNameD split: if_splits prod.splits sum.splits option.splits)

lemma same_movedD: "check_moved_port i p w = (r, w1) \<Longrightarrow> d_instances w1 = d_instances w"
  by (auto simp: check_moved_port_def dest!: same_GetD same_ConflictD split: prod.splits sum.splits option.splits)

lemma same_CreateSnapshotD: "CreateSnapshot req w = (r, w1) \<Longrightarrow> d_instances w1 = d_instances w"
proof -
  have "d_instances (snd (exec (\<lambda>w. (b_next_snapshot w, w\<lparr>b_snapshots := b_snapshots w @ [snapshot_row (b_next_snapshot w) (clock w) req],
      b_next_snapshot := b_next_snapshot w + 1\<rparr>)) w)) = d_instances w"
    by (rule frame_exec) simp_all
  then have e: "d_instances w2 = d_instances w" if "exec (\<lambda>w. (b_next_snapshot w, w\<lparr>b_snapshots := b_snapshots w @ [snapshot_row (b_next_snapshot w) (clock w) req],
      b_next_snapshot := b_next_snapshot w + 1\<rparr>)) w = (x, w2)" for x w2
    using that by simp
  show "CreateSnapshot req w = (r, w1) \<Longrightarrow> d_instances w1 = d_instances w"
    by (auto simp: CreateSnapshot_def GetSnapshotByID_def dest!: e same_one_rowD split: prod.splits sum.splits)
qed

lemma same_StartD: "StartSnapshot d dest t w = (r, w1) \<Longrightarrow> d_instances w1 = d_instances w"
  unfolding StartSnapshot_def Let_def
  by (auto dest!: frame_destinationD [OF same_frame] same_CreateSnapshotD same_sendD
      split: prod.splits sum.splits option.splits)

lemmas same = same_event same_audit same_push
lemmas sameD = same_GetD same_passwordD same_portD same_checkD same_movedD same_StartD same_sendD

lemma typed_sameD: "d_instances w1 = d_instances w \<Longrightarrow> typed w \<Longrightarrow> typed w1"
  by (simp add: typed_def)

lemma typed_CreateD: "CreateDatabaseInstance req w = (r, w1) \<Longrightarrow> typed w \<Longrightarrow> typed w1"
proof -
  assume w: "typed w"
  have "typed (snd (exec (insert_instance rp pw req) w))" for rp pw
  proof (rule exec_keeps [where P = typed, OF _ _ w])
    fix w :: "'a db_world_scheme" assume "typed w"
    then show "typed (snd (insert_instance rp pw req w))"
      by (auto simp: insert_instance_def write_instances_def typed_def row_typed_def instance_row_def status_IsValid_def health_IsValid_def)
  qed (simp add: typed_def)
  then have e: "typed w2" if "exec (insert_instance rp pw req) w = (x, w2)" for rp pw x w2
    using that by (metis snd_conv)
  show "CreateDatabaseInstance req w = (r, w1) \<Longrightarrow> typed w1"
    using w by (auto simp: CreateDatabaseInstance_def dest!: e same_GetD typed_sameD split: prod.splits sum.splits)
qed

lemma typed_dispatch_failed: "typed w \<Longrightarrow> typed (snd (create_dispatch_failed i e r w))"
  unfolding create_dispatch_failed_def Let_def snd_conv typed_same [OF same_event]
  by (rule typed_update) (simp_all add: valid_opt_def no_update_def status_IsValid_def)

lemma typed_finish_create:
  assumes "typed w" shows "typed (snd (finish_create b r w))"
proof -
  have s: "typed w3" if "SendJSONToWorker wid m (dbEvent i k msg r w1) = (x, w3)" "typed w1" for wid m i k msg w1 x w3
    using same_sendD [OF that(1)] same_event that(2) by (metis typed_sameD)
  show ?thesis
  proof (cases "CreateDatabaseInstance (createDatabaseInstanceRequest.truncate b) w")
    case (Pair x w1)
    then have "typed w1" using typed_CreateD assms by blast
    then show ?thesis using assms Pair
      by (auto simp: finish_create_def Let_def same typed_same [OF same_audit] typed_same [OF same_push] intro: typed_dispatch_failed
          dest: s split: prod.split sum.split option.split)
  qed
qed

lemma typed_HandleCreate: "typed w \<Longrightarrow> typed (snd (HandleCreateDatabaseInstance r w))"
  unfolding HandleCreateDatabaseInstance_def Let_def
  by (auto intro!: typed_finish_create dest!: same_checkD same_portD same_passwordD typed_sameD
      split: prod.split sum.split option.split)

lemma typed_apply_update:
  assumes "typed w" "valid_opt status_IsValid (ui_Status req)" "valid_opt health_IsValid (ui_HealthStatus req)"
  shows "typed (snd (apply_update i req r w))"
proof -
  have u: "typed w2" if "UpdateDatabaseInstance i req w1 = (x, w2)" "typed w1" for w1 x w2
    using typed_update [OF that(2) assms(2,3), of i] that(1) by simp
  show ?thesis using assms(1)
    by (auto simp: apply_update_def Let_def typed_same [OF same_audit] typed_same [OF same_push]
        dest!: u same_GetD typed_sameD split: prod.split sum.split)
qed

lemma typed_HandleUpdate: "typed w \<Longrightarrow> typed (snd (HandleUpdateDatabaseInstance r w))"
  unfolding HandleUpdateDatabaseInstance_def Let_def
  by (auto intro!: typed_apply_update simp: valid_opt_def dest!: same_movedD typed_sameD
      split: prod.split sum.split option.split)

lemma typed_begin_final: "typed w \<Longrightarrow> typed (snd (beginDeleteWithFinalSnapshot d r w))"
proof -
  have u: "typed w2" if "UpdateDatabaseInstance i (no_update\<lparr>ui_PendingFinalSnapshot := Some b\<rparr>) w1 = (x, w2)" "typed w1"
    for i b x and w1 w2 :: "'a api_world_scheme"
    using typed.keep_pending [OF that] .
  show "typed w \<Longrightarrow> typed (snd (beginDeleteWithFinalSnapshot d r w))"
    by (auto simp: beginDeleteWithFinalSnapshot_def typed_same [OF same_audit] typed_same [OF same_event]
        dest!: u same_StartD typed_sameD split: prod.split sum.split option.split)
qed

lemma typed_delete_offline: "typed w \<Longrightarrow> typed (snd (delete_offline i d r w))"
proof -
  have u: "typed w2" if "DeleteDatabaseInstance i (dbEvent i k m r w1) = (x, w2)" "typed w1"
    for i k m r x and w1 w2 :: "'a api_world_scheme"
    using typed_retire [of "dbEvent i k m r w1" i] that typed_same [OF same_event] by (metis snd_conv)
  show "typed w \<Longrightarrow> typed (snd (delete_offline i d r w))"
    by (auto simp: delete_offline_def Let_def typed_same [OF same_audit] typed_same [OF same_event]
        dest!: u split: prod.split option.split)
qed

lemma typed_HandleDelete: "typed w \<Longrightarrow> typed (snd (HandleDeleteDatabaseInstance r w))"
proof -
  assume w: "typed w"
  have b: "typed (logAudit r a t i n (BeginDeleting j x (dbEvent k ev m r w1)))" if "typed w1"
    for a t i n j x k ev m and w1 :: "'a api_world_scheme"
    using typed.keep_BeginDeleting [of "dbEvent k ev m r w1" j x] that typed_same [OF same_event] typed_same [OF same_audit] by blast
  show ?thesis
    unfolding HandleDeleteDatabaseInstance_def using w
    by (auto intro!: b typed_begin_final typed_delete_offline dest!: same_GetD same_sendD typed_sameD
        split: prod.split sum.split option.split)
qed

lemma typed_HandleAction: "typed w \<Longrightarrow> typed (snd (HandleDatabaseAction r w))"
  unfolding HandleDatabaseAction_def Let_def
  by (auto simp: typed_same [OF same_audit] typed_same [OF same_event] dest!: same_GetD same_sendD typed_sameD
      split: prod.split sum.split option.split)

lemma typed_HandleSnapshot: "typed w \<Longrightarrow> typed (snd (HandleCreateSnapshot r w))"
  unfolding HandleCreateSnapshot_def loadInstanceForObservability_def
  by (auto simp: typed_same [OF same_audit] typed_same [OF same_event] dest!: same_GetD same_StartD typed_sameD
      split: prod.split sum.split option.split)

text \<open>A request that writes, or anything the lifecycle does, one at a time and in any order.\<close>

datatype api_op =
    OpCreateInstance httpRequest
  | OpUpdateInstance httpRequest
  | OpDeleteInstance httpRequest
  | OpActOnInstance httpRequest
  | OpTakeSnapshot httpRequest
  | OpLifecycle life_op

fun api_step :: "api_op \<Rightarrow> 'a api_world_scheme \<Rightarrow> 'a api_world_scheme" where
  "api_step (OpCreateInstance r) w = snd (HandleCreateDatabaseInstance r w)"
| "api_step (OpUpdateInstance r) w = snd (HandleUpdateDatabaseInstance r w)"
| "api_step (OpDeleteInstance r) w = snd (HandleDeleteDatabaseInstance r w)"
| "api_step (OpActOnInstance r) w = snd (HandleDatabaseAction r w)"
| "api_step (OpTakeSnapshot r) w = snd (HandleCreateSnapshot r w)"
| "api_step (OpLifecycle op) w = life_step op w"

lemma typed_api_step: "typed w \<Longrightarrow> typed (api_step op w)"
  using typed.keep_life_steps [of w "[life]" for life]
  by (cases op) (simp_all add: typed_HandleCreate typed_HandleUpdate typed_HandleDelete typed_HandleAction typed_HandleSnapshot)

section \<open>Properties of the handlers\<close>

definition request :: httpRequest where
  "request = \<lparr>hr_Vars = [(''id'', ''1'')], hr_Query = [], hr_Path = ''/'', hr_Body = Inr (JObj []), hr_User = None, hr_IP = ''10.0.0.1''\<rparr>"

definition api_start :: "databaseInstance \<Rightarrow> api_world" where
  "api_start d = backup_world.extend (sched_world\<lparr>d_instances := [d]\<rparr>)
     \<lparr>a_workers = [], a_audits = [], a_rand = (\<lambda>_. Inr ''00''), a_drawn = 0\<rparr>"

text \<open>
  C31. The type invariant of a database row. Status and health stay within the closed
  vocabularies the platform knows, through every sequence of requests (creating, updating with
  any body, deleting, acting, taking a snapshot) and everything the lifecycle, the workers'
  replies and reports and the watchdog do, with the database failing in any way.
\<close>

theorem vocabulary_closed:
  assumes "typed w"
  shows "typed (fold api_step ops w)"
  using assms by (induction ops arbitrary: w) (simp_all add: typed_api_step)

definition nonsense :: httpRequest where
  "nonsense = request\<lparr>hr_Body := Inr (JObj [(''status'', JStr ''on fire'')])\<rparr>"

theorem vocabulary_closed_witness:
  "typed (api_start sched_db) \<and> typed (fold api_step [OpUpdateInstance nonsense, OpLifecycle (OpBeginDeleting 1 ''ops'')] (api_start sched_db))
   \<and> fst (HandleUpdateDatabaseInstance nonsense (api_start sched_db)) =
       SendError 400 ''status must be one of: pending, provisioning, running, stopped, restarting, degraded, deleting, error'' None"
proof -
  have t: "typed (api_start sched_db)" by code_simp
  moreover have "fst (HandleUpdateDatabaseInstance nonsense (api_start sched_db)) =
       SendError 400 ''status must be one of: pending, provisioning, running, stopped, restarting, degraded, deleting, error'' None"
    by code_simp
  ultimately show ?thesis using vocabulary_closed [OF t] by blast
qed

lemma query_io: "\<exists>c s. snd (query q w) = w\<lparr>clock := c, db_script := s\<rparr>"
proof (rule exec_cases [where w = w and f = "\<lambda>w. (q w, w)"])
  fix w0 assume "w0 = w\<lparr>clock := clock w0, db_script := db_script w0\<rparr>"
    "exec (\<lambda>w. (q w, w)) w = (Inr (fst (q w0, w0)), snd (q w0, w0))"
  then show ?thesis unfolding query_def by (metis snd_conv)
qed (auto simp: query_def)

lemma protected_delete:
  assumes "path_int r ''id'' = Some i" "select_instance i (d_instances w) = Some d" "di_DeletionProtection d"
  shows "(\<exists>c s. snd (HandleDeleteDatabaseInstance r w) = w\<lparr>clock := c, db_script := s\<rparr>) \<and>
    (\<exists>st m code e. fst (HandleDeleteDatabaseInstance r w) = Failure st m code e)"
proof -
  obtain x w1 where g: "GetDatabaseInstanceByID i w = (x, w1)" by force
  have "w1 = snd (GetDatabaseInstanceByID i w)" using g by simp
  then have w1: "\<exists>c s. w1 = w\<lparr>clock := c, db_script := s\<rparr>" using query_io by (auto simp: snd_Get)
  show ?thesis
  proof (cases x)
    case (Inl e)
    then show ?thesis using assms(1) g w1 by (simp add: HandleDeleteDatabaseInstance_def QueryError_def NotFound_def SendError_def)
  next
    case (Inr d')
    then obtain d0 where "select_instance i (d_instances w) = Some d0" "same_row d0 d'" using g Get_Inr by metis
    then have "di_DeletionProtection d'" using assms(2,3) by (auto simp: same_row_def dest: arg_cong [where f = di_DeletionProtection])
    then show ?thesis using assms(1) g w1 Inr by (simp add: HandleDeleteDatabaseInstance_def SendError_def)
  qed
qed

text \<open>
  Deletion protection. While an instance is protected, no number of DELETE requests, plain,
  forced or with a final snapshot, from anyone, changes anything at all: no row, no event, no
  audit entry, no command to a worker. Each is refused.
\<close>

theorem deletion_protection_holds:
  assumes "\<forall>r \<in> set rs. \<exists>i d. path_int r ''id'' = Some i \<and> select_instance i (d_instances w) = Some d \<and> di_DeletionProtection d"
  shows "(\<exists>c s. fold (\<lambda>r w. snd (HandleDeleteDatabaseInstance r w)) rs w = w\<lparr>clock := c, db_script := s\<rparr>) \<and>
    (\<forall>r \<in> set rs. \<exists>st m code e. fst (HandleDeleteDatabaseInstance r w) = Failure st m code e)"
proof
  show "\<forall>r \<in> set rs. \<exists>st m code e. fst (HandleDeleteDatabaseInstance r w) = Failure st m code e"
    using assms protected_delete by blast
  show "\<exists>c s. fold (\<lambda>r w. snd (HandleDeleteDatabaseInstance r w)) rs w = w\<lparr>clock := c, db_script := s\<rparr>"
    using assms
  proof (induction rs arbitrary: w)
    case Nil
    have "w = w\<lparr>clock := clock w, db_script := db_script w\<rparr>" by simp
    then show ?case by (metis fold_simps(1))
  next
    case (Cons r rs)
    then obtain c s where w1: "snd (HandleDeleteDatabaseInstance r w) = w\<lparr>clock := c, db_script := s\<rparr>"
      using protected_delete by (metis list.set_intros(1))
    then have "\<exists>c' s'. fold (\<lambda>r w. snd (HandleDeleteDatabaseInstance r w)) rs (w\<lparr>clock := c, db_script := s\<rparr>) =
        w\<lparr>clock := c, db_script := s\<rparr>\<lparr>clock := c', db_script := s'\<rparr>"
      using Cons.prems by (intro Cons.IH) simp
    then show ?case using w1 by simp
  qed
qed

definition forced :: httpRequest where "forced = request\<lparr>hr_Query := [(''force'', ''true'')]\<rparr>"

theorem deletion_protection_holds_witness:
  "di_Active (sched_db\<lparr>di_DeletionProtection := True\<rparr>) \<and>
   (\<exists>c s. fold (\<lambda>r w. snd (HandleDeleteDatabaseInstance r w)) [request, forced] (api_start (sched_db\<lparr>di_DeletionProtection := True\<rparr>)) =
      (api_start (sched_db\<lparr>di_DeletionProtection := True\<rparr>))\<lparr>clock := c, db_script := s\<rparr>)"
proof -
  have "path_int request ''id'' = Some 1" "path_int forced ''id'' = Some 1"
    "select_instance 1 (d_instances (api_start (sched_db\<lparr>di_DeletionProtection := True\<rparr>))) = Some (sched_db\<lparr>di_DeletionProtection := True\<rparr>)"
    "di_DeletionProtection (sched_db\<lparr>di_DeletionProtection := True\<rparr>)" "di_Active (sched_db\<lparr>di_DeletionProtection := True\<rparr>)"
    by code_simp+
  then show ?thesis
    using deletion_protection_holds [of "[request, forced]" "api_start (sched_db\<lparr>di_DeletionProtection := True\<rparr>)"] by auto
qed

text \<open>
  A status can be changed without the lifecycle: a PATCH that sets it writes the row, leaves no
  event and no broadcast, and can leave an instance in \<^verbatim>\<open>error\<close> with nothing to explain it.
\<close>

definition patch_error :: httpRequest where
  "patch_error = request\<lparr>hr_Body := Inr (JObj [(''status'', JStr ''error'')])\<rparr>"

lemma patched_status_is_silent:
  "(let w = snd (HandleUpdateDatabaseInstance patch_error (api_start sched_db)) in
    map (\<lambda>d. (di_Status d, di_LastError d)) (d_instances w) = [(''error'', None)] \<and> d_events w = [] \<and> d_broadcasts w = [])"
  by code_simp

section \<open>The console's command line\<close>

text \<open>
  How a POSIX shell splits a simple command into words: outside quotes a blank ends a word, a
  backslash takes the next byte as it is and a single quote opens a quoted part, which runs to
  the next single quote. Any byte with a meaning of its own makes the command not simple
  (\<open>None\<close>), as does an unterminated quote. The first argument is whether a quote is open, the
  second the word being read.
\<close>

definition shell_special :: "char \<Rightarrow> bool" where
  "shell_special c \<longleftrightarrow> c \<in> set ''|&;<>()$`*?[]#~!{}'' \<or> c = CHR 0x22 \<or> c = CHR 0x0A \<or> c = CHR 0x0D"

definition word_so_far :: "string option \<Rightarrow> string" where
  "word_so_far cur = (case cur of None \<Rightarrow> [] | Some x \<Rightarrow> x)"

fun shell_words :: "bool \<Rightarrow> string option \<Rightarrow> string \<Rightarrow> string list option" where
  "shell_words True cur [] = None"
| "shell_words False cur [] = Some (case cur of None \<Rightarrow> [] | Some x \<Rightarrow> [x])"
| "shell_words True cur (c # cs) =
     (if c = CHR 0x27 then shell_words False (Some (word_so_far cur)) cs
      else shell_words True (Some (word_so_far cur @ [c])) cs)"
| "shell_words False cur (c # cs) =
     (if c = CHR 0x27 then shell_words True (Some (word_so_far cur)) cs
      else if c = CHR 0x5C then (case cs of [] \<Rightarrow> None | x # xs \<Rightarrow> shell_words False (Some (word_so_far cur @ [x])) xs)
      else if c = CHR '' '' \<or> c = CHR 0x09
      then map_option (append (case cur of None \<Rightarrow> [] | Some x \<Rightarrow> [x])) (shell_words False None cs)
      else if shell_special c then None
      else shell_words False (Some (word_so_far cur @ [c])) cs)"

lemma words_quoted:
  "shell_words True (Some x) (concat (map quote_byte s) @ CHR 0x27 # rest) = shell_words False (Some (x @ s)) rest"
  by (induction s arbitrary: x) (simp_all add: quote_byte_def word_so_far_def)

lemma words_shellQuote [simp]:
  "shell_words False cur (shellQuote s @ rest) = shell_words False (Some (word_so_far cur @ s)) rest"
  by (simp add: shellQuote_def words_quoted)

definition plain_byte :: "char \<Rightarrow> bool" where
  "plain_byte c \<longleftrightarrow> c \<noteq> CHR 0x27 \<and> c \<noteq> CHR 0x5C \<and> c \<noteq> CHR '' '' \<and> c \<noteq> CHR 0x09 \<and> \<not> shell_special c"

lemma words_plain:
  "list_all plain_byte xs \<Longrightarrow> xs \<noteq> [] \<Longrightarrow> shell_words False cur (xs @ rest) = shell_words False (Some (word_so_far cur @ xs)) rest"
proof (induction xs arbitrary: cur)
  case (Cons c cs)
  then show ?case by (cases "cs = []") (simp_all add: plain_byte_def word_so_far_def)
qed simp

lemma words_blank: "shell_words False (Some x) ('' '' @ rest) = map_option ((#) x) (shell_words False None rest)"
proof -
  have "(@) [x] = (#) x" by (rule ext) simp
  then show ?thesis by simp
qed

lemma words_last: "shell_words False cur (shellQuote s) = Some [word_so_far cur @ s]"
  using words_shellQuote [of cur s "[]"] by simp

text \<open>
  C32. The shell reads back exactly what was quoted. Whatever bytes the password, the user name
  and the database name of a PostgreSQL instance hold (quotes, backslashes, semicolons, dollar
  signs, newlines), the command line built for the console splits into the seven intended
  words, each value intact: none of it is ever interpreted.
\<close>

theorem console_command_is_safe:
  "di_Engine d = ''postgres'' \<Longrightarrow> \<exists>line. console_command d = Some [''sh'', ''-c'', line] \<and>
     shell_words False None line =
       Some [''PGPASSWORD='' @ plain (di_Password d), ''exec'', ''psql'', ''-U'', di_Username d, ''-d'', di_DatabaseName d]"
proof -
  assume e: "di_Engine d = ''postgres''"
  have w: "shell_words False None (''PGPASSWORD='' @ rest) = shell_words False (Some ''PGPASSWORD='') rest"
    "shell_words False None (''exec'' @ rest) = shell_words False (Some ''exec'') rest"
    "shell_words False None (''psql'' @ rest) = shell_words False (Some ''psql'') rest"
    "shell_words False None (''-U'' @ rest) = shell_words False (Some ''-U'') rest"
    "shell_words False None (''-d'' @ rest) = shell_words False (Some ''-d'') rest" for rest
    by (subst words_plain; code_simp)+
  define line where "line = ''PGPASSWORD='' @ shellQuote (plain (di_Password d)) @ '' '' @ ''exec'' @ '' '' @ ''psql'' @ '' '' @ ''-U'' @ '' '' @
    shellQuote (di_Username d) @ '' '' @ ''-d'' @ '' '' @ shellQuote (di_DatabaseName d) @ []"
  have "shell_words False None line =
       Some [''PGPASSWORD='' @ plain (di_Password d), ''exec'', ''psql'', ''-U'', di_Username d, ''-d'', di_DatabaseName d]"
    unfolding line_def w words_shellQuote by (simp add: w words_blank words_last word_so_far_def del: append.simps)
  moreover have "console_command d = Some [''sh'', ''-c'', line]"
    using e by (simp add: console_command_def line_def)
  ultimately show ?thesis by blast
qed

definition hostile :: databaseInstance where
  "hostile = db0\<lparr>di_Password := Some ([CHR 0x27] @ ''; rm -rf /'')\<rparr>"

theorem console_command_is_safe_witness:
  "di_Engine hostile = ''postgres'' \<and> (\<exists>line. console_command hostile = Some [''sh'', ''-c'', line] \<and>
     shell_words False None line =
       Some [''PGPASSWORD='' @ [CHR 0x27] @ ''; rm -rf /'', ''exec'', ''psql'', ''-U'', ''app'', ''-d'', ''orders''])"
proof -
  have "di_Engine hostile = ''postgres''" "plain (di_Password hostile) = [CHR 0x27] @ ''; rm -rf /''"
    "di_Username hostile = ''app''" "di_DatabaseName hostile = ''orders''"
    by (simp_all add: hostile_def db0_def plain_def)
  then show ?thesis using console_command_is_safe [of hostile] by (simp del: append.simps)
qed

text \<open>
  Opening a console hands out the password. The comment in the handler says the credentials
  go into the exec argv rather than back to the browser; but the argv is part of the response,
  so for a MySQL or MariaDB instance the client receives the application password in clear, and
  the instance's history records that a console was opened, not that credentials were revealed.
\<close>

theorem console_returns_password:
  assumes "db_script w = []" "path_int r ''id'' = Some i" "i \<noteq> 0" "select_instance i (d_instances w) = Some d"
    and "scanDatabaseInstance w d = Inr d'" "di_Password d' = Some pw" "worker_connected (di_WorkerID d') w"
    and "di_Status d' = DBStatusRunning" "di_Engine d' = ''mysql'' \<or> di_Engine d' = ''mariadb''"
  shows "\<exists>m client. fst (HandleOpenDatabaseConsole r w) = New (DataMap m) ''database console authorised'' \<and>
     map_of m ''cmd'' = Some (JList [JStr client, JStr ''-u'', JStr (di_Username d'), JStr (''-p'' @ pw), JStr (di_DatabaseName d')]) \<and>
     map ev_Kind (d_events (snd (HandleOpenDatabaseConsole r w))) = map ev_Kind (d_events w) @ [DBEventConsoleOpen]"
proof -
  have g: "GetDatabaseInstanceByID i w = (Inr d', w)"
    using assms(1,4,5) by (simp add: GetDatabaseInstanceByID_def query_quiet)
  define client where "client = (if di_Engine d' = ''mysql'' then ''mysql'' else ''mariadb'')"
  have c: "console_command d' = Some [client, ''-u'', di_Username d', ''-p'' @ pw, di_DatabaseName d']"
    using assms(6,9) by (auto simp: console_command_def plain_def client_def)
  have e: "map ev_Kind (d_events (dbEvent i DBEventConsoleOpen msg r w)) = map ev_Kind (d_events w) @ [DBEventConsoleOpen]" for msg
    using assms(1,3) by (simp add: dbEvent_def CreateDatabaseInstanceEvent_def exec_unit_quiet DBEventConsoleOpen_def)
  show ?thesis
    using assms(2,7,8) g c e by (simp add: HandleOpenDatabaseConsole_def loadInstanceForObservability_def logAudit_def New_def)
qed

definition mariadb :: databaseInstance where
  "mariadb = sched_db\<lparr>di_Engine := ''mariadb'', di_Password := Some ''hunter2''\<rparr>"

theorem console_returns_password_witness:
  "\<exists>m client. fst (HandleOpenDatabaseConsole request (api_start mariadb)) = New (DataMap m) ''database console authorised'' \<and>
     map_of m ''cmd'' = Some (JList [JStr client, JStr ''-u'', JStr ''app'', JStr (''-p'' @ ''hunter2''), JStr ''orders''])"
proof -
  have "db_script (api_start mariadb) = []" "path_int request ''id'' = Some 1" "(1 :: int) \<noteq> 0"
    "select_instance 1 (d_instances (api_start mariadb)) = Some mariadb" "scanDatabaseInstance (api_start mariadb) mariadb = Inr mariadb"
    "di_Password mariadb = Some ''hunter2''" "worker_connected (di_WorkerID mariadb) (api_start mariadb)"
    "di_Status mariadb = DBStatusRunning" "di_Engine mariadb = ''mysql'' \<or> di_Engine mariadb = ''mariadb''"
    by code_simp+
  from console_returns_password [OF this] show ?thesis
    by (auto simp: mariadb_def sched_db_def db0_def simp del: append.simps)
qed

end
