(* ===== verification/Log_Pipeline.thy ===== *)
theory Log_Pipeline
  imports Http Scheduler "HOL-Library.Multiset"
begin

text \<open>
  The path of a container log line (\<^verbatim>\<open>message_handlers.go\<close>, \<^verbatim>\<open>container_cache.go\<close>,
  \<^verbatim>\<open>container_log_batcher.go\<close>, \<^verbatim>\<open>query/container_logs.query.go\<close>): the handler resolves the container's
  name through a cache, the batcher queues the line, a writer goroutine stores lines in multi-row
  INSERTs and falls back to one row per statement when a batch is refused.

  The batcher is modelled as the code has it, with the two storage functions as fields. What it
  needs of them is the locale \<open>log_sink\<close>; the two INSERTs of the query package are its
  interpretation. The goroutines interleave as a sequence of steps: an \<^verbatim>\<open>Add\<close> by a handler, a receive
  or a tick by the writer, a \<^verbatim>\<open>Close\<close> at shutdown. A step returns what became of the lines it disposed
  of: acknowledged by the database, or reported in the error log.
\<close>

section \<open>Log rows\<close>

record createContainerLogRequest =
  cl_ContainerID :: "int option"
  cl_ContainerName :: "string option"
  cl_WorkerID :: int
  cl_Stream :: string
  cl_Message :: string
  cl_RecordedAt :: "time option"

record containerLog =
  lg_ID :: int
  lg_ContainerID :: "int option"
  lg_ContainerName :: "string option"
  lg_WorkerID :: int
  lg_Stream :: string
  lg_Message :: string
  lg_RecordedAt :: time

text \<open>A name's entry with the instant it was cached, and the names known to be absent.\<close>

record containerCache =
  cc_entries :: "string \<rightharpoonup> container \<times> time"
  cc_unmanaged :: "string \<rightharpoonup> time"

record log_world = api_world +
  container_logs :: "containerLog list"
  next_log_id :: int
  name_cache :: containerCache

text \<open>\<^verbatim>\<open>DATETIME(6)\<close> keeps microseconds.\<close>

definition usec :: "time \<Rightarrow> time" where "usec t = truncate_to t 1000"

definition recorded_at :: "createContainerLogRequest \<Rightarrow> time \<Rightarrow> time" where
  "recorded_at r now = usec (case cl_RecordedAt r of Some t \<Rightarrow> t | None \<Rightarrow> now)"

text \<open>
  The unique index on container, instant and message; a NULL container never conflicts.
\<close>

definition replayed :: "createContainerLogRequest \<Rightarrow> time \<Rightarrow> containerLog \<Rightarrow> bool" where
  "replayed r now l \<longleftrightarrow>
     cl_ContainerID r \<noteq> None \<and> lg_ContainerID l = cl_ContainerID r \<and> lg_RecordedAt l = recorded_at r now \<and> lg_Message l = cl_Message r"

text \<open>One row of an INSERT with \<^verbatim>\<open>ON DUPLICATE KEY UPDATE id = id\<close>.\<close>

definition insert_log :: "createContainerLogRequest \<Rightarrow> 'a log_world_scheme \<Rightarrow> 'a log_world_scheme" where
  "insert_log r w =
     (if list_ex (replayed r (clock w)) (container_logs w) then w
      else w\<lparr>container_logs := container_logs w @
        [\<lparr>lg_ID = next_log_id w, lg_ContainerID = cl_ContainerID r, lg_ContainerName = cl_ContainerName r,
          lg_WorkerID = cl_WorkerID r, lg_Stream = cl_Stream r, lg_Message = cl_Message r, lg_RecordedAt = recorded_at r (clock w)\<rparr>],
        next_log_id := next_log_id w + 1\<rparr>)"

definition CreateContainerLog :: "createContainerLogRequest \<Rightarrow> 'a log_world_scheme \<Rightarrow> go_error option \<times> 'a log_world_scheme" where
  "CreateContainerLog r w = exec_unit (insert_log r) w"

definition CreateContainerLogs :: "createContainerLogRequest list \<Rightarrow> 'a log_world_scheme \<Rightarrow> go_error option \<times> 'a log_world_scheme" where
  "CreateContainerLogs rs w = (if rs = [] then (None, w) else exec_unit (fold insert_log rs) w)"

record listLogsRequest =
  ll_Limit :: int
  ll_Offset :: int
  ll_WorkerID :: "int option"
  ll_ContainerID :: "int option"
  ll_ContainerName :: "string option"
  ll_Stream :: "string option"

definition log_matches :: "listLogsRequest \<Rightarrow> containerLog \<Rightarrow> bool" where
  "log_matches q l \<longleftrightarrow>
     (case ll_WorkerID q of None \<Rightarrow> True | Some i \<Rightarrow> lg_WorkerID l = i) \<and>
     (case (ll_ContainerID q, ll_ContainerName q) of
        (Some i, Some n) \<Rightarrow> lg_ContainerID l = Some i \<or> lg_ContainerID l = None \<and> lg_ContainerName l = Some n
      | (Some i, None) \<Rightarrow> lg_ContainerID l = Some i
      | (None, Some n) \<Rightarrow> lg_ContainerName l = Some n
      | (None, None) \<Rightarrow> True) \<and>
     (case ll_Stream q of None \<Rightarrow> True | Some s \<Rightarrow> lg_Stream l = s)"

definition ListContainerLogs :: "listLogsRequest \<Rightarrow> 'a log_world_scheme \<Rightarrow> (go_error + containerLog list) \<times> 'a log_world_scheme" where
  "ListContainerLogs q w =
     (case query (\<lambda>w. page (ll_Limit q) (ll_Offset q) (sort_key (\<lambda>l. - lg_RecordedAt l) (filter (log_matches q) (container_logs w)))) w of
        (Inl e, w1) \<Rightarrow> (Inl (''failed to execute sql query: '' @ e), w1)
      | (Inr ls, w1) \<Rightarrow> (Inr ls, w1))"

section \<open>The name cache\<close>

definition cacheTTL :: duration where "cacheTTL = 60 * Second"
definition unmanagedTTL :: duration where "unmanagedTTL = 5 * Minute"
definition errUnmanagedContainer :: go_error where "errUnmanagedContainer = ''container name is not managed by lattice''"

definition newContainerCache :: containerCache where
  "newContainerCache = \<lparr>cc_entries = Map.empty, cc_unmanaged = Map.empty\<rparr>"

text \<open>\<^verbatim>\<open>sql.ErrNoRows\<close>, wrapped by the getter.\<close>

definition no_container_row :: go_error where
  "no_container_row = ''failed to scan container: sql: no rows in result set''"

definition GetContainerByName :: "string \<Rightarrow> 'a tables_scheme \<Rightarrow> (go_error + container) \<times> 'a tables_scheme" where
  "GetContainerByName name w =
     (case query (\<lambda>w. rev (sort_key c_ID (filter (\<lambda>c. c_Name c = name \<and> c_Active c) (containers w)))) w of
        (Inl e, w1) \<Rightarrow> (Inl (''failed to scan container: '' @ e), w1)
      | (Inr [], w1) \<Rightarrow> (Inl no_container_row, w1)
      | (Inr (c # _), w1) \<Rightarrow> (Inr c, w1))"

definition cached :: "string \<Rightarrow> 'a log_world_scheme \<Rightarrow> container option" where
  "cached name w =
     (case cc_entries (name_cache w) name of
        None \<Rightarrow> None
      | Some (c, t) \<Rightarrow> if clock w - t < cacheTTL then Some c else None)"

definition cache_GetContainerByName :: "string \<Rightarrow> 'a log_world_scheme \<Rightarrow> (go_error + container) \<times> 'a log_world_scheme" where
  "cache_GetContainerByName name w =
     (case cached name w of
        Some c \<Rightarrow> (Inr c, w)
      | None \<Rightarrow>
          (case GetContainerByName name w of
             (Inl e, w1) \<Rightarrow> (Inl e, w1)
           | (Inr c, w1) \<Rightarrow>
               (Inr c, w1\<lparr>name_cache := \<lparr>cc_entries = (cc_entries (name_cache w1))(name \<mapsto> (c, clock w1)),
                                          cc_unmanaged = (cc_unmanaged (name_cache w1))(name := None)\<rparr>\<rparr>)))"

definition known_absent :: "string \<Rightarrow> 'a log_world_scheme \<Rightarrow> bool" where
  "known_absent name w = (case cc_unmanaged (name_cache w) name of None \<Rightarrow> False | Some t \<Rightarrow> clock w - t < unmanagedTTL)"

definition LookupForLog :: "string \<Rightarrow> 'a log_world_scheme \<Rightarrow> (go_error + container) \<times> 'a log_world_scheme" where
  "LookupForLog name w =
     (if known_absent name w then (Inl errUnmanagedContainer, w)
      else case cache_GetContainerByName name w of
        (Inl e, w1) \<Rightarrow>
          (Inl e, if e = no_container_row
                  then w1\<lparr>name_cache := (name_cache w1)\<lparr>cc_unmanaged := (cc_unmanaged (name_cache w1))(name \<mapsto> clock w1)\<rparr>\<rparr>
                  else w1)
      | (Inr c, w1) \<Rightarrow> (Inr c, w1))"

definition Invalidate :: "string \<Rightarrow> containerCache \<Rightarrow> containerCache" where
  "Invalidate name c = \<lparr>cc_entries = (cc_entries c)(name := None), cc_unmanaged = (cc_unmanaged c)(name := None)\<rparr>"

definition InvalidateAll :: "containerCache \<Rightarrow> containerCache" where
  "InvalidateAll c = newContainerCache"

definition evictExpired :: "time \<Rightarrow> containerCache \<Rightarrow> containerCache" where
  "evictExpired now c =
     \<lparr>cc_entries = (\<lambda>n. case cc_entries c n of
                          Some (x, t) \<Rightarrow> if now - t \<ge> cacheTTL then None else Some (x, t) | None \<Rightarrow> None),
      cc_unmanaged = (\<lambda>n. case cc_unmanaged c n of
                          Some t \<Rightarrow> if now - t \<ge> unmanagedTTL then None else Some t | None \<Rightarrow> None)\<rparr>"

section \<open>The batcher\<close>

definition logBatchMaxRows :: nat where "logBatchMaxRows = 200"
definition logBatchMaxBytes :: nat where "logBatchMaxBytes = 2 ^ 20"
definition logBatchQueue :: nat where "logBatchQueue = 10000"

text \<open>
  The struct, and the locals \<^verbatim>\<open>batch\<close> and \<^verbatim>\<open>size\<close> of its writer. \<open>lb_in\<close> is the channel's buffer, with
  \<open>lb_queue\<close> its capacity.
\<close>

record 's containerLogBatcher =
  lb_in :: "createContainerLogRequest list"
  lb_queue :: nat
  lb_flush :: "createContainerLogRequest list \<Rightarrow> 's \<Rightarrow> go_error option \<times> 's"
  lb_single :: "createContainerLogRequest \<Rightarrow> 's \<Rightarrow> go_error option \<times> 's"
  lb_maxRows :: nat
  lb_maxBytes :: nat
  lb_closed :: bool
  lb_started :: bool
  lb_done :: bool
  lb_batch :: "createContainerLogRequest list"
  lb_size :: nat

definition newContainerLogBatcher ::
  "(createContainerLogRequest list \<Rightarrow> 's \<Rightarrow> go_error option \<times> 's) \<Rightarrow>
   (createContainerLogRequest \<Rightarrow> 's \<Rightarrow> go_error option \<times> 's) \<Rightarrow> nat \<Rightarrow> nat \<Rightarrow> nat \<Rightarrow> 's containerLogBatcher" where
  "newContainerLogBatcher flush single maxRows maxBytes queue =
     \<lparr>lb_in = [], lb_queue = queue, lb_flush = flush, lb_single = single, lb_maxRows = maxRows, lb_maxBytes = maxBytes,
      lb_closed = False, lb_started = False, lb_done = False, lb_batch = [], lb_size = 0\<rparr>"

text \<open>What became of a line: the database acknowledged it, or its failure was logged.\<close>

datatype resolution = Acked (line: createContainerLogRequest) | Reported (line: createContainerLogRequest)

definition storeOne ::
  "'s containerLogBatcher \<Rightarrow> createContainerLogRequest \<Rightarrow> 's \<Rightarrow> resolution list \<times> 's" where
  "storeOne b r s = (case lb_single b r s of (None, s1) \<Rightarrow> ([Acked r], s1) | (Some _, s1) \<Rightarrow> ([Reported r], s1))"

fun store_rows ::
  "'s containerLogBatcher \<Rightarrow> createContainerLogRequest list \<Rightarrow> 's \<Rightarrow> resolution list \<times> 's" where
  "store_rows b [] s = ([], s)"
| "store_rows b (r # rs) s =
     (let (e1, s1) = storeOne b r s; (e2, s2) = store_rows b rs s1 in (e1 @ e2, s2))"

definition write_batch ::
  "'s containerLogBatcher \<Rightarrow> createContainerLogRequest list \<Rightarrow> 's \<Rightarrow> resolution list \<times> 's" where
  "write_batch b batch s =
     (case lb_flush b batch s of
        (None, s1) \<Rightarrow> (map Acked batch, s1)
      | (Some _, s1) \<Rightarrow> store_rows b batch s1)"

text \<open>The writer's closure: write the pending batch, if any, and start a new one.\<close>

definition write_pending :: "'s containerLogBatcher \<Rightarrow> 's \<Rightarrow> resolution list \<times> 's containerLogBatcher \<times> 's" where
  "write_pending b s =
     (if lb_batch b = [] then ([], b, s)
      else let (es, s1) = write_batch b (lb_batch b) s in (es, b\<lparr>lb_batch := [], lb_size := 0\<rparr>, s1))"

definition Start :: "'s containerLogBatcher \<Rightarrow> 's containerLogBatcher" where
  "Start b = b\<lparr>lb_started := True\<rparr>"

definition Add ::
  "createContainerLogRequest \<Rightarrow> 's containerLogBatcher \<Rightarrow> 's \<Rightarrow> resolution list \<times> 's containerLogBatcher \<times> 's" where
  "Add r b s =
     (if \<not> lb_closed b \<and> length (lb_in b) < lb_queue b then ([], b\<lparr>lb_in := lb_in b @ [r]\<rparr>, s)
      else let (es, s1) = storeOne b r s in (es, b, s1))"

definition Close :: "'s containerLogBatcher \<Rightarrow> 's containerLogBatcher" where
  "Close b = Start (b\<lparr>lb_closed := True\<rparr>)"

text \<open>
  One turn of the writer's loop on the channel: nothing while it is empty and open, the last write
  and the end once it is empty and closed.
\<close>

definition receive :: "'s containerLogBatcher \<Rightarrow> 's \<Rightarrow> resolution list \<times> 's containerLogBatcher \<times> 's" where
  "receive b s =
     (case lb_in b of
        [] \<Rightarrow> if lb_closed b
              then let (es, b1, s1) = write_pending b s in (es, b1\<lparr>lb_done := True\<rparr>, s1)
              else ([], b, s)
      | r # rest \<Rightarrow>
          (let b1 = b\<lparr>lb_in := rest, lb_batch := lb_batch b @ [r], lb_size := lb_size b + length (cl_Message r)\<rparr>
           in if length (lb_batch b1) \<ge> lb_maxRows b1 \<or> lb_size b1 \<ge> lb_maxBytes b1
              then write_pending b1 s else ([], b1, s)))"

datatype log_op = OpStart | OpAdd createContainerLogRequest | OpReceive | OpTick | OpClose

fun log_step ::
  "log_op \<Rightarrow> 's containerLogBatcher \<Rightarrow> 's \<Rightarrow> resolution list \<times> 's containerLogBatcher \<times> 's" where
  "log_step OpStart b s = ([], Start b, s)"
| "log_step (OpAdd r) b s = Add r b s"
| "log_step OpReceive b s = (if lb_started b \<and> \<not> lb_done b then receive b s else ([], b, s))"
| "log_step OpTick b s = (if lb_started b \<and> \<not> lb_done b then write_pending b s else ([], b, s))"
| "log_step OpClose b s = ([], Close b, s)"

fun log_run ::
  "log_op list \<Rightarrow> 's containerLogBatcher \<Rightarrow> 's \<Rightarrow> resolution list \<times> 's containerLogBatcher \<times> 's" where
  "log_run [] b s = ([], b, s)"
| "log_run (x # xs) b s =
     (let (e1, b1, s1) = log_step x b s; (e2, b2, s2) = log_run xs b1 s1 in (e1 @ e2, b2, s2))"

text \<open>The handler of a log message; \<open>parse_time\<close> is \<^verbatim>\<open>time.Parse(time.RFC3339Nano, \<dots>)\<close>.\<close>

definition handleContainerLog ::
  "(string \<Rightarrow> time option) \<Rightarrow> int \<Rightarrow> (string \<times> json) list \<Rightarrow> 'a log_world_scheme containerLogBatcher \<Rightarrow> 'a log_world_scheme \<Rightarrow>
   resolution list \<times> 'a log_world_scheme containerLogBatcher \<times> 'a log_world_scheme" where
  "handleContainerLog parse_time workerID p b w =
     (if payload_str p ''message'' = [] then ([], b, w)
      else let name = payload_str p ''container_name'';
               stream = (case map_of p ''stream'' of Some (JStr s) \<Rightarrow> s | _ \<Rightarrow> ''stdout'');
               (found, w1) = (if name = [] then (None, w)
                              else case LookupForLog name w of (Inl _, w1) \<Rightarrow> (None, w1) | (Inr c, w1) \<Rightarrow> (Some (c_ID c), w1));
               ts = payload_str p ''recorded_at''
           in Add \<lparr>cl_ContainerID = found, cl_ContainerName = (if name = [] then None else Some name), cl_WorkerID = workerID,
                   cl_Stream = stream, cl_Message = payload_str p ''message'',
                   cl_RecordedAt = (if ts = [] then None else parse_time ts)\<rparr> b w1)"

section \<open>Nothing is lost in the batcher\<close>

text \<open>
  The abstract store has two bags: the lines accepted and not yet disposed of, and the lines
  disposed of. A line is accepted, and accepted lines are disposed of; nothing else happens.
\<close>

inductive spec_step ::
  "createContainerLogRequest multiset \<times> createContainerLogRequest multiset \<Rightarrow>
   createContainerLogRequest multiset \<times> createContainerLogRequest multiset \<Rightarrow> bool" where
  accept: "spec_step (P, R) (add_mset r P, R)"
| dispose: "M \<subseteq># P \<Longrightarrow> spec_step (P, R) (P - M, R + M)"

definition waiting :: "'s containerLogBatcher \<Rightarrow> createContainerLogRequest multiset" where
  "waiting b = mset (lb_batch b) + mset (lb_in b)"

definition disposed :: "resolution list \<Rightarrow> createContainerLogRequest multiset" where
  "disposed es = mset (map line es)"

fun accepted :: "log_op \<Rightarrow> createContainerLogRequest multiset" where
  "accepted (OpAdd r) = {#r#}"
| "accepted _ = {#}"

lemma disposed_simps [simp]:
  "disposed [] = {#}" "disposed (e # es) = add_mset (line e) (disposed es)" "disposed (es @ fs) = disposed es + disposed fs"
  by (simp_all add: disposed_def)

lemma disposed_Acked [simp]: "disposed (map Acked rs) = mset rs"
  by (simp add: disposed_def comp_def)

lemma disposed_storeOne: "storeOne b r s = (es, s') \<Longrightarrow> disposed es = {#r#}"
  by (auto simp: storeOne_def split: prod.splits option.splits)

lemma disposed_store_rows: "store_rows b rs s = (es, s') \<Longrightarrow> disposed es = mset rs"
  by (induction rs arbitrary: s es) (auto simp: Let_def split: prod.splits dest: disposed_storeOne)

lemma disposed_write_batch: "write_batch b rs s = (es, s') \<Longrightarrow> disposed es = mset rs"
  by (auto simp: write_batch_def split: prod.splits option.splits dest: disposed_store_rows)

lemma write_pending_conserves:
  "write_pending b s = (es, b', s') \<Longrightarrow> disposed es + waiting b' = waiting b \<and> lb_in b' = lb_in b \<and> lb_batch b' = []
     \<and> lb_closed b' = lb_closed b \<and> lb_started b' = lb_started b \<and> lb_done b' = lb_done b"
  by (auto simp: write_pending_def waiting_def Let_def split: if_splits prod.splits dest: disposed_write_batch)

lemma receive_conserves:
  assumes "receive b s = (es, b', s')"
  shows "disposed es + waiting b' = waiting b"
proof (cases "lb_in b")
  case Nil
  with assms show ?thesis
    by (auto simp: receive_def Let_def waiting_def split: if_splits prod.splits dest!: write_pending_conserves)
next
  case (Cons r rest)
  with assms show ?thesis
    by (auto simp: receive_def Let_def waiting_def split: if_splits dest!: write_pending_conserves)
qed

lemma Add_conserves:
  "Add r b s = (es, b', s') \<Longrightarrow> disposed es + waiting b' = add_mset r (waiting b)"
  by (auto simp: Add_def waiting_def Let_def split: if_splits prod.splits dest: disposed_storeOne)

lemma waiting_flags [simp]: "waiting (Start b) = waiting b" "waiting (Close b) = waiting b"
  by (simp_all add: Start_def Close_def waiting_def)

lemma log_step_conserves:
  assumes "log_step x b s = (es, b', s')"
  shows "disposed es + waiting b' = waiting b + accepted x"
  using assms
  by (cases x) (auto split: if_splits dest: receive_conserves Add_conserves write_pending_conserves)

definition added :: "log_op list \<Rightarrow> createContainerLogRequest multiset" where
  "added xs = sum_list (map accepted xs)"

lemma added_append: "added (xs @ ys) = added xs + added ys"
  by (simp add: added_def)

lemma added_drain: "added (OpClose # OpReceive # replicate n OpReceive) = {#}"
  by (induction n) (simp_all add: added_def)

lemma log_run_conserves:
  "log_run xs b s = (es, b', s') \<Longrightarrow> disposed es + waiting b' = waiting b + added xs"
proof (induction xs arbitrary: b s es)
  case (Cons x xs)
  obtain e1 b1 s1 e2 where 1: "log_step x b s = (e1, b1, s1)" and 2: "log_run xs b1 s1 = (e2, b', s')" "es = e1 @ e2"
    using Cons.prems by (auto simp: Let_def split: prod.splits)
  then show ?case
    using log_step_conserves [OF 1] Cons.IH [OF 2(1)] by (simp add: added_def) (metis add.assoc add.commute)
qed (simp add: added_def)

text \<open>Every step of the batcher is matched by the abstract store.\<close>

lemma spec_disposes:
  assumes "D + W' = W + A" "D \<subseteq># W + A" "A = {#} \<or> (\<exists>r. A = {#r#})"
  shows "spec_step\<^sup>*\<^sup>* (W, R) (W', R + D)"
proof -
  have 1: "spec_step\<^sup>*\<^sup>* (W, R) (W + A, R)" using assms(3) by (elim disjE exE) (simp_all add: r_into_rtranclp accept)
  have "W' = W + A - D" using assms(1) by (metis add_diff_cancel_left')
  then have 2: "spec_step (W + A, R) (W', R + D)" using dispose [OF assms(2)] by simp
  show ?thesis using rtranclp.rtrancl_into_rtrancl [OF 1 2] .
qed

lemma log_step_simulates:
  assumes "log_step x b s = (es, b', s')"
  shows "spec_step\<^sup>*\<^sup>* (waiting b, R) (waiting b', R + disposed es)"
proof (rule spec_disposes)
  show "disposed es + waiting b' = waiting b + accepted x" by (rule log_step_conserves [OF assms])
  then show "disposed es \<subseteq># waiting b + accepted x" by (metis mset_subset_eq_add_left)
  show "accepted x = {#} \<or> (\<exists>r. accepted x = {#r#})" by (cases x) auto
qed

lemma log_run_simulates:
  "log_run xs b s = (es, b', s') \<Longrightarrow> spec_step\<^sup>*\<^sup>* (waiting b, R) (waiting b', R + disposed es)"
proof (induction xs arbitrary: b s es R)
  case (Cons x xs)
  obtain e1 b1 s1 e2 where 1: "log_step x b s = (e1, b1, s1)" and 2: "log_run xs b1 s1 = (e2, b', s')" "es = e1 @ e2"
    using Cons.prems by (auto simp: Let_def split: prod.splits)
  show ?case
    using rtranclp_trans [OF log_step_simulates [OF 1, of R] Cons.IH [OF 2(1), of "R + disposed e1"]]
    by (simp add: 2(2) add.assoc)
qed simp

section \<open>The writer drains what was queued\<close>

lemma receive_one:
  assumes "lb_closed b" "receive b s = (es, b', s')"
  shows "lb_closed b' \<and> lb_started b' = lb_started b \<and> length (lb_in b') = length (lb_in b) - 1 \<and> (lb_done b' \<longleftrightarrow> lb_done b \<or> lb_in b = [])
    \<and> (lb_in b = [] \<longrightarrow> lb_batch b' = [] \<and> lb_in b' = [])"
  using assms
  by (auto simp: receive_def Let_def split: list.splits if_splits prod.splits dest!: write_pending_conserves)

lemma drain:
  assumes "lb_closed b" "lb_started b" "\<not> lb_done b" "log_run (replicate (Suc (length (lb_in b))) OpReceive) b s = (es, b', s')"
  shows "lb_done b' \<and> waiting b' = {#}"
  using assms
proof (induction "length (lb_in b)" arbitrary: b s es)
  case 0
  then have "lb_in b = []" by simp
  with "0.prems" have "receive b s = (es, b', s')" by (simp add: Let_def split: prod.splits)
  from receive_one [OF "0.prems"(1) this] \<open>lb_in b = []\<close> show ?case by (simp add: waiting_def)
next
  case (Suc n)
  obtain e1 b1 s1 where 1: "receive b s = (e1, b1, s1)" by (metis prod_cases3)
  have *: "lb_closed b1" "lb_started b1" "\<not> lb_done b1" "n = length (lb_in b1)"
    using receive_one [OF Suc.prems(1) 1] Suc.prems(2,3) Suc.hyps(2) by auto
  define xs where "xs = replicate (Suc n) OpReceive"
  have "replicate (Suc (length (lb_in b))) OpReceive = OpReceive # xs" by (simp add: xs_def Suc.hyps(2) [symmetric])
  with Suc.prems(2-4) 1 obtain e2 where "log_run xs b1 s1 = (e2, b', s')"
    by (auto simp: Let_def split: prod.splits)
  then have "log_run (replicate (Suc (length (lb_in b1))) OpReceive) b1 s1 = (e2, b', s')"
    by (simp only: xs_def *(4) [symmetric])
  from Suc.hyps(1) [OF *(4,1,2,3) this] show ?case .
qed

section \<open>What was acknowledged is in the table\<close>

locale log_sink =
  fixes flush :: "createContainerLogRequest list \<Rightarrow> 's \<Rightarrow> go_error option \<times> 's"
    and single :: "createContainerLogRequest \<Rightarrow> 's \<Rightarrow> go_error option \<times> 's"
    and holds :: "'s \<Rightarrow> createContainerLogRequest \<Rightarrow> bool"
  assumes flush_stores: "flush rs s = (None, s') \<Longrightarrow> r \<in> set rs \<Longrightarrow> holds s' r"
    and flush_keeps: "flush rs s = (e, s') \<Longrightarrow> holds s r \<Longrightarrow> holds s' r"
    and single_stores: "single r s = (None, s') \<Longrightarrow> holds s' r"
    and single_keeps: "single q s = (e, s') \<Longrightarrow> holds s r \<Longrightarrow> holds s' r"
begin

abbreviation writes_here :: "'s containerLogBatcher \<Rightarrow> bool" where
  "writes_here b \<equiv> lb_flush b = flush \<and> lb_single b = single"

abbreviation kept :: "'s \<Rightarrow> 's \<Rightarrow> bool" where
  "kept s s' \<equiv> \<forall>r. holds s r \<longrightarrow> holds s' r"

lemma storeOne_holds:
  "writes_here b \<Longrightarrow> storeOne b r s = (es, s') \<Longrightarrow> kept s s' \<and> (\<forall>q. Acked q \<in> set es \<longrightarrow> holds s' q)"
  by (auto simp: storeOne_def split: prod.splits option.splits intro: single_stores single_keeps)

lemma store_rows_holds:
  "writes_here b \<Longrightarrow> store_rows b rs s = (es, s') \<Longrightarrow> kept s s' \<and> (\<forall>q. Acked q \<in> set es \<longrightarrow> holds s' q)"
proof (induction rs arbitrary: s es)
  case (Cons r rs)
  obtain e1 s1 e2 where "storeOne b r s = (e1, s1)" "store_rows b rs s1 = (e2, s')" "es = e1 @ e2"
    using Cons.prems(2) by (auto simp: Let_def split: prod.splits)
  then show ?case using storeOne_holds [OF Cons.prems(1)] Cons.IH [OF Cons.prems(1)] by (metis Un_iff set_append)
qed simp

lemma write_batch_holds:
  "writes_here b \<Longrightarrow> write_batch b rs s = (es, s') \<Longrightarrow> kept s s' \<and> (\<forall>q. Acked q \<in> set es \<longrightarrow> holds s' q)"
  using store_rows_holds [of b rs] flush_keeps [of rs s] flush_stores [of rs s]
  by (fastforce simp: write_batch_def split: prod.splits option.splits)

lemma write_pending_holds:
  "writes_here b \<Longrightarrow> write_pending b s = (es, b', s') \<Longrightarrow>
     writes_here b' \<and> kept s s' \<and> (\<forall>q. Acked q \<in> set es \<longrightarrow> holds s' q)"
  by (auto simp: write_pending_def Let_def split: if_splits prod.splits dest: write_batch_holds [rotated])

lemma log_step_holds:
  assumes "writes_here b" "log_step x b s = (es, b', s')"
  shows "writes_here b' \<and> kept s s' \<and> (\<forall>q. Acked q \<in> set es \<longrightarrow> holds s' q)"
proof (cases x)
  case (OpAdd r)
  with assms show ?thesis
    by (auto simp: Add_def Let_def split: if_splits prod.splits dest: storeOne_holds [rotated])
next
  case OpReceive
  with assms show ?thesis
    by (auto simp: receive_def Let_def split: if_splits list.splits prod.splits dest!: write_pending_holds [rotated])
next
  case OpTick
  with assms show ?thesis by (auto split: if_splits dest!: write_pending_holds [rotated])
qed (use assms in \<open>auto simp: Start_def Close_def\<close>)

lemma log_run_holds:
  "writes_here b \<Longrightarrow> log_run xs b s = (es, b', s') \<Longrightarrow> kept s s' \<and> (\<forall>q. Acked q \<in> set es \<longrightarrow> holds s' q)"
proof (induction xs arbitrary: b s es)
  case (Cons x xs)
  obtain e1 b1 s1 e2 where 1: "log_step x b s = (e1, b1, s1)" and 2: "log_run xs b1 s1 = (e2, b', s')" "es = e1 @ e2"
    using Cons.prems(2) by (auto simp: Let_def split: prod.splits)
  then show ?case
    using log_step_holds [OF Cons.prems(1) 1] Cons.IH [OF _ 2(1)] by (metis Un_iff set_append)
qed simp

end

text \<open>A row of the table holds a line when it agrees on what identifies the line.\<close>

definition row_of :: "createContainerLogRequest \<Rightarrow> containerLog \<Rightarrow> bool" where
  "row_of r l \<longleftrightarrow> lg_ContainerID l = cl_ContainerID r \<and> lg_Message l = cl_Message r
     \<and> (case cl_RecordedAt r of None \<Rightarrow> True | Some t \<Rightarrow> lg_RecordedAt l = usec t)"

definition has_row :: "'a log_world_scheme \<Rightarrow> createContainerLogRequest \<Rightarrow> bool" where
  "has_row w r \<longleftrightarrow> (\<exists>l \<in> set (container_logs w). row_of r l)"

lemma has_row_insert: "has_row (insert_log r w) r"
  by (auto simp: has_row_def insert_log_def row_of_def list_ex_iff replayed_def recorded_at_def split: option.splits)

lemma has_row_keeps: "has_row w q \<Longrightarrow> has_row (insert_log r w) q"
  by (auto simp: has_row_def insert_log_def)

lemma has_row_fold_keeps: "has_row w q \<Longrightarrow> has_row (fold insert_log rs w) q"
  by (induction rs arbitrary: w) (simp_all add: has_row_keeps)

lemma has_row_fold: "r \<in> set rs \<Longrightarrow> has_row (fold insert_log rs w) r"
  by (induction rs arbitrary: w) (auto intro: has_row_fold_keeps has_row_insert)

lemma has_row_io [simp]: "has_row (w\<lparr>clock := c, db_script := d\<rparr>) r = has_row w r"
  by (simp add: has_row_def)

lemma exec_unit_stores:
  assumes "exec_unit f w = (None, w')" "\<And>w. P (f w)" shows "P w'"
  using assms by (auto simp: exec_unit_def split: prod.splits sum.splits elim!: exec_Inr)

lemma exec_unit_keeps:
  assumes "exec_unit f w = (e, w')" "P w" "\<And>w. P w \<Longrightarrow> P (f w)" "\<And>w c s. P w \<Longrightarrow> P (w\<lparr>clock := c, db_script := s\<rparr>)"
  shows "P w'"
  using exec_keeps [of P "\<lambda>w. ((), f w)" w] assms by (metis snd_conv snd_exec_unit)

interpretation container_log: log_sink CreateContainerLogs CreateContainerLog has_row
proof
  fix rs and w w' :: "'a log_world_scheme" and r q :: createContainerLogRequest and e
  show "has_row w' r" if "CreateContainerLogs rs w = (None, w')" "r \<in> set rs"
    using that by (auto simp: CreateContainerLogs_def has_row_fold split: if_splits dest!: exec_unit_stores [where P = "\<lambda>w. has_row w r"])
  show "has_row w' r" if "CreateContainerLogs rs w = (e, w')" "has_row w r"
    using that by (auto simp: CreateContainerLogs_def has_row_fold_keeps split: if_splits elim!: exec_unit_keeps [where P = "\<lambda>w. has_row w r"])
  show "has_row w' r" if "CreateContainerLog r w = (None, w')"
    using that by (auto simp: CreateContainerLog_def has_row_insert dest!: exec_unit_stores [where P = "\<lambda>w. has_row w r"])
  show "has_row w' r" if "CreateContainerLog q w = (e, w')" "has_row w r"
    using that by (auto simp: CreateContainerLog_def has_row_keeps elim!: exec_unit_keeps [where P = "\<lambda>w. has_row w r"])
qed

section \<open>Bounds of the batcher\<close>

text \<open>
  Between steps the queue is within its capacity and the pending batch is below both limits, so a
  batch is written with at most \<^verbatim>\<open>maxRows\<close> lines, and with less than \<^verbatim>\<open>maxBytes\<close> before its last one.
\<close>

definition bytes :: "createContainerLogRequest list \<Rightarrow> nat" where
  "bytes rs = sum_list (map (length \<circ> cl_Message) rs)"

definition batch_ok :: "'s containerLogBatcher \<Rightarrow> bool" where
  "batch_ok b \<longleftrightarrow> length (lb_in b) \<le> lb_queue b \<and> lb_size b = bytes (lb_batch b)
     \<and> (lb_batch b \<noteq> [] \<longrightarrow> length (lb_batch b) < lb_maxRows b \<and> lb_size b < lb_maxBytes b)"

lemma batch_ok_new: "batch_ok (newContainerLogBatcher flush single rows n queue)"
  by (simp add: batch_ok_def newContainerLogBatcher_def bytes_def)

lemma batch_ok_step:
  assumes "batch_ok b" "log_step x b s = (es, b', s')" shows "batch_ok b'"
  using assms
  by (cases x)
     (auto simp: batch_ok_def bytes_def Start_def Close_def Add_def receive_def write_pending_def Let_def
       split: if_splits list.splits prod.splits)

lemma batch_ok_bounds:
  assumes "batch_ok b" "lb_in b = r # rest" "0 < lb_maxRows b"
  shows "length (lb_batch b @ [r]) \<le> max 1 (lb_maxRows b) \<and> bytes (lb_batch b @ [r]) < max 1 (lb_maxBytes b) + length (cl_Message r)"
  using assms by (cases "lb_batch b = []") (auto simp: batch_ok_def bytes_def)

section \<open>The cache\<close>

text \<open>Eviction is invisible: it removes exactly what a lookup would ignore.\<close>

lemma evictExpired_invisible:
  "cached name (w\<lparr>name_cache := evictExpired (clock w) (name_cache w)\<rparr>) = cached name w
   \<and> known_absent name (w\<lparr>name_cache := evictExpired (clock w) (name_cache w)\<rparr>) = known_absent name w"
  by (auto simp: cached_def known_absent_def evictExpired_def split: option.splits)

text \<open>A remembered miss never hides a container from the status path, only from the log path.\<close>

lemma status_path_ignores_misses:
  "fst (cache_GetContainerByName name (w\<lparr>name_cache := (name_cache w)\<lparr>cc_unmanaged := m\<rparr>\<rparr>)) = fst (cache_GetContainerByName name w)"
proof -
  let ?v = "w\<lparr>name_cache := (name_cache w)\<lparr>cc_unmanaged := m\<rparr>\<rparr>"
  have "cached name ?v = cached name w" by (simp add: cached_def split: option.split)
  moreover have "fst (GetContainerByName name ?v) = fst (GetContainerByName name w)"
    by (simp add: GetContainerByName_def query_def exec_def Let_def split: list.split stmt_outcome.split prod.split)
  moreover obtain x w1 y w2 where "GetContainerByName name ?v = (x, w1)" "GetContainerByName name w = (y, w2)" by fastforce
  ultimately show ?thesis
    by (cases y) (auto simp: cache_GetContainerByName_def split: option.split)
qed

section \<open>Shutdown\<close>

lemma log_step_open:
  "x \<noteq> OpClose \<Longrightarrow> \<not> lb_closed b \<Longrightarrow> \<not> lb_done b \<Longrightarrow> log_step x b s = (es, b', s') \<Longrightarrow> \<not> lb_closed b' \<and> \<not> lb_done b'"
  by (cases x) (auto simp: Start_def Add_def receive_def Let_def split: if_splits list.splits prod.splits dest!: write_pending_conserves)

lemma log_run_open:
  "OpClose \<notin> set xs \<Longrightarrow> \<not> lb_closed b \<Longrightarrow> \<not> lb_done b \<Longrightarrow> log_run xs b s = (es, b', s') \<Longrightarrow> \<not> lb_closed b' \<and> \<not> lb_done b'"
proof (induction xs arbitrary: b s es)
  case (Cons x xs)
  then obtain e1 b1 s1 e2 where 1: "log_step x b s = (e1, b1, s1)" and 2: "log_run xs b1 s1 = (e2, b', s')"
    by (auto simp: Let_def split: prod.splits)
  from Cons.prems have "x \<noteq> OpClose" "OpClose \<notin> set xs" by auto
  with log_step_open [OF _ Cons.prems(2,3) 1] Cons.IH [OF _ _ _ 2] show ?case by simp
qed simp

lemma Close_fields: "lb_in (Close b) = lb_in b" "lb_closed (Close b)" "lb_started (Close b)" "lb_done (Close b) = lb_done b"
  by (simp_all add: Close_def Start_def)

lemma log_run_Close: "log_run (OpClose # xs) b s = log_run xs (Close b) s"
  by (simp add: case_prod_unfold)

lemma log_run_append:
  "log_run (xs @ ys) b s =
     (let (e1, b1, s1) = log_run xs b s; (e2, b2, s2) = log_run ys b1 s1 in (e1 @ e2, b2, s2))"
  by (induction xs arbitrary: b s) (auto simp: Let_def split: prod.split)

abbreviation fresh_batcher :: "'a log_world_scheme containerLogBatcher" where
  "fresh_batcher \<equiv> newContainerLogBatcher CreateContainerLogs CreateContainerLog logBatchMaxRows logBatchMaxBytes logBatchQueue"


definition sample_line :: "string \<Rightarrow> createContainerLogRequest" where
  "sample_line m = \<lparr>cl_ContainerID = Some 7, cl_ContainerName = Some ''web'', cl_WorkerID = 1, cl_Stream = ''stdout'',
     cl_Message = m, cl_RecordedAt = None\<rparr>"

definition sample_ops :: "log_op list" where
  "sample_ops = [OpStart, OpAdd (sample_line ''a''), OpReceive, OpAdd (sample_line ''b''), OpTick, OpAdd (sample_line ''c'')]"

definition log_start :: log_world where
  "log_start = api_world.extend
     (backup_world.extend sched_world \<lparr>a_workers = [], a_audits = [], a_rand = (\<lambda>_. Inr ''00''), a_drawn = 0\<rparr>)
     \<lparr>container_logs = [], next_log_id = 1, name_cache = newContainerCache\<rparr>"


end
