(* ===== verification/Retention.thy ===== *)
theory Retention
  imports Structs
begin

text \<open>
  The hourly purge of old rows (\<^verbatim>\<open>retention/retention.go\<close>). The package names tables and columns by
  strings, so the model does too: a table is the list of its rows in the order the engine scans
  them, a row maps a column to its value and a NULL to nothing. Between two batches other writers
  insert rows; what they insert is a script of the world. The loop is unbounded in the code and
  \<open>partial_function\<close> here; that it returns is a theorem.
\<close>

type_synonym row = "string \<rightharpoonup> int"

record ret_world = world +
  r_tables :: "string \<Rightarrow> row list"
  r_arrivals :: "row list list"

definition batchSize :: nat where "batchSize = 10000"

definition ident_start :: "char \<Rightarrow> bool" where
  "ident_start c \<longleftrightarrow> (let n = of_char c :: nat in 97 \<le> n \<and> n \<le> 122 \<or> 65 \<le> n \<and> n \<le> 90 \<or> c = CHR ''_'')"

definition validIdentifier :: "string \<Rightarrow> bool" where
  "validIdentifier s = (case s of [] \<Rightarrow> False | c # cs \<Rightarrow> ident_start c \<and> list_all (\<lambda>c. ident_start c \<or> is_digit c) cs)"

text \<open>The interval literals are a number of days; the one extra predicate is \<^verbatim>\<open>active = 0\<close>.\<close>

definition interval_days :: "string \<Rightarrow> duration" where
  "interval_days s = digits_val (takeWhile is_digit s) * (24 * Hour)"

definition extra_holds :: "string \<Rightarrow> row \<Rightarrow> bool" where
  "extra_holds extra r \<longleftrightarrow> extra = [] \<or> extra = ''active = 0'' \<and> r ''active'' = Some 0"

definition expired_row :: "string \<Rightarrow> string \<Rightarrow> string \<Rightarrow> time \<Rightarrow> row \<Rightarrow> bool" where
  "expired_row column interval extra now r \<longleftrightarrow>
     (case r column of None \<Rightarrow> False | Some t \<Rightarrow> t < db_time now - interval_days interval) \<and> extra_holds extra r"

text \<open>\<^verbatim>\<open>DELETE \<dots> LIMIT n\<close>: the number of rows deleted and the rows left.\<close>

fun delete_first :: "nat \<Rightarrow> ('r \<Rightarrow> bool) \<Rightarrow> 'r list \<Rightarrow> nat \<times> 'r list" where
  "delete_first 0 P rs = (0, rs)"
| "delete_first n P [] = (0, [])"
| "delete_first (Suc n) P (r # rs) =
     (if P r then (let (k, left) = delete_first n P rs in (Suc k, left))
      else (let (k, left) = delete_first (Suc n) P rs in (k, r # left)))"

definition delete_effect :: "string \<Rightarrow> (time \<Rightarrow> row \<Rightarrow> bool) \<Rightarrow> 'a ret_world_scheme \<Rightarrow> nat \<times> 'a ret_world_scheme" where
  "delete_effect table old w =
     (let (n, left) = delete_first batchSize (old (clock w)) (r_tables w table)
      in (n, w\<lparr>r_tables := (r_tables w)(table := left)\<rparr>))"

definition delete_batch :: "string \<Rightarrow> (time \<Rightarrow> row \<Rightarrow> bool) \<Rightarrow> 'a ret_world_scheme \<Rightarrow> (go_error + nat) \<times> 'a ret_world_scheme" where
  "delete_batch table old w = exec (delete_effect table old) w"

text \<open>\<^verbatim>\<open>time.Sleep(100 * time.Millisecond)\<close>, in which others write.\<close>

definition pause :: "string \<Rightarrow> 'a ret_world_scheme \<Rightarrow> 'a ret_world_scheme" where
  "pause table w =
     w\<lparr>clock := clock w + 100000000, r_arrivals := tl (r_arrivals w),
       r_tables := (r_tables w)(table := r_tables w table @ (case r_arrivals w of [] \<Rightarrow> [] | rs # _ \<Rightarrow> rs))\<rparr>"

text \<open>The error that ended the loop, if any, and the number of rows deleted.\<close>

type_synonym purge_result = "go_error option \<times> nat"

partial_function (option) purge_loop ::
  "string \<Rightarrow> (time \<Rightarrow> row \<Rightarrow> bool) \<Rightarrow> nat \<Rightarrow> 'a ret_world_scheme \<Rightarrow> (purge_result \<times> 'a ret_world_scheme) option" where
  "purge_loop table old totalDeleted w =
     (case delete_batch table old w of
        (Inl e, w1) \<Rightarrow> Some ((Some e, totalDeleted), w1)
      | (Inr n, w1) \<Rightarrow>
          if n < batchSize then Some ((None, totalDeleted + n), w1)
          else purge_loop table old (totalDeleted + n) (pause table w1))"

definition purgeWhere ::
  "string \<Rightarrow> string \<Rightarrow> string \<Rightarrow> string \<Rightarrow> 'a ret_world_scheme \<Rightarrow> (purge_result \<times> 'a ret_world_scheme) option" where
  "purgeWhere table column interval extra w =
     (if \<not> validIdentifier table \<or> \<not> validIdentifier column then Some ((Some ''invalid table/column name'', 0), w)
      else purge_loop table (expired_row column interval extra) 0 w)"

definition purge :: "string \<Rightarrow> string \<Rightarrow> string \<Rightarrow> 'a ret_world_scheme \<Rightarrow> (purge_result \<times> 'a ret_world_scheme) option" where
  "purge table column interval w = purgeWhere table column interval [] w"

text \<open>The tables one pass purges, in the order of the calls.\<close>

definition purged_tables :: "(string \<times> string \<times> string \<times> string) list" where
  "purged_tables =
     [(''container_logs'', ''recorded_at'', ''7 DAY'', []),
      (''lifecycle_logs'', ''recorded_at'', ''14 DAY'', []),
      (''worker_metrics'', ''recorded_at'', ''30 DAY'', []),
      (''container_metrics'', ''recorded_at'', ''7 DAY'', []),
      (''deployment_logs'', ''recorded_at'', ''90 DAY'', []),
      (''audit_log'', ''inserted_at'', ''180 DAY'', []),
      (''database_instance_events'', ''recorded_at'', ''180 DAY'', []),
      (''automation_runs'', ''inserted_at'', ''90 DAY'', []),
      (''database_snapshots'', ''inserted_at'', ''90 DAY'', ''active = 0'')]"

fun purge_all :: "(string \<times> string \<times> string \<times> string) list \<Rightarrow> 'a ret_world_scheme \<Rightarrow> 'a ret_world_scheme option" where
  "purge_all [] w = Some w"
| "purge_all ((table, column, interval, extra) # ts) w =
     (case purgeWhere table column interval extra w of None \<Rightarrow> None | Some (_, w1) \<Rightarrow> purge_all ts w1)"

definition retention_run :: "'a ret_world_scheme \<Rightarrow> 'a ret_world_scheme option" where
  "retention_run w = purge_all purged_tables w"

section \<open>One batch\<close>

lemma delete_first_spec:
  "delete_first n P rs = (k, left) \<Longrightarrow>
     k \<le> n \<and> length left + k = length rs \<and> filter (\<lambda>r. \<not> P r) left = filter (\<lambda>r. \<not> P r) rs \<and> (k < n \<longrightarrow> left = filter (\<lambda>r. \<not> P r) rs)
     \<and> set left \<subseteq> set rs"
  by (induction n P rs arbitrary: k left rule: delete_first.induct) (auto simp: Let_def split: if_splits prod.splits)

text \<open>A condition that, once it holds of a row, holds of it from then on.\<close>

definition ageing :: "(time \<Rightarrow> 'r \<Rightarrow> bool) \<Rightarrow> bool" where
  "ageing old \<longleftrightarrow> (\<forall>s t r. s \<le> t \<longrightarrow> old s r \<longrightarrow> old t r)"

lemma expired_row_ageing: "ageing (expired_row column interval extra)"
  using db_time_mono by (fastforce simp: ageing_def expired_row_def split: option.splits)

text \<open>What \<open>rs\<close> keeps of itself at an instant.\<close>

abbreviation fresh :: "(time \<Rightarrow> 'r \<Rightarrow> bool) \<Rightarrow> time \<Rightarrow> 'r list \<Rightarrow> 'r list" where
  "fresh old t rs \<equiv> filter (\<lambda>r. \<not> old t r) rs"

lemma fresh_later:
  assumes "ageing old" "s \<le> t" "fresh old s rs = fresh old s rs'"
  shows "fresh old t rs = fresh old t rs'"
proof -
  have "fresh old t xs = fresh old t (fresh old s xs)" for xs
    using assms(1,2) by (auto simp: ageing_def filter_filter intro!: filter_cong)
  then show ?thesis using assms(3) by metis
qed

lemma delete_batch_spec:
  assumes "delete_batch table old w = (res, w1)" "ageing old"
  shows "clock w \<le> clock w1 \<and> r_arrivals w1 = r_arrivals w \<and> (\<forall>t. t \<noteq> table \<longrightarrow> r_tables w1 t = r_tables w t)
    \<and> length (r_tables w1 table) \<le> length (r_tables w table)
    \<and> fresh old (clock w1) (r_tables w1 table) = fresh old (clock w1) (r_tables w table)
    \<and> (\<forall>n. res = Inr n \<longrightarrow> length (r_tables w1 table) + n = length (r_tables w table)
         \<and> (n < batchSize \<longrightarrow> r_tables w1 table = fresh old (clock w1) (r_tables w table)))"
proof -
  have t: "clock w0 = clock w0 \<and> r_tables w0 = r_tables w \<and> r_arrivals w0 = r_arrivals w"
    if "w0 = w\<lparr>clock := clock w0, db_script := db_script w0\<rparr>" for w0
    by (subst that, simp)+
  show ?thesis
    using assms(1) unfolding delete_batch_def
    by (cases rule: exec_cases [where w = w and f = "delete_effect table old"])
       (auto simp: delete_effect_def Let_def split: prod.splits dest!: t delete_first_spec)
qed

lemma delete_batch_quiet:
  "db_script w = [] \<Longrightarrow> delete_batch table old w = (res, w1) \<Longrightarrow> (\<exists>n. res = Inr n) \<and> db_script w1 = []"
  by (auto simp: delete_batch_def exec_quiet delete_effect_def Let_def split: prod.splits)

section \<open>The loop returns\<close>

text \<open>
  The work left for the loop: the rows of the table and those still to arrive. A batch that is
  full, the only one after which the loop goes on, takes \<^verbatim>\<open>batchSize\<close> of it away.
\<close>

definition work :: "string \<Rightarrow> 'a ret_world_scheme \<Rightarrow> nat" where
  "work table w = length (r_tables w table) + length (concat (r_arrivals w))"

lemma work_pause: "work table (pause table w) = work table w"
  by (cases "r_arrivals w") (simp_all add: work_def pause_def)

text \<open>
  The specification of a purge that began in \<open>w\<close> and ended in \<open>w'\<close> after \<open>k\<close> pauses.
\<close>

definition purged :: "string \<Rightarrow> (time \<Rightarrow> row \<Rightarrow> bool) \<Rightarrow> nat \<Rightarrow> 'a ret_world_scheme \<Rightarrow> purge_result \<times> 'a ret_world_scheme \<Rightarrow> bool" where
  "purged table old k w res =
     (let ((e, n), w') = res; seen = r_tables w table @ concat (take k (r_arrivals w)) in
      clock w \<le> clock w' \<and> (\<forall>t. t \<noteq> table \<longrightarrow> r_tables w' t = r_tables w t) \<and> k * batchSize \<le> work table w
      \<and> fresh old (clock w') (r_tables w' table) = fresh old (clock w') seen
      \<and> (e = None \<longrightarrow> r_tables w' table = fresh old (clock w') seen)
      \<and> (db_script w = [] \<longrightarrow> e = None \<and> db_script w' = []))"

lemma purged_last:
  assumes "ageing old" "delete_batch table old w = (res, w1)" "\<not> (\<exists>n. res = Inr n \<and> \<not> n < batchSize)"
  shows "purged table old 0 w ((case res of Inl e \<Rightarrow> Some e | Inr _ \<Rightarrow> None, n), w1)"
  using delete_batch_spec [OF assms(2,1)] delete_batch_quiet [OF _ assms(2)] assms(3)
  by (auto simp: purged_def split: sum.splits)

lemma purged_more:
  assumes "ageing old" "delete_batch table old w = (Inr m, w1)" "\<not> m < batchSize"
    "purged table old k (pause table w1) res"
  shows "purged table old (Suc k) w res"
proof -
  obtain e n w' where res: "res = ((e, n), w')" by (metis prod.exhaust)
  note d = delete_batch_spec [OF assms(2,1)]
  let ?new = "case r_arrivals w1 of [] \<Rightarrow> [] | rs # _ \<Rightarrow> rs"
  let ?later = "concat (take k (tl (r_arrivals w1)))"
  have p: "clock (pause table w1) \<le> clock w'" "k * batchSize \<le> work table (pause table w1)"
    "fresh old (clock w') (r_tables w' table) = fresh old (clock w') ((r_tables w1 table @ ?new) @ ?later)"
    "e = None \<longrightarrow> r_tables w' table = fresh old (clock w') ((r_tables w1 table @ ?new) @ ?later)"
    "\<forall>t. t \<noteq> table \<longrightarrow> r_tables w' t = r_tables w1 t" "db_script w1 = [] \<longrightarrow> e = None \<and> db_script w' = []"
    using assms(4) unfolding purged_def res Let_def by (simp_all add: pause_def)
  have c: "clock w \<le> clock w1" "clock w1 \<le> clock w'" using d p(1) by (simp_all add: pause_def)
  have "fresh old (clock w') (r_tables w1 table) = fresh old (clock w') (r_tables w table)"
    using fresh_later [OF assms(1) c(2)] d by blast
  moreover have "?new @ ?later = concat (take (Suc k) (r_arrivals w))"
    using d by (cases "r_arrivals w") auto
  ultimately have s: "fresh old (clock w') ((r_tables w1 table @ ?new) @ ?later) =
      fresh old (clock w') (r_tables w table @ concat (take (Suc k) (r_arrivals w)))"
    by (metis append.assoc filter_append)
  have "Suc k * batchSize \<le> work table w"
    using p(2) d assms(3) unfolding work_pause by (auto simp: work_def)
  then show ?thesis
    using p(3-6) c d s delete_batch_quiet [OF _ assms(2)] by (auto simp: purged_def res)
qed

lemma purge_loop_returns:
  assumes "ageing old"
  shows "\<exists>k res. purge_loop table old n w = Some res \<and> purged table old k w res"
proof (induction "work table w" arbitrary: w n rule: less_induct)
  case less
  obtain r w1 where d: "delete_batch table old w = (r, w1)" by fastforce
  show ?case
  proof (cases "\<exists>m. r = Inr m \<and> \<not> m < batchSize")
    case True
    then obtain m where m: "r = Inr m" "\<not> m < batchSize" by blast
    have "work table (pause table w1) < work table w"
      using delete_batch_spec [OF d assms] m unfolding work_pause by (auto simp: work_def batchSize_def)
    then obtain k res where l: "purge_loop table old (n + m) (pause table w1) = Some res" "purged table old k (pause table w1) res"
      using less by blast
    have "purge_loop table old n w = Some res" using l(1) d m by (subst purge_loop.simps) simp
    then show ?thesis using purged_more [OF assms d [unfolded m(1)] m(2) l(2)] by blast
  next
    case False
    then show ?thesis
      using purged_last [OF assms d] d by (subst purge_loop.simps) (fastforce split: sum.splits)
  qed
qed

text \<open>What a pass needs of each of its purges.\<close>

lemma purgeWhere_spec:
  obtains e n w' where "purgeWhere table column interval extra w = Some ((e, n), w')" "clock w \<le> clock w'"
    "\<forall>t. t \<noteq> table \<longrightarrow> r_tables w' t = r_tables w t"
    "\<forall>r \<in> set (r_tables w table). \<not> expired_row column interval extra (clock w') r \<longrightarrow> r \<in> set (r_tables w' table)"
    "db_script w = [] \<longrightarrow> validIdentifier table \<longrightarrow> validIdentifier column \<longrightarrow>
       (\<forall>r \<in> set (r_tables w' table). \<not> expired_row column interval extra (clock w) r)"
    "db_script w = [] \<longrightarrow> db_script w' = []"
proof (cases "validIdentifier table \<and> validIdentifier column")
  case True
  let ?old = "expired_row column interval extra"
  obtain k e n w' where l: "purge_loop table ?old 0 w = Some ((e, n), w')" and p: "purged table ?old k w ((e, n), w')"
    using purge_loop_returns [OF expired_row_ageing] by (metis prod.exhaust)
  have "clock w \<le> clock w'" using p by (simp add: purged_def)
  moreover have "r \<in> set (r_tables w' table)" if "r \<in> set (r_tables w table)" "\<not> ?old (clock w') r" for r
  proof -
    have "r \<in> set (fresh ?old (clock w') (r_tables w' table))" using p that by (simp add: purged_def)
    then show ?thesis by simp
  qed
  moreover have "\<not> ?old (clock w) r" if "db_script w = []" "r \<in> set (r_tables w' table)" for r
    using p that expired_row_ageing [of column interval extra] by (auto simp: purged_def ageing_def)
  ultimately show ?thesis
    using that [of e n w'] l p True by (auto simp: purgeWhere_def purged_def)
qed (use that in \<open>auto simp: purgeWhere_def\<close>)

section \<open>A pass\<close>

lemma purge_all_spec:
  assumes "distinct (map fst ts)" "\<forall>(table, column, _) \<in> set ts. validIdentifier table \<and> validIdentifier column"
  shows "\<exists>w'. purge_all ts w = Some w' \<and> clock w \<le> clock w' \<and> (\<forall>t. t \<notin> fst ` set ts \<longrightarrow> r_tables w' t = r_tables w t)
    \<and> (\<forall>(table, column, interval, extra) \<in> set ts. \<forall>r \<in> set (r_tables w table).
         \<not> expired_row column interval extra (clock w') r \<longrightarrow> r \<in> set (r_tables w' table))
    \<and> (db_script w = [] \<longrightarrow> (\<forall>(table, column, interval, extra) \<in> set ts. \<forall>r \<in> set (r_tables w' table).
         \<not> expired_row column interval extra (clock w) r))"
  using assms
proof (induction ts arbitrary: w)
  case (Cons x ts)
  obtain table column interval extra where x: "x = (table, column, interval, extra)" by (metis prod.exhaust)
  obtain e n w1 where 1: "purgeWhere table column interval extra w = Some ((e, n), w1)" "clock w \<le> clock w1"
    "\<forall>t. t \<noteq> table \<longrightarrow> r_tables w1 t = r_tables w t"
    "\<forall>r \<in> set (r_tables w table). \<not> expired_row column interval extra (clock w1) r \<longrightarrow> r \<in> set (r_tables w1 table)"
    "db_script w = [] \<longrightarrow> validIdentifier table \<longrightarrow> validIdentifier column \<longrightarrow>
       (\<forall>r \<in> set (r_tables w1 table). \<not> expired_row column interval extra (clock w) r)"
    "db_script w = [] \<longrightarrow> db_script w1 = []"
    by (rule purgeWhere_spec)
  from Cons.prems have p: "distinct (map fst ts)" "\<forall>(table, column, _) \<in> set ts. validIdentifier table \<and> validIdentifier column"
    and v: "validIdentifier table" "validIdentifier column" and d: "table \<notin> fst ` set ts"
    by (auto simp: x)
  from Cons.IH [OF p, of w1] obtain w' where 2: "purge_all ts w1 = Some w'" "clock w1 \<le> clock w'"
    "\<forall>t. t \<notin> fst ` set ts \<longrightarrow> r_tables w' t = r_tables w1 t"
    "\<forall>(table, column, interval, extra) \<in> set ts. \<forall>r \<in> set (r_tables w1 table).
         \<not> expired_row column interval extra (clock w') r \<longrightarrow> r \<in> set (r_tables w' table)"
    "db_script w1 = [] \<longrightarrow> (\<forall>(table, column, interval, extra) \<in> set ts. \<forall>r \<in> set (r_tables w' table).
         \<not> expired_row column interval extra (clock w1) r)"
    by blast
  note older = expired_row_ageing [unfolded ageing_def, rule_format]
  have same: "r_tables w1 t = r_tables w t" if "t \<in> fst ` set ts" for t using 1(3) d that by metis
  have kept: "r \<in> set (r_tables w' t)"
    if "(t, c, i, f) \<in> set ts" "r \<in> set (r_tables w t)" "\<not> expired_row c i f (clock w') r" for t c i f r
    using 2(4) that same [of t] by force
  have gone: "\<not> expired_row c i f (clock w) r" if "db_script w = []" "(t, c, i, f) \<in> set ts" "r \<in> set (r_tables w' t)" for t c i f r
    using 2(5) 1(2,6) that older [OF 1(2)] by fast
  have "purge_all (x # ts) w = Some w'" by (simp add: x 1(1) 2(1))
  moreover have "r \<in> set (r_tables w' table)"
    if "r \<in> set (r_tables w table)" "\<not> expired_row column interval extra (clock w') r" for r
    using 1(4) 2(2,3) d that older [OF 2(2)] by metis
  moreover have "\<not> expired_row column interval extra (clock w) r" if "db_script w = []" "r \<in> set (r_tables w' table)" for r
    using 1(5) 2(3) d v that by metis
  moreover have "r_tables w' t = r_tables w t" if "t \<notin> fst ` set (x # ts)" for t
    using 1(3) 2(3) that by (simp add: x)
  ultimately show ?case
    using 1(2) 2(2) kept gone by (intro exI [of _ w']) (auto simp: x)
qed simp

lemma purged_tables_distinct: "distinct (map fst purged_tables)"
  by (simp add: purged_tables_def)

lemma purged_tables_valid: "\<forall>(table, column, _) \<in> set purged_tables. validIdentifier table \<and> validIdentifier column"
  by (simp add: purged_tables_def validIdentifier_def ident_start_def is_digit_def)

text \<open>
  C33. A retention pass ends. Whatever the tables hold, whatever other writers insert between
  batches and however the database fails, the nine purge loops return. No row younger than its
  table's retention is deleted, no snapshot row that is still live is deleted at any age, and when
  the database answers every statement no row is left that had expired when the pass began.
\<close>

theorem retention_pass_ends:
  "\<exists>w'. retention_run w = Some w'
     \<and> (\<forall>(table, column, interval, extra) \<in> set purged_tables. \<forall>r \<in> set (r_tables w table).
          \<not> expired_row column interval extra (clock w') r \<longrightarrow> r \<in> set (r_tables w' table))
     \<and> (\<forall>r \<in> set (r_tables w ''database_snapshots''). r ''active'' \<noteq> Some 0 \<longrightarrow> r \<in> set (r_tables w' ''database_snapshots''))
     \<and> (db_script w = [] \<longrightarrow> (\<forall>(table, column, interval, extra) \<in> set purged_tables. \<forall>r \<in> set (r_tables w' table).
          \<not> expired_row column interval extra (clock w) r))"
proof -
  obtain w' where w': "retention_run w = Some w'"
    "\<forall>(table, column, interval, extra) \<in> set purged_tables. \<forall>r \<in> set (r_tables w table).
       \<not> expired_row column interval extra (clock w') r \<longrightarrow> r \<in> set (r_tables w' table)"
    "db_script w = [] \<longrightarrow> (\<forall>(table, column, interval, extra) \<in> set purged_tables. \<forall>r \<in> set (r_tables w' table).
       \<not> expired_row column interval extra (clock w) r)"
    using purge_all_spec [OF purged_tables_distinct purged_tables_valid, of w] unfolding retention_run_def by blast
  have m: "(''database_snapshots'', ''inserted_at'', ''90 DAY'', ''active = 0'') \<in> set purged_tables"
    by (simp add: purged_tables_def)
  have "\<not> expired_row ''inserted_at'' ''90 DAY'' ''active = 0'' t r" if "r ''active'' \<noteq> Some 0" for t r
    using that by (simp add: expired_row_def extra_holds_def)
  with bspec [OF w'(2) m] have "\<forall>r \<in> set (r_tables w ''database_snapshots''). r ''active'' \<noteq> Some 0 \<longrightarrow> r \<in> set (r_tables w' ''database_snapshots'')"
    by simp
  with w' show ?thesis by blast
qed

definition old_rows :: ret_world where
  "old_rows = \<lparr>clock = 400 * 24 * Hour, db_script = [], hub = example_hub, picks = [],
     r_tables = (\<lambda>t. if t = ''database_snapshots''
       then [[''inserted_at'' \<mapsto> 0, ''active'' \<mapsto> 1], [''inserted_at'' \<mapsto> 0, ''active'' \<mapsto> 0]] else []), r_arrivals = []\<rparr>"

theorem retention_pass_ends_witness:
  "db_script old_rows = [] \<and> (\<exists>w'. retention_run old_rows = Some w'
     \<and> [''inserted_at'' \<mapsto> 0, ''active'' \<mapsto> 1] \<in> set (r_tables w' ''database_snapshots'')
     \<and> [''inserted_at'' \<mapsto> 0, ''active'' \<mapsto> 0] \<notin> set (r_tables w' ''database_snapshots''))"
proof -
  obtain w' where w': "retention_run old_rows = Some w'"
    "\<forall>r \<in> set (r_tables old_rows ''database_snapshots''). r ''active'' \<noteq> Some 0 \<longrightarrow> r \<in> set (r_tables w' ''database_snapshots'')"
    "db_script old_rows = [] \<longrightarrow> (\<forall>(table, column, interval, extra) \<in> set purged_tables. \<forall>r \<in> set (r_tables w' table).
       \<not> expired_row column interval extra (clock old_rows) r)"
    using retention_pass_ends [of old_rows] by blast
  have q: "db_script old_rows = []" by (simp add: old_rows_def)
  have "(''database_snapshots'', ''inserted_at'', ''90 DAY'', ''active = 0'') \<in> set purged_tables" by (simp add: purged_tables_def)
  with w'(3) q have "\<forall>r \<in> set (r_tables w' ''database_snapshots'').
      \<not> expired_row ''inserted_at'' ''90 DAY'' ''active = 0'' (clock old_rows) r" by fast
  moreover have "expired_row ''inserted_at'' ''90 DAY'' ''active = 0'' (clock old_rows) [''inserted_at'' \<mapsto> 0, ''active'' \<mapsto> 0]"
    by (simp add: expired_row_def extra_holds_def old_rows_def interval_days_def digits_val_def digit_val_def is_digit_def
        db_time_def truncate_to_def duration_simps)
  ultimately have "[''inserted_at'' \<mapsto> 0, ''active'' \<mapsto> 0] \<notin> set (r_tables w' ''database_snapshots'')" by blast
  moreover have "[''inserted_at'' \<mapsto> 0, ''active'' \<mapsto> 1] \<in> set (r_tables w' ''database_snapshots'')"
    using w'(2) by (simp add: old_rows_def)
  ultimately show ?thesis using w'(1) q by blast
qed

end
