(* ===== verification/Versions.thy ===== *)
theory Versions
  imports Db_Instances "HOL-Library.Product_Lexorder"
begin

text \<open>
  Release discovery (\<^verbatim>\<open>versions/versions.go\<close>): the ref advertisement of a repository is scanned for
  tags \<^verbatim>\<open>vX.Y.Z\<close> and the highest by numeric comparison becomes the latest release, kept per
  repository in a cache. The HTTP exchange with GitHub is a parameter. The scan is proved equal to
  taking the maximum of the tags in the lexicographic order on their numbers.
\<close>

section \<open>Parsing\<close>

type_synonym semver = "int \<times> int \<times> int"

definition semver_part :: "string \<Rightarrow> int option" where
  "semver_part p = (case atoi p of None \<Rightarrow> None | Some n \<Rightarrow> if n < 0 \<or> show_int n \<noteq> p then None else Some n)"

definition parseSemver :: "string \<Rightarrow> semver option" where
  "parseSemver tag =
     (case tag of
        [] \<Rightarrow> None
      | c # rest \<Rightarrow>
          if c \<noteq> CHR ''v'' then None
          else case split_on CHR ''.'' rest of
            [a, b, c] \<Rightarrow>
              (case (semver_part a, semver_part b, semver_part c) of
                 (Some x, Some y, Some z) \<Rightarrow> Some (x, y, z)
               | _ \<Rightarrow> None)
          | _ \<Rightarrow> None)"

text \<open>\<^verbatim>\<open>strings.Cut\<close>: what follows the first occurrence of the separator.\<close>

fun cut_after :: "string \<Rightarrow> string \<Rightarrow> string option" where
  "cut_after sep [] = (if sep = [] then Some [] else None)"
| "cut_after sep (c # s) = (if has_prefix (c # s) sep then Some (drop (length sep) (c # s)) else cut_after sep s)"

text \<open>
  \<^verbatim>\<open>bufio.Scanner\<close> with a buffer of 64 KiB: lines without their end, up to the first one that does
  not fit the buffer, where the scan stops.
\<close>

definition maxToken :: nat where "maxToken = 64 * 1024"

definition drop_cr :: "string \<Rightarrow> string" where
  "drop_cr l = (if l \<noteq> [] \<and> List.last l = CHR 0x0D then butlast l else l)"

definition scan_lines :: "string \<Rightarrow> string list" where
  "scan_lines s =
     (let ls = split_on CHR 0x0A s; ls = (if List.last ls = [] then butlast ls else ls)
      in map drop_cr (takeWhile (\<lambda>l. length l < maxToken) ls))"

text \<open>The tag a line advertises.\<close>

definition line_tag :: "string \<Rightarrow> string option" where
  "line_tag l = map_option (takeWhile (\<lambda>c. c \<noteq> CHR 0x00)) (cut_after '' refs/tags/'' l)"

definition newer :: "semver \<Rightarrow> semver \<Rightarrow> bool" where
  "newer v b \<longleftrightarrow> fst v > fst b \<or> fst v = fst b \<and> (fst (snd v) > fst (snd b) \<or> fst (snd v) = fst (snd b) \<and> snd (snd v) > snd (snd b))"

definition consider_line :: "string \<Rightarrow> string \<times> semver \<Rightarrow> string \<times> semver" where
  "consider_line l best =
     (case line_tag l of
        None \<Rightarrow> best
      | Some ref \<Rightarrow>
          (case parseSemver ref of
             None \<Rightarrow> best
           | Some v \<Rightarrow> if newer v (snd best) then (ref, v) else best))"

definition latestSemverTag :: "string \<Rightarrow> string" where
  "latestSemverTag body = fst (fold consider_line (scan_lines body) ([], (-1, -1, -1)))"

section \<open>Refreshing\<close>

record versionCache =
  vc_latest :: "string \<rightharpoonup> string"
  vc_checked :: time

definition repos :: "string list" where
  "repos = [''aidenappl/lattice-api'', ''aidenappl/lattice-web'', ''aidenappl/lattice-runner'']"

text \<open>\<open>get\<close> is the exchange with GitHub: a transport error, or a status and a body.\<close>

definition fetchLatestTag :: "(string \<Rightarrow> go_error + (int \<times> string)) \<Rightarrow> string \<Rightarrow> go_error + string" where
  "fetchLatestTag get repo =
     (case get (''https://github.com/'' @ repo @ ''.git/info/refs?service=git-upload-pack'') of
        Inl e \<Rightarrow> Inl e
      | Inr (status, body) \<Rightarrow>
          if status \<noteq> 200 then Inl (''GitHub returned '' @ show_int status @ '' for '' @ repo @ '' refs'')
          else let tag = latestSemverTag (take (4 * 1024 * 1024) body)
               in if tag = [] then Inl (''no vX.Y.Z tags found for '' @ repo) else Inr tag)"

definition refresh_repo :: "(string \<Rightarrow> go_error + (int \<times> string)) \<Rightarrow> string \<Rightarrow> versionCache \<Rightarrow> versionCache" where
  "refresh_repo get repo c =
     (case fetchLatestTag get repo of
        Inl _ \<Rightarrow> c
      | Inr tag \<Rightarrow> c\<lparr>vc_latest := (vc_latest c)(repo \<mapsto> tag)\<rparr>)"

definition Refresh :: "(string \<Rightarrow> go_error + (int \<times> string)) \<Rightarrow> time \<Rightarrow> versionCache \<Rightarrow> versionCache" where
  "Refresh get now c = (fold (refresh_repo get) repos c)\<lparr>vc_checked := now\<rparr>"

definition version_Get :: "string \<Rightarrow> versionCache \<Rightarrow> string" where
  "version_Get repo c = (case vc_latest c repo of None \<Rightarrow> [] | Some t \<Rightarrow> t)"

section \<open>The numbers are the tag\<close>

lemma newer_less: "newer v b \<longleftrightarrow> b < v"
  by (cases v; cases b) (auto simp: newer_def)

lemma semver_part_show: "semver_part p = Some n \<Longrightarrow> 0 \<le> n \<and> p = show_int n"
  by (auto simp: semver_part_def split: option.splits if_splits)

fun join_dots :: "string list \<Rightarrow> string" where
  "join_dots [] = []"
| "join_dots [x] = x"
| "join_dots (x # y # zs) = x @ CHR ''.'' # join_dots (y # zs)"

lemma join_split: "join_dots (split_on CHR ''.'' s) = s"
proof (induction s)
  case (Cons c s)
  have *: "join_dots ((c # x) # xs) = c # join_dots (x # xs)" for x xs by (cases xs) simp_all
  from Cons show ?case by (cases "split_on CHR ''.'' s") (auto simp: *)
qed simp

lemma parseSemver_print:
  assumes "parseSemver tag = Some (x, y, z)"
  shows "0 \<le> x \<and> 0 \<le> y \<and> 0 \<le> z \<and> tag = CHR ''v'' # show_int x @ ''.'' @ show_int y @ ''.'' @ show_int z"
proof -
  obtain rest a b c where t: "tag = CHR ''v'' # rest" "split_on CHR ''.'' rest = [a, b, c]"
    and p: "semver_part a = Some x" "semver_part b = Some y" "semver_part c = Some z"
    using assms by (auto simp: parseSemver_def split: list.splits if_splits option.splits)
  then show ?thesis
    using join_split [of rest] semver_part_show by simp
qed

lemma parseSemver_inj: "parseSemver s = Some v \<Longrightarrow> parseSemver t = Some v \<Longrightarrow> s = t"
  by (cases v) (auto dest!: parseSemver_print)

section \<open>The scan is the maximum\<close>

text \<open>The release tags a body advertises, and the last of them in numeric order.\<close>

definition release_tags :: "string \<Rightarrow> string list" where
  "release_tags body = filter (\<lambda>t. parseSemver t \<noteq> None) (List.map_filter line_tag (scan_lines body))"

definition highest_tag :: "string list \<Rightarrow> string" where
  "highest_tag ts = (if ts = [] then [] else List.last (sort_key (\<lambda>t. the (parseSemver t)) ts))"

definition keep_larger :: "('t \<Rightarrow> 'k :: linorder) \<Rightarrow> 't \<Rightarrow> 't \<times> 'k \<Rightarrow> 't \<times> 'k" where
  "keep_larger k t best = (if snd best < k t then (t, k t) else best)"

lemma fold_keep_larger:
  "fold (keep_larger k) ts (b, v) = (b', v') \<Longrightarrow>
     (b' = b \<and> v' = v \<or> b' \<in> set ts \<and> v' = k b') \<and> v \<le> v' \<and> (\<forall>t \<in> set ts. k t \<le> v')"
proof (induction ts arbitrary: b v)
  case (Cons t ts)
  show ?case
  proof (cases "v < k t")
    case True
    with Cons.IH [of t "k t"] Cons.prems show ?thesis by (auto simp: keep_larger_def)
  next
    case False
    with Cons.IH [of b v] Cons.prems show ?thesis by (auto simp: keep_larger_def)
  qed
qed simp

abbreviation version_of :: "string \<Rightarrow> semver" where
  "version_of t \<equiv> the (parseSemver t)"

lemma consider_line_tag:
  "consider_line l best = fold (keep_larger version_of) (filter (\<lambda>t. parseSemver t \<noteq> None) (case line_tag l of None \<Rightarrow> [] | Some t \<Rightarrow> [t])) best"
  by (auto simp: consider_line_def keep_larger_def newer_less split: option.split)

lemma scan_release_tags:
  "fold consider_line ls best = fold (keep_larger version_of) (filter (\<lambda>t. parseSemver t \<noteq> None) (List.map_filter line_tag ls)) best"
proof (induction ls arbitrary: best)
  case (Cons l ls)
  then show ?case by (cases "line_tag l") (simp_all add: consider_line_tag map_filter_simps)
qed (simp add: map_filter_simps)

lemma latestSemverTag_fold:
  "latestSemverTag body = fst (fold (keep_larger version_of) (release_tags body) ([], (-1, -1, -1)))"
  by (simp only: latestSemverTag_def scan_release_tags release_tags_def)

lemma highest_tag_max:
  assumes "ts \<noteq> []" "b \<in> set ts" "\<forall>t \<in> set ts. parseSemver t \<noteq> None" "\<forall>t \<in> set ts. the (parseSemver t) \<le> the (parseSemver b)"
  shows "highest_tag ts = b"
proof -
  let ?k = "\<lambda>t. the (parseSemver t)"
  let ?s = "sort_key ?k ts"
  have ne: "?s \<noteq> []" and l: "List.last ?s \<in> set ts" using assms(1) by (metis set_empty set_sort, metis last_in_set set_empty set_sort)
  have "?k b \<le> ?k (List.last ?s)"
  proof -
    obtain i where i: "i < length ?s" "?s ! i = b" using assms(2) by (metis in_set_conv_nth set_sort)
    have "map ?k ?s ! i \<le> map ?k ?s ! (length ?s - 1)"
      using i by (intro sorted_nth_mono) (auto simp: sorted_sort_key)
    then show ?thesis using i ne by (simp add: last_conv_nth)
  qed
  with assms(4) l have "?k (List.last ?s) = ?k b" by (simp add: order_antisym)
  with assms(2,3) l have "List.last ?s = b" using parseSemver_inj by (metis option.exhaust_sel)
  then show ?thesis using assms(1) by (simp add: highest_tag_def)
qed

lemma fold_best:
  assumes "ts \<noteq> []" "\<forall>t \<in> set ts. parseSemver t \<noteq> None" "fold (keep_larger version_of) ts ([], (-1, -1, -1)) = (b, v)"
  shows "highest_tag ts = b"
proof -
  note s = fold_keep_larger [OF assms(3)]
  have nonneg: "(-1, -1, -1) < version_of t" if "t \<in> set ts" for t
    using assms(2) that parseSemver_print [of t] by (cases "version_of t") fastforce
  obtain t where t: "t \<in> set ts" using assms(1) by (meson last_in_set)
  with s nonneg have "v \<noteq> (-1, -1, -1)" by (metis leD)
  with s have "b \<in> set ts" "\<forall>t \<in> set ts. version_of t \<le> version_of b" by blast+
  with highest_tag_max [OF assms(1) _ assms(2)] show ?thesis by blast
qed

text \<open>
  C34. Finding the latest release is taking a maximum. On every body the scan returns the highest
  of the release tags it advertises in the order of their version numbers, or nothing when there is
  none: \<^verbatim>\<open>v1.10.0\<close> ranks above \<^verbatim>\<open>v1.9.9\<close>, and a tag that is not exactly \<^verbatim>\<open>vMAJOR.MINOR.PATCH\<close> in
  plain decimal cannot win.
\<close>

theorem latestSemverTag_is_highest:
  "latestSemverTag body = highest_tag (release_tags body)"
proof (cases "release_tags body = []")
  case True
  then show ?thesis by (simp add: latestSemverTag_fold highest_tag_def)
next
  case False
  obtain b v where f: "fold (keep_larger version_of) (release_tags body) ([], (-1, -1, -1)) = (b, v)" by (rule prod.exhaust)
  have "\<forall>t \<in> set (release_tags body). parseSemver t \<noteq> None" by (auto simp: release_tags_def)
  from fold_best [OF False this f] f show ?thesis by (simp add: latestSemverTag_fold)
qed

text \<open>A repository whose fetch fails keeps the tag it had.\<close>

lemma failed_fetch_keeps_tag:
  assumes "\<forall>r \<in> set repos. \<exists>e. fetchLatestTag get r = Inl e"
  shows "vc_latest (Refresh get now c) = vc_latest c"
  using assms by (auto simp: Refresh_def repos_def refresh_repo_def)

end
