(* ===== verification/Stack_Store.thy ===== *)
theory Stack_Store
  imports Log_Pipeline
begin

text \<open>
  The tables a deployment touches and the statements on them (\<^verbatim>\<open>query/stacks.query.go\<close>,
  \<^verbatim>\<open>query/containers.query.go\<close>, \<^verbatim>\<open>query/deployments.query.go\<close>,
  \<^verbatim>\<open>query/deployment_containers.query.go\<close>), and database transactions. The deploy claim of a stack,
  a conditional UPDATE on its status and its claim time, is a \<open>claim_guard\<close>.
\<close>

section \<open>Rows\<close>

record deployment =
  dep_ID :: int
  dep_StackID :: int
  dep_Status :: string
  dep_Strategy :: string
  dep_TriggeredBy :: "int option"
  dep_ApprovedBy :: "int option"
  dep_StartedAt :: "time option"
  dep_CompletedAt :: "time option"
  dep_InsertedAt :: time

record deploymentContainer =
  dc_ID :: int
  dc_DeploymentID :: int
  dc_ContainerID :: int
  dc_Image :: string
  dc_Tag :: string
  dc_PreviousImage :: "string option"
  dc_PreviousTag :: "string option"
  dc_Status :: string

record deploymentLog =
  dl_ID :: int
  dl_DeploymentID :: int
  dl_Level :: string
  dl_Stage :: "string option"
  dl_Message :: string
  dl_RecordedAt :: time

record stackNetwork =
  nw_ID :: int
  nw_StackID :: int
  nw_Name :: string
  nw_Driver :: string

record stackVolume =
  vo_ID :: int
  vo_StackID :: int
  vo_Name :: string
  vo_Driver :: string

record globalEnvVar =
  gv_Key :: string
  gv_EncryptedValue :: string

record deployToken =
  dt_ID :: int
  dt_StackID :: int
  dt_Name :: string
  dt_TokenHash :: string
  dt_Active :: bool
  dt_LastUsedAt :: "time option"

record deploy_world = log_world +
  w_networks :: "stackNetwork list"
  w_volumes :: "stackVolume list"
  w_globals :: "globalEnvVar list"
  w_deploy_tokens :: "deployToken list"
  w_deployments :: "deployment list"
  w_next_deployment :: int
  w_dcs :: "deploymentContainer list"
  w_next_dc :: int
  w_deployment_logs :: "deploymentLog list"
  w_next_dl :: int
  w_next_stack :: int
  w_next_container :: int

section \<open>Transactions\<close>

text \<open>
  A transaction works on a copy of the tables. An error in its body, or a commit the database
  refuses, leaves the tables as they were when it began; time and the connection move on.
\<close>

definition rollback :: "'a world_scheme \<Rightarrow> 'a world_scheme \<Rightarrow> 'a world_scheme" where
  "rollback began w = began\<lparr>clock := clock w, db_script := db_script w\<rparr>"

definition commit :: "'a world_scheme \<Rightarrow> 'a world_scheme \<Rightarrow> go_error option \<times> 'a world_scheme" where
  "commit began w = exec_unit (\<lambda>v. w\<lparr>clock := clock v, db_script := db_script v\<rparr>) (rollback began w)"

definition begin_tx :: "'a world_scheme \<Rightarrow> go_error option \<times> 'a world_scheme" where
  "begin_tx w = exec_unit (\<lambda>v. v) w"

section \<open>Stacks\<close>

record updateStackRequest =
  us_Name :: "string option"
  us_Description :: "string option"
  us_WorkerID :: "int option"
  us_Status :: "string option"
  us_DeploymentStrategy :: "string option"
  us_AutoDeploy :: "bool option"
  us_EnvVars :: "jsonColumn option"
  us_SecretEnvKeys :: "jsonColumn option"
  us_ComposeYAML :: "string option"
  us_PlacementConstraints :: "jsonColumn option"
  us_Active :: "bool option"

definition no_stack_update :: updateStackRequest where
  "no_stack_update = \<lparr>us_Name = None, us_Description = None, us_WorkerID = None, us_Status = None, us_DeploymentStrategy = None,
     us_AutoDeploy = None, us_EnvVars = None, us_SecretEnvKeys = None, us_ComposeYAML = None, us_PlacementConstraints = None, us_Active = None\<rparr>"

text \<open>Leaving \<^verbatim>\<open>deploying\<close> clears the claim; worker 0 and an empty key list write NULL.\<close>

definition set_stack_status :: "string \<Rightarrow> stack \<Rightarrow> stack" where
  "set_stack_status s st = (if s \<noteq> ''deploying'' then st\<lparr>st_Status := s, st_deploy_claimed_at := None\<rparr> else st\<lparr>st_Status := s\<rparr>)"

definition stack_sets :: "updateStackRequest \<Rightarrow> stack \<Rightarrow> stack" where
  "stack_sets req =
     set_opt (us_Active req) (\<lambda>v s. s\<lparr>st_Active := v\<rparr>) \<circ>
     set_opt (us_PlacementConstraints req) (\<lambda>v s. s\<lparr>st_PlacementConstraints := v\<rparr>) \<circ>
     set_opt (us_ComposeYAML req) (\<lambda>v s. s\<lparr>st_ComposeYAML := Some v\<rparr>) \<circ>
     set_opt (us_SecretEnvKeys req) (\<lambda>v s. s\<lparr>st_SecretEnvKeys := (if v = EmptyText then NullColumn else v)\<rparr>) \<circ>
     set_opt (us_EnvVars req) (\<lambda>v s. s\<lparr>st_EnvVars := v\<rparr>) \<circ>
     set_opt (us_AutoDeploy req) (\<lambda>v s. s\<lparr>st_AutoDeploy := v\<rparr>) \<circ>
     set_opt (us_DeploymentStrategy req) (\<lambda>v s. s\<lparr>st_DeploymentStrategy := v\<rparr>) \<circ>
     set_opt (us_Status req) set_stack_status \<circ>
     set_opt (us_WorkerID req) (\<lambda>v s. s\<lparr>st_WorkerID := (if v = 0 then None else Some v)\<rparr>) \<circ>
     set_opt (us_Description req) (\<lambda>v s. s\<lparr>st_Description := Some v\<rparr>) \<circ>
     set_opt (us_Name req) (\<lambda>v s. s\<lparr>st_Name := v\<rparr>)"

definition UpdateStack :: "int \<Rightarrow> updateStackRequest \<Rightarrow> 'a tables_scheme \<Rightarrow> (go_error + stack) \<times> 'a tables_scheme" where
  "UpdateStack i req w =
     (if req = no_stack_update then (Inl ErrNoChanges, w)
      else case exec_unit (\<lambda>w. w\<lparr>stacks := update_where (\<lambda>s. st_ID s = i) (stack_sets req) (stacks w)\<rparr>) w of
        (Some e, w1) \<Rightarrow> (Inl (''failed to execute sql query: '' @ e), w1)
      | (None, w1) \<Rightarrow> GetStackByID i w1)"

definition DeployClaimWindow :: duration where "DeployClaimWindow = 30 * Minute"

text \<open>The conditional UPDATE on one row: whether it matched, and the row.\<close>

definition claim_stack :: "unit \<Rightarrow> time \<Rightarrow> time \<Rightarrow> stack \<Rightarrow> bool \<times> stack" where
  "claim_stack _ cutoff now s =
     (if st_Active s \<and> (st_Status s \<noteq> ''deploying'' \<or> st_deploy_claimed_at s = None \<or> older (st_deploy_claimed_at s) cutoff)
      then (True, s\<lparr>st_Status := ''deploying'', st_deploy_claimed_at := Some (db_time now)\<rparr>)
      else (False, s))"

definition ClaimStackForDeploy :: "int \<Rightarrow> 'a tables_scheme \<Rightarrow> (go_error + bool) \<times> 'a tables_scheme" where
  "ClaimStackForDeploy i w =
     (case exec (\<lambda>w. let cutoff = db_time (clock w) - DeployClaimWindow in
            (list_ex (\<lambda>s. st_ID s = i \<and> fst (claim_stack () cutoff (clock w) s)) (stacks w),
             w\<lparr>stacks := update_where (\<lambda>s. st_ID s = i) (\<lambda>s. snd (claim_stack () cutoff (clock w) s)) (stacks w)\<rparr>)) w of
        (Inl e, w1) \<Rightarrow> (Inl (''failed to claim stack for deploy: '' @ e), w1)
      | (Inr won, w1) \<Rightarrow> (Inr won, w1))"

definition StackNameExists :: "string \<Rightarrow> int option \<Rightarrow> 'a tables_scheme \<Rightarrow> (go_error + bool) \<times> 'a tables_scheme" where
  "StackNameExists name exclude w =
     query (\<lambda>w. list_ex (\<lambda>s. st_Name s = name \<and> st_Active s \<and> (case exclude of None \<Rightarrow> True | Some i \<Rightarrow> st_ID s \<noteq> i)) (stacks w)) w"

definition DeleteStack :: "int \<Rightarrow> 'a tables_scheme \<Rightarrow> go_error option \<times> 'a tables_scheme" where
  "DeleteStack i w =
     (case exec_unit (\<lambda>w. w\<lparr>containers := update_where (\<lambda>c. c_StackID c = i) (\<lambda>c. c\<lparr>c_Active := False\<rparr>) (containers w)\<rparr>) w of
        (Some e, w1) \<Rightarrow> (Some (''failed to deactivate containers for stack '' @ show_int i @ '': '' @ e), w1)
      | (None, w1) \<Rightarrow> exec_unit (\<lambda>w. w\<lparr>stacks := update_where (\<lambda>s. st_ID s = i) (\<lambda>s. s\<lparr>st_Active := False\<rparr>) (stacks w)\<rparr>) w1)"

section \<open>Containers\<close>

definition GetContainerByID :: "int \<Rightarrow> 'a tables_scheme \<Rightarrow> (go_error + container) \<times> 'a tables_scheme" where
  "GetContainerByID i w = one_row ''failed to scan container: '' (\<lambda>w. List.find (\<lambda>c. c_ID c = i) (containers w)) w"

record updateContainerRequest =
  uc_Name :: "string option"
  uc_Image :: "string option"
  uc_Tag :: "string option"
  uc_Status :: "string option"
  uc_PortMappings :: "jsonColumn option"
  uc_EnvVars :: "jsonColumn option"
  uc_Volumes :: "jsonColumn option"
  uc_CPULimit :: "string option"
  uc_MemoryLimit :: "int option"
  uc_Replicas :: "int option"
  uc_RestartPolicy :: "string option"
  uc_Command :: "jsonColumn option"
  uc_Entrypoint :: "jsonColumn option"
  uc_HealthCheck :: "jsonColumn option"
  uc_Ulimits :: "jsonColumn option"
  uc_HealthStatus :: "string option"
  uc_RegistryID :: "int option"
  uc_DependsOn :: "jsonColumn option"
  uc_NetworkAliases :: "jsonColumn option"
  uc_StartedAt :: "time option"
  uc_Active :: "bool option"
  uc_ClearCPULimit :: bool
  uc_ClearMemoryLimit :: bool
  uc_ClearRegistryID :: bool

definition no_container_update :: updateContainerRequest where
  "no_container_update = \<lparr>uc_Name = None, uc_Image = None, uc_Tag = None, uc_Status = None, uc_PortMappings = None, uc_EnvVars = None,
     uc_Volumes = None, uc_CPULimit = None, uc_MemoryLimit = None, uc_Replicas = None, uc_RestartPolicy = None, uc_Command = None,
     uc_Entrypoint = None, uc_HealthCheck = None, uc_Ulimits = None, uc_HealthStatus = None, uc_RegistryID = None, uc_DependsOn = None,
     uc_NetworkAliases = None, uc_StartedAt = None, uc_Active = None, uc_ClearCPULimit = False, uc_ClearMemoryLimit = False,
     uc_ClearRegistryID = False\<rparr>"

text \<open>A value given is written even when its clear flag is set.\<close>

definition set_or_clear :: "'v option \<Rightarrow> bool \<Rightarrow> ('v option \<Rightarrow> 'r \<Rightarrow> 'r) \<Rightarrow> 'r \<Rightarrow> 'r" where
  "set_or_clear v clear put r = (case v of Some x \<Rightarrow> put (Some x) r | None \<Rightarrow> if clear then put None r else r)"

definition container_sets :: "updateContainerRequest \<Rightarrow> container \<Rightarrow> container" where
  "container_sets req =
     set_opt (uc_Active req) (\<lambda>v c. c\<lparr>c_Active := v\<rparr>) \<circ>
     set_opt (uc_StartedAt req) (\<lambda>v c. c\<lparr>c_StartedAt := Some (db_time v)\<rparr>) \<circ>
     set_opt (uc_NetworkAliases req) (\<lambda>v c. c\<lparr>c_NetworkAliases := v\<rparr>) \<circ>
     set_opt (uc_DependsOn req) (\<lambda>v c. c\<lparr>c_DependsOn := v\<rparr>) \<circ>
     set_or_clear (uc_RegistryID req) (uc_ClearRegistryID req) (\<lambda>v c. c\<lparr>c_RegistryID := v\<rparr>) \<circ>
     set_opt (uc_HealthStatus req) (\<lambda>v c. c\<lparr>c_HealthStatus := v\<rparr>) \<circ>
     set_opt (uc_Ulimits req) (\<lambda>v c. c\<lparr>c_Ulimits := v\<rparr>) \<circ>
     set_opt (uc_HealthCheck req) (\<lambda>v c. c\<lparr>c_HealthCheck := v\<rparr>) \<circ>
     set_opt (uc_Entrypoint req) (\<lambda>v c. c\<lparr>c_Entrypoint := v\<rparr>) \<circ>
     set_opt (uc_Command req) (\<lambda>v c. c\<lparr>c_Command := v\<rparr>) \<circ>
     set_opt (uc_RestartPolicy req) (\<lambda>v c. c\<lparr>c_RestartPolicy := Some v\<rparr>) \<circ>
     set_opt (uc_Replicas req) (\<lambda>v c. c\<lparr>c_Replicas := v\<rparr>) \<circ>
     set_or_clear (uc_MemoryLimit req) (uc_ClearMemoryLimit req) (\<lambda>v c. c\<lparr>c_MemoryLimit := v\<rparr>) \<circ>
     set_or_clear (uc_CPULimit req) (uc_ClearCPULimit req) (\<lambda>v c. c\<lparr>c_CPULimit := v\<rparr>) \<circ>
     set_opt (uc_Volumes req) (\<lambda>v c. c\<lparr>c_Volumes := v\<rparr>) \<circ>
     set_opt (uc_EnvVars req) (\<lambda>v c. c\<lparr>c_EnvVars := v\<rparr>) \<circ>
     set_opt (uc_PortMappings req) (\<lambda>v c. c\<lparr>c_PortMappings := v\<rparr>) \<circ>
     set_opt (uc_Status req) (\<lambda>v c. c\<lparr>c_Status := v\<rparr>) \<circ>
     set_opt (uc_Tag req) (\<lambda>v c. c\<lparr>c_Tag := v\<rparr>) \<circ>
     set_opt (uc_Image req) (\<lambda>v c. c\<lparr>c_Image := v\<rparr>) \<circ>
     set_opt (uc_Name req) (\<lambda>v c. c\<lparr>c_Name := v\<rparr>)"

definition UpdateContainer :: "int \<Rightarrow> updateContainerRequest \<Rightarrow> 'a tables_scheme \<Rightarrow> (go_error + container) \<times> 'a tables_scheme" where
  "UpdateContainer i req w =
     (if req = no_container_update then (Inl ErrNoChanges, w)
      else case exec_unit (\<lambda>w. w\<lparr>containers := update_where (\<lambda>c. c_ID c = i) (container_sets req) (containers w)\<rparr>) w of
        (Some e, w1) \<Rightarrow> (Inl (''failed to execute sql query: '' @ e), w1)
      | (None, w1) \<Rightarrow> GetContainerByID i w1)"

definition DeleteContainer :: "int \<Rightarrow> 'a tables_scheme \<Rightarrow> go_error option \<times> 'a tables_scheme" where
  "DeleteContainer i w =
     exec_unit (\<lambda>w. w\<lparr>containers := update_where (\<lambda>c. c_ID c = i) (\<lambda>c. c\<lparr>c_Active := False\<rparr>) (containers w)\<rparr>) w"

section \<open>Deployments\<close>

definition GetDeploymentByID :: "int \<Rightarrow> 'a deploy_world_scheme \<Rightarrow> (go_error + deployment) \<times> 'a deploy_world_scheme" where
  "GetDeploymentByID i w = one_row ''failed to scan deployment: '' (\<lambda>w. List.find (\<lambda>d. dep_ID d = i) (w_deployments w)) w"

record listDeploymentsRequest =
  ld_Limit :: int
  ld_Offset :: int
  ld_StackID :: "int option"
  ld_Status :: "string option"

definition ListDeployments :: "listDeploymentsRequest \<Rightarrow> 'a deploy_world_scheme \<Rightarrow> (go_error + deployment list) \<times> 'a deploy_world_scheme" where
  "ListDeployments q w =
     (let keep = (\<lambda>d. (case ld_StackID q of None \<Rightarrow> True | Some i \<Rightarrow> dep_StackID d = i) \<and>
                      (case ld_Status q of None \<Rightarrow> True | Some s \<Rightarrow> dep_Status d = s)) in
      case query (\<lambda>w. page (ld_Limit q) (ld_Offset q) (rev (sort_key dep_ID (filter keep (w_deployments w))))) w of
        (Inl e, w1) \<Rightarrow> (Inl (''failed to execute sql query: '' @ e), w1)
      | (Inr ds, w1) \<Rightarrow> (Inr ds, w1))"

definition CreateDeployment ::
  "int \<Rightarrow> string \<Rightarrow> int option \<Rightarrow> 'a deploy_world_scheme \<Rightarrow> (go_error + deployment) \<times> 'a deploy_world_scheme" where
  "CreateDeployment stackID strategy triggeredBy w =
     (case exec (\<lambda>w. (w_next_deployment w, w\<lparr>w_deployments := w_deployments w @
             [\<lparr>dep_ID = w_next_deployment w, dep_StackID = stackID, dep_Status = ''pending'', dep_Strategy = strategy,
               dep_TriggeredBy = triggeredBy, dep_ApprovedBy = None, dep_StartedAt = None, dep_CompletedAt = None,
               dep_InsertedAt = db_time (clock w)\<rparr>], w_next_deployment := w_next_deployment w + 1\<rparr>)) w of
        (Inl e, w1) \<Rightarrow> (Inl (''failed to execute sql query: '' @ e), w1)
      | (Inr i, w1) \<Rightarrow> GetDeploymentByID i w1)"

definition isTerminalDeploymentStatus :: "string \<Rightarrow> bool" where
  "isTerminalDeploymentStatus s \<longleftrightarrow> s \<in> {''deployed'', ''failed'', ''rolled_back''}"

definition set_deployment_status :: "string \<Rightarrow> time \<Rightarrow> deployment \<Rightarrow> deployment" where
  "set_deployment_status s now d =
     d\<lparr>dep_Status := s,
       dep_StartedAt := (if s = ''deploying'' then Some now else dep_StartedAt d),
       dep_CompletedAt := (if s = ''deployed'' \<or> s = ''failed'' \<or> s = ''rolled_back'' then Some now else dep_CompletedAt d)\<rparr>"

definition UpdateDeploymentStatus :: "int \<Rightarrow> string \<Rightarrow> 'a deploy_world_scheme \<Rightarrow> go_error option \<times> 'a deploy_world_scheme" where
  "UpdateDeploymentStatus i s w =
     (let now = db_time (clock w) in
      exec_unit (\<lambda>w. w\<lparr>w_deployments := update_where (\<lambda>d. dep_ID d = i) (set_deployment_status s now) (w_deployments w)\<rparr>) w)"

definition ApproveDeployment :: "int \<Rightarrow> int \<Rightarrow> 'a deploy_world_scheme \<Rightarrow> go_error option \<times> 'a deploy_world_scheme" where
  "ApproveDeployment i by_user w =
     (case exec (\<lambda>w. let hit = (\<lambda>d. dep_ID d = i \<and> dep_Status d = ''pending'') in
            (list_ex hit (w_deployments w),
             w\<lparr>w_deployments := update_where hit (\<lambda>d. d\<lparr>dep_Status := ''approved'', dep_ApprovedBy := Some by_user\<rparr>) (w_deployments w)\<rparr>)) w of
        (Inl e, w1) \<Rightarrow> (Some e, w1)
      | (Inr True, w1) \<Rightarrow> (None, w1)
      | (Inr False, w1) \<Rightarrow> (Some ''deployment not found or not in pending status'', w1))"

record createDeploymentLogRequest =
  cdl_DeploymentID :: int
  cdl_Level :: string
  cdl_Stage :: "string option"
  cdl_Message :: string

text \<open>The unique index on deployment, level, second and the first 255 bytes of the message drops a replay.\<close>

definition CreateDeploymentLog :: "createDeploymentLogRequest \<Rightarrow> 'a deploy_world_scheme \<Rightarrow> go_error option \<times> 'a deploy_world_scheme" where
  "CreateDeploymentLog r w =
     (let level = (if cdl_Level r = [] then ''info'' else cdl_Level r) in
      exec_unit (\<lambda>w.
        if list_ex (\<lambda>l. dl_DeploymentID l = cdl_DeploymentID r \<and> dl_Level l = level \<and> dl_RecordedAt l = db_time (clock w)
                      \<and> take 255 (dl_Message l) = take 255 (cdl_Message r)) (w_deployment_logs w) then w
        else w\<lparr>w_deployment_logs := w_deployment_logs w @
          [\<lparr>dl_ID = w_next_dl w, dl_DeploymentID = cdl_DeploymentID r, dl_Level = level, dl_Stage = cdl_Stage r,
            dl_Message = cdl_Message r, dl_RecordedAt = db_time (clock w)\<rparr>], w_next_dl := w_next_dl w + 1\<rparr>) w)"

definition UpdateDeploymentAndStackStatus ::
  "int \<Rightarrow> string \<Rightarrow> int \<Rightarrow> string \<Rightarrow> 'a deploy_world_scheme \<Rightarrow> go_error option \<times> 'a deploy_world_scheme" where
  "UpdateDeploymentAndStackStatus i deployStatus stackID stackStatus w =
     (case UpdateDeploymentStatus i deployStatus w of
        (Some e, w1) \<Rightarrow> (Some (''failed to update deployment status: '' @ e), w1)
      | (None, w1) \<Rightarrow>
          (case UpdateStack stackID (no_stack_update\<lparr>us_Status := Some stackStatus\<rparr>) w1 of
             (Inl e, w2) \<Rightarrow> (Some (''failed to update stack status: '' @ e), w2)
           | (Inr _, w2) \<Rightarrow> (None, w2)))"

definition ListDeploymentLogs :: "int \<Rightarrow> 'a deploy_world_scheme \<Rightarrow> (go_error + deploymentLog list) \<times> 'a deploy_world_scheme" where
  "ListDeploymentLogs i w =
     (case query (\<lambda>w. take 2000 (sort_key dl_ID (filter (\<lambda>l. dl_DeploymentID l = i) (w_deployment_logs w)))) w of
        (Inl e, w1) \<Rightarrow> (Inl (''failed to query deployment logs: '' @ e), w1)
      | (Inr ls, w1) \<Rightarrow> (Inr ls, w1))"

definition GetLatestDeploymentLog :: "int \<Rightarrow> 'a deploy_world_scheme \<Rightarrow> (go_error + deploymentLog option) \<times> 'a deploy_world_scheme" where
  "GetLatestDeploymentLog i w =
     query (\<lambda>w. case rev (sort_key dl_ID (filter (\<lambda>l. dl_DeploymentID l = i) (w_deployment_logs w))) of [] \<Rightarrow> None | l # _ \<Rightarrow> Some l) w"

definition FailActiveDeployments :: "int \<Rightarrow> 'a deploy_world_scheme \<Rightarrow> go_error option \<times> 'a deploy_world_scheme" where
  "FailActiveDeployments stackID w =
     exec_unit (\<lambda>w. w\<lparr>w_deployments := update_where
       (\<lambda>d. dep_StackID d = stackID \<and> dep_Status d \<in> {''pending'', ''approved'', ''sending'', ''deploying'', ''validating''})
       (\<lambda>d. d\<lparr>dep_Status := ''failed'', dep_CompletedAt := Some (db_time (clock w))\<rparr>) (w_deployments w)\<rparr>) w"

definition GetPreviousDeployment :: "int \<Rightarrow> int \<Rightarrow> 'a deploy_world_scheme \<Rightarrow> (go_error + deployment) \<times> 'a deploy_world_scheme" where
  "GetPreviousDeployment stackID beforeID w =
     (case query (\<lambda>w. rev (sort_key dep_ID (filter (\<lambda>d. dep_StackID d = stackID \<and> dep_Status d = ''deployed'' \<and> dep_ID d < beforeID) (w_deployments w)))) w of
        (Inl e, w1) \<Rightarrow> (Inl (''no previous successful deployment found: '' @ e), w1)
      | (Inr [], w1) \<Rightarrow> (Inl ''no previous successful deployment found: sql: no rows in result set'', w1)
      | (Inr (d # _), w1) \<Rightarrow> (Inr d, w1))"

definition ListDeploymentContainers :: "int \<Rightarrow> 'a deploy_world_scheme \<Rightarrow> (go_error + deploymentContainer list) \<times> 'a deploy_world_scheme" where
  "ListDeploymentContainers i w =
     (case query (\<lambda>w. take MAX_LIMIT (sort_key dc_ID (filter (\<lambda>d. dc_DeploymentID d = i) (w_dcs w)))) w of
        (Inl e, w1) \<Rightarrow> (Inl (''failed to execute sql query: '' @ e), w1)
      | (Inr ds, w1) \<Rightarrow> (Inr ds, w1))"

text \<open>The row is read back in a second statement, which may fail after the insert.\<close>

definition CreateDeploymentContainer ::
  "int \<Rightarrow> int \<Rightarrow> string \<Rightarrow> string \<Rightarrow> 'a deploy_world_scheme \<Rightarrow> go_error option \<times> 'a deploy_world_scheme" where
  "CreateDeploymentContainer depID cID img tag w =
     (case exec (\<lambda>w. (w_next_dc w, w\<lparr>w_dcs := w_dcs w @
             [\<lparr>dc_ID = w_next_dc w, dc_DeploymentID = depID, dc_ContainerID = cID, dc_Image = img, dc_Tag = tag,
               dc_PreviousImage = None, dc_PreviousTag = None, dc_Status = ''pending''\<rparr>], w_next_dc := w_next_dc w + 1\<rparr>)) w of
        (Inl e, w1) \<Rightarrow> (Some (''failed to execute sql query: '' @ e), w1)
      | (Inr i, w1) \<Rightarrow>
          (case query (\<lambda>w. List.find (\<lambda>d. dc_ID d = i) (w_dcs w)) w1 of
             (Inl e, w2) \<Rightarrow> (Some e, w2)
           | (Inr None, w2) \<Rightarrow> (Some ''sql: no rows in result set'', w2)
           | (Inr (Some _), w2) \<Rightarrow> (None, w2)))"

section \<open>Networks, volumes, global variables and deploy tokens\<close>

definition ListNetworksByStack :: "int \<Rightarrow> 'a deploy_world_scheme \<Rightarrow> (go_error + stackNetwork list) \<times> 'a deploy_world_scheme" where
  "ListNetworksByStack i w =
     (case query (\<lambda>w. take MAX_LIMIT (sort_key nw_ID (filter (\<lambda>n. nw_StackID n = i) (w_networks w)))) w of
        (Inl e, w1) \<Rightarrow> (Inl (''failed to execute sql query: '' @ e), w1)
      | (Inr ns, w1) \<Rightarrow> (Inr ns, w1))"

definition ListVolumesByStack :: "int \<Rightarrow> 'a deploy_world_scheme \<Rightarrow> (go_error + stackVolume list) \<times> 'a deploy_world_scheme" where
  "ListVolumesByStack i w =
     (case query (\<lambda>w. take MAX_LIMIT (sort_key vo_ID (filter (\<lambda>v. vo_StackID v = i) (w_volumes w)))) w of
        (Inl e, w1) \<Rightarrow> (Inl (''failed to execute sql query: '' @ e), w1)
      | (Inr vs, w1) \<Rightarrow> (Inr vs, w1))"

text \<open>The table is kept in the order of its unique key.\<close>

definition ListGlobalEnvVars :: "'a deploy_world_scheme \<Rightarrow> (go_error + globalEnvVar list) \<times> 'a deploy_world_scheme" where
  "ListGlobalEnvVars w =
     (case query (\<lambda>w. take MAX_LIMIT (w_globals w)) w of
        (Inl e, w1) \<Rightarrow> (Inl (''failed to execute sql query: '' @ e), w1)
      | (Inr gs, w1) \<Rightarrow> (Inr gs, w1))"

definition GetDeployTokenByHash :: "string \<Rightarrow> 'a deploy_world_scheme \<Rightarrow> (go_error + deployToken) \<times> 'a deploy_world_scheme" where
  "GetDeployTokenByHash h w =
     (case query (\<lambda>w. List.find (\<lambda>t. dt_TokenHash t = h \<and> dt_Active t) (w_deploy_tokens w)) w of
        (Inl e, w1) \<Rightarrow> (Inl (''failed to scan deploy token: '' @ e), w1)
      | (Inr None, w1) \<Rightarrow> (Inl ''failed to scan deploy token: sql: no rows in result set'', w1)
      | (Inr (Some t), w1) \<Rightarrow> (Inr t, w1))"

definition TouchDeployToken :: "int \<Rightarrow> 'a deploy_world_scheme \<Rightarrow> go_error option \<times> 'a deploy_world_scheme" where
  "TouchDeployToken i w =
     exec_unit (\<lambda>w. w\<lparr>w_deploy_tokens := update_where (\<lambda>t. dt_ID t = i) (\<lambda>t. t\<lparr>dt_LastUsedAt := Some (db_time (clock w))\<rparr>) (w_deploy_tokens w)\<rparr>) w"

section \<open>The deploy claim is a guard\<close>

definition stack_holder :: "stack \<Rightarrow> (unit \<times> time option) option" where
  "stack_holder s =
     (if st_Status s = ''deploying'' \<and> st_deploy_claimed_at s \<noteq> None then Some ((), st_deploy_claimed_at s) else None)"

definition release_stack :: "unit \<Rightarrow> stack \<Rightarrow> stack" where
  "release_stack _ s = set_stack_status ''active'' s"

interpretation deploy_claim: claim_guard db_time stack_holder st_Active claim_stack release_stack
  by unfold_locales (auto simp: stack_holder_def claim_stack_def release_stack_def set_stack_status_def older_def split: option.splits if_splits)

end
