(* ===== verification/Deploy_Spec.thy ===== *)
theory Deploy_Spec
  imports Stack_Store "HOL-Library.Char_ord" "HOL-Library.List_Lexorder"
begin

text \<open>
  What a deploy sends to a runner (\<^verbatim>\<open>routers/deploy_env.go\<close>, \<^verbatim>\<open>routers/deploy_spec.go\<close> and the
  variable references of \<^verbatim>\<open>routers/HandleDeployStack.router.go\<close>): the environment, global variables
  under the stack's own, the references to it inside ports, env values, volumes and health checks,
  and the specification of each container with its networks, aliases, limits and registry
  credentials. A \<^verbatim>\<open>map[string]any\<close> is an association list with distinct keys. Parameters: \<open>fmt_float\<close>
  is Go's rendering of a number that is not an exactly representable integer, \<open>services\<close> the YAML
  parser's reading of a compose file as its service keys with their container names.
\<close>

section \<open>Variable references\<close>

definition lookup_env :: "(string \<times> json) list \<Rightarrow> string \<Rightarrow> json option" where
  "lookup_env env name = map_of env name"

definition resolveEnvRef :: "string \<Rightarrow> (string \<times> json) list \<Rightarrow> json option" where
  "resolveEnvRef s env =
     (let name = (if has_prefix s ''${'' \<and> has_suffix s ''}'' then Some (butlast (drop 2 s))
                  else if has_prefix s ''$'' then Some (drop 1 s) else None)
      in case name of None \<Rightarrow> None | Some n \<Rightarrow> if n = [] then None else lookup_env env n)"

text \<open>\<^verbatim>\<open>fmt.Sprint\<close> of a decoded JSON value; an integer of seven digits or more prints as \<^verbatim>\<open>%g\<close> does.\<close>

definition drop_zeros :: "string \<Rightarrow> string" where
  "drop_zeros s = rev (dropWhile (\<lambda>c. c = CHR ''0'') (rev s))"

definition show_g :: "nat \<Rightarrow> string" where
  "show_g n =
     (if n < 1000000 then show_nat n
      else let ds = show_nat n; e = length ds - 1; frac = drop_zeros (tl ds)
           in hd ds # (if frac = [] then [] else CHR ''.'' # frac) @ ''e+'' @ (if e < 10 then ''0'' else []) @ show_nat e)"

fun join_with :: "string \<Rightarrow> string list \<Rightarrow> string" where
  "join_with sep [] = []"
| "join_with sep [x] = x"
| "join_with sep (x # xs) = x @ sep @ join_with sep xs"

definition sprint_int :: "(string \<Rightarrow> string) \<Rightarrow> int \<Rightarrow> string" where
  "sprint_int fmt_float n =
     (if \<bar>n\<bar> \<le> 9007199254740992 then (if n < 0 then CHR ''-'' # show_g (nat (- n)) else show_g (nat n)) else fmt_float (show_int n))"

fun sprint :: "(string \<Rightarrow> string) \<Rightarrow> json \<Rightarrow> string" and sprint_members :: "(string \<Rightarrow> string) \<Rightarrow> (string \<times> json) list \<Rightarrow> (string \<times> string) list" where
  "sprint ff JNull = ''<nil>''"
| "sprint ff (JBool b) = (if b then ''true'' else ''false'')"
| "sprint ff (JInt n) = sprint_int ff n"
| "sprint ff (JFloat s) = ff s"
| "sprint ff (JStr s) = s"
| "sprint ff (JList xs) = ''['' @ join_with '' '' (map (sprint ff) xs) @ '']''"
| "sprint ff (JObj kvs) =
     ''map['' @ join_with '' '' (map (\<lambda>(k, s). k @ '':'' @ s) (sort_key fst (sprint_members ff kvs))) @ '']''"
| "sprint_members ff [] = []"
| "sprint_members ff ((k, v) # kvs) = (k, sprint ff v) # sprint_members ff kvs"

text \<open>The reference \<^verbatim>\<open>envRefPattern\<close> matches right after a dollar: its text from there, and what follows.\<close>

definition ref_start :: "char \<Rightarrow> bool" where
  "ref_start c \<longleftrightarrow> (let n = of_char c :: nat in 97 \<le> n \<and> n \<le> 122 \<or> 65 \<le> n \<and> n \<le> 90 \<or> c = CHR ''_'')"

definition ref_char :: "char \<Rightarrow> bool" where
  "ref_char c \<longleftrightarrow> ref_start c \<or> is_digit c"

definition match_ref :: "string \<Rightarrow> (string \<times> string) option" where
  "match_ref s =
     (case s of
        [] \<Rightarrow> None
      | c # cs \<Rightarrow>
          if c = CHR ''{'' \<and> cs \<noteq> [] \<and> ref_start (hd cs) \<and> has_prefix (dropWhile ref_char cs) ''}''
          then Some (c # takeWhile ref_char cs @ ''}'', drop 1 (dropWhile ref_char cs))
          else if ref_start c then Some (takeWhile ref_char s, dropWhile ref_char s)
          else None)"

lemma match_ref_shorter: "match_ref s = Some (t, rest) \<Longrightarrow> length rest < length s \<and> s = t @ rest"
proof -
  assume a: "match_ref s = Some (t, rest)"
  then obtain c cs where s: "s = c # cs" by (auto simp: match_ref_def split: list.splits)
  show ?thesis
  proof (cases "c = CHR ''{'' \<and> cs \<noteq> [] \<and> ref_start (hd cs) \<and> has_prefix (dropWhile ref_char cs) ''}''")
    case True
    then obtain more where d: "dropWhile ref_char cs = CHR ''}'' # more"
      by (cases "dropWhile ref_char cs") (auto simp: has_prefix_def)
    have l: "length (dropWhile ref_char cs) \<le> length cs" by (rule length_dropWhile_le)
    have w: "cs = takeWhile ref_char cs @ CHR ''}'' # more" by (metis d takeWhile_dropWhile_id)
    from a True s d have "t = c # takeWhile ref_char cs @ ''}''" "rest = more" by (auto simp: match_ref_def)
    with l d s w show ?thesis by (metis Cons_eq_appendI append.assoc append_Cons append_Nil length_Cons less_Suc_eq_le Suc_leD)
  next
    case False
    with a s have t: "ref_start c" "t = takeWhile ref_char s" "rest = dropWhile ref_char s"
      by (auto simp: match_ref_def split: if_splits)
    have "ref_char c" using t(1) by (simp add: ref_char_def)
    with length_dropWhile_le [of ref_char cs] t s show ?thesis by (simp add: less_Suc_eq_le)
  qed
qed

function interpolateEnvRefs :: "(string \<Rightarrow> string) \<Rightarrow> (string \<times> json) list \<Rightarrow> string \<Rightarrow> string" where
  "interpolateEnvRefs ff env [] = []"
| "interpolateEnvRefs ff env (c # cs) =
     (if c \<noteq> CHR ''$'' then c # interpolateEnvRefs ff env cs
      else case match_ref cs of
        None \<Rightarrow> c # interpolateEnvRefs ff env cs
      | Some (t, rest) \<Rightarrow>
          (case resolveEnvRef (c # t) env of Some v \<Rightarrow> sprint ff v | None \<Rightarrow> c # t) @ interpolateEnvRefs ff env rest)"
  by pat_completeness auto
termination
  by (relation "measure (\<lambda>(_, _, s). length s)") (auto dest: match_ref_shorter)

fun resolveVarsInValue :: "(string \<Rightarrow> string) \<Rightarrow> (string \<times> json) list \<Rightarrow> json \<Rightarrow> json"
  and resolve_members :: "(string \<Rightarrow> string) \<Rightarrow> (string \<times> json) list \<Rightarrow> (string \<times> json) list \<Rightarrow> (string \<times> json) list" where
  "resolveVarsInValue ff env (JStr s) =
     (case resolveEnvRef s env of Some v \<Rightarrow> v | None \<Rightarrow> JStr (interpolateEnvRefs ff env s))"
| "resolveVarsInValue ff env (JObj kvs) = JObj (resolve_members ff env kvs)"
| "resolveVarsInValue ff env (JList xs) = JList (map (resolveVarsInValue ff env) xs)"
| "resolveVarsInValue ff env v = v"
| "resolve_members ff env [] = []"
| "resolve_members ff env ((k, v) # kvs) = (k, resolveVarsInValue ff env v) # resolve_members ff env kvs"

section \<open>The environment of a deploy\<close>

definition jsonBlank :: "jsonColumn \<Rightarrow> bool" where
  "jsonBlank raw \<longleftrightarrow> raw = NullColumn \<or> raw = EmptyText \<or> raw = JsonText JNull"

definition bad_json :: go_error where "bad_json = ''invalid character in JSON text''"

definition go_value_error :: "json \<Rightarrow> string \<Rightarrow> go_error" where
  "go_value_error v ty = ''json: cannot unmarshal '' @ json_kind v @ '' into Go value of type '' @ ty"

text \<open>Decoding an object into a map keeps the last value of a repeated key.\<close>

definition to_map :: "(string \<times> json) list \<Rightarrow> (string \<times> json) list" where
  "to_map kvs = fold (\<lambda>(k, v). put_member k v) kvs []"

definition unmarshal_map :: "jsonColumn \<Rightarrow> go_error + (string \<times> json) list option" where
  "unmarshal_map raw =
     (case raw of
        JsonText JNull \<Rightarrow> Inr None
      | JsonText (JObj kvs) \<Rightarrow> Inr (Some (to_map kvs))
      | JsonText v \<Rightarrow> Inl (go_value_error v ''map[string]interface {}'')
      | _ \<Rightarrow> Inl bad_json)"

definition unmarshal_slice :: "jsonColumn \<Rightarrow> go_error + json list" where
  "unmarshal_slice raw =
     (case raw of
        JsonText JNull \<Rightarrow> Inr []
      | JsonText (JList xs) \<Rightarrow> Inr xs
      | JsonText v \<Rightarrow> Inl (go_value_error v ''[]interface {}'')
      | _ \<Rightarrow> Inl bad_json)"

fun store_strings :: "json list \<Rightarrow> go_error + string list" where
  "store_strings [] = Inr []"
| "store_strings (v # vs) =
     (case (store_string [] v [], store_strings vs) of
        ((Some e, _), _) \<Rightarrow> Inl e
      | ((None, s), Inl e) \<Rightarrow> Inl e
      | ((None, s), Inr ss) \<Rightarrow> Inr (s # ss))"

definition unmarshal_strings :: "jsonColumn \<Rightarrow> go_error + string list" where
  "unmarshal_strings raw =
     (case raw of
        JsonText JNull \<Rightarrow> Inr []
      | JsonText (JList xs) \<Rightarrow> store_strings xs
      | JsonText v \<Rightarrow> Inl (go_value_error v ''[]string'')
      | _ \<Rightarrow> Inl bad_json)"

definition parseStackEnvVars :: "jsonColumn \<Rightarrow> go_error + (string \<times> json) list" where
  "parseStackEnvVars raw =
     (if jsonBlank raw then Inr []
      else case unmarshal_map raw of Inl e \<Rightarrow> Inl e | Inr None \<Rightarrow> Inr [] | Inr (Some m) \<Rightarrow> Inr m)"

definition parseContainerEnvVars :: "jsonColumn \<Rightarrow> go_error + (string \<times> json) list option" where
  "parseContainerEnvVars raw = (if jsonBlank raw then Inr None else unmarshal_map raw)"

definition parseNetworkAliases :: "jsonColumn \<Rightarrow> go_error + string list" where
  "parseNetworkAliases raw = (if jsonBlank raw then Inr [] else unmarshal_strings raw)"

record deployEnvError =
  ev_message :: string
  ev_err :: go_error

text \<open>The base layer: every global variable, decrypted.\<close>

fun global_layer :: "globalEnvVar list \<Rightarrow> (string \<Rightarrow> go_error + string) \<Rightarrow> (string \<times> json) list \<Rightarrow> deployEnvError + (string \<times> json) list" where
  "global_layer [] decrypt env = Inr env"
| "global_layer (g # gs) decrypt env =
     (case decrypt (gv_EncryptedValue g) of
        Inl e \<Rightarrow> Inl \<lparr>ev_message = ''global env var could not be decrypted'', ev_err = ''key '' @ gv_Key g @ '': '' @ e\<rparr>
      | Inr v \<Rightarrow> global_layer gs decrypt (put_member (gv_Key g) (JStr v) env))"

definition overlay :: "(string \<times> json) list \<Rightarrow> (string \<times> json) list \<Rightarrow> (string \<times> json) list" where
  "overlay over base = fold (\<lambda>(k, v). put_member k v) over base"

definition loadDeployEnv ::
  "jsonColumn \<Rightarrow> 'a deploy_world_scheme \<Rightarrow> (deployEnvError + (string \<times> json) list) \<times> 'a deploy_world_scheme" where
  "loadDeployEnv stackEnvVars w =
     (case ListGlobalEnvVars w of
        (Inl e, w1) \<Rightarrow> (Inl \<lparr>ev_message = ''global env vars could not be read'', ev_err = e\<rparr>, w1)
      | (Inr gs, w1) \<Rightarrow>
          (case global_layer gs (d_decrypt w1) [] of
             Inl e \<Rightarrow> (Inl e, w1)
           | Inr base \<Rightarrow>
               (case parseStackEnvVars stackEnvVars of
                  Inl e \<Rightarrow> (Inl \<lparr>ev_message = ''stack env vars could not be read'', ev_err = e\<rparr>, w1)
                | Inr stackVars \<Rightarrow> (Inr (overlay stackVars base), w1))))"

section \<open>Ulimits\<close>

record ulimit =
  ul_Soft :: int
  ul_Hard :: int

definition store_ulimit :: "string \<Rightarrow> json \<Rightarrow> ulimit \<Rightarrow> go_error option \<times> ulimit" where
  "store_ulimit n v u =
     (if n = ''soft'' then (case store_int ''ulimit.soft'' v (ul_Soft u) of (e, x) \<Rightarrow> (e, u\<lparr>ul_Soft := x\<rparr>))
      else (case store_int ''ulimit.hard'' v (ul_Hard u) of (e, x) \<Rightarrow> (e, u\<lparr>ul_Hard := x\<rparr>)))"

definition decode_ulimit :: "json \<Rightarrow> go_error + ulimit" where
  "decode_ulimit v = unmarshal False ''routers.ulimit'' [''soft'', ''hard''] store_ulimit v \<lparr>ul_Soft = 0, ul_Hard = 0\<rparr>"

fun decode_ulimits :: "(string \<times> json) list \<Rightarrow> go_error + (string \<times> ulimit) list" where
  "decode_ulimits [] = Inr []"
| "decode_ulimits ((n, v) # kvs) =
     (case (decode_ulimit v, decode_ulimits kvs) of
        (Inl e, _) \<Rightarrow> Inl e
      | (Inr u, Inl e) \<Rightarrow> Inl e
      | (Inr u, Inr us) \<Rightarrow> Inr ((n, u) # us))"

definition ulimit_json :: "string \<times> ulimit \<Rightarrow> json" where
  "ulimit_json nu = JObj [(''name'', JStr (fst nu)), (''soft'', JInt (ul_Soft (snd nu))), (''hard'', JInt (ul_Hard (snd nu)))]"

definition ulimitsSpec :: "jsonColumn \<Rightarrow> go_error + json list" where
  "ulimitsSpec raw =
     (case unmarshal_map raw of
        Inl e \<Rightarrow> Inl e
      | Inr None \<Rightarrow> Inr []
      | Inr (Some m) \<Rightarrow> map_sum id (\<lambda>us. map ulimit_json (sort_key fst us)) (decode_ulimits m))"

definition knownUlimits :: "string list" where
  "knownUlimits = [''core'', ''cpu'', ''data'', ''fsize'', ''locks'', ''memlock'', ''msgqueue'', ''nice'', ''nofile'', ''nproc'',
     ''rss'', ''rtprio'', ''rttime'', ''sigpending'', ''stack'']"

text \<open>\<open>float_int\<close> reads a number that is not an exactly representable integer, when its float is one.\<close>

definition ulimit_int :: "(string \<Rightarrow> int option) \<Rightarrow> json option \<Rightarrow> int option" where
  "ulimit_int float_int v = (case v of Some (JInt n) \<Rightarrow> (if \<bar>n\<bar> \<le> 9007199254740992 then Some n else float_int (show_int n)) | Some (JFloat s) \<Rightarrow> float_int s | _ \<Rightarrow> None)"

definition read_ulimit :: "(string \<Rightarrow> int option) \<Rightarrow> string \<Rightarrow> json \<Rightarrow> go_error + ulimit" where
  "read_ulimit float_int name raw =
     (case ulimit_int float_int (Some raw) of
        Some n \<Rightarrow> Inr \<lparr>ul_Soft = n, ul_Hard = n\<rparr>
      | None \<Rightarrow>
          (case raw of
             JObj kvs \<Rightarrow>
               (case (ulimit_int float_int (map_of kvs ''soft''), ulimit_int float_int (map_of kvs ''hard'')) of
                  (Some s, Some h) \<Rightarrow> Inr \<lparr>ul_Soft = s, ul_Hard = h\<rparr>
                | _ \<Rightarrow> Inl (''ulimit '' @ go_quote name @ '' needs integer soft and hard''))
           | _ \<Rightarrow> Inl (''ulimit '' @ go_quote name @ '' must be an integer or {soft, hard}'')))"

definition check_ulimit :: "string \<Rightarrow> ulimit \<Rightarrow> go_error option" where
  "check_ulimit name u =
     (if ul_Soft u < -1 \<or> ul_Hard u < -1 then Some (''ulimit '' @ go_quote name @ '' must be -1 (unlimited) or non-negative'')
      else if ul_Hard u \<noteq> -1 \<and> (ul_Soft u = -1 \<or> ul_Soft u > ul_Hard u)
      then Some (''ulimit '' @ go_quote name @ '' soft limit exceeds hard limit'') else None)"

fun normalize_members :: "(string \<Rightarrow> int option) \<Rightarrow> (string \<times> json) list \<Rightarrow> go_error + (string \<times> ulimit) list" where
  "normalize_members fi [] = Inr []"
| "normalize_members fi ((name, raw) # kvs) =
     (if name \<notin> set knownUlimits then Inl (''unknown ulimit '' @ go_quote name)
      else case read_ulimit fi name raw of
        Inl e \<Rightarrow> Inl e
      | Inr u \<Rightarrow>
          (case check_ulimit name u of
             Some e \<Rightarrow> Inl e
           | None \<Rightarrow> map_sum id (\<lambda>us. (name, u) # us) (normalize_members fi kvs)))"

text \<open>The stored column; an empty mapping stores the empty text. Go visits the map in any order, here the list's.\<close>

definition stored_ulimits :: "(string \<times> ulimit) list \<Rightarrow> jsonColumn" where
  "stored_ulimits us =
     (if us = [] then EmptyText
      else JsonText (JObj (map (\<lambda>(n, u). (n, JObj [(''soft'', JInt (ul_Soft u)), (''hard'', JInt (ul_Hard u))])) us)))"

definition normalizeUlimits :: "(string \<Rightarrow> int option) \<Rightarrow> json \<Rightarrow> go_error + jsonColumn" where
  "normalizeUlimits fi v =
     (case v of
        JObj kvs \<Rightarrow> map_sum id stored_ulimits (normalize_members fi (to_map kvs))
      | JNull \<Rightarrow> Inr EmptyText
      | _ \<Rightarrow> Inl ''ulimits must be a mapping of name to limit'')"

definition ulimitsFromBody :: "(string \<Rightarrow> int option) \<Rightarrow> jsonColumn \<Rightarrow> go_error + jsonColumn" where
  "ulimitsFromBody fi raw =
     (case raw of
        NullColumn \<Rightarrow> Inr NullColumn
      | EmptyText \<Rightarrow> Inr EmptyText
      | BadText \<Rightarrow> Inl (''ulimits must be a JSON object: '' @ bad_json)
      | JsonText v \<Rightarrow> normalizeUlimits fi v)"

section \<open>The specification of a container\<close>

record specBuilder =
  sb_env :: "(string \<times> json) list"
  sb_networks :: "string list"
  sb_composeAliases :: "string \<Rightarrow> string list"
  sb_registries :: "registry list option"
  sb_rollback :: bool

record specError =
  se_message :: string
  se_err :: go_error

definition composeAliasMap :: "(string \<Rightarrow> (string \<times> string) list option) \<Rightarrow> string option \<Rightarrow> string \<Rightarrow> string list" where
  "composeAliasMap services yaml name =
     (case yaml of
        None \<Rightarrow> []
      | Some y \<Rightarrow>
          if y = [] then []
          else case services y of
            None \<Rightarrow> []
          | Some svcs \<Rightarrow> [key. (key, cname) \<leftarrow> svcs, (if cname = [] then key else cname) = name, name \<noteq> key])"

definition newSpecBuilder ::
  "(string \<Rightarrow> (string \<times> string) list option) \<Rightarrow> int \<Rightarrow> string option \<Rightarrow> (string \<times> json) list \<Rightarrow> bool \<Rightarrow>
   'a deploy_world_scheme \<Rightarrow> specBuilder \<times> 'a deploy_world_scheme" where
  "newSpecBuilder services stackID yaml env rollbk w =
     (let (nets, w1) = ListNetworksByStack stackID w; (regs, w2) = query registries w1
      in (\<lparr>sb_env = env, sb_networks = (case nets of Inl _ \<Rightarrow> [] | Inr ns \<Rightarrow> map nw_Name ns),
           sb_composeAliases = composeAliasMap services yaml, sb_registries = (case regs of Inl _ \<Rightarrow> None | Inr rs \<Rightarrow> Some rs),
           sb_rollback = rollbk\<rparr>, w2))"

definition registry_creds :: "registry \<Rightarrow> (string \<times> json) list" where
  "registry_creds r =
     (case reg_Username r of None \<Rightarrow> [] | Some u \<Rightarrow> [(''username'', JStr u)]) @
     (case reg_Password r of None \<Rightarrow> [] | Some p \<Rightarrow> [(''password'', JStr p)])"

definition registryAuth ::
  "specBuilder \<Rightarrow> int option \<Rightarrow> string \<Rightarrow> 'a deploy_world_scheme \<Rightarrow> (string \<times> json) list \<times> 'a deploy_world_scheme" where
  "registryAuth sb rid img w =
     (case rid of
        Some i \<Rightarrow>
          (case query (\<lambda>w. List.find (\<lambda>r. reg_ID r = i) (registries w)) w of
             (Inr (Some r), w1) \<Rightarrow> (registry_creds r, w1)
           | (_, w1) \<Rightarrow> ([], w1))
      | None \<Rightarrow>
          (case sb_registries sb of
             None \<Rightarrow> ([], w)
           | Some rs \<Rightarrow>
               (case List.find (\<lambda>r. has_prefix img (registry_host r @ ''/'') \<or> img = registry_host r) rs of
                  None \<Rightarrow> ([], w)
                | Some r \<Rightarrow> (registry_creds r, w))))"

text \<open>An optional field: left off when blank, and when it does not decode.\<close>

definition optional :: "string \<Rightarrow> bool \<Rightarrow> go_error + json \<Rightarrow> (string \<times> json) list" where
  "optional key blank v = (if blank then [] else case v of Inl _ \<Rightarrow> [] | Inr x \<Rightarrow> [(key, x)])"

definition HasHealthCheck :: "container \<Rightarrow> bool" where
  "HasHealthCheck c \<longleftrightarrow> c_HealthCheck c \<noteq> NullColumn \<and> c_HealthCheck c \<noteq> EmptyText"

definition obj_json :: "(string \<times> json) list option \<Rightarrow> json" where
  "obj_json m = (case m of None \<Rightarrow> JObj [] | Some kvs \<Rightarrow> JObj kvs)"

definition spec_aliases :: "specBuilder \<Rightarrow> container \<Rightarrow> string list \<Rightarrow> string list" where
  "spec_aliases sb c aliases = fold (\<lambda>a as. if a \<in> set as then as else as @ [a]) (sb_composeAliases sb (c_Name c)) aliases"

definition build ::
  "(string \<Rightarrow> string) \<Rightarrow> specBuilder \<Rightarrow> container \<Rightarrow> string \<Rightarrow> string \<Rightarrow> 'a deploy_world_scheme \<Rightarrow>
   (specError + (string \<times> json) list) \<times> 'a deploy_world_scheme" where
  "build ff sb c img tag w =
     (let resolve = resolveVarsInValue ff in
      case parseNetworkAliases (c_NetworkAliases c) of
        Inl e \<Rightarrow> (Inl \<lparr>se_message = ''network aliases could not be read'', se_err = ''container '' @ c_Name c @ '': '' @ e\<rparr>, w)
      | Inr own \<Rightarrow>
          (case parseContainerEnvVars (c_EnvVars c) of
             Inl e \<Rightarrow> (Inl \<lparr>se_message = ''container env vars could not be read'', se_err = ''container '' @ c_Name c @ '': '' @ e\<rparr>, w)
           | Inr ev \<Rightarrow>
               (let aliases = spec_aliases sb c own;
                    vars = map_option (resolve_members ff (sb_env sb)) ev;
                    hc_env = overlay (case vars of None \<Rightarrow> [] | Some m \<Rightarrow> m) (sb_env sb);
                    (auth, w1) = registryAuth sb (c_RegistryID c) img w
                in (Inr
                  ([(''id'', JInt (c_ID c)), (''name'', JStr (c_Name c)), (''image'', JStr img), (''tag'', JStr tag),
                    (''replicas'', JInt (c_Replicas c)),
                    (''restart_policy'', case c_RestartPolicy c of None \<Rightarrow> JNull | Some p \<Rightarrow> JStr p)] @
                   (if sb_networks sb = [] then [] else [(''networks'', JList (map JStr (sb_networks sb)))]) @
                   (if aliases = [] then [] else [(''network_aliases'', JList (map JStr aliases))]) @
                   optional ''port_mappings'' (jsonBlank (c_PortMappings c))
                     (map_sum id (\<lambda>xs. resolve (sb_env sb) (JList xs)) (unmarshal_slice (c_PortMappings c))) @
                   (case vars of None \<Rightarrow> [] | Some m \<Rightarrow> [(''env_vars'', JObj m)]) @
                   optional ''volumes'' (jsonBlank (c_Volumes c))
                     (map_sum id (\<lambda>m. resolve (sb_env sb) (obj_json m)) (unmarshal_map (c_Volumes c))) @
                   (case c_CPULimit c of None \<Rightarrow> [] | Some x \<Rightarrow> [(''cpu_limit'', JFloat x)]) @
                   (case c_MemoryLimit c of None \<Rightarrow> [] | Some m \<Rightarrow> [(''memory_limit'', JInt (wrap_int64 (m * 1024 * 1024)))]) @
                   optional ''command'' (jsonBlank (c_Command c)) (map_sum id (\<lambda>ss. JList (map JStr ss)) (unmarshal_strings (c_Command c))) @
                   optional ''entrypoint'' (jsonBlank (c_Entrypoint c)) (map_sum id (\<lambda>ss. JList (map JStr ss)) (unmarshal_strings (c_Entrypoint c))) @
                   optional ''health_check'' (\<not> HasHealthCheck c)
                     (map_sum id (\<lambda>m. resolve hc_env (obj_json m)) (unmarshal_map (c_HealthCheck c))) @
                   (if c_Ulimits c = NullColumn \<or> c_Ulimits c = EmptyText then []
                    else case ulimitsSpec (c_Ulimits c) of Inl _ \<Rightarrow> [] | Inr us \<Rightarrow> if us = [] then [] else [(''ulimits'', JList us)]) @
                   (if auth = [] then [] else [(''registry_auth'', JObj auth)])), w1))))"

text \<open>The specifications of a list of containers with the image and tag each is deployed at.\<close>

fun build_all ::
  "(string \<Rightarrow> string) \<Rightarrow> specBuilder \<Rightarrow> (container \<times> string \<times> string) list \<Rightarrow> 'a deploy_world_scheme \<Rightarrow>
   (specError + json list) \<times> 'a deploy_world_scheme" where
  "build_all ff sb [] w = (Inr [], w)"
| "build_all ff sb ((c, img, tag) # cs) w =
     (case build ff sb c img tag w of
        (Inl e, w1) \<Rightarrow> (Inl e, w1)
      | (Inr spec, w1) \<Rightarrow>
          (case build_all ff sb cs w1 of (Inl e, w2) \<Rightarrow> (Inl e, w2) | (Inr specs, w2) \<Rightarrow> (Inr (JObj spec # specs), w2)))"

section \<open>Interpolation\<close>

text \<open>A string that names no known variable is unchanged.\<close>

lemma resolveEnvRef_unknown: "(\<forall>n. lookup_env env n = None) \<Longrightarrow> resolveEnvRef s env = None"
  by (auto simp: resolveEnvRef_def Let_def split: option.split)

lemma interpolate_unknown:
  assumes "\<forall>n. lookup_env env n = None"
  shows "interpolateEnvRefs ff env s = s"
proof (induction s rule: length_induct)
  case (1 s)
  show ?case
  proof (cases s)
    case (Cons c cs)
    have IH: "interpolateEnvRefs ff env t = t" if "length t < length s" for t using 1 that by blast
    show ?thesis
      using IH [of cs] Cons resolveEnvRef_unknown [OF assms] match_ref_shorter [of cs]
      by (auto split: option.split dest!: match_ref_shorter intro: IH)
  qed simp
qed

text \<open>Text around a reference is kept and the reference alone replaced.\<close>

lemma interpolate_plain: "CHR ''$'' \<notin> set s \<Longrightarrow> interpolateEnvRefs ff env (s @ t) = s @ interpolateEnvRefs ff env t"
  by (induction s) auto

lemma interpolate_braced:
  assumes "ref_start c" "list_all ref_char cs" "lookup_env env (c # cs) = Some v"
  shows "interpolateEnvRefs ff env (''${'' @ (c # cs) @ ''}'' @ t) = sprint ff v @ interpolateEnvRefs ff env t"
proof -
  have rc: "ref_char c" "\<forall>x \<in> set cs. ref_char x" "\<not> ref_char CHR ''}''"
    using assms by (auto simp: ref_char_def list_all_iff ref_start_def is_digit_def)
  then have "takeWhile ref_char (c # cs @ CHR ''}'' # t) = c # cs" "dropWhile ref_char (c # cs @ CHR ''}'' # t) = CHR ''}'' # t"
    by (simp_all add: takeWhile_append2 dropWhile_append2 takeWhile_append dropWhile_append takeWhile_tail)
  then have "match_ref (CHR ''{'' # c # cs @ CHR ''}'' # t) = Some (CHR ''{'' # c # cs @ ''}'', t)"
    using assms(1) by (simp add: match_ref_def has_prefix_def)
  moreover have "resolveEnvRef (''${'' @ (c # cs) @ ''}'') env = Some v"
    using assms(3) by (simp add: resolveEnvRef_def has_prefix_def has_suffix_def butlast_append)
  ultimately show ?thesis by simp
qed

text \<open>A number of seven digits or more is rendered in scientific notation inside a string.\<close>

lemma large_number_rendered: "sprint_int ff 1000000 = ''1e+06''"
proof -
  have "show_nat 1000000 = ''1000000''" "show_nat (Suc (Suc (Suc (Suc (Suc (Suc 0)))))) = ''6''"
    by (simp_all add: show_nat.simps char_of_def bit_0 odd_one)
  then show ?thesis by (simp add: sprint_int_def show_g_def drop_zeros_def)
qed

lemma large_number_interpolated:
  "interpolateEnvRefs ff [(''N'', JInt 1000000)] ''max=${N}'' = ''max=1e+06''"
  using interpolate_plain [of "''max=''" ff "[(''N'', JInt 1000000)]" "''${N}''"]
    interpolate_braced [of "CHR ''N''" "[]" "[(''N'', JInt 1000000)]" "JInt 1000000" ff "[]"]
  by (simp add: ref_start_def lookup_env_def large_number_rendered)

end
