(* ===== verification/Alerts.thy ===== *)
theory Alerts
  imports Deploy_Spec
begin

text \<open>
  Notifications (\<^verbatim>\<open>mailer/prefs.go\<close> and \<^verbatim>\<open>Notify\<close> of \<^verbatim>\<open>mailer/mailer.go\<close>): the preferences of each event
  type, the cooldown between two alerts of a resource, the count of consecutive unhealthy reports and
  the grace timer that delays a disconnect alert.

  The world keeps what leaves the process as a list of notices: webhooks fired, mails asked for,
  messages to the dashboards and structured events of the log. A \<^verbatim>\<open>time.AfterFunc\<close> timer is armed
  until it is due or stopped; once it fires, its callback is a goroutine that \<^verbatim>\<open>Stop\<close> no longer
  reaches, which the model keeps as a separate state.
\<close>

section \<open>Notices\<close>

datatype logLevel = LevelDebug | LevelInfo | LevelWarn | LevelError

datatype notice =
    WebhookFired string "(string \<times> json) list"
  | Mailed string string
  | Broadcast string int "(string \<times> json) list"
  | Event logLevel string "(string \<times> json) list"

section \<open>Preferences\<close>

record eventConfig =
  ec_Enabled :: bool
  ec_GraceSeconds :: int
  ec_Threshold :: int
  ec_CooldownMinutes :: int

record unhealthyEntry =
  ue_count :: nat
  ue_updatedAt :: time

datatype timer_state = Armed time | Firing

record graceTimer =
  gt_id :: nat
  gt_worker :: int
  gt_state :: timer_state
  gt_mail :: "string \<times> string"

record alert_world = deploy_world +
  s_prefs :: "jsonColumn option"
  s_cooldown :: "string \<rightharpoonup> time"
  s_unhealthy :: "string \<rightharpoonup> unhealthyEntry"
  s_graceTimers :: "int \<rightharpoonup> nat"
  s_timers :: "graceTimer list"
  s_next_timer :: nat
  s_notices :: "notice list"

definition emit :: "notice \<Rightarrow> 'a alert_world_scheme \<Rightarrow> 'a alert_world_scheme" where
  "emit out w = w\<lparr>s_notices := s_notices w @ [out]\<rparr>"

definition config_of :: "bool \<Rightarrow> int \<Rightarrow> int \<Rightarrow> int \<Rightarrow> eventConfig" where
  "config_of on grace threshold cooldown =
     \<lparr>ec_Enabled = on, ec_GraceSeconds = grace, ec_Threshold = threshold, ec_CooldownMinutes = cooldown\<rparr>"

definition DefaultPrefs :: "(string \<times> eventConfig) list" where
  "DefaultPrefs =
     [(''worker.disconnected'', config_of True 30 0 5), (''worker.crash'', config_of True 0 0 5),
      (''container.unhealthy'', config_of True 0 3 10), (''deployment.triggered'', config_of True 0 0 0),
      (''deployment.failed'', config_of True 0 0 0), (''deployment.success'', config_of True 0 0 0)]"

definition eventConfig_fields :: "eventConfig body_field list" where
  "eventConfig_fields =
     [(''enabled'', into store_bool ec_Enabled (\<lambda>x c. c\<lparr>ec_Enabled := x\<rparr>)),
      (''grace_seconds'', into store_int ec_GraceSeconds (\<lambda>x c. c\<lparr>ec_GraceSeconds := x\<rparr>)),
      (''threshold'', into store_int ec_Threshold (\<lambda>x c. c\<lparr>ec_Threshold := x\<rparr>)),
      (''cooldown_minutes'', into store_int ec_CooldownMinutes (\<lambda>x c. c\<lparr>ec_CooldownMinutes := x\<rparr>))]"

definition decode_eventConfig :: "json \<Rightarrow> go_error + eventConfig" where
  "decode_eventConfig v =
     unmarshal False ''mailer.EventConfig'' (map fst eventConfig_fields) (store_fields eventConfig_fields) v (config_of False 0 0 0)"

fun decode_prefs :: "(string \<times> json) list \<Rightarrow> go_error + (string \<times> eventConfig) list" where
  "decode_prefs [] = Inr []"
| "decode_prefs ((k, v) # kvs) =
     (case (decode_eventConfig v, decode_prefs kvs) of
        (Inr c, Inr cs) \<Rightarrow> Inr ((k, c) # cs)
      | (Inl e, _) \<Rightarrow> Inl e
      | (_, Inl e) \<Rightarrow> Inl e)"

text \<open>A stored entry replaces a default; an event type without a default is dropped.\<close>

definition merge_prefs :: "(string \<times> eventConfig) list \<Rightarrow> (string \<times> eventConfig) list" where
  "merge_prefs stored = map (\<lambda>(k, c). (k, case map_of (rev stored) k of None \<Rightarrow> c | Some c' \<Rightarrow> c')) DefaultPrefs"

definition LoadPreferences :: "'a alert_world_scheme \<Rightarrow> (string \<times> eventConfig) list \<times> 'a alert_world_scheme" where
  "LoadPreferences w =
     (case query s_prefs w of
        (Inl _, w1) \<Rightarrow> (DefaultPrefs, w1)
      | (Inr raw, w1) \<Rightarrow>
          (case raw of
             Some (JsonText (JObj kvs)) \<Rightarrow>
               (case decode_prefs kvs of Inl _ \<Rightarrow> DefaultPrefs | Inr stored \<Rightarrow> merge_prefs stored)
           | _ \<Rightarrow> DefaultPrefs, w1))"

definition GetEventConfig :: "string \<Rightarrow> 'a alert_world_scheme \<Rightarrow> eventConfig \<times> 'a alert_world_scheme" where
  "GetEventConfig ev w =
     (case LoadPreferences w of
        (prefs, w1) \<Rightarrow> (case map_of prefs ev of Some cfg \<Rightarrow> cfg | None \<Rightarrow> config_of True 0 0 0, w1))"

definition Notify :: "string \<Rightarrow> string \<Rightarrow> string \<Rightarrow> 'a alert_world_scheme \<Rightarrow> 'a alert_world_scheme" where
  "Notify ev subject body w =
     (case GetEventConfig ev w of
        (cfg, w1) \<Rightarrow> if ec_Enabled cfg then emit (Mailed (''[Lattice] '' @ subject) body) w1 else w1)"

section \<open>Cooldowns and counters\<close>

definition cooldown_key :: "string \<Rightarrow> string \<Rightarrow> string" where
  "cooldown_key ev resource = ev @ '':'' @ resource"

definition cooldown_for :: "eventConfig \<Rightarrow> duration" where
  "cooldown_for cfg = wrap_int64 (ec_CooldownMinutes cfg * Minute)"

definition ShouldAlert :: "string \<Rightarrow> string \<Rightarrow> 'a alert_world_scheme \<Rightarrow> bool \<times> 'a alert_world_scheme" where
  "ShouldAlert ev resource w =
     (case GetEventConfig ev w of
        (cfg, w1) \<Rightarrow>
          if \<not> ec_Enabled cfg then (False, w1)
          else if ec_CooldownMinutes cfg > 0
          then (if (case s_cooldown w1 (cooldown_key ev resource) of Some till \<Rightarrow> clock w1 < till | None \<Rightarrow> False) then (False, w1)
                else (True, w1\<lparr>s_cooldown := (s_cooldown w1)(cooldown_key ev resource \<mapsto> clock w1 + cooldown_for cfg)\<rparr>))
          else (True, w1))"

definition TrackUnhealthy :: "string \<Rightarrow> 'a alert_world_scheme \<Rightarrow> bool \<times> 'a alert_world_scheme" where
  "TrackUnhealthy name w =
     (case GetEventConfig ''container.unhealthy'' w of
        (cfg, w1) \<Rightarrow>
          (let threshold = (if ec_Threshold cfg \<le> 0 then 1 else ec_Threshold cfg);
               n = (case s_unhealthy w1 name of Some e \<Rightarrow> ue_count e | None \<Rightarrow> 0) + 1
           in (int n \<ge> threshold, w1\<lparr>s_unhealthy := (s_unhealthy w1)(name \<mapsto> \<lparr>ue_count = n, ue_updatedAt = clock w1\<rparr>)\<rparr>)))"

definition ClearUnhealthy :: "string \<Rightarrow> 'a alert_world_scheme \<Rightarrow> 'a alert_world_scheme" where
  "ClearUnhealthy name w = w\<lparr>s_unhealthy := (s_unhealthy w)(name := None)\<rparr>"

text \<open>One tick of the eviction goroutine.\<close>

definition evict_alerts :: "'a alert_world_scheme \<Rightarrow> 'a alert_world_scheme" where
  "evict_alerts w =
     w\<lparr>s_cooldown := (\<lambda>k. case s_cooldown w k of Some till \<Rightarrow> if clock w > till then None else Some till | None \<Rightarrow> None),
       s_unhealthy := (\<lambda>k. case s_unhealthy w k of Some e \<Rightarrow> if clock w - ue_updatedAt e > Hour then None else Some e | None \<Rightarrow> None)\<rparr>"

section \<open>Disconnect alerts\<close>

text \<open>\<^verbatim>\<open>Stop\<close> disarms a timer that has not fired.\<close>

definition stop_timer :: "nat \<Rightarrow> graceTimer list \<Rightarrow> graceTimer list" where
  "stop_timer i ts = filter (\<lambda>t. \<not> (gt_id t = i \<and> gt_state t \<noteq> Firing)) ts"

definition send_alert :: "int \<Rightarrow> string \<times> string \<Rightarrow> 'a alert_world_scheme \<Rightarrow> 'a alert_world_scheme" where
  "send_alert workerID m w =
     (case ShouldAlert ''worker.disconnected'' (show_int workerID) w of
        (True, w1) \<Rightarrow> Notify ''worker.disconnected'' (fst m) (snd m) w1
      | (False, w1) \<Rightarrow> w1)"

definition cancel_timer :: "int \<Rightarrow> 'a alert_world_scheme \<Rightarrow> 'a alert_world_scheme" where
  "cancel_timer workerID w =
     (case s_graceTimers w workerID of
        None \<Rightarrow> w
      | Some i \<Rightarrow> w\<lparr>s_timers := stop_timer i (s_timers w), s_graceTimers := (s_graceTimers w)(workerID := None)\<rparr>)"

definition ScheduleDisconnectAlert :: "int \<Rightarrow> string \<times> string \<Rightarrow> 'a alert_world_scheme \<Rightarrow> 'a alert_world_scheme" where
  "ScheduleDisconnectAlert workerID m w =
     (case GetEventConfig ''worker.disconnected'' w of
        (cfg, w1) \<Rightarrow>
          if \<not> ec_Enabled cfg then w1
          else let grace = wrap_int64 (ec_GraceSeconds cfg * Second) in
            if grace \<le> 0 then send_alert workerID m w1
            else let w2 = cancel_timer workerID w1 in
              w2\<lparr>s_timers := s_timers w2 @ [\<lparr>gt_id = s_next_timer w2, gt_worker = workerID, gt_state = Armed (clock w2 + grace), gt_mail = m\<rparr>],
                 s_graceTimers := (s_graceTimers w2)(workerID \<mapsto> s_next_timer w2), s_next_timer := s_next_timer w2 + 1\<rparr>)"

definition CancelDisconnectAlert :: "int \<Rightarrow> 'a alert_world_scheme \<Rightarrow> 'a alert_world_scheme" where
  "CancelDisconnectAlert workerID w = cancel_timer workerID w"

text \<open>A timer that is due fires, and later its callback runs.\<close>

definition fire_timer :: "nat \<Rightarrow> 'a alert_world_scheme \<Rightarrow> 'a alert_world_scheme" where
  "fire_timer i w =
     w\<lparr>s_timers := update_where (\<lambda>t. gt_id t = i \<and> (case gt_state t of Armed due \<Rightarrow> due \<le> clock w | Firing \<Rightarrow> False))
                                (\<lambda>t. t\<lparr>gt_state := Firing\<rparr>) (s_timers w)\<rparr>"

definition run_callback :: "nat \<Rightarrow> 'a alert_world_scheme \<Rightarrow> 'a alert_world_scheme" where
  "run_callback i w =
     (case List.find (\<lambda>t. gt_id t = i \<and> gt_state t = Firing) (s_timers w) of
        None \<Rightarrow> w
      | Some t \<Rightarrow>
          send_alert (gt_worker t) (gt_mail t)
            (w\<lparr>s_timers := filter (\<lambda>t. gt_id t \<noteq> i) (s_timers w), s_graceTimers := (s_graceTimers w)(gt_worker t := None)\<rparr>))"

section \<open>Saving preferences\<close>

text \<open>\<^verbatim>\<open>omitempty\<close> leaves a zero out.\<close>

definition omit_zero :: "string \<Rightarrow> int \<Rightarrow> (string \<times> json) list" where
  "omit_zero k n = (if n = 0 then [] else [(k, JInt n)])"

definition eventConfig_json :: "eventConfig \<Rightarrow> json" where
  "eventConfig_json c =
     JObj ((''enabled'', JBool (ec_Enabled c)) # omit_zero ''grace_seconds'' (ec_GraceSeconds c) @
           omit_zero ''threshold'' (ec_Threshold c) @ omit_zero ''cooldown_minutes'' (ec_CooldownMinutes c))"

definition SavePreferences :: "(string \<times> eventConfig) list \<Rightarrow> 'a alert_world_scheme \<Rightarrow> go_error option \<times> 'a alert_world_scheme" where
  "SavePreferences prefs w =
     exec_unit (\<lambda>w. w\<lparr>s_prefs := Some (JsonText (JObj (map (\<lambda>(k, c). (k, eventConfig_json c)) prefs)))\<rparr>) w"

definition HandleGetNotificationPrefs :: "httpRequest \<Rightarrow> 'a alert_world_scheme \<Rightarrow> response \<times> 'a alert_world_scheme" where
  "HandleGetNotificationPrefs r w =
     (case LoadPreferences w of
        (prefs, w1) \<Rightarrow> (New (DataMap (map (\<lambda>(k, c). (k, eventConfig_json c)) prefs)) ''notification preferences retrieved'', w1))"

definition decode_prefs_body :: "httpRequest \<Rightarrow> go_error + (string \<times> eventConfig) list" where
  "decode_prefs_body r =
     (case hr_Body r of
        Inl e \<Rightarrow> Inl e
      | Inr JNull \<Rightarrow> Inr []
      | Inr (JObj kvs) \<Rightarrow> decode_prefs kvs
      | Inr v \<Rightarrow> Inl (go_value_error v ''mailer.EventPreferences''))"

definition HandleUpdateNotificationPrefs :: "httpRequest \<Rightarrow> 'a alert_world_scheme \<Rightarrow> response \<times> 'a alert_world_scheme" where
  "HandleUpdateNotificationPrefs r w =
     (case decode_prefs_body r of
        Inl e \<Rightarrow> (BadBody e, w)
      | Inr body \<Rightarrow>
          (case LoadPreferences w of
             (current, w1) \<Rightarrow>
               (let merged = map (\<lambda>(k, c). (k, case map_of (rev body) k of None \<Rightarrow> c | Some c' \<Rightarrow> c')) current in
                case SavePreferences merged w1 of
                  (Some e, w2) \<Rightarrow> (QueryError e ''failed to save preferences'', w2)
                | (None, w2) \<Rightarrow>
                    (New (DataMap (map (\<lambda>(k, c). (k, eventConfig_json c)) merged)) ''notification preferences updated'',
                     logAudit r ''update'' ''notification_prefs'' None None w2))))"

definition config_in_range :: "eventConfig \<Rightarrow> bool" where
  "config_in_range c \<longleftrightarrow> min_int64 \<le> ec_GraceSeconds c \<and> ec_GraceSeconds c \<le> max_int64 \<and> min_int64 \<le> ec_Threshold c
     \<and> ec_Threshold c \<le> max_int64 \<and> min_int64 \<le> ec_CooldownMinutes c \<and> ec_CooldownMinutes c \<le> max_int64"

lemma decode_saved_config: "config_in_range c \<Longrightarrow> decode_eventConfig (eventConfig_json c) = Inr c"
  by (cases c) (auto simp: decode_eventConfig_def eventConfig_json_def omit_zero_def config_in_range_def eventConfig_fields_def
      store_fields_def into_def config_of_def first_err_def match_field_def Let_def)

lemma decode_saved_prefs:
  "\<forall>c \<in> snd ` set prefs. config_in_range c \<Longrightarrow> decode_prefs (map (\<lambda>(k, c). (k, eventConfig_json c)) prefs) = Inr prefs"
  by (induction prefs) (auto simp: decode_saved_config)

lemma decode_members_keeps:
  assumes "\<And>n v c. P c \<Longrightarrow> P (snd (store n v c))" "P cfg"
  shows "P (snd (decode_members strict names store kvs cfg))"
  using assms(2)
proof (induction kvs arbitrary: cfg)
  case (Cons kv kvs)
  then show ?case
    using assms(1) by (cases kv; cases "match_field names (fst kv)") (simp_all add: Let_def case_prod_beta)
qed simp

lemma store_int_in_range:
  "min_int64 \<le> old \<and> old \<le> max_int64 \<Longrightarrow> min_int64 \<le> snd (store_int f v old) \<and> snd (store_int f v old) \<le> max_int64"
  by (cases "(f, v, old)" rule: store_int.cases) auto

lemma stored_config_in_range: "config_in_range c \<Longrightarrow> config_in_range (snd (store_fields eventConfig_fields n v c))"
  using store_int_in_range [where v = v]
  by (auto simp: store_fields_def eventConfig_fields_def into_def Let_def case_prod_beta config_in_range_def)

lemma zero_config_in_range: "config_in_range (config_of False 0 0 0)"
  by (simp add: config_of_def config_in_range_def min_int64_def max_int64_def)

lemma decoded_config_in_range: "decode_eventConfig v = Inr c \<Longrightarrow> config_in_range c"
  using decode_members_keeps [of config_in_range "store_fields eventConfig_fields", OF stored_config_in_range zero_config_in_range]
  by (cases v) (auto simp: decode_eventConfig_def zero_config_in_range split: prod.splits option.splits, metis snd_conv)

lemma decoded_prefs_in_range: "decode_prefs kvs = Inr cs \<Longrightarrow> c \<in> snd ` set cs \<Longrightarrow> config_in_range c"
proof (induction kvs arbitrary: cs)
  case (Cons kv kvs)
  obtain k v where kv: "kv = (k, v)" by force
  with Cons.prems obtain c' cs' where "decode_eventConfig v = Inr c'" "decode_prefs kvs = Inr cs'" "cs = (k, c') # cs'"
    by (auto split: sum.splits)
  with Cons show ?case using decoded_config_in_range by auto
qed simp

text \<open>The preferences in force: one entry per known event type, in range.\<close>

definition prefs_ok :: "(string \<times> eventConfig) list \<Rightarrow> bool" where
  "prefs_ok prefs \<longleftrightarrow> map fst prefs = map fst DefaultPrefs \<and> (\<forall>c \<in> snd ` set prefs. config_in_range c)"

lemma override_prefs_ok:
  assumes "prefs_ok prefs" "\<And>c. c \<in> snd ` set over \<Longrightarrow> config_in_range c"
  shows "prefs_ok (map (\<lambda>(k, c). (k, case map_of (rev over) k of None \<Rightarrow> c | Some c' \<Rightarrow> c')) prefs)"
proof -
  have "config_in_range c" if "map_of (rev over) k = Some c" for k c
    using that assms(2) by (metis image_eqI map_of_SomeD set_rev snd_conv)
  then show ?thesis
    using assms(1) by (auto simp: prefs_ok_def comp_def case_prod_beta split: option.split)
qed

lemma DefaultPrefs_ok: "prefs_ok DefaultPrefs"
  by (simp add: prefs_ok_def DefaultPrefs_def config_of_def config_in_range_def min_int64_def max_int64_def)

lemma LoadPreferences_ok: "prefs_ok (fst (LoadPreferences w))"
  using override_prefs_ok [OF DefaultPrefs_ok] decoded_prefs_in_range
  by (auto simp: LoadPreferences_def DefaultPrefs_ok merge_prefs_def split: prod.split sum.split option.split jsonColumn.split json.split)

lemma merge_known: "map fst prefs = map fst DefaultPrefs \<Longrightarrow> merge_prefs prefs = prefs"
  by (auto simp: merge_prefs_def DefaultPrefs_def map_eq_Cons_conv)

lemma LoadPreferences_saved:
  assumes "prefs_ok prefs" "s_prefs w = Some (JsonText (JObj (map (\<lambda>(k, c). (k, eventConfig_json c)) prefs)))" "db_script w = []"
  shows "LoadPreferences w = (prefs, w)"
  using assms by (simp add: LoadPreferences_def query_quiet decode_saved_prefs merge_known prefs_ok_def)

lemma SavePreferences_stores:
  assumes "SavePreferences prefs w = (None, w')"
  shows "s_prefs w' = Some (JsonText (JObj (map (\<lambda>(k, c). (k, eventConfig_json c)) prefs)))"
  using assms unfolding SavePreferences_def exec_unit_def
  by (auto split: prod.splits sum.splits elim!: exec_Inr)

text \<open>
  What the preferences endpoint answers to an update is what the next read returns, whatever
  was stored before: every configured number survives the omission of zeros and the merge with the
  defaults.
\<close>

theorem updated_preferences_read_back:
  assumes "HandleUpdateNotificationPrefs r w = (New (DataMap m) ''notification preferences updated'', w')" "db_script w' = []"
  shows "fst (HandleGetNotificationPrefs r' w') = New (DataMap m) ''notification preferences retrieved''"
proof -
  obtain body where body: "decode_prefs_body r = Inr body"
    using assms(1) by (auto simp: HandleUpdateNotificationPrefs_def BadBody_def SendError_def New_def split: sum.splits)
  obtain current w1 where cur: "LoadPreferences w = (current, w1)" by force
  define merged where "merged = map (\<lambda>(k, c). (k, case map_of (rev body) k of None \<Rightarrow> c | Some c' \<Rightarrow> c')) current"
  have "config_in_range c" if "c \<in> snd ` set body" for c
    using body decoded_prefs_in_range [OF _ that] that by (auto simp: decode_prefs_body_def split: sum.splits json.splits)
  then have ok: "prefs_ok merged"
    unfolding merged_def using LoadPreferences_ok [of w] cur override_prefs_ok by force
  obtain e w2 where sv: "SavePreferences merged w1 = (e, w2)" by force
  have e: "e = None" "m = map (\<lambda>(k, c). (k, eventConfig_json c)) merged" "w' = logAudit r ''update'' ''notification_prefs'' None None w2"
    using assms(1) body cur sv
    by (auto simp: HandleUpdateNotificationPrefs_def merged_def [symmetric] QueryError_def NotFound_def SendError_def New_def split: option.splits if_splits)
  then have "s_prefs w' = Some (JsonText (JObj m))"
    using SavePreferences_stores [of merged w1 w2] sv by (simp add: logAudit_def)
  with e(2) assms(2) show ?thesis
    by (simp add: HandleGetNotificationPrefs_def LoadPreferences_saved [OF ok])
qed

section \<open>A sample world\<close>

definition deploy_world0 :: deploy_world where
  "deploy_world0 = log_world.extend log_start
     \<lparr>w_networks = [], w_volumes = [], w_globals = [], w_deploy_tokens = [], w_deployments = [], w_next_deployment = 1,
      w_dcs = [], w_next_dc = 1, w_deployment_logs = [], w_next_dl = 1, w_next_stack = 1, w_next_container = 1\<rparr>"

definition alert_world0 :: alert_world where
  "alert_world0 = deploy_world.extend deploy_world0
     \<lparr>s_prefs = None, s_cooldown = Map.empty, s_unhealthy = Map.empty, s_graceTimers = Map.empty, s_timers = [],
      s_next_timer = 0, s_notices = []\<rparr>"

lemmas alert_world0_defs = alert_world0_def deploy_world0_def log_start_def sched_world_def log_world.defs deploy_world.defs
  api_world.defs backup_world.defs backup_empty_def db_empty_def db_world.defs

lemma alert_world0_simps [simp]:
  "db_script alert_world0 = []" "s_prefs alert_world0 = None" "s_cooldown alert_world0 = Map.empty" "clock alert_world0 = 0"
  "s_graceTimers alert_world0 = Map.empty" "s_timers alert_world0 = []" "s_next_timer alert_world0 = 0" "s_notices alert_world0 = []"
  by (simp_all add: alert_world0_defs)

definition prefs_request :: httpRequest where
  "prefs_request = \<lparr>hr_Vars = [], hr_Query = [], hr_Path = ''/admin/notification-prefs'',
     hr_Body = Inr (JObj [(''worker.crash'', JObj [(''enabled'', JBool True), (''cooldown_minutes'', JInt 15)])]), hr_User = None, hr_IP = []\<rparr>"

theorem updated_preferences_read_back_witness:
  "\<exists>m w'. HandleUpdateNotificationPrefs prefs_request alert_world0 = (New (DataMap m) ''notification preferences updated'', w') \<and>
     db_script w' = [] \<and> fst (HandleGetNotificationPrefs prefs_request w') = New (DataMap m) ''notification preferences retrieved'' \<and>
     map_of m ''worker.crash'' = Some (JObj [(''enabled'', JBool True), (''cooldown_minutes'', JInt 15)])"
proof -
  define merged where "merged = map (\<lambda>(k, c). (k, if k = ''worker.crash'' then config_of True 0 0 15 else c)) DefaultPrefs"
  have dec: "decode_prefs_body prefs_request = Inr [(''worker.crash'', config_of True 0 0 15)]"
    by (simp add: prefs_request_def decode_prefs_body_def decode_eventConfig_def eventConfig_fields_def store_fields_def into_def
        match_field_def config_of_def first_err_def min_int64_def max_int64_def)
  have mrg: "map (\<lambda>(k, c). (k, case map_of (rev [(''worker.crash'', config_of True 0 0 15)]) k of None \<Rightarrow> c | Some c' \<Rightarrow> c')) DefaultPrefs = merged"
    by (auto simp: merged_def DefaultPrefs_def)
  have ld: "LoadPreferences alert_world0 = (DefaultPrefs, alert_world0)" by (simp add: LoadPreferences_def query_quiet)
  let ?m = "map (\<lambda>(k, c). (k, eventConfig_json c)) merged"
  let ?w = "logAudit prefs_request ''update'' ''notification_prefs'' None None (alert_world0\<lparr>s_prefs := Some (JsonText (JObj ?m))\<rparr>)"
  have run: "HandleUpdateNotificationPrefs prefs_request alert_world0 = (New (DataMap ?m) ''notification preferences updated'', ?w)"
    unfolding HandleUpdateNotificationPrefs_def dec ld by (simp only: sum.case prod.case Let_def mrg) (simp add: SavePreferences_def exec_unit_quiet)
  have q: "db_script ?w = []" by (simp add: logAudit_def)
  have c: "map_of ?m ''worker.crash'' = Some (JObj [(''enabled'', JBool True), (''cooldown_minutes'', JInt 15)])"
    by (simp add: merged_def DefaultPrefs_def eventConfig_json_def config_of_def omit_zero_def)
  from run q c updated_preferences_read_back [OF run q, of prefs_request] show ?thesis by blast
qed

section \<open>Alerts of one resource are a cooldown apart\<close>

datatype alert_op =
    AlertShould string string
  | AlertNotify string string string
  | AlertTrack string
  | AlertClear string
  | AlertEvict
  | AlertSchedule int "string \<times> string"
  | AlertCancel int
  | AlertFire nat
  | AlertCallback nat
  | AlertWait nat

fun alert_step :: "alert_op \<Rightarrow> 'a alert_world_scheme \<Rightarrow> 'a alert_world_scheme" where
  "alert_step (AlertShould ev r) w = snd (ShouldAlert ev r w)"
| "alert_step (AlertNotify ev subject body) w = Notify ev subject body w"
| "alert_step (AlertTrack n) w = snd (TrackUnhealthy n w)"
| "alert_step (AlertClear n) w = ClearUnhealthy n w"
| "alert_step AlertEvict w = evict_alerts w"
| "alert_step (AlertSchedule i m) w = ScheduleDisconnectAlert i m w"
| "alert_step (AlertCancel i) w = CancelDisconnectAlert i w"
| "alert_step (AlertFire i) w = fire_timer i w"
| "alert_step (AlertCallback i) w = run_callback i w"
| "alert_step (AlertWait dt) w = w\<lparr>clock := clock w + int dt\<rparr>"

text \<open>Until an instant \<open>till\<close> an entry of the cooldown map stays in it.\<close>

definition held :: "string \<Rightarrow> time \<Rightarrow> 'a alert_world_scheme \<Rightarrow> bool" where
  "held k till w \<longleftrightarrow> clock w < till \<longrightarrow> s_cooldown w k = Some till"

definition later :: "'a alert_world_scheme \<Rightarrow> 'a alert_world_scheme \<Rightarrow> bool" where
  "later w w' \<longleftrightarrow> clock w \<le> clock w' \<and> (\<forall>k till. held k till w \<longrightarrow> held k till w')"

lemma later_refl [simp]: "later w w" by (simp add: later_def)

lemma later_trans [trans]: "later w1 w2 \<Longrightarrow> later w2 w3 \<Longrightarrow> later w1 w3" by (auto simp: later_def)

lemma later_frame: "clock w \<le> clock w' \<Longrightarrow> s_cooldown w' = s_cooldown w \<Longrightarrow> later w w'"
  by (auto simp: later_def held_def)

lemma later_same: "later w w' \<Longrightarrow> clock w'' = clock w' \<Longrightarrow> s_cooldown w'' = s_cooldown w' \<Longrightarrow> later w w''"
  by (auto simp: later_def held_def)

lemma clock_query: "clock w \<le> clock (snd (query q w))"
  unfolding query_def by (rule exec_cases [where w = w and f = "\<lambda>w. (q w, w)"]) auto

lemma later_query: "later w (snd (query q w))"
  by (rule later_frame) (simp_all add: clock_query query_frame)

lemma later_GetEventConfig: "later w (snd (GetEventConfig ev w))"
  using later_query [of w s_prefs]
  by (auto simp: GetEventConfig_def LoadPreferences_def split: prod.splits sum.splits)

lemma later_Notify: "later w (Notify ev subject body w)"
  using later_GetEventConfig [of w ev]
  by (auto simp: Notify_def emit_def split: prod.split elim!: later_trans intro: later_frame)

lemma later_ShouldAlert: "later w (snd (ShouldAlert ev r w))"
proof -
  obtain cfg w1 where g: "GetEventConfig ev w = (cfg, w1)" by force
  have l: "later w w1" using later_GetEventConfig [of w ev] g by simp
  have "later w1 (snd (ShouldAlert ev r w))"
    by (auto simp: ShouldAlert_def g later_def held_def split: option.splits)
  with l show ?thesis by (rule later_trans)
qed

lemma later_send_alert: "later w (send_alert i m w)"
  using later_ShouldAlert [of w "''worker.disconnected''" "show_int i"] later_Notify
  by (auto simp: send_alert_def split: prod.split bool.split intro: later_trans [OF _ later_Notify])

lemma later_cancel_timer: "later w (cancel_timer i w)"
  by (auto simp: cancel_timer_def split: option.split intro: later_frame)

lemma later_Schedule: "later w (ScheduleDisconnectAlert i m w)"
proof -
  obtain cfg w1 where g: "GetEventConfig ''worker.disconnected'' w = (cfg, w1)" by force
  have l: "later w w1" using later_GetEventConfig [of w "''worker.disconnected''"] g by simp
  have "later w1 (ScheduleDisconnectAlert i m w)"
    using later_send_alert [of w1 i m] later_same [OF later_cancel_timer [of w1 i]]
    by (simp add: ScheduleDisconnectAlert_def g Let_def)
  with l show ?thesis by (rule later_trans)
qed

lemma later_run_callback: "later w (run_callback i w)"
proof (cases "List.find (\<lambda>t. gt_id t = i \<and> gt_state t = Firing) (s_timers w)")
  case (Some t)
  let ?w = "w\<lparr>s_timers := filter (\<lambda>t. gt_id t \<noteq> i) (s_timers w), s_graceTimers := (s_graceTimers w)(gt_worker t := None)\<rparr>"
  have "later w ?w" by (rule later_frame) simp_all
  from later_trans [OF this later_send_alert] show ?thesis using Some by (simp add: run_callback_def)
qed (simp add: run_callback_def)

lemma later_evict: "later w (evict_alerts w)"
  by (auto simp: evict_alerts_def later_def held_def)

lemma later_TrackUnhealthy: "later w (snd (TrackUnhealthy n w))"
  using later_GetEventConfig [of w "''container.unhealthy''"]
  by (auto simp: TrackUnhealthy_def Let_def split: prod.split elim!: later_trans intro: later_frame)

lemma later_alert_step: "later w (alert_step x w)"
  by (cases x) (auto simp: later_ShouldAlert later_Notify later_TrackUnhealthy later_evict later_Schedule later_run_callback
      later_cancel_timer CancelDisconnectAlert_def ClearUnhealthy_def fire_timer_def intro: later_frame)

lemma later_run: "later w (fold alert_step xs w)"
  by (induction xs arbitrary: w) (auto intro: later_trans later_alert_step)

text \<open>
  After an alert that started a cooldown, no alert for the same event and resource is granted
  before the cooldown is over, whatever else the mailer does in between (other alerts, evictions,
  timers) and whatever the database connection does, as long as the preference read for the second
  alert has a cooldown at all.
\<close>

theorem alerts_are_a_cooldown_apart:
  assumes "ShouldAlert ev r w = (True, w1)" "GetEventConfig ev w = (cfg, w0)" "ec_CooldownMinutes cfg > 0"
    and "w2 = fold alert_step xs w1" "GetEventConfig ev w2 = (cfg', w3)" "ec_CooldownMinutes cfg' > 0"
    and "clock w3 < clock w1 + cooldown_for cfg"
  shows "fst (ShouldAlert ev r w2) = False"
proof -
  let ?k = "cooldown_key ev r" and ?till = "clock w1 + cooldown_for cfg"
  have "held ?k ?till w1"
    using assms(1-3) by (auto simp: ShouldAlert_def held_def split: if_splits)
  moreover have "later w1 w2" using later_run assms(4) by simp
  moreover have "later w2 w3" using later_GetEventConfig [of w2 ev] assms(5) by simp
  ultimately have "s_cooldown w3 ?k = Some ?till" using assms(7) by (auto simp: later_def held_def)
  with assms(5-7) show ?thesis by (simp add: ShouldAlert_def)
qed

theorem alerts_are_a_cooldown_apart_witness:
  "\<exists>w1. ShouldAlert ''worker.crash'' ''7'' alert_world0 = (True, w1) \<and>
     fst (ShouldAlert ''worker.crash'' ''7'' (fold alert_step [AlertWait 100000000000, AlertEvict, AlertShould ''worker.crash'' ''8''] w1)) = False"
proof -
  let ?cfg = "config_of True 0 0 5" and ?ops = "[AlertWait 100000000000, AlertEvict, AlertShould ''worker.crash'' ''8'']"
  have cfg: "GetEventConfig ''worker.crash'' w = (?cfg, w)" if "db_script w = []" "s_prefs w = None" for w :: alert_world
    using that by (simp add: GetEventConfig_def LoadPreferences_def query_quiet DefaultPrefs_def)
  obtain w1 where w1: "ShouldAlert ''worker.crash'' ''7'' alert_world0 = (True, w1)" "db_script w1 = []" "s_prefs w1 = None" "clock w1 = 0"
    by (simp add: ShouldAlert_def cfg) (simp add: config_of_def)
  let ?w2 = "fold alert_step ?ops w1"
  have w2: "db_script ?w2 = [] \<and> s_prefs ?w2 = None \<and> clock ?w2 = 100000000000"
    using w1 by (simp add: ShouldAlert_def cfg evict_alerts_def config_of_def split: option.splits)
  have "ec_CooldownMinutes ?cfg > 0" "clock ?w2 < clock w1 + cooldown_for ?cfg"
    using w1(4) w2 by (simp_all add: config_of_def cooldown_for_def wrap_int64_def Minute_def Second_def)
  then show ?thesis
    using alerts_are_a_cooldown_apart [OF w1(1) cfg [of alert_world0], of ?w2 ?ops ?cfg ?w2] cfg [of ?w2] w2 w1(1) by auto
qed

section \<open>Timers\<close>

lemma GetEventConfig_frame:
  assumes "\<And>w c s. g (w\<lparr>clock := c, db_script := s\<rparr>) = g w"
  shows "g (snd (GetEventConfig ev w)) = g w"
  using query_frame [of g s_prefs w] assms by (auto simp: GetEventConfig_def LoadPreferences_def split: prod.splits sum.splits)

lemma ShouldAlert_frame:
  assumes "\<And>w c s. g (w\<lparr>clock := c, db_script := s\<rparr>) = g w" "\<And>w m. g (w\<lparr>s_cooldown := m\<rparr>) = g w"
  shows "g (snd (ShouldAlert ev r w)) = g w"
  using GetEventConfig_frame [of g ev w] assms by (auto simp: ShouldAlert_def split: prod.splits option.splits)

lemma send_alert_frame:
  assumes "\<And>w c s. g (w\<lparr>clock := c, db_script := s\<rparr>) = g w" "\<And>w m. g (w\<lparr>s_cooldown := m\<rparr>) = g w" "\<And>w m. g (w\<lparr>s_notices := m\<rparr>) = g w"
  shows "g (send_alert i m w) = g w"
proof -
  have n: "g (Notify ev a b v) = g v" for ev a b v
    using GetEventConfig_frame [of g ev v] assms by (auto simp: Notify_def emit_def split: prod.splits)
  then show ?thesis
    using ShouldAlert_frame [of g "''worker.disconnected''" "show_int i" w] assms by (auto simp: send_alert_def split: prod.splits bool.splits)
qed

definition timers_ok :: "'a alert_world_scheme \<Rightarrow> bool" where
  "timers_ok w \<longleftrightarrow> distinct (map gt_id (s_timers w)) \<and> (\<forall>t \<in> set (s_timers w). gt_id t < s_next_timer w)"

lemma find_by_id: "distinct (map gt_id ts) \<Longrightarrow> t \<in> set ts \<Longrightarrow> P t \<Longrightarrow> List.find (\<lambda>x. gt_id x = gt_id t \<and> P x) ts = Some t"
  by (induction ts) (auto simp: image_iff)

text \<open>
  A grace timer that has fired but whose callback has not run yet hides the next one: when the
  worker reconnects and drops again in that moment, the callback of the old timer deletes the entry of
  the new timer, and the cancellation of a later reconnect no longer finds it, so the new timer stays
  armed for a worker that is online.
\<close>

theorem stale_callback_hides_timer:
  assumes "timers_ok w" "t \<in> set (s_timers w)" "gt_state t = Firing"
    and "GetEventConfig ''worker.disconnected'' w = (cfg, w0)" "ec_Enabled cfg" "wrap_int64 (ec_GraceSeconds cfg * Second) > 0"
  shows "\<exists>t' \<in> set (s_timers (CancelDisconnectAlert (gt_worker t) (run_callback (gt_id t) (ScheduleDisconnectAlert (gt_worker t) m w)))).
           gt_id t' = s_next_timer w \<and> gt_worker t' = gt_worker t \<and> gt_state t' \<noteq> Firing"
proof -
  let ?k = "gt_worker t" and ?w1 = "ScheduleDisconnectAlert (gt_worker t) m w"
  have fr: "s_timers w0 = s_timers w" "s_next_timer w0 = s_next_timer w" "s_graceTimers w0 = s_graceTimers w"
    using GetEventConfig_frame [of s_timers "''worker.disconnected''" w] GetEventConfig_frame [of s_next_timer "''worker.disconnected''" w]
      GetEventConfig_frame [of s_graceTimers "''worker.disconnected''" w] assms(4) by simp_all
  define w2 where "w2 = cancel_timer ?k w0"
  have c: "s_next_timer w2 = s_next_timer w" "t \<in> set (s_timers w2)" "set (s_timers w2) \<subseteq> set (s_timers w)" "distinct (map gt_id (s_timers w2))"
    using assms(1-3) fr by (auto simp: w2_def cancel_timer_def stop_timer_def timers_ok_def distinct_map inj_on_def split: option.split)
  define new where "new = \<lparr>gt_id = s_next_timer w, gt_worker = ?k, gt_state = Armed (clock w2 + wrap_int64 (ec_GraceSeconds cfg * Second)), gt_mail = m\<rparr>"
  have ts: "s_timers ?w1 = s_timers w2 @ [new]"
    using assms(4-6) c(1) by (simp add: ScheduleDisconnectAlert_def Let_def w2_def [symmetric] new_def)
  have lt: "gt_id t < s_next_timer w" using assms(1,2) by (simp add: timers_ok_def)
  have "distinct (map gt_id (s_timers ?w1))" using c assms(1) by (auto simp: ts new_def timers_ok_def)
  then have f: "List.find (\<lambda>x. gt_id x = gt_id t \<and> gt_state x = Firing) (s_timers ?w1) = Some t"
    using find_by_id [of "s_timers ?w1" t "\<lambda>x. gt_state x = Firing"] assms(3) c(2) ts by simp
  let ?w3 = "?w1\<lparr>s_timers := filter (\<lambda>x. gt_id x \<noteq> gt_id t) (s_timers ?w1), s_graceTimers := (s_graceTimers ?w1)(?k := None)\<rparr>"
  have cb: "run_callback (gt_id t) ?w1 = send_alert ?k (gt_mail t) ?w3" by (simp add: run_callback_def f)
  have "s_graceTimers (run_callback (gt_id t) ?w1) ?k = None" "s_timers (run_callback (gt_id t) ?w1) = s_timers ?w3"
    unfolding cb by (simp_all add: send_alert_frame [of s_graceTimers] send_alert_frame [of s_timers])
  then have "s_timers (CancelDisconnectAlert ?k (run_callback (gt_id t) ?w1)) = filter (\<lambda>x. gt_id x \<noteq> gt_id t) (s_timers w2 @ [new])"
    by (simp add: CancelDisconnectAlert_def cancel_timer_def ts)
  then have "new \<in> set (s_timers (CancelDisconnectAlert ?k (run_callback (gt_id t) ?w1)))"
    using lt by (simp add: new_def)
  then show ?thesis by (intro bexI [of _ new]) (simp_all add: new_def)
qed

definition fired_world :: alert_world where
  "fired_world = alert_world0\<lparr>clock := 30000000000, s_timers := [\<lparr>gt_id = 0, gt_worker = 5, gt_state = Firing, gt_mail = (''Worker Disconnected'', ''w5'')\<rparr>],
     s_graceTimers := [5 \<mapsto> 0], s_next_timer := 1\<rparr>"

lemma fired_world_reached:
  "fired_world = fold alert_step [AlertSchedule 5 (''Worker Disconnected'', ''w5''), AlertWait 30000000000, AlertFire 0] alert_world0"
  by (simp add: fired_world_def ScheduleDisconnectAlert_def GetEventConfig_def LoadPreferences_def query_quiet DefaultPrefs_def
      config_of_def wrap_int64_def Second_def Let_def cancel_timer_def fire_timer_def update_where_def)

theorem stale_callback_hides_timer_witness:
  "\<exists>t \<in> set (s_timers fired_world). gt_state t = Firing \<and>
     (\<exists>t' \<in> set (s_timers (CancelDisconnectAlert (gt_worker t) (run_callback (gt_id t) (ScheduleDisconnectAlert (gt_worker t) ([], []) fired_world)))).
        gt_id t' = 1 \<and> gt_worker t' = 5 \<and> gt_state t' \<noteq> Firing)"
proof -
  let ?t = "\<lparr>gt_id = 0, gt_worker = 5, gt_state = Firing, gt_mail = (''Worker Disconnected'', ''w5'')\<rparr>"
  have "GetEventConfig ''worker.disconnected'' fired_world = (config_of True 30 0 5, fired_world)"
    by (simp add: fired_world_def GetEventConfig_def LoadPreferences_def query_quiet DefaultPrefs_def)
  from stale_callback_hides_timer [OF _ _ _ this, of ?t "([], [])"]
  show ?thesis by (intro bexI [of _ ?t]) (simp_all add: fired_world_def timers_ok_def config_of_def wrap_int64_def Second_def)
qed

end
