(* ===== verification/Runner_Messages.thy ===== *)
theory Runner_Messages
  imports Alerts
begin

text \<open>
  What a runner reports about its containers and itself (\<^verbatim>\<open>message_handlers.go\<close>, the worker statements of
  \<^verbatim>\<open>query/workers.query.go\<close> and \<^verbatim>\<open>query/lifecycle_logs.query.go\<close>): the outcome of an action, a health
  status, the live state sent at every heartbeat and lifecycle messages. Handlers resolve a
  container's name through the cache, after removing the suffix a deploy gives it, and write only
  what changed.
\<close>

section \<open>Lifecycle logs\<close>

record lifecycleLog =
  lf_ID :: int
  lf_ContainerID :: "int option"
  lf_ContainerName :: "string option"
  lf_WorkerID :: int
  lf_Event :: string
  lf_Message :: string
  lf_RecordedAt :: time

record createLifecycleLogRequest =
  lr_ContainerID :: "int option"
  lr_ContainerName :: "string option"
  lr_WorkerID :: int
  lr_Event :: string
  lr_Message :: string

record runner_world = alert_world +
  o_lifecycle :: "lifecycleLog list"
  o_next_lifecycle :: int

text \<open>The unique index on container, worker, event and instant drops a replay; a NULL container never conflicts.\<close>

definition CreateLifecycleLog :: "createLifecycleLogRequest \<Rightarrow> 'a runner_world_scheme \<Rightarrow> go_error option \<times> 'a runner_world_scheme" where
  "CreateLifecycleLog r w =
     (let ts = usec (clock w - Second) in
      exec_unit (\<lambda>w.
        if lr_ContainerID r \<noteq> None \<and>
           list_ex (\<lambda>l. lf_ContainerID l = lr_ContainerID r \<and> lf_WorkerID l = lr_WorkerID r \<and> lf_Event l = lr_Event r \<and> lf_RecordedAt l = ts)
             (o_lifecycle w) then w
        else w\<lparr>o_lifecycle := o_lifecycle w @
          [\<lparr>lf_ID = o_next_lifecycle w, lf_ContainerID = lr_ContainerID r, lf_ContainerName = lr_ContainerName r, lf_WorkerID = lr_WorkerID r,
            lf_Event = lr_Event r, lf_Message = lr_Message r, lf_RecordedAt = ts\<rparr>], o_next_lifecycle := o_next_lifecycle w + 1\<rparr>) w)"

record listLifecycleLogsRequest =
  ql_Limit :: int
  ql_Offset :: int
  ql_ContainerID :: "int option"
  ql_ContainerName :: "string option"
  ql_WorkerID :: "int option"

definition ListLifecycleLogs :: "listLifecycleLogsRequest \<Rightarrow> 'a runner_world_scheme \<Rightarrow> (go_error + lifecycleLog list) \<times> 'a runner_world_scheme" where
  "ListLifecycleLogs q w =
     (let keep = (\<lambda>l. (case (ql_ContainerID q, ql_ContainerName q) of
                         (Some i, Some n) \<Rightarrow> lf_ContainerID l = Some i \<or> lf_ContainerID l = None \<and> lf_ContainerName l = Some n
                       | (Some i, None) \<Rightarrow> lf_ContainerID l = Some i
                       | (None, Some n) \<Rightarrow> lf_ContainerName l = Some n
                       | (None, None) \<Rightarrow> True) \<and>
                      (case ql_WorkerID q of None \<Rightarrow> True | Some i \<Rightarrow> lf_WorkerID l = i)) in
      case query (\<lambda>w. page (ql_Limit q) (ql_Offset q) (sort_key (\<lambda>l. - lf_RecordedAt l) (filter keep (o_lifecycle w)))) w of
        (Inl e, w1) \<Rightarrow> (Inl (''failed to execute sql query: '' @ e), w1)
      | (Inr ls, w1) \<Rightarrow> (Inr ls, w1))"

section \<open>Worker rows\<close>

definition update_worker :: "int \<Rightarrow> (worker \<Rightarrow> worker) \<Rightarrow> 'a api_world_scheme \<Rightarrow> go_error option \<times> 'a api_world_scheme" where
  "update_worker i f w = exec_unit (\<lambda>w. w\<lparr>a_workers := update_where (\<lambda>k. wk_ID k = i) f (a_workers w)\<rparr>) w"

definition UpdateWorkerHeartbeat :: "int \<Rightarrow> string \<Rightarrow> 'a api_world_scheme \<Rightarrow> go_error option \<times> 'a api_world_scheme" where
  "UpdateWorkerHeartbeat i status w =
     (let now = db_time (clock w) in update_worker i (\<lambda>k. k\<lparr>wk_Status := status, wk_LastHeartbeatAt := Some now\<rparr>) w)"

definition UpdateWorkerRunnerVersion :: "int \<Rightarrow> string \<Rightarrow> 'a api_world_scheme \<Rightarrow> go_error option \<times> 'a api_world_scheme" where
  "UpdateWorkerRunnerVersion i v w = update_worker i (\<lambda>k. k\<lparr>wk_RunnerVersion := Some v\<rparr>) w"

definition SetWorkerPendingAction :: "int \<Rightarrow> jsonColumn \<Rightarrow> 'a api_world_scheme \<Rightarrow> go_error option \<times> 'a api_world_scheme" where
  "SetWorkerPendingAction i action w = update_worker i (\<lambda>k. k\<lparr>wk_PendingAction := action\<rparr>) w"

definition UpdateWorkerInfo ::
  "int \<Rightarrow> string \<Rightarrow> string \<Rightarrow> string \<Rightarrow> string \<Rightarrow> string \<Rightarrow> 'a api_world_scheme \<Rightarrow> go_error option \<times> 'a api_world_scheme" where
  "UpdateWorkerInfo i os arch docker ip runner w =
     update_worker i (\<lambda>k. k\<lparr>wk_OS := Some os, wk_Arch := Some arch, wk_DockerVersion := Some docker, wk_IPAddress := Some ip,
       wk_RunnerVersion := Some runner\<rparr>) w"

record listAllContainersRequest =
  la_StackID :: "int option"
  la_WorkerID :: "int option"
  la_Name :: "string option"
  la_Status :: "string option"
  la_Limit :: nat

text \<open>The containers of active stacks, by stack and id; a name filter is a substring.\<close>

definition all_containers :: "listAllContainersRequest \<Rightarrow> 'a tables_scheme \<Rightarrow> container list" where
  "all_containers q w =
     sort_key c_StackID (sort_key c_ID
       [c. c \<leftarrow> containers w, s \<leftarrow> stacks w, st_ID s = c_StackID c \<and> c_Active c \<and> st_Active s
         \<and> (case la_StackID q of None \<Rightarrow> True | Some i \<Rightarrow> c_StackID c = i)
         \<and> (case la_WorkerID q of None \<Rightarrow> True | Some i \<Rightarrow> st_WorkerID s = Some i)
         \<and> (case la_Name q of None \<Rightarrow> True | Some n \<Rightarrow> str_contains (c_Name c) n)
         \<and> (case la_Status q of None \<Rightarrow> True | Some s \<Rightarrow> c_Status c = s)])"

definition ListAllContainers :: "listAllContainersRequest \<Rightarrow> 'a tables_scheme \<Rightarrow> (go_error + container list) \<times> 'a tables_scheme" where
  "ListAllContainers q w =
     (case query (\<lambda>w. take (if la_Limit q > 0 then la_Limit q else MAX_LIMIT) (all_containers q w)) w of
        (Inl e, w1) \<Rightarrow> (Inl (''failed to execute sql query: '' @ e), w1)
      | (Inr cs, w1) \<Rightarrow> (Inr cs, w1))"

section \<open>Handlers\<close>

definition suffix_char :: "char \<Rightarrow> bool" where
  "suffix_char c \<longleftrightarrow> (let n = (of_char c :: nat) in 97 \<le> n \<and> n \<le> 122 \<or> 48 \<le> n \<and> n \<le> 57)"

text \<open>A name whose part after its last dash is six lower-case letters or digits loses that part.\<close>

definition stripDeploySuffix :: "string \<Rightarrow> string" where
  "stripDeploySuffix name =
     (let suffix = rev (takeWhile (\<lambda>c. c \<noteq> CHR ''-'') (rev name)) in
      if CHR ''-'' \<notin> set name \<or> suffix = [] \<or> length suffix \<noteq> 6 \<or> \<not> list_all suffix_char suffix then name
      else take (length name - (length suffix + 1)) name)"

definition ContainerStatus_IsValid :: "string \<Rightarrow> bool" where
  "ContainerStatus_IsValid s \<longleftrightarrow> s \<in> {''running'', ''stopped'', ''error'', ''pending'', ''paused'', ''restarting''}"

definition action_status :: "string \<Rightarrow> string option" where
  "action_status action =
     (if action \<in> {''stop'', ''remove'', ''kill''} then Some ''stopped''
      else if action \<in> {''start'', ''restart'', ''recreate'', ''unpause''} then Some ''running''
      else if action = ''pause'' then Some ''paused'' else None)"

definition lifecycleMessages :: "(string \<times> string) list" where
  "lifecycleMessages = [(''start'', ''container started''), (''restart'', ''container restarted''), (''stop'', ''container stopped''),
     (''kill'', ''container force-killed''), (''recreate'', ''container recreated''), (''pause'', ''container paused''),
     (''unpause'', ''container unpaused'')]"

definition invalidate_name :: "string \<Rightarrow> 'a log_world_scheme \<Rightarrow> 'a log_world_scheme" where
  "invalidate_name name w = w\<lparr>name_cache := Invalidate name (name_cache w)\<rparr>"

definition handleContainerStatus ::
  "int \<Rightarrow> (string \<times> json) list \<Rightarrow> 'a runner_world_scheme \<Rightarrow> (string \<times> json) list \<times> 'a runner_world_scheme" where
  "handleContainerStatus workerID p w =
     (let name = payload_str p ''container_name''; action = payload_str p ''action''; status = payload_str p ''status'';
          enriched = [(''container_name'', JStr name), (''action'', JStr action), (''status'', JStr status)] in
      if name = [] \<or> status \<noteq> ''success'' then (enriched, w)
      else case action_status action of
        None \<Rightarrow> (enriched, w)
      | Some dbStatus \<Rightarrow>
          (case cache_GetContainerByName (stripDeploySuffix name) w of
             (Inl _, w1) \<Rightarrow> (enriched, w1)
           | (Inr c, w1) \<Rightarrow>
               (let starting = (action \<in> {''start'', ''recreate'', ''restart''} \<and> HasHealthCheck c);
                    enriched1 = enriched @ [(''container_id'', JInt (c_ID c)), (''container_state'', JStr dbStatus)] @
                      (if starting then [(''health_status'', JStr ''starting'')] else []);
                    req = no_container_update\<lparr>uc_Status := Some dbStatus,
                      uc_StartedAt := (if dbStatus = ''running'' then Some (clock w1) else None),
                      uc_HealthStatus := (if starting then Some ''starting'' else None)\<rparr> in
                case UpdateContainer (c_ID c) req w1 of
                  (Inl _, w2) \<Rightarrow> (enriched1, w2)
                | (Inr _, w2) \<Rightarrow>
                    (let w3 = invalidate_name (c_Name c) w2 in
                     (enriched1,
                      case map_of lifecycleMessages action of
                        None \<Rightarrow> w3
                      | Some msg \<Rightarrow>
                          snd (CreateLifecycleLog \<lparr>lr_ContainerID = Some (c_ID c), lr_ContainerName = Some (c_Name c),
                            lr_WorkerID = workerID, lr_Event = action, lr_Message = msg\<rparr> w3))))))"

definition handleLifecycleLog :: "int \<Rightarrow> (string \<times> json) list \<Rightarrow> 'a runner_world_scheme \<Rightarrow> 'a runner_world_scheme" where
  "handleLifecycleLog workerID p w =
     (let name = payload_str p ''container_name''; event = payload_str p ''event''; message = payload_str p ''message'' in
      if message = [] then w
      else let (cid, w1) = (if name = [] then (None, w)
                            else case cache_GetContainerByName (stripDeploySuffix name) w of
                              (Inl _, w1) \<Rightarrow> (None, w1) | (Inr c, w1) \<Rightarrow> (Some (c_ID c), w1))
           in snd (CreateLifecycleLog \<lparr>lr_ContainerID = cid, lr_ContainerName = (if name = [] then None else Some name),
                lr_WorkerID = workerID, lr_Event = event, lr_Message = message\<rparr> w1))"

definition handleContainerHealthStatus :: "(string \<times> json) list \<Rightarrow> 'a runner_world_scheme \<Rightarrow> 'a runner_world_scheme" where
  "handleContainerHealthStatus p w =
     (let name = payload_str p ''container_name''; health = payload_str p ''health_status'' in
      if name = [] \<or> health = [] then w
      else case cache_GetContainerByName (stripDeploySuffix name) w of
        (Inl _, w1) \<Rightarrow> w1
      | (Inr c, w1) \<Rightarrow>
          if c_HealthStatus c = health then w1
          else (case UpdateContainer (c_ID c) (no_container_update\<lparr>uc_HealthStatus := Some health\<rparr>) w1 of
                  (Inl _, w2) \<Rightarrow> w2
                | (Inr _, w2) \<Rightarrow> invalidate_name (c_Name c) w2))"

definition sync_lookup :: "string \<Rightarrow> 'a runner_world_scheme \<Rightarrow> (go_error + container) \<times> 'a runner_world_scheme" where
  "sync_lookup name w =
     (case cache_GetContainerByName name w of
        (Inr c, w1) \<Rightarrow> (Inr c, w1)
      | (Inl e, w1) \<Rightarrow> if stripDeploySuffix name \<noteq> name then cache_GetContainerByName (stripDeploySuffix name) w1 else (Inl e, w1))"

definition sync_request :: "string \<Rightarrow> (string \<times> json) list \<Rightarrow> time \<Rightarrow> container \<Rightarrow> updateContainerRequest" where
  "sync_request status p now c =
     no_container_update
       \<lparr>uc_Status := (if c_Status c \<noteq> status then Some status else None),
        uc_StartedAt := (if c_Status c \<noteq> status \<and> status = ''running'' then Some now else None),
        uc_HealthStatus := (if status \<noteq> ''running'' \<and> status \<noteq> ''paused'' \<and> c_HealthStatus c \<noteq> ''none'' then Some ''none'' else None),
        uc_HealthCheck := (case map_of p ''health_check'' of
            None \<Rightarrow> None
          | Some hc \<Rightarrow> if hc \<noteq> JNull \<and> c_HealthCheck c = NullColumn then Some (JsonText hc) else None)\<rparr>"

definition handleContainerSync :: "(string \<times> json) list \<Rightarrow> 'a runner_world_scheme \<Rightarrow> 'a runner_world_scheme" where
  "handleContainerSync p w =
     (let name = payload_str p ''container_name''; status = payload_str p ''status'' in
      if name = [] \<or> status = [] \<or> \<not> ContainerStatus_IsValid status then w
      else case sync_lookup name w of
        (Inl _, w1) \<Rightarrow> w1
      | (Inr c, w1) \<Rightarrow>
          (let req = sync_request status p (clock w1) c in
           if req = no_container_update then w1
           else case UpdateContainer (c_ID c) req w1 of
             (Inl _, w2) \<Rightarrow> w2
           | (Inr _, w2) \<Rightarrow> invalidate_name (c_Name c) w2))"

definition writeWorkerLifecycleLogs :: "int \<Rightarrow> string \<Rightarrow> string \<Rightarrow> 'a runner_world_scheme \<Rightarrow> 'a runner_world_scheme" where
  "writeWorkerLifecycleLogs workerID event message w =
     (case ListAllContainers \<lparr>la_StackID = None, la_WorkerID = Some workerID, la_Name = None, la_Status = None, la_Limit = 0\<rparr> w of
        (Inl _, w1) \<Rightarrow> w1
      | (Inr cs, w1) \<Rightarrow>
          fold (\<lambda>c w. snd (CreateLifecycleLog \<lparr>lr_ContainerID = Some (c_ID c), lr_ContainerName = Some (c_Name c),
                 lr_WorkerID = workerID, lr_Event = event, lr_Message = message\<rparr> w)) cs w1)"

end
