(* ===== verification/Deployments.thy ===== *)
theory Deployments
  imports Runner_Messages
begin

text \<open>
  A deployment from its dispatch to its end: the writes of \<^verbatim>\<open>routers/deployment_writes.go\<close>, the
  runner's own view in \<^verbatim>\<open>routers/runner_status.go\<close>, the progress messages of \<^verbatim>\<open>message_handlers.go\<close>
  and the monitor of \<^verbatim>\<open>routers/deployment_monitor.go\<close>.

  A monitor is a goroutine: its locals are a record, and each turn of its loop, a tick of the ticker
  or the expiry of its timer, is one step. Handlers and monitor turns interleave as a sequence of
  steps; inside a step every SQL statement may fail.
\<close>

section \<open>The runner's view\<close>

record runnerStatus =
  rs_inProgress :: bool
  rs_at :: time

record monitor =
  mo_deploymentID :: int
  mo_stackID :: int
  mo_workerID :: int
  mo_payload :: "(string \<times> json) list"
  mo_full :: bool
  mo_started :: time
  mo_attempt :: nat
  mo_lastProgressAt :: time
  mo_pingFailing :: bool

record ops_world = runner_world +
  o_runnerStatuses :: "int \<rightharpoonup> runnerStatus"
  o_monitors :: "monitor list"

definition runnerStatusFreshness :: duration where "runnerStatusFreshness = 2 * Minute"

definition recordRunnerDeploymentStatusAt :: "int \<Rightarrow> bool \<Rightarrow> time \<Rightarrow> (int \<rightharpoonup> runnerStatus) \<Rightarrow> (int \<rightharpoonup> runnerStatus)" where
  "recordRunnerDeploymentStatusAt i inProgress now m =
     (\<lambda>k. case m k of Some s \<Rightarrow> if now - rs_at s > runnerStatusFreshness then None else Some s | None \<Rightarrow> None)
       (i \<mapsto> \<lparr>rs_inProgress = inProgress, rs_at = now\<rparr>)"

definition RecordRunnerDeploymentStatus :: "int \<Rightarrow> bool \<Rightarrow> 'a ops_world_scheme \<Rightarrow> 'a ops_world_scheme" where
  "RecordRunnerDeploymentStatus i inProgress w =
     w\<lparr>o_runnerStatuses := recordRunnerDeploymentStatusAt i inProgress (clock w) (o_runnerStatuses w)\<rparr>"

definition runnerHasDeploymentInProgress :: "int \<Rightarrow> time \<Rightarrow> (int \<rightharpoonup> runnerStatus) \<Rightarrow> bool" where
  "runnerHasDeploymentInProgress i now m =
     (case m i of Some s \<Rightarrow> rs_inProgress s \<and> now - rs_at s \<le> runnerStatusFreshness | None \<Rightarrow> False)"

definition forgetRunnerDeploymentStatus :: "int \<Rightarrow> 'a ops_world_scheme \<Rightarrow> 'a ops_world_scheme" where
  "forgetRunnerDeploymentStatus i w = w\<lparr>o_runnerStatuses := (o_runnerStatuses w)(i := None)\<rparr>"

section \<open>Writes\<close>

definition writeDeploymentLog :: "int \<Rightarrow> string \<Rightarrow> string \<Rightarrow> 'a deploy_world_scheme \<Rightarrow> 'a deploy_world_scheme" where
  "writeDeploymentLog i level message w =
     snd (CreateDeploymentLog \<lparr>cdl_DeploymentID = i, cdl_Level = level, cdl_Stage = None, cdl_Message = message\<rparr> w)"

text \<open>A transaction: \<open>body\<close> on the tables, undone when it fails or the commit does.\<close>

definition in_tx :: "('a world_scheme \<Rightarrow> (go_error + 'b) \<times> 'a world_scheme) \<Rightarrow> 'a world_scheme \<Rightarrow> (go_error + 'b) \<times> 'a world_scheme" where
  "in_tx body w =
     (case begin_tx w of
        (Some e, w1) \<Rightarrow> (Inl (''begin: '' @ e), w1)
      | (None, w1) \<Rightarrow>
          (case body w1 of
             (Inl e, w2) \<Rightarrow> (Inl e, rollback w1 w2)
           | (Inr x, w2) \<Rightarrow> (case commit w1 w2 of (Some e, w3) \<Rightarrow> (Inl (''commit: '' @ e), w3) | (None, w3) \<Rightarrow> (Inr x, w3))))"

definition unit_body :: "go_error option \<times> 'w \<Rightarrow> (go_error + unit) \<times> 'w" where
  "unit_body r = (case fst r of Some e \<Rightarrow> Inl e | None \<Rightarrow> Inr (), snd r)"

definition markDeploymentFailed :: "int \<Rightarrow> int \<Rightarrow> 'a deploy_world_scheme \<Rightarrow> bool \<times> 'a deploy_world_scheme" where
  "markDeploymentFailed i stackID w =
     (case in_tx (\<lambda>w. unit_body (UpdateDeploymentAndStackStatus i ''failed'' stackID ''failed'' w)) w of
        (Inl _, w1) \<Rightarrow> (False, w1)
      | (Inr _, w1) \<Rightarrow> (True, w1))"

definition releaseStackClaim :: "int \<Rightarrow> 'a tables_scheme \<Rightarrow> 'a tables_scheme" where
  "releaseStackClaim stackID w = snd (UpdateStack stackID (no_stack_update\<lparr>us_Status := Some ''active''\<rparr>) w)"

definition failDeploymentLevel :: "int \<Rightarrow> string \<Rightarrow> time \<Rightarrow> (int \<rightharpoonup> runnerStatus) \<Rightarrow> logLevel" where
  "failDeploymentLevel i cause now m =
     (if (cause = ''stalled'' \<or> cause = ''timeout'') \<and> runnerHasDeploymentInProgress i now m then LevelWarn else LevelError)"

text \<open>\<open>now\<close> ends the span of a deployment that never completed. A row's times are never Go's zero time.\<close>

definition failed_fields :: "deployment \<Rightarrow> time \<Rightarrow> (string \<times> json) list" where
  "failed_fields d now =
     (let start = (case dep_StartedAt d of Some t \<Rightarrow> t | None \<Rightarrow> dep_InsertedAt d);
          stop = (case dep_CompletedAt d of Some t \<Rightarrow> t | None \<Rightarrow> now)
      in (''strategy'', JStr (dep_Strategy d)) #
         (if stop < start then [] else [(''duration_ms'', JInt ((stop - start) div 1000000))]))"

definition failDeployment ::
  "int \<Rightarrow> int \<Rightarrow> string \<Rightarrow> go_error option \<Rightarrow> (string \<times> json) list \<Rightarrow> 'a ops_world_scheme \<Rightarrow> 'a ops_world_scheme" where
  "failDeployment i stackID cause err extra w =
     (let (_, w1) = markDeploymentFailed i stackID w;
          level = failDeploymentLevel i cause (clock w1) (o_runnerStatuses w1);
          w2 = forgetRunnerDeploymentStatus i w1;
          (dep, w3) = GetDeploymentByID i w2
      in emit (Event level ''deployment.failed''
           (extra @ [(''deployment_id'', JInt i), (''stack_id'', JInt stackID), (''cause'', JStr cause)] @
            (if level = LevelWarn then [(''runner_in_progress'', JBool True)] else []) @
            (case err of None \<Rightarrow> [] | Some e \<Rightarrow> [(''error'', JStr e)]) @
            (case dep of Inl _ \<Rightarrow> [] | Inr d \<Rightarrow> failed_fields d (clock w3)))) w3)"

section \<open>Progress\<close>

definition lateProgress :: "string \<Rightarrow> string \<Rightarrow> bool" where
  "lateProgress current incoming \<longleftrightarrow> \<not> isTerminalDeploymentStatus incoming \<and> isTerminalDeploymentStatus current"

definition deploymentDurationMS :: "deployment \<Rightarrow> time \<Rightarrow> int option" where
  "deploymentDurationMS d now =
     (let start = (case dep_StartedAt d of Some t \<Rightarrow> t | None \<Rightarrow> dep_InsertedAt d)
      in if now < start then None else Some ((now - start) div 1000000))"

definition deploymentOutcomeFields :: "deployment \<Rightarrow> time \<Rightarrow> (string \<times> json) list" where
  "deploymentOutcomeFields d now =
     [(''deployment_id'', JInt (dep_ID d)), (''stack_id'', JInt (dep_StackID d)), (''strategy'', JStr (dep_Strategy d))] @
     (case deploymentDurationMS d now of None \<Rightarrow> [] | Some ms \<Rightarrow> [(''duration_ms'', JInt ms)])"

definition logDeploymentStarted :: "deployment \<Rightarrow> 'a alert_world_scheme \<Rightarrow> 'a alert_world_scheme" where
  "logDeploymentStarted d w =
     (if dep_StartedAt d \<noteq> None then w
      else emit (Event LevelInfo ''deployment.started''
        [(''deployment_id'', JInt (dep_ID d)), (''stack_id'', JInt (dep_StackID d)), (''strategy'', JStr (dep_Strategy d))]) w)"

definition logDeploymentSucceeded :: "string \<Rightarrow> (string \<times> json) list \<Rightarrow> 'a alert_world_scheme \<Rightarrow> 'a alert_world_scheme" where
  "logDeploymentSucceeded previous fs w =
     (if previous = ''deployed'' then w
      else if previous = ''failed'' then emit (Event LevelInfo ''deployment.recovered'' (fs @ [(''previous_status'', JStr previous)])) w
      else emit (Event LevelInfo ''deployment.succeeded'' fs) w)"

definition logDeploymentFailed :: "string \<Rightarrow> (string \<times> json) list \<Rightarrow> 'a alert_world_scheme \<Rightarrow> 'a alert_world_scheme" where
  "logDeploymentFailed previous fs w =
     (if previous = ''failed'' then w else emit (Event LevelInfo ''deployment.failed'' fs) w)"

text \<open>The stage of a progress line: its container and step.\<close>

definition progress_stage :: "string \<Rightarrow> string \<Rightarrow> string option" where
  "progress_stage step name =
     (if step \<noteq> [] then Some (if name \<noteq> [] then name @ '':'' @ step else step)
      else if name \<noteq> [] then Some name else None)"

definition stack_label :: "int \<Rightarrow> 'a deploy_world_scheme \<Rightarrow> string \<times> 'a deploy_world_scheme" where
  "stack_label i w =
     (case GetDeploymentByID i w of
        (Inl _, w1) \<Rightarrow> (''Deployment #'' @ show_int i, w1)
      | (Inr d, w1) \<Rightarrow>
          (case GetStackByID (dep_StackID d) w1 of
             (Inl _, w2) \<Rightarrow> (''Deployment #'' @ show_int i, w2)
           | (Inr s, w2) \<Rightarrow> (''<strong>'' @ st_Name s @ ''</strong> (Deployment #'' @ show_int i @ '')'', w2)))"

definition nl :: string where "nl = [CHR 0x0A]"

definition notify_outcome :: "int \<Rightarrow> string \<Rightarrow> string \<Rightarrow> 'a alert_world_scheme \<Rightarrow> 'a alert_world_scheme" where
  "notify_outcome i status message w =
     (if status = ''failed'' then
        (case stack_label i (emit (WebhookFired ''deployment.failed'' [(''deployment_id'', JInt i), (''message'', JStr message)]) w) of
           (label, w1) \<Rightarrow> Notify ''deployment.failed'' ''Deployment Failed''
             (label @ '' has failed.'' @ nl @ nl @ ''<strong>Error:</strong> '' @ message @ nl @ nl @
              ''Any successfully updated containers have been rolled back to their previous state. Review the deployment logs in the Lattice dashboard for details.'') w1)
      else if status = ''deployed'' then
        (case stack_label i (emit (WebhookFired ''deployment.success'' [(''deployment_id'', JInt i), (''message'', JStr message)]) w) of
           (label, w1) \<Rightarrow> Notify ''deployment.success'' ''Deployment Successful''
             (label @ '' deployed successfully.'' @ nl @ nl @ ''All containers have been updated and are running.'') w1)
      else w)"

text \<open>The statuses of the deployed containers, inside the transaction; failures are only logged.\<close>

definition set_container_statuses :: "int \<Rightarrow> string \<Rightarrow> 'a deploy_world_scheme \<Rightarrow> 'a deploy_world_scheme" where
  "set_container_statuses i s w =
     (case ListDeploymentContainers i w of
        (Inl _, w1) \<Rightarrow> w1
      | (Inr dcs, w1) \<Rightarrow>
          fold (\<lambda>dc w. snd (UpdateContainer (dc_ContainerID dc) (no_container_update\<lparr>uc_Status := Some s\<rparr>) w)) dcs w1)"

definition settle_body :: "deployment \<Rightarrow> int \<Rightarrow> string \<Rightarrow> 'a deploy_world_scheme \<Rightarrow> (go_error + unit) \<times> 'a deploy_world_scheme" where
  "settle_body d i status w =
     (case UpdateDeploymentAndStackStatus i status (dep_StackID d) (if status = ''rolled_back'' then ''failed'' else status) w of
        (Some e, w1) \<Rightarrow> (Inl e, w1)
      | (None, w1) \<Rightarrow>
          (Inr (), if status = ''deployed'' then set_container_statuses i ''running'' w1
                   else if status = ''failed'' then set_container_statuses i ''error'' w1 else w1))"

definition settle :: "int \<Rightarrow> string \<Rightarrow> string \<Rightarrow> string option \<Rightarrow> string \<Rightarrow> 'a ops_world_scheme \<Rightarrow> 'a ops_world_scheme" where
  "settle i status step stage detail w =
     (case GetDeploymentByID i w of
        (Inl _, w1) \<Rightarrow> w1
      | (Inr d, w1) \<Rightarrow>
          (case in_tx (settle_body d i status) w1 of
             (Inl _, w2) \<Rightarrow> w2
           | (Inr _, w2) \<Rightarrow>
               if status = ''failed'' then
                 logDeploymentFailed (dep_Status d) (deploymentOutcomeFields d (clock w2) @
                   [(''stage'', case stage of None \<Rightarrow> JNull | Some s \<Rightarrow> JStr s), (''detail'', JStr detail)] @
                   (if step \<noteq> [] then [(''failed_step'', JStr step)] else [])) w2
               else if status = ''deployed'' then logDeploymentSucceeded (dep_Status d) (deploymentOutcomeFields d (clock w2)) w2
               else w2))"

definition advance :: "int \<Rightarrow> string \<Rightarrow> 'a ops_world_scheme \<Rightarrow> 'a ops_world_scheme" where
  "advance i status w =
     (case GetDeploymentByID i w of
        (Inl _, w1) \<Rightarrow> w1
      | (Inr d, w1) \<Rightarrow>
          if dep_Status d = status \<or> lateProgress (dep_Status d) status then w1
          else (case UpdateDeploymentStatus i status w1 of
                  (Some _, w2) \<Rightarrow> w2
                | (None, w2) \<Rightarrow> if status = ''deploying'' then logDeploymentStarted d w2 else w2))"

text \<open>A number of the payload, cut to an integer; \<open>trunc\<close> reads one with a fraction or an exponent.\<close>

definition payload_number :: "(string \<Rightarrow> int) \<Rightarrow> (string \<times> json) list \<Rightarrow> string \<Rightarrow> int option" where
  "payload_number trunc p key = (case map_of p key of Some (JInt n) \<Rightarrow> Some n | Some (JFloat s) \<Rightarrow> Some (trunc s) | _ \<Rightarrow> None)"

definition handleDeploymentProgress :: "(string \<Rightarrow> int) \<Rightarrow> (string \<times> json) list \<Rightarrow> 'a ops_world_scheme \<Rightarrow> 'a ops_world_scheme" where
  "handleDeploymentProgress trunc p w =
     (case payload_number trunc p ''deployment_id'' of
        None \<Rightarrow> w
      | Some i \<Rightarrow>
          (let status = payload_str p ''status''; message = payload_str p ''message''; step = payload_str p ''step'';
               stage = progress_stage step (payload_str p ''container_name'');
               detail = (if message = [] then ''status='' @ status else message);
               w1 = snd (CreateDeploymentLog \<lparr>cdl_DeploymentID = i, cdl_Level = (if status = ''failed'' then ''error'' else ''info''),
                      cdl_Stage = stage, cdl_Message = detail\<rparr> w);
               w2 = notify_outcome i status message w1
           in if isTerminalDeploymentStatus status then settle i status step stage detail w2
              else if status = ''deploying'' \<or> status = ''validating'' then advance i status w2
              else w2))"

definition handleDeploymentStatus :: "(string \<Rightarrow> int) \<Rightarrow> (string \<times> json) list \<Rightarrow> 'a ops_world_scheme \<Rightarrow> 'a ops_world_scheme" where
  "handleDeploymentStatus trunc p w =
     (case payload_number trunc p ''deployment_id'' of
        None \<Rightarrow> w
      | Some i \<Rightarrow>
          (let w1 = RecordRunnerDeploymentStatus i (map_of p ''in_progress'' = Some (JBool True)) w; message = payload_str p ''message'' in
           if message = [] then w1
           else snd (CreateDeploymentLog \<lparr>cdl_DeploymentID = i, cdl_Level = ''info'', cdl_Stage = Some ''status_check'',
                  cdl_Message = ''Runner status check: '' @ message\<rparr> w1)))"

section \<open>The monitor\<close>

definition deployPingInterval :: duration where "deployPingInterval = 15 * Second"
definition deployStallTimeout :: duration where "deployStallTimeout = 45 * Second"
definition deployMaxRetryCount :: nat where "deployMaxRetryCount = 3"
definition deployMaxRuntime :: duration where "deployMaxRuntime = 30 * Minute"
definition maxConcurrentDeploys :: nat where "maxConcurrentDeploys = 10"

definition isMonitorGeneratedLog :: "string \<Rightarrow> bool" where
  "isMonitorGeneratedLog msg \<longleftrightarrow> has_prefix msg ''Runner status check:'' \<or> has_prefix msg ''No deployment progress detected''"

text \<open>
  Starting a monitor: it takes a slot of the pool or, when the pool is full, runs as the lightweight
  watchdog, whose deadline counts from the same instant.
\<close>

definition startDeploymentMonitor ::
  "int \<Rightarrow> int \<Rightarrow> int \<Rightarrow> (string \<times> json) list \<Rightarrow> 'a ops_world_scheme \<Rightarrow> 'a ops_world_scheme" where
  "startDeploymentMonitor i stackID workerID payload w =
     w\<lparr>o_monitors := o_monitors w @
       [\<lparr>mo_deploymentID = i, mo_stackID = stackID, mo_workerID = workerID, mo_payload = payload,
         mo_full = (length (filter mo_full (o_monitors w)) < maxConcurrentDeploys), mo_started = clock w, mo_attempt = 1,
         mo_lastProgressAt = clock w, mo_pingFailing = False\<rparr>]\<rparr>"

text \<open>The end of a monitor, and its deferred cleanup.\<close>

definition monitor_return :: "monitor \<Rightarrow> 'a ops_world_scheme \<Rightarrow> monitor option \<times> 'a ops_world_scheme" where
  "monitor_return m w = (None, forgetRunnerDeploymentStatus (mo_deploymentID m) w)"

definition lightweightDeploymentWatchdog :: "monitor \<Rightarrow> 'a ops_world_scheme \<Rightarrow> monitor option \<times> 'a ops_world_scheme" where
  "lightweightDeploymentWatchdog m w =
     (case GetDeploymentByID (mo_deploymentID m) w of
        (Inl _, w1) \<Rightarrow> (Some m, w1)
      | (Inr d, w1) \<Rightarrow>
          if isTerminalDeploymentStatus (dep_Status d) then monitor_return m w1
          else if clock w1 < mo_started m + deployMaxRuntime then (Some m, w1)
          else monitor_return m (failDeployment (mo_deploymentID m) (mo_stackID m) ''timeout'' None []
                 (writeDeploymentLog (mo_deploymentID m) ''error'' ''Deployment watchdog timed out after 30m0s with no terminal state'' w1)))"

text \<open>The branch of the loop taken when the runtime limit expires, which may be chosen over a pending tick.\<close>

definition monitor_timeout :: "monitor \<Rightarrow> 'a ops_world_scheme \<Rightarrow> monitor option \<times> 'a ops_world_scheme" where
  "monitor_timeout m w =
     monitor_return m (failDeployment (mo_deploymentID m) (mo_stackID m) ''timeout'' None []
       (writeDeploymentLog (mo_deploymentID m) ''error'' ''Deployment monitor timed out after 30m0s with no terminal state'' w))"

definition MsgDeploymentPing :: string where "MsgDeploymentPing = ''deployment_ping''"
definition MsgDeploy :: string where "MsgDeploy = ''deploy''"

text \<open>Where the latest log line of the deployment moves the last progress to.\<close>

definition progress_seen :: "monitor \<Rightarrow> go_error + deploymentLog option \<Rightarrow> time" where
  "progress_seen m latest =
     (case latest of
        Inr (Some l) \<Rightarrow>
          if \<not> isMonitorGeneratedLog (dl_Message l) \<and> dl_RecordedAt l > mo_lastProgressAt m then dl_RecordedAt l else mo_lastProgressAt m
      | _ \<Rightarrow> mo_lastProgressAt m)"

definition retry_payload :: "monitor \<Rightarrow> (string \<times> json) list" where
  "retry_payload m =
     put_member ''retry'' (JBool True) (put_member ''max_retries'' (JInt (int deployMaxRetryCount))
       (put_member ''attempt'' (JInt (int (mo_attempt m))) (mo_payload m)))"

definition monitor_retry :: "monitor \<Rightarrow> 'a ops_world_scheme \<Rightarrow> monitor option \<times> 'a ops_world_scheme" where
  "monitor_retry m0 w =
     (let m = m0\<lparr>mo_attempt := mo_attempt m0 + 1\<rparr>; n = show_nat (mo_attempt m) @ ''/'' @ show_nat deployMaxRetryCount in
      case SendJSONToWorker (mo_workerID m) (NewCommand MsgDeploy (retry_payload m)) w of
        (Some e, w1) \<Rightarrow>
          (Some m, writeDeploymentLog (mo_deploymentID m) ''error''
             (''No deployment progress detected; retry '' @ n @ '' failed to dispatch: '' @ e) w1)
      | (None, w1) \<Rightarrow>
          (let w2 = writeDeploymentLog (mo_deploymentID m) ''warning''
                 (''No deployment progress detected for 45s; retrying deployment ('' @ n @ '')'') w1
           in (Some (m\<lparr>mo_lastProgressAt := clock w2\<rparr>), w2)))"

definition monitor_tick :: "monitor \<Rightarrow> 'a ops_world_scheme \<Rightarrow> monitor option \<times> 'a ops_world_scheme" where
  "monitor_tick m w =
     (case GetDeploymentByID (mo_deploymentID m) w of
        (Inl _, w1) \<Rightarrow> (Some m, w1)
      | (Inr d, w1) \<Rightarrow>
          if isTerminalDeploymentStatus (dep_Status d) then monitor_return m w1
          else
            (let (e, w2) = SendJSONToWorker (mo_workerID m) (NewCommand MsgDeploymentPing [(''deployment_id'', JInt (mo_deploymentID m))]) w1;
                 (latest, w3) = GetLatestDeploymentLog (mo_deploymentID m) w2;
                 m1 = m\<lparr>mo_pingFailing := (e \<noteq> None), mo_lastProgressAt := progress_seen m latest\<rparr>
             in if clock w3 - mo_lastProgressAt m1 < deployStallTimeout then (Some m1, w3)
                else if mo_attempt m1 < deployMaxRetryCount then monitor_retry m1 w3
                else monitor_return m1 (failDeployment (mo_deploymentID m1) (mo_stackID m1) ''stalled'' None [(''attempts'', JInt (int deployMaxRetryCount))]
                       (writeDeploymentLog (mo_deploymentID m1) ''error''
                          (''Deployment marked failed after '' @ show_nat deployMaxRetryCount @ '' stalled attempts with no progress'') w3))))"

text \<open>A turn of monitor number \<open>k\<close>: a tick, or the expiry of its timer once the runtime is over.\<close>

definition put_monitor :: "nat \<Rightarrow> monitor option \<times> 'a ops_world_scheme \<Rightarrow> 'a ops_world_scheme" where
  "put_monitor k r =
     (case r of
        (Some m, w) \<Rightarrow> w\<lparr>o_monitors := (o_monitors w)[k := m]\<rparr>
      | (None, w) \<Rightarrow> w\<lparr>o_monitors := take k (o_monitors w) @ drop (Suc k) (o_monitors w)\<rparr>)"

definition tick_monitor :: "nat \<Rightarrow> 'a ops_world_scheme \<Rightarrow> 'a ops_world_scheme" where
  "tick_monitor k w =
     (if k < length (o_monitors w)
      then let m = o_monitors w ! k in put_monitor k (if mo_full m then monitor_tick m w else lightweightDeploymentWatchdog m w)
      else w)"

definition expire_monitor :: "nat \<Rightarrow> 'a ops_world_scheme \<Rightarrow> 'a ops_world_scheme" where
  "expire_monitor k w =
     (if k < length (o_monitors w)
      then let m = o_monitors w ! k in
        if mo_full m \<and> mo_started m + deployMaxRuntime \<le> clock w then put_monitor k (monitor_timeout m w) else w
      else w)"

end
