(* ===== verification/Deploy_Router.thy ===== *)
theory Deploy_Router
  imports Deployments
begin

text \<open>
  The HTTP handlers that start, roll back, approve and cancel deployments
  (\<^verbatim>\<open>routers/HandleDeployStack.router.go\<close>, \<^verbatim>\<open>HandlePublicDeploy.router.go\<close>,
  \<^verbatim>\<open>HandleRollbackDeployment.router.go\<close>, \<^verbatim>\<open>HandleApproveDeployment.router.go\<close>,
  \<^verbatim>\<open>HandleDeleteStack.router.go\<close>). Each takes the stack's deploy claim with one conditional UPDATE and
  releases it, in a deferred call, on every path that neither hands the deploy to the worker nor
  records a terminal status. Parameters: \<open>ff\<close> and \<open>services\<close> as in \<open>Deploy_Spec\<close>, \<open>hash\<close> is the SHA-256 of a
  token in hexadecimal.
\<close>

section \<open>Placement\<close>

definition parse_label :: "string \<Rightarrow> (string \<times> string) option" where
  "parse_label pair =
     (let p = trim_space pair in
      case str_index CHR ''='' p of None \<Rightarrow> None | Some n \<Rightarrow> Some (trim_space (take n p), trim_space (drop (n + 1) p)))"

definition parseWorkerLabels :: "string option \<Rightarrow> string \<Rightarrow> string option" where
  "parseWorkerLabels raw =
     (case raw of
        None \<Rightarrow> Map.empty
      | Some s \<Rightarrow> if s = [] then Map.empty else map_of (rev (List.map_filter parse_label (split_on CHR '','' s))))"

text \<open>
  The first constraint a worker does not meet. A worker row that cannot be read and constraints that
  do not decode are no constraint. Go visits the constraints in any order, here the document's.
\<close>

definition violated :: "jsonColumn \<Rightarrow> int \<Rightarrow> 'a api_world_scheme \<Rightarrow> (string \<times> string) option \<times> 'a api_world_scheme" where
  "violated raw workerID w =
     (if raw = NullColumn \<or> raw = EmptyText then (None, w)
      else case GetWorkerByID workerID w of
        (Inl _, w1) \<Rightarrow> (None, w1)
      | (Inr k, w1) \<Rightarrow>
          (case raw of
             JsonText v \<Rightarrow>
               (case store_map [] v [] of
                  (Some _, _) \<Rightarrow> (None, w1)
                | (None, cs) \<Rightarrow>
                    (List.find (\<lambda>(key, val). (case parseWorkerLabels (wk_Labels k) key of None \<Rightarrow> [] | Some l \<Rightarrow> l) \<noteq> val) cs, w1))
           | _ \<Rightarrow> (None, w1)))"

definition placement_error :: "string \<times> string \<Rightarrow> response" where
  "placement_error c = SendError 400 (''worker does not satisfy placement constraint: '' @ fst c @ ''='' @ snd c) None"

section \<open>Shared steps\<close>

definition opt_json :: "int option \<Rightarrow> json" where
  "opt_json v = (case v of None \<Rightarrow> JNull | Some n \<Rightarrow> JInt n)"

text \<open>The row handed to the responder; instants as their count of nanoseconds.\<close>

definition deployment_data :: "deployment \<Rightarrow> apiData" where
  "deployment_data d = DataMap
     [(''id'', JInt (dep_ID d)), (''stack_id'', JInt (dep_StackID d)), (''status'', JStr (dep_Status d)), (''strategy'', JStr (dep_Strategy d)),
      (''triggered_by'', opt_json (dep_TriggeredBy d)), (''approved_by'', opt_json (dep_ApprovedBy d)),
      (''started_at'', opt_json (dep_StartedAt d)), (''completed_at'', opt_json (dep_CompletedAt d)), (''inserted_at'', JInt (dep_InsertedAt d))]"

definition name_driver :: "string \<Rightarrow> string \<Rightarrow> json" where
  "name_driver n d = JObj [(''name'', JStr n), (''driver'', JStr d)]"

definition with_networks :: "int \<Rightarrow> (string \<times> json) list \<Rightarrow> 'a deploy_world_scheme \<Rightarrow> (string \<times> json) list \<times> 'a deploy_world_scheme" where
  "with_networks stackID payload w =
     (case ListNetworksByStack stackID w of
        (Inr (n # ns), w1) \<Rightarrow> (payload @ [(''networks'', JList (map (\<lambda>x. name_driver (nw_Name x) (nw_Driver x)) (n # ns)))], w1)
      | (_, w1) \<Rightarrow> (payload, w1))"

definition with_volumes :: "int \<Rightarrow> (string \<times> json) list \<Rightarrow> 'a deploy_world_scheme \<Rightarrow> (string \<times> json) list \<times> 'a deploy_world_scheme" where
  "with_volumes stackID payload w =
     (case ListVolumesByStack stackID w of
        (Inr (v # vs), w1) \<Rightarrow> (payload @ [(''volumes'', JList (map (\<lambda>x. name_driver (vo_Name x) (vo_Driver x)) (v # vs)))], w1)
      | (_, w1) \<Rightarrow> (payload, w1))"

text \<open>The records of the containers of a deployment: the first one refused, by its label.\<close>

fun record_containers ::
  "int \<Rightarrow> (int \<times> string \<times> string \<times> string) list \<Rightarrow> 'a deploy_world_scheme \<Rightarrow> (string \<times> go_error) option \<times> 'a deploy_world_scheme" where
  "record_containers depID [] w = (None, w)"
| "record_containers depID ((cid, label, img, tag) # cs) w =
     (case CreateDeploymentContainer depID cid img tag w of
        (Some e, w1) \<Rightarrow> (Some (label, e), w1)
      | (None, w1) \<Rightarrow> record_containers depID cs w1)"

text \<open>The row and its container records in one transaction; an error comes with its response.\<close>

definition create_in_tx ::
  "int \<Rightarrow> string \<Rightarrow> int option \<Rightarrow> (int \<times> string \<times> string \<times> string) list \<Rightarrow> string \<Rightarrow> 'a deploy_world_scheme \<Rightarrow>
   (response + deployment) \<times> 'a deploy_world_scheme" where
  "create_in_tx stackID strategy by_user cs what w =
     (case begin_tx w of
        (Some e, w1) \<Rightarrow> (Inl (SendError 500 ''failed to start transaction'' (Some e)), w1)
      | (None, w1) \<Rightarrow>
          (case CreateDeployment stackID strategy by_user w1 of
             (Inl e, w2) \<Rightarrow> (Inl (QueryError e (''failed to create '' @ what)), rollback w1 w2)
           | (Inr d, w2) \<Rightarrow>
               (case record_containers (dep_ID d) cs w2 of
                  (Some (label, e), w3) \<Rightarrow> (Inl (QueryError e (''failed to record deployment container '' @ label)), rollback w1 w3)
                | (None, w3) \<Rightarrow>
                    (case commit w1 w3 of
                       (Some e, w4) \<Rightarrow> (Inl (SendError 500 (''failed to commit '' @ what) (Some e)), w4)
                     | (None, w4) \<Rightarrow> (Inr d, w4)))))"

text \<open>
  Sending the command: on failure the deployment is failed and the answer is an error. \<open>sent\<close> is what
  the handler does once the worker has the command, before the monitor starts.
\<close>

definition hand_off ::
  "deployment \<Rightarrow> stack \<Rightarrow> int \<Rightarrow> string \<Rightarrow> string \<Rightarrow> (string \<times> json) list \<Rightarrow> ('a ops_world_scheme \<Rightarrow> 'a ops_world_scheme) \<Rightarrow>
   'a ops_world_scheme \<Rightarrow> response option \<times> 'a ops_world_scheme" where
  "hand_off d st workerID cmd title payload sent w =
     (case SendJSONToWorker workerID (NewCommand MsgDeploy payload) w of
        (Some e, w1) \<Rightarrow>
          (Some (sendDispatchError cmd e),
           failDeployment (dep_ID d) (st_ID st) ''dispatch_failed'' (Some e) []
             (writeDeploymentLog (dep_ID d) ''error'' (''Failed to send '' @ cmd @ '' command to worker '' @ show_int workerID @ '': '' @ e) w1))
      | (None, w1) \<Rightarrow>
          (None, startDeploymentMonitor (dep_ID d) (st_ID st) workerID payload
             (writeDeploymentLog (dep_ID d) ''info'' (title @ '' command sent to worker '' @ show_int workerID @ '' via WebSocket'') (sent w1))))"

text \<open>The deferred release: the second component of a body's answer says whether the deploy is settled.\<close>

definition with_claim ::
  "int \<Rightarrow> string \<Rightarrow> ('a ops_world_scheme \<Rightarrow> (response \<times> bool) \<times> 'a ops_world_scheme) \<Rightarrow> 'a ops_world_scheme \<Rightarrow> response \<times> 'a ops_world_scheme" where
  "with_claim stackID failure body w =
     (case ClaimStackForDeploy stackID w of
        (Inl e, w1) \<Rightarrow> (QueryError e failure, w1)
      | (Inr False, w1) \<Rightarrow> (SendError 409 ''deployment already in progress for this stack'' None, w1)
      | (Inr True, w1) \<Rightarrow>
          (case body w1 of ((resp, settled), w2) \<Rightarrow> (resp, if settled then w2 else releaseStackClaim stackID w2)))"

definition show_bool :: "bool \<Rightarrow> string" where "show_bool b = (if b then ''true'' else ''false'')"

section \<open>Deploying a stack\<close>

record deployBody =
  bo_ContainerIDs :: "int list"
  bo_Force :: bool

text \<open>Decoding errors are ignored: a member that does not decode keeps what was stored.\<close>

definition store_ids :: "string \<Rightarrow> json \<Rightarrow> int list \<Rightarrow> go_error option \<times> int list" where
  "store_ids field v old =
     (case v of
        JList xs \<Rightarrow> (None, map (\<lambda>x. snd (store_int field x 0)) xs)
      | JNull \<Rightarrow> (None, [])
      | _ \<Rightarrow> (Some (type_error (json_kind v) field ''[]int''), old))"

definition deployBody_fields :: "deployBody body_field list" where
  "deployBody_fields =
     [(''container_ids'', into store_ids bo_ContainerIDs (\<lambda>x b. b\<lparr>bo_ContainerIDs := x\<rparr>)),
      (''force'', into store_bool bo_Force (\<lambda>x b. b\<lparr>bo_Force := x\<rparr>))]"

definition deploy_body :: "httpRequest \<Rightarrow> deployBody" where
  "deploy_body r =
     (case hr_Body r of
        Inr (JObj kvs) \<Rightarrow> snd (decode_members False (map fst deployBody_fields) (store_fields deployBody_fields) kvs \<lparr>bo_ContainerIDs = [], bo_Force = False\<rparr>)
      | _ \<Rightarrow> \<lparr>bo_ContainerIDs = [], bo_Force = False\<rparr>)"

text \<open>The containers a deploy is about.\<close>

definition select_targets :: "deployBody \<Rightarrow> container list \<Rightarrow> response + container list" where
  "select_targets b cs =
     (if bo_ContainerIDs b = [] then Inr cs
      else if bo_Force b then Inl (SendError 400 ''force deploy cannot be combined with targeted container deployment'' None)
      else let chosen = filter (\<lambda>c. c_ID c \<in> set (bo_ContainerIDs b)) cs in
        if chosen = [] then Inl (SendError 400 ''none of the specified container IDs belong to this stack'' None) else Inr chosen)"

definition deploy_payload :: "deployment \<Rightarrow> stack \<Rightarrow> (string \<times> json) list \<Rightarrow> json list \<Rightarrow> (string \<times> json) list \<Rightarrow> (string \<times> json) list" where
  "deploy_payload d st before specs after =
     [(''deployment_id'', JInt (dep_ID d)), (''stack_name'', JStr (st_Name st)), (''strategy'', JStr (st_DeploymentStrategy st))] @ before @
     [(''containers'', JList specs)] @ after @ [(''attempt'', JInt 1), (''max_retries'', JInt (int deployMaxRetryCount))]"

definition container_record :: "container \<Rightarrow> int \<times> string \<times> string \<times> string" where
  "container_record c = (c_ID c, c_Name c, c_Image c, c_Tag c)"

definition deploy_specs ::
  "(string \<Rightarrow> string) \<Rightarrow> (string \<Rightarrow> (string \<times> string) list option) \<Rightarrow> stack \<Rightarrow> container list \<Rightarrow> 'a deploy_world_scheme \<Rightarrow>
   (response + json list) \<times> 'a deploy_world_scheme" where
  "deploy_specs ff services st cs w =
     (case loadDeployEnv (st_EnvVars st) w of
        (Inl e, w1) \<Rightarrow> (Inl (SendError 500 (ev_message e) (Some (ev_err e))), w1)
      | (Inr env, w1) \<Rightarrow>
          (case newSpecBuilder services (st_ID st) (st_ComposeYAML st) env False w1 of
             (sb, w2) \<Rightarrow>
               (case build_all ff sb (map (\<lambda>c. (c, c_Image c, c_Tag c)) cs) w2 of
                  (Inl e, w3) \<Rightarrow> (Inl (SendError 500 (se_message e) (Some (se_err e))), w3)
                | (Inr specs, w3) \<Rightarrow> (Inr specs, w3))))"

definition deploy_summary :: "stack \<Rightarrow> string \<Rightarrow> container list \<Rightarrow> string" where
  "deploy_summary st how cs =
     ''Stack <strong>'' @ st_Name st @ ''</strong> deployment triggered '' @ how @ ''.'' @ nl @ nl @ ''Strategy: '' @ st_DeploymentStrategy st @ nl @
     ''Containers: '' @ show_nat (length cs)"

definition deploy_claimed ::
  "(string \<Rightarrow> string) \<Rightarrow> (string \<Rightarrow> (string \<times> string) list option) \<Rightarrow> httpRequest \<Rightarrow> user \<Rightarrow> stack \<Rightarrow> int \<Rightarrow> 'a ops_world_scheme \<Rightarrow>
   (response \<times> bool) \<times> 'a ops_world_scheme" where
  "deploy_claimed ff services r u st workerID w =
     (let b = deploy_body r; targeted = (bo_ContainerIDs b \<noteq> []) in
      case ListContainersByStack (st_ID st) w of
        (Inl e, w1) \<Rightarrow> ((QueryError e ''failed to list containers'', False), w1)
      | (Inr all, w1) \<Rightarrow>
          (case select_targets b all of
             Inl resp \<Rightarrow> ((resp, False), w1)
           | Inr cs \<Rightarrow>
               (case deploy_specs ff services st cs w1 of
                  (Inl resp, w2) \<Rightarrow> ((resp, False), w2)
                | (Inr specs, w2) \<Rightarrow>
                    (case create_in_tx (st_ID st) (st_DeploymentStrategy st) (Some (u_ID u)) (map container_record cs) ''deployment'' w2 of
                       (Inl resp, w3) \<Rightarrow> ((resp, False), w3)
                     | (Inr d, w3) \<Rightarrow>
                         (let w4 = writeDeploymentLog (dep_ID d) ''info''
                                (''Deployment initiated by user '' @ show_int (u_ID u) @ '' for stack '' @ [CHR 0x27] @ st_Name st @ [CHR 0x27] @ '' (strategy='' @
                                 st_DeploymentStrategy st @ '', containers='' @ show_nat (length cs) @ '', targeted='' @ show_bool targeted @
                                 '', force='' @ show_bool (bo_Force b) @ '')'') w3;
                              (p1, w5) = with_networks (st_ID st)
                                (deploy_payload d st [(''targeted'', JBool targeted), (''force'', JBool (bo_Force b))] specs []) w4;
                              (p2, w6) = with_volumes (st_ID st) p1 w5
                          in case hand_off d st workerID ''deploy'' ''Deploy'' p2 id w6 of
                               (Some resp, w7) \<Rightarrow> ((resp, True), w7)
                             | (None, w7) \<Rightarrow>
                                 (let w8 = Notify ''deployment.triggered'' ''Deployment Triggered''
                                        (deploy_summary st (''by <strong>'' @ (case u_Name u of Some n \<Rightarrow> n | None \<Rightarrow> u_Email u) @ ''</strong>'') cs) w7
                                  in ((NewCreated (deployment_data d) ''deployment created and sent to worker'', True),
                                      logAudit r ''deploy'' ''stack'' (Some (st_ID st))
                                        (Some (st_Name st @ (if targeted then '' ['' @ join_with '', '' (map c_Name cs) @ '']'' else []))) w8)))))))"

definition HandleDeployStack ::
  "(string \<Rightarrow> string) \<Rightarrow> (string \<Rightarrow> (string \<times> string) list option) \<Rightarrow> httpRequest \<Rightarrow> 'a ops_world_scheme \<Rightarrow> response \<times> 'a ops_world_scheme" where
  "HandleDeployStack ff services r w =
     (case path_int r ''id'' of
        None \<Rightarrow> (SendError 400 ''invalid stack id'' None, w)
      | Some stackID \<Rightarrow>
          (case hr_User r of
             None \<Rightarrow> (SendError 401 ''not authenticated'' None, w)
           | Some u \<Rightarrow>
               (case GetStackByID stackID w of
                  (Inl _, w1) \<Rightarrow> (NotFound, w1)
                | (Inr st, w1) \<Rightarrow>
                    (case st_WorkerID st of
                       None \<Rightarrow> (SendError 400 ''stack has no worker assigned'' None, w1)
                     | Some workerID \<Rightarrow>
                         if \<not> worker_connected workerID w1 then (SendError 400 ''worker is not connected'' None, w1)
                         else (case violated (st_PlacementConstraints st) workerID w1 of
                                 (Some c, w2) \<Rightarrow> (placement_error c, w2)
                               | (None, w2) \<Rightarrow>
                                   with_claim (st_ID st) ''failed to claim stack for deploy'' (deploy_claimed ff services r u st workerID) w2)))))"

section \<open>Deploying with a token\<close>

definition MsgRecreate :: string where "MsgRecreate = ''recreate''"
definition MsgRemove :: string where "MsgRemove = ''remove''"

definition commit_suffix :: "httpRequest \<Rightarrow> string" where
  "commit_suffix r = (if query_param r ''commit'' = [] then [] else '' @ '' @ query_param r ''commit'')"

definition handleSingleContainerDeploy ::
  "httpRequest \<Rightarrow> stack \<Rightarrow> int \<Rightarrow> string \<Rightarrow> deployToken \<Rightarrow> 'a alert_world_scheme \<Rightarrow> response \<times> 'a alert_world_scheme" where
  "handleSingleContainerDeploy r st workerID name dt w =
     (case ListContainersByStack (st_ID st) w of
        (Inl e, w1) \<Rightarrow> (SendError 500 ''failed to list containers'' (Some e), w1)
      | (Inr cs, w1) \<Rightarrow>
          (case List.find (\<lambda>c. c_Name c = name) cs of
             None \<Rightarrow> (SendError 404 (''container '' @ go_quote name @ '' not found in stack '' @ go_quote (st_Name st)) None, w1)
           | Some c \<Rightarrow>
               (case recreateContainerPayload c w1 of
                  (payload, w2) \<Rightarrow>
                    (case SendJSONToWorker workerID (NewCommand MsgRecreate payload) w2 of
                       (Some e, w3) \<Rightarrow> (sendDispatchError ''recreate'' e, w3)
                     | (None, w3) \<Rightarrow>
                         (let w4 = Notify ''deployment.triggered'' ''Deployment Triggered''
                                (''Container <strong>'' @ name @ ''</strong> in stack <strong>'' @ st_Name st @
                                 ''</strong> recreated via deploy token <strong>'' @ dt_Name dt @ ''</strong>.'') w3
                          in (New (DataMap [(''container'', JStr name), (''action'', JStr ''recreate'')]) (''recreate command sent to '' @ name),
                              logAudit r ''deploy_container'' ''container'' (Some (c_ID c))
                                (Some (st_Name st @ ''/'' @ name @ '' via deploy token '' @ go_quote (dt_Name dt) @ commit_suffix r)) w4))))))"

text \<open>Without a transaction: a container record that is refused is only logged.\<close>

definition record_each :: "int \<Rightarrow> container list \<Rightarrow> 'a deploy_world_scheme \<Rightarrow> 'a deploy_world_scheme" where
  "record_each depID cs w = fold (\<lambda>c w. snd (CreateDeploymentContainer depID (c_ID c) (c_Image c) (c_Tag c) w)) cs w"

definition public_deploy_claimed ::
  "(string \<Rightarrow> string) \<Rightarrow> (string \<Rightarrow> (string \<times> string) list option) \<Rightarrow> httpRequest \<Rightarrow> deployToken \<Rightarrow> stack \<Rightarrow> int \<Rightarrow> 'a ops_world_scheme \<Rightarrow>
   (response \<times> bool) \<times> 'a ops_world_scheme" where
  "public_deploy_claimed ff services r dt st workerID w0 =
     (case violated (st_PlacementConstraints st) workerID w0 of
        (Some c, w) \<Rightarrow> ((placement_error c, False), w)
      | (None, w) \<Rightarrow>
          (case ListContainersByStack (st_ID st) w of
             (Inl e, w1) \<Rightarrow> ((QueryError e ''failed to list containers'', False), w1)
           | (Inr cs, w1) \<Rightarrow>
               (case deploy_specs ff services st cs w1 of
                  (Inl resp, w2) \<Rightarrow> ((resp, False), w2)
                | (Inr specs, w2) \<Rightarrow>
                    (case CreateDeployment (st_ID st) (st_DeploymentStrategy st) None w2 of
                       (Inl e, w3) \<Rightarrow> ((QueryError e ''failed to create deployment'', False), w3)
                     | (Inr d, w3) \<Rightarrow>
                         (let w4 = writeDeploymentLog (dep_ID d) ''info''
                                (''Deployment initiated by deploy token '' @ go_quote (dt_Name dt) @ '' for stack '' @ [CHR 0x27] @ st_Name st @ [CHR 0x27] @
                                 '' (strategy='' @ st_DeploymentStrategy st @ '', containers='' @ show_nat (length cs) @ '')'') (record_each (dep_ID d) cs w3);
                              (p1, w5) = with_networks (st_ID st) (deploy_payload d st [] specs []) w4;
                              (p2, w6) = with_volumes (st_ID st) p1 w5
                          in case hand_off d st workerID ''deploy'' ''Deploy'' p2 id w6 of
                               (Some resp, w7) \<Rightarrow> ((resp, True), w7)
                             | (None, w7) \<Rightarrow>
                                 (let w8 = Notify ''deployment.triggered'' ''Deployment Triggered''
                                        (deploy_summary st (''via deploy token <strong>'' @ dt_Name dt @ ''</strong>'') cs) w7
                                  in ((NewCreated (deployment_data d) ''deployment created and sent to worker'', True),
                                      logAudit r ''deploy'' ''stack'' (Some (st_ID st))
                                        (Some (st_Name st @ '' via deploy token '' @ go_quote (dt_Name dt) @ commit_suffix r)) w8)))))))"

definition HandlePublicDeploy ::
  "(string \<Rightarrow> string) \<Rightarrow> (string \<Rightarrow> string) \<Rightarrow> (string \<Rightarrow> (string \<times> string) list option) \<Rightarrow> httpRequest \<Rightarrow> 'a ops_world_scheme \<Rightarrow>
   response \<times> 'a ops_world_scheme" where
  "HandlePublicDeploy hash ff services r w =
     (let token = (case map_of (hr_Vars r) ''token'' of None \<Rightarrow> [] | Some t \<Rightarrow> t) in
      if token = [] then (SendError 401 ''missing deploy token'' None, w)
      else case GetDeployTokenByHash (hash token) w of
        (Inl _, w1) \<Rightarrow> (SendError 401 ''invalid deploy token'' None, w1)
      | (Inr dt, w1) \<Rightarrow>
          if \<not> dt_Active dt then (SendError 401 ''invalid deploy token'' None, w1)
          else (case GetStackByID (dt_StackID dt) (snd (TouchDeployToken (dt_ID dt) w1)) of
                  (Inl _, w2) \<Rightarrow> (NotFound, w2)
                | (Inr st, w2) \<Rightarrow>
                    (case st_WorkerID st of
                       None \<Rightarrow> (SendError 400 ''stack has no worker assigned'' None, w2)
                     | Some workerID \<Rightarrow>
                         if \<not> worker_connected workerID w2 then (SendError 400 ''worker is not connected'' None, w2)
                         else if query_param r ''container'' \<noteq> [] then handleSingleContainerDeploy r st workerID (query_param r ''container'') dt w2
                         else with_claim (st_ID st) ''failed to claim stack for deploy'' (public_deploy_claimed ff services r dt st workerID) w2)))"

section \<open>Rolling back\<close>

text \<open>Image and tag of the previous deployment, everything else from the live row; a container that is gone is skipped.\<close>

fun rollback_specs ::
  "(string \<Rightarrow> string) \<Rightarrow> specBuilder \<Rightarrow> deploymentContainer list \<Rightarrow> 'a deploy_world_scheme \<Rightarrow> (specError + json list) \<times> 'a deploy_world_scheme" where
  "rollback_specs ff sb [] w = (Inr [], w)"
| "rollback_specs ff sb (dc # dcs) w =
     (case GetContainerByID (dc_ContainerID dc) w of
        (Inl _, w1) \<Rightarrow> rollback_specs ff sb dcs w1
      | (Inr c, w1) \<Rightarrow>
          (case build ff sb c (dc_Image dc) (dc_Tag dc) w1 of
             (Inl e, w2) \<Rightarrow> (Inl e, w2)
           | (Inr spec, w2) \<Rightarrow>
               (case rollback_specs ff sb dcs w2 of (Inl e, w3) \<Rightarrow> (Inl e, w3) | (Inr specs, w3) \<Rightarrow> (Inr (JObj spec # specs), w3))))"

definition dc_record :: "deploymentContainer \<Rightarrow> int \<times> string \<times> string \<times> string" where
  "dc_record dc = (dc_ContainerID dc, show_int (dc_ContainerID dc), dc_Image dc, dc_Tag dc)"

definition rollback_claimed ::
  "(string \<Rightarrow> string) \<Rightarrow> (string \<Rightarrow> (string \<times> string) list option) \<Rightarrow> httpRequest \<Rightarrow> user \<Rightarrow> deployment \<Rightarrow> stack \<Rightarrow> int \<Rightarrow> 'a ops_world_scheme \<Rightarrow>
   (response \<times> bool) \<times> 'a ops_world_scheme" where
  "rollback_claimed ff services r u target st workerID w =
     (case GetPreviousDeployment (dep_StackID target) (dep_ID target) w of
        (Inl _, w1) \<Rightarrow> ((SendError 400 ''no previous successful deployment found to rollback to'' None, False), w1)
      | (Inr prev, w1) \<Rightarrow>
          (case ListDeploymentContainers (dep_ID prev) w1 of
             (Inl _, w2) \<Rightarrow> ((SendError 400 ''previous deployment has no container records'' None, False), w2)
           | (Inr dcs, w2) \<Rightarrow>
               if dcs = [] then ((SendError 400 ''previous deployment has no container records'' None, False), w2)
               else (case loadDeployEnv (st_EnvVars st) w2 of
                       (Inl e, w3) \<Rightarrow> ((SendError 500 (ev_message e) (Some (ev_err e)), False), w3)
                     | (Inr env, w3) \<Rightarrow>
                         (case newSpecBuilder services (st_ID st) (st_ComposeYAML st) env True w3 of
                            (sb, w4) \<Rightarrow>
                              (case rollback_specs ff sb dcs w4 of
                                 (Inl e, w5) \<Rightarrow> ((SendError 500 (se_message e) (Some (se_err e)), False), w5)
                               | (Inr specs, w5) \<Rightarrow>
                                   if specs = [] then ((SendError 400 ''no valid containers found in previous deployment'' None, False), w5)
                                   else (case create_in_tx (st_ID st) (st_DeploymentStrategy st) (Some (u_ID u)) (map dc_record dcs) ''rollback deployment'' w5 of
                                           (Inl resp, w6) \<Rightarrow> ((resp, False), w6)
                                         | (Inr d, w6) \<Rightarrow>
                                             (let w7 = writeDeploymentLog (dep_ID d) ''info''
                                                    (''Rollback initiated by user '' @ show_int (u_ID u) @ '' for stack '' @ [CHR 0x27] @ st_Name st @ [CHR 0x27] @
                                                     '': reverting deployment '' @ show_int (dep_ID target) @ '' '' @ right_arrow @ '' '' @ show_int (dep_ID prev) @
                                                     '' ('' @ show_nat (length specs) @ '' containers)'') w6;
                                                  (p1, w8) = with_networks (st_ID st) (deploy_payload d st [] specs
                                                     [(''rollback'', JBool True), (''rollback_of'', JInt (dep_ID target))]) w7;
                                                  (p2, w9) = with_volumes (st_ID st) p1 w8
                                              in case hand_off d st workerID ''rollback'' ''Rollback'' p2
                                                     (\<lambda>w. snd (UpdateDeploymentStatus (dep_ID target) ''rolled_back'' w)) w9 of
                                                   (Some resp, w10) \<Rightarrow> ((resp, True), w10)
                                                 | (None, w10) \<Rightarrow>
                                                     ((NewCreated (deployment_data d) ''rollback deployment created and sent to worker'', True),
                                                      logAudit r ''rollback'' ''deployment'' (Some (dep_ID target)) None w10))))))))"

definition HandleRollbackDeployment ::
  "(string \<Rightarrow> string) \<Rightarrow> (string \<Rightarrow> (string \<times> string) list option) \<Rightarrow> httpRequest \<Rightarrow> 'a ops_world_scheme \<Rightarrow> response \<times> 'a ops_world_scheme" where
  "HandleRollbackDeployment ff services r w =
     (case path_int r ''id'' of
        None \<Rightarrow> (SendError 400 ''invalid deployment id'' None, w)
      | Some targetID \<Rightarrow>
          (case hr_User r of
             None \<Rightarrow> (SendError 401 ''not authenticated'' None, w)
           | Some u \<Rightarrow>
               (case GetDeploymentByID targetID w of
                  (Inl _, w1) \<Rightarrow> (NotFound, w1)
                | (Inr target, w1) \<Rightarrow>
                    if dep_Status target = ''rolled_back'' then (SendError 409 ''deployment has already been rolled back'' None, w1)
                    else (case GetStackByID (dep_StackID target) w1 of
                            (Inl _, w2) \<Rightarrow> (NotFound, w2)
                          | (Inr st, w2) \<Rightarrow>
                              (case st_WorkerID st of
                                 None \<Rightarrow> (SendError 400 ''stack has no worker assigned'' None, w2)
                               | Some workerID \<Rightarrow>
                                   if \<not> worker_connected workerID w2 then (SendError 400 ''worker is not connected'' None, w2)
                                   else with_claim (st_ID st) ''failed to claim stack for rollback''
                                          (rollback_claimed ff services r u target st workerID) w2)))))"

section \<open>Approving, and deleting a stack\<close>

definition HandleApproveDeployment :: "httpRequest \<Rightarrow> 'a deploy_world_scheme \<Rightarrow> response \<times> 'a deploy_world_scheme" where
  "HandleApproveDeployment r w =
     (case path_int r ''id'' of
        None \<Rightarrow> (SendError 400 ''invalid deployment id'' None, w)
      | Some i \<Rightarrow>
          (case hr_User r of
             None \<Rightarrow> (SendError 401 ''not authenticated'' None, w)
           | Some u \<Rightarrow>
               (case ApproveDeployment i (u_ID u) w of
                  (Some e, w1) \<Rightarrow> (QueryError e ''failed to approve deployment'', w1)
                | (None, w1) \<Rightarrow>
                    (case GetDeploymentByID i w1 of
                       (Inl e, w2) \<Rightarrow> (QueryError e ''failed to retrieve deployment'', w2)
                     | (Inr d, w2) \<Rightarrow> (New (deployment_data d) ''deployment approved'', logAudit r ''approve'' ''deployment'' (Some i) None w2)))))"

definition remove_container :: "int \<Rightarrow> container \<Rightarrow> 'a world_scheme \<Rightarrow> 'a world_scheme" where
  "remove_container workerID c w =
     snd (SendJSONToWorker workerID (NewCommand MsgRemove [(''container_name'', JStr (c_Name c)), (''container_id'', JInt (c_ID c))]) w)"

definition delete_stack_tx :: "int \<Rightarrow> 'a deploy_world_scheme \<Rightarrow> response option \<times> 'a deploy_world_scheme" where
  "delete_stack_tx i w =
     (case begin_tx w of
        (Some e, w1) \<Rightarrow> (Some (SendError 500 ''failed to start transaction'' (Some e)), w1)
      | (None, w1) \<Rightarrow>
          (case FailActiveDeployments i w1 of
             (Some e, w2) \<Rightarrow> (Some (QueryError e ''failed to cancel active deployments''), rollback w1 w2)
           | (None, w2) \<Rightarrow>
               (case DeleteStack i w2 of
                  (Some e, w3) \<Rightarrow> (Some (QueryError e ''failed to delete stack''), rollback w1 w3)
                | (None, w3) \<Rightarrow>
                    (case commit w1 w3 of
                       (Some e, w4) \<Rightarrow> (Some (SendError 500 ''failed to commit delete'' (Some e)), w4)
                     | (None, w4) \<Rightarrow> (None, w4)))))"

definition HandleDeleteStack :: "httpRequest \<Rightarrow> 'a deploy_world_scheme \<Rightarrow> response \<times> 'a deploy_world_scheme" where
  "HandleDeleteStack r w =
     (case path_int r ''id'' of
        None \<Rightarrow> (SendError 400 ''invalid stack id'' None, w)
      | Some i \<Rightarrow>
          (case GetStackByID i w of
             (Inl e, w1) \<Rightarrow> (QueryError e ''failed to get stack'', w1)
           | (Inr st, w1) \<Rightarrow>
               (let (cs, w2) = ListContainersByStack i w1;
                    w3 = (case (cs, st_WorkerID st) of
                            (Inr cs, Some workerID) \<Rightarrow> if worker_connected workerID w2 then fold (remove_container workerID) cs w2 else w2
                          | _ \<Rightarrow> w2)
                in case delete_stack_tx i w3 of
                     (Some resp, w4) \<Rightarrow> (resp, w4)
                   | (None, w4) \<Rightarrow> (New NoData ''stack deleted'', logAudit r ''delete'' ''stack'' (Some i) (Some (st_Name st)) w4))))"

end
