(* ===== verification/Accounts.thy ===== *)
theory Accounts
  imports Deploy_Router
begin

text \<open>
  Accounts: the queries of \<^verbatim>\<open>query/users.query.go\<close> and of the token tables, the tokens of \<^verbatim>\<open>jwt/jwt.go\<close>,
  the handlers that log in, refresh, log out and manage users and API tokens, and the mapping of an
  SSO identity onto a user (\<^verbatim>\<open>sso/session.go\<close>).

  Code outside the repository is a field of \<open>auth_env\<close>: \<open>ae_verify\<close> is what the JWT library reads of a token
  whose HMAC signature is right, \<open>ae_sign\<close> signs claims, \<open>ae_hash\<close> is SHA-256 in hexadecimal,
  \<open>ae_checkPassword\<close> and \<open>ae_hashPassword\<close> are bcrypt, \<open>ae_session\<close> is what the OIDC session manager makes of
  a session cookie at an instant, \<open>ae_logout\<close> the URL it sends the browser to. The library reads dates
  as whole seconds. Text columns are compared byte by byte. A cookie's path is always the root.
\<close>

section \<open>Rows\<close>

record apiToken =
  at_ID :: int
  at_UserID :: int
  at_Name :: string
  at_TokenHash :: string
  at_Scopes :: "string option"
  at_ExpiresAt :: "time option"
  at_LastUsedAt :: "time option"
  at_Active :: bool

record workerToken =
  wt_ID :: int
  wt_WorkerID :: int
  wt_Name :: string
  wt_TokenHash :: string
  wt_LastUsedAt :: "time option"
  wt_Active :: bool

record auth_world = ops_world +
  t_next_user :: int
  t_api_tokens :: "apiToken list"
  t_next_api_token :: int
  t_worker_tokens :: "workerToken list"
  t_next_worker_token :: int
  t_next_deploy_token :: int

definition no_rows :: go_error where "no_rows = ''sql: no rows in result set''"

text \<open>A \<^verbatim>\<open>QueryRow\<close> whose error keeps \<^verbatim>\<open>sql.ErrNoRows\<close>.\<close>

definition scan_row :: "string \<Rightarrow> ('a world_scheme \<Rightarrow> 'b option) \<Rightarrow> 'a world_scheme \<Rightarrow> (go_error + 'b) \<times> 'a world_scheme" where
  "scan_row prefix q w =
     (case query q w of
        (Inl e, w1) \<Rightarrow> (Inl (prefix @ e), w1)
      | (Inr None, w1) \<Rightarrow> (Inl (prefix @ no_rows), w1)
      | (Inr (Some x), w1) \<Rightarrow> (Inr x, w1))"

section \<open>Users\<close>

record listUsersRequest =
  lu_Limit :: int
  lu_Offset :: int
  lu_Active :: "bool option"

definition ListUsers :: "listUsersRequest \<Rightarrow> 'a tables_scheme \<Rightarrow> (go_error + user list) \<times> 'a tables_scheme" where
  "ListUsers req w =
     wrap_err ''failed to execute sql query: ''
       (query (\<lambda>w. page (lu_Limit req) (lu_Offset req) (rev (sort_key u_ID
          (filter (\<lambda>u. case lu_Active req of None \<Rightarrow> True | Some b \<Rightarrow> u_Active u = b) (users w))))) w)"

definition GetUserByEmail :: "string \<Rightarrow> 'a tables_scheme \<Rightarrow> (go_error + user) \<times> 'a tables_scheme" where
  "GetUserByEmail email w = scan_row ''failed to scan user: '' (\<lambda>w. List.find (\<lambda>u. u_Email u = email) (users w)) w"

definition GetUserByEmailAndAuthType :: "string \<Rightarrow> string \<Rightarrow> 'a tables_scheme \<Rightarrow> (go_error + user) \<times> 'a tables_scheme" where
  "GetUserByEmailAndAuthType email authType w =
     scan_row ''failed to scan user: '' (\<lambda>w. List.find (\<lambda>u. u_Email u = email \<and> u_AuthType u = authType) (users w)) w"

definition GetUserBySSOSubject :: "string \<Rightarrow> 'a tables_scheme \<Rightarrow> (go_error + user) \<times> 'a tables_scheme" where
  "GetUserBySSOSubject subject w =
     scan_row ''failed to scan user: '' (\<lambda>w. List.find (\<lambda>u. u_SSOSubject u = Some subject) (users w)) w"

definition update_user :: "int \<Rightarrow> (user \<Rightarrow> user) \<Rightarrow> 'a tables_scheme \<Rightarrow> go_error option \<times> 'a tables_scheme" where
  "update_user i f w = exec_unit (\<lambda>w. w\<lparr>users := update_where (\<lambda>u. u_ID u = i) f (users w)\<rparr>) w"

definition UpdateUserSSOSubject :: "int \<Rightarrow> string \<Rightarrow> 'a tables_scheme \<Rightarrow> go_error option \<times> 'a tables_scheme" where
  "UpdateUserSSOSubject i subject w = update_user i (\<lambda>u. u\<lparr>u_SSOSubject := Some subject\<rparr>) w"

definition CountUsers :: "'a tables_scheme \<Rightarrow> (go_error + nat) \<times> 'a tables_scheme" where
  "CountUsers w = query (\<lambda>w. length (users w)) w"

definition active_admin :: "user \<Rightarrow> bool" where "active_admin u \<longleftrightarrow> u_Role u = ''admin'' \<and> u_Active u"

definition CountActiveAdmins :: "'a tables_scheme \<Rightarrow> (go_error + nat) \<times> 'a tables_scheme" where
  "CountActiveAdmins w = query (\<lambda>w. length (filter active_admin (users w))) w"

record createUserRequest =
  cu_Email :: string
  cu_Name :: "string option"
  cu_AuthType :: string
  cu_PasswordHash :: "string option"
  cu_SSOSubject :: "string option"
  cu_ProfileImageURL :: "string option"
  cu_Role :: string

text \<open>The INSERT under the unique key on email and kind of account.\<close>

definition insert_user :: "createUserRequest \<Rightarrow> 'a auth_world_scheme \<Rightarrow> int option \<times> 'a auth_world_scheme" where
  "insert_user req w =
     (if list_ex (\<lambda>u. u_Email u = cu_Email req \<and> u_AuthType u = cu_AuthType req) (users w) then (None, w)
      else (Some (t_next_user w), w\<lparr>users := users w @
              [\<lparr>u_ID = t_next_user w, u_Email = cu_Email req, u_Name = cu_Name req, u_AuthType = cu_AuthType req,
                u_PasswordHash = cu_PasswordHash req, u_SSOSubject = cu_SSOSubject req, u_ProfileImageURL = cu_ProfileImageURL req,
                u_Role = cu_Role req, u_Active = True, u_TokensRevokedAt = None\<rparr>], t_next_user := t_next_user w + 1\<rparr>))"

definition CreateUser :: "createUserRequest \<Rightarrow> 'a auth_world_scheme \<Rightarrow> (go_error + user) \<times> 'a auth_world_scheme" where
  "CreateUser req w =
     (case exec (insert_user req) w of
        (Inl e, w1) \<Rightarrow> (Inl (''failed to execute sql query: '' @ e), w1)
      | (Inr None, w1) \<Rightarrow> (Inl (''failed to execute sql query: '' @ duplicate_entry), w1)
      | (Inr (Some i), w1) \<Rightarrow> GetUserByID i w1)"

definition DeleteUser :: "int \<Rightarrow> 'a tables_scheme \<Rightarrow> go_error option \<times> 'a tables_scheme" where
  "DeleteUser i w = update_user i (\<lambda>u. u\<lparr>u_Active := False\<rparr>) w"

definition RevokeUserTokens :: "int \<Rightarrow> 'a tables_scheme \<Rightarrow> go_error option \<times> 'a tables_scheme" where
  "RevokeUserTokens i w =
     exec_unit (\<lambda>w. w\<lparr>users := update_where (\<lambda>u. u_ID u = i) (\<lambda>u. u\<lparr>u_TokensRevokedAt := Some (db_time (clock w))\<rparr>) (users w)\<rparr>) w"

record updateUserRequest =
  uu_Name :: "string option"
  uu_Role :: "string option"
  uu_Active :: "bool option"
  uu_PasswordHash :: "string option"
  uu_ProfileImageURL :: "string option"

definition no_user_update :: updateUserRequest where
  "no_user_update = \<lparr>uu_Name = None, uu_Role = None, uu_Active = None, uu_PasswordHash = None, uu_ProfileImageURL = None\<rparr>"

definition user_sets :: "updateUserRequest \<Rightarrow> user \<Rightarrow> user" where
  "user_sets req =
     set_opt (uu_ProfileImageURL req) (\<lambda>v u. u\<lparr>u_ProfileImageURL := Some v\<rparr>) \<circ>
     set_opt (uu_PasswordHash req) (\<lambda>v u. u\<lparr>u_PasswordHash := Some v\<rparr>) \<circ>
     set_opt (uu_Active req) (\<lambda>v u. u\<lparr>u_Active := v\<rparr>) \<circ>
     set_opt (uu_Role req) (\<lambda>v u. u\<lparr>u_Role := v\<rparr>) \<circ>
     set_opt (uu_Name req) (\<lambda>v u. u\<lparr>u_Name := Some v\<rparr>)"

definition UpdateUser :: "int \<Rightarrow> updateUserRequest \<Rightarrow> 'a tables_scheme \<Rightarrow> (go_error + user) \<times> 'a tables_scheme" where
  "UpdateUser i req w =
     (if req = no_user_update then (Inl ErrNoChanges, w)
      else case update_user i (user_sets req) w of
        (Some e, w1) \<Rightarrow> (Inl (''failed to execute sql query: '' @ e), w1)
      | (None, w1) \<Rightarrow> GetUserByID i w1)"

section \<open>API, worker and deploy tokens\<close>

definition ListApiTokens :: "int option \<Rightarrow> 'a auth_world_scheme \<Rightarrow> (go_error + apiToken list) \<times> 'a auth_world_scheme" where
  "ListApiTokens userID w =
     wrap_err ''failed to execute sql query: ''
       (query (\<lambda>w. take MAX_LIMIT (rev (sort_key at_ID
          (filter (\<lambda>t. at_Active t \<and> (case userID of None \<Rightarrow> True | Some i \<Rightarrow> at_UserID t = i)) (t_api_tokens w))))) w)"

text \<open>\<^verbatim>\<open>NOW()\<close> of the database has whole seconds.\<close>

definition unexpired :: "time \<Rightarrow> apiToken \<Rightarrow> bool" where
  "unexpired now t = (case at_ExpiresAt t of None \<Rightarrow> True | Some e \<Rightarrow> e > db_time now)"

definition GetApiTokenByHash :: "string \<Rightarrow> 'a auth_world_scheme \<Rightarrow> (go_error + apiToken) \<times> 'a auth_world_scheme" where
  "GetApiTokenByHash h w =
     scan_row ''failed to scan api token: '' (\<lambda>w. List.find (\<lambda>t. at_TokenHash t = h \<and> at_Active t \<and> unexpired (clock w) t) (t_api_tokens w)) w"

definition CreateApiToken ::
  "int \<Rightarrow> string \<Rightarrow> string \<Rightarrow> string option \<Rightarrow> time option \<Rightarrow> 'a auth_world_scheme \<Rightarrow> (go_error + apiToken) \<times> 'a auth_world_scheme" where
  "CreateApiToken userID name h scopes expiresAt w =
     (case exec (\<lambda>w. (t_next_api_token w, w\<lparr>t_api_tokens := t_api_tokens w @
             [\<lparr>at_ID = t_next_api_token w, at_UserID = userID, at_Name = name, at_TokenHash = h, at_Scopes = scopes,
               at_ExpiresAt = map_option db_time expiresAt, at_LastUsedAt = None, at_Active = True\<rparr>],
             t_next_api_token := t_next_api_token w + 1\<rparr>)) w of
        (Inl e, w1) \<Rightarrow> (Inl (''failed to execute sql query: '' @ e), w1)
      | (Inr i, w1) \<Rightarrow> scan_row [] (\<lambda>w. List.find (\<lambda>t. at_ID t = i) (t_api_tokens w)) w1)"

definition update_api_token :: "int \<Rightarrow> (time \<Rightarrow> apiToken \<Rightarrow> apiToken) \<Rightarrow> 'a auth_world_scheme \<Rightarrow> go_error option \<times> 'a auth_world_scheme" where
  "update_api_token i f w = exec_unit (\<lambda>w. w\<lparr>t_api_tokens := update_where (\<lambda>t. at_ID t = i) (f (db_time (clock w))) (t_api_tokens w)\<rparr>) w"

definition DeleteApiToken :: "int \<Rightarrow> 'a auth_world_scheme \<Rightarrow> go_error option \<times> 'a auth_world_scheme" where
  "DeleteApiToken i w = update_api_token i (\<lambda>_ t. t\<lparr>at_Active := False\<rparr>) w"

definition TouchApiToken :: "int \<Rightarrow> 'a auth_world_scheme \<Rightarrow> go_error option \<times> 'a auth_world_scheme" where
  "TouchApiToken i w = update_api_token i (\<lambda>now t. t\<lparr>at_LastUsedAt := Some now\<rparr>) w"

definition ListWorkerTokens :: "int \<Rightarrow> 'a auth_world_scheme \<Rightarrow> (go_error + workerToken list) \<times> 'a auth_world_scheme" where
  "ListWorkerTokens workerID w =
     wrap_err ''failed to execute sql query: ''
       (query (\<lambda>w. take MAX_LIMIT (rev (sort_key wt_ID (filter (\<lambda>t. wt_WorkerID t = workerID \<and> wt_Active t) (t_worker_tokens w))))) w)"

definition GetWorkerTokenByHash :: "string \<Rightarrow> 'a auth_world_scheme \<Rightarrow> (go_error + workerToken) \<times> 'a auth_world_scheme" where
  "GetWorkerTokenByHash h w =
     scan_row ''failed to scan worker token: '' (\<lambda>w. List.find (\<lambda>t. wt_TokenHash t = h \<and> wt_Active t) (t_worker_tokens w)) w"

definition CreateWorkerToken :: "int \<Rightarrow> string \<Rightarrow> string \<Rightarrow> 'a auth_world_scheme \<Rightarrow> (go_error + workerToken) \<times> 'a auth_world_scheme" where
  "CreateWorkerToken workerID name h w =
     (case exec (\<lambda>w. (t_next_worker_token w, w\<lparr>t_worker_tokens := t_worker_tokens w @
             [\<lparr>wt_ID = t_next_worker_token w, wt_WorkerID = workerID, wt_Name = name, wt_TokenHash = h, wt_LastUsedAt = None, wt_Active = True\<rparr>],
             t_next_worker_token := t_next_worker_token w + 1\<rparr>)) w of
        (Inl e, w1) \<Rightarrow> (Inl (''failed to execute sql query: '' @ e), w1)
      | (Inr i, w1) \<Rightarrow> scan_row [] (\<lambda>w. List.find (\<lambda>t. wt_ID t = i) (t_worker_tokens w)) w1)"

definition update_worker_token :: "int \<Rightarrow> (time \<Rightarrow> workerToken \<Rightarrow> workerToken) \<Rightarrow> 'a auth_world_scheme \<Rightarrow> go_error option \<times> 'a auth_world_scheme" where
  "update_worker_token i f w = exec_unit (\<lambda>w. w\<lparr>t_worker_tokens := update_where (\<lambda>t. wt_ID t = i) (f (db_time (clock w))) (t_worker_tokens w)\<rparr>) w"

definition DeleteWorkerToken :: "int \<Rightarrow> 'a auth_world_scheme \<Rightarrow> go_error option \<times> 'a auth_world_scheme" where
  "DeleteWorkerToken i w = update_worker_token i (\<lambda>_ t. t\<lparr>wt_Active := False\<rparr>) w"

definition TouchWorkerToken :: "int \<Rightarrow> 'a auth_world_scheme \<Rightarrow> go_error option \<times> 'a auth_world_scheme" where
  "TouchWorkerToken i w = update_worker_token i (\<lambda>now t. t\<lparr>wt_LastUsedAt := Some now\<rparr>) w"

definition ListDeployTokensByStack :: "int \<Rightarrow> 'a deploy_world_scheme \<Rightarrow> (go_error + deployToken list) \<times> 'a deploy_world_scheme" where
  "ListDeployTokensByStack stackID w =
     wrap_err ''failed to execute sql query: ''
       (query (\<lambda>w. rev (sort_key dt_ID (filter (\<lambda>t. dt_StackID t = stackID \<and> dt_Active t) (w_deploy_tokens w)))) w)"

definition CreateDeployToken :: "int \<Rightarrow> string \<Rightarrow> string \<Rightarrow> 'a auth_world_scheme \<Rightarrow> (go_error + deployToken) \<times> 'a auth_world_scheme" where
  "CreateDeployToken stackID name h w =
     (case exec (\<lambda>w. (t_next_deploy_token w, w\<lparr>w_deploy_tokens := w_deploy_tokens w @
             [\<lparr>dt_ID = t_next_deploy_token w, dt_StackID = stackID, dt_Name = name, dt_TokenHash = h, dt_Active = True, dt_LastUsedAt = None\<rparr>],
             t_next_deploy_token := t_next_deploy_token w + 1\<rparr>)) w of
        (Inl e, w1) \<Rightarrow> (Inl (''failed to execute sql query: '' @ e), w1)
      | (Inr i, w1) \<Rightarrow> scan_row [] (\<lambda>w. List.find (\<lambda>t. dt_ID t = i) (w_deploy_tokens w)) w1)"

definition DeleteDeployToken :: "int \<Rightarrow> 'a deploy_world_scheme \<Rightarrow> go_error option \<times> 'a deploy_world_scheme" where
  "DeleteDeployToken i w =
     exec_unit (\<lambda>w. w\<lparr>w_deploy_tokens := update_where (\<lambda>t. dt_ID t = i) (\<lambda>t. t\<lparr>dt_Active := False\<rparr>) (w_deploy_tokens w)\<rparr>) w"

section \<open>Signed tokens\<close>

record claims =
  cl_Issuer :: string
  cl_ExpiresAt :: "time option"
  cl_NotBefore :: "time option"
  cl_IssuedAt :: "time option"
  cl_UserID :: int
  cl_Type :: string

record signedToken =
  tk_Alg :: string
  tk_Claims :: claims

datatype ssoSession = ProviderUnavailable | NoSession | SessionFailed | SessionOf int

record auth_env =
  ae_sign :: "signedToken \<Rightarrow> go_error + string"
  ae_verify :: "string \<Rightarrow> signedToken option"
  ae_hash :: "string \<Rightarrow> string"
  ae_checkPassword :: "string \<Rightarrow> string \<Rightarrow> bool"
  ae_hashPassword :: "string \<Rightarrow> go_error + string"
  ae_session :: "string \<Rightarrow> time \<Rightarrow> ssoSession"
  ae_logout :: "string \<Rightarrow> string"
  ae_production :: bool
  ae_domain :: string

definition issuer :: string where "issuer = ''lattice''"
definition accessTokenExpiry :: duration where "accessTokenExpiry = 15 * Minute"
definition refreshTokenExpiry :: duration where "refreshTokenExpiry = 7 * 24 * Hour"

definition numeric_date :: "time \<Rightarrow> time" where "numeric_date t = truncate_to t Second"

definition new_claims :: "string \<Rightarrow> duration \<Rightarrow> int \<Rightarrow> time \<Rightarrow> signedToken" where
  "new_claims kind life userID now =
     \<lparr>tk_Alg = ''HS512'', tk_Claims = \<lparr>cl_Issuer = issuer, cl_ExpiresAt = Some (numeric_date (now + life)), cl_NotBefore = None,
        cl_IssuedAt = Some (numeric_date now), cl_UserID = userID, cl_Type = kind\<rparr>\<rparr>"

definition NewAccessToken :: "auth_env \<Rightarrow> int \<Rightarrow> time \<Rightarrow> go_error + string \<times> time" where
  "NewAccessToken env userID now =
     (case ae_sign env (new_claims ''access'' accessTokenExpiry userID now) of
        Inl e \<Rightarrow> Inl (''failed to sign access token: '' @ e) | Inr s \<Rightarrow> Inr (s, now + accessTokenExpiry))"

definition NewRefreshToken :: "auth_env \<Rightarrow> int \<Rightarrow> time \<Rightarrow> go_error + string \<times> time" where
  "NewRefreshToken env userID now =
     (case ae_sign env (new_claims ''refresh'' refreshTokenExpiry userID now) of
        Inl e \<Rightarrow> Inl (''failed to sign refresh token: '' @ e) | Inr s \<Rightarrow> Inr (s, now + refreshTokenExpiry))"

text \<open>The library checks the algorithm, the dates and the issuer; the code checks the issuer again and that there is a date of issue.\<close>

definition ValidateToken :: "auth_env \<Rightarrow> time \<Rightarrow> string \<Rightarrow> claims option" where
  "ValidateToken env now s =
     (case ae_verify env s of
        None \<Rightarrow> None
      | Some t \<Rightarrow>
          (let c = tk_Claims t in
           if tk_Alg t = ''HS512''
              \<and> (case cl_ExpiresAt c of None \<Rightarrow> False | Some e \<Rightarrow> now < e)
              \<and> (case cl_NotBefore c of None \<Rightarrow> True | Some b \<Rightarrow> b \<le> now)
              \<and> cl_Issuer c = issuer \<and> cl_IssuedAt c \<noteq> None
           then Some c else None))"

definition ValidateAccessToken :: "auth_env \<Rightarrow> time \<Rightarrow> string \<Rightarrow> int option" where
  "ValidateAccessToken env now s =
     (case ValidateToken env now s of Some c \<Rightarrow> if cl_Type c = ''access'' then Some (cl_UserID c) else None | None \<Rightarrow> None)"

definition ValidateRefreshToken :: "auth_env \<Rightarrow> time \<Rightarrow> string \<Rightarrow> int option" where
  "ValidateRefreshToken env now s =
     (case ValidateToken env now s of Some c \<Rightarrow> if cl_Type c = ''refresh'' then Some (cl_UserID c) else None | None \<Rightarrow> None)"

text \<open>A token issued at or before the revocation is revoked, and so is one without a date of issue.\<close>

definition token_revoked :: "user \<Rightarrow> claims \<Rightarrow> bool" where
  "token_revoked u c =
     (case u_TokensRevokedAt u of
        None \<Rightarrow> False
      | Some t \<Rightarrow> (case cl_IssuedAt c of None \<Rightarrow> True | Some i \<Rightarrow> \<not> i > t))"

definition GenerateToken :: "auth_env \<Rightarrow> 'a api_world_scheme \<Rightarrow> (go_error + string \<times> string) \<times> 'a api_world_scheme" where
  "GenerateToken env w =
     (case random_hex w of
        (Inl e, w1) \<Rightarrow> (Inl (''failed to generate random token: '' @ e), w1)
      | (Inr s, w1) \<Rightarrow> (Inr (s, ae_hash env s), w1))"

section \<open>Requests and cookies\<close>

record webRequest =
  wr_Method :: string
  wr_Headers :: "(string \<times> string) list"
  wr_Cookies :: "(string \<times> string) list"
  wr_Req :: httpRequest

definition header :: "webRequest \<Rightarrow> string \<Rightarrow> string" where
  "header r k = (case map_of (wr_Headers r) k of None \<Rightarrow> [] | Some v \<Rightarrow> v)"

definition cookie :: "webRequest \<Rightarrow> string \<Rightarrow> string option" where
  "cookie r k = map_of (wr_Cookies r) k"

datatype sameSite = SameSiteDefault | SameSiteLax | SameSiteStrict

record setCookie =
  ck_Name :: string
  ck_Value :: string
  ck_Domain :: string
  ck_Expires :: "time option"
  ck_MaxAge :: int
  ck_HttpOnly :: bool
  ck_Secure :: bool
  ck_SameSite :: sameSite

type_synonym reply = "response \<times> setCookie list"

definition latticeTokenName :: string where "latticeTokenName = ''lattice-access-token''"
definition refreshTokenName :: string where "refreshTokenName = ''lattice-refresh-token''"
definition SessionCookie :: string where "SessionCookie = ''lattice_session''"
definition csrfCookieName :: string where "csrfCookieName = ''lattice-csrf''"
definition csrfHeaderName :: string where "csrfHeaderName = ''X-CSRF-Token''"

definition lax_cookie :: "auth_env \<Rightarrow> string \<Rightarrow> string \<Rightarrow> time \<Rightarrow> bool \<Rightarrow> setCookie" where
  "lax_cookie env name v expires httpOnly =
     \<lparr>ck_Name = name, ck_Value = v, ck_Domain = ae_domain env, ck_Expires = Some expires, ck_MaxAge = 0, ck_HttpOnly = httpOnly,
      ck_Secure = ae_production env, ck_SameSite = SameSiteLax\<rparr>"

definition opt_str :: "string option \<Rightarrow> json" where
  "opt_str v = (case v of None \<Rightarrow> JNull | Some s \<Rightarrow> JStr s)"

text \<open>A user as the API shows it: no password hash and no revocation; its instants are left out.\<close>

definition user_json :: "user \<Rightarrow> (string \<times> json) list" where
  "user_json u =
     [(''id'', JInt (u_ID u)), (''email'', JStr (u_Email u)), (''name'', opt_str (u_Name u)), (''auth_type'', JStr (u_AuthType u))] @
     (case u_SSOSubject u of None \<Rightarrow> [] | Some s \<Rightarrow> [(''sso_subject'', JStr s)]) @
     [(''profile_image_url'', opt_str (u_ProfileImageURL u)), (''role'', JStr (u_Role u)), (''active'', JBool (u_Active u))]"

section \<open>Logging in and out\<close>

record loginBody =
  lb_Email :: string
  lb_Password :: string

definition loginBody_fields :: "loginBody body_field list" where
  "loginBody_fields =
     [(''email'', into store_string lb_Email (\<lambda>x b. b\<lparr>lb_Email := x\<rparr>)),
      (''password'', into store_string lb_Password (\<lambda>x b. b\<lparr>lb_Password := x\<rparr>))]"

definition session_cookies :: "auth_env \<Rightarrow> string \<times> time \<Rightarrow> string \<times> time \<Rightarrow> setCookie list" where
  "session_cookies env access refresh =
     [lax_cookie env latticeTokenName (fst access) (snd access) True, lax_cookie env refreshTokenName (fst refresh) (snd refresh) True]"

definition HandleLocalLogin :: "auth_env \<Rightarrow> webRequest \<Rightarrow> 'a auth_world_scheme \<Rightarrow> reply \<times> 'a auth_world_scheme" where
  "HandleLocalLogin env r w =
     (case decode_body loginBody_fields \<lparr>lb_Email = [], lb_Password = []\<rparr> (wr_Req r) of
        Inl e \<Rightarrow> ((BadBody e, []), w)
      | Inr b \<Rightarrow>
          if lb_Email b = [] then ((MissingBodyFields ''email'', []), w)
          else if lb_Password b = [] then ((MissingBodyFields ''password'', []), w)
          else (case GetUserByEmailAndAuthType (lb_Email b) ''local'' w of
                  (Inl _, w1) \<Rightarrow> ((SendError 401 ''invalid credentials'' None, []), w1)
                | (Inr u, w1) \<Rightarrow>
                    (case u_PasswordHash u of
                       None \<Rightarrow> ((SendError 401 ''invalid credentials'' None, []), w1)
                     | Some h \<Rightarrow>
                         if \<not> u_Active u then ((SendError 403 ''account is disabled'' None, []), w1)
                         else if \<not> ae_checkPassword env h (lb_Password b) then ((SendError 401 ''invalid credentials'' None, []), w1)
                         else (case NewAccessToken env (u_ID u) (clock w1) of
                                 Inl e \<Rightarrow> ((SendError 500 ''failed to generate access token'' (Some e), []), w1)
                               | Inr access \<Rightarrow>
                                   (case NewRefreshToken env (u_ID u) (clock w1) of
                                      Inl e \<Rightarrow> ((SendError 500 ''failed to generate refresh token'' (Some e), []), w1)
                                    | Inr refresh \<Rightarrow>
                                        ((New (DataMap [(''user'', JObj (user_json u)), (''access_token'', JStr (fst access)), (''expires_at'', JInt (snd access))])
                                            ''login successful'',
                                          session_cookies env access refresh @
                                            [lax_cookie env ''lattice-logged-in'' ''1'' (clock w1 + 7 * 24 * Hour) False]), w1))))))"

definition HandleAuthRefresh :: "auth_env \<Rightarrow> webRequest \<Rightarrow> 'a auth_world_scheme \<Rightarrow> reply \<times> 'a auth_world_scheme" where
  "HandleAuthRefresh env r w =
     (case cookie r refreshTokenName of
        None \<Rightarrow> ((SendError 401 ''no refresh token provided'' None, []), w)
      | Some s \<Rightarrow>
          if s = [] then ((SendError 401 ''no refresh token provided'' None, []), w)
          else (case ValidateToken env (clock w) s of
                  None \<Rightarrow> ((SendError 401 ''invalid refresh token'' None, []), w)
                | Some c \<Rightarrow>
                    if cl_Type c \<noteq> ''refresh'' then ((SendError 401 ''invalid refresh token'' None, []), w)
                    else (case GetUserByID (cl_UserID c) w of
                            (Inl _, w1) \<Rightarrow> ((SendError 401 ''user not found or inactive'' None, []), w1)
                          | (Inr u, w1) \<Rightarrow>
                              if \<not> u_Active u then ((SendError 401 ''user not found or inactive'' None, []), w1)
                              else if u_AuthType u = ''sso'' then ((SendError 401 ''sign in with sso'' None, []), w1)
                              else if token_revoked u c then ((SendError 401 ''token has been revoked'' None, []), w1)
                              else (case NewAccessToken env (u_ID u) (clock w1) of
                                      Inl e \<Rightarrow> ((SendError 500 ''failed to generate access token'' (Some e), []), w1)
                                    | Inr access \<Rightarrow>
                                        (case NewRefreshToken env (u_ID u) (clock w1) of
                                           Inl e \<Rightarrow> ((SendError 500 ''failed to generate refresh token'' (Some e), []), w1)
                                         | Inr refresh \<Rightarrow>
                                             ((New (DataMap [(''token'', JStr (fst access)), (''expires_at'', JInt (snd access))]) ''token refreshed'',
                                               session_cookies env access refresh), w1))))))"

definition expired_cookie :: "auth_env \<Rightarrow> string \<Rightarrow> setCookie" where
  "expired_cookie env name =
     \<lparr>ck_Name = name, ck_Value = [], ck_Domain = ae_domain env, ck_Expires = None, ck_MaxAge = -1, ck_HttpOnly = (name \<noteq> ''lattice-logged-in''),
      ck_Secure = ae_production env, ck_SameSite = SameSiteLax\<rparr>"

definition HandleLogout :: "auth_env \<Rightarrow> webRequest \<Rightarrow> 'a auth_world_scheme \<Rightarrow> reply \<times> 'a auth_world_scheme" where
  "HandleLogout env r w =
     (let redirectURL = (case cookie r SessionCookie of None \<Rightarrow> [] | Some s \<Rightarrow> if s = [] then [] else ae_logout env s);
          (err, w1) = (case hr_User (wr_Req r) of None \<Rightarrow> (None, w) | Some u \<Rightarrow> RevokeUserTokens (u_ID u) w);
          cleared = map (expired_cookie env) [latticeTokenName, refreshTokenName, ''lattice-logged-in''] @
            [\<lparr>ck_Name = csrfCookieName, ck_Value = [], ck_Domain = ae_domain env, ck_Expires = None, ck_MaxAge = -1, ck_HttpOnly = False,
              ck_Secure = False, ck_SameSite = SameSiteDefault\<rparr>]
      in ((case err of
             Some e \<Rightarrow> SendError 500 ''failed to revoke session'' (Some e)
           | None \<Rightarrow> New (DataMap [(''redirect_url'', JStr redirectURL)]) ''logged out'', cleared), w1))"

section \<open>Managing users\<close>

definition role_known :: "string \<Rightarrow> bool" where
  "role_known r \<longleftrightarrow> r \<in> {''admin'', ''editor'', ''viewer'', ''pending''}"

definition role_error :: response where
  "role_error = SendError 400 ''role must be admin, editor, viewer, or pending'' None"

definition is_letter :: "char \<Rightarrow> bool" where
  "is_letter c \<longleftrightarrow> (let n = (of_char c :: nat) in (65 \<le> n \<and> n \<le> 90) \<or> (97 \<le> n \<and> n \<le> 122))"

definition domain_char :: "char \<Rightarrow> bool" where "domain_char c \<longleftrightarrow> is_alnum c \<or> c \<in> set ''.-''"

text \<open>The address pattern: one at sign, and after the last dot of the domain two letters or more.\<close>

definition email_shaped :: "string \<Rightarrow> bool" where
  "email_shaped s =
     (case split_on CHR ''@'' s of
        [name, host] \<Rightarrow>
          (let tld = takeWhile (\<lambda>c. c \<noteq> CHR ''.'') (rev host); rest = drop (length tld + 1) (rev host) in
           name \<noteq> [] \<and> list_all (\<lambda>c. is_alnum c \<or> c \<in> set ''._%+-'') name
           \<and> length tld < length host \<and> 2 \<le> length tld \<and> list_all is_letter tld \<and> rest \<noteq> [] \<and> list_all domain_char rest)
      | _ \<Rightarrow> False)"

definition ValidateEmail :: "string \<Rightarrow> go_error option" where
  "ValidateEmail s = (if \<not> email_shaped s \<or> rune_count s > 254 then Some ''invalid email format'' else None)"

record createUserBody =
  cb_Email :: string
  cb_Name :: "string option"
  cb_Password :: string
  cb_Role :: string

definition createUserBody_fields :: "createUserBody body_field list" where
  "createUserBody_fields =
     [(''email'', into store_string cb_Email (\<lambda>x b. b\<lparr>cb_Email := x\<rparr>)),
      (''name'', into (store_ptr store_string []) cb_Name (\<lambda>x b. b\<lparr>cb_Name := x\<rparr>)),
      (''password'', into store_string cb_Password (\<lambda>x b. b\<lparr>cb_Password := x\<rparr>)),
      (''role'', into store_string cb_Role (\<lambda>x b. b\<lparr>cb_Role := x\<rparr>))]"

definition HandleCreateUser :: "auth_env \<Rightarrow> httpRequest \<Rightarrow> 'a auth_world_scheme \<Rightarrow> response \<times> 'a auth_world_scheme" where
  "HandleCreateUser env r w =
     (case decode_body createUserBody_fields \<lparr>cb_Email = [], cb_Name = None, cb_Password = [], cb_Role = []\<rparr> r of
        Inl e \<Rightarrow> (BadBody e, w)
      | Inr b \<Rightarrow>
          (let role = (if cb_Role b = [] then ''viewer'' else cb_Role b) in
           if cb_Email b = [] then (MissingBodyFields ''email'', w)
           else if cb_Password b = [] then (MissingBodyFields ''password'', w)
           else if \<not> role_known role then (role_error, w)
           else (case ValidateEmail (cb_Email b) of
                   Some e \<Rightarrow> (SendError 400 e None, w)
                 | None \<Rightarrow>
                     (case ValidatePassword (cb_Password b) of
                        Some e \<Rightarrow> (SendError 400 e None, w)
                      | None \<Rightarrow>
                          (case ae_hashPassword env (cb_Password b) of
                             Inl e \<Rightarrow> (SendError 500 ''failed to hash password'' (Some e), w)
                           | Inr h \<Rightarrow>
                               (case CreateUser \<lparr>cu_Email = cb_Email b, cu_Name = cb_Name b, cu_AuthType = ''local'', cu_PasswordHash = Some h,
                                      cu_SSOSubject = None, cu_ProfileImageURL = None, cu_Role = role\<rparr> w of
                                  (Inl e, w1) \<Rightarrow> (QueryError e ''failed to create user'', w1)
                                | (Inr u, w1) \<Rightarrow>
                                    (NewCreated (DataMap (user_json u)) ''user created'',
                                     logAudit r ''create'' ''user'' (Some (u_ID u)) (Some (u_Email u)) w1)))))))"

record updateUserBody =
  ub_Name :: "string option"
  ub_Role :: "string option"
  ub_Active :: "bool option"

definition updateUserBody_fields :: "updateUserBody body_field list" where
  "updateUserBody_fields =
     [(''name'', into (store_ptr store_string []) ub_Name (\<lambda>x b. b\<lparr>ub_Name := x\<rparr>)),
      (''role'', into (store_ptr store_string []) ub_Role (\<lambda>x b. b\<lparr>ub_Role := x\<rparr>)),
      (''active'', into (store_ptr store_bool False) ub_Active (\<lambda>x b. b\<lparr>ub_Active := x\<rparr>))]"

definition losing_admin :: "updateUserBody \<Rightarrow> user \<Rightarrow> bool" where
  "losing_admin b target \<longleftrightarrow> u_Role target = ''admin'' \<and>
     ((case ub_Role b of None \<Rightarrow> u_Role target | Some v \<Rightarrow> v) \<noteq> ''admin'' \<or> \<not> (case ub_Active b of None \<Rightarrow> u_Active target | Some v \<Rightarrow> v))"

text \<open>The guards of an update: the answer that refuses it, or nothing.\<close>

definition update_guards :: "httpRequest \<Rightarrow> int \<Rightarrow> updateUserBody \<Rightarrow> 'a auth_world_scheme \<Rightarrow> response option \<times> 'a auth_world_scheme" where
  "update_guards r i b w =
     (if (case ub_Role b of None \<Rightarrow> False | Some v \<Rightarrow> \<not> role_known v) then (Some role_error, w)
      else case GetUserByID i w of
        (Inl e, w1) \<Rightarrow> (Some (QueryError e ''failed to load user''), w1)
      | (Inr target, w1) \<Rightarrow>
          if (case hr_User r of None \<Rightarrow> False | Some acting \<Rightarrow> u_ID acting = i) \<and> losing_admin b target
          then (Some (SendError 400 ''you cannot remove your own admin access'' None), w1)
          else if losing_admin b target
          then (case CountActiveAdmins w1 of
                  (Inl e, w2) \<Rightarrow> (Some (QueryError e ''failed to verify admin count''), w2)
                | (Inr n, w2) \<Rightarrow> (if n \<le> 1 then Some (SendError 400 ''cannot remove the last active admin'' None) else None, w2))
          else (None, w1))"

definition apply_user_update :: "httpRequest \<Rightarrow> int \<Rightarrow> updateUserBody \<Rightarrow> 'a auth_world_scheme \<Rightarrow> response \<times> 'a auth_world_scheme" where
  "apply_user_update r i b w =
     (case UpdateUser i (no_user_update\<lparr>uu_Name := ub_Name b, uu_Role := ub_Role b, uu_Active := ub_Active b\<rparr>) w of
        (Inl e, w1) \<Rightarrow> (QueryError e ''failed to update user'', w1)
      | (Inr u, w1) \<Rightarrow> (New (DataMap (user_json u)) ''user updated'', logAudit r ''update'' ''user'' (Some i) None w1))"

definition HandleUpdateUser :: "httpRequest \<Rightarrow> 'a auth_world_scheme \<Rightarrow> response \<times> 'a auth_world_scheme" where
  "HandleUpdateUser r w =
     (case path_int r ''id'' of
        None \<Rightarrow> (SendError 400 ''invalid user id'' None, w)
      | Some i \<Rightarrow>
          (case decode_body updateUserBody_fields \<lparr>ub_Name = None, ub_Role = None, ub_Active = None\<rparr> r of
             Inl e \<Rightarrow> (BadBody e, w)
           | Inr b \<Rightarrow>
               (case update_guards r i b w of
                  (Some resp, w1) \<Rightarrow> (resp, w1)
                | (None, w1) \<Rightarrow> apply_user_update r i b w1)))"

definition HandleDeleteUser :: "httpRequest \<Rightarrow> 'a auth_world_scheme \<Rightarrow> response \<times> 'a auth_world_scheme" where
  "HandleDeleteUser r w =
     (case path_int r ''id'' of
        None \<Rightarrow> (SendError 400 ''invalid user id'' None, w)
      | Some i \<Rightarrow>
          (case hr_User r of
             None \<Rightarrow> (SendError 401 ''authentication required'' None, w)
           | Some u \<Rightarrow>
               if u_ID u = i then (SendError 400 ''cannot delete yourself'' None, w)
               else (case DeleteUser i w of
                       (Some e, w1) \<Rightarrow> (QueryError e ''failed to delete user'', w1)
                     | (None, w1) \<Rightarrow> (New NoData ''user deleted'', logAudit r ''delete'' ''user'' (Some i) None w1))))"

text \<open>\<^verbatim>\<open>strconv.ParseBool\<close>.\<close>

definition parse_bool :: "string \<Rightarrow> bool option" where
  "parse_bool s =
     (if s \<in> {''1'', ''t'', ''T'', ''true'', ''TRUE'', ''True''} then Some True
      else if s \<in> {''0'', ''f'', ''F'', ''false'', ''FALSE'', ''False''} then Some False else None)"

definition HandleGetUsers :: "httpRequest \<Rightarrow> 'a auth_world_scheme \<Rightarrow> response \<times> 'a auth_world_scheme" where
  "HandleGetUsers r w =
     (case ListUsers \<lparr>lu_Limit = (case int_param r ''limit'' of None \<Rightarrow> 0 | Some n \<Rightarrow> n), lu_Offset = (case int_param r ''offset'' of None \<Rightarrow> 0 | Some n \<Rightarrow> n),
            lu_Active = (if query_param r ''active'' = [] then None else parse_bool (query_param r ''active''))\<rparr> w of
        (Inl e, w1) \<Rightarrow> (QueryError e ''failed to list users'', w1)
      | (Inr us, w1) \<Rightarrow> (New (DataList (map (\<lambda>u. JObj (user_json u)) us)) ''users retrieved'', w1))"

definition HandleAuthSelf :: "httpRequest \<Rightarrow> response" where
  "HandleAuthSelf r =
     (case hr_User r of
        None \<Rightarrow> SendError 401 ''not authenticated'' None
      | Some u \<Rightarrow> New (DataMap (user_json u)) ''user retrieved'')"

record selfBody =
  sb_Name :: "string option"
  sb_CurrentPassword :: "string option"
  sb_NewPassword :: "string option"
  sb_ProfileImageURL :: "string option"

definition selfBody_fields :: "selfBody body_field list" where
  "selfBody_fields =
     [(''name'', into (store_ptr store_string []) sb_Name (\<lambda>x b. b\<lparr>sb_Name := x\<rparr>)),
      (''current_password'', into (store_ptr store_string []) sb_CurrentPassword (\<lambda>x b. b\<lparr>sb_CurrentPassword := x\<rparr>)),
      (''new_password'', into (store_ptr store_string []) sb_NewPassword (\<lambda>x b. b\<lparr>sb_NewPassword := x\<rparr>)),
      (''profile_image_url'', into (store_ptr store_string []) sb_ProfileImageURL (\<lambda>x b. b\<lparr>sb_ProfileImageURL := x\<rparr>))]"

text \<open>One optional update of the own row; the answer that stops the handler.\<close>

definition update_own :: "user \<Rightarrow> updateUserRequest \<Rightarrow> string \<Rightarrow> 'a auth_world_scheme \<Rightarrow> response option \<times> 'a auth_world_scheme" where
  "update_own u req failure w =
     (if req = no_user_update then (None, w)
      else case UpdateUser (u_ID u) req w of (Inl e, w1) \<Rightarrow> (Some (QueryError e failure), w1) | (Inr _, w1) \<Rightarrow> (None, w1))"

definition change_password :: "auth_env \<Rightarrow> user \<Rightarrow> selfBody \<Rightarrow> 'a auth_world_scheme \<Rightarrow> response option \<times> 'a auth_world_scheme" where
  "change_password env u b w =
     (case sb_NewPassword b of
        None \<Rightarrow> (None, w)
      | Some new_pw \<Rightarrow>
          if new_pw = [] then (None, w)
          else if u_AuthType u \<noteq> ''local'' then (Some (SendError 400 ''password change only available for local auth accounts'' None), w)
          else (case sb_CurrentPassword b of
                  None \<Rightarrow> (Some (SendError 400 ''current password is required'' None), w)
                | Some old_pw \<Rightarrow>
                    if old_pw = [] then (Some (SendError 400 ''current password is required'' None), w)
                    else if (case u_PasswordHash u of None \<Rightarrow> True | Some h \<Rightarrow> \<not> ae_checkPassword env h old_pw)
                    then (Some (SendError 401 ''current password is incorrect'' None), w)
                    else (case ValidatePassword new_pw of
                            Some e \<Rightarrow> (Some (SendError 400 e None), w)
                          | None \<Rightarrow>
                              (case ae_hashPassword env new_pw of
                                 Inl e \<Rightarrow> (Some (SendError 500 ''failed to hash password'' (Some e)), w)
                               | Inr h \<Rightarrow> update_own u (no_user_update\<lparr>uu_PasswordHash := Some h\<rparr>) ''failed to update password'' w))))"

definition HandleUpdateSelf :: "auth_env \<Rightarrow> httpRequest \<Rightarrow> 'a auth_world_scheme \<Rightarrow> response \<times> 'a auth_world_scheme" where
  "HandleUpdateSelf env r w =
     (case hr_User r of
        None \<Rightarrow> (SendError 401 ''not authenticated'' None, w)
      | Some u \<Rightarrow>
          (case decode_body selfBody_fields \<lparr>sb_Name = None, sb_CurrentPassword = None, sb_NewPassword = None, sb_ProfileImageURL = None\<rparr> r of
             Inl e \<Rightarrow> (BadBody e, w)
           | Inr b \<Rightarrow>
               (case update_own u (no_user_update\<lparr>uu_Name := sb_Name b\<rparr>) ''failed to update name'' w of
                  (Some resp, w1) \<Rightarrow> (resp, w1)
                | (None, w1) \<Rightarrow>
                    (case update_own u (no_user_update\<lparr>uu_ProfileImageURL := sb_ProfileImageURL b\<rparr>) ''failed to update profile image'' w1 of
                       (Some resp, w2) \<Rightarrow> (resp, w2)
                     | (None, w2) \<Rightarrow>
                         (case change_password env u b w2 of
                            (Some resp, w3) \<Rightarrow> (resp, w3)
                          | (None, w3) \<Rightarrow>
                              (case GetUserByID (u_ID u) w3 of
                                 (Inl e, w4) \<Rightarrow> (QueryError e ''failed to get updated user'', w4)
                               | (Inr u', w4) \<Rightarrow>
                                   (New (DataMap (user_json u')) ''profile updated'', logAudit r ''update_self'' ''user'' (Some (u_ID u)) None w4)))))))"

section \<open>Issuing and deleting tokens\<close>

definition ScopeRead :: string where "ScopeRead = ''read''"
definition ScopeWrite :: string where "ScopeWrite = ''write''"
definition ScopeAdmin :: string where "ScopeAdmin = ''admin''"

definition isSafeMethod :: "string \<Rightarrow> bool" where
  "isSafeMethod m \<longleftrightarrow> m \<in> {''GET'', ''HEAD'', ''OPTIONS''}"

definition scope_items :: "string \<Rightarrow> string list" where
  "scope_items s = map (\<lambda>p. trim_space (lower p)) (split_on CHR '','' (trim_space s))"

definition apiTokenScopeAllows :: "string option \<Rightarrow> string \<Rightarrow> bool" where
  "apiTokenScopeAllows scopes meth =
     (case scopes of
        None \<Rightarrow> True
      | Some s \<Rightarrow> trim_space s = [] \<or> list_ex (\<lambda>p. p = ScopeWrite \<or> p = ScopeAdmin) (scope_items s) \<or> isSafeMethod meth)"

fun keep_new :: "string list \<Rightarrow> string list \<Rightarrow> string list option" where
  "keep_new out [] = Some out"
| "keep_new out (v # vs) =
     (if v = [] then keep_new out vs
      else if v \<notin> {ScopeRead, ScopeWrite, ScopeAdmin} then None
      else if v \<in> set out then keep_new out vs
      else keep_new (out @ [v]) vs)"

text \<open>\<open>None\<close> is the refusal; \<open>Some None\<close> is an unrestricted token.\<close>

definition NormalizeApiTokenScopes :: "string option \<Rightarrow> string option option" where
  "NormalizeApiTokenScopes scopes =
     (case scopes of
        None \<Rightarrow> Some None
      | Some s \<Rightarrow>
          if trim_space s = [] then Some None
          else (case keep_new [] (scope_items s) of
                  None \<Rightarrow> None
                | Some out \<Rightarrow> Some (if out = [] then None else Some (join_with '','' out))))"

record apiTokenBody =
  ab_Name :: string
  ab_Scopes :: "string option"
  ab_ExpiresIn :: string

definition apiTokenBody_fields :: "apiTokenBody body_field list" where
  "apiTokenBody_fields =
     [(''name'', into store_string ab_Name (\<lambda>x b. b\<lparr>ab_Name := x\<rparr>)),
      (''scopes'', into (store_ptr store_string []) ab_Scopes (\<lambda>x b. b\<lparr>ab_Scopes := x\<rparr>)),
      (''expires_in'', into store_string ab_ExpiresIn (\<lambda>x b. b\<lparr>ab_ExpiresIn := x\<rparr>))]"

text \<open>\<open>None\<close> is a value that is not understood; \<open>Some None\<close> never expires.\<close>

definition token_expiry :: "string \<Rightarrow> time \<Rightarrow> time option option" where
  "token_expiry s now =
     (let v = lower s in
      if v = ''never'' then Some None
      else if v = [] \<or> v = ''90d'' then Some (Some (now + 90 * 24 * Hour))
      else if v = ''30d'' then Some (Some (now + 30 * 24 * Hour))
      else if v = ''365d'' then Some (Some (now + 365 * 24 * Hour))
      else None)"

definition HandleCreateApiToken :: "auth_env \<Rightarrow> httpRequest \<Rightarrow> 'a auth_world_scheme \<Rightarrow> response \<times> 'a auth_world_scheme" where
  "HandleCreateApiToken env r w =
     (case hr_User r of
        None \<Rightarrow> (SendError 401 ''authentication required'' None, w)
      | Some u \<Rightarrow>
          (case decode_body apiTokenBody_fields \<lparr>ab_Name = [], ab_Scopes = None, ab_ExpiresIn = []\<rparr> r of
             Inl e \<Rightarrow> (BadBody e, w)
           | Inr b \<Rightarrow>
               if ab_Name b = [] then (MissingBodyFields ''name'', w)
               else if length (ab_Name b) > 255 then (SendError 400 ''name too long (max 255 characters)'' None, w)
               else (case NormalizeApiTokenScopes (ab_Scopes b) of
                       None \<Rightarrow> (SendError 400 ''invalid scopes: allowed values are read, write, admin (comma-separated)'' None, w)
                     | Some scopes \<Rightarrow>
                         (case token_expiry (ab_ExpiresIn b) (clock w) of
                            None \<Rightarrow> (SendError 400 ''invalid expires_in value, use: 30d, 90d, 365d, or never'' None, w)
                          | Some expiresAt \<Rightarrow>
                              (case GenerateToken env w of
                                 (Inl e, w1) \<Rightarrow> (SendError 500 ''failed to generate token'' (Some e), w1)
                               | (Inr (plaintext, h), w1) \<Rightarrow>
                                   (case CreateApiToken (u_ID u) (ab_Name b) h scopes expiresAt w1 of
                                      (Inl e, w2) \<Rightarrow> (QueryError e ''failed to create api token'', w2)
                                    | (Inr t, w2) \<Rightarrow>
                                        (NewCreated (DataMap [(''token'', JStr plaintext), (''id'', JInt (at_ID t)), (''user_id'', JInt (at_UserID t)),
                                            (''name'', JStr (at_Name t)), (''scopes'', opt_str (at_Scopes t)), (''expires_at'', opt_json (at_ExpiresAt t)),
                                            (''last_used_at'', opt_json (at_LastUsedAt t)), (''active'', JBool (at_Active t))]) ''api token created'',
                                         logAudit r ''create'' ''api_token'' (Some (at_ID t)) (Some (ab_Name b)) w2)))))))"

definition api_token_json :: "apiToken \<Rightarrow> json" where
  "api_token_json t = JObj
     [(''id'', JInt (at_ID t)), (''user_id'', JInt (at_UserID t)), (''name'', JStr (at_Name t)), (''scopes'', opt_str (at_Scopes t)),
      (''expires_at'', opt_json (at_ExpiresAt t)), (''last_used_at'', opt_json (at_LastUsedAt t)), (''active'', JBool (at_Active t))]"

definition HandleListApiTokens :: "httpRequest \<Rightarrow> 'a auth_world_scheme \<Rightarrow> response \<times> 'a auth_world_scheme" where
  "HandleListApiTokens r w =
     (case hr_User r of
        None \<Rightarrow> (SendError 401 ''authentication required'' None, w)
      | Some u \<Rightarrow>
          (case ListApiTokens (if u_Role u \<noteq> ''admin'' then Some (u_ID u) else None) w of
             (Inl e, w1) \<Rightarrow> (QueryError e ''failed to list api tokens'', w1)
           | (Inr ts, w1) \<Rightarrow> (New (DataList (map api_token_json ts)) ''api tokens retrieved'', w1)))"

definition HandleDeleteApiToken :: "httpRequest \<Rightarrow> 'a auth_world_scheme \<Rightarrow> response \<times> 'a auth_world_scheme" where
  "HandleDeleteApiToken r w =
     (case hr_User r of
        None \<Rightarrow> (SendError 401 ''authentication required'' None, w)
      | Some u \<Rightarrow>
          (case path_int r ''id'' of
             None \<Rightarrow> (SendError 400 ''invalid token id'' None, w)
           | Some i \<Rightarrow>
               (let (refused, w1) =
                      (if u_Role u = ''admin'' then (None, w)
                       else case ListApiTokens (Some (u_ID u)) w of
                         (Inl e, w1) \<Rightarrow> (Some (QueryError e ''failed to verify token ownership''), w1)
                       | (Inr ts, w1) \<Rightarrow>
                           (if list_ex (\<lambda>t. at_ID t = i) ts then None else Some (SendError 403 ''you can only delete your own api tokens'' None), w1))
                in case refused of
                     Some resp \<Rightarrow> (resp, w1)
                   | None \<Rightarrow>
                       (case DeleteApiToken i w1 of
                          (Some e, w2) \<Rightarrow> (QueryError e ''failed to delete api token'', w2)
                        | (None, w2) \<Rightarrow> (New NoData ''api token deleted'', logAudit r ''delete'' ''api_token'' (Some i) None w2)))))"

record nameBody =
  nb_Name :: string

definition decode_name :: "httpRequest \<Rightarrow> go_error + string" where
  "decode_name r =
     (case decode_body [(''name'', into store_string nb_Name (\<lambda>x b. b\<lparr>nb_Name := x\<rparr>))] \<lparr>nb_Name = []\<rparr> r of Inl e \<Rightarrow> Inl e | Inr b \<Rightarrow> Inr (nb_Name b))"

definition HandleCreateWorkerToken :: "auth_env \<Rightarrow> httpRequest \<Rightarrow> 'a auth_world_scheme \<Rightarrow> response \<times> 'a auth_world_scheme" where
  "HandleCreateWorkerToken env r w =
     (case path_int r ''id'' of
        None \<Rightarrow> (SendError 400 ''invalid worker id'' None, w)
      | Some workerID \<Rightarrow>
          (case decode_name r of
             Inl e \<Rightarrow> (BadBody e, w)
           | Inr name \<Rightarrow>
               if name = [] then (MissingBodyFields ''name'', w)
               else (case GenerateToken env w of
                       (Inl e, w1) \<Rightarrow> (SendError 500 ''failed to generate token'' (Some e), w1)
                     | (Inr (plaintext, h), w1) \<Rightarrow>
                         (case CreateWorkerToken workerID name h w1 of
                            (Inl e, w2) \<Rightarrow> (QueryError e ''failed to create worker token'', w2)
                          | (Inr t, w2) \<Rightarrow>
                              (NewCreated (DataMap [(''token'', JStr plaintext), (''id'', JInt (wt_ID t)), (''worker_id'', JInt (wt_WorkerID t)), (''name'', JStr (wt_Name t)),
                                 (''last_used_at'', opt_json (wt_LastUsedAt t)), (''active'', JBool (wt_Active t))]) ''worker token created'',
                               logAudit r ''create'' ''worker_token'' (Some (wt_ID t)) (Some name) w2)))))"

definition HandleGetWorkerTokens :: "httpRequest \<Rightarrow> 'a auth_world_scheme \<Rightarrow> response \<times> 'a auth_world_scheme" where
  "HandleGetWorkerTokens r w =
     (case path_int r ''id'' of
        None \<Rightarrow> (SendError 400 ''invalid worker id'' None, w)
      | Some workerID \<Rightarrow>
          (case ListWorkerTokens workerID w of
             (Inl e, w1) \<Rightarrow> (QueryError e ''failed to list worker tokens'', w1)
           | (Inr ts, w1) \<Rightarrow>
               (New (DataList (map (\<lambda>t. JObj [(''id'', JInt (wt_ID t)), (''worker_id'', JInt (wt_WorkerID t)), (''name'', JStr (wt_Name t)),
                  (''last_used_at'', opt_json (wt_LastUsedAt t)), (''active'', JBool (wt_Active t))]) ts)) ''worker tokens retrieved'', w1)))"

definition HandleDeleteWorkerToken :: "httpRequest \<Rightarrow> 'a auth_world_scheme \<Rightarrow> response \<times> 'a auth_world_scheme" where
  "HandleDeleteWorkerToken r w =
     (case path_int r ''id'' of
        None \<Rightarrow> (SendError 400 ''invalid token id'' None, w)
      | Some i \<Rightarrow>
          (case DeleteWorkerToken i w of
             (Some e, w1) \<Rightarrow> (QueryError e ''failed to delete worker token'', w1)
           | (None, w1) \<Rightarrow> (New NoData ''worker token deleted'', logAudit r ''delete'' ''worker_token'' (Some i) None w1)))"

definition deploy_token_json :: "deployToken \<Rightarrow> (string \<times> json) list" where
  "deploy_token_json t =
     [(''id'', JInt (dt_ID t)), (''stack_id'', JInt (dt_StackID t)), (''name'', JStr (dt_Name t)),
      (''last_used_at'', opt_json (dt_LastUsedAt t)), (''active'', JBool (dt_Active t))]"

definition HandleListDeployTokens :: "httpRequest \<Rightarrow> 'a auth_world_scheme \<Rightarrow> response \<times> 'a auth_world_scheme" where
  "HandleListDeployTokens r w =
     (case path_int r ''id'' of
        None \<Rightarrow> (SendError 400 ''invalid stack id'' None, w)
      | Some stackID \<Rightarrow>
          (case ListDeployTokensByStack stackID w of
             (Inl e, w1) \<Rightarrow> (QueryError e ''failed to list deploy tokens'', w1)
           | (Inr ts, w1) \<Rightarrow> (New (DataList (map (\<lambda>t. JObj (deploy_token_json t)) ts)) ''deploy tokens retrieved'', w1)))"

definition HandleCreateDeployToken :: "auth_env \<Rightarrow> httpRequest \<Rightarrow> 'a auth_world_scheme \<Rightarrow> response \<times> 'a auth_world_scheme" where
  "HandleCreateDeployToken env r w =
     (case path_int r ''id'' of
        None \<Rightarrow> (SendError 400 ''invalid stack id'' None, w)
      | Some stackID \<Rightarrow>
          (case decode_name r of
             Inl e \<Rightarrow> (BadBody e, w)
           | Inr name \<Rightarrow>
               if name = [] then (MissingBodyFields ''name'', w)
               else (case GenerateToken env w of
                       (Inl e, w1) \<Rightarrow> (SendError 500 ''failed to generate token'' (Some e), w1)
                     | (Inr (plaintext, h), w1) \<Rightarrow>
                         (case CreateDeployToken stackID name h w1 of
                            (Inl e, w2) \<Rightarrow> (QueryError e ''failed to create deploy token'', w2)
                          | (Inr t, w2) \<Rightarrow>
                              (NewCreated (DataMap ((''token'', JStr plaintext) # deploy_token_json t)) ''deploy token created'',
                               logAudit r ''create'' ''deploy_token'' (Some (dt_ID t)) (Some name) w2)))))"

definition HandleDeleteDeployToken :: "httpRequest \<Rightarrow> 'a auth_world_scheme \<Rightarrow> response \<times> 'a auth_world_scheme" where
  "HandleDeleteDeployToken r w =
     (case path_int r ''id'' of
        None \<Rightarrow> (SendError 400 ''invalid token id'' None, w)
      | Some i \<Rightarrow>
          (case DeleteDeployToken i w of
             (Some e, w1) \<Rightarrow> (QueryError e ''failed to delete deploy token'', w1)
           | (None, w1) \<Rightarrow> (New NoData ''deploy token deleted'', logAudit r ''delete'' ''deploy_token'' (Some i) None w1)))"

section \<open>Signing in with an identity provider\<close>

record ssoIdentity =
  id_Subject :: string
  id_Email :: string
  id_Name :: "string option"
  id_Picture :: "string option"

datatype ssoError = LoginError string | ResolveError go_error

definition is_no_rows :: "go_error \<Rightarrow> bool" where "is_no_rows e = has_suffix e no_rows"

definition LooksLikeEmail :: "string \<Rightarrow> bool" where "LooksLikeEmail s \<longleftrightarrow> CHR ''@'' \<in> set s"

text \<open>One lookup: a user, nobody, or an error that ends the login.\<close>

definition lookup_user :: "string \<Rightarrow> (go_error + user) \<times> 'w \<Rightarrow> (ssoError + user option) \<times> 'w" where
  "lookup_user what r =
     (case r of
        (Inr u, w) \<Rightarrow> (Inr (Some u), w)
      | (Inl e, w) \<Rightarrow> (if is_no_rows e then Inr None else Inl (ResolveError (what @ e)), w))"

definition find_identity :: "ssoIdentity \<Rightarrow> 'a tables_scheme \<Rightarrow> (ssoError + user option) \<times> 'a tables_scheme" where
  "find_identity idn w =
     (case (if id_Subject idn = [] then (Inr None, w) else lookup_user ''lookup by subject: '' (GetUserBySSOSubject (id_Subject idn) w)) of
        (Inl e, w1) \<Rightarrow> (Inl e, w1)
      | (Inr (Some u), w1) \<Rightarrow> (Inr (Some u), w1)
      | (Inr None, w1) \<Rightarrow> lookup_user ''lookup by email: '' (GetUserByEmailAndAuthType (id_Email idn) ''sso'' w1))"

definition heal_subject :: "ssoIdentity \<Rightarrow> user \<Rightarrow> 'a tables_scheme \<Rightarrow> 'a tables_scheme" where
  "heal_subject idn u w =
     (if id_Subject idn \<noteq> [] \<and> (case u_SSOSubject u of None \<Rightarrow> True | Some s \<Rightarrow> LooksLikeEmail s)
      then snd (UpdateUserSSOSubject (u_ID u) (id_Subject idn) w) else w)"

definition opt_text :: "string option \<Rightarrow> string" where "opt_text v = (case v of None \<Rightarrow> [] | Some s \<Rightarrow> s)"

definition ResolveUser :: "bool \<Rightarrow> ssoIdentity \<Rightarrow> 'a auth_world_scheme \<Rightarrow> (ssoError + int) \<times> 'a auth_world_scheme" where
  "ResolveUser autoProvision idn w =
     (if id_Email idn = [] then (Inl (LoginError ''sso_no_email''), w)
      else
        (let picture = opt_text (id_Picture idn);
             (found, w2) =
               (case find_identity idn w of
                  (Inl e, w1) \<Rightarrow> (Inl e, w1)
                | (Inr (Some u), w1) \<Rightarrow> (Inr u, heal_subject idn u w1)
                | (Inr None, w1) \<Rightarrow>
                    if \<not> autoProvision then (Inl (LoginError ''sso_no_account''), w1)
                    else (case CreateUser \<lparr>cu_Email = id_Email idn, cu_Name = Some (opt_text (id_Name idn)), cu_AuthType = ''sso'', cu_PasswordHash = None,
                                cu_SSOSubject = Some (id_Subject idn), cu_ProfileImageURL = Some picture, cu_Role = ''pending''\<rparr> w1 of
                            (Inl e, w2) \<Rightarrow> (Inl (ResolveError (''create user: '' @ e)), w2)
                          | (Inr u, w2) \<Rightarrow> (Inr u, w2)))
         in case found of
              Inl e \<Rightarrow> (Inl e, w2)
            | Inr u \<Rightarrow>
                (let w3 = (if picture \<noteq> [] then snd (UpdateUser (u_ID u) (no_user_update\<lparr>uu_ProfileImageURL := Some picture\<rparr>) w2) else w2)
                 in if \<not> u_Active u then (Inl (LoginError ''account_disabled''), w3) else (Inr (u_ID u), w3))))"

end
