(* ===== verification/Auth_Gate.thy ===== *)
theory Auth_Gate
  imports Accounts
begin

text \<open>
  What stands between a request and its handler: the CSRF check (\<^verbatim>\<open>middleware/csrf.go\<close>), the four ways to
  authenticate and the role gates (\<^verbatim>\<open>middleware/auth.go\<close>), and the table of the admin routes
  (\<^verbatim>\<open>main.go\<close>). A middleware takes the handler it wraps as an argument; \<open>serve_admin\<close> is the admin router with
  every handler a parameter, named as in the source. Then what the gates and the account handlers
  together guarantee.
\<close>

section \<open>Authentication\<close>

definition extractBearerToken :: "webRequest \<Rightarrow> string" where
  "extractBearerToken r =
     (let auth = header r ''Authorization'' in
      case str_index CHR '' '' auth of
        None \<Rightarrow> []
      | Some n \<Rightarrow> if lower (take n auth) = ''bearer'' then drop (n + 1) auth else [])"

definition validateLatticeToken :: "auth_env \<Rightarrow> string \<Rightarrow> 'a auth_world_scheme \<Rightarrow> user option \<times> 'a auth_world_scheme" where
  "validateLatticeToken env s w =
     (case ValidateToken env (clock w) s of
        None \<Rightarrow> (None, w)
      | Some c \<Rightarrow>
          if cl_Type c \<noteq> ''access'' then (None, w)
          else (case GetUserByID (cl_UserID c) w of
                  (Inl _, w1) \<Rightarrow> (None, w1)
                | (Inr u, w1) \<Rightarrow> (if \<not> u_Active u \<or> token_revoked u c \<or> u_AuthType u = ''sso'' then None else Some u, w1)))"

definition sessionUser :: "int \<Rightarrow> 'a auth_world_scheme \<Rightarrow> user option \<times> 'a auth_world_scheme" where
  "sessionUser i w =
     (case GetUserByID i w of
        (Inl _, w1) \<Rightarrow> (None, w1)
      | (Inr u, w1) \<Rightarrow> (if u_Active u then Some u else None, w1))"

definition validateApiToken :: "auth_env \<Rightarrow> string \<Rightarrow> 'a auth_world_scheme \<Rightarrow> (user \<times> apiToken) option \<times> 'a auth_world_scheme" where
  "validateApiToken env s w =
     (case GetApiTokenByHash (ae_hash env s) w of
        (Inl _, w1) \<Rightarrow> (None, w1)
      | (Inr t, w1) \<Rightarrow>
          if \<not> at_Active t then (None, w1)
          else (case GetUserByID (at_UserID t) w1 of
                  (Inl _, w2) \<Rightarrow> (None, w2)
                | (Inr u, w2) \<Rightarrow> if u_Active u then (Some (u, t), snd (TouchApiToken (at_ID t) w2)) else (None, w2)))"

datatype credential = BearerJWT | SSOSession | CookieJWT | TokenCredential apiToken

text \<open>One way to authenticate: it admits a user, refuses the request, or leaves it to the next way.\<close>

datatype attempt = Admit user credential | Refuse response | Pass

definition try_bearer :: "auth_env \<Rightarrow> webRequest \<Rightarrow> 'a auth_world_scheme \<Rightarrow> attempt \<times> 'a auth_world_scheme" where
  "try_bearer env r w =
     (let s = extractBearerToken r in
      if s = [] then (Pass, w)
      else case validateLatticeToken env s w of (Some u, w1) \<Rightarrow> (Admit u BearerJWT, w1) | (None, w1) \<Rightarrow> (Pass, w1))"

definition try_session :: "auth_env \<Rightarrow> webRequest \<Rightarrow> 'a auth_world_scheme \<Rightarrow> attempt \<times> 'a auth_world_scheme" where
  "try_session env r w =
     (case cookie r SessionCookie of
        None \<Rightarrow> (Pass, w)
      | Some s \<Rightarrow>
          if s = [] then (Pass, w)
          else (case ae_session env s (clock w) of
                  ProviderUnavailable \<Rightarrow> (Refuse (SendError 503 ''identity provider unavailable, retry shortly'' None), w)
                | SessionOf i \<Rightarrow> (case sessionUser i w of (Some u, w1) \<Rightarrow> (Admit u SSOSession, w1) | (None, w1) \<Rightarrow> (Pass, w1))
                | _ \<Rightarrow> (Pass, w)))"

definition try_cookie :: "auth_env \<Rightarrow> webRequest \<Rightarrow> 'a auth_world_scheme \<Rightarrow> attempt \<times> 'a auth_world_scheme" where
  "try_cookie env r w =
     (case cookie r latticeTokenName of
        None \<Rightarrow> (Pass, w)
      | Some s \<Rightarrow>
          if s = [] then (Pass, w)
          else (case validateLatticeToken env s w of (Some u, w1) \<Rightarrow> (Admit u CookieJWT, w1) | (None, w1) \<Rightarrow> (Pass, w1)))"

definition try_api_token :: "auth_env \<Rightarrow> webRequest \<Rightarrow> 'a auth_world_scheme \<Rightarrow> attempt \<times> 'a auth_world_scheme" where
  "try_api_token env r w =
     (let s = extractBearerToken r in
      if s = [] then (Pass, w)
      else case validateApiToken env s w of
        (None, w1) \<Rightarrow> (Pass, w1)
      | (Some (u, t), w1) \<Rightarrow>
          (if apiTokenScopeAllows (at_Scopes t) (wr_Method r) then Admit u (TokenCredential t)
           else Refuse (SendError 403 ''api token scope does not permit this operation'' None), w1))"

fun first_attempt :: "('w \<Rightarrow> attempt \<times> 'w) list \<Rightarrow> 'w \<Rightarrow> attempt \<times> 'w" where
  "first_attempt [] w = (Refuse (SendError 401 ''authentication required'' None), w)"
| "first_attempt (t # ts) w = (case t w of (Pass, w1) \<Rightarrow> first_attempt ts w1 | (a, w1) \<Rightarrow> (a, w1))"

definition authenticate :: "auth_env \<Rightarrow> webRequest \<Rightarrow> 'a auth_world_scheme \<Rightarrow> attempt \<times> 'a auth_world_scheme" where
  "authenticate env r w = first_attempt [try_bearer env r, try_session env r, try_cookie env r, try_api_token env r] w"

definition withUser :: "user \<Rightarrow> webRequest \<Rightarrow> webRequest" where
  "withUser u r = r\<lparr>wr_Req := (wr_Req r)\<lparr>hr_User := Some u\<rparr>\<rparr>"

type_synonym 'w handler = "webRequest \<Rightarrow> 'w \<Rightarrow> reply \<times> 'w"

definition DualAuthMiddleware :: "auth_env \<Rightarrow> 'a auth_world_scheme handler \<Rightarrow> 'a auth_world_scheme handler" where
  "DualAuthMiddleware env next_h r w =
     (case authenticate env r w of
        (Admit u _, w1) \<Rightarrow> next_h (withUser u r) w1
      | (Refuse resp, w1) \<Rightarrow> ((resp, []), w1)
      | (Pass, w1) \<Rightarrow> ((SendError 401 ''authentication required'' None, []), w1))"

definition RejectPending :: "'w handler \<Rightarrow> 'w handler" where
  "RejectPending next_h r w =
     (if (case hr_User (wr_Req r) of Some u \<Rightarrow> u_Role u = ''pending'' | None \<Rightarrow> False)
      then ((SendErrorWithCode 403 ''your account is pending admin approval'' 4004 None, []), w)
      else next_h r w)"

definition RequireAdmin :: "'w handler \<Rightarrow> 'w handler" where
  "RequireAdmin next_h r w =
     (case hr_User (wr_Req r) of
        None \<Rightarrow> ((SendError 401 ''authentication required'' None, []), w)
      | Some u \<Rightarrow> if u_Role u \<noteq> ''admin'' then ((SendError 403 ''admin access required'' None, []), w) else next_h r w)"

definition RequireEditor :: "'w handler \<Rightarrow> 'w handler" where
  "RequireEditor next_h r w =
     (case hr_User (wr_Req r) of
        None \<Rightarrow> ((SendError 401 ''authentication required'' None, []), w)
      | Some u \<Rightarrow>
          if u_Role u \<noteq> ''admin'' \<and> u_Role u \<noteq> ''editor'' then ((SendError 403 ''editor access required'' None, []), w) else next_h r w)"

text \<open>A worker's credential; the query parameter only counts on a WebSocket upgrade.\<close>

definition WorkerTokenAuth :: "auth_env \<Rightarrow> webRequest \<Rightarrow> 'a auth_world_scheme \<Rightarrow> int option \<times> 'a auth_world_scheme" where
  "WorkerTokenAuth env r w =
     (let h = header r ''X-Worker-Token'';
          token = (if h = [] \<and> lower (header r ''Upgrade'') = ''websocket'' then query_param (wr_Req r) ''token'' else h)
      in if token = [] then (None, w)
         else case GetWorkerTokenByHash (ae_hash env token) w of
           (Inl _, w1) \<Rightarrow> (None, w1)
         | (Inr t, w1) \<Rightarrow> if \<not> wt_Active t then (None, w1) else (Some (wt_WorkerID t), snd (TouchWorkerToken (wt_ID t) w1)))"

section \<open>Cross-site requests\<close>

definition csrf_exempt :: "string \<Rightarrow> bool" where
  "csrf_exempt path \<longleftrightarrow>
     path = ''/auth/login'' \<or> path = ''/auth/refresh'' \<or> path = ''/ws/worker'' \<or> has_prefix path ''/api/deploy/'' \<or>
     has_prefix path ''/api/automations/'' \<or> path = ''/auth/sso/callback'' \<or> path = ''/auth/sso/backchannel-logout''"

definition csrf_error :: "string \<Rightarrow> int \<Rightarrow> response" where
  "csrf_error message code = Failure 403 message code (Some ''csrf_error'')"

definition bearer_only :: "webRequest \<Rightarrow> bool" where
  "bearer_only r \<longleftrightarrow> has_prefix (header r ''Authorization'') ''Bearer '' \<and> cookie r latticeTokenName = None \<and> cookie r SessionCookie = None"

text \<open>What the check decides once the cookie has been seen to.\<close>

definition csrf_check :: "webRequest \<Rightarrow> response option" where
  "csrf_check r =
     (if isSafeMethod (wr_Method r) \<or> bearer_only r \<or> csrf_exempt (hr_Path (wr_Req r)) then None
      else (case cookie r csrfCookieName of
              None \<Rightarrow> Some (csrf_error ''missing CSRF cookie'' 4030)
            | Some c \<Rightarrow>
                if c = [] then Some (csrf_error ''missing CSRF cookie'' 4030)
                else if header r csrfHeaderName = [] \<or> header r csrfHeaderName \<noteq> c then Some (csrf_error ''CSRF token mismatch'' 4031)
                else None))"

definition csrf_cookie :: "auth_env \<Rightarrow> string \<Rightarrow> setCookie" where
  "csrf_cookie env token =
     \<lparr>ck_Name = csrfCookieName, ck_Value = token, ck_Domain = ae_domain env, ck_Expires = None, ck_MaxAge = 0, ck_HttpOnly = False,
      ck_Secure = ae_production env, ck_SameSite = SameSiteStrict\<rparr>"

text \<open>No random bytes is a panic, which the recovery middleware answers.\<close>

definition CSRFMiddleware :: "auth_env \<Rightarrow> 'a api_world_scheme handler \<Rightarrow> 'a api_world_scheme handler" where
  "CSRFMiddleware env next_h r w =
     (let go = (\<lambda>cs w. case csrf_check r of
                  Some resp \<Rightarrow> ((resp, cs), w)
                | None \<Rightarrow> (case next_h r w of ((resp, cs'), w1) \<Rightarrow> ((resp, cs @ cs'), w1)))
      in if cookie r csrfCookieName \<noteq> None then go [] w
         else (case random_hex w of
                 (Inl _, w1) \<Rightarrow> ((Failure 500 ''internal server error'' 1000 None, []), w1)
               | (Inr token, w1) \<Rightarrow> go [csrf_cookie env token] w1))"

section \<open>The admin routes\<close>

datatype gate = AnyRole | NeedsEditor | NeedsAdmin

text \<open>Method, path below \<^verbatim>\<open>/admin\<close>, gate and handler of every route, in the order they are registered.\<close>

definition admin_routes :: "(string \<times> string \<times> gate \<times> string) list" where
  "admin_routes = [
      (''GET'', ''/health'', AnyRole, ''HandleAdminGetHealth''),
      (''GET'', ''/workers'', AnyRole, ''HandleGetWorkers''),
      (''POST'', ''/workers'', NeedsEditor, ''HandleCreateWorker''),
      (''GET'', ''/workers/{id}'', AnyRole, ''HandleGetWorker''),
      (''PUT'', ''/workers/{id}'', NeedsEditor, ''HandleUpdateWorker''),
      (''DELETE'', ''/workers/{id}'', NeedsEditor, ''HandleDeleteWorker''),
      (''GET'', ''/workers/{id}/tokens'', AnyRole, ''HandleGetWorkerTokens''),
      (''POST'', ''/workers/{id}/tokens'', NeedsEditor, ''HandleCreateWorkerToken''),
      (''GET'', ''/workers/{id}/metrics'', AnyRole, ''HandleGetWorkerMetrics''),
      (''GET'', ''/workers/{id}/container-stats'', AnyRole, ''HandleGetWorkerContainerStats''),
      (''POST'', ''/workers/{id}/reboot'', NeedsAdmin, ''HandleRebootWorker''),
      (''POST'', ''/workers/{id}/upgrade'', NeedsAdmin, ''HandleUpgradeRunner''),
      (''POST'', ''/workers/{id}/stop-all'', NeedsEditor, ''HandleStopAllContainers''),
      (''POST'', ''/workers/{id}/start-all'', NeedsEditor, ''HandleStartAllContainers''),
      (''POST'', ''/workers/{id}/force-remove'', NeedsEditor, ''HandleForceRemoveContainer''),
      (''GET'', ''/workers/{id}/volumes'', AnyRole, ''HandleListVolumes''),
      (''POST'', ''/workers/{id}/volumes'', NeedsEditor, ''HandleCreateVolume''),
      (''DELETE'', ''/workers/{id}/volumes/{name}'', NeedsEditor, ''HandleDeleteVolume''),
      (''GET'', ''/workers/{id}/networks'', AnyRole, ''HandleListNetworks''),
      (''POST'', ''/workers/{id}/networks'', NeedsEditor, ''HandleCreateNetwork''),
      (''DELETE'', ''/workers/{id}/networks/{name}'', NeedsEditor, ''HandleDeleteNetwork''),
      (''DELETE'', ''/worker-tokens/{id}'', NeedsEditor, ''HandleDeleteWorkerToken''),
      (''GET'', ''/api-tokens'', AnyRole, ''HandleListApiTokens''),
      (''POST'', ''/api-tokens'', NeedsEditor, ''HandleCreateApiToken''),
      (''DELETE'', ''/api-tokens/{id}'', NeedsEditor, ''HandleDeleteApiToken''),
      (''GET'', ''/networks'', AnyRole, ''HandleListAllNetworks''),
      (''DELETE'', ''/networks/{id}'', NeedsEditor, ''HandleDeleteNetworkByID''),
      (''GET'', ''/stacks'', AnyRole, ''HandleGetStacks''),
      (''POST'', ''/stacks'', NeedsEditor, ''HandleCreateStack''),
      (''POST'', ''/stacks/import'', NeedsEditor, ''HandleImportCompose''),
      (''GET'', ''/stacks/{id}'', AnyRole, ''HandleGetStack''),
      (''PUT'', ''/stacks/{id}'', NeedsEditor, ''HandleUpdateStack''),
      (''DELETE'', ''/stacks/{id}'', NeedsEditor, ''HandleDeleteStack''),
      (''PUT'', ''/stacks/{id}/compose'', NeedsEditor, ''HandleUpdateCompose''),
      (''POST'', ''/stacks/{id}/sync-compose'', NeedsEditor, ''HandleSyncCompose''),
      (''POST'', ''/stacks/{id}/deploy'', NeedsEditor, ''HandleDeployStack''),
      (''POST'', ''/stacks/{id}/restart-all'', NeedsEditor, ''HandleRestartStack''),
      (''POST'', ''/stacks/{id}/stop-all'', NeedsEditor, ''HandleStopStack''),
      (''POST'', ''/stacks/{id}/start-all'', NeedsEditor, ''HandleStartStack''),
      (''GET'', ''/stacks/{id}/export'', NeedsEditor, ''HandleExportStack''),
      (''POST'', ''/stacks/import-export'', NeedsEditor, ''HandleImportStackExport''),
      (''GET'', ''/stacks/{id}/deploy-tokens'', AnyRole, ''HandleListDeployTokens''),
      (''POST'', ''/stacks/{id}/deploy-tokens'', NeedsAdmin, ''HandleCreateDeployToken''),
      (''DELETE'', ''/deploy-tokens/{id}'', NeedsAdmin, ''HandleDeleteDeployToken''),
      (''GET'', ''/automations'', AnyRole, ''HandleListAutomations''),
      (''POST'', ''/automations'', NeedsEditor, ''HandleCreateAutomation''),
      (''GET'', ''/automations/{id}'', AnyRole, ''HandleGetAutomation''),
      (''PUT'', ''/automations/{id}'', NeedsEditor, ''HandleUpdateAutomation''),
      (''DELETE'', ''/automations/{id}'', NeedsEditor, ''HandleDeleteAutomation''),
      (''POST'', ''/automations/{id}/enable'', NeedsEditor, ''HandleEnableAutomation''),
      (''POST'', ''/automations/{id}/disable'', NeedsEditor, ''HandleDisableAutomation''),
      (''POST'', ''/automations/{id}/run'', NeedsEditor, ''HandleRunAutomation''),
      (''POST'', ''/automations/{id}/rotate-token'', NeedsEditor, ''HandleRotateAutomationToken''),
      (''GET'', ''/automations/{id}/runs'', AnyRole, ''HandleListAutomationRuns''),
      (''GET'', ''/containers'', AnyRole, ''HandleListAllContainers''),
      (''GET'', ''/stacks/{id}/containers'', AnyRole, ''HandleGetContainers''),
      (''POST'', ''/stacks/{id}/containers'', NeedsEditor, ''HandleCreateContainer''),
      (''GET'', ''/containers/{id}'', AnyRole, ''HandleGetContainer''),
      (''PUT'', ''/containers/{id}'', NeedsEditor, ''HandleUpdateContainer''),
      (''DELETE'', ''/containers/{id}'', NeedsEditor, ''HandleDeleteContainer''),
      (''GET'', ''/containers/{id}/logs'', AnyRole, ''HandleGetContainerLogs''),
      (''GET'', ''/containers/{id}/lifecycle'', AnyRole, ''HandleGetLifecycleLogs''),
      (''GET'', ''/containers/{id}/metrics'', AnyRole, ''HandleGetContainerMetrics''),
      (''POST'', ''/containers/{id}/start'', NeedsEditor, ''HandleStartContainer''),
      (''POST'', ''/containers/{id}/stop'', NeedsEditor, ''HandleStopContainer''),
      (''POST'', ''/containers/{id}/kill'', NeedsEditor, ''HandleKillContainer''),
      (''POST'', ''/containers/{id}/restart'', NeedsEditor, ''HandleRestartContainer''),
      (''POST'', ''/containers/{id}/pause'', NeedsEditor, ''HandlePauseContainer''),
      (''POST'', ''/containers/{id}/unpause'', NeedsEditor, ''HandleUnpauseContainer''),
      (''POST'', ''/containers/{id}/remove'', NeedsEditor, ''HandleRemoveContainer''),
      (''POST'', ''/containers/{id}/recreate'', NeedsEditor, ''HandleRecreateContainer''),
      (''GET'', ''/deployments'', AnyRole, ''HandleGetDeployments''),
      (''GET'', ''/deployments/{id}'', AnyRole, ''HandleGetDeployment''),
      (''GET'', ''/deployments/{id}/logs'', AnyRole, ''HandleGetDeploymentLogs''),
      (''POST'', ''/deployments/{id}/approve'', NeedsEditor, ''HandleApproveDeployment''),
      (''POST'', ''/deployments/{id}/rollback'', NeedsEditor, ''HandleRollbackDeployment''),
      (''GET'', ''/registries'', AnyRole, ''HandleGetRegistries''),
      (''POST'', ''/registries'', NeedsEditor, ''HandleCreateRegistry''),
      (''POST'', ''/registries/test'', NeedsEditor, ''HandleTestRegistryInline''),
      (''PUT'', ''/registries/{id}'', NeedsEditor, ''HandleUpdateRegistry''),
      (''DELETE'', ''/registries/{id}'', NeedsEditor, ''HandleDeleteRegistry''),
      (''POST'', ''/registries/{id}/test'', NeedsEditor, ''HandleTestRegistry''),
      (''GET'', ''/registries/{id}/repositories'', AnyRole, ''HandleListRegistryRepos''),
      (''GET'', ''/registries/{id}/tags'', AnyRole, ''HandleListRegistryTags''),
      (''GET'', ''/database-instances'', AnyRole, ''HandleListDatabaseInstances''),
      (''POST'', ''/database-instances'', NeedsEditor, ''HandleCreateDatabaseInstance''),
      (''GET'', ''/database-instances/{id}'', AnyRole, ''HandleGetDatabaseInstance''),
      (''PUT'', ''/database-instances/{id}'', NeedsEditor, ''HandleUpdateDatabaseInstance''),
      (''DELETE'', ''/database-instances/{id}'', NeedsEditor, ''HandleDeleteDatabaseInstance''),
      (''POST'', ''/database-instances/{id}/start'', NeedsEditor, ''HandleDatabaseAction''),
      (''POST'', ''/database-instances/{id}/stop'', NeedsEditor, ''HandleDatabaseAction''),
      (''POST'', ''/database-instances/{id}/restart'', NeedsEditor, ''HandleDatabaseAction''),
      (''POST'', ''/database-instances/{id}/remove'', NeedsEditor, ''HandleDatabaseAction''),
      (''GET'', ''/database-instances/{id}/credentials'', NeedsAdmin, ''HandleGetDatabaseCredentials''),
      (''GET'', ''/database-instances/{id}/connection'', AnyRole, ''HandleGetDatabaseConnection''),
      (''POST'', ''/database-instances/{id}/reveal'', NeedsAdmin, ''HandleRevealDatabaseCredentials''),
      (''GET'', ''/database-instances/{id}/events'', AnyRole, ''HandleListDatabaseInstanceEvents''),
      (''GET'', ''/database-instances/{id}/logs'', AnyRole, ''HandleGetDatabaseInstanceLogs''),
      (''GET'', ''/database-instances/{id}/lifecycle'', AnyRole, ''HandleGetDatabaseInstanceLifecycle''),
      (''GET'', ''/database-instances/{id}/metrics'', AnyRole, ''HandleGetDatabaseInstanceMetrics''),
      (''GET'', ''/database-instances/{id}/runs'', AnyRole, ''HandleGetDatabaseInstanceRuns''),
      (''GET'', ''/database-instances/{id}/backup-posture'', AnyRole, ''HandleGetDatabaseBackupPosture''),
      (''POST'', ''/database-instances/{id}/console'', NeedsEditor, ''HandleOpenDatabaseConsole''),
      (''GET'', ''/database-instances/{id}/snapshots'', AnyRole, ''HandleListSnapshots''),
      (''POST'', ''/database-instances/{id}/snapshots'', NeedsEditor, ''HandleCreateSnapshot''),
      (''POST'', ''/database-instances/{id}/restore'', NeedsEditor, ''HandleRestoreSnapshot''),
      (''DELETE'', ''/database-snapshots/{id}'', NeedsEditor, ''HandleDeleteSnapshot''),
      (''GET'', ''/workers/{id}/port-availability'', AnyRole, ''HandleGetWorkerPortAvailability''),
      (''GET'', ''/backup-destinations'', AnyRole, ''HandleListBackupDestinations''),
      (''POST'', ''/backup-destinations'', NeedsEditor, ''HandleCreateBackupDestination''),
      (''GET'', ''/backup-destinations/{id}'', AnyRole, ''HandleGetBackupDestination''),
      (''PUT'', ''/backup-destinations/{id}'', NeedsEditor, ''HandleUpdateBackupDestination''),
      (''DELETE'', ''/backup-destinations/{id}'', NeedsEditor, ''HandleDeleteBackupDestination''),
      (''POST'', ''/backup-destinations/{id}/test'', NeedsEditor, ''HandleTestBackupDestination''),
      (''GET'', ''/users'', NeedsAdmin, ''HandleGetUsers''),
      (''POST'', ''/users'', NeedsAdmin, ''HandleCreateUser''),
      (''PUT'', ''/users/{id}'', NeedsAdmin, ''HandleUpdateUser''),
      (''DELETE'', ''/users/{id}'', NeedsAdmin, ''HandleDeleteUser''),
      (''GET'', ''/webhooks'', NeedsAdmin, ''HandleListWebhooks''),
      (''POST'', ''/webhooks'', NeedsAdmin, ''HandleCreateWebhook''),
      (''PUT'', ''/webhooks/{id}'', NeedsAdmin, ''HandleUpdateWebhook''),
      (''DELETE'', ''/webhooks/{id}'', NeedsAdmin, ''HandleDeleteWebhook''),
      (''POST'', ''/webhooks/{id}/test'', NeedsAdmin, ''HandleTestWebhook''),
      (''GET'', ''/env-vars'', AnyRole, ''HandleListGlobalEnvVars''),
      (''POST'', ''/env-vars'', NeedsAdmin, ''HandleCreateGlobalEnvVar''),
      (''PUT'', ''/env-vars/{id}'', NeedsAdmin, ''HandleUpdateGlobalEnvVar''),
      (''DELETE'', ''/env-vars/{id}'', NeedsAdmin, ''HandleDeleteGlobalEnvVar''),
      (''GET'', ''/templates'', AnyRole, ''HandleListTemplates''),
      (''POST'', ''/templates'', NeedsEditor, ''HandleCreateTemplate''),
      (''DELETE'', ''/templates/{id}'', NeedsEditor, ''HandleDeleteTemplate''),
      (''POST'', ''/stacks/{id}/save-template'', NeedsEditor, ''HandleCreateTemplateFromStack''),
      (''GET'', ''/audit-log'', NeedsAdmin, ''HandleGetAuditLog''),
      (''GET'', ''/sso-config'', NeedsAdmin, ''HandleGetSSOConfig''),
      (''PUT'', ''/sso-config'', NeedsAdmin, ''HandleUpdateSSOConfig''),
      (''GET'', ''/smtp-config'', NeedsAdmin, ''HandleGetSMTPConfig''),
      (''PUT'', ''/smtp-config'', NeedsAdmin, ''HandleUpdateSMTPConfig''),
      (''POST'', ''/smtp-config/test'', NeedsAdmin, ''HandleTestSMTP''),
      (''GET'', ''/notification-prefs'', NeedsAdmin, ''HandleGetNotificationPrefs''),
      (''PUT'', ''/notification-prefs'', NeedsAdmin, ''HandleUpdateNotificationPrefs''),
      (''GET'', ''/search'', AnyRole, ''HandleSearch''),
      (''GET'', ''/overview'', AnyRole, ''HandleGetOverview''),
      (''GET'', ''/fleet-metrics'', AnyRole, ''HandleGetFleetMetrics''),
      (''GET'', ''/anomalies'', AnyRole, ''HandleGetAnomalies''),
      (''GET'', ''/versions'', AnyRole, ''HandleGetVersions''),
      (''POST'', ''/versions/refresh'', NeedsAdmin, ''HandleRefreshVersions''),
      (''POST'', ''/update/api'', NeedsAdmin, ''HandleUpdateAPI''),
      (''POST'', ''/update/web'', NeedsAdmin, ''HandleUpdateWeb'')]"

text \<open>A template segment in braces matches any one segment that is not empty.\<close>

fun match_segments :: "string list \<Rightarrow> string list \<Rightarrow> (string \<times> string) list option" where
  "match_segments [] [] = Some []"
| "match_segments (t # ts) (s # ss) =
     (if take 1 t = ''{'' then (if s = [] then None else map_option (Cons (butlast (tl t), s)) (match_segments ts ss))
      else if t = s then match_segments ts ss else None)"
| "match_segments _ _ = None"

definition match_path :: "string \<Rightarrow> string \<Rightarrow> (string \<times> string) list option" where
  "match_path template path = match_segments (split_on CHR ''/'' (''/admin'' @ template)) (split_on CHR ''/'' path)"

datatype routed = Routed gate string "(string \<times> string) list" | WrongMethod | Unrouted

fun find_route :: "(string \<times> string \<times> gate \<times> string) list \<Rightarrow> string \<Rightarrow> string \<Rightarrow> routed" where
  "find_route [] meth path = Unrouted"
| "find_route ((m, template, g, h) # rs) meth path =
     (case match_path template path of
        None \<Rightarrow> find_route rs meth path
      | Some vars \<Rightarrow>
          if m = meth then Routed g h vars
          else (case find_route rs meth path of Unrouted \<Rightarrow> WrongMethod | x \<Rightarrow> x))"

definition gated :: "gate \<Rightarrow> 'w handler \<Rightarrow> 'w handler" where
  "gated g next_h = (case g of AnyRole \<Rightarrow> next_h | NeedsEditor \<Rightarrow> RequireEditor next_h | NeedsAdmin \<Rightarrow> RequireAdmin next_h)"

text \<open>A request below \<^verbatim>\<open>/admin\<close>; the handlers are a parameter.\<close>

definition serve_admin :: "auth_env \<Rightarrow> (string \<Rightarrow> 'a auth_world_scheme handler) \<Rightarrow> 'a auth_world_scheme handler" where
  "serve_admin env handlers =
     CSRFMiddleware env (\<lambda>r w.
       case find_route admin_routes (wr_Method r) (hr_Path (wr_Req r)) of
         Unrouted \<Rightarrow> ((SendError 404 ''route not found'' None, []), w)
       | WrongMethod \<Rightarrow> ((SendError 405 ''method not allowed'' None, []), w)
       | Routed g h vars \<Rightarrow>
           DualAuthMiddleware env (RejectPending (gated g (handlers h))) (r\<lparr>wr_Req := (wr_Req r)\<lparr>hr_Vars := vars\<rparr>\<rparr>) w)"

section \<open>The other routes of accounts\<close>

text \<open>The handlers of users and tokens, under the names the table gives them; the rest answers 404 here.\<close>

definition plain :: "(httpRequest \<Rightarrow> 'w \<Rightarrow> response \<times> 'w) \<Rightarrow> 'w handler" where
  "plain f r w = (case f (wr_Req r) w of (resp, w1) \<Rightarrow> ((resp, []), w1))"

definition account_handlers :: "auth_env \<Rightarrow> string \<Rightarrow> 'a auth_world_scheme handler" where
  "account_handlers env h =
     (if h = ''HandleGetUsers'' then plain HandleGetUsers
      else if h = ''HandleCreateUser'' then plain (HandleCreateUser env)
      else if h = ''HandleUpdateUser'' then plain HandleUpdateUser
      else if h = ''HandleDeleteUser'' then plain HandleDeleteUser
      else if h = ''HandleListApiTokens'' then plain HandleListApiTokens
      else if h = ''HandleCreateApiToken'' then plain (HandleCreateApiToken env)
      else if h = ''HandleDeleteApiToken'' then plain HandleDeleteApiToken
      else if h = ''HandleGetWorkerTokens'' then plain HandleGetWorkerTokens
      else if h = ''HandleCreateWorkerToken'' then plain (HandleCreateWorkerToken env)
      else if h = ''HandleDeleteWorkerToken'' then plain HandleDeleteWorkerToken
      else if h = ''HandleListDeployTokens'' then plain HandleListDeployTokens
      else if h = ''HandleCreateDeployToken'' then plain (HandleCreateDeployToken env)
      else if h = ''HandleDeleteDeployToken'' then plain HandleDeleteDeployToken
      else (\<lambda>r w. ((NotFound, []), w)))"

text \<open>The routes below \<^verbatim>\<open>/auth\<close> that are not the session manager's.\<close>

definition serve_auth :: "auth_env \<Rightarrow> 'a auth_world_scheme handler" where
  "serve_auth env =
     CSRFMiddleware env (\<lambda>r w.
       (let path = hr_Path (wr_Req r); meth = wr_Method r in
        if path = ''/auth/login'' then (if meth = ''POST'' then HandleLocalLogin env r w else ((SendError 405 ''method not allowed'' None, []), w))
        else if path = ''/auth/refresh'' then (if meth = ''POST'' then HandleAuthRefresh env r w else ((SendError 405 ''method not allowed'' None, []), w))
        else if path = ''/auth/self''
        then (if meth = ''GET'' then DualAuthMiddleware env (\<lambda>r w. ((HandleAuthSelf (wr_Req r), []), w)) r w
              else if meth = ''PUT'' then DualAuthMiddleware env (plain (HandleUpdateSelf env)) r w
              else ((SendError 405 ''method not allowed'' None, []), w))
        else if path = ''/auth/logout'' then (if meth = ''POST'' then DualAuthMiddleware env (HandleLogout env) r w else ((SendError 405 ''method not allowed'' None, []), w))
        else ((SendError 404 ''route not found'' None, []), w)))"

end
