(* ===== verification/Deploy_Invariants.thy ===== *)
theory Deploy_Invariants
  imports Deploy_Router
begin

text \<open>
  The steps of the deploy side of the control plane as one transition function, and what every one
  of them keeps. The locale \<open>deploy_invariant\<close> lists the writes the handlers make to the tables as
  laws; every handler and every run keeps what obeys them. Two instances: a settled deployment stays
  settled, and a container's status is always one of the known ones.
\<close>

section \<open>Steps\<close>

record deploy_env =
  de_trunc :: "string \<Rightarrow> int"
  de_hash :: "string \<Rightarrow> string"
  de_float :: "string \<Rightarrow> string"
  de_services :: "string \<Rightarrow> (string \<times> string) list option"

datatype ops_op =
    OpsProgress "(string \<times> json) list"
  | OpsStatus "(string \<times> json) list"
  | OpsContainerStatus int "(string \<times> json) list"
  | OpsHealth "(string \<times> json) list"
  | OpsSync "(string \<times> json) list"
  | OpsLifecycle int "(string \<times> json) list"
  | OpsTick nat
  | OpsExpire nat
  | OpsDeploy httpRequest
  | OpsPublicDeploy httpRequest
  | OpsRollback httpRequest
  | OpsApprove httpRequest
  | OpsDelete httpRequest
  | OpsWait nat

fun ops_step :: "deploy_env \<Rightarrow> ops_op \<Rightarrow> 'a ops_world_scheme \<Rightarrow> 'a ops_world_scheme" where
  "ops_step e (OpsProgress p) w = handleDeploymentProgress (de_trunc e) p w"
| "ops_step e (OpsStatus p) w = handleDeploymentStatus (de_trunc e) p w"
| "ops_step e (OpsContainerStatus i p) w = snd (handleContainerStatus i p w)"
| "ops_step e (OpsHealth p) w = handleContainerHealthStatus p w"
| "ops_step e (OpsSync p) w = handleContainerSync p w"
| "ops_step e (OpsLifecycle i p) w = handleLifecycleLog i p w"
| "ops_step e (OpsTick k) w = tick_monitor k w"
| "ops_step e (OpsExpire k) w = expire_monitor k w"
| "ops_step e (OpsDeploy r) w = snd (HandleDeployStack (de_float e) (de_services e) r w)"
| "ops_step e (OpsPublicDeploy r) w = snd (HandlePublicDeploy (de_hash e) (de_float e) (de_services e) r w)"
| "ops_step e (OpsRollback r) w = snd (HandleRollbackDeployment (de_float e) (de_services e) r w)"
| "ops_step e (OpsApprove r) w = snd (HandleApproveDeployment r w)"
| "ops_step e (OpsDelete r) w = snd (HandleDeleteStack r w)"
| "ops_step e (OpsWait dt) w = w\<lparr>clock := clock w + int dt\<rparr>"

section \<open>What every step keeps\<close>

text \<open>A container update the handlers make: it leaves the status alone or writes a known one.\<close>

definition known_status_request :: "updateContainerRequest \<Rightarrow> bool" where
  "known_status_request req \<longleftrightarrow> (case uc_Status req of None \<Rightarrow> True | Some s \<Rightarrow> ContainerStatus_IsValid s)"

lemma kept_by_set_opt: "(\<And>v x. g (f v x) = g x) \<Longrightarrow> g (set_opt o1 f y) = g y"
  by (simp add: set_opt_def split: option.split)

lemma kept_by_set_or_clear: "(\<And>v x. g (f v x) = g x) \<Longrightarrow> g (set_or_clear o1 b f y) = g y"
  by (simp add: set_or_clear_def split: option.split)

lemma set_opt_None: "set_opt None f x = x"
  by (simp add: set_opt_def)

lemma stack_sets_ID [simp]: "st_ID (stack_sets req x) = st_ID x"
  by (simp add: stack_sets_def set_stack_status_def kept_by_set_opt [of st_ID])

lemma stack_sets_Active: "us_Active req = None \<Longrightarrow> st_Active (stack_sets req x) = st_Active x"
  by (simp add: stack_sets_def set_opt_None set_stack_status_def kept_by_set_opt [of st_Active])

lemma claim_stack_ID [simp]:
  "st_ID (snd (claim_stack u cutoff now x)) = st_ID x" "st_Active (snd (claim_stack u cutoff now x)) = st_Active x"
  by (simp_all add: claim_stack_def)

lemma us_Active_none [simp]: "us_Active no_stack_update = None"
  by (simp add: no_stack_update_def)

named_theorems kept \<open>calls that keep what obeys the laws of the writes\<close>

lemma uc_Status_none [simp]: "uc_Status no_container_update = None"
  by (simp add: no_container_update_def)

lemma sync_request_known: "ContainerStatus_IsValid status \<Longrightarrow> known_status_request (sync_request status p now c)"
  by (simp add: sync_request_def known_status_request_def)

lemma action_status_known: "action_status a = Some s \<Longrightarrow> ContainerStatus_IsValid s"
  by (auto simp: action_status_def ContainerStatus_IsValid_def split: if_splits)

locale deploy_writes =
  fixes P :: "'a ops_world_scheme \<Rightarrow> bool"
  assumes db: "P w \<Longrightarrow> (db_script w = [] \<Longrightarrow> sc = []) \<Longrightarrow> P (w\<lparr>clock := c, db_script := sc\<rparr>)"
    and undo: "P began \<Longrightarrow> P w \<Longrightarrow> P (began\<lparr>clock := clock w, db_script := db_script w\<rparr>)"
    and hub: "P w \<Longrightarrow> P (w\<lparr>hub := h, picks := p\<rparr>)"
    and dep_logs: "P w \<Longrightarrow> P (w\<lparr>w_deployment_logs := ls, w_next_dl := n\<rparr>)"
    and dep_containers: "P w \<Longrightarrow> P (w\<lparr>w_dcs := ds, w_next_dc := n\<rparr>)"
    and tokens: "P w \<Longrightarrow> P (w\<lparr>w_deploy_tokens := ts\<rparr>)"
    and cache: "P w \<Longrightarrow> P (w\<lparr>name_cache := nc\<rparr>)"
    and audits: "P w \<Longrightarrow> P (w\<lparr>a_audits := as\<rparr>)"
    and notices: "P w \<Longrightarrow> P (w\<lparr>s_notices := ns\<rparr>)"
    and lifecycle: "P w \<Longrightarrow> P (w\<lparr>o_lifecycle := lf, o_next_lifecycle := n\<rparr>)"
    and statuses: "P w \<Longrightarrow> P (w\<lparr>o_runnerStatuses := rs\<rparr>)"
    and monitors: "P w \<Longrightarrow> P (w\<lparr>o_monitors := ms\<rparr>)"
    and stack_rows: "P w \<Longrightarrow> (\<And>x. st_ID (f x) = st_ID x \<and> st_Active (f x) = st_Active x) \<Longrightarrow> P (w\<lparr>stacks := update_where q f (stacks w)\<rparr>)"
    and container_update: "P w \<Longrightarrow> known_status_request req \<Longrightarrow>
          P (w\<lparr>containers := update_where (\<lambda>x. c_ID x = i) (container_sets req) (containers w)\<rparr>)"
    and dep_insert: "P w \<Longrightarrow> dep_ID d = w_next_deployment w \<Longrightarrow>
          P (w\<lparr>w_deployments := w_deployments w @ [d], w_next_deployment := w_next_deployment w + 1\<rparr>)"
    and dep_settle: "P w \<Longrightarrow> isTerminalDeploymentStatus s \<Longrightarrow>
          P (w\<lparr>w_deployments := update_where (\<lambda>x. dep_ID x = i) (set_deployment_status s now) (w_deployments w)\<rparr>)"
    and dep_advance: "P w \<Longrightarrow> List.find (\<lambda>x. dep_ID x = i) (w_deployments w) = Some d \<Longrightarrow> \<not> isTerminalDeploymentStatus (dep_Status d) \<Longrightarrow>
          P (w\<lparr>w_deployments := update_where (\<lambda>x. dep_ID x = i) (set_deployment_status s now) (w_deployments w)\<rparr>)"
    and dep_approve: "P w \<Longrightarrow> P (w\<lparr>w_deployments := update_where (\<lambda>x. dep_ID x = i \<and> dep_Status x = ''pending'')
          (\<lambda>x. x\<lparr>dep_Status := ''approved'', dep_ApprovedBy := by_user\<rparr>) (w_deployments w)\<rparr>)"
begin

lemma kept_exec_at:
  assumes "P w" "\<And>c sc. P (w\<lparr>clock := c, db_script := sc\<rparr>) \<Longrightarrow> P (snd (f (w\<lparr>clock := c, db_script := sc\<rparr>)))"
  shows "P (snd (exec f w))"
proof (cases "db_script w")
  case Nil
  have "w\<lparr>clock := clock w, db_script := db_script w\<rparr> = w" by simp
  then have "P (snd (f w))" using assms(2) [where c = "clock w" and sc = "db_script w"] assms(1) by metis
  then show ?thesis using Nil by (simp add: exec_def)
next
  case (Cons x rest)
  have "P (w\<lparr>clock := c, db_script := rest\<rparr>)" for c using db [OF assms(1)] Cons by simp
  then show ?thesis using assms(2) Cons by (cases x) (auto simp: exec_def Let_def split: stmt_outcome.split)
qed

lemma kept_exec: "P w \<Longrightarrow> (\<And>w. P w \<Longrightarrow> P (snd (f w))) \<Longrightarrow> P (snd (exec f w))"
  by (rule kept_exec_at)

lemma kept_execD: "exec f w = (r, w1) \<Longrightarrow> P w \<Longrightarrow> (\<And>w. P w \<Longrightarrow> P (snd (f w))) \<Longrightarrow> P w1"
  using kept_exec [of w f] by simp

lemma kept_query [kept]: "P w \<Longrightarrow> P (snd (query q w))"
  unfolding query_def by (rule kept_exec) simp_all

lemma kept_exec_unit: "P w \<Longrightarrow> (\<And>w. P w \<Longrightarrow> P (f w)) \<Longrightarrow> P (snd (exec_unit f w))"
  unfolding snd_exec_unit by (rule kept_exec) simp_all

lemma kept_send [kept]: "P w \<Longrightarrow> P (snd (SendJSONToWorker i m w))"
  by (simp add: SendJSONToWorker_def Let_def case_prod_beta hub)

lemma kept_one_row [kept]: "P w \<Longrightarrow> P (snd (one_row pre q w))"
  using kept_query [of w q] by (auto simp: one_row_def split: prod.splits sum.splits option.splits)

lemma keptD: "P (snd x) \<Longrightarrow> x = (r, w1) \<Longrightarrow> P w1"
  by simp

lemmas kept_statementD = kept_query [THEN keptD] kept_one_row [THEN keptD] kept_send [THEN keptD]

lemma kept_reads [kept]:
  assumes "P w"
  shows "P (snd (GetStackByID i w))" "P (snd (ListContainersByStack i w))" "P (snd (GetWorkerByID i w))" "P (snd (GetDeploymentByID i w))"
    "P (snd (GetContainerByID i w))" "P (snd (GetLatestDeploymentLog i w))" "P (snd (ListDeploymentContainers i w))"
    "P (snd (GetPreviousDeployment i j w))" "P (snd (ListNetworksByStack i w))" "P (snd (ListVolumesByStack i w))"
    "P (snd (ListGlobalEnvVars w))" "P (snd (GetDeployTokenByHash h w))" "P (snd (GetContainerByName n w))"
  using assms
  by (auto simp: GetStackByID_def ListContainersByStack_def GetWorkerByID_def GetDeploymentByID_def GetContainerByID_def GetLatestDeploymentLog_def
      ListDeploymentContainers_def GetPreviousDeployment_def ListNetworksByStack_def ListVolumesByStack_def ListGlobalEnvVars_def
      GetDeployTokenByHash_def GetContainerByName_def kept_one_row kept_query
      split: prod.split sum.split option.split list.split dest: kept_statementD)

lemmas kept_readD = kept_reads [THEN keptD]

lemma kept_UpdateStack [kept]: "P w \<Longrightarrow> us_Active req = None \<Longrightarrow> P (snd (UpdateStack i req w))"
  using kept_exec_unit [of w "\<lambda>w. w\<lparr>stacks := update_where (\<lambda>s. st_ID s = i) (stack_sets req) (stacks w)\<rparr>"]
  by (auto simp: UpdateStack_def stack_rows stack_sets_Active kept_reads split: prod.split option.split)

lemma kept_UpdateContainer [kept]: "P w \<Longrightarrow> known_status_request req \<Longrightarrow> P (snd (UpdateContainer i req w))"
  using kept_exec_unit [of w "\<lambda>w. w\<lparr>containers := update_where (\<lambda>c. c_ID c = i) (container_sets req) (containers w)\<rparr>"]
  by (auto simp: UpdateContainer_def container_update kept_reads split: prod.split option.split)

lemma kept_claim [kept]: "P w \<Longrightarrow> P (snd (ClaimStackForDeploy i w))"
  unfolding ClaimStackForDeploy_def
  by (auto split: prod.split sum.split elim!: kept_execD intro!: stack_rows simp: Let_def)

lemma kept_releaseStackClaim [kept]: "P w \<Longrightarrow> P (releaseStackClaim i w)"
  by (simp add: releaseStackClaim_def kept_UpdateStack)

lemma kept_log [kept]: "P w \<Longrightarrow> P (snd (CreateDeploymentLog r w))"
  unfolding CreateDeploymentLog_def Let_def by (rule kept_exec_unit) (auto intro: dep_logs)

lemma kept_writeDeploymentLog [kept]: "P w \<Longrightarrow> P (writeDeploymentLog i level m w)"
  by (simp add: writeDeploymentLog_def kept_log)

lemma kept_emit [kept]: "P w \<Longrightarrow> P (emit out w)"
  by (simp add: emit_def notices)

lemma kept_Notify [kept]: "P w \<Longrightarrow> P (Notify ev subject body w)"
  by (auto simp: Notify_def GetEventConfig_def LoadPreferences_def kept_emit split: prod.split sum.split dest: kept_statementD)

lemma kept_audit [kept]: "P w \<Longrightarrow> P (logAudit r a t i d w)"
  by (simp add: logAudit_def audits)

lemma kept_forget [kept]: "P w \<Longrightarrow> P (forgetRunnerDeploymentStatus i w)"
  by (simp add: forgetRunnerDeploymentStatus_def statuses)

section \<open>Transactions\<close>

lemma kept_rollback [kept]: "P began \<Longrightarrow> P w \<Longrightarrow> P (rollback began w)"
  by (simp add: rollback_def undo)

lemma kept_begin [kept]: "P w \<Longrightarrow> P (snd (begin_tx w))"
  unfolding begin_tx_def by (rule kept_exec_unit)

lemma kept_commit [kept]: "P began \<Longrightarrow> P w \<Longrightarrow> P (snd (commit began w))"
  unfolding commit_def by (rule kept_exec_unit) (auto intro: undo kept_rollback)

lemma kept_in_tx:
  assumes "P w" "\<And>w. P w \<Longrightarrow> P (snd (body w))"
  shows "P (snd (in_tx body w))"
proof -
  obtain e w1 where b: "begin_tx w = (e, w1)" by force
  obtain r w2 where bd: "body w1 = (r, w2)" by force
  have w1: "P w1" using kept_begin [OF assms(1)] b by simp
  then have w2: "P w2" using assms(2) [of w1] bd by simp
  show ?thesis
    using w1 kept_commit [OF w1 w2] kept_rollback [OF w1 w2] b bd
    by (auto simp: in_tx_def split: prod.split option.split sum.split dest: keptD)
qed

section \<open>Deployments\<close>

lemma kept_UpdateDeploymentStatus [kept]: "P w \<Longrightarrow> isTerminalDeploymentStatus s \<Longrightarrow> P (snd (UpdateDeploymentStatus i s w))"
  unfolding UpdateDeploymentStatus_def Let_def by (rule kept_exec_unit) (auto intro: dep_settle)

lemma kept_UpdateDeploymentAndStackStatus [kept]:
  "P w \<Longrightarrow> isTerminalDeploymentStatus s \<Longrightarrow> P (snd (UpdateDeploymentAndStackStatus i s j t w))"
  using kept_UpdateDeploymentStatus [of w s i]
  by (auto simp: UpdateDeploymentAndStackStatus_def split: prod.split option.split sum.split dest!: kept_UpdateStack [THEN keptD, rotated -1])

lemma kept_insert_row:
  assumes "P w" "exec (\<lambda>w. (w_next_deployment w, w\<lparr>w_deployments := w_deployments w @ [d w], w_next_deployment := w_next_deployment w + 1\<rparr>)) w = (r, w1)"
    and "\<And>w. dep_ID (d w) = w_next_deployment w"
  shows "P w1"
  using assms(2,1) by (rule kept_execD) (simp add: dep_insert assms(3))

lemma kept_CreateDeployment [kept]: "P w \<Longrightarrow> P (snd (CreateDeployment i strategy u w))"
  unfolding CreateDeployment_def
  by (auto split: prod.split sum.split intro!: kept_reads(4) elim!: kept_insert_row)

lemma kept_CreateDeploymentContainer [kept]: "P w \<Longrightarrow> P (snd (CreateDeploymentContainer i c img tag w))"
  unfolding CreateDeploymentContainer_def
  by (auto split: prod.split sum.split option.split dest!: kept_query [THEN keptD, rotated] elim!: kept_execD intro: dep_containers)

lemma kept_record_containers [kept]: "P w \<Longrightarrow> P (snd (record_containers i cs w))"
  by (induction i cs w rule: record_containers.induct)
     (auto split: prod.split option.split dest: kept_CreateDeploymentContainer [THEN keptD])

lemma kept_fold: "P w \<Longrightarrow> (\<And>x w. P w \<Longrightarrow> P (f x w)) \<Longrightarrow> P (fold f xs w)"
  by (induction xs arbitrary: w) auto

lemma terminal_failed [simp]: "isTerminalDeploymentStatus ''failed''" "isTerminalDeploymentStatus ''rolled_back''"
  by (simp_all add: isTerminalDeploymentStatus_def)

lemma snd_unit_body [simp]: "snd (unit_body r) = snd r"
  by (simp add: unit_body_def)

lemma kept_markDeploymentFailed [kept]: "P w \<Longrightarrow> P (snd (markDeploymentFailed i j w))"
proof -
  assume "P w"
  moreover have "snd (markDeploymentFailed i j w) = snd (in_tx (\<lambda>w. unit_body (UpdateDeploymentAndStackStatus i ''failed'' j ''failed'' w)) w)"
    by (simp add: markDeploymentFailed_def split: prod.split sum.split)
  ultimately show ?thesis by (simp add: kept_in_tx kept_UpdateDeploymentAndStackStatus)
qed

lemma kept_failDeployment [kept]: "P w \<Longrightarrow> P (failDeployment i j cause err extra w)"
  unfolding failDeployment_def Let_def case_prod_beta
  by (intro kept_emit kept_reads(4) kept_forget kept_markDeploymentFailed)

lemma kept_set_container_statuses [kept]: "P w \<Longrightarrow> ContainerStatus_IsValid s \<Longrightarrow> P (set_container_statuses i s w)"
proof -
  assume w: "P w" and s: "ContainerStatus_IsValid s"
  have "known_status_request (no_container_update\<lparr>uc_Status := Some s\<rparr>)" using s by (simp add: known_status_request_def)
  then have u: "P (snd (UpdateContainer c (no_container_update\<lparr>uc_Status := Some s\<rparr>) v))" if "P v" for c v
    using that by (rule kept_UpdateContainer [rotated])
  have "P (fold (\<lambda>dc w. snd (UpdateContainer (dc_ContainerID dc) (no_container_update\<lparr>uc_Status := Some s\<rparr>) w)) dcs v)" if "P v" for dcs :: "deploymentContainer list" and v
    using that by (rule kept_fold) (rule u)
  with kept_reads(7) [OF w, of i] show ?thesis
    by (simp add: set_container_statuses_def case_prod_beta split: sum.split)
qed

lemma kept_settle_body [kept]: "P w \<Longrightarrow> isTerminalDeploymentStatus s \<Longrightarrow> P (snd (settle_body d i s w))"
proof -
  assume w: "P w" and s: "isTerminalDeploymentStatus s"
  let ?t = "if s = ''rolled_back'' then ''failed'' else s"
  obtain e w1 where e: "UpdateDeploymentAndStackStatus i s (dep_StackID d) ?t w = (e, w1)" by force
  have w1: "P w1" using kept_UpdateDeploymentAndStackStatus [OF w s, of i "dep_StackID d" ?t] unfolding e by simp
  have v: "ContainerStatus_IsValid ''running''" "ContainerStatus_IsValid ''error''" by (simp_all add: ContainerStatus_IsValid_def)
  show ?thesis
    unfolding settle_body_def e using w1 kept_set_container_statuses [OF w1 v(1), of i] kept_set_container_statuses [OF w1 v(2), of i]
    by (cases e) simp_all
qed

lemma kept_settle [kept]: "P w \<Longrightarrow> isTerminalDeploymentStatus s \<Longrightarrow> P (settle i s step stage detail w)"
proof -
  assume w: "P w" and s: "isTerminalDeploymentStatus s"
  obtain g w1 where g: "GetDeploymentByID i w = (g, w1)" by force
  have w1: "P w1" using kept_reads(4) [OF w, of i] g by simp
  have t: "P (snd (in_tx (settle_body d i s) w1))" for d
    by (rule kept_in_tx [OF w1]) (rule kept_settle_body [OF _ s])
  show ?thesis
  proof (cases g)
    case (Inr d)
    obtain r w2 where r: "in_tx (settle_body d i s) w1 = (r, w2)" by force
    have w2: "P w2" using t [of d] r by simp
    show ?thesis
      unfolding settle_def g Inr prod.case sum.case r using w2
      by (cases r) (auto simp: logDeploymentFailed_def logDeploymentSucceeded_def intro: kept_emit)
  qed (simp add: settle_def g w1)
qed

lemma GetDeployment_found:
  assumes "GetDeploymentByID i w = (Inr d, w1)"
  shows "List.find (\<lambda>x. dep_ID x = i) (w_deployments w1) = Some d"
proof -
  have "w_deployments w1 = w_deployments w"
    using query_frame [of w_deployments "\<lambda>w. List.find (\<lambda>d. dep_ID d = i) (w_deployments w)" w] assms
    by (auto simp: GetDeploymentByID_def one_row_def split: prod.splits sum.splits option.splits)
  moreover have "Some d = List.find (\<lambda>x. dep_ID x = i) (w_deployments w)"
    using assms by (auto simp: GetDeploymentByID_def one_row_def split: prod.splits sum.splits option.splits dest!: query_Inr)
  ultimately show ?thesis by simp
qed

lemmas kept_callD = kept_reads [THEN keptD, rotated -1] kept_query [THEN keptD, rotated -1] kept_send [THEN keptD, rotated -1]
  kept_UpdateStack [THEN keptD, rotated -1] kept_claim [THEN keptD, rotated -1] kept_begin [THEN keptD, rotated -1]
  kept_CreateDeployment [THEN keptD, rotated -1] kept_record_containers [THEN keptD, rotated -1]

lemma kept_advance [kept]: "P w \<Longrightarrow> P (advance i s w)"
proof -
  assume w: "P w"
  obtain g w1 where g: "GetDeploymentByID i w = (g, w1)" by force
  have w1: "P w1" using kept_reads(4) [OF w, of i] g by simp
  show ?thesis
  proof (cases g)
    case (Inr d)
    show ?thesis
    proof (cases "isTerminalDeploymentStatus (dep_Status d) \<and> \<not> isTerminalDeploymentStatus s \<or> dep_Status d = s")
      case False
      have "P (w1\<lparr>clock := c, db_script := sc, w_deployments := update_where (\<lambda>d. dep_ID d = i) (set_deployment_status s now) (w_deployments w1)\<rparr>)"
        if "P (w1\<lparr>clock := c, db_script := sc\<rparr>)" for c sc now
        using GetDeployment_found [of i w d w1] g Inr False dep_advance [OF that, of i d s now] dep_settle [OF that, of s i now] by auto
      then have "P (snd (UpdateDeploymentStatus i s w1))"
        unfolding UpdateDeploymentStatus_def Let_def snd_exec_unit by (intro kept_exec_at [OF w1]) simp
      then show ?thesis
        by (auto simp: advance_def g Inr lateProgress_def logDeploymentStarted_def w1 split: prod.split option.split intro: kept_emit)
    qed (auto simp: advance_def g Inr lateProgress_def w1)
  qed (simp add: advance_def g w1)
qed

lemma kept_notify_outcome: "P w \<Longrightarrow> P (notify_outcome i s m w)"
  unfolding notify_outcome_def stack_label_def
  by (auto split: prod.split sum.split if_split intro!: kept_Notify kept_emit dest!: kept_callD)

lemma kept_progress: "P w \<Longrightarrow> P (handleDeploymentProgress trunc p w)"
  unfolding handleDeploymentProgress_def Let_def
  by (auto split: option.split intro!: kept_settle kept_advance kept_notify_outcome kept_log)

lemma kept_status: "P w \<Longrightarrow> P (handleDeploymentStatus trunc p w)"
  unfolding handleDeploymentStatus_def Let_def RecordRunnerDeploymentStatus_def
  by (auto split: option.split intro!: kept_log statuses)

section \<open>Container reports\<close>

lemma kept_cache_lookup: "P w \<Longrightarrow> P (snd (cache_GetContainerByName n w))"
  unfolding cache_GetContainerByName_def
  by (auto split: option.split prod.split sum.split dest!: kept_callD intro!: cache)

lemma kept_sync_lookup: "P w \<Longrightarrow> P (snd (sync_lookup n w))"
  unfolding sync_lookup_def
  by (auto split: prod.split sum.split dest!: kept_cache_lookup [THEN keptD, rotated -1] intro!: kept_cache_lookup)

lemma kept_lifecycle_log: "P w \<Longrightarrow> P (snd (CreateLifecycleLog r w))"
  unfolding CreateLifecycleLog_def Let_def by (rule kept_exec_unit) (auto intro: lifecycle)

lemma kept_invalidate: "P w \<Longrightarrow> P (invalidate_name n w)"
  by (simp add: invalidate_name_def cache)

lemmas kept_containerD = kept_cache_lookup [THEN keptD, rotated -1] kept_sync_lookup [THEN keptD, rotated -1]
  kept_UpdateContainer [THEN keptD, rotated -1]

lemma kept_update_then:
  assumes "P w" "known_status_request req"
  shows "P (case UpdateContainer i req w of (Inl _, w2) \<Rightarrow> w2 | (Inr _, w2) \<Rightarrow> invalidate_name n w2)"
  using kept_UpdateContainer [OF assms, of i] by (auto split: prod.split sum.split intro: kept_invalidate)

lemma kept_handleContainerStatus: "P w \<Longrightarrow> P (snd (handleContainerStatus i p w))"
proof -
  assume w: "P w"
  define name where "name = stripDeploySuffix (payload_str p ''container_name'')"
  obtain r w1 where r: "cache_GetContainerByName name w = (r, w1)" by force
  have w1: "P w1" using kept_cache_lookup [OF w, of name] r by simp
  have go: "P (snd (case UpdateContainer (c_ID c) req w1 of
             (Inl _, w2) \<Rightarrow> (out, w2)
           | (Inr _, w2) \<Rightarrow> (out, case map_of lifecycleMessages a of None \<Rightarrow> invalidate_name (c_Name c) w2
               | Some msg \<Rightarrow> snd (CreateLifecycleLog (q msg) (invalidate_name (c_Name c) w2)))))"
    if "known_status_request req" for c req out a q
    using kept_UpdateContainer [OF w1 that, of "c_ID c"]
    by (auto split: prod.split sum.split option.split intro!: kept_lifecycle_log kept_invalidate)
  show ?thesis
  proof (cases "payload_str p ''container_name'' = [] \<or> payload_str p ''status'' \<noteq> ''success''")
    case False
    show ?thesis
    proof (cases "action_status (payload_str p ''action'')")
      case (Some s)
      then have k: "ContainerStatus_IsValid s" by (rule action_status_known)
      show ?thesis
      proof (cases r)
        case (Inr c)
        show ?thesis
          unfolding handleContainerStatus_def Let_def name_def [symmetric] r Some Inr if_not_P [OF False] option.case prod.case sum.case
          by (rule go) (simp add: known_status_request_def k)
      next
        case (Inl e)
        show ?thesis
          unfolding handleContainerStatus_def Let_def name_def [symmetric] r Some Inl if_not_P [OF False] option.case prod.case sum.case
          by (simp add: w1)
      qed
    qed (simp add: handleContainerStatus_def Let_def w)
  qed (auto simp: handleContainerStatus_def Let_def w)
qed

lemma kept_handleLifecycleLog: "P w \<Longrightarrow> P (handleLifecycleLog i p w)"
  unfolding handleLifecycleLog_def Let_def
  by (auto split: prod.split sum.split if_splits dest!: kept_containerD intro!: kept_lifecycle_log)

lemma kept_health: "P w \<Longrightarrow> P (handleContainerHealthStatus p w)"
  unfolding handleContainerHealthStatus_def Let_def
  by (auto split: prod.split sum.split dest!: kept_containerD intro!: kept_invalidate simp: known_status_request_def)

lemma kept_sync: "P w \<Longrightarrow> P (handleContainerSync p w)"
proof -
  assume w: "P w"
  obtain r w1 where r: "sync_lookup (payload_str p ''container_name'') w = (r, w1)" by force
  have w1: "P w1" using kept_sync_lookup [OF w, of "payload_str p ''container_name''"] r by simp
  show ?thesis
    unfolding handleContainerSync_def Let_def r using w w1 kept_update_then [OF w1 sync_request_known]
    by (auto split: sum.split)
qed

section \<open>The monitor\<close>

lemma kept_watchdog: "P w \<Longrightarrow> P (snd (lightweightDeploymentWatchdog m w))"
  unfolding lightweightDeploymentWatchdog_def monitor_return_def
  by (auto split: prod.split sum.split dest!: kept_callD intro!: kept_forget kept_failDeployment kept_writeDeploymentLog)

lemma kept_timeout: "P w \<Longrightarrow> P (snd (monitor_timeout m w))"
  by (simp add: monitor_timeout_def monitor_return_def kept_forget kept_failDeployment kept_writeDeploymentLog)

lemma kept_retry: "P w \<Longrightarrow> P (snd (monitor_retry m w))"
  unfolding monitor_retry_def Let_def
  by (auto split: prod.split option.split dest!: kept_callD intro!: kept_writeDeploymentLog)

lemma kept_tick: "P w \<Longrightarrow> P (snd (monitor_tick m w))"
  unfolding monitor_tick_def Let_def monitor_return_def
  by (auto split: prod.split sum.split dest!: kept_callD intro!: kept_forget kept_failDeployment kept_writeDeploymentLog kept_retry)

lemma kept_put: "P (snd r) \<Longrightarrow> P (put_monitor k r)"
  by (auto simp: put_monitor_def split: prod.split option.split intro: monitors)

lemma kept_tick_monitor: "P w \<Longrightarrow> P (tick_monitor k w)"
  by (simp add: tick_monitor_def Let_def kept_put kept_tick kept_watchdog)

lemma kept_expire_monitor: "P w \<Longrightarrow> P (expire_monitor k w)"
  by (simp add: expire_monitor_def Let_def kept_put kept_timeout)

section \<open>Requests\<close>

lemma kept_violated: "P w \<Longrightarrow> P (snd (violated raw i w))"
  unfolding violated_def
  by (auto split: prod.split sum.split jsonColumn.split option.split dest!: kept_callD)

lemma kept_loadDeployEnv: "P w \<Longrightarrow> P (snd (loadDeployEnv v w))"
  unfolding loadDeployEnv_def by (auto split: prod.split sum.split dest!: kept_callD)

lemma kept_newSpecBuilder: "P w \<Longrightarrow> P (snd (newSpecBuilder services i y env rb w))"
  unfolding newSpecBuilder_def Let_def by (auto split: prod.split dest!: kept_callD)

lemma kept_registryAuth: "P w \<Longrightarrow> P (snd (registryAuth sb rid img w))"
  unfolding registryAuth_def by (auto split: prod.split sum.split option.split dest!: kept_callD)

lemma kept_build: "P w \<Longrightarrow> P (snd (build ff sb c img tag w))"
  unfolding build_def Let_def
  by (auto split: prod.split sum.split simp del: optional_def dest!: kept_registryAuth [THEN keptD, rotated -1])

lemma kept_build_all: "P w \<Longrightarrow> P (snd (build_all ff sb cs w))"
proof (induction cs arbitrary: w)
  case (Cons c cs)
  obtain x img tag where c: "c = (x, img, tag)" by (metis prod_cases3)
  from Cons.prems show ?case
    unfolding c by (auto split: prod.split sum.split dest!: kept_build [THEN keptD, rotated -1] Cons.IH [THEN keptD, rotated -1])
qed simp

lemma kept_rollback_specs: "P w \<Longrightarrow> P (snd (rollback_specs ff sb dcs w))"
proof (induction dcs arbitrary: w)
  case (Cons dc dcs)
  from Cons.prems show ?case
    by (auto split: prod.split sum.split dest!: kept_callD kept_build [THEN keptD, rotated -1] Cons.IH [THEN keptD, rotated -1] intro!: Cons.IH)
qed simp

lemma kept_deploy_specs: "P w \<Longrightarrow> P (snd (deploy_specs ff services st cs w))"
  unfolding deploy_specs_def
  by (auto split: prod.split sum.split dest!: kept_loadDeployEnv [THEN keptD, rotated -1] kept_newSpecBuilder [THEN keptD, rotated -1]
      kept_build_all [THEN keptD, rotated -1])

lemma kept_with_networks: "P w \<Longrightarrow> P (snd (with_networks i p w))"
  unfolding with_networks_def by (auto split: prod.split sum.split list.split dest!: kept_callD)

lemma kept_with_volumes: "P w \<Longrightarrow> P (snd (with_volumes i p w))"
  unfolding with_volumes_def by (auto split: prod.split sum.split list.split dest!: kept_callD)

lemma kept_create_in_tx: "P w \<Longrightarrow> P (snd (create_in_tx i strategy u cs what w))"
proof -
  assume w: "P w"
  obtain e w1 where b: "begin_tx w = (e, w1)" by force
  have w1: "P w1" using kept_begin [OF w] b by simp
  obtain r w2 where c: "CreateDeployment i strategy u w1 = (r, w2)" by force
  have w2: "P w2" using kept_CreateDeployment [OF w1, of i strategy u] c by simp
  have m: "P (snd (commit w1 w3))" if "P w3" for w3 using w1 that by (rule kept_commit)
  show ?thesis
    unfolding create_in_tx_def b c prod.case using w1 w2
    by (auto split: option.split sum.split prod.split intro: kept_rollback dest!: kept_record_containers [THEN keptD, rotated -1] m [THEN keptD, rotated -1])
qed

lemma kept_startMonitor: "P w \<Longrightarrow> P (startDeploymentMonitor i j k p w)"
  by (simp add: startDeploymentMonitor_def monitors)

lemma kept_hand_off: "P w \<Longrightarrow> (\<And>w. P w \<Longrightarrow> P (sent w)) \<Longrightarrow> P (snd (hand_off d st k cmd title p sent w))"
  unfolding hand_off_def
  by (auto split: prod.split option.split dest!: kept_callD intro!: kept_startMonitor kept_writeDeploymentLog kept_failDeployment)

lemma kept_with_claim:
  assumes "P w" "\<And>w. P w \<Longrightarrow> P (snd (body w))"
  shows "P (snd (with_claim i failure body w))"
proof -
  obtain r w1 where c: "ClaimStackForDeploy i w = (r, w1)" by force
  have w1: "P w1" using kept_claim [OF assms(1), of i] c by simp
  obtain resp settled w2 where b: "body w1 = ((resp, settled), w2)" by (metis surj_pair)
  have "P w2" using assms(2) [OF w1] b by simp
  then show ?thesis
    unfolding with_claim_def c using w1 b kept_releaseStackClaim [of w2 i] by (cases r) (auto split: bool.split)
qed

lemmas kept_requestD = kept_violated [THEN keptD, rotated -1] kept_deploy_specs [THEN keptD, rotated -1] kept_create_in_tx [THEN keptD, rotated -1]
  kept_with_networks [THEN keptD, rotated -1] kept_with_volumes [THEN keptD, rotated -1] kept_loadDeployEnv [THEN keptD, rotated -1]
  kept_newSpecBuilder [THEN keptD, rotated -1] kept_rollback_specs [THEN keptD, rotated -1]

lemma kept_hand_off_id: "P w \<Longrightarrow> P (snd (hand_off d st k cmd title p id w))"
  by (rule kept_hand_off) simp_all

lemma kept_deploy_claimed: "P w \<Longrightarrow> P (snd (deploy_claimed ff services r u st k w))"
  unfolding deploy_claimed_def Let_def
  by (auto split: prod.split sum.split option.split simp del: select_targets_def
      dest!: kept_callD kept_requestD kept_hand_off_id [THEN keptD, rotated -1] intro!: kept_audit kept_Notify kept_writeDeploymentLog)

lemma kept_HandleDeployStack: "P w \<Longrightarrow> P (snd (HandleDeployStack ff services r w))"
  unfolding HandleDeployStack_def
  by (auto split: prod.split sum.split option.split dest!: kept_callD kept_requestD intro!: kept_with_claim kept_deploy_claimed)

lemma kept_recreate_payload: "P w \<Longrightarrow> P (snd (recreateContainerPayload c w))"
  unfolding recreateContainerPayload_def Let_def
  by (auto split: option.split sum.split prod.split dest!: kept_callD)

lemma kept_single: "P w \<Longrightarrow> P (snd (handleSingleContainerDeploy r st k n dt w))"
  unfolding handleSingleContainerDeploy_def Let_def
  by (auto split: prod.split sum.split option.split dest!: kept_callD kept_recreate_payload [THEN keptD, rotated -1]
      intro!: kept_audit kept_Notify)

lemma kept_record_each: "P w \<Longrightarrow> P (record_each i cs w)"
  unfolding record_each_def by (rule kept_fold) (simp_all add: kept_CreateDeploymentContainer)

lemma kept_public_claimed: "P w \<Longrightarrow> P (snd (public_deploy_claimed ff services r dt st k w))"
  unfolding public_deploy_claimed_def Let_def
  by (auto split: prod.split sum.split option.split
      dest!: kept_callD kept_requestD kept_hand_off_id [THEN keptD, rotated -1] intro!: kept_audit kept_Notify kept_writeDeploymentLog kept_record_each)

lemma kept_touch: "P w \<Longrightarrow> P (snd (TouchDeployToken i w))"
  unfolding TouchDeployToken_def by (rule kept_exec_unit) (auto intro: tokens)

lemma kept_HandlePublicDeploy: "P w \<Longrightarrow> P (snd (HandlePublicDeploy hash ff services r w))"
  unfolding HandlePublicDeploy_def Let_def
  by (auto split: prod.split sum.split option.split dest!: kept_callD intro!: kept_with_claim kept_public_claimed kept_single kept_touch)

lemma kept_hand_off_rollback: "P w \<Longrightarrow> P (snd (hand_off d st k cmd title p (\<lambda>w. snd (UpdateDeploymentStatus j ''rolled_back'' w)) w))"
  by (rule kept_hand_off) (simp_all add: kept_UpdateDeploymentStatus)

lemma kept_rollback_claimed: "P w \<Longrightarrow> P (snd (rollback_claimed ff services r u t st k w))"
  unfolding rollback_claimed_def Let_def
  by (auto split: prod.split sum.split option.split
      dest!: kept_callD kept_requestD kept_hand_off_rollback [THEN keptD, rotated -1] intro!: kept_audit kept_writeDeploymentLog)

lemma kept_HandleRollback: "P w \<Longrightarrow> P (snd (HandleRollbackDeployment ff services r w))"
  unfolding HandleRollbackDeployment_def
  by (auto split: prod.split sum.split option.split dest!: kept_callD intro!: kept_with_claim kept_rollback_claimed)

lemma kept_ApproveDeployment: "P w \<Longrightarrow> P (snd (ApproveDeployment i u w))"
  unfolding ApproveDeployment_def Let_def
  by (auto split: prod.split sum.split bool.split elim!: kept_execD intro: dep_approve)

lemma kept_HandleApprove: "P w \<Longrightarrow> P (snd (HandleApproveDeployment r w))"
  unfolding HandleApproveDeployment_def
  by (auto split: prod.split sum.split option.split dest!: kept_ApproveDeployment [THEN keptD, rotated -1] kept_callD intro!: kept_audit)

end

text \<open>With the writes of a stack's deletion, every step is covered.\<close>

locale deploy_invariant = deploy_writes P for P :: "'a ops_world_scheme \<Rightarrow> bool" +
  assumes container_retire: "P w \<Longrightarrow> P (w\<lparr>containers := update_where (\<lambda>x. c_StackID x = i) (\<lambda>x. x\<lparr>c_Active := False\<rparr>) (containers w)\<rparr>)"
    and stack_retire: "P w \<Longrightarrow> P (w\<lparr>stacks := update_where (\<lambda>x. st_ID x = i) (\<lambda>x. x\<lparr>st_Active := False\<rparr>) (stacks w)\<rparr>)"
    and dep_cancel: "P w \<Longrightarrow> P (w\<lparr>w_deployments := update_where
          (\<lambda>x. dep_StackID x = i \<and> dep_Status x \<in> {''pending'', ''approved'', ''sending'', ''deploying'', ''validating''})
          (\<lambda>x. x\<lparr>dep_Status := ''failed'', dep_CompletedAt := done_at\<rparr>) (w_deployments w)\<rparr>)"
begin

lemma kept_FailActive: "P w \<Longrightarrow> P (snd (FailActiveDeployments i w))"
  unfolding FailActiveDeployments_def by (erule kept_exec_unit) (erule dep_cancel)

lemma kept_DeleteStack: "P w \<Longrightarrow> P (snd (DeleteStack i w))"
proof -
  assume "P w"
  then have "P (snd (exec_unit (\<lambda>w. w\<lparr>containers := update_where (\<lambda>c. c_StackID c = i) (\<lambda>c. c\<lparr>c_Active := False\<rparr>) (containers w)\<rparr>) w))"
    by (rule kept_exec_unit) (erule container_retire)
  then show ?thesis
    by (auto simp: DeleteStack_def split: prod.split option.split intro!: kept_exec_unit stack_retire)
qed

lemma kept_delete_tx: "P w \<Longrightarrow> P (snd (delete_stack_tx i w))"
proof -
  assume w: "P w"
  obtain e w1 where b: "begin_tx w = (e, w1)" by force
  have w1: "P w1" using kept_begin [OF w] b by simp
  have m: "P (snd (commit w1 w3))" if "P w3" for w3 using w1 that by (rule kept_commit)
  show ?thesis
    unfolding delete_stack_tx_def b prod.case using w1
    by (auto split: option.split prod.split intro: kept_rollback dest!: kept_FailActive [THEN keptD, rotated -1]
        kept_DeleteStack [THEN keptD, rotated -1] m [THEN keptD, rotated -1])
qed

lemma kept_remove_all: "P w \<Longrightarrow> P (fold (remove_container k) cs w)"
  by (rule kept_fold) (simp_all add: remove_container_def kept_send)

lemma kept_HandleDelete: "P w \<Longrightarrow> P (snd (HandleDeleteStack r w))"
  unfolding HandleDeleteStack_def Let_def
  by (auto split: prod.split sum.split option.split if_split dest!: kept_callD kept_delete_tx [THEN keptD, rotated -1]
      intro!: kept_audit kept_remove_all kept_delete_tx)

lemma kept_step: "P w \<Longrightarrow> P (ops_step e x w)"
proof (cases x)
  case (OpsWait dt)
  assume "P w"
  from db [OF this, where c = "clock w + int dt" and sc = "db_script w"] show ?thesis using OpsWait by simp
qed (simp_all add: kept_progress kept_status kept_handleContainerStatus kept_health kept_sync kept_handleLifecycleLog kept_tick_monitor
      kept_expire_monitor kept_HandleDeployStack kept_HandlePublicDeploy kept_HandleRollback kept_HandleApprove kept_HandleDelete)

theorem kept_run: "P w \<Longrightarrow> P (fold (ops_step e) xs w)"
  by (erule kept_fold) (erule kept_step)

end

section \<open>Settled deployments\<close>

text \<open>The row is there, and every row of that id is in a terminal status; new rows get other ids.\<close>

definition settled_rows :: "int \<Rightarrow> int \<Rightarrow> deployment list \<Rightarrow> bool" where
  "settled_rows i n ds \<longleftrightarrow> i < n \<and> (\<exists>d \<in> set ds. dep_ID d = i) \<and> (\<forall>d \<in> set ds. dep_ID d = i \<longrightarrow> isTerminalDeploymentStatus (dep_Status d))"

definition settled :: "int \<Rightarrow> 'a deploy_world_scheme \<Rightarrow> bool" where
  "settled i w = settled_rows i (w_next_deployment w) (w_deployments w)"

lemma settled_insert: "settled_rows i n ds \<Longrightarrow> dep_ID d = n \<Longrightarrow> settled_rows i (n + 1) (ds @ [d])"
  by (auto simp: settled_rows_def)

lemma settled_update:
  assumes "settled_rows i n ds" "\<And>d. dep_ID (f d) = dep_ID d"
    and "\<And>d. p d \<Longrightarrow> dep_ID d = i \<Longrightarrow> isTerminalDeploymentStatus (dep_Status d) \<Longrightarrow> isTerminalDeploymentStatus (dep_Status (f d))"
  shows "settled_rows i n (update_where p f ds)"
proof -
  have "dep_ID ` set (update_where p f ds) = dep_ID ` set ds"
    using update_where_map_key [of p dep_ID f ds, OF assms(2)] by (metis list.set_map)
  then have "\<exists>d \<in> set (update_where p f ds). dep_ID d = i"
    using assms(1) unfolding settled_rows_def by (metis imageE imageI)
  moreover have "\<forall>d \<in> set (update_where p f ds). dep_ID d = i \<longrightarrow> isTerminalDeploymentStatus (dep_Status d)"
    using assms by (auto simp: settled_rows_def set_update_where)
  ultimately show ?thesis using assms(1) by (simp add: settled_rows_def)
qed

lemma settled_found: "settled_rows i n ds \<Longrightarrow> List.find (\<lambda>x. dep_ID x = i) ds = Some d \<Longrightarrow> isTerminalDeploymentStatus (dep_Status d)"
  by (auto simp: settled_rows_def find_Some_iff)

interpretation settled_deployment: deploy_invariant "settled i :: 'a ops_world_scheme \<Rightarrow> bool"
proof (unfold_locales, simp_all add: settled_def settled_insert)
  fix w :: "'a ops_world_scheme" and s now j
  assume a: "settled_rows i (w_next_deployment w) (w_deployments w)"
  show "isTerminalDeploymentStatus s \<Longrightarrow>
      settled_rows i (w_next_deployment w) (update_where (\<lambda>x. dep_ID x = j) (set_deployment_status s now) (w_deployments w))"
    using a by (rule settled_update) (simp_all add: set_deployment_status_def)
  show "settled_rows i (w_next_deployment w) (update_where (\<lambda>x. dep_ID x = j) (set_deployment_status s now) (w_deployments w))"
    if "List.find (\<lambda>x. dep_ID x = j) (w_deployments w) = Some d" "\<not> isTerminalDeploymentStatus (dep_Status d)" for d
    using a by (rule settled_update) (use that a settled_found in \<open>auto simp: set_deployment_status_def\<close>)
  show "settled_rows i (w_next_deployment w) (update_where (\<lambda>x. dep_ID x = j \<and> dep_Status x = ''pending'')
      (\<lambda>x. x\<lparr>dep_Status := ''approved'', dep_ApprovedBy := u\<rparr>) (w_deployments w))" for u
    using a by (rule settled_update) (simp_all add: isTerminalDeploymentStatus_def)
  show "settled_rows i (w_next_deployment w) (update_where
      (\<lambda>x. dep_StackID x = j \<and> (dep_Status x = ''pending'' \<or> dep_Status x = ''approved'' \<or> dep_Status x = ''sending'' \<or> dep_Status x = ''deploying'' \<or> dep_Status x = ''validating''))
      (\<lambda>x. x\<lparr>dep_Status := ''failed'', dep_CompletedAt := t\<rparr>) (w_deployments w))" for t
    using a by (rule settled_update) (simp_all add: isTerminalDeploymentStatus_def)
qed

section \<open>Container statuses\<close>

definition known_statuses :: "'a tables_scheme \<Rightarrow> bool" where
  "known_statuses w \<longleftrightarrow> (\<forall>c \<in> set (containers w). ContainerStatus_IsValid (c_Status c))"

lemma status_set: "c_Status (set_opt v (\<lambda>v c. c\<lparr>c_Status := v\<rparr>) y) = (case v of None \<Rightarrow> c_Status y | Some s \<Rightarrow> s)"
  by (simp add: set_opt_def split: option.split)

lemma status_after: "c_Status (container_sets req c) = (case uc_Status req of None \<Rightarrow> c_Status c | Some s \<Rightarrow> s)"
  by (simp add: container_sets_def status_set kept_by_set_opt [of c_Status] kept_by_set_or_clear [of c_Status] split: option.split)

interpretation container_status: deploy_invariant "known_statuses :: 'a ops_world_scheme \<Rightarrow> bool"
  by unfold_locales (auto simp: known_statuses_def set_update_where known_status_request_def status_after split: option.splits)

end
