(* ===== verification/Deploy_Safety.thy ===== *)
theory Deploy_Safety
  imports Deploy_Invariants
begin

text \<open>
  What holds of deployments: settled ones stay settled and container statuses stay known, whatever the
  database does; while it answers, a claimed stack refuses a deploy, a failed request leaves no
  claim behind and a stalled deployment is failed. Two statements show where the claim and the
  monitor are weaker than their comments say.
\<close>

section \<open>Over every run\<close>

definition ops_world0 :: ops_world where
  "ops_world0 = runner_world.extend (alert_world.extend alert_world0 \<lparr>o_lifecycle = [], o_next_lifecycle = 1\<rparr>)
     \<lparr>o_runnerStatuses = Map.empty, o_monitors = []\<rparr>"

lemmas ops_world0_defs = ops_world0_def alert_world0_defs alert_world.defs runner_world.defs

definition sample_deployment :: "int \<Rightarrow> string \<Rightarrow> deployment" where
  "sample_deployment i s = \<lparr>dep_ID = i, dep_StackID = 5, dep_Status = s, dep_Strategy = ''rolling'', dep_TriggeredBy = None, dep_ApprovedBy = None,
     dep_StartedAt = None, dep_CompletedAt = None, dep_InsertedAt = 0\<rparr>"

definition sample_env :: deploy_env where
  "sample_env = \<lparr>de_trunc = (\<lambda>_. 0), de_hash = id, de_float = id, de_services = (\<lambda>_. None)\<rparr>"

definition progress :: "int \<Rightarrow> string \<Rightarrow> (string \<times> json) list" where
  "progress i s = [(''deployment_id'', JInt i), (''status'', JStr s)]"

text \<open>
  C6. A deployment that has reached a terminal status never leaves the terminal statuses again, over
  every sequence of runner messages, monitor turns and requests, whatever the database connection
  does: late progress, retries, approvals and new deployments do not resurrect it.
\<close>

theorem settled_stays_settled:
  fixes w :: "'a ops_world_scheme"
  assumes "settled i w"
  shows "settled i (fold (ops_step e) xs w)"
  using assms by (rule settled_deployment.kept_run)

theorem settled_stays_settled_witness:
  "settled 1 (ops_world0\<lparr>w_deployments := [sample_deployment 1 ''failed''], w_next_deployment := 2\<rparr>) \<and>
   settled 1 (fold (ops_step sample_env) [OpsProgress (progress 1 ''deploying''), OpsProgress (progress 1 ''validating'')]
     (ops_world0\<lparr>w_deployments := [sample_deployment 1 ''failed''], w_next_deployment := 2\<rparr>))"
proof -
  let ?w = "ops_world0\<lparr>w_deployments := [sample_deployment 1 ''failed''], w_next_deployment := 2\<rparr>"
  have "settled 1 ?w" by (simp add: settled_def settled_rows_def sample_deployment_def)
  with settled_stays_settled [OF this] show ?thesis by blast
qed



section \<open>While the database answers\<close>

definition has_stack :: "int \<Rightarrow> stack list \<Rightarrow> bool" where
  "has_stack i ss \<longleftrightarrow> (\<exists>s \<in> set ss. st_ID s = i \<and> st_Active s)"

definition ready :: "int \<Rightarrow> 'a tables_scheme \<Rightarrow> bool" where
  "ready i w \<longleftrightarrow> db_script w = [] \<and> has_stack i (stacks w)"

lemma select_has_stack: "has_stack i ss \<Longrightarrow> \<exists>s. select_stack i ss = Some s"
  by (auto simp: has_stack_def select_stack_def find_None_iff simp flip: not_None_eq)

lemma selected_has_stack: "select_stack i ss = Some s \<Longrightarrow> has_stack i ss \<and> st_ID s = i"
  by (auto simp: has_stack_def select_stack_def find_Some_iff)

lemma has_stack_update:
  assumes "has_stack i ss" "\<And>x. st_ID (f x) = st_ID x \<and> st_Active (f x) = st_Active x"
  shows "has_stack i (update_where q f ss)"
proof -
  from assms(1) obtain x where "x \<in> set ss" "st_ID x = i" "st_Active x" by (auto simp: has_stack_def)
  with assms(2) [of x] have "(if q x then f x else x) \<in> set (update_where q f ss)" "st_ID (if q x then f x else x) = i" "st_Active (if q x then f x else x)"
    by (auto simp: update_where_def)
  then show ?thesis unfolding has_stack_def by blast
qed

interpretation ready_stack: deploy_writes "ready i :: 'a ops_world_scheme \<Rightarrow> bool"
  by unfold_locales (simp_all add: ready_def has_stack_update)

definition unclaimed :: "int \<Rightarrow> stack list \<Rightarrow> bool" where
  "unclaimed i ss \<longleftrightarrow> (\<forall>s \<in> set ss. st_ID s = i \<longrightarrow> st_Status s \<noteq> ''deploying'')"

abbreviation status_update :: "string \<Rightarrow> updateStackRequest" where
  "status_update s \<equiv> no_stack_update\<lparr>us_Status := Some s\<rparr>"

lemma status_update_not_empty [simp]: "status_update s \<noteq> no_stack_update"
  by (simp add: no_stack_update_def)

lemma stack_sets_status: "stack_sets (status_update s) = set_stack_status s"
  by (rule ext) (simp add: stack_sets_def no_stack_update_def set_opt_def)

lemma set_stack_status_keeps [simp]: "st_ID (set_stack_status s x) = st_ID x" "st_Active (set_stack_status s x) = st_Active x"
  by (simp_all add: set_stack_status_def)

lemma unclaimed_after: "s \<noteq> ''deploying'' \<Longrightarrow> unclaimed i (update_where (\<lambda>x. st_ID x = i) (set_stack_status s) ss)"
proof -
  assume "s \<noteq> ''deploying''"
  then have "st_Status (if st_ID x = i then set_stack_status s x else x) \<noteq> ''deploying''" if "st_ID (if st_ID x = i then set_stack_status s x else x) = i" for x
    using that by (cases "st_ID x = i") (simp_all add: set_stack_status_def)
  then show ?thesis unfolding unclaimed_def set_update_where by (metis (no_types, lifting) imageE)
qed

lemma UpdateStack_quiet:
  "db_script w = [] \<Longrightarrow>
   UpdateStack i (status_update s) w = GetStackByID i (w\<lparr>stacks := update_where (\<lambda>x. st_ID x = i) (set_stack_status s) (stacks w)\<rparr>)"
  by (simp add: UpdateStack_def exec_unit_quiet stack_sets_status)

lemma GetStackByID_quiet:
  "db_script w = [] \<Longrightarrow> GetStackByID i w = (case select_stack i (stacks w) of None \<Rightarrow> Inl ''failed to scan stack: sql: no rows in result set'' | Some s \<Rightarrow> Inr s, w)"
  by (simp add: GetStackByID_def query_quiet split: option.split)

lemma UpdateStack_ready:
  assumes "ready i w"
  shows "\<exists>st. UpdateStack i (status_update s) w = (Inr st, w\<lparr>stacks := update_where (\<lambda>x. st_ID x = i) (set_stack_status s) (stacks w)\<rparr>)"
proof -
  obtain st where "select_stack i (update_where (\<lambda>x. st_ID x = i) (set_stack_status s) (stacks w)) = Some st"
    using assms select_has_stack [OF has_stack_update, of i "stacks w" "set_stack_status s"] by (auto simp: ready_def)
  then show ?thesis using assms by (simp add: ready_def UpdateStack_quiet GetStackByID_quiet)
qed

lemma release_unclaimed:
  assumes "db_script w = []"
  shows "unclaimed i (stacks (releaseStackClaim i w))"
  using assms unclaimed_after [of "''active''" i "stacks w"]
  by (simp add: releaseStackClaim_def UpdateStack_quiet GetStackByID_quiet)

lemma UpdateDeploymentStatus_quiet:
  "db_script w = [] \<Longrightarrow> UpdateDeploymentStatus i s w =
    (None, w\<lparr>w_deployments := update_where (\<lambda>d. dep_ID d = i) (set_deployment_status s (db_time (clock w))) (w_deployments w)\<rparr>)"
  by (simp add: UpdateDeploymentStatus_def exec_unit_quiet)

lemma UpdateBoth_ready:
  assumes "ready j w"
  shows "UpdateDeploymentAndStackStatus i s j t w =
    (None, w\<lparr>w_deployments := update_where (\<lambda>d. dep_ID d = i) (set_deployment_status s (db_time (clock w))) (w_deployments w),
             stacks := update_where (\<lambda>x. st_ID x = j) (set_stack_status t) (stacks w)\<rparr>)"
  using assms UpdateStack_ready [of j "w\<lparr>w_deployments := update_where (\<lambda>d. dep_ID d = i) (set_deployment_status s (db_time (clock w))) (w_deployments w)\<rparr>" t]
  by (auto simp: ready_def UpdateDeploymentAndStackStatus_def UpdateDeploymentStatus_quiet)

lemma in_tx_quiet:
  assumes "db_script w = []" "body w = (Inr x, w')" "db_script w' = []"
  shows "in_tx body w = (Inr x, w')"
  using assms by (simp add: in_tx_def begin_tx_def commit_def exec_unit_quiet rollback_def)

lemma markDeploymentFailed_ready:
  assumes "ready j w"
  shows "markDeploymentFailed i j w =
    (True, w\<lparr>w_deployments := update_where (\<lambda>d. dep_ID d = i) (set_deployment_status ''failed'' (db_time (clock w))) (w_deployments w),
             stacks := update_where (\<lambda>x. st_ID x = j) (set_stack_status ''failed'') (stacks w)\<rparr>)"
proof -
  let ?w = "w\<lparr>w_deployments := update_where (\<lambda>d. dep_ID d = i) (set_deployment_status ''failed'' (db_time (clock w))) (w_deployments w),
             stacks := update_where (\<lambda>x. st_ID x = j) (set_stack_status ''failed'') (stacks w)\<rparr>"
  have "in_tx (\<lambda>w. unit_body (UpdateDeploymentAndStackStatus i ''failed'' j ''failed'' w)) w = (Inr (), ?w)"
    using assms by (intro in_tx_quiet) (simp_all add: UpdateBoth_ready unit_body_def ready_def)
  then show ?thesis by (simp add: markDeploymentFailed_def)
qed

lemma failDeployment_ready:
  assumes "ready j w"
  shows "w_deployments (failDeployment i j cause err extra w) =
      update_where (\<lambda>d. dep_ID d = i) (set_deployment_status ''failed'' (db_time (clock w))) (w_deployments w)"
    and "stacks (failDeployment i j cause err extra w) = update_where (\<lambda>x. st_ID x = j) (set_stack_status ''failed'') (stacks w)"
    and "o_monitors (failDeployment i j cause err extra w) = o_monitors w"
  using assms
  by (simp_all add: failDeployment_def markDeploymentFailed_ready Let_def emit_def forgetRunnerDeploymentStatus_def GetDeploymentByID_def
      one_row_def query_quiet ready_def split: option.split)

lemma writeDeploymentLog_quiet:
  assumes "db_script w = []"
  shows "writeDeploymentLog i l m w = w\<lparr>w_deployment_logs := w_deployment_logs (writeDeploymentLog i l m w), w_next_dl := w_next_dl (writeDeploymentLog i l m w)\<rparr>"
  using assms unfolding writeDeploymentLog_def CreateDeploymentLog_def Let_def by (simp only: exec_unit_quiet snd_conv) (simp split: if_split)

section \<open>Deploy requests\<close>

lemma violated_quiet: "db_script w = [] \<Longrightarrow> snd (violated raw i w) = w"
  by (auto simp: violated_def GetWorkerByID_def one_row_def query_quiet split: option.split jsonColumn.split prod.split)

lemma claim_held:
  assumes "db_script w = []" "\<forall>s \<in> set (stacks w). st_ID s = i \<longrightarrow> stack_holder s = Some ((), Some t)" "db_time (clock w) - DeployClaimWindow \<le> t"
  shows "ClaimStackForDeploy i w = (Inr False, w)"
proof -
  let ?cut = "db_time (clock w) - DeployClaimWindow"
  have lose: "\<not> fst (claim_stack () ?cut (clock w) s)" "snd (claim_stack () ?cut (clock w) s) = s" if "s \<in> set (stacks w)" "st_ID s = i" for s
    using assms(2,3) that by (auto simp: claim_stack_def stack_holder_def older_def split: if_splits)
  then have "update_where (\<lambda>s. st_ID s = i) (\<lambda>s. snd (claim_stack () ?cut (clock w) s)) (stacks w) = stacks w"
    by (auto simp: update_where_def intro!: map_idI)
  moreover have "\<not> list_ex (\<lambda>s. st_ID s = i \<and> fst (claim_stack () ?cut (clock w) s)) (stacks w)"
    using lose by (auto simp: list_ex_iff)
  ultimately show ?thesis using assms(1) by (simp add: ClaimStackForDeploy_def exec_quiet Let_def)
qed

text \<open>
  A stack whose deploy claim is held and younger than the claim window refuses another deploy:
  the request is answered with an error and changes nothing, neither the tables nor a queue to a
  worker, while the database answers.
\<close>

theorem claimed_stack_refuses_deploy:
  assumes "db_script w = []" "path_int r ''id'' = Some i" "\<forall>s \<in> set (stacks w). st_ID s = i \<longrightarrow> stack_holder s = Some ((), Some t)"
    and "db_time (clock w) - DeployClaimWindow \<le> t"
  shows "snd (HandleDeployStack ff services r w) = w \<and> (\<exists>code m n e. fst (HandleDeployStack ff services r w) = Failure code m n e)"
proof (cases "hr_User r")
  case (Some u)
  show ?thesis
  proof (cases "select_stack i (stacks w)")
    case None
    then show ?thesis using assms(1,2) Some by (simp add: HandleDeployStack_def GetStackByID_quiet NotFound_def SendError_def)
  next
    case (Some st)
    then have i: "st_ID st = i" by (simp add: selected_has_stack)
    have c: "with_claim i f body w = (SendError 409 ''deployment already in progress for this stack'' None, w)" for f and body
      using claim_held [OF assms(1,3,4)] by (simp add: with_claim_def)
    have v: "\<exists>x. violated (st_PlacementConstraints st) k w = (x, w)" for k
      using violated_quiet [OF assms(1)] by (metis prod.collapse)
    show ?thesis
    proof (cases "st_WorkerID st")
      case (Some k)
      obtain x where x: "violated (st_PlacementConstraints st) k w = (x, w)" using v by blast
      show ?thesis
        using assms(1,2) \<open>hr_User r = Some u\<close> \<open>select_stack i (stacks w) = Some st\<close> Some x i c
        by (cases x) (simp_all add: HandleDeployStack_def GetStackByID_quiet SendError_def placement_error_def)
    qed (use assms(1,2) \<open>hr_User r = Some u\<close> \<open>select_stack i (stacks w) = Some st\<close> in \<open>simp add: HandleDeployStack_def GetStackByID_quiet SendError_def\<close>)
  qed
qed (use assms(2) in \<open>simp add: HandleDeployStack_def SendError_def\<close>)

definition claimed_world :: ops_world where
  "claimed_world = ops_world0\<lparr>stacks := [web_stack\<lparr>st_Status := ''deploying'', st_deploy_claimed_at := Some 0\<rparr>]\<rparr>"

definition deploy_request :: httpRequest where
  "deploy_request = \<lparr>hr_Vars = [(''id'', ''5'')], hr_Query = [], hr_Path = [], hr_Body = Inl ''EOF'', hr_User = Some admin_user, hr_IP = []\<rparr>"

lemma ops_world0_simps [simp]: "db_script ops_world0 = []" "clock ops_world0 = 0"
  by (simp_all add: ops_world0_defs)

lemma deploy_request_user: "hr_User deploy_request = Some admin_user"
  by (simp add: deploy_request_def)

lemma deploy_request_id: "path_int deploy_request ''id'' = Some 5"
  by (simp add: path_int_def deploy_request_def atoi_def is_digit_def digits_val_def digit_val_def max_int64_def min_int64_def)

theorem claimed_stack_refuses_deploy_witness:
  "snd (HandleDeployStack id (\<lambda>_. None) deploy_request claimed_world) = claimed_world \<and>
   (\<exists>code m n e. fst (HandleDeployStack id (\<lambda>_. None) deploy_request claimed_world) = Failure code m n e)"
proof -
  have "\<forall>s \<in> set (stacks claimed_world). st_ID s = 5 \<longrightarrow> stack_holder s = Some ((), Some 0)" "db_script claimed_world = []"
    "db_time (clock claimed_world) - DeployClaimWindow \<le> 0"
    by (simp_all add: claimed_world_def stack_holder_def db_time_def truncate_to_def DeployClaimWindow_def Minute_def Second_def)
  from claimed_stack_refuses_deploy [OF this(2) deploy_request_id this(1,3)] show ?thesis by blast
qed

lemma hand_off_failure:
  assumes "ready (st_ID st) w" "hand_off d st k cmd title p sent w = (Some resp, w')"
  shows "unclaimed (st_ID st) (stacks w')"
proof -
  obtain e w1 where s: "SendJSONToWorker k (NewCommand MsgDeploy p) w = (Some e, w1)"
      "w' = failDeployment (dep_ID d) (st_ID st) ''dispatch_failed'' (Some e) []
             (writeDeploymentLog (dep_ID d) ''error'' (''Failed to send '' @ cmd @ '' command to worker '' @ show_int k @ '': '' @ e) w1)"
    using assms(2) by (auto simp: hand_off_def split: prod.splits option.splits)
  have "ready (st_ID st) w1" using ready_stack.kept_send [OF assms(1), of k "NewCommand MsgDeploy p"] s(1) by simp
  then show ?thesis
    unfolding s(2) by (simp add: failDeployment_ready(2) ready_stack.kept_writeDeploymentLog unclaimed_after)
qed

lemma hand_off_answer: "hand_off d st k cmd title p sent w = (Some resp, w') \<Longrightarrow> \<exists>e. resp = sendDispatchError cmd e"
  by (auto simp: hand_off_def split: prod.splits option.splits)

lemma deploy_claimed_settled:
  assumes "ready (st_ID st) w" "deploy_claimed ff services r u st k w = ((Failure code m n e, True), w')"
  shows "unclaimed (st_ID st) (stacks w')"
  using assms unfolding deploy_claimed_def Let_def
  by (auto split: prod.splits sum.splits option.splits simp: NewCreated_def
      dest!: ready_stack.kept_callD ready_stack.kept_requestD dest: hand_off_failure intro: ready_stack.kept_writeDeploymentLog)

lemma with_claim_failure:
  assumes "ready i w" "with_claim i f body w = (Failure code m n e, w')" "unclaimed i (stacks w)"
    and "\<And>w. ready i w \<Longrightarrow> ready i (snd (body w))"
    and "\<And>w w2. ready i w \<Longrightarrow> body w = ((Failure code m n e, True), w2) \<Longrightarrow> unclaimed i (stacks w2)"
  shows "unclaimed i (stacks w')"
proof -
  obtain c w1 where c: "ClaimStackForDeploy i w = (c, w1)" by force
  have w1: "ready i w1" using ready_stack.kept_claim [OF assms(1), of i] c by simp
  obtain won where won: "c = Inr won" using c assms(1) by (auto simp: ClaimStackForDeploy_def exec_quiet ready_def)
  show ?thesis
  proof (cases won)
    case True
    obtain resp settled w2 where b: "body w1 = ((resp, settled), w2)" by (metis surj_pair)
    have "db_script w2 = []" using assms(4) [OF w1] b by (simp add: ready_def)
    then show ?thesis
      using assms(2) c won True b assms(5) [OF w1] release_unclaimed [of w2 i] by (cases settled) (auto simp: with_claim_def)
  next
    case False
    then have "\<not> list_ex (\<lambda>s. st_ID s = i \<and> fst (claim_stack () (db_time (clock w) - DeployClaimWindow) (clock w) s)) (stacks w)"
      using c won assms(1) by (simp add: ClaimStackForDeploy_def exec_quiet ready_def Let_def)
    then have "snd (claim_stack () (db_time (clock w) - DeployClaimWindow) (clock w) s) = s" if "s \<in> set (stacks w)" "st_ID s = i" for s
      using that by (auto simp: list_ex_iff claim_stack_def split: if_splits)
    then have "update_where (\<lambda>s. st_ID s = i) (\<lambda>s. snd (claim_stack () (db_time (clock w) - DeployClaimWindow) (clock w) s)) (stacks w) = stacks w"
      by (auto simp: update_where_def intro!: map_idI)
    then have "stacks w1 = stacks w"
      using c assms(1) by (auto simp: ClaimStackForDeploy_def exec_quiet ready_def Let_def)
    then show ?thesis using assms(2,3) c won False by (simp add: with_claim_def)
  qed
qed

text \<open>
  C15. A deploy request that is answered with an error leaves no claim behind while the database
  answers: whatever made it fail (a missing row, an unreadable environment, a worker that is gone or
  whose queue is full), a stack that was free before is free after it.
\<close>

theorem failed_deploy_frees_stack:
  assumes "db_script w = []" "path_int r ''id'' = Some i" "unclaimed i (stacks w)"
    and "HandleDeployStack ff services r w = (Failure code m n e, w')"
  shows "unclaimed i (stacks w')"
proof (cases "hr_User r")
  case None
  then show ?thesis using assms by (auto simp: HandleDeployStack_def)
next
  case (Some u)
  show ?thesis
  proof (cases "select_stack i (stacks w)")
    case None
    then show ?thesis using assms Some by (auto simp: HandleDeployStack_def GetStackByID_quiet)
  next
    case st: (Some st)
    then have i: "st_ID st = i" and rdy: "ready i w" using assms(1) by (simp_all add: selected_has_stack ready_def)
    show ?thesis
    proof (cases "st_WorkerID st")
      case None
      then show ?thesis using assms Some st by (auto simp: HandleDeployStack_def GetStackByID_quiet)
    next
      case k: (Some k)
      obtain x where x: "violated (st_PlacementConstraints st) k w = (x, w)"
        using violated_quiet [OF assms(1)] by (metis prod.collapse)
      show ?thesis
      proof (cases "worker_connected k w \<and> x = None")
        case True
        then have "with_claim i ''failed to claim stack for deploy'' (deploy_claimed ff services r u st k) w = (Failure code m n e, w')"
          using assms Some st k x i by (simp add: HandleDeployStack_def GetStackByID_quiet)
        then show ?thesis
          by (rule with_claim_failure [OF rdy _ assms(3)])
             (use i in \<open>auto intro: ready_stack.kept_deploy_claimed deploy_claimed_settled\<close>)
      next
        case False
        then show ?thesis using assms Some st k x by (cases x) (auto simp: HandleDeployStack_def GetStackByID_quiet split: if_splits)
      qed
    qed
  qed
qed

theorem failed_deploy_frees_stack_witness:
  "\<exists>code m n e w'. HandleDeployStack id (\<lambda>_. None) deploy_request (ops_world0\<lparr>stacks := [web_stack], hub := sched_hub\<lparr>hub_sessions := []\<rparr>\<rparr>) = (Failure code m n e, w') \<and>
     unclaimed 5 (stacks w')"
proof -
  let ?w = "ops_world0\<lparr>stacks := [web_stack], hub := sched_hub\<lparr>hub_sessions := []\<rparr>\<rparr>"
  have s: "select_stack 5 [web_stack] = Some web_stack" "st_WorkerID web_stack = Some 2" by (simp_all add: select_stack_def web_stack_def)
  have "\<not> worker_connected 2 ?w" by (simp add: worker_connected_def IsConnected_def)
  then obtain code m n e w' where "HandleDeployStack id (\<lambda>_. None) deploy_request ?w = (Failure code m n e, w')"
    using s deploy_request_user by (auto simp: HandleDeployStack_def deploy_request_id GetStackByID_quiet SendError_def)
  moreover have "unclaimed 5 (stacks ?w)" by (simp add: unclaimed_def web_stack_def)
  ultimately show ?thesis
    using failed_deploy_frees_stack [of ?w deploy_request 5 id "\<lambda>_. None" code m n e w'] deploy_request_id by auto
qed

section \<open>Monitors\<close>

definition silent :: "monitor \<Rightarrow> deploymentLog list \<Rightarrow> bool" where
  "silent m ls \<longleftrightarrow> (\<forall>l \<in> set ls. dl_DeploymentID l = mo_deploymentID m \<longrightarrow> isMonitorGeneratedLog (dl_Message l) \<or> dl_RecordedAt l \<le> mo_lastProgressAt m)"

definition running_rows :: "int \<Rightarrow> deployment list \<Rightarrow> bool" where
  "running_rows i ds \<longleftrightarrow> (\<exists>d \<in> set ds. dep_ID d = i) \<and> (\<forall>d \<in> set ds. dep_ID d = i \<longrightarrow> \<not> isTerminalDeploymentStatus (dep_Status d))"

text \<open>
  Monitor number \<open>k\<close> is a full one, its deployment has not settled, its stack exists, the database
  answers, and nothing but the monitor itself has logged since the last progress.
\<close>

definition stalled :: "nat \<Rightarrow> 'a ops_world_scheme \<Rightarrow> bool" where
  "stalled k w \<longleftrightarrow> k < length (o_monitors w) \<and> mo_full (o_monitors w ! k) \<and> mo_lastProgressAt (o_monitors w ! k) \<le> clock w
     \<and> ready (mo_stackID (o_monitors w ! k)) w \<and> running_rows (mo_deploymentID (o_monitors w ! k)) (w_deployments w)
     \<and> silent (o_monitors w ! k) (w_deployment_logs w)"

definition stall_turn :: "nat \<Rightarrow> 'a ops_world_scheme \<Rightarrow> 'a ops_world_scheme" where
  "stall_turn k w = tick_monitor k (w\<lparr>clock := clock w + deployStallTimeout\<rparr>)"

lemma silent_progress:
  assumes "db_script w = []" "silent m (w_deployment_logs w)"
  shows "\<exists>l. GetLatestDeploymentLog (mo_deploymentID m) w = (l, w) \<and> progress_seen m l = mo_lastProgressAt m"
proof -
  let ?ls = "rev (sort_key dl_ID (filter (\<lambda>l. dl_DeploymentID l = mo_deploymentID m) (w_deployment_logs w)))"
  have seen: "progress_seen m (Inr (Some l)) = mo_lastProgressAt m" if "l \<in> set ?ls" for l
  proof -
    from that have "l \<in> set (w_deployment_logs w)" "dl_DeploymentID l = mo_deploymentID m" by simp_all
    then show ?thesis using assms(2) by (auto simp: progress_seen_def silent_def)
  qed
  have "progress_seen m (Inr (case ?ls of [] \<Rightarrow> None | l # _ \<Rightarrow> Some l)) = mo_lastProgressAt m"
  proof (cases ?ls)
    case Nil
    then show ?thesis by (simp only: list.case) (simp add: progress_seen_def)
  next
    case (Cons l ls)
    then show ?thesis using seen [of l] by (simp only: list.case list.set insert_iff simp_thms)
  qed
  then show ?thesis using assms(1) by (simp add: GetLatestDeploymentLog_def query_quiet)
qed

lemma logs_after_write:
  assumes "db_script w = []"
  shows "\<exists>ls n. writeDeploymentLog i l m w = w\<lparr>w_deployment_logs := ls, w_next_dl := n\<rparr> \<and>
    (\<forall>x \<in> set ls. x \<in> set (w_deployment_logs w) \<or> dl_Message x = m)"
proof -
  let ?w = "writeDeploymentLog i l m w"
  have "\<forall>x \<in> set (w_deployment_logs ?w). x \<in> set (w_deployment_logs w) \<or> dl_Message x = m"
    using assms by (simp add: writeDeploymentLog_def CreateDeploymentLog_def Let_def exec_unit_quiet)
  with writeDeploymentLog_quiet [OF assms, of i l m] show ?thesis by blast
qed

lemma find_running: "running_rows i ds \<Longrightarrow> \<exists>d. List.find (\<lambda>d. dep_ID d = i) ds = Some d \<and> \<not> isTerminalDeploymentStatus (dep_Status d)"
  by (cases "List.find (\<lambda>d. dep_ID d = i) ds") (auto simp: running_rows_def find_None_iff find_Some_iff)

lemma send_shape: "\<exists>e h p. SendJSONToWorker i m w = (e, w\<lparr>hub := h, picks := p\<rparr>)"
  by (auto simp: SendJSONToWorker_def Let_def split: prod.split)

text \<open>A turn after a stall pings the worker, finds no progress, and retries or gives up.\<close>

lemma stalled_tick:
  assumes "stalled k w" "m = o_monitors w ! k" "w0 = w\<lparr>clock := clock w + deployStallTimeout\<rparr>"
  shows "\<exists>f h p. stall_turn k w = put_monitor k
      (let m1 = m\<lparr>mo_pingFailing := f\<rparr>; w1 = w0\<lparr>hub := h, picks := p\<rparr> in
       if mo_attempt m < deployMaxRetryCount then monitor_retry m1 w1
       else monitor_return m1 (failDeployment (mo_deploymentID m) (mo_stackID m) ''stalled'' None [(''attempts'', JInt (int deployMaxRetryCount))]
              (writeDeploymentLog (mo_deploymentID m) ''error''
                (''Deployment marked failed after '' @ show_nat deployMaxRetryCount @ '' stalled attempts with no progress'') w1)))"
proof -
  obtain d where d: "GetDeploymentByID (mo_deploymentID m) w0 = (Inr d, w0)" "\<not> isTerminalDeploymentStatus (dep_Status d)"
    using assms find_running [of "mo_deploymentID m" "w_deployments w"]
    by (auto simp: stalled_def ready_def GetDeploymentByID_def one_row_def query_quiet)
  obtain e h p where s: "SendJSONToWorker (mo_workerID m) (NewCommand MsgDeploymentPing [(''deployment_id'', JInt (mo_deploymentID m))]) w0 = (e, w0\<lparr>hub := h, picks := p\<rparr>)"
    using send_shape by blast
  obtain l where l: "GetLatestDeploymentLog (mo_deploymentID m) (w0\<lparr>hub := h, picks := p\<rparr>) = (l, w0\<lparr>hub := h, picks := p\<rparr>)"
      "progress_seen m l = mo_lastProgressAt m"
    using assms silent_progress [of "w0\<lparr>hub := h, picks := p\<rparr>" m] by (auto simp: stalled_def ready_def)
  have t: "\<not> clock (w0\<lparr>hub := h, picks := p\<rparr>) - mo_lastProgressAt m < deployStallTimeout"
    using assms by (simp add: stalled_def)
  have "stall_turn k w = put_monitor k (monitor_tick m w0)"
    using assms by (simp add: stall_turn_def tick_monitor_def stalled_def)
  also have "monitor_tick m w0 = (let m1 = m\<lparr>mo_pingFailing := e \<noteq> None\<rparr>; w1 = w0\<lparr>hub := h, picks := p\<rparr> in
       if mo_attempt m < deployMaxRetryCount then monitor_retry m1 w1
       else monitor_return m1 (failDeployment (mo_deploymentID m) (mo_stackID m) ''stalled'' None [(''attempts'', JInt (int deployMaxRetryCount))]
              (writeDeploymentLog (mo_deploymentID m) ''error''
                (''Deployment marked failed after '' @ show_nat deployMaxRetryCount @ '' stalled attempts with no progress'') w1)))"
    using d s l t by (simp add: monitor_tick_def Let_def)
  finally show ?thesis by blast
qed

lemma generated_retry [simp]: "isMonitorGeneratedLog (''No deployment progress detected'' @ s)"
  by (simp add: isMonitorGeneratedLog_def has_prefix_def)

lemma silent_retry:
  assumes "silent m (w_deployment_logs w)" "\<forall>x \<in> set ls. x \<in> set (w_deployment_logs w) \<or> dl_Message x = ''No deployment progress detected'' @ t"
    and "mo_deploymentID m' = mo_deploymentID m" "mo_lastProgressAt m \<le> mo_lastProgressAt m'"
  shows "silent m' ls"
  unfolding silent_def
proof (intro ballI impI)
  fix l assume "l \<in> set ls" "dl_DeploymentID l = mo_deploymentID m'"
  with assms(2) consider "l \<in> set (w_deployment_logs w)" | "dl_Message l = ''No deployment progress detected'' @ t" by blast
  then show "isMonitorGeneratedLog (dl_Message l) \<or> dl_RecordedAt l \<le> mo_lastProgressAt m'"
  proof cases
    case 1
    then have "isMonitorGeneratedLog (dl_Message l) \<or> dl_RecordedAt l \<le> mo_lastProgressAt m"
      using assms(1,3) \<open>dl_DeploymentID l = mo_deploymentID m'\<close> by (simp add: silent_def)
    then show ?thesis using assms(4) by linarith
  qed (simp only: generated_retry simp_thms)
qed

text \<open>What a retry leaves: one attempt more, and at most the hub and the log changed.\<close>

lemma monitor_retry_silent:
  assumes "db_script w = []" "silent m (w_deployment_logs w)" "mo_lastProgressAt m \<le> clock w"
  shows "\<exists>m' h p ls n. monitor_retry m w = (Some m', w\<lparr>hub := h, picks := p, w_deployment_logs := ls, w_next_dl := n\<rparr>)
    \<and> mo_attempt m' = mo_attempt m + 1 \<and> mo_deploymentID m' = mo_deploymentID m \<and> mo_stackID m' = mo_stackID m \<and> mo_full m' = mo_full m
    \<and> mo_lastProgressAt m' \<le> clock w \<and> silent m' ls"
proof -
  let ?m = "m\<lparr>mo_attempt := mo_attempt m + 1\<rparr>"
  obtain e h p where s: "SendJSONToWorker (mo_workerID m) (NewCommand MsgDeploy (retry_payload ?m)) w = (e, w\<lparr>hub := h, picks := p\<rparr>)"
    using send_shape by blast
  define t where "t = (case e of Some x \<Rightarrow> ''; retry '' @ (show_nat (Suc (mo_attempt m)) @ ''/'' @ show_nat deployMaxRetryCount) @ '' failed to dispatch: '' @ x
    | None \<Rightarrow> '' for 45s; retrying deployment ('' @ (show_nat (Suc (mo_attempt m)) @ ''/'' @ show_nat deployMaxRetryCount) @ '')'')"
  define level where "level = (case e of Some x \<Rightarrow> ''error'' | None \<Rightarrow> ''warning'')"
  obtain ls n where l: "writeDeploymentLog (mo_deploymentID m) level (''No deployment progress detected'' @ t) (w\<lparr>hub := h, picks := p\<rparr>) =
      w\<lparr>hub := h, picks := p, w_deployment_logs := ls, w_next_dl := n\<rparr>"
      "\<forall>x \<in> set ls. x \<in> set (w_deployment_logs w) \<or> dl_Message x = ''No deployment progress detected'' @ t"
    using logs_after_write [of "w\<lparr>hub := h, picks := p\<rparr>" "mo_deploymentID m" level "''No deployment progress detected'' @ t"] assms(1) by auto
  define m' where "m' = (case e of Some _ \<Rightarrow> ?m | None \<Rightarrow> ?m\<lparr>mo_lastProgressAt := clock w\<rparr>)"
  have "monitor_retry m w = (Some m', w\<lparr>hub := h, picks := p, w_deployment_logs := ls, w_next_dl := n\<rparr>)"
    using s l(1) by (cases e) (simp_all add: monitor_retry_def Let_def t_def level_def m'_def)
  moreover have "silent m' ls"
    by (rule silent_retry [OF assms(2) l(2)]) (use assms(3) in \<open>simp_all add: m'_def split: option.split\<close>)
  moreover have "mo_attempt m' = mo_attempt m + 1" "mo_deploymentID m' = mo_deploymentID m" "mo_stackID m' = mo_stackID m" "mo_full m' = mo_full m"
      "mo_lastProgressAt m' \<le> clock w"
    using assms(3) by (simp_all add: m'_def split: option.split)
  ultimately show ?thesis by blast
qed

lemma silent_ping [simp]: "silent (m\<lparr>mo_pingFailing := f\<rparr>) ls = silent m ls"
  by (simp add: silent_def)

lemma stalled_retries:
  assumes "stalled k w" "mo_attempt (o_monitors w ! k) < deployMaxRetryCount"
  shows "\<exists>m'. stalled k (stall_turn k w) \<and> o_monitors (stall_turn k w) = (o_monitors w)[k := m'] \<and> mo_attempt m' = mo_attempt (o_monitors w ! k) + 1
    \<and> mo_deploymentID m' = mo_deploymentID (o_monitors w ! k) \<and> mo_stackID m' = mo_stackID (o_monitors w ! k)"
proof -
  let ?m = "o_monitors w ! k" and ?w = "w\<lparr>clock := clock w + deployStallTimeout\<rparr>"
  obtain f h p where t: "stall_turn k w = put_monitor k (monitor_retry (?m\<lparr>mo_pingFailing := f\<rparr>) (?w\<lparr>hub := h, picks := p\<rparr>))"
    using stalled_tick [OF assms(1) refl refl] assms(2) by (auto simp: Let_def)
  have "mo_lastProgressAt ?m \<le> clock w + deployStallTimeout"
    using assms(1) by (simp add: stalled_def deployStallTimeout_def Second_def)
  then obtain m' h' p' ls n where r: "monitor_retry (?m\<lparr>mo_pingFailing := f\<rparr>) (?w\<lparr>hub := h, picks := p\<rparr>) =
      (Some m', ?w\<lparr>hub := h', picks := p', w_deployment_logs := ls, w_next_dl := n\<rparr>)"
      and m': "mo_attempt m' = mo_attempt ?m + 1" "mo_deploymentID m' = mo_deploymentID ?m" "mo_stackID m' = mo_stackID ?m" "mo_full m' = mo_full ?m"
      "mo_lastProgressAt m' \<le> clock w + deployStallTimeout" "silent m' ls"
    using monitor_retry_silent [of "?w\<lparr>hub := h, picks := p\<rparr>" "?m\<lparr>mo_pingFailing := f\<rparr>"] assms(1) by (auto simp: stalled_def ready_def)
  have k: "k < length (o_monitors w)" using assms(1) by (simp add: stalled_def)
  have "stalled k (stall_turn k w)"
    using assms(1) m' k by (simp add: t r put_monitor_def stalled_def ready_def)
  then show ?thesis using m' k by (intro exI [of _ m']) (simp add: t r put_monitor_def)
qed

lemma stalled_gives_up:
  assumes "stalled k w" "\<not> mo_attempt (o_monitors w ! k) < deployMaxRetryCount" "i = mo_deploymentID (o_monitors w ! k)"
  shows "o_monitors (stall_turn k w) = take k (o_monitors w) @ drop (Suc k) (o_monitors w)"
    and "unclaimed (mo_stackID (o_monitors w ! k)) (stacks (stall_turn k w))"
    and "\<exists>t. w_deployments (stall_turn k w) = update_where (\<lambda>d. dep_ID d = i) (set_deployment_status ''failed'' t) (w_deployments w)"
proof -
  let ?m = "o_monitors w ! k"
  let ?w = "w\<lparr>clock := clock w + deployStallTimeout\<rparr>"
  define msg where "msg = ''Deployment marked failed after '' @ show_nat deployMaxRetryCount @ '' stalled attempts with no progress''"
  obtain f h p where t: "stall_turn k w = put_monitor k (monitor_return (?m\<lparr>mo_pingFailing := f\<rparr>)
      (failDeployment (mo_deploymentID ?m) (mo_stackID ?m) ''stalled'' None [(''attempts'', JInt (int deployMaxRetryCount))]
         (writeDeploymentLog (mo_deploymentID ?m) ''error'' msg (?w\<lparr>hub := h, picks := p\<rparr>))))"
    using stalled_tick [OF assms(1) refl refl] assms(2) unfolding msg_def by (auto simp: Let_def)
  obtain ls n where l: "writeDeploymentLog (mo_deploymentID ?m) ''error'' msg (?w\<lparr>hub := h, picks := p\<rparr>) =
      ?w\<lparr>hub := h, picks := p, w_deployment_logs := ls, w_next_dl := n\<rparr>"
    using logs_after_write [of "?w\<lparr>hub := h, picks := p\<rparr>" "mo_deploymentID ?m" "''error''" msg] assms(1) by (auto simp: stalled_def ready_def)
  have r: "ready (mo_stackID ?m) (?w\<lparr>hub := h, picks := p, w_deployment_logs := ls, w_next_dl := n\<rparr>)"
    using assms(1) by (simp add: stalled_def ready_def)
  note f = failDeployment_ready [OF r] t l put_monitor_def monitor_return_def forgetRunnerDeploymentStatus_def
  show "o_monitors (stall_turn k w) = take k (o_monitors w) @ drop (Suc k) (o_monitors w)" by (simp add: f)
  show "unclaimed (mo_stackID ?m) (stacks (stall_turn k w))" by (simp add: f unclaimed_after)
  show "\<exists>t. w_deployments (stall_turn k w) = update_where (\<lambda>d. dep_ID d = i) (set_deployment_status ''failed'' t) (w_deployments w)"
    by (simp add: f assms(3)) blast
qed

definition failed_rows :: "int \<Rightarrow> deployment list \<Rightarrow> bool" where
  "failed_rows i ds \<longleftrightarrow> (\<exists>d \<in> set ds. dep_ID d = i) \<and> (\<forall>d \<in> set ds. dep_ID d = i \<longrightarrow> dep_Status d = ''failed'')"

lemma failed_rows_update:
  assumes "\<exists>d \<in> set ds. dep_ID d = i"
  shows "failed_rows i (update_where (\<lambda>d. dep_ID d = i) (set_deployment_status ''failed'' t) ds)"
proof -
  let ?f = "\<lambda>d. if dep_ID d = i then set_deployment_status ''failed'' t d else d"
  have "dep_ID (?f d) = dep_ID d" "dep_ID d = i \<Longrightarrow> dep_Status (?f d) = ''failed''" for d by (simp_all add: set_deployment_status_def)
  then show ?thesis using assms unfolding failed_rows_def set_update_where by (metis (no_types, lifting) imageE imageI)
qed


definition stalled_world :: ops_world where
  "stalled_world = ops_world0\<lparr>w_deployments := [sample_deployment 1 ''deploying''], stacks := [web_stack], w_deployment_logs := [],
     o_monitors := [\<lparr>mo_deploymentID = 1, mo_stackID = 5, mo_workerID = 2, mo_payload = [], mo_full = True, mo_started = 0, mo_attempt = 1,
       mo_lastProgressAt = 0, mo_pingFailing = False\<rparr>]\<rparr>"


section \<open>Reports that come late\<close>

definition of_stack :: "int \<Rightarrow> int \<Rightarrow> deployment list \<Rightarrow> bool" where
  "of_stack i j ds \<longleftrightarrow> (\<exists>d. List.find (\<lambda>d. dep_ID d = i) ds = Some d \<and> dep_StackID d = j)"

lemma of_stack_update:
  assumes "of_stack i j ds" "\<And>d. dep_ID (f d) = dep_ID d" "\<And>d. dep_StackID (f d) = dep_StackID d"
  shows "of_stack i j (update_where q f ds)"
proof -
  obtain d where "List.find (\<lambda>d. dep_ID d = i) ds = Some d" "dep_StackID d = j" using assms(1) by (auto simp: of_stack_def)
  then show ?thesis by (cases "q d") (simp_all add: of_stack_def find_update_where assms(2,3))
qed

lemma find_append: "List.find p (xs @ ys) = (case List.find p xs of Some x \<Rightarrow> Some x | None \<Rightarrow> List.find p ys)"
  by (induction xs) simp_all

lemma of_stack_append: "of_stack i j ds \<Longrightarrow> of_stack i j (ds @ [d])"
  by (auto simp: of_stack_def find_append)

lemma set_deployment_status_keeps [simp]: "dep_ID (set_deployment_status s t d) = dep_ID d" "dep_StackID (set_deployment_status s t d) = dep_StackID d"
  by (simp_all add: set_deployment_status_def)

interpretation ready_row: deploy_writes "\<lambda>w :: 'a ops_world_scheme. ready j w \<and> of_stack i j (w_deployments w)"
  by unfold_locales (simp_all add: ready_def has_stack_update of_stack_update of_stack_append)

lemma UpdateContainer_quiet:
  "db_script w = [] \<Longrightarrow> stacks (snd (UpdateContainer i r w)) = stacks w \<and> db_script (snd (UpdateContainer i r w)) = []"
  by (simp add: UpdateContainer_def exec_unit_quiet GetContainerByID_def one_row_def query_quiet split: option.split)

lemma set_container_statuses_quiet:
  assumes "db_script w = []"
  shows "stacks (set_container_statuses i s w) = stacks w \<and> db_script (set_container_statuses i s w) = []"
proof -
  have "stacks (fold (\<lambda>dc w. snd (UpdateContainer (dc_ContainerID dc) u w)) dcs w) = stacks w \<and>
      db_script (fold (\<lambda>dc w. snd (UpdateContainer (dc_ContainerID dc) u w)) dcs w) = []" for u and dcs :: "deploymentContainer list"
    using assms by (induction dcs arbitrary: w) (simp_all add: UpdateContainer_quiet)
  then show ?thesis using assms by (simp add: set_container_statuses_def ListDeploymentContainers_def query_quiet)
qed

lemma settle_frees:
  assumes "ready j w" "of_stack i j (w_deployments w)" "isTerminalDeploymentStatus status"
  shows "unclaimed j (stacks (settle i status step stage detail w))"
proof -
  obtain d where d: "GetDeploymentByID i w = (Inr d, w)" "dep_StackID d = j"
    using assms by (auto simp: of_stack_def ready_def GetDeploymentByID_def one_row_def query_quiet)
  let ?s = "if status = ''rolled_back'' then ''failed'' else status"
  have s: "?s \<noteq> ''deploying''" using assms(3) by (auto simp: isTerminalDeploymentStatus_def)
  let ?w = "w\<lparr>w_deployments := update_where (\<lambda>d. dep_ID d = i) (set_deployment_status status (db_time (clock w))) (w_deployments w),
      stacks := update_where (\<lambda>x. st_ID x = j) (set_stack_status ?s) (stacks w)\<rparr>"
  define w1 where "w1 = snd (settle_body d i status w)"
  have u: "UpdateDeploymentAndStackStatus i status (dep_StackID d) ?s w = (None, ?w)" unfolding d(2) using assms(1) by (rule UpdateBoth_ready)
  have "stacks w1 = stacks ?w \<and> db_script w1 = []"
    using assms(1) unfolding w1_def settle_body_def u by (simp add: ready_def set_container_statuses_quiet)
  then have w1: "settle_body d i status w = (Inr (), w1)" "unclaimed j (stacks w1)" "db_script w1 = []"
    using unclaimed_after [OF s, of j "stacks w"] unfolding w1_def settle_body_def u by simp_all
  then have "in_tx (settle_body d i status) w = (Inr (), w1)" using assms(1) by (intro in_tx_quiet) (simp_all add: ready_def)
  then show ?thesis using d(1) w1(2) by (simp add: settle_def logDeploymentFailed_def logDeploymentSucceeded_def emit_def)
qed

lemma unclaimed_claim:
  assumes "ready j w" "unclaimed j (stacks w)"
  shows "fst (ClaimStackForDeploy j w) = Inr True"
proof -
  obtain s where "s \<in> set (stacks w)" "st_ID s = j" "st_Active s" using assms(1) by (auto simp: ready_def has_stack_def)
  moreover from this have "st_Status s \<noteq> ''deploying''" using assms(2) by (simp add: unclaimed_def)
  ultimately have "list_ex (\<lambda>s. st_ID s = j \<and> fst (claim_stack () (db_time (clock w) - DeployClaimWindow) (clock w) s)) (stacks w)"
    unfolding list_ex_iff by (intro bexI [of _ s]) (simp_all add: claim_stack_def)
  then show ?thesis using assms(1) by (simp add: ClaimStackForDeploy_def exec_quiet ready_def Let_def)
qed

text \<open>
  C36. A terminal report of any deployment of a stack ends whatever claim is held on the stack, because
  the claim does not say which deployment holds it: while the database answers, a late report of an
  earlier deployment lets the next request claim the stack, although another deployment is still
  running on it.
\<close>

theorem late_report_ends_claim:
  assumes "ready j w" "of_stack i j (w_deployments w)" "payload_number trunc p ''deployment_id'' = Some i"
    and "isTerminalDeploymentStatus (payload_str p ''status'')"
  shows "fst (ClaimStackForDeploy j (handleDeploymentProgress trunc p w)) = Inr True"
proof -
  define w2 where "w2 = notify_outcome i (payload_str p ''status'') (payload_str p ''message'')
     (snd (CreateDeploymentLog \<lparr>cdl_DeploymentID = i, cdl_Level = (if payload_str p ''status'' = ''failed'' then ''error'' else ''info''),
        cdl_Stage = progress_stage (payload_str p ''step'') (payload_str p ''container_name''),
        cdl_Message = (if payload_str p ''message'' = [] then ''status='' @ payload_str p ''status'' else payload_str p ''message'')\<rparr> w))"
  have w2: "ready j w2 \<and> of_stack i j (w_deployments w2)"
    unfolding w2_def by (intro ready_row.kept_notify_outcome ready_row.kept_log) (use assms in blast)
  have "unclaimed j (stacks (handleDeploymentProgress trunc p w))"
    using assms(3,4) w2 unfolding handleDeploymentProgress_def by (simp add: Let_def settle_frees flip: w2_def)
  moreover have "ready j (handleDeploymentProgress trunc p w)" using assms(1) by (rule ready_stack.kept_progress)
  ultimately show ?thesis by (simp add: unclaimed_claim)
qed

theorem late_report_ends_claim_witness:
  "stack_holder (web_stack\<lparr>st_Status := ''deploying'', st_deploy_claimed_at := Some 0\<rparr>) = Some ((), Some 0) \<and>
   fst (ClaimStackForDeploy 5 (handleDeploymentProgress (\<lambda>_. 0) (progress 1 ''failed'')
     (claimed_world\<lparr>w_deployments := [sample_deployment 1 ''failed'', sample_deployment 2 ''deploying'']\<rparr>))) = Inr True"
proof -
  let ?w = "claimed_world\<lparr>w_deployments := [sample_deployment 1 ''failed'', sample_deployment 2 ''deploying'']\<rparr>"
  have "ready 5 ?w" "of_stack 1 5 (w_deployments ?w)"
    by (simp_all add: ready_def claimed_world_def has_stack_def web_stack_def of_stack_def sample_deployment_def)
  moreover have "payload_number (\<lambda>_. 0) (progress 1 ''failed'') ''deployment_id'' = Some 1"
    "isTerminalDeploymentStatus (payload_str (progress 1 ''failed'') ''status'')"
    by (simp_all add: payload_number_def progress_def payload_str_def isTerminalDeploymentStatus_def)
  ultimately show ?thesis
    using late_report_ends_claim [of 5 ?w 1 "\<lambda>_. 0" "progress 1 ''failed''"] by (simp add: stack_holder_def)
qed

text \<open>
  When the runtime limit of a monitor expires, the deployment is marked failed without being read
  again: while the database answers, one that has been deployed since the last tick is overwritten
  as failed.
\<close>

theorem timeout_overwrites_outcome:
  assumes "k < length (o_monitors w)" "m = o_monitors w ! k" "mo_full m" "mo_started m + deployMaxRuntime \<le> clock w"
    and "ready (mo_stackID m) w" "\<exists>d \<in> set (w_deployments w). dep_ID d = mo_deploymentID m"
  shows "failed_rows (mo_deploymentID m) (w_deployments (expire_monitor k w))"
proof -
  define msg where "msg = ''Deployment monitor timed out after 30m0s with no terminal state''"
  obtain ls n where l: "writeDeploymentLog (mo_deploymentID m) ''error'' msg w = w\<lparr>w_deployment_logs := ls, w_next_dl := n\<rparr>"
    using logs_after_write [of w "mo_deploymentID m" "''error''" msg] assms(5) by (auto simp: ready_def)
  have "ready (mo_stackID m) (w\<lparr>w_deployment_logs := ls, w_next_dl := n\<rparr>)" using assms(5) by (simp add: ready_def)
  then have "w_deployments (expire_monitor k w) =
      update_where (\<lambda>d. dep_ID d = mo_deploymentID m) (set_deployment_status ''failed'' (db_time (clock w))) (w_deployments w)"
    using assms(1-4) l
    by (simp add: expire_monitor_def monitor_timeout_def put_monitor_def monitor_return_def forgetRunnerDeploymentStatus_def failDeployment_ready Let_def
        flip: msg_def)
  then show ?thesis using failed_rows_update [OF assms(6)] by simp
qed

theorem timeout_overwrites_outcome_witness:
  "failed_rows 1 (w_deployments (expire_monitor 0
     (stalled_world\<lparr>clock := deployMaxRuntime, w_deployments := [sample_deployment 1 ''deployed'']\<rparr>)))"
proof -
  let ?w = "stalled_world\<lparr>clock := deployMaxRuntime, w_deployments := [sample_deployment 1 ''deployed'']\<rparr>"
  have "ready 5 ?w" by (simp add: ready_def stalled_world_def has_stack_def web_stack_def)
  then show ?thesis
    using timeout_overwrites_outcome [of 0 ?w "o_monitors ?w ! 0"] by (simp add: stalled_world_def sample_deployment_def)
qed

end
