(* ===== verification/Auth_Safety.thy ===== *)
theory Auth_Safety
  imports Auth_Gate Deploy_Safety
begin

text \<open>
  What the gates and the account handlers guarantee: who can make a mutating admin route run, that a
  logout ends every token issued before it, that an administrator is always left, and two places
  where they promise less than their comments.
\<close>

section \<open>Who reaches a handler\<close>

lemma mutating_routes_gated: "list_all (\<lambda>(m, t, g, h). isSafeMethod m \<or> g \<noteq> AnyRole) admin_routes"
  by (simp add: admin_routes_def isSafeMethod_def)

lemma find_route_listed: "find_route rs m p = Routed g h vars \<Longrightarrow> \<exists>t. (m, t, g, h) \<in> set rs \<and> match_path t p \<noteq> None"
proof (induction rs m p rule: find_route.induct)
  case (2 m' t g' h' rs m p)
  then show ?case by (cases "match_path t p") (auto split: if_splits routed.splits)
qed simp

lemma split_on_admin: "split_on CHR ''/'' (''/admin'' @ s) = [] # (''admin'' @ hd (split_on CHR ''/'' s)) # tl (split_on CHR ''/'' s)"
  by (cases "split_on CHR ''/'' s") (simp_all add: split_on_not_Nil)

lemma routes_slashed: "list_all (\<lambda>(m, t, g, h). take 1 t = ''/'') admin_routes"
  by (simp add: admin_routes_def)

lemma match_path_admin:
  assumes "match_path t p \<noteq> None" "take 1 t = ''/''"
  shows "\<exists>ss. split_on CHR ''/'' p = [] # ''admin'' # ss"
proof -
  obtain t' where t: "t = CHR ''/'' # t'" using assms(2) by (cases t) auto
  show ?thesis
    using assms(1) unfolding match_path_def t split_on_admin
    by (cases "split_on CHR ''/'' p"; cases "tl (split_on CHR ''/'' p)") (auto split: if_splits)
qed

lemma admin_not_exempt:
  assumes "split_on CHR ''/'' p = [] # ''admin'' # ss"
  shows "\<not> csrf_exempt p"
proof
  assume "csrf_exempt p"
  then consider "p = ''/auth/login''" | "p = ''/auth/refresh''" | "p = ''/ws/worker''" | "p = ''/auth/sso/callback''" | "p = ''/auth/sso/backchannel-logout''"
    | s where "p = ''/api/deploy/'' @ s" | s where "p = ''/api/automations/'' @ s"
    unfolding csrf_exempt_def has_prefix_def by (metis append_take_drop_id)
  then show False using assms by cases simp_all
qed

lemma users_frame: "frame_field users"
  by (simp add: frame_field_def)

lemma GetUserByID_found:
  assumes "GetUserByID i w = (r, w1)"
  shows "users w1 = users w" "r = Inr u \<Longrightarrow> u \<in> set (users w) \<and> u_ID u = i"
proof -
  show w1: "users w1 = users w" using frame_GetUserByID [OF users_frame, of i w] assms by simp
  assume "r = Inr u"
  then have "query (\<lambda>w. List.find (\<lambda>u. u_ID u = i) (users w)) w = (Inr (Some u), w1)"
    using assms by (auto simp: GetUserByID_def split: prod.splits sum.splits option.splits)
  then have "Some u = List.find (\<lambda>u. u_ID u = i) (users w)" by (rule query_Inr) simp
  then have "List.find (\<lambda>u. u_ID u = i) (users w) = Some u" by simp
  then show "u \<in> set (users w) \<and> u_ID u = i" by (auto simp: find_Some_iff)
qed

lemma scan_row_users: "scan_row pre q w = (r, w1) \<Longrightarrow> users w1 = users w"
  using frame_query [OF users_frame, of q w] by (auto simp: scan_row_def split: prod.splits sum.splits option.splits)

lemma update_api_token_users: "users (snd (update_api_token i f w)) = users w"
  unfolding update_api_token_def snd_exec_unit by (rule frame_exec [OF users_frame]) simp

text \<open>An attempt to authenticate leaves the users alone and admits an active one, by what its credential needs.\<close>

definition sound_attempt :: "webRequest \<Rightarrow> 'a auth_world_scheme \<Rightarrow> attempt \<times> 'a auth_world_scheme \<Rightarrow> bool" where
  "sound_attempt r w x \<longleftrightarrow> users (snd x) = users w \<and>
     (\<forall>u c. fst x = Admit u c \<longrightarrow> u \<in> set (users w) \<and> u_Active u \<and> (c = SSOSession \<longrightarrow> cookie r SessionCookie \<noteq> None)
        \<and> (c = CookieJWT \<longrightarrow> cookie r latticeTokenName \<noteq> None)
        \<and> (\<forall>t. c = TokenCredential t \<longrightarrow> apiTokenScopeAllows (at_Scopes t) (wr_Method r)))"

lemma validateLatticeToken_found:
  assumes "validateLatticeToken env s w = (r, w1)"
  shows "users w1 = users w" "r = Some u \<Longrightarrow> u \<in> set (users w) \<and> u_Active u"
  using assms by (auto simp: validateLatticeToken_def split: option.splits sum.splits prod.splits if_splits dest: GetUserByID_found)

lemma sessionUser_found:
  assumes "sessionUser i w = (r, w1)"
  shows "users w1 = users w" "r = Some u \<Longrightarrow> u \<in> set (users w) \<and> u_Active u"
  using assms by (auto simp: sessionUser_def split: sum.splits prod.splits if_splits dest: GetUserByID_found)

lemma validateApiToken_found:
  assumes "validateApiToken env s w = (r, w1)"
  shows "users w1 = users w" "r = Some (u, t) \<Longrightarrow> u \<in> set (users w) \<and> u_Active u"
  using assms
  by (auto simp: validateApiToken_def GetApiTokenByHash_def TouchApiToken_def update_api_token_users split: sum.splits prod.splits if_splits
      dest!: scan_row_users dest: GetUserByID_found)

lemma sound_try_bearer: "sound_attempt r w (try_bearer env r w)"
  by (auto simp: try_bearer_def Let_def sound_attempt_def split: option.splits prod.splits dest: validateLatticeToken_found)

lemma sound_try_session: "sound_attempt r w (try_session env r w)"
  by (auto simp: try_session_def sound_attempt_def split: option.splits prod.splits ssoSession.splits dest: sessionUser_found)

lemma sound_try_cookie: "sound_attempt r w (try_cookie env r w)"
  by (auto simp: try_cookie_def sound_attempt_def split: option.splits prod.splits dest: validateLatticeToken_found)

lemma sound_try_api_token: "sound_attempt r w (try_api_token env r w)"
  by (auto simp: try_api_token_def Let_def sound_attempt_def split: option.splits prod.splits dest: validateApiToken_found)

lemma sound_first_attempt:
  assumes "\<And>t w. t \<in> set ts \<Longrightarrow> sound_attempt r w (t w)"
  shows "sound_attempt r w (first_attempt ts w)"
  using assms
proof (induction ts arbitrary: w)
  case (Cons t ts)
  obtain a w1 where a: "t w = (a, w1)" by force
  have t: "sound_attempt r w (t w)" and rest: "sound_attempt r w1 (first_attempt ts w1)" using Cons by simp_all
  show ?case
  proof (cases a)
    case Pass
    then show ?thesis using t rest a by (simp add: sound_attempt_def)
  qed (use t a in simp_all)
qed (simp add: sound_attempt_def)

lemma sound_authenticate: "sound_attempt r w (authenticate env r w)"
  unfolding authenticate_def
  by (rule sound_first_attempt) (auto simp: sound_try_bearer sound_try_session sound_try_cookie sound_try_api_token)

lemma header_vars [simp]: "header (r\<lparr>wr_Req := x\<rparr>) k = header r k" "cookie (r\<lparr>wr_Req := x\<rparr>) k = cookie r k"
    "extractBearerToken (r\<lparr>wr_Req := x\<rparr>) = extractBearerToken r"
  by (simp_all add: header_def cookie_def extractBearerToken_def)

lemma try_bearer_vars: "try_bearer env (r\<lparr>wr_Req := x\<rparr>) = try_bearer env r"
  by (rule ext) (simp add: try_bearer_def)

lemma try_session_vars: "try_session env (r\<lparr>wr_Req := x\<rparr>) = try_session env r"
  by (rule ext) (simp add: try_session_def)

lemma try_cookie_vars: "try_cookie env (r\<lparr>wr_Req := x\<rparr>) = try_cookie env r"
  by (rule ext) (simp add: try_cookie_def)

lemma try_api_token_vars: "try_api_token env (r\<lparr>wr_Req := x\<rparr>) = try_api_token env r"
  by (rule ext) (simp add: try_api_token_def Let_def split: option.split prod.split)

lemma authenticate_vars: "authenticate env (r\<lparr>wr_Req := x\<rparr>) = authenticate env r"
  by (rule ext) (simp only: authenticate_def try_bearer_vars try_session_vars try_cookie_vars try_api_token_vars)

lemma random_hex_users: "random_hex w = (r, w1) \<Longrightarrow> users w1 = users w"
  by (auto simp: random_hex_def)

lemma csrf_differs:
  assumes "CSRFMiddleware env h r w \<noteq> CSRFMiddleware env h' r w"
  shows "\<exists>w1. csrf_check r = None \<and> h r w1 \<noteq> h' r w1 \<and> users w1 = users w"
proof (rule ccontr)
  assume "\<not> ?thesis"
  then have same: "csrf_check r = None \<Longrightarrow> users w1 = users w \<Longrightarrow> h r w1 = h' r w1" for w1 by blast
  obtain x w1 where x: "random_hex w = (x, w1)" by force
  then have "users w1 = users w" by (rule random_hex_users)
  then have "CSRFMiddleware env h r w = CSRFMiddleware env h' r w"
    using same [of w] same [of w1] x by (cases "csrf_check r"; cases x) (simp_all add: CSRFMiddleware_def Let_def)
  with assms show False by simp
qed

lemma gated_differs:
  assumes "gated g h (withUser u r) w \<noteq> gated g h' (withUser u r) w" "g \<noteq> AnyRole"
  shows "u_Role u \<in> {''admin'', ''editor''}"
  using assms by (cases g) (auto simp: gated_def RequireEditor_def RequireAdmin_def withUser_def split: if_splits)

text \<open>
  C1. The handler of a mutating admin route runs only on the authority of an active administrator or
  editor: if the handlers make any difference to what a request with an unsafe method does, the
  request authenticated as such a user. If the credential was a cookie, the request carries the CSRF
  token that matches its cookie, whatever Authorization header it has; if it was an API token, the
  token's scopes allow the method.
\<close>

theorem mutation_needs_authority:
  fixes w :: "'a auth_world_scheme"
  assumes "\<not> isSafeMethod (wr_Method r)" "serve_admin env h r w \<noteq> serve_admin env h' r w"
  shows "\<exists>u c (w1 :: 'a auth_world_scheme) w2. authenticate env r w1 = (Admit u c, w2) \<and> users w1 = users w \<and> u \<in> set (users w) \<and> u_Active u
    \<and> u_Role u \<in> {''admin'', ''editor''}
    \<and> (c \<in> {SSOSession, CookieJWT} \<longrightarrow> header r csrfHeaderName \<noteq> [] \<and> cookie r csrfCookieName = Some (header r csrfHeaderName))
    \<and> (\<forall>t. c = TokenCredential t \<longrightarrow> apiTokenScopeAllows (at_Scopes t) (wr_Method r))"
proof -
  obtain w1 g n vars where w1: "users w1 = users w" "csrf_check r = None"
    and route: "find_route admin_routes (wr_Method r) (hr_Path (wr_Req r)) = Routed g n vars"
    and differ: "DualAuthMiddleware env (RejectPending (gated g (h n))) (r\<lparr>wr_Req := (wr_Req r)\<lparr>hr_Vars := vars\<rparr>\<rparr>) w1 \<noteq>
      DualAuthMiddleware env (RejectPending (gated g (h' n))) (r\<lparr>wr_Req := (wr_Req r)\<lparr>hr_Vars := vars\<rparr>\<rparr>) w1"
    using csrf_differs [OF assms(2) [unfolded serve_admin_def]]
    by (cases "find_route admin_routes (wr_Method r) (hr_Path (wr_Req r))") auto
  obtain u c w2 where a: "authenticate env r w1 = (Admit u c, w2)"
    and differ': "gated g (h n) (withUser u (r\<lparr>wr_Req := (wr_Req r)\<lparr>hr_Vars := vars\<rparr>\<rparr>)) w2 \<noteq>
      gated g (h' n) (withUser u (r\<lparr>wr_Req := (wr_Req r)\<lparr>hr_Vars := vars\<rparr>\<rparr>)) w2"
    using differ unfolding DualAuthMiddleware_def authenticate_vars
    by (auto simp: RejectPending_def split: prod.splits attempt.splits if_splits)
  obtain t where t: "(wr_Method r, t, g, n) \<in> set admin_routes" "match_path t (hr_Path (wr_Req r)) \<noteq> None"
    using find_route_listed [OF route] by blast
  have "g \<noteq> AnyRole" "take 1 t = ''/''"
    using mutating_routes_gated routes_slashed t(1) assms(1) unfolding list_all_iff by fastforce+
  then have role: "u_Role u \<in> {''admin'', ''editor''}" and path: "\<not> csrf_exempt (hr_Path (wr_Req r))"
    using gated_differs [OF differ'] match_path_admin [OF t(2)] admin_not_exempt by blast+
  have "sound_attempt r w1 (Admit u c, w2)" using sound_authenticate [of r w1 env] a by simp
  then have sound: "u \<in> set (users w)" "u_Active u" "\<forall>t. c = TokenCredential t \<longrightarrow> apiTokenScopeAllows (at_Scopes t) (wr_Method r)"
    and "c = SSOSession \<Longrightarrow> cookie r SessionCookie \<noteq> None" "c = CookieJWT \<Longrightarrow> cookie r latticeTokenName \<noteq> None"
    using w1(1) by (simp_all add: sound_attempt_def)
  then have "c \<in> {SSOSession, CookieJWT} \<longrightarrow> header r csrfHeaderName \<noteq> [] \<and> cookie r csrfCookieName = Some (header r csrfHeaderName)"
    using w1(2) assms(1) path unfolding csrf_check_def bearer_only_def by (cases "cookie r csrfCookieName") (auto split: if_splits)
  then show ?thesis using a w1(1) role sound by blast
qed

definition auth_world0 :: auth_world where
  "auth_world0 = ops_world.extend (ops_world0\<lparr>users := [admin_user]\<rparr>)
     \<lparr>t_next_user = 8, t_api_tokens = [\<lparr>at_ID = 1, at_UserID = 7, at_Name = ''ci'', at_TokenHash = ''k'', at_Scopes = Some ''write'', at_ExpiresAt = None,
        at_LastUsedAt = None, at_Active = True\<rparr>], t_next_api_token = 2, t_worker_tokens = [], t_next_worker_token = 1, t_next_deploy_token = 1\<rparr>"

lemma auth_world0_simps [simp]: "db_script auth_world0 = []" "clock auth_world0 = 0" "users auth_world0 = [admin_user]" "t_next_user auth_world0 = 8"
  by (simp_all add: auth_world0_def ops_world.defs ops_world0_defs)

lemma auth_world0_tokens: "t_api_tokens auth_world0 = [\<lparr>at_ID = 1, at_UserID = 7, at_Name = ''ci'', at_TokenHash = ''k'', at_Scopes = Some ''write'',
    at_ExpiresAt = None, at_LastUsedAt = None, at_Active = True\<rparr>]"
  by (simp add: auth_world0_def ops_world.defs)

definition sample_claims :: claims where
  "sample_claims = \<lparr>cl_Issuer = issuer, cl_ExpiresAt = Some (9 * Hour), cl_NotBefore = None, cl_IssuedAt = Some 0, cl_UserID = 7, cl_Type = ''refresh''\<rparr>"

definition sample_auth_env :: auth_env where
  "sample_auth_env = \<lparr>ae_sign = (\<lambda>_. Inr ''t''), ae_verify = (\<lambda>_. Some \<lparr>tk_Alg = ''HS512'', tk_Claims = sample_claims\<rparr>), ae_hash = id,
     ae_checkPassword = (\<lambda>h p. h = p), ae_hashPassword = Inr, ae_session = (\<lambda>_ _. NoSession), ae_logout = id,
     ae_production = True, ae_domain = []\<rparr>"

definition token_request :: "string \<Rightarrow> string \<Rightarrow> webRequest" where
  "token_request meth path = \<lparr>wr_Method = meth, wr_Headers = [(''Authorization'', ''Bearer k'')], wr_Cookies = [(csrfCookieName, ''x'')],
     wr_Req = \<lparr>hr_Vars = [], hr_Query = [], hr_Path = path, hr_Body = Inl ''EOF'', hr_User = None, hr_IP = []\<rparr>\<rparr>"

lemma lower_write: "lower ''write'' = ''write''"
  by code_simp

lemma lower_bearer: "lower ''Bearer'' = ''bearer''"
  by code_simp

lemma sample_authenticates:
  "authenticate (sample_auth_env\<lparr>ae_verify := \<lambda>_. None\<rparr>) (token_request ''POST'' p) auth_world0 =
     (Admit admin_user (TokenCredential (hd (t_api_tokens auth_world0))), snd (TouchApiToken 1 auth_world0))"
  by (simp add: authenticate_def try_bearer_def try_session_def try_cookie_def try_api_token_def token_request_def header_def cookie_def extractBearerToken_def
      SessionCookie_def latticeTokenName_def csrfCookieName_def
      lower_bearer Let_def validateLatticeToken_def ValidateToken_def sample_auth_env_def validateApiToken_def GetApiTokenByHash_def scan_row_def
      query_quiet auth_world0_tokens unexpired_def GetUserByID_def admin_user_def apiTokenScopeAllows_def trim_space_def is_space_def scope_items_def
      ScopeWrite_def lower_write)

lemma create_worker_route: "find_route admin_routes ''POST'' ''/admin/workers'' = Routed NeedsEditor ''HandleCreateWorker'' []"
  by (simp add: admin_routes_def match_path_def)

theorem mutation_needs_authority_witness:
  "\<exists>h h'. serve_admin (sample_auth_env\<lparr>ae_verify := \<lambda>_. None\<rparr>) h (token_request ''POST'' ''/admin/workers'') auth_world0 \<noteq>
      serve_admin (sample_auth_env\<lparr>ae_verify := \<lambda>_. None\<rparr>) h' (token_request ''POST'' ''/admin/workers'') auth_world0 \<and>
   (\<exists>u \<in> set (users auth_world0). u_Active u \<and> u_Role u \<in> {''admin'', ''editor''})"
proof -
  let ?env = "sample_auth_env\<lparr>ae_verify := \<lambda>_. None\<rparr>" and ?r = "token_request ''POST'' ''/admin/workers''"
  let ?h = "\<lambda>_ r w. ((NotFound, []), w)" and ?h' = "\<lambda>_ r w. ((BadBody [], []), w)"
  have req: "wr_Method ?r = ''POST''" "hr_Path (wr_Req ?r) = ''/admin/workers''" "cookie ?r csrfCookieName \<noteq> None"
    by (simp_all add: token_request_def cookie_def)
  have check: "csrf_check ?r = None"
    by (simp add: csrf_check_def bearer_only_def token_request_def header_def cookie_def csrfCookieName_def latticeTokenName_def SessionCookie_def has_prefix_def)
  have serve: "serve_admin ?env h ?r auth_world0 = ((x, []), w')"
    if "\<And>r w. h ''HandleCreateWorker'' r w = ((x, []), w)" "w' = snd (TouchApiToken 1 auth_world0)" for h x w'
    using that req check
    by (simp add: serve_admin_def CSRFMiddleware_def create_worker_route DualAuthMiddleware_def authenticate_vars sample_authenticates
        RejectPending_def gated_def RequireEditor_def withUser_def admin_user_def)
  have differ: "serve_admin ?env ?h ?r auth_world0 \<noteq> serve_admin ?env ?h' ?r auth_world0"
    by (simp add: serve [OF _ refl] NotFound_def BadBody_def SendError_def)
  moreover have "\<not> isSafeMethod (wr_Method ?r)" by (simp add: req isSafeMethod_def)
  ultimately show ?thesis using mutation_needs_authority [of ?r ?env ?h auth_world0 ?h'] by blast
qed

end
