(* ===== verification/Account_Safety.thy ===== *)
theory Account_Safety
  imports Auth_Safety
begin

text \<open>
  Sequences of account requests: every request below \<^verbatim>\<open>/admin\<close> and \<^verbatim>\<open>/auth\<close> through its middleware and its
  route, SSO sign-ins, worker authentication and the passing of time, with every SQL statement free
  to fail. The locale collects what a property of the accounts must survive; its interpretations
  are the revocation of tokens and the presence of an administrator.
\<close>

datatype account_op =
    AccAdmin webRequest
  | AccAuth webRequest
  | AccSSO bool ssoIdentity
  | AccWorker webRequest
  | AccWait nat

fun account_step :: "auth_env \<Rightarrow> account_op \<Rightarrow> 'a auth_world_scheme \<Rightarrow> 'a auth_world_scheme" where
  "account_step env (AccAdmin r) w = snd (serve_admin env (account_handlers env) r w)"
| "account_step env (AccAuth r) w = snd (serve_auth env r w)"
| "account_step env (AccSSO auto idn) w = snd (ResolveUser auto idn w)"
| "account_step env (AccWorker r) w = snd (WorkerTokenAuth env r w)"
| "account_step env (AccWait n) w = w\<lparr>clock := clock w + int n\<rparr>"

lemma user_routes_gated:
  "list_all (\<lambda>(m, t, g, h). h \<in> {''HandleUpdateUser'', ''HandleDeleteUser''} \<longrightarrow> g = NeedsAdmin) admin_routes"
  by (simp add: admin_routes_def)

named_theorems account_kept

lemma user_sets_fields:
  "u_ID (user_sets req u) = u_ID u" "u_TokensRevokedAt (user_sets req u) = u_TokensRevokedAt u"
  "u_Role (user_sets req u) = (case uu_Role req of None \<Rightarrow> u_Role u | Some v \<Rightarrow> v)"
  "u_Active (user_sets req u) = (case uu_Active req of None \<Rightarrow> u_Active u | Some v \<Rightarrow> v)"
  by (simp_all add: user_sets_def set_opt_def split: option.split)

locale account_statements =
  fixes P :: "'a auth_world_scheme \<Rightarrow> bool"
  assumes db: "P w \<Longrightarrow> clock w \<le> c \<Longrightarrow> P (w\<lparr>clock := c, db_script := sc\<rparr>)"
    and rand: "P w \<Longrightarrow> P (w\<lparr>a_drawn := m\<rparr>)"
    and audits: "P w \<Longrightarrow> P (w\<lparr>a_audits := as\<rparr>)"
    and api_tokens: "P w \<Longrightarrow> P (w\<lparr>t_api_tokens := ts, t_next_api_token := n\<rparr>)"
    and worker_tokens: "P w \<Longrightarrow> P (w\<lparr>t_worker_tokens := wts, t_next_worker_token := n\<rparr>)"
    and deploy_tokens: "P w \<Longrightarrow> P (w\<lparr>w_deploy_tokens := dts, t_next_deploy_token := n\<rparr>)"
    and insert: "P w \<Longrightarrow> P (snd (insert_user req w))"
    and revoke: "P w \<Longrightarrow>
          P (w\<lparr>users := update_where (\<lambda>u. u_ID u = i) (\<lambda>u. u\<lparr>u_TokensRevokedAt := Some (db_time (clock w))\<rparr>) (users w)\<rparr>)"
    and neutral: "P w \<Longrightarrow>
          (\<And>u. u_ID (f u) = u_ID u \<and> u_Role (f u) = u_Role u \<and> u_Active (f u) = u_Active u \<and> u_TokensRevokedAt (f u) = u_TokensRevokedAt u) \<Longrightarrow>
          P (w\<lparr>users := update_where (\<lambda>u. u_ID u = i) f (users w)\<rparr>)"
begin

lemma kept_exec:
  assumes "P w" "\<And>w. P w \<Longrightarrow> P (snd (f w))"
  shows "P (snd (exec f w))"
proof (cases "db_script w")
  case Nil
  then show ?thesis using assms by (simp add: exec_def)
next
  case (Cons x rest)
  have "P (w\<lparr>clock := clock w + int n, db_script := rest\<rparr>)" for n by (rule db [OF assms(1)]) simp
  then show ?thesis using assms(2) Cons by (cases x) (auto simp: exec_def Let_def split: stmt_outcome.split)
qed

lemma kept_query [account_kept]: "P w \<Longrightarrow> P (snd (query q w))"
  unfolding query_def by (rule kept_exec) simp_all

lemma kept_exec_unit: "P w \<Longrightarrow> (\<And>w. P w \<Longrightarrow> P (f w)) \<Longrightarrow> P (snd (exec_unit f w))"
  unfolding snd_exec_unit by (rule kept_exec) simp_all

lemma keptD: "P (snd x) \<Longrightarrow> x = (r, w1) \<Longrightarrow> P w1"
  by simp

lemma kept_scan_row [account_kept]: "P w \<Longrightarrow> P (snd (scan_row pre q w))"
  using kept_query [of w q] by (auto simp: scan_row_def split: prod.splits sum.splits option.splits)

lemma kept_wrap [account_kept]: "P (snd x) \<Longrightarrow> P (snd (wrap_err pre x))"
  by (auto simp: wrap_err_def split: prod.splits sum.splits)

lemma kept_reads [account_kept]:
  assumes "P w"
  shows "P (snd (GetUserByID i w))" "P (snd (GetUserByEmailAndAuthType e a w))" "P (snd (GetUserBySSOSubject s w))" "P (snd (CountActiveAdmins w))"
    "P (snd (ListUsers req w))" "P (snd (ListApiTokens ui w))" "P (snd (GetApiTokenByHash h w))" "P (snd (ListWorkerTokens i w))"
    "P (snd (GetWorkerTokenByHash h w))" "P (snd (ListDeployTokensByStack i w))"
proof -
  show "P (snd (GetUserByID i w))"
    using kept_query [OF assms, of "\<lambda>w. List.find (\<lambda>u. u_ID u = i) (users w)"]
    by (auto simp: GetUserByID_def split: prod.splits sum.splits option.splits)
qed (use assms in \<open>simp_all add: GetUserByEmailAndAuthType_def GetUserBySSOSubject_def CountActiveAdmins_def ListUsers_def ListApiTokens_def
    GetApiTokenByHash_def ListWorkerTokens_def GetWorkerTokenByHash_def ListDeployTokensByStack_def kept_scan_row kept_wrap kept_query\<close>)

lemma kept_touch [account_kept]: "P w \<Longrightarrow> P (snd (update_api_token i f w))"
  unfolding update_api_token_def
proof (rule kept_exec_unit)
  fix w assume "P w"
  then show "P (w\<lparr>t_api_tokens := update_where (\<lambda>t. at_ID t = i) (f (db_time (clock w))) (t_api_tokens w)\<rparr>)"
    using api_tokens [where w = w and n = "t_next_api_token w"] by simp
qed

lemma kept_touch_worker [account_kept]: "P w \<Longrightarrow> P (snd (update_worker_token i f w))"
  unfolding update_worker_token_def
proof (rule kept_exec_unit)
  fix w assume "P w"
  then show "P (w\<lparr>t_worker_tokens := update_where (\<lambda>t. wt_ID t = i) (f (db_time (clock w))) (t_worker_tokens w)\<rparr>)"
    using worker_tokens [where w = w and n = "t_next_worker_token w"] by simp
qed

lemma kept_delete_deploy_token [account_kept]: "P w \<Longrightarrow> P (snd (DeleteDeployToken i w))"
  unfolding DeleteDeployToken_def
proof (rule kept_exec_unit)
  fix w assume "P w"
  then show "P (w\<lparr>w_deploy_tokens := update_where (\<lambda>t. dt_ID t = i) (\<lambda>t. t\<lparr>dt_Active := False\<rparr>) (w_deploy_tokens w)\<rparr>)"
    using deploy_tokens [where w = w and n = "t_next_deploy_token w"] by simp
qed

lemma kept_token_writes [account_kept]:
  assumes "P w"
  shows "P (snd (DeleteApiToken i w))" "P (snd (TouchApiToken i w))" "P (snd (DeleteWorkerToken i w))" "P (snd (TouchWorkerToken i w))"
  using assms by (simp_all add: DeleteApiToken_def TouchApiToken_def DeleteWorkerToken_def TouchWorkerToken_def kept_touch kept_touch_worker)

lemma kept_then: "P (snd x) \<Longrightarrow> (\<And>r w. P w \<Longrightarrow> P (snd (g r w))) \<Longrightarrow> P (snd (case x of (r, w) \<Rightarrow> g r w))"
  by (simp add: case_prod_beta)

lemma kept_creates [account_kept]:
  assumes "P w"
  shows "P (snd (CreateApiToken i n h s e w))" "P (snd (CreateWorkerToken i n h w))" "P (snd (CreateDeployToken i n h w))" "P (snd (CreateUser req w))"
  unfolding CreateApiToken_def CreateWorkerToken_def CreateDeployToken_def CreateUser_def
  by (rule kept_then, rule kept_exec [OF assms];
      auto intro: api_tokens worker_tokens deploy_tokens insert kept_scan_row kept_reads(1) split: sum.split option.split)+

lemma kept_update_user [account_kept]:
  "P w \<Longrightarrow> (\<And>u. u_ID (f u) = u_ID u \<and> u_Role (f u) = u_Role u \<and> u_Active (f u) = u_Active u \<and> u_TokensRevokedAt (f u) = u_TokensRevokedAt u) \<Longrightarrow>
   P (snd (update_user i f w))"
  unfolding update_user_def by (rule kept_exec_unit) (auto intro: neutral)

lemma kept_revoke [account_kept]: "P w \<Longrightarrow> P (snd (RevokeUserTokens i w))"
  unfolding RevokeUserTokens_def by (rule kept_exec_unit) (auto intro: revoke)

lemma kept_UpdateUser [account_kept]: "P w \<Longrightarrow> uu_Role req = None \<Longrightarrow> uu_Active req = None \<Longrightarrow> P (snd (UpdateUser i req w))"
  unfolding UpdateUser_def
  by (auto intro!: kept_then kept_update_user kept_reads(1) simp: user_sets_fields split: option.split)

lemma kept_guards: "P w \<Longrightarrow> P (snd (update_guards r i b w))"
  unfolding update_guards_def
  by (auto split: prod.split sum.split dest!: kept_reads(1) [THEN keptD, rotated -1] kept_reads(4) [THEN keptD, rotated -1])

lemma kept_audit [account_kept]: "P w \<Longrightarrow> P (logAudit r a t i d w)"
  by (simp add: logAudit_def audits)

lemma kept_random [account_kept]: "P w \<Longrightarrow> P (snd (random_hex w))"
  by (simp add: random_hex_def rand)

lemma kept_GenerateToken [account_kept]: "P w \<Longrightarrow> P (snd (GenerateToken env w))"
  unfolding GenerateToken_def by (rule kept_then) (auto intro: kept_random split: sum.split)

end

locale account_writes = account_statements P for P :: "'a auth_world_scheme \<Rightarrow> bool" +
  assumes by_admin_update: "P w \<Longrightarrow> hr_User r = Some u \<Longrightarrow> u \<in> set (users w) \<Longrightarrow> active_admin u \<Longrightarrow> P (snd (HandleUpdateUser r w))"
    and by_admin_delete: "P w \<Longrightarrow> hr_User r = Some u \<Longrightarrow> u \<in> set (users w) \<Longrightarrow> active_admin u \<Longrightarrow> P (snd (HandleDeleteUser r w))"
begin

lemmas kept_callD =
  kept_reads [THEN keptD, rotated -1] kept_creates [THEN keptD, rotated -1] kept_token_writes [THEN keptD, rotated -1]
  kept_GenerateToken [THEN keptD, rotated -1] kept_random [THEN keptD, rotated -1] kept_revoke [THEN keptD, rotated -1]
  kept_delete_deploy_token [THEN keptD, rotated -1]

lemma kept_login: "P w \<Longrightarrow> P (snd (HandleLocalLogin env r w))"
  unfolding HandleLocalLogin_def by (auto split: prod.split sum.split option.split dest!: kept_callD)

lemma kept_refresh: "P w \<Longrightarrow> P (snd (HandleAuthRefresh env r w))"
  unfolding HandleAuthRefresh_def by (auto split: prod.split sum.split option.split dest!: kept_callD)

lemma kept_logout: "P w \<Longrightarrow> P (snd (HandleLogout env r w))"
  unfolding HandleLogout_def Let_def by (auto split: prod.split sum.split option.split dest!: kept_callD)

lemma kept_create_user: "P w \<Longrightarrow> P (snd (HandleCreateUser env r w))"
  unfolding HandleCreateUser_def Let_def by (auto split: prod.split sum.split option.split dest!: kept_callD intro: kept_audit)

lemma kept_get_users: "P w \<Longrightarrow> P (snd (HandleGetUsers r w))"
  unfolding HandleGetUsers_def by (auto split: prod.split sum.split dest!: kept_callD)

lemma kept_update_own: "P w \<Longrightarrow> uu_Role req = None \<Longrightarrow> uu_Active req = None \<Longrightarrow> P (snd (update_own u req failure w))"
  unfolding update_own_def by (auto split: prod.split sum.split dest!: kept_UpdateUser [THEN keptD, rotated -1])

lemma kept_change_password: "P w \<Longrightarrow> P (snd (change_password env u b w))"
  unfolding change_password_def by (auto split: option.split sum.split intro!: kept_update_own simp: no_user_update_def)

lemma kept_update_self: "P w \<Longrightarrow> P (snd (HandleUpdateSelf env r w))"
  unfolding HandleUpdateSelf_def
  by (auto split: prod.split sum.split option.split simp: no_user_update_def
      dest!: kept_update_own [THEN keptD, rotated -1] kept_change_password [THEN keptD, rotated -1] kept_callD intro: kept_audit)

lemma kept_token_handlers:
  assumes "P w"
  shows "P (snd (HandleCreateApiToken env r w))" "P (snd (HandleListApiTokens r w))" "P (snd (HandleDeleteApiToken r w))"
    "P (snd (HandleGetWorkerTokens r w))" "P (snd (HandleCreateWorkerToken env r w))" "P (snd (HandleDeleteWorkerToken r w))"
    "P (snd (HandleListDeployTokens r w))" "P (snd (HandleCreateDeployToken env r w))" "P (snd (HandleDeleteDeployToken r w))"
  using assms
  unfolding HandleCreateApiToken_def HandleListApiTokens_def HandleDeleteApiToken_def HandleGetWorkerTokens_def HandleCreateWorkerToken_def
    HandleDeleteWorkerToken_def HandleListDeployTokens_def HandleCreateDeployToken_def HandleDeleteDeployToken_def Let_def
  by (auto split: prod.split prod.split_asm sum.split sum.split_asm option.split option.split_asm if_splits dest!: kept_callD intro: kept_audit)

lemma kept_worker_auth: "P w \<Longrightarrow> P (snd (WorkerTokenAuth env r w))"
  unfolding WorkerTokenAuth_def Let_def by (auto split: prod.split sum.split dest!: kept_callD intro: kept_token_writes)

lemma kept_lookup_user: "P (snd x) \<Longrightarrow> P (snd (lookup_user what x))"
  by (auto simp: lookup_user_def split: prod.splits sum.splits)

lemma kept_find_identity: "P w \<Longrightarrow> P (snd (find_identity idn w))"
  unfolding find_identity_def
  by (rule kept_then) (auto intro: kept_lookup_user kept_reads split: sum.split option.split)

lemma kept_heal: "P w \<Longrightarrow> P (heal_subject idn u w)"
  by (simp add: heal_subject_def UpdateUserSSOSubject_def kept_update_user)

lemma kept_resolve: "P w \<Longrightarrow> P (snd (ResolveUser auto idn w))"
  unfolding ResolveUser_def Let_def
  by (auto split: prod.split prod.split_asm sum.split sum.split_asm option.split_asm if_splits simp: no_user_update_def
      dest!: kept_find_identity [THEN keptD, rotated -1] kept_callD intro!: kept_UpdateUser kept_heal)

lemma kept_latticeToken: "P w \<Longrightarrow> P (snd (validateLatticeToken env s w))"
  unfolding validateLatticeToken_def by (auto split: prod.split sum.split option.split dest!: kept_callD)

lemma kept_sessionUser: "P w \<Longrightarrow> P (snd (sessionUser i w))"
  unfolding sessionUser_def by (auto split: prod.split sum.split dest!: kept_callD)

lemma kept_apiToken: "P w \<Longrightarrow> P (snd (validateApiToken env s w))"
  unfolding validateApiToken_def by (auto split: prod.split sum.split dest!: kept_callD intro: kept_token_writes)

lemma kept_attempts:
  assumes "P w"
  shows "P (snd (try_bearer env r w))" "P (snd (try_session env r w))" "P (snd (try_cookie env r w))" "P (snd (try_api_token env r w))"
  using assms unfolding try_bearer_def try_session_def try_cookie_def try_api_token_def Let_def
  by (auto split: prod.split option.split ssoSession.split
      dest!: kept_latticeToken [THEN keptD, rotated -1] kept_sessionUser [THEN keptD, rotated -1] kept_apiToken [THEN keptD, rotated -1])

lemma kept_first_attempt: "P w \<Longrightarrow> (\<And>t w. t \<in> set ts \<Longrightarrow> P w \<Longrightarrow> P (snd (t w))) \<Longrightarrow> P (snd (first_attempt ts w))"
proof (induction ts arbitrary: w)
  case (Cons t ts)
  obtain a w1 where t: "t w = (a, w1)" by force
  moreover have "P (snd (t w))" using Cons.prems by simp
  ultimately have "P w1" by simp
  then have "P (snd (first_attempt ts w1))" using Cons by simp
  then show ?case using t \<open>P w1\<close> by (cases a) simp_all
qed simp

lemma kept_authenticate: "P w \<Longrightarrow> P (snd (authenticate env r w))"
  unfolding authenticate_def by (rule kept_first_attempt) (auto intro: kept_attempts)

lemma kept_DualAuth:
  assumes "P w" "\<And>u w. P w \<Longrightarrow> u \<in> set (users w) \<Longrightarrow> u_Active u \<Longrightarrow> P (snd (h (withUser u r) w))"
  shows "P (snd (DualAuthMiddleware env h r w))"
proof -
  obtain a w1 where a: "authenticate env r w = (a, w1)" by force
  then have "P w1" using kept_authenticate [OF assms(1), of env r] by simp
  moreover have "u \<in> set (users w1)" "u_Active u" if "a = Admit u c" for u c
    using sound_authenticate [of r w env] a that by (simp_all add: sound_attempt_def)
  ultimately show ?thesis using assms(2) a by (cases a) (simp_all add: DualAuthMiddleware_def)
qed

lemma kept_CSRF:
  assumes "P w" "\<And>w. P w \<Longrightarrow> P (snd (h r w))"
  shows "P (snd (CSRFMiddleware env h r w))"
proof -
  have go: "P (snd (case csrf_check r of Some resp \<Rightarrow> ((resp, cs), w) | None \<Rightarrow> (case h r w of ((resp, cs'), w1) \<Rightarrow> ((resp, cs @ cs'), w1))))"
    if "P w" for cs w using that assms(2) [OF that] by (auto split: option.split prod.split)
  obtain x w1 where x: "random_hex w = (x, w1)" by force
  then have "P w1" using kept_random [OF assms(1)] by simp
  then show ?thesis using go [OF assms(1)] go x unfolding CSRFMiddleware_def Let_def by (cases x) auto
qed

lemma kept_plain: "P (snd (f (wr_Req r) w)) \<Longrightarrow> P (snd (plain f r w))"
  by (simp add: plain_def case_prod_beta)

lemma kept_serve_auth: "P w \<Longrightarrow> P (snd (serve_auth env r w))"
  unfolding serve_auth_def Let_def
  by (rule kept_CSRF) (auto intro!: kept_DualAuth kept_plain intro: kept_login kept_refresh kept_logout kept_update_self)

lemma kept_if: "(c \<Longrightarrow> P (snd (f r w))) \<Longrightarrow> (\<not> c \<Longrightarrow> P (snd (g r w))) \<Longrightarrow> P (snd ((if c then f else g) r w))"
  by simp

lemma kept_account_handler:
  assumes "P w" "h \<notin> {''HandleUpdateUser'', ''HandleDeleteUser''}"
  shows "P (snd (account_handlers env h r w))"
  unfolding account_handlers_def
  by (intro kept_if kept_plain kept_get_users kept_create_user kept_token_handlers assms(1)) (use assms in simp_all)

lemma kept_gated_handler:
  assumes "P w" "u \<in> set (users w)" "u_Active u" "hr_User (wr_Req r) = Some u" "h \<in> {''HandleUpdateUser'', ''HandleDeleteUser''} \<Longrightarrow> g = NeedsAdmin"
  shows "P (snd (gated g (account_handlers env h) r w))"
proof (cases "h \<in> {''HandleUpdateUser'', ''HandleDeleteUser''}")
  case True
  then have "P (snd (account_handlers env h r w))" if "u_Role u = ''admin''"
    using that assms True
    by (elim insertE; simp add: account_handlers_def active_admin_def kept_plain by_admin_update by_admin_delete)
  then show ?thesis using True assms by (auto simp: gated_def RequireAdmin_def)
next
  case False
  then show ?thesis using kept_account_handler [OF assms(1) False] assms(1,4)
    by (cases g) (auto simp: gated_def RequireAdmin_def RequireEditor_def)
qed

lemma kept_serve_admin: "P w \<Longrightarrow> P (snd (serve_admin env (account_handlers env) r w))"
  unfolding serve_admin_def
proof (rule kept_CSRF)
  fix w assume w: "P w"
  show "P (snd (case find_route admin_routes (wr_Method r) (hr_Path (wr_Req r)) of
         Unrouted \<Rightarrow> ((SendError 404 ''route not found'' None, []), w)
       | WrongMethod \<Rightarrow> ((SendError 405 ''method not allowed'' None, []), w)
       | Routed g h vars \<Rightarrow>
           DualAuthMiddleware env (RejectPending (gated g (account_handlers env h))) (r\<lparr>wr_Req := (wr_Req r)\<lparr>hr_Vars := vars\<rparr>\<rparr>) w))"
  proof (cases "find_route admin_routes (wr_Method r) (hr_Path (wr_Req r))")
    case (Routed g h vars)
    then obtain t where "(wr_Method r, t, g, h) \<in> set admin_routes" using find_route_listed by blast
    then have "h \<in> {''HandleUpdateUser'', ''HandleDeleteUser''} \<Longrightarrow> g = NeedsAdmin" using user_routes_gated unfolding list_all_iff by fastforce
    then show ?thesis
      using w Routed by (auto intro!: kept_DualAuth kept_gated_handler simp: RejectPending_def withUser_def)
  qed (use w in simp_all)
qed

lemma kept_account_step: "P w \<Longrightarrow> P (account_step env x w)"
proof (cases x)
  case (AccWait n)
  assume "P w"
  from db [OF this, of "clock w + int n" "db_script w"] show ?thesis by (simp add: AccWait)
qed (simp_all add: kept_serve_admin kept_serve_auth kept_resolve kept_worker_auth)

lemma kept_account_run: "P w \<Longrightarrow> P (fold (account_step env) xs w)"
  by (induction xs arbitrary: w) (simp_all add: kept_account_step)

end

section \<open>A logout ends every earlier token\<close>

definition shut_out :: "int \<Rightarrow> time \<Rightarrow> 'a auth_world_scheme \<Rightarrow> bool" where
  "shut_out i t w \<longleftrightarrow> t \<le> db_time (clock w) \<and> i < t_next_user w \<and>
     (\<forall>u \<in> set (users w). u_ID u = i \<longrightarrow> (\<exists>at. u_TokensRevokedAt u = Some at \<and> t \<le> at))"

lemma shut_out_update:
  assumes "shut_out i t w" "\<And>u. u_ID (f u) = u_ID u"
    "\<And>u. u_TokensRevokedAt (f u) = u_TokensRevokedAt u \<or> (\<exists>at. u_TokensRevokedAt (f u) = Some at \<and> t \<le> at)"
  shows "shut_out i t (w\<lparr>users := update_where q f (users w)\<rparr>)"
proof -
  have "\<exists>at. u_TokensRevokedAt v = Some at \<and> t \<le> at" if v: "v \<in> set (update_where q f (users w))" "u_ID v = i" for v
  proof -
    obtain u where u: "u \<in> set (users w)" "v = (if q u then f u else u)" using v(1) by (auto simp: update_where_def)
    then have "u_ID u = i" using v(2) assms(2) [of u] by (simp split: if_splits)
    then have "\<exists>at. u_TokensRevokedAt u = Some at \<and> t \<le> at" using assms(1) u(1) by (simp add: shut_out_def)
    then show ?thesis using assms(3) [of u] u(2) by (cases "q u") auto
  qed
  then show ?thesis using assms(1) by (simp add: shut_out_def)
qed

interpretation shut: account_statements "shut_out i t :: 'a auth_world_scheme \<Rightarrow> bool"
proof
  fix w :: "'a auth_world_scheme" and j and f :: "user \<Rightarrow> user"
  assume w: "shut_out i t w"
  show "shut_out i t (w\<lparr>users := update_where (\<lambda>u. u_ID u = j) (\<lambda>u. u\<lparr>u_TokensRevokedAt := Some (db_time (clock w))\<rparr>) (users w)\<rparr>)"
    using w by (intro shut_out_update) (simp_all add: shut_out_def)
  assume f: "\<And>u. u_ID (f u) = u_ID u \<and> u_Role (f u) = u_Role u \<and> u_Active (f u) = u_Active u \<and> u_TokensRevokedAt (f u) = u_TokensRevokedAt u"
  show "shut_out i t (w\<lparr>users := update_where (\<lambda>u. u_ID u = j) f (users w)\<rparr>)"
    by (rule shut_out_update [OF w]) (simp_all add: f)
next
  fix w :: "'a auth_world_scheme" and c sc
  assume "shut_out i t w" "clock w \<le> c"
  then show "shut_out i t (w\<lparr>clock := c, db_script := sc\<rparr>)"
    using order_trans [OF _ db_time_mono, of t "clock w" c] by (simp add: shut_out_def)
qed (simp_all add: shut_out_def insert_user_def)

lemma shut_UpdateUser: "shut_out i t w \<Longrightarrow> shut_out i t (snd (UpdateUser j req w))"
  unfolding UpdateUser_def update_user_def
  by (auto intro!: shut.kept_then shut.kept_exec_unit shut.kept_reads(1) shut_out_update simp: user_sets_fields split: option.split)

interpretation revoked: account_writes "shut_out i t :: 'a auth_world_scheme \<Rightarrow> bool"
proof
  show "shut_out i t (snd (HandleUpdateUser r w))" if "shut_out i t w" for r and w :: "'a auth_world_scheme"
    using that unfolding HandleUpdateUser_def apply_user_update_def
    by (auto split: option.split sum.split prod.split dest!: shut.kept_guards [THEN shut.keptD, rotated -1] shut_UpdateUser [THEN shut.keptD, rotated -1]
        intro: shut.kept_audit)
  show "shut_out i t (snd (HandleDeleteUser r w))" if "shut_out i t w" for r and w :: "'a auth_world_scheme"
  proof -
    have "shut_out i t (snd (DeleteUser j w))" for j
      unfolding DeleteUser_def update_user_def using that by (intro shut.kept_exec_unit) (auto intro: shut_out_update)
    then show ?thesis using that unfolding HandleDeleteUser_def
      by (auto split: option.split prod.split dest: shut.keptD intro: shut.kept_audit)
  qed
qed

lemma shut_out_revoked_row:
  assumes "i < t_next_user w" "t \<le> db_time (clock w)"
  shows "shut_out i t (w\<lparr>users := update_where (\<lambda>u. u_ID u = i) (\<lambda>u. u\<lparr>u_TokensRevokedAt := Some (db_time (clock w))\<rparr>) (users w)\<rparr>)"
proof -
  have "\<exists>at. u_TokensRevokedAt v = Some at \<and> t \<le> at"
    if v: "v \<in> set (update_where (\<lambda>u. u_ID u = i) (\<lambda>u. u\<lparr>u_TokensRevokedAt := Some (db_time (clock w))\<rparr>) (users w))" "u_ID v = i" for v
  proof -
    obtain u where "v = (if u_ID u = i then u\<lparr>u_TokensRevokedAt := Some (db_time (clock w))\<rparr> else u)"
      using v(1) unfolding update_where_def set_map by blast
    then show ?thesis using v(2) assms(2) by (cases "u_ID u = i") simp_all
  qed
  then show ?thesis using assms by (simp add: shut_out_def)
qed

lemma RevokeUserTokens_shuts_out:
  assumes "RevokeUserTokens i w = (None, w1)" "i < t_next_user w" "t \<le> db_time (clock w)"
  shows "shut_out i t w1"
proof -
  let ?f = "\<lambda>w. w\<lparr>users := update_where (\<lambda>u. u_ID u = i) (\<lambda>u. u\<lparr>u_TokensRevokedAt := Some (db_time (clock w))\<rparr>) (users w)\<rparr>"
  have "exec (\<lambda>w. ((), ?f w)) w = (Inr (), w1)"
    using assms(1) unfolding RevokeUserTokens_def exec_unit_def by (auto split: prod.splits sum.splits)
  then obtain w0 where w0: "w0 = w\<lparr>clock := clock w0, db_script := db_script w0\<rparr>" "clock w \<le> clock w0" "w1 = snd ((), ?f w0)"
    by (rule exec_Inr)
  have next_id: "t_next_user w0 = t_next_user w" by (subst w0(1)) simp
  have "t \<le> db_time (clock w0)" using assms(3) db_time_mono [OF w0(2)] by simp
  then have "shut_out i t (?f w0)" using assms(2) by (intro shut_out_revoked_row) (simp_all only: next_id)
  then show ?thesis by (simp only: w0(3) snd_conv)
qed

lemma shut_out_revokes:
  assumes "shut_out i t w" "GetUserByID i w = (Inr u, w1)" "case cl_IssuedAt c of None \<Rightarrow> True | Some at \<Rightarrow> at \<le> t"
  shows "token_revoked u c"
proof -
  have "u \<in> set (users w)" "u_ID u = i" using GetUserByID_found [OF assms(2)] by auto
  then obtain at where "u_TokensRevokedAt u = Some at" "t \<le> at" using assms(1) by (auto simp: shut_out_def)
  then show ?thesis using assms(3) by (auto simp: token_revoked_def split: option.split)
qed

text \<open>
  C5. A revocation is final. Once the tokens of a user have been revoked (which a logout does), no
  sequence of account requests, SSO sign-ins and worker authentications, whatever statements of the
  database fail in them, lets a token issued in the second of the revocation or before it, or one
  without a date of issue, pass again: the middleware refuses it, and a refresh with it answers 401
  and sets no cookie.
\<close>

theorem revoked_tokens_stay_out:
  fixes w :: "'a auth_world_scheme"
  assumes "RevokeUserTokens i w = (None, w1)" "i < t_next_user w"
    and "\<And>t. ae_verify env s = Some t \<Longrightarrow> cl_UserID (tk_Claims t) = i \<and> (case cl_IssuedAt (tk_Claims t) of None \<Rightarrow> True | Some at \<Rightarrow> at \<le> db_time (clock w))"
    and "cookie r refreshTokenName = Some s"
  shows "fst (validateLatticeToken env s (fold (account_step env) ops w1)) = None
    \<and> (\<exists>m. fst (HandleAuthRefresh env r (fold (account_step env) ops w1)) = (SendError 401 m None, []))"
proof
  let ?w = "fold (account_step env) ops w1"
  have out: "shut_out i (db_time (clock w)) ?w"
    by (rule revoked.kept_account_run) (rule RevokeUserTokens_shuts_out [OF assms(1,2) order_refl])
  have claims: "cl_UserID c = i \<and> (case cl_IssuedAt c of None \<Rightarrow> True | Some at \<Rightarrow> at \<le> db_time (clock w))" if "ValidateToken env n s = Some c" for n c
    using that assms(3) by (cases "ae_verify env s") (auto simp: ValidateToken_def Let_def split: if_splits)
  have revoked: "token_revoked u c" if "ValidateToken env n s = Some c" "GetUserByID (cl_UserID c) ?w = (Inr u, w2)" for n c u w2
    using shut_out_revokes [OF out] claims [OF that(1)] that(2) by blast
  show "fst (validateLatticeToken env s ?w) = None"
    using revoked unfolding validateLatticeToken_def by (auto split: option.split prod.split sum.split)
  show "\<exists>m. fst (HandleAuthRefresh env r ?w) = (SendError 401 m None, [])"
    using revoked unfolding HandleAuthRefresh_def by (auto simp: assms(4) split: option.split prod.split sum.split)
qed

definition refresh_request :: webRequest where
  "refresh_request = \<lparr>wr_Method = ''POST'', wr_Headers = [], wr_Cookies = [(refreshTokenName, ''s'')],
     wr_Req = \<lparr>hr_Vars = [], hr_Query = [], hr_Path = ''/auth/refresh'', hr_Body = Inl ''EOF'', hr_User = None, hr_IP = []\<rparr>\<rparr>"

text \<open>The refresh token of the sample account opens a session before the logout and none in the same second.\<close>

theorem revoked_tokens_stay_out_witness:
  "snd (fst (HandleAuthRefresh sample_auth_env refresh_request auth_world0)) \<noteq> []
   \<and> (\<exists>m. fst (HandleAuthRefresh sample_auth_env refresh_request
        (fold (account_step sample_auth_env) [AccWait 5, AccAuth refresh_request] (snd (RevokeUserTokens 7 auth_world0)))) = (SendError 401 m None, []))"
proof
  show "snd (fst (HandleAuthRefresh sample_auth_env refresh_request auth_world0)) \<noteq> []"
    by (simp add: HandleAuthRefresh_def refresh_request_def cookie_def ValidateToken_def sample_auth_env_def sample_claims_def Hour_def Minute_def Second_def
        GetUserByID_def query_quiet admin_user_def token_revoked_def NewAccessToken_def NewRefreshToken_def session_cookies_def)
  have "RevokeUserTokens 7 auth_world0 = (None, snd (RevokeUserTokens 7 auth_world0))"
    by (simp add: RevokeUserTokens_def exec_unit_quiet)
  then show "\<exists>m. fst (HandleAuthRefresh sample_auth_env refresh_request
        (fold (account_step sample_auth_env) [AccWait 5, AccAuth refresh_request] (snd (RevokeUserTokens 7 auth_world0)))) = (SendError 401 m None, [])"
    by (rule revoked_tokens_stay_out [THEN conjunct2])
      (simp_all add: sample_auth_env_def sample_claims_def refresh_request_def cookie_def db_time_def truncate_to_def)
qed

section \<open>An administrator is left\<close>

definition admins_ok :: "user list \<Rightarrow> int \<Rightarrow> bool" where
  "admins_ok us n \<longleftrightarrow> distinct (map u_ID us) \<and> (\<forall>i \<in> set (map u_ID us). i < n) \<and> (\<exists>u \<in> set us. active_admin u)"

definition admin_left :: "'a auth_world_scheme \<Rightarrow> bool" where
  "admin_left w \<longleftrightarrow> admins_ok (users w) (t_next_user w)"

lemma admins_ok_update:
  assumes "admins_ok us n" "\<And>u. u_ID (f u) = u_ID u" "u \<in> set us" "active_admin u" "u_ID u = i \<Longrightarrow> active_admin (f u)"
  shows "admins_ok (update_where (\<lambda>u. u_ID u = i) f us) n"
proof -
  have ids: "map u_ID (update_where (\<lambda>u. u_ID u = i) f us) = map u_ID us" by (simp add: update_where_map_key assms(2))
  have "(if u_ID u = i then f u else u) \<in> set (update_where (\<lambda>u. u_ID u = i) f us)"
    unfolding set_update_where by (rule imageI) (rule assms(3))
  moreover have "active_admin (if u_ID u = i then f u else u)" using assms(4,5) by (cases "u_ID u = i") simp_all
  ultimately show ?thesis using assms(1) unfolding admins_ok_def ids by blast
qed

lemma admins_ok_neutral:
  assumes "admins_ok us n" "\<And>u. u_ID (f u) = u_ID u \<and> u_Role (f u) = u_Role u \<and> u_Active (f u) = u_Active u"
  shows "admins_ok (update_where (\<lambda>u. u_ID u = i) f us) n"
proof -
  obtain u where "u \<in> set us" "active_admin u" using assms(1) unfolding admins_ok_def by blast
  then show ?thesis by (intro admins_ok_update [OF assms(1)]) (simp_all add: assms(2) active_admin_def)
qed

lemma admins_ok_insert: "admins_ok us n \<Longrightarrow> u_ID u = n \<Longrightarrow> admins_ok (us @ [u]) (n + 1)"
  unfolding admins_ok_def by (auto simp: less_le)

lemma update_user_writes:
  "users (snd (update_user i f w)) \<in> {users w, update_where (\<lambda>u. u_ID u = i) f (users w)} \<and> t_next_user (snd (update_user i f w)) = t_next_user w"
proof -
  let ?f = "\<lambda>w. ((), w\<lparr>users := update_where (\<lambda>u. u_ID u = i) f (users w)\<rparr>)"
  have same: "users w0 = users w" "t_next_user w0 = t_next_user w" if "w0 = w\<lparr>clock := clock w0, db_script := db_script w0\<rparr>" for w0
    by (subst that, simp)+
  show ?thesis
  proof (cases rule: exec_cases [where w = w and f = ?f])
    case (applied w0)
    show ?thesis by (simp add: update_user_def snd_exec_unit applied(3) same [OF applied(1)])
  next
    case (refused w0)
    show ?thesis by (simp add: update_user_def snd_exec_unit refused(3) same [OF refused(1)])
  next
    case (lost w0)
    show ?thesis by (simp add: update_user_def snd_exec_unit lost(3) same [OF lost(1)])
  qed
qed

lemma admin_left_update_user:
  assumes "admin_left w" "\<And>u. u_ID (f u) = u_ID u" "u \<in> set (users w)" "active_admin u" "u_ID u = i \<Longrightarrow> active_admin (f u)"
  shows "admin_left (snd (update_user i f w))"
  using update_user_writes [of i f w] admins_ok_update [of "users w" "t_next_user w" f u i] assms
  unfolding admin_left_def by (elim conjE insertE) simp_all

interpretation adm: account_statements "admin_left :: 'a auth_world_scheme \<Rightarrow> bool"
proof
  fix w :: "'a auth_world_scheme" and j and f :: "user \<Rightarrow> user" and req
  assume w: "admin_left w"
  show "admin_left (w\<lparr>users := update_where (\<lambda>u. u_ID u = j) (\<lambda>u. u\<lparr>u_TokensRevokedAt := Some (db_time (clock w))\<rparr>) (users w)\<rparr>)"
    using w by (simp add: admin_left_def admins_ok_neutral)
  show "admin_left (snd (insert_user req w))"
    using w by (simp add: admin_left_def insert_user_def admins_ok_insert)
  assume f: "\<And>u. u_ID (f u) = u_ID u \<and> u_Role (f u) = u_Role u \<and> u_Active (f u) = u_Active u \<and> u_TokensRevokedAt (f u) = u_TokensRevokedAt u"
  show "admin_left (w\<lparr>users := update_where (\<lambda>u. u_ID u = j) f (users w)\<rparr>)"
    using w by (simp add: admin_left_def admins_ok_neutral f)
qed (simp_all add: admin_left_def)

lemma query_users: "query q w = (x, w1) \<Longrightarrow> users w1 = users w"
  using frame_query [OF users_frame, of q w] by simp

lemma update_guards_users: "users (snd (update_guards r i b w)) = users w"
  unfolding update_guards_def CountActiveAdmins_def
  by (auto split: prod.split sum.split dest!: GetUserByID_found(1) query_users)

lemma update_guards_spare_self:
  assumes "update_guards r i b w = (None, w1)" "hr_User r = Some u" "u_ID u = i" "u \<in> set (users w)" "distinct (map u_ID (users w))"
  shows "\<not> losing_admin b u"
proof -
  obtain target w2 where t: "GetUserByID i w = (Inr target, w2)" "\<not> losing_admin b target"
    using assms(1-3) by (auto simp: update_guards_def split: prod.splits sum.splits if_splits)
  then have "target \<in> set (users w)" "u_ID target = i" using GetUserByID_found [OF t(1)] by auto
  then have "target = u" using assms(3,4,5) by (metis eq_key_imp_eq_value distinct_map inj_onD)
  then show ?thesis using t(2) by simp
qed

interpretation administered: account_writes "admin_left :: 'a auth_world_scheme \<Rightarrow> bool"
proof
  fix w :: "'a auth_world_scheme" and r :: httpRequest and u
  assume w: "admin_left w" and u: "hr_User r = Some u" "u \<in> set (users w)" "active_admin u"
  have distinct: "distinct (map u_ID (users w))" using w by (simp add: admin_left_def admins_ok_def)
  have update: "admin_left (snd (apply_user_update r i b w1))" if g: "update_guards r i b w = (None, w1)" for i b w1
  proof -
    let ?req = "no_user_update\<lparr>uu_Name := ub_Name b, uu_Role := ub_Role b, uu_Active := ub_Active b\<rparr>"
    have w1: "admin_left w1" "u \<in> set (users w1)"
      using adm.kept_guards [OF w, of r i b] update_guards_users [of r i b w] g u(2) by simp_all
    have "active_admin (user_sets ?req u)" if "u_ID u = i"
      using update_guards_spare_self [OF g u(1) that u(2) distinct] u(3)
      by (auto simp: losing_admin_def active_admin_def user_sets_fields no_user_update_def split: option.splits)
    then have "admin_left (snd (update_user i (user_sets ?req) w1))"
      using w1 u(3) by (intro admin_left_update_user) (simp_all add: user_sets_fields)
    then have "admin_left (snd (UpdateUser i ?req w1))"
      using w1 unfolding UpdateUser_def
      by (auto split: prod.split option.split dest!: adm.keptD [rotated] intro: adm.kept_reads(1))
    then show ?thesis unfolding apply_user_update_def by (auto split: prod.split sum.split intro: adm.kept_audit)
  qed
  show "admin_left (snd (HandleUpdateUser r w))"
    unfolding HandleUpdateUser_def
    using w adm.kept_guards [OF w] update by (auto split: option.split sum.split prod.split dest!: adm.keptD [rotated])
  have "admin_left (snd (DeleteUser i w))" if "u_ID u \<noteq> i" for i
    unfolding DeleteUser_def by (rule admin_left_update_user [OF w _ u(2,3)]) (use that in simp_all)
  then show "admin_left (snd (HandleDeleteUser r w))"
    unfolding HandleDeleteUser_def using w u(1)
    by (auto split: option.split prod.split dest!: adm.keptD [rotated] intro: adm.kept_audit)
qed

text \<open>
  C16. An administrator is always left. Requests are served one after the other, each through its
  middleware and its route, with SSO sign-ins, worker authentications and waiting between them and
  any database statement free to fail or to lose its answer: as long as there is one active
  administrator at the beginning, there is one at the end.
\<close>

theorem an_admin_remains:
  fixes w :: "'a auth_world_scheme"
  assumes "distinct (map u_ID (users w))" "\<forall>u \<in> set (users w). u_ID u < t_next_user w" "\<exists>u \<in> set (users w). active_admin u"
  shows "\<exists>u \<in> set (users (fold (account_step env) ops w)). active_admin u"
proof -
  have "admin_left w" using assms by (simp add: admin_left_def admins_ok_def)
  then have "admin_left (fold (account_step env) ops w)" by (rule administered.kept_account_run)
  then show ?thesis by (simp add: admin_left_def admins_ok_def)
qed

theorem an_admin_remains_witness:
  "\<exists>u \<in> set (users (fold (account_step sample_auth_env)
      [AccAdmin (token_request ''DELETE'' ''/admin/users/7''), AccWait 3, AccAuth refresh_request] auth_world0)). active_admin u"
  by (rule an_admin_remains) (simp_all add: admin_user_def active_admin_def)

lemma find_own_id: "x \<in> set us \<Longrightarrow> distinct (map u_ID us) \<Longrightarrow> List.find (\<lambda>u. u_ID u = u_ID x) us = Some x"
  by (induction us) (auto simp: image_iff)

text \<open>
  C37. Checked one request at a time only. When two administrators demote each other, each request
  reading the users before the other writes, both pass the guards, the count of administrators
  included, and nobody is an administrator afterwards.
\<close>

theorem crossed_demotions_leave_no_admin:
  assumes "db_script w = []" "distinct (map u_ID (users w))" "filter active_admin (users w) = [a, b]"
    and "hr_User ra = Some a" "hr_User rb = Some b" "ub_Role body = Some ''viewer''"
  shows "update_guards ra (u_ID b) body w = (None, w) \<and> update_guards rb (u_ID a) body w = (None, w)
    \<and> \<not> (\<exists>u \<in> set (users (snd (apply_user_update rb (u_ID a) body (snd (apply_user_update ra (u_ID b) body w))))). active_admin u)"
proof -
  let ?req = "no_user_update\<lparr>uu_Name := ub_Name body, uu_Role := ub_Role body, uu_Active := ub_Active body\<rparr>"
  have in_users: "a \<in> set (users w)" "b \<in> set (users w)" and admins: "active_admin a" "active_admin b"
    and only: "u \<in> set (users w) \<Longrightarrow> active_admin u \<Longrightarrow> u = a \<or> u = b" for u
    using arg_cong [OF assms(3), of set] by auto
  have "distinct [a, b]" using assms(2,3) distinct_filter [of "users w" active_admin] by (simp add: distinct_map)
  then have ids: "u_ID a \<noteq> u_ID b" using assms(2) in_users by (auto simp: distinct_map dest: inj_onD)
  have found: "List.find (\<lambda>u. u_ID u = u_ID x) (users w) = Some x" if "x \<in> set (users w)" for x
    using that assms(2) by (rule find_own_id)
  have get: "GetUserByID (u_ID x) w = (Inr x, w)" if "x \<in> set (users w)" for x
    using found [OF that] assms(1) by (simp add: GetUserByID_def query_quiet)
  have count: "CountActiveAdmins w = (Inr 2, w)" by (simp add: CountActiveAdmins_def query_quiet assms(1,3))
  have guards: "update_guards r (u_ID x) body w = (None, w)" if "x \<in> set (users w)" "hr_User r = Some y" "u_ID y \<noteq> u_ID x" for r x y
    using that assms(6) by (simp add: update_guards_def role_known_def get count)
  have apply_users: "users (snd (apply_user_update r i body v)) = update_where (\<lambda>u. u_ID u = i) (user_sets ?req) (users v)
      \<and> db_script (snd (apply_user_update r i body v)) = []" if "db_script v = []" for r i and v :: "'a auth_world_scheme"
    using that assms(6)
    by (auto simp: apply_user_update_def UpdateUser_def update_user_def no_user_update_def exec_unit_quiet GetUserByID_def query_quiet logAudit_def
        split: prod.split sum.split option.split)
  have "\<not> active_admin x" if x: "x \<in> set (update_where (\<lambda>u. u_ID u = u_ID a) (user_sets ?req) (update_where (\<lambda>u. u_ID u = u_ID b) (user_sets ?req) (users w)))" for x
  proof -
    obtain u where u: "u \<in> set (users w)" "x = (let v = (if u_ID u = u_ID b then user_sets ?req u else u) in if u_ID v = u_ID a then user_sets ?req v else v)"
      using x unfolding set_update_where Let_def by blast
    then show ?thesis using only [OF u(1)] assms(6)
      by (cases "u_ID u = u_ID b"; cases "u_ID u = u_ID a") (auto simp: Let_def user_sets_fields active_admin_def no_user_update_def)
  qed
  then show ?thesis
    using guards [OF in_users(2) assms(4) ids] guards [OF in_users(1) assms(5) ids [symmetric]] apply_users assms(1) by simp
qed

definition two_admins :: auth_world where
  "two_admins = auth_world0\<lparr>users := [admin_user, admin_user\<lparr>u_ID := 8, u_Email := ''b@x.io''\<rparr>], t_next_user := 9\<rparr>"

definition put_user :: "user \<Rightarrow> httpRequest" where
  "put_user u = \<lparr>hr_Vars = [], hr_Query = [], hr_Path = ''/admin/users'', hr_Body = Inl ''EOF'', hr_User = Some u, hr_IP = []\<rparr>"

theorem crossed_demotions_leave_no_admin_witness:
  "CountActiveAdmins two_admins = (Inr 2, two_admins) \<and>
   (let b = admin_user\<lparr>u_ID := 8, u_Email := ''b@x.io''\<rparr>; body = \<lparr>ub_Name = None, ub_Role = Some ''viewer'', ub_Active = None\<rparr>
    in \<not> (\<exists>u \<in> set (users (snd (apply_user_update (put_user b) 7 body (snd (apply_user_update (put_user admin_user) 8 body two_admins))))). active_admin u))"
proof -
  have "filter active_admin (users two_admins) = [admin_user, admin_user\<lparr>u_ID := 8, u_Email := ''b@x.io''\<rparr>]"
    by (simp add: two_admins_def admin_user_def active_admin_def)
  moreover have "db_script two_admins = []" by (simp add: two_admins_def)
  ultimately show ?thesis
    using crossed_demotions_leave_no_admin [of two_admins admin_user "admin_user\<lparr>u_ID := 8, u_Email := ''b@x.io''\<rparr>" "put_user admin_user"
        "put_user (admin_user\<lparr>u_ID := 8, u_Email := ''b@x.io''\<rparr>)" "\<lparr>ub_Name = None, ub_Role = Some ''viewer'', ub_Active = None\<rparr>"]
    by (simp add: CountActiveAdmins_def query_quiet put_user_def two_admins_def admin_user_def)
qed

text \<open>
  The address counts more than the subject. An identity with a subject that no account has, but
  with the address of an SSO account that belongs to another subject, signs in as that account, and
  the account keeps the subject it had.
\<close>

theorem email_overrides_subject:
  assumes "db_script w = []" "id_Email idn \<noteq> []" "\<forall>v \<in> set (users w). u_SSOSubject v \<noteq> Some (id_Subject idn)"
    and "List.find (\<lambda>u. u_Email u = id_Email idn \<and> u_AuthType u = ''sso'') (users w) = Some u"
    and "u_SSOSubject u = Some s" "s \<noteq> id_Subject idn" "\<not> LooksLikeEmail s" "u_Active u" "id_Picture idn = None"
  shows "ResolveUser auto idn w = (Inr (u_ID u), w)"
proof -
  have "List.find (\<lambda>v. u_SSOSubject v = Some (id_Subject idn)) (users w) = None" using assms(3) by (simp add: find_None_iff)
  moreover have "is_no_rows (''failed to scan user: '' @ no_rows)" by code_simp
  ultimately have "find_identity idn w = (Inr (Some u), w)"
    using assms(1,4) by (simp add: find_identity_def lookup_user_def GetUserBySSOSubject_def GetUserByEmailAndAuthType_def scan_row_def query_quiet)
  then show ?thesis using assms by (simp add: ResolveUser_def heal_subject_def opt_text_def)
qed

definition sso_user :: user where
  "sso_user = admin_user\<lparr>u_AuthType := ''sso'', u_SSOSubject := Some ''sub-1''\<rparr>"

theorem email_overrides_subject_witness:
  "ResolveUser False \<lparr>id_Subject = ''sub-2'', id_Email = u_Email sso_user, id_Name = None, id_Picture = None\<rparr> (auth_world0\<lparr>users := [sso_user]\<rparr>) =
     (Inr 7, auth_world0\<lparr>users := [sso_user]\<rparr>)"
  using email_overrides_subject [of "auth_world0\<lparr>users := [sso_user]\<rparr>" "\<lparr>id_Subject = ''sub-2'', id_Email = u_Email sso_user, id_Name = None, id_Picture = None\<rparr>"
      sso_user "''sub-1''" False]
  by (simp add: sso_user_def admin_user_def LooksLikeEmail_def)

end
