(* ===== verification/Automation_Router.thy ===== *)
theory Automation_Router
  imports Accounts Automation_Executor
begin

text \<open>
  The HTTP handlers of automations (\<^verbatim>\<open>src/routers/HandleAutomations.router.go\<close>) over the automations'
  world, with the audit rows their goroutines write and the draws of \<^verbatim>\<open>crypto/rand\<close>. Stored actions
  come from a parsed body, so a config is a JSON value or absent; an instant is shown as a number.
\<close>

section \<open>The world and the request body\<close>

record aapi_world = auto_world +
  x_audits :: "auditRequest list"
  x_rand :: "nat \<Rightarrow> go_error + string"
  x_drawn :: nat

definition audit_row ::
  "httpRequest \<Rightarrow> string \<Rightarrow> int \<Rightarrow> string \<Rightarrow> 'a aapi_world_scheme \<Rightarrow> 'a aapi_world_scheme" where
  "audit_row r action i details w =
     w\<lparr>x_audits := x_audits w @ [\<lparr>ar_UserID = map_option u_ID (hr_User r), ar_Action = action, ar_ResourceType = ''automation'',
         ar_ResourceID = Some i, ar_Details = Some details, ar_IPAddress = hr_IP r\<rparr>]\<rparr>"

definition webhook_token :: "exec_env \<Rightarrow> 'a aapi_world_scheme \<Rightarrow> (go_error + string \<times> string) \<times> 'a aapi_world_scheme" where
  "webhook_token env w =
     (let w1 = w\<lparr>x_drawn := x_drawn w + 1\<rparr> in
      case x_rand w (x_drawn w) of
        Inl e \<Rightarrow> (Inl (''failed to generate random token: '' @ e), w1)
      | Inr s \<Rightarrow> (Inr (s, ee_HashToken env s), w1))"

definition errCodeAutomationSkipped :: int where "errCodeAutomationSkipped = 4091"
definition errCodeAutomationFailed :: int where "errCodeAutomationFailed = 4240"
definition maxAutomationNameLen :: nat where "maxAutomationNameLen = 128"

record automationBody =
  bo_Name :: "string option"
  bo_Description :: "string option"
  bo_Enabled :: "bool option"
  bo_Trigger :: "automationTrigger option"
  bo_Actions :: "automationAction list option"

definition empty_body :: automationBody where
  "empty_body = \<lparr>bo_Name = None, bo_Description = None, bo_Enabled = None, bo_Trigger = None, bo_Actions = None\<rparr>"

definition trigger_fields :: "automationTrigger body_field list" where
  "trigger_fields =
     [(''type'', into store_string tr_Type (\<lambda>x c. c\<lparr>tr_Type := x\<rparr>)),
      (''cron'', into store_string tr_Cron (\<lambda>x c. c\<lparr>tr_Cron := x\<rparr>))]"

definition action_fields :: "automationAction body_field list" where
  "action_fields =
     [(''type'', into store_string ac_Type (\<lambda>x c. c\<lparr>ac_Type := x\<rparr>)),
      (''continue_on_error'', into store_bool ac_ContinueOnError (\<lambda>x c. c\<lparr>ac_ContinueOnError := x\<rparr>)),
      (''config'', (\<lambda>_ v c. (None, c\<lparr>ac_Config := Raw v\<rparr>)))]"

definition store_actions :: "string \<Rightarrow> json \<Rightarrow> automationAction list \<Rightarrow> go_error option \<times> automationAction list" where
  "store_actions field v old =
     (case v of
        JList vs \<Rightarrow> store_each (\<lambda>c x. store_struct ''structs.AutomationAction'' action_fields field x c)
                      \<lparr>ac_Type = [], ac_ContinueOnError = False, ac_Config = RawEmpty\<rparr> vs
      | JNull \<Rightarrow> (None, [])
      | _ \<Rightarrow> (Some (type_error (json_kind v) field ''[]structs.AutomationAction''), old))"

definition automationBody_fields :: "automationBody body_field list" where
  "automationBody_fields =
     [(''name'', into (store_ptr store_string []) bo_Name (\<lambda>x b. b\<lparr>bo_Name := x\<rparr>)),
      (''description'', into (store_ptr store_string []) bo_Description (\<lambda>x b. b\<lparr>bo_Description := x\<rparr>)),
      (''enabled'', into (store_ptr store_bool False) bo_Enabled (\<lambda>x b. b\<lparr>bo_Enabled := x\<rparr>)),
      (''trigger'', into (store_ptr (store_struct ''structs.AutomationTrigger'' trigger_fields) \<lparr>tr_Type = [], tr_Cron = []\<rparr>) bo_Trigger
         (\<lambda>x b. b\<lparr>bo_Trigger := x\<rparr>)),
      (''actions'', into (store_ptr store_actions []) bo_Actions (\<lambda>x b. b\<lparr>bo_Actions := x\<rparr>))]"

definition validateAutomationName :: "string \<Rightarrow> go_error + string" where
  "validateAutomationName raw =
     (let name = trim_space raw in
      if name = [] then Inl ''name is required''
      else if length name > maxAutomationNameLen then Inl (''name must be at most '' @ show_nat maxAutomationNameLen @ '' characters'')
      else Inr name)"

definition cleanDescription :: "string option \<Rightarrow> string option" where
  "cleanDescription raw =
     (case raw of None \<Rightarrow> None | Some s \<Rightarrow> if trim_space s = [] then None else Some (trim_space s))"

definition normaliseTrigger :: "automationTrigger \<Rightarrow> automationTrigger" where
  "normaliseTrigger t = t\<lparr>tr_Cron := join_with '' '' (str_fields (tr_Cron t))\<rparr>"

section \<open>What a caller is shown\<close>

definition raw_json :: "rawMessage \<Rightarrow> json" where
  "raw_json r = (case r of Raw v \<Rightarrow> v | _ \<Rightarrow> JNull)"

definition action_json :: "automationAction \<Rightarrow> json" where
  "action_json a = JObj [(''type'', JStr (ac_Type a)), (''continue_on_error'', JBool (ac_ContinueOnError a)), (''config'', raw_json (ac_Config a))]"

definition trigger_json :: "automationTrigger \<Rightarrow> json" where
  "trigger_json t = JObj ([(''type'', JStr (tr_Type t))] @ (if tr_Cron t = [] then [] else [(''cron'', JStr (tr_Cron t))]))"

fun show_run_status :: "automationRunStatus \<Rightarrow> string" where
  "show_run_status AutomationRunInProgress = ''in_progress''"
| "show_run_status AutomationRunSucceeded = ''succeeded''"
| "show_run_status AutomationRunFailed = ''failed''"
| "show_run_status AutomationRunSkipped = ''skipped''"

fun show_step_status :: "automationStepStatus \<Rightarrow> string" where
  "show_step_status AutomationStepPending = ''pending''"
| "show_step_status AutomationStepSucceeded = ''succeeded''"
| "show_step_status AutomationStepFailed = ''failed''"
| "show_step_status AutomationStepSkipped = ''skipped''"

fun show_result :: "run_result \<Rightarrow> string" where
  "show_result ResultSucceeded = ''succeeded''"
| "show_result ResultFailed = ''failed''"
| "show_result ResultSkipped = ''skipped''"
| "show_result ResultDisabled = ''disabled''"

definition step_json :: "automationStepResult \<Rightarrow> json" where
  "step_json s = JObj
     ([(''step'', JInt (sr_Step s)), (''type'', JStr (sr_Type s)), (''status'', JStr (show_step_status (sr_Status s))),
       (''continue_on_error'', JBool (sr_ContinueOnError s)), (''summary'', JStr (sr_Summary s))] @
      (case sr_Error s of None \<Rightarrow> [] | Some e \<Rightarrow> [(''error'', JStr e)]) @
      (case sr_StartedAt s of None \<Rightarrow> [] | Some t \<Rightarrow> [(''started_at'', JInt t)]) @
      [(''duration_ms'', JInt (sr_DurationMs s))])"

definition run_json :: "automationRun \<Rightarrow> json" where
  "run_json r = JObj
     [(''id'', JInt (rn_ID r)), (''automation_id'', JInt (rn_AutomationID r)), (''trigger_source'', JStr (show_source (rn_TriggerSource r))),
      (''trigger_detail'', opt_str (rn_TriggerDetail r)), (''scheduled_at'', opt_json (rn_ScheduledAt r)),
      (''status'', JStr (show_run_status (rn_Status r))), (''skip_reason'', opt_str (rn_SkipReason r)), (''failed_step'', opt_json (rn_FailedStep r)),
      (''error'', opt_str (rn_Error r)), (''steps'', JList (map step_json (rn_Steps r))), (''run_as_user_id'', opt_json (rn_RunAsUserID r)),
      (''triggered_by'', opt_json (rn_TriggeredBy r)), (''started_at'', JInt (rn_StartedAt r)), (''finished_at'', opt_json (rn_FinishedAt r)),
      (''inserted_at'', JInt (rn_InsertedAt r)), (''updated_at'', JInt (rn_UpdatedAt r))]"

definition outcome_data :: "outcome \<Rightarrow> apiData" where
  "outcome_data oc = DataMap [(''result'', JStr (show_result (oc_Result oc))), (''run'', run_json (oc_Run oc))]"

record automationActor =
  aa_ID :: int
  aa_Email :: string
  aa_Name :: "string option"
  aa_Role :: string
  aa_Active :: bool

definition actor_json :: "automationActor \<Rightarrow> json" where
  "actor_json a = JObj [(''id'', JInt (aa_ID a)), (''email'', JStr (aa_Email a)), (''name'', opt_str (aa_Name a)), (''role'', JStr (aa_Role a)),
     (''active'', JBool (aa_Active a))]"

text \<open>The row as decorated for a caller.\<close>

record automationView =
  av_Automation :: automation
  av_RunAs :: "automationActor option"
  av_LastRun :: "automationRun option"

definition view_json :: "automationView \<Rightarrow> (string \<times> json) list" where
  "view_json v =
     (let a = av_Automation v in
      [(''id'', JInt (au_ID a)), (''name'', JStr (au_Name a)), (''description'', opt_str (au_Description a)), (''enabled'', JBool (au_Enabled a)),
       (''trigger'', trigger_json (au_Trigger a)), (''actions'', JList (map action_json (au_Actions a))),
       (''webhook_last_used_at'', opt_json (au_WebhookLastUsedAt a)), (''run_as_user_id'', JInt (au_RunAsUserID a)),
       (''created_by'', JInt (au_CreatedBy a)), (''running_run_id'', opt_json (au_RunningRunID a)), (''running_since'', opt_json (au_RunningSince a)),
       (''active'', JBool (au_Active a)), (''updated_at'', JInt (au_UpdatedAt a)), (''inserted_at'', JInt (au_InsertedAt a))] @
      (case av_RunAs v of None \<Rightarrow> [] | Some x \<Rightarrow> [(''run_as'', actor_json x)]) @
      (case av_LastRun v of None \<Rightarrow> [] | Some r \<Rightarrow> [(''last_run'', run_json r)]))"

definition withToken :: "automationView \<Rightarrow> string \<Rightarrow> apiData" where
  "withToken v token =
     DataMap (view_json v @ (if token = [] then [] else [(''webhook_token'', JStr token), (''webhook_path'', JStr (''/api/automations/'' @ token))]))"

type_synonym actor_cache = "int \<rightharpoonup> automationActor option"

definition decorateAutomation ::
  "user option \<Rightarrow> automationRun option \<Rightarrow> automation \<Rightarrow> actor_cache \<Rightarrow> 'a auto_world_scheme \<Rightarrow> automationView \<times> actor_cache \<times> 'a auto_world_scheme" where
  "decorateAutomation viewer latest a actors w =
     (let (actor, actors1, w1) =
            (case actors (au_RunAsUserID a) of
               Some x \<Rightarrow> (x, actors, w)
             | None \<Rightarrow>
                 (case GetUserByID (au_RunAsUserID a) w of
                    (Inl _, w1) \<Rightarrow> (None, actors(au_RunAsUserID a \<mapsto> None), w1)
                  | (Inr u, w1) \<Rightarrow>
                      (let x = Some \<lparr>aa_ID = u_ID u, aa_Email = u_Email u, aa_Name = u_Name u, aa_Role = u_Role u, aa_Active = u_Active u\<rparr>
                       in (x, actors(au_RunAsUserID a \<mapsto> x), w1))));
          admin = (case viewer of None \<Rightarrow> False | Some u \<Rightarrow> u_Role u = ''admin'')
      in (\<lparr>av_Automation = (if admin then a else a\<lparr>au_Actions := RedactActions (au_Actions a)\<rparr>), av_RunAs = actor, av_LastRun = latest\<rparr>, actors1, w1))"

fun decorate_list ::
  "user option \<Rightarrow> (int \<rightharpoonup> automationRun) \<Rightarrow> automation list \<Rightarrow> actor_cache \<Rightarrow> 'a auto_world_scheme \<Rightarrow> automationView list \<times> 'a auto_world_scheme" where
  "decorate_list viewer latest [] actors w = ([], w)"
| "decorate_list viewer latest (a # as) actors w =
     (let (v, actors1, w1) = decorateAutomation viewer (latest (au_ID a)) a actors w;
          (vs, w2) = decorate_list viewer latest as actors1 w1 in (v # vs, w2))"

text \<open>The decoration of the one automation an answer carries.\<close>

definition shown :: "user option \<Rightarrow> automation \<Rightarrow> 'a auto_world_scheme \<Rightarrow> automationView \<times> 'a auto_world_scheme" where
  "shown viewer a w = (case decorateAutomation viewer None a Map.empty w of (v, _, w1) \<Rightarrow> (v, w1))"

section \<open>Reading\<close>

definition loadAutomation :: "httpRequest \<Rightarrow> 'a auto_world_scheme \<Rightarrow> (response + automation) \<times> 'a auto_world_scheme" where
  "loadAutomation r w =
     (case path_int r ''id'' of
        None \<Rightarrow> (Inl (SendError 400 ''invalid automation id'' None), w)
      | Some i \<Rightarrow>
          (case GetAutomationByID i w of
             (Inl e, w1) \<Rightarrow> (Inl (QueryError e ''failed to load automation''), w1)
           | (Inr a, w1) \<Rightarrow> (Inr a, w1)))"

definition HandleListAutomations :: "httpRequest \<Rightarrow> 'a aapi_world_scheme \<Rightarrow> response \<times> 'a aapi_world_scheme" where
  "HandleListAutomations r w =
     (case ListAutomations \<lparr>listAutomationsRequest.la_Limit = int MAX_LIMIT, listAutomationsRequest.la_Offset = 0, listAutomationsRequest.la_Enabled = None\<rparr> w of
        (Inl e, w1) \<Rightarrow> (QueryError e ''failed to list automations'', w1)
      | (Inr as, w1) \<Rightarrow>
          (let (found, w2) = ListLatestAutomationRuns (map au_ID as) w1;
               latest = (case found of Inl _ \<Rightarrow> Map.empty | Inr m \<Rightarrow> m);
               (vs, w3) = decorate_list (hr_User r) latest as Map.empty w2
           in (New (DataList (map (\<lambda>v. JObj (view_json v)) vs)) ''automations retrieved'', w3)))"

definition HandleGetAutomation :: "httpRequest \<Rightarrow> 'a aapi_world_scheme \<Rightarrow> response \<times> 'a aapi_world_scheme" where
  "HandleGetAutomation r w =
     (case loadAutomation r w of
        (Inl resp, w1) \<Rightarrow> (resp, w1)
      | (Inr a, w1) \<Rightarrow>
          (let (found, w2) = ListLatestAutomationRuns [au_ID a] w1;
               latest = (case found of Inl _ \<Rightarrow> None | Inr m \<Rightarrow> m (au_ID a));
               (v, _, w3) = decorateAutomation (hr_User r) latest a Map.empty w2
           in (New (DataMap (view_json v)) ''automation retrieved'', w3)))"

text \<open>The value \<^verbatim>\<open>strconv.Atoi\<close> returns beside its error: zero, or the bound a number is beyond.\<close>

definition atoi_value :: "string \<Rightarrow> int" where
  "atoi_value s =
     (case atoi s of
        Some n \<Rightarrow> n
      | None \<Rightarrow>
          (let neg = (case s of [] \<Rightarrow> False | c # _ \<Rightarrow> c = CHR ''-'');
               ds = (case s of [] \<Rightarrow> [] | c # cs \<Rightarrow> if c = CHR ''-'' \<or> c = CHR ''+'' then cs else s)
           in if ds = [] \<or> \<not> list_all is_digit ds then 0 else if neg then min_int64 else max_int64))"

definition HandleListAutomationRuns :: "httpRequest \<Rightarrow> 'a aapi_world_scheme \<Rightarrow> response \<times> 'a aapi_world_scheme" where
  "HandleListAutomationRuns r w =
     (case loadAutomation r w of
        (Inl resp, w1) \<Rightarrow> (resp, w1)
      | (Inr a, w1) \<Rightarrow>
          (case ListAutomationRuns (au_ID a) (atoi_value (query_param r ''limit'')) (atoi_value (query_param r ''offset'')) w1 of
             (Inl e, w2) \<Rightarrow> (QueryError e ''failed to list automation runs'', w2)
           | (Inr runs, w2) \<Rightarrow> (New (DataList (map run_json runs)) ''automation runs retrieved'', w2)))"

section \<open>Writing\<close>

definition no_automation_update :: updateAutomationRequest where
  "no_automation_update = \<lparr>ur_Name = None, ur_Description = None, ur_ClearDescription = False, ur_Enabled = None, ur_Trigger = None,
     ur_Actions = None, ur_WebhookTokenHash = None, ur_ClearWebhookToken = False, ur_RunAsUserID = None\<rparr>"

text \<open>The last steps of a write: the audit row and the decorated answer.\<close>

definition answer ::
  "httpRequest \<Rightarrow> string \<Rightarrow> automation \<Rightarrow> string \<Rightarrow> (automationView \<Rightarrow> response) \<Rightarrow> 'a aapi_world_scheme \<Rightarrow> response \<times> 'a aapi_world_scheme" where
  "answer r action a details say w =
     (case shown (hr_User r) a (audit_row r action (au_ID a) details w) of (v, w1) \<Rightarrow> (say v, w1))"

definition may_own :: "exec_env \<Rightarrow> user \<Rightarrow> automationTrigger \<Rightarrow> automationAction list \<Rightarrow> 'a aapi_world_scheme \<Rightarrow> response option \<times> 'a aapi_world_scheme" where
  "may_own env u trigger actions w =
     (case ValidateDefinition env trigger actions w of
        (Some e, w1) \<Rightarrow> (Some (SendError 400 (''invalid automation: '' @ e) None), w1)
      | (None, w1) \<Rightarrow>
          (case Authorise (Some u) trigger actions of
             Some e \<Rightarrow> (Some (SendError 403 (''you cannot own this automation: '' @ e) None), w1)
           | None \<Rightarrow> (None, w1)))"

definition create_definition ::
  "exec_env \<Rightarrow> httpRequest \<Rightarrow> user \<Rightarrow> automationBody \<Rightarrow> string \<Rightarrow> automationTrigger \<Rightarrow> automationAction list \<Rightarrow> 'a aapi_world_scheme \<Rightarrow> response \<times> 'a aapi_world_scheme" where
  "create_definition env r u b name trigger actions w =
     (let (minted, w1) = (if tr_Type trigger = AutomationTriggerWebhook
                          then (case webhook_token env w of (Inl e, w1) \<Rightarrow> (Inl e, w1) | (Inr (p, h), w1) \<Rightarrow> (Inr (p, Some h), w1))
                          else (Inr ([], None), w))
      in case minted of
           Inl e \<Rightarrow> (SendError 500 ''failed to generate webhook token'' (Some e), w1)
         | Inr (token, tokenHash) \<Rightarrow>
             (case CreateAutomation
                     \<lparr>cr_Name = name, cr_Description = cleanDescription (bo_Description b),
                      cr_Enabled = (case bo_Enabled b of None \<Rightarrow> True | Some e \<Rightarrow> e), cr_Trigger = trigger, cr_Actions = actions,
                      cr_WebhookTokenHash = tokenHash, cr_RunAsUserID = u_ID u, cr_CreatedBy = u_ID u\<rparr> w1 of
                (Inl e, w2) \<Rightarrow> (QueryError e ''failed to create automation'', w2)
              | (Inr a, w2) \<Rightarrow>
                  answer r ''create'' a
                    (au_Name a @ '' ('' @ tr_Type (au_Trigger a) @ '' trigger, '' @ show_nat (length (au_Actions a)) @ '' steps)'')
                    (\<lambda>v. NewCreated (withToken v token) ''automation created'') w2))"

definition HandleCreateAutomation :: "exec_env \<Rightarrow> httpRequest \<Rightarrow> 'a aapi_world_scheme \<Rightarrow> response \<times> 'a aapi_world_scheme" where
  "HandleCreateAutomation env r w =
     (case hr_User r of
        None \<Rightarrow> (SendError 401 ''authentication required'' None, w)
      | Some u \<Rightarrow>
          (case decode_body automationBody_fields empty_body r of
             Inl e \<Rightarrow> (BadBody e, w)
           | Inr b \<Rightarrow>
               (case bo_Name b of
                  None \<Rightarrow> (MissingBodyFields ''name'', w)
                | Some raw \<Rightarrow>
                    (case validateAutomationName raw of
                       Inl e \<Rightarrow> (SendError 400 e None, w)
                     | Inr name \<Rightarrow>
                         (case bo_Trigger b of
                            None \<Rightarrow> (MissingBodyFields ''trigger'', w)
                          | Some t \<Rightarrow>
                              (case bo_Actions b of
                                 None \<Rightarrow> (MissingBodyFields ''actions'', w)
                               | Some actions \<Rightarrow>
                                   (case may_own env u (normaliseTrigger t) actions w of
                                      (Some resp, w1) \<Rightarrow> (resp, w1)
                                    | (None, w1) \<Rightarrow> create_definition env r u b name (normaliseTrigger t) actions w1)))))))"

text \<open>The definition a body leaves the automation with, and whether saving it makes the caller its owner.\<close>

definition new_trigger :: "automation \<Rightarrow> automationBody \<Rightarrow> automationTrigger" where
  "new_trigger existing b = (case bo_Trigger b of None \<Rightarrow> au_Trigger existing | Some t \<Rightarrow> normaliseTrigger t)"

definition new_actions :: "automation \<Rightarrow> automationBody \<Rightarrow> automationAction list" where
  "new_actions existing b = (case bo_Actions b of None \<Rightarrow> au_Actions existing | Some as \<Rightarrow> as)"

definition redefined :: "automationBody \<Rightarrow> bool" where
  "redefined b \<longleftrightarrow> bo_Trigger b \<noteq> None \<or> bo_Actions b \<noteq> None"

definition rebinds :: "automation \<Rightarrow> automationBody \<Rightarrow> bool" where
  "rebinds existing b \<longleftrightarrow> redefined b \<or> bo_Enabled b = Some True \<and> \<not> au_Enabled existing"

definition update_request :: "automation \<Rightarrow> automationBody \<Rightarrow> string option \<Rightarrow> user \<Rightarrow> updateAutomationRequest" where
  "update_request existing b name u =
     \<lparr>ur_Name = name, ur_Description = cleanDescription (bo_Description b),
      ur_ClearDescription = (bo_Description b \<noteq> None \<and> cleanDescription (bo_Description b) = None),
      ur_Enabled = bo_Enabled b,
      ur_Trigger = (if redefined b then Some (new_trigger existing b) else None),
      ur_Actions = (if redefined b then Some (new_actions existing b) else None),
      ur_WebhookTokenHash = None, ur_ClearWebhookToken = False,
      ur_RunAsUserID = (if rebinds existing b then Some (u_ID u) else None)\<rparr>"

text \<open>A change of the kind of trigger mints a token or clears it.\<close>

definition token_change ::
  "exec_env \<Rightarrow> automation \<Rightarrow> automationBody \<Rightarrow> updateAutomationRequest \<Rightarrow> 'a aapi_world_scheme \<Rightarrow> (go_error + string \<times> updateAutomationRequest) \<times> 'a aapi_world_scheme" where
  "token_change env existing b upd w =
     (if tr_Type (new_trigger existing b) = tr_Type (au_Trigger existing) then (Inr ([], upd), w)
      else if tr_Type (new_trigger existing b) = AutomationTriggerWebhook
      then (case webhook_token env w of
              (Inl e, w1) \<Rightarrow> (Inl e, w1)
            | (Inr (plaintext, h), w1) \<Rightarrow> (Inr (plaintext, upd\<lparr>ur_WebhookTokenHash := Some h\<rparr>), w1))
      else (Inr ([], upd\<lparr>ur_ClearWebhookToken := True\<rparr>), w))"

definition save_update ::
  "exec_env \<Rightarrow> httpRequest \<Rightarrow> user \<Rightarrow> automation \<Rightarrow> automationBody \<Rightarrow> string option \<Rightarrow> 'a aapi_world_scheme \<Rightarrow> response \<times> 'a aapi_world_scheme" where
  "save_update env r u existing b name w =
     (case token_change env existing b (update_request existing b name u) w of
        (Inl e, w1) \<Rightarrow> (SendError 500 ''failed to generate webhook token'' (Some e), w1)
      | (Inr (token, upd), w1) \<Rightarrow>
          (case UpdateAutomation (au_ID existing) upd w1 of
             (Inl e, w2) \<Rightarrow> (QueryError e ''failed to update automation'', w2)
           | (Inr a, w2) \<Rightarrow>
               answer r ''update'' a
                 (au_Name a @ (if rebinds existing b then '' (now runs as user #'' @ show_int (u_ID u) @ '')'' else []))
                 (\<lambda>v. New (withToken v token) ''automation updated'') w2))"

definition new_name :: "automationBody \<Rightarrow> go_error + string option" where
  "new_name b =
     (case bo_Name b of
        None \<Rightarrow> Inr None
      | Some raw \<Rightarrow> (case validateAutomationName raw of Inl e \<Rightarrow> Inl e | Inr n \<Rightarrow> Inr (Some n)))"

definition HandleUpdateAutomation :: "exec_env \<Rightarrow> httpRequest \<Rightarrow> 'a aapi_world_scheme \<Rightarrow> response \<times> 'a aapi_world_scheme" where
  "HandleUpdateAutomation env r w =
     (case hr_User r of
        None \<Rightarrow> (SendError 401 ''authentication required'' None, w)
      | Some u \<Rightarrow>
          (case loadAutomation r w of
             (Inl resp, w1) \<Rightarrow> (resp, w1)
           | (Inr existing, w1) \<Rightarrow>
               (case decode_body automationBody_fields empty_body r of
                  Inl e \<Rightarrow> (BadBody e, w1)
                | Inr b \<Rightarrow>
                    (case new_name b of
                       Inl e \<Rightarrow> (SendError 400 e None, w1)
                     | Inr name \<Rightarrow>
                         (case (if rebinds existing b then may_own env u (new_trigger existing b) (new_actions existing b) w1 else (None, w1)) of
                            (Some resp, w2) \<Rightarrow> (resp, w2)
                          | (None, w2) \<Rightarrow> save_update env r u existing b name w2)))))"

definition HandleDeleteAutomation :: "httpRequest \<Rightarrow> 'a aapi_world_scheme \<Rightarrow> response \<times> 'a aapi_world_scheme" where
  "HandleDeleteAutomation r w =
     (case loadAutomation r w of
        (Inl resp, w1) \<Rightarrow> (resp, w1)
      | (Inr a, w1) \<Rightarrow>
          (case DeleteAutomation (au_ID a) w1 of
             (Some e, w2) \<Rightarrow> (QueryError e ''failed to delete automation'', w2)
           | (None, w2) \<Rightarrow> (New NoData ''automation deleted'', audit_row r ''delete'' (au_ID a) (au_Name a) w2)))"

definition HandleEnableAutomation :: "exec_env \<Rightarrow> httpRequest \<Rightarrow> 'a aapi_world_scheme \<Rightarrow> response \<times> 'a aapi_world_scheme" where
  "HandleEnableAutomation env r w =
     (case hr_User r of
        None \<Rightarrow> (SendError 401 ''authentication required'' None, w)
      | Some u \<Rightarrow>
          (case loadAutomation r w of
             (Inl resp, w1) \<Rightarrow> (resp, w1)
           | (Inr existing, w1) \<Rightarrow>
               (case ValidateDefinition env (au_Trigger existing) (au_Actions existing) w1 of
                  (Some e, w2) \<Rightarrow> (SendError 400 (''cannot enable: '' @ e) None, w2)
                | (None, w2) \<Rightarrow>
                    (case Authorise (Some u) (au_Trigger existing) (au_Actions existing) of
                       Some e \<Rightarrow> (SendError 403 (''you cannot enable this automation: '' @ e) None, w2)
                     | None \<Rightarrow>
                         (case UpdateAutomation (au_ID existing) (no_automation_update\<lparr>ur_Enabled := Some True, ur_RunAsUserID := Some (u_ID u)\<rparr>) w2 of
                            (Inl e, w3) \<Rightarrow> (QueryError e ''failed to enable automation'', w3)
                          | (Inr a, w3) \<Rightarrow>
                              answer r ''enable'' a (au_Name a @ '' (now runs as user #'' @ show_int (u_ID u) @ '')'')
                                (\<lambda>v. New (DataMap (view_json v)) ''automation enabled'') w3)))))"

definition HandleDisableAutomation :: "httpRequest \<Rightarrow> 'a aapi_world_scheme \<Rightarrow> response \<times> 'a aapi_world_scheme" where
  "HandleDisableAutomation r w =
     (case loadAutomation r w of
        (Inl resp, w1) \<Rightarrow> (resp, w1)
      | (Inr existing, w1) \<Rightarrow>
          (case UpdateAutomation (au_ID existing) (no_automation_update\<lparr>ur_Enabled := Some False\<rparr>) w1 of
             (Inl e, w2) \<Rightarrow> (QueryError e ''failed to disable automation'', w2)
           | (Inr a, w2) \<Rightarrow> answer r ''disable'' a (au_Name a) (\<lambda>v. New (DataMap (view_json v)) ''automation disabled'') w2))"

definition HandleRotateAutomationToken :: "exec_env \<Rightarrow> httpRequest \<Rightarrow> 'a aapi_world_scheme \<Rightarrow> response \<times> 'a aapi_world_scheme" where
  "HandleRotateAutomationToken env r w =
     (case hr_User r of
        None \<Rightarrow> (SendError 401 ''authentication required'' None, w)
      | Some u \<Rightarrow>
          (case loadAutomation r w of
             (Inl resp, w1) \<Rightarrow> (resp, w1)
           | (Inr existing, w1) \<Rightarrow>
               if tr_Type (au_Trigger existing) \<noteq> AutomationTriggerWebhook
               then (SendError 400 ''only webhook automations have a token'' None, w1)
               else (case Authorise (Some u) (au_Trigger existing) (au_Actions existing) of
                       Some e \<Rightarrow> (SendError 403 (''you cannot rotate this automation's token: '' @ e) None, w1)
                     | None \<Rightarrow>
                         (case webhook_token env w1 of
                            (Inl e, w2) \<Rightarrow> (SendError 500 ''failed to generate webhook token'' (Some e), w2)
                          | (Inr (plaintext, h), w2) \<Rightarrow>
                              (case UpdateAutomation (au_ID existing) (no_automation_update\<lparr>ur_WebhookTokenHash := Some h\<rparr>) w2 of
                                 (Inl e, w3) \<Rightarrow> (QueryError e ''failed to rotate webhook token'', w3)
                               | (Inr a, w3) \<Rightarrow>
                                   answer r ''rotate_token'' a (au_Name a)
                                     (\<lambda>v. New (withToken v plaintext) ''webhook token rotated; the previous token no longer works'') w3)))))"

section \<open>Firing\<close>

definition HandleRunAutomation :: "exec_env \<Rightarrow> httpRequest \<Rightarrow> 'a aapi_world_scheme \<Rightarrow> response \<times> 'a aapi_world_scheme" where
  "HandleRunAutomation env r w =
     (case hr_User r of
        None \<Rightarrow> (SendError 401 ''authentication required'' None, w)
      | Some u \<Rightarrow>
          (case loadAutomation r w of
             (Inl resp, w1) \<Rightarrow> (resp, w1)
           | (Inr existing, w1) \<Rightarrow>
               (case Authorise (Some u) (au_Trigger existing) (au_Actions existing) of
                  Some e \<Rightarrow> (SendError 403 (''you cannot run this automation: '' @ e) None, w1)
                | None \<Rightarrow>
                    (case fire env existing
                            \<lparr>f_Source = AutomationSourceManual, f_Detail = ''manual run by '' @ u_Email u, f_ScheduledAt = None,
                             f_TriggeredBy = Some (u_ID u), f_IP = Some (hr_IP r)\<rparr> w1 of
                       (Inl e, w2) \<Rightarrow> (SendError 500 ''failed to run automation'' (Some e), w2)
                     | (Inr oc, w2) \<Rightarrow>
                         (New (outcome_data oc) (''automation run '' @ show_result (oc_Result oc)),
                          audit_row r ''run'' (au_ID existing)
                            (au_Name existing @ '' '' @ em_dash @ '' run #'' @ show_int (rn_ID (oc_Run oc)) @ '' '' @ show_result (oc_Result oc)) w2)))))"

definition describeFailedRun :: "automationRun \<Rightarrow> string" where
  "describeFailedRun run =
     (let failed = ''automation run #'' @ show_int (rn_ID run) @ '' failed'';
          unnamed = (case rn_Error run of None \<Rightarrow> failed | Some e \<Rightarrow> failed @ '': '' @ e)
      in case rn_FailedStep run of
           None \<Rightarrow> unnamed
         | Some k \<Rightarrow>
             if 1 \<le> k \<and> k \<le> int (length (rn_Steps run)) then
               (let s = rn_Steps run ! nat (k - 1) in
                failed @ '' at step '' @ show_int (sr_Step s) @ '' ('' @ sr_Type s @ ''): '' @
                  (case sr_Error s of None \<Rightarrow> sr_Summary s | Some e \<Rightarrow> e))
             else unnamed)"

definition webhook_answer :: "outcome \<Rightarrow> response" where
  "webhook_answer oc =
     (let run = oc_Run oc in
      case oc_Result oc of
        ResultSucceeded \<Rightarrow> New (outcome_data oc) (''automation run #'' @ show_int (rn_ID run) @ '' succeeded'')
      | ResultDisabled \<Rightarrow>
          New (outcome_data oc)
            (''automation #'' @ show_int (rn_AutomationID run) @ '' is disabled; nothing was run (recorded as run #'' @ show_int (rn_ID run) @ '')'')
      | ResultSkipped \<Rightarrow>
          SendErrorWithCode 409 (''automation run #'' @ show_int (rn_ID run) @ '' was skipped: '' @ (case rn_SkipReason run of None \<Rightarrow> ''skipped'' | Some x \<Rightarrow> x))
            errCodeAutomationSkipped None
      | ResultFailed \<Rightarrow> SendErrorWithCode 424 (describeFailedRun run) errCodeAutomationFailed None)"

definition HandleAutomationWebhook :: "exec_env \<Rightarrow> httpRequest \<Rightarrow> 'a aapi_world_scheme \<Rightarrow> response \<times> 'a aapi_world_scheme" where
  "HandleAutomationWebhook env r w =
     (let token = (case map_of (hr_Vars r) ''token'' of None \<Rightarrow> [] | Some t \<Rightarrow> t);
          commit = query_param r ''commit'';
          detail = ''webhook from '' @ hr_IP r @ (if commit = [] then [] else '' @ '' @ commit)
      in case FireWebhook env token
                \<lparr>f_Source = AutomationSourceWebhook, f_Detail = detail, f_ScheduledAt = None, f_TriggeredBy = None, f_IP = Some (hr_IP r)\<rparr> w of
           (Inl e, w1) \<Rightarrow>
             (if e = ErrInvalidToken then SendError 401 ''invalid automation token'' None
              else SendError 500 ''failed to run automation'' (Some e), w1)
         | (Inr oc, w1) \<Rightarrow> (webhook_answer oc, w1))"

end
