(* ===== verification/Automation_Ownership.thy ===== *)
theory Automation_Ownership
  imports Automation_Router Auth_Safety
begin

text \<open>
  Whose authority an automation carries. The locale collects what a property of the automations'
  table must survive while automations fire; its interpretation is the rule that a definition only
  changes, and is only switched on, by somebody who may run every step of it and whose identity it
  takes over (\<^verbatim>\<open>src/automations/authorize.go\<close>).
\<close>

section \<open>What a firing leaves alone\<close>

definition definition_of :: "automation \<Rightarrow> int \<times> bool \<times> bool \<times> automationTrigger \<times> automationAction list \<times> int \<times> string option" where
  "definition_of a = (au_ID a, au_Active a, au_Enabled a, au_Trigger a, au_Actions a, au_RunAsUserID a, au_WebhookTokenHash a)"

locale automation_statements =
  fixes P :: "'a auto_world_scheme \<Rightarrow> bool"
  assumes db: "P w \<Longrightarrow> P (w\<lparr>clock := c, db_script := s\<rparr>)"
    and send: "P w \<Longrightarrow> P (w\<lparr>hub := h, picks := p\<rparr>)"
    and time: "P w \<Longrightarrow> P (w\<lparr>clock := c\<rparr>)"
    and runs: "P w \<Longrightarrow> P (w\<lparr>w_runs := rs\<rparr>)"
    and new_run: "P w \<Longrightarrow> P (w\<lparr>w_runs := rs, w_next_id := w_next_id w + 1\<rparr>)"
    and guards: "P w \<Longrightarrow> (\<And>a. definition_of (f a) = definition_of a) \<Longrightarrow> P (w\<lparr>w_automations := update_where q f (w_automations w)\<rparr>)"
    and audits: "P w \<Longrightarrow> P (w\<lparr>w_audit := as\<rparr>)"
    and slots: "P w \<Longrightarrow> P (w\<lparr>w_slots := n\<rparr>)"
    and network: "P w \<Longrightarrow> P (w\<lparr>clock := c, w_http := hs\<rparr>)"
    and sent: "P w \<Longrightarrow> P (w\<lparr>w_http_sent := ms\<rparr>)"
begin

lemma kept_exec: "P w \<Longrightarrow> (\<And>w. P w \<Longrightarrow> P (snd (f w))) \<Longrightarrow> P (snd (exec f w))"
  by (rule exec_keeps) (simp_all add: db)

lemma kept_query: "P w \<Longrightarrow> P (snd (query q w))"
  unfolding query_def by (rule kept_exec) simp_all

lemma kept_exec_unit: "P w \<Longrightarrow> (\<And>w. P w \<Longrightarrow> P (f w)) \<Longrightarrow> P (snd (exec_unit f w))"
  unfolding snd_exec_unit by (rule kept_exec) simp_all

lemma keptD: "P (snd x) \<Longrightarrow> x = (r, w1) \<Longrightarrow> P w1"
  by simp

lemma kept_reads:
  assumes "P w"
  shows "P (snd (GetUserByID i w))" "P (snd (GetAutomationByID i w))" "P (snd (GetAutomationRunByID i w))" "P (snd (GetAutomationByWebhookHash h w))"
    "P (snd (ListStuckAutomationRuns t w))" "P (snd (GetStackByID i w))" "P (snd (ListContainersByStack i w))"
proof -
  show "P (snd (GetUserByID i w))" "P (snd (GetAutomationByID i w))" "P (snd (GetAutomationRunByID i w))" "P (snd (GetAutomationByWebhookHash h w))"
    by (simp_all add: snd_GetUserByID GetAutomationByID_def GetAutomationRunByID_def GetAutomationByWebhookHash_def snd_one_row kept_query assms)
  show "P (snd (ListStuckAutomationRuns t w))" by (simp add: ListStuckAutomationRuns_def Let_def kept_query assms)
  show "P (snd (GetStackByID i w))" using kept_query [OF assms, of "\<lambda>w. select_stack i (stacks w)"]
    by (auto simp: GetStackByID_def split: prod.splits sum.splits option.splits)
  show "P (snd (ListContainersByStack i w))"
    using kept_query [OF assms, of "\<lambda>w. take MAX_LIMIT (sort_key c_ID (filter (\<lambda>c. c_StackID c = i \<and> c_Active c) (containers w)))"]
    by (auto simp: ListContainersByStack_def split: prod.splits sum.splits)
qed

lemma kept_writes:
  assumes "P w"
  shows "P (snd (UpdateAutomationRun i req w))" "P (snd (ClaimAutomationRun a r c w))" "P (snd (ReleaseAutomationRun a r w))"
    "P (snd (TouchAutomationWebhook i w))" "P (snd (CreateAuditLog al w))"
proof -
  show "P (snd (UpdateAutomationRun i req w))"
    by (simp add: UpdateAutomationRun_def Let_def kept_exec_unit runs assms)
  show "P (snd (ClaimAutomationRun a r c w))"
    unfolding ClaimAutomationRun_def Let_def snd_wrap_err
    by (rule kept_exec [OF assms]) (simp add: guards definition_of_def claim_row_def)
  show "P (snd (ReleaseAutomationRun a r w))"
    unfolding ReleaseAutomationRun_def by (rule kept_exec_unit [OF assms]) (rule guards, simp_all add: definition_of_def release_row_def)
  show "P (snd (TouchAutomationWebhook i w))"
    unfolding TouchAutomationWebhook_def Let_def by (rule kept_exec_unit [OF assms]) (rule guards, simp_all add: definition_of_def)
  show "P (snd (CreateAuditLog al w))"
    unfolding CreateAuditLog_def by (rule kept_exec_unit [OF assms]) (rule audits)
qed

lemma kept_insert_run: "P w \<Longrightarrow> P (snd (insert_run fin req w))"
  by (simp add: insert_run_def new_run)

lemma kept_createRun:
  assumes "P w"
  shows "P (snd (createRun a f w))"
proof -
  have e: "P w1" if "exec (insert_run fin req) w = (r, w1)" for fin req r w1
    using kept_exec [OF assms, of "insert_run fin req"] kept_insert_run that by simp
  show ?thesis unfolding createRun_def CreateAutomationRun_def Let_def
    by (auto dest!: e kept_reads(3) [THEN keptD, rotated -1] split: sum.split option.split prod.split)
qed

lemmas kept_callD = kept_reads [THEN keptD, rotated -1] kept_writes [THEN keptD, rotated -1] kept_createRun [THEN keptD, rotated -1]

lemma kept_finish: "P w \<Longrightarrow> P (snd (finish run steps fs re w))"
  by (simp add: finish_def Let_def kept_writes)

lemma kept_skip: "P w \<Longrightarrow> P (snd (skip_run run reason res w))"
  by (simp add: skip_run_def Let_def kept_writes)

lemma kept_overlap: "P w \<Longrightarrow> P (snd (overlapReason i w))"
  by (auto simp: overlapReason_def dest!: kept_callD split: prod.split sum.split option.split)

lemma kept_authErr: "P w \<Longrightarrow> P (snd (authErr a w))"
  by (auto simp: authErr_def dest!: kept_callD split: prod.split sum.split option.split)

lemma kept_auditAttempts: "P w \<Longrightarrow> P (snd (auditAttempts n req e w))"
proof (induction n arbitrary: e w)
  case (Suc n)
  have "P (snd (CreateAuditLog req w))" by (rule kept_writes(5) [OF Suc.prems])
  then show ?case using Suc.IH time by (auto split: prod.split option.split)
qed simp

lemma kept_audit: "P w \<Longrightarrow> P (snd (audit a run u f i eff e w))"
  by (simp add: audit_def kept_auditAttempts)

lemma kept_Deliver: "P w \<Longrightarrow> P (snd (Deliver env d r w))"
  by (simp add: Deliver_def Let_def elapse_def sent network split: list.split http_event.split)

lemma kept_executeHTTP: "P w \<Longrightarrow> P (snd (executeHTTP env d raw w))"
  by (auto simp: executeHTTP_def Let_def dest!: kept_Deliver [THEN keptD, rotated -1] split: sum.split prod.split)

lemma kept_resolveContainer: "P w \<Longrightarrow> P (snd (resolveContainer cfg w))"
  by (auto simp: resolveContainer_def dest!: kept_callD split: sum.split prod.split option.split)

lemma kept_recreate: "P w \<Longrightarrow> P (snd (RecreateContainer c wid w))"
proof -
  assume w: "P w"
  have "P (snd (recreateContainerPayload c w))"
    using w by (auto simp: recreateContainerPayload_def Let_def dest!: kept_query [THEN keptD, rotated -1] split: option.split sum.split prod.split)
  then show ?thesis by (simp add: RecreateContainer_def Let_def SendJSONToWorker_def case_prod_beta send)
qed

lemma kept_executeRedeploy: "P w \<Longrightarrow> P (snd (executeRedeploy d raw w))"
  by (auto simp: executeRedeploy_def Let_def dest!: kept_resolveContainer [THEN keptD, rotated -1] kept_recreate [THEN keptD, rotated -1]
      split: sum.split prod.split option.split)

lemma kept_dispatchStep: "P w \<Longrightarrow> P (snd (dispatchStep env d action w))"
  unfolding dispatchStep_def
  by (cases "kindFor (ac_Type action)"; cases "projr (kindFor (ac_Type action))") (simp_all add: kept_executeHTTP kept_executeRedeploy)

lemma kept_runStep: "P w \<Longrightarrow> P (snd (runStep env d a run u f i action w))"
  by (auto simp: runStep_def Let_def dest!: kept_dispatchStep [THEN keptD, rotated -1] kept_audit [THEN keptD, rotated -1]
      split: sum.split prod.split option.split)

lemma kept_runSteps: "P w \<Longrightarrow> P (snd (runSteps env d a run u f i actions steps fs w))"
proof (induction actions arbitrary: i steps fs w)
  case (Cons action rest)
  have p: "P (persistSteps r ss w)" if "P w" for r ss w using that by (simp add: persistSteps_def kept_writes)
  show ?case using Cons p
    by (auto simp: Let_def dest!: kept_runStep [THEN keptD, rotated -1] split: sum.split prod.split)
qed simp

lemma kept_executeHeld: "P w \<Longrightarrow> P (snd (executeHeld env a run f w))"
  by (auto simp: executeHeld_def Let_def split: sum.split prod.split
      dest!: kept_authErr [THEN keptD, rotated -1] kept_runSteps [THEN keptD, rotated -1] kept_finish [THEN keptD, rotated -1])

lemma kept_execute: "P w \<Longrightarrow> P (snd (execute env a run f w))"
  by (auto simp: execute_def kept_finish kept_skip kept_writes split: sum.split prod.split bool.split
      dest!: kept_callD kept_executeHeld [THEN keptD, rotated -1] kept_overlap [THEN keptD, rotated -1])

lemma kept_acquire: "P w \<Longrightarrow> P (snd (tryAcquireSlot w))"
  by (simp add: tryAcquireSlot_def slots)

lemma kept_release: "P w \<Longrightarrow> P (releaseSlot w)"
  by (simp add: releaseSlot_def slots)

lemma kept_fire: "P w \<Longrightarrow> P (snd (fire env a f w))"
  by (auto simp: fire_def Let_def split: sum.split prod.split option.split bool.split
      dest!: kept_callD kept_acquire [THEN keptD, rotated -1] kept_skip [THEN keptD, rotated -1] kept_execute [THEN keptD, rotated -1] intro: kept_release)

lemma kept_FireWebhook: "P w \<Longrightarrow> P (snd (FireWebhook env token f w))"
  by (auto simp: FireWebhook_def split: sum.split prod.split dest!: kept_callD intro!: kept_fire kept_writes)

lemma kept_FireScheduled: "P w \<Longrightarrow> P (FireScheduled env a slot reason w)"
  by (auto simp: FireScheduled_def Let_def split: sum.split prod.split option.split bool.split
      dest!: kept_callD kept_acquire [THEN keptD, rotated -1] intro!: kept_skip kept_release kept_execute)

lemma kept_failStuckRun: "P w \<Longrightarrow> P (failStuckRun run w)"
  by (simp add: failStuckRun_def Let_def kept_writes)

lemma kept_FailStuckRuns: "P w \<Longrightarrow> P (FailStuckRuns w)"
proof -
  have "P w \<Longrightarrow> P (fold failStuckRun runs w)" for runs w
    by (induction runs arbitrary: w) (simp_all add: kept_failStuckRun)
  then show "P w \<Longrightarrow> P (FailStuckRuns w)" by (auto simp: FailStuckRuns_def split: sum.split prod.split dest!: kept_callD)
qed

lemma kept_validate: "P w \<Longrightarrow> P (snd (ValidateDefinition env t as w))"
proof -
  have k: "P (snd (kindValidate k env raw w))" if "P w" for k raw w
    using that by (cases k) (auto simp: validateRedeploy_def dest!: kept_resolveContainer [THEN keptD, rotated -1] split: sum.split prod.split)
  have "P (snd (validateSteps env i as w))" if "P w" for i w
    using that
  proof (induction as arbitrary: i w)
    case (Cons a as)
    show ?case using Cons by (auto dest!: k [THEN keptD, rotated -1] split: sum.split prod.split option.split)
  qed simp
  then show "P w \<Longrightarrow> P (snd (ValidateDefinition env t as w))"
    by (auto simp: ValidateDefinition_def split: option.split)
qed

end

section \<open>Definitions and their owners\<close>

text \<open>
  A row is inherited from \<open>w0\<close> when a row of \<open>w0\<close> with its id has the same definition and owner and
  was enabled if it is; it is bound to a caller when it runs as the caller, who may run every step.
\<close>

definition inherited :: "automation list \<Rightarrow> automation \<Rightarrow> bool" where
  "inherited as0 a \<longleftrightarrow> (\<exists>a0 \<in> set as0. au_ID a0 = au_ID a \<and> au_Trigger a0 = au_Trigger a \<and> au_Actions a0 = au_Actions a
     \<and> au_RunAsUserID a0 = au_RunAsUserID a \<and> (au_Enabled a \<longrightarrow> au_Enabled a0))"

definition bound_to :: "user \<Rightarrow> automation \<Rightarrow> bool" where
  "bound_to u a \<longleftrightarrow> au_RunAsUserID a = u_ID u \<and> Authorise (Some u) (au_Trigger a) (au_Actions a) = None"

definition accounted :: "automation list \<Rightarrow> user option \<Rightarrow> automation list \<Rightarrow> int \<Rightarrow> bool" where
  "accounted as0 ou as n \<longleftrightarrow> distinct (map au_ID as) \<and> (\<forall>a \<in> set as. au_ID a < n)
     \<and> (\<forall>a \<in> set as. inherited as0 a \<or> (\<exists>u. ou = Some u \<and> bound_to u a))"

lemma accounted_update:
  assumes "accounted as0 ou as n" "\<And>a. au_ID (f a) = au_ID a"
    and "\<And>a. a \<in> set as \<Longrightarrow> q a \<Longrightarrow> inherited as0 a \<or> (\<exists>u. ou = Some u \<and> bound_to u a) \<Longrightarrow> inherited as0 (f a) \<or> (\<exists>u. ou = Some u \<and> bound_to u (f a))"
  shows "accounted as0 ou (update_where q f as) n"
proof -
  have ids: "map au_ID (update_where q f as) = map au_ID as" by (simp add: update_where_map_key assms(2))
  have "au_ID b < n \<and> (inherited as0 b \<or> (\<exists>u. ou = Some u \<and> bound_to u b))" if b: "b \<in> set (update_where q f as)" for b
  proof -
    obtain a where a: "a \<in> set as" "b = (if q a then f a else a)" using b unfolding set_update_where by blast
    then show ?thesis using assms(1) assms(2) [of a] assms(3) [OF a(1)] unfolding accounted_def by (cases "q a") auto
  qed
  then show ?thesis using assms(1) ids unfolding accounted_def by simp
qed

lemma accounted_same:
  assumes "accounted as0 ou as n" "\<And>a. definition_of (f a) = definition_of a"
  shows "accounted as0 ou (update_where q f as) n"
proof (rule accounted_update [OF assms(1)])
  have d: "au_ID (f a) = au_ID a" "au_Trigger (f a) = au_Trigger a" "au_Actions (f a) = au_Actions a"
    "au_RunAsUserID (f a) = au_RunAsUserID a" "au_Enabled (f a) = au_Enabled a" for a
    using assms(2) [of a] by (simp_all add: definition_of_def)
  show "au_ID (f a) = au_ID a" for a by (rule d)
  show "inherited as0 (f a) \<or> (\<exists>u. ou = Some u \<and> bound_to u (f a))"
    if "inherited as0 a \<or> (\<exists>u. ou = Some u \<and> bound_to u a)" for a
    using that by (simp add: inherited_def bound_to_def d)
qed

definition accounted_in :: "automation list \<Rightarrow> user option \<Rightarrow> 'a auto_world_scheme \<Rightarrow> bool" where
  "accounted_in as0 ou w \<longleftrightarrow> accounted as0 ou (w_automations w) (w_next_id w)"

interpretation owners: automation_statements "accounted_in as0 ou :: 'a auto_world_scheme \<Rightarrow> bool"
proof
  fix w :: "'a auto_world_scheme" and f q
  assume w: "accounted_in as0 ou w"
  show "accounted_in as0 ou (w\<lparr>w_runs := rs, w_next_id := w_next_id w + 1\<rparr>)" for rs
    using w by (auto simp: accounted_in_def accounted_def intro: less_trans)
  assume "\<And>a. definition_of (f a) = definition_of a"
  then show "accounted_in as0 ou (w\<lparr>w_automations := update_where q f (w_automations w)\<rparr>)"
    using w by (simp add: accounted_in_def accounted_same)
qed (simp_all add: accounted_in_def)

section \<open>The handlers\<close>

lemma automations_frame: "frame_field w_automations"
  by (simp add: frame_field_def)

lemma accounted_in_audit [simp]: "accounted_in as0 ou (audit_row r act i d w) \<longleftrightarrow> accounted_in as0 ou w"
  by (simp add: accounted_in_def audit_row_def)

lemma webhook_token_rows: "webhook_token env w = (x, w1) \<Longrightarrow> w_automations w1 = w_automations w \<and> w_next_id w1 = w_next_id w"
  by (auto simp: webhook_token_def Let_def split: sum.splits)

lemma owners_decorate: "accounted_in as0 ou w \<Longrightarrow> accounted_in as0 ou (snd (snd (decorateAutomation v l a actors w)))"
  by (auto simp: decorateAutomation_def Let_def split: option.split sum.split prod.split dest!: owners.kept_callD)

lemma owners_answer: "accounted_in as0 ou w \<Longrightarrow> accounted_in as0 ou (snd (answer r act a d say w))"
proof -
  assume "accounted_in as0 ou w"
  then have "accounted_in as0 ou (snd (snd (decorateAutomation (hr_User r) None a Map.empty (audit_row r act (au_ID a) d w))))"
    by (intro owners_decorate) simp
  then show ?thesis by (simp add: answer_def shown_def case_prod_beta)
qed

lemma loadAutomation_found:
  assumes "loadAutomation r w = (x, w1)"
  shows "w_automations w1 = w_automations w" "x = Inr a \<Longrightarrow> a \<in> set (w_automations w) \<and> au_Active a"
proof -
  have get: "w_automations w1 = w_automations w \<and> (y = Inr a \<longrightarrow> a \<in> set (w_automations w) \<and> au_Active a)"
    if y: "GetAutomationByID i w = (y, w1)" for i y
  proof
    let ?q = "\<lambda>w. List.find (\<lambda>a. au_ID a = i \<and> au_Active a) (w_automations w)"
    obtain z where z: "query ?q w = (z, w1)" "y = Inr a \<Longrightarrow> z = Inr (Some a)"
      using y by (auto simp: GetAutomationByID_def one_row_def split: prod.splits sum.splits option.splits)
    show "w_automations w1 = w_automations w" using frame_queryD [OF automations_frame z(1)] .
    have "List.find (\<lambda>a. au_ID a = i \<and> au_Active a) (w_automations w) = Some a" if "y = Inr a"
      using z(1) z(2) [OF that] query_Inr [of ?q w "Some a" w1] by simp
    then show "y = Inr a \<longrightarrow> a \<in> set (w_automations w) \<and> au_Active a" by (auto simp: find_Some_iff)
  qed
  show "w_automations w1 = w_automations w" "x = Inr a \<Longrightarrow> a \<in> set (w_automations w) \<and> au_Active a"
    using assms get by (auto simp: loadAutomation_def split: option.splits prod.splits sum.splits)
qed

lemma owners_load: "loadAutomation r w = (x, w1) \<Longrightarrow> accounted_in as0 ou w \<Longrightarrow> accounted_in as0 ou w1"
  by (auto simp: loadAutomation_def split: option.splits prod.splits sum.splits dest!: owners.kept_callD)

text \<open>An UPDATE of one live automation whose new row is accounted for.\<close>

lemma owners_UpdateAutomation:
  assumes "accounted_in as0 ou w" "a \<in> set (w_automations w)"
    and "\<And>now. inherited as0 (apply_automation_update upd now a) \<or> (\<exists>u. ou = Some u \<and> bound_to u (apply_automation_update upd now a))"
  shows "accounted_in as0 ou (snd (UpdateAutomation (au_ID a) upd w))"
proof -
  define good where "good v \<longleftrightarrow> accounted_in as0 ou v \<and> w_automations v = w_automations w" for v :: "'a auto_world_scheme"
  have written: "accounted_in as0 ou (snd (update_automation (au_ID a) upd v))" if "good v" for v
  proof -
    have acc: "accounted as0 ou (w_automations w) (w_next_id v)" using that by (auto simp: good_def accounted_in_def)
    then have only: "b = a" if "b \<in> set (w_automations w)" "au_ID b = au_ID a" for b
      using assms(2) that unfolding accounted_def distinct_map by (meson inj_onD)
    have "accounted as0 ou (update_where (\<lambda>b. au_ID b = au_ID a \<and> au_Active b) (apply_automation_update upd (clock v)) (w_automations w)) (w_next_id v)"
      by (rule accounted_update [OF acc]) (use only assms(3) in auto)
    then show ?thesis using that acc by (simp add: update_automation_def good_def accounted_in_def)
  qed
  have "accounted_in as0 ou (snd (exec (update_automation (au_ID a) upd) w))"
  proof (cases rule: exec_cases [where w = w and f = "update_automation (au_ID a) upd"])
    case (applied w0)
    have "good w0" by (subst applied(1)) (use assms(1) in \<open>simp add: good_def accounted_in_def\<close>)
    then show ?thesis by (simp add: applied(3) written)
  next
    case (refused w0)
    have "good w0" by (subst refused(1)) (use assms(1) in \<open>simp add: good_def accounted_in_def\<close>)
    then show ?thesis by (simp add: refused(3) good_def)
  next
    case (lost w0)
    have "good w0" by (subst lost(1)) (use assms(1) in \<open>simp add: good_def accounted_in_def\<close>)
    then show ?thesis by (simp add: lost(3) written)
  qed
  then show ?thesis using assms(1)
    by (auto simp: UpdateAutomation_def split: prod.split sum.split bool.split intro: owners.kept_reads(2) dest!: owners.keptD [rotated])
qed

text \<open>What an update request makes of the columns that matter.\<close>

lemma automation_sets_columns:
  "au_Trigger (automation_sets upd a) = (case ur_Trigger upd of None \<Rightarrow> au_Trigger a | Some t \<Rightarrow> t)"
  "au_Actions (automation_sets upd a) = (case ur_Actions upd of None \<Rightarrow> au_Actions a | Some t \<Rightarrow> t)"
  "au_RunAsUserID (automation_sets upd a) = (case ur_RunAsUserID upd of None \<Rightarrow> au_RunAsUserID a | Some t \<Rightarrow> t)"
  "au_Enabled (automation_sets upd a) = (case ur_Enabled upd of None \<Rightarrow> au_Enabled a | Some t \<Rightarrow> t)"
  by (simp_all add: automation_sets_def set_opt_def split: option.split)

lemma apply_update_sets:
  "(\<And>t. k (b\<lparr>au_UpdatedAt := t\<rparr>) = k b) \<Longrightarrow> b = automation_sets upd a \<Longrightarrow> k (apply_automation_update upd now a) = k b"
  by (simp add: apply_automation_update_def Let_def)

lemma apply_update_columns:
  "au_Trigger (apply_automation_update upd now a) = (case ur_Trigger upd of None \<Rightarrow> au_Trigger a | Some t \<Rightarrow> t)"
  "au_Actions (apply_automation_update upd now a) = (case ur_Actions upd of None \<Rightarrow> au_Actions a | Some t \<Rightarrow> t)"
  "au_RunAsUserID (apply_automation_update upd now a) = (case ur_RunAsUserID upd of None \<Rightarrow> au_RunAsUserID a | Some t \<Rightarrow> t)"
  "au_Enabled (apply_automation_update upd now a) = (case ur_Enabled upd of None \<Rightarrow> au_Enabled a | Some t \<Rightarrow> t)"
  using apply_update_sets [of au_Trigger, OF _ refl] apply_update_sets [of au_Actions, OF _ refl]
    apply_update_sets [of au_RunAsUserID, OF _ refl] apply_update_sets [of au_Enabled, OF _ refl]
  by (simp_all add: automation_sets_columns)

lemma inherited_mono: "inherited as0 a \<Longrightarrow> au_ID b = au_ID a \<Longrightarrow> au_Trigger b = au_Trigger a \<Longrightarrow> au_Actions b = au_Actions a \<Longrightarrow>
    au_RunAsUserID b = au_RunAsUserID a \<Longrightarrow> (au_Enabled b \<longrightarrow> au_Enabled a) \<Longrightarrow> inherited as0 b"
  unfolding inherited_def by metis

lemma accounted_keep:
  assumes "accounted_in as0 ou w" "a \<in> set (w_automations w)" "au_ID b = au_ID a" "au_Trigger b = au_Trigger a" "au_Actions b = au_Actions a"
    "au_RunAsUserID b = au_RunAsUserID a" "au_Enabled b \<longrightarrow> au_Enabled a"
  shows "inherited as0 b \<or> (\<exists>u. ou = Some u \<and> bound_to u b)"
proof -
  have "inherited as0 a \<or> (\<exists>u. ou = Some u \<and> bound_to u a)" using assms(1,2) unfolding accounted_in_def accounted_def by blast
  then show ?thesis using inherited_mono [OF _ assms(3-7), of as0] assms(4-6) by (auto simp: bound_to_def)
qed

lemma may_own_allows:
  assumes "may_own env u t as w = (None, w1)"
  shows "Authorise (Some u) t as = None" "w_automations w1 = w_automations w"
proof -
  have v: "w_automations w2 = w_automations w" if "ValidateDefinition env t as w = (x, w2)" for x w2
    using frame_validateSteps [OF automations_frame, of env 0 as w] that
    by (auto simp: ValidateDefinition_def split: option.splits if_splits)
  show "Authorise (Some u) t as = None" "w_automations w1 = w_automations w"
    using assms v by (auto simp: may_own_def split: prod.splits option.splits)
qed

lemma owners_may_own: "accounted_in as0 ou w \<Longrightarrow> accounted_in as0 ou (snd (may_own env u t as w))"
  by (auto simp: may_own_def split: prod.split option.split dest!: owners.kept_validate [THEN owners.keptD, rotated -1])

lemma owners_token: "accounted_in as0 ou w \<Longrightarrow> accounted_in as0 ou (snd (webhook_token env w))"
  using webhook_token_rows [of env w "fst (webhook_token env w)" "snd (webhook_token env w)"] by (simp add: accounted_in_def)

lemma owners_create:
  assumes "accounted_in as0 (Some u) w" "Authorise (Some u) (cr_Trigger req) (cr_Actions req) = None" "cr_RunAsUserID req = u_ID u"
  shows "accounted_in as0 (Some u) (snd (CreateAutomation req w))"
proof -
  have "accounted_in as0 (Some u) (snd (insert_automation req v))" if "accounted_in as0 (Some u) v" for v
    using that assms(2,3) by (auto simp: insert_automation_def accounted_in_def accounted_def bound_to_def less_le)
  then have "accounted_in as0 (Some u) (snd (exec (insert_automation req) w))" by (rule owners.kept_exec [OF assms(1)])
  then show ?thesis
    by (auto simp: CreateAutomation_def split: prod.split sum.split option.split intro: owners.kept_reads(2) dest!: owners.keptD [rotated])
qed

lemma owners_HandleCreate:
  assumes "accounted_in as0 (hr_User r) w"
  shows "accounted_in as0 (hr_User r) (snd (HandleCreateAutomation env r w))"
proof -
  have saved: "accounted_in as0 (Some u) (snd (create_definition env r u b name t as w1))"
    if "hr_User r = Some u" "may_own env u t as w = (None, w1)" for u b name t as w1
  proof -
    have w1: "accounted_in as0 (Some u) w1" using owners_may_own [OF assms, of env u t as] that by simp
    have a: "Authorise (Some u) t as = None" by (rule may_own_allows(1) [OF that(2)])
    show ?thesis unfolding create_definition_def Let_def
      using w1 a owners_token [OF w1, of env]
      by (auto split: prod.splits sum.splits if_splits intro!: owners_answer
          dest!: owners_create [THEN owners.keptD, rotated -1])
  qed
  show ?thesis unfolding HandleCreateAutomation_def
    using assms owners_may_own [OF assms] saved
    by (auto split: option.split sum.split prod.split dest!: owners.keptD [rotated])
qed

lemma token_change_rows:
  assumes "token_change env e b upd w = (Inr (tok, upd1), w1)"
  shows "w_automations w1 = w_automations w" "ur_Trigger upd1 = ur_Trigger upd" "ur_Actions upd1 = ur_Actions upd"
    "ur_RunAsUserID upd1 = ur_RunAsUserID upd" "ur_Enabled upd1 = ur_Enabled upd"
  using assms by (auto simp: token_change_def split: if_splits prod.splits sum.splits dest!: webhook_token_rows)

lemma owners_token_change: "accounted_in as0 ou w \<Longrightarrow> accounted_in as0 ou (snd (token_change env e b upd w))"
  using owners_token [of as0 ou w env] by (auto simp: token_change_def split: prod.split sum.split)

lemma owners_save:
  assumes "accounted_in as0 (Some u) w" "a \<in> set (w_automations w)"
    and "rebinds a b \<Longrightarrow> Authorise (Some u) (new_trigger a b) (new_actions a b) = None"
  shows "accounted_in as0 (Some u) (snd (save_update env r u a b name w))"
proof -
  obtain x w1 where t: "token_change env a b (update_request a b name u) w = (x, w1)" by force
  have w1: "accounted_in as0 (Some u) w1" using owners_token_change [OF assms(1), of env a b "update_request a b name u"] t by simp
  show ?thesis
  proof (cases x)
    case (Inr y)
    obtain tok upd where y: "x = Inr (tok, upd)" using Inr by (cases y) auto
    note rows = token_change_rows [OF t [unfolded y]]
    have "inherited as0 (apply_automation_update upd now a) \<or> (\<exists>v. Some u = Some v \<and> bound_to v (apply_automation_update upd now a))" for now
    proof (cases "rebinds a b")
      case True
      have "bound_to u (apply_automation_update upd now a)"
        using assms(3) [OF True] True
        by (auto simp: bound_to_def apply_update_columns rows update_request_def new_trigger_def new_actions_def redefined_def split: option.splits)
      then show ?thesis by blast
    next
      case False
      then show ?thesis
        by (intro accounted_keep [OF assms(1,2)])
          (auto simp: apply_update_columns rows update_request_def rebinds_def split: option.split)
    qed
    then have "accounted_in as0 (Some u) (snd (UpdateAutomation (au_ID a) upd w1))"
      using w1 assms(2) rows(1) by (intro owners_UpdateAutomation) simp_all
    then show ?thesis using t y unfolding save_update_def
      by (auto split: prod.split sum.split intro!: owners_answer)
  qed (use t w1 in \<open>simp add: save_update_def\<close>)
qed

lemma owners_HandleUpdate:
  assumes "accounted_in as0 (hr_User r) w"
  shows "accounted_in as0 (hr_User r) (snd (HandleUpdateAutomation env r w))"
proof (cases "hr_User r")
  case (Some u)
  obtain x w1 where l: "loadAutomation r w = (x, w1)" by force
  have w1: "accounted_in as0 (Some u) w1" using owners_load [OF l assms] Some by simp
  have saved: "accounted_in as0 (Some u) (snd (save_update env r u a b name w2))"
    if "x = Inr a" "(if rebinds a b then may_own env u (new_trigger a b) (new_actions a b) w1 else (None, w1)) = (None, w2)" for a b name w2
  proof (rule owners_save)
    show "accounted_in as0 (Some u) w2" "a \<in> set (w_automations w2)"
      using that(2) w1 owners_may_own [OF w1, of env u "new_trigger a b" "new_actions a b"] loadAutomation_found [OF l] that(1)
        may_own_allows(2) [of env u "new_trigger a b" "new_actions a b" w1 w2]
      by (auto split: if_splits)
    show "Authorise (Some u) (new_trigger a b) (new_actions a b) = None" if "rebinds a b"
      using \<open>(if _ then _ else _) = _\<close> that may_own_allows(1) by simp
  qed
  have refused: "accounted_in as0 (Some u) w2" if "may_own env u t as w1 = (y, w2)" for t as y w2
    using that owners_may_own [OF w1, of env u t as] by simp
  show ?thesis using Some l w1 saved unfolding HandleUpdateAutomation_def
    by (simp split: sum.split prod.split option.split) (use refused in blast)
qed (use assms in \<open>simp add: HandleUpdateAutomation_def\<close>)

lemma owners_HandleEnable:
  assumes "accounted_in as0 (hr_User r) w"
  shows "accounted_in as0 (hr_User r) (snd (HandleEnableAutomation env r w))"
proof (cases "hr_User r")
  case (Some u)
  have enabled: "accounted_in as0 (Some u) (snd (UpdateAutomation (au_ID a) (no_automation_update\<lparr>ur_Enabled := Some True, ur_RunAsUserID := Some (u_ID u)\<rparr>) v))"
    if "accounted_in as0 (Some u) v" "a \<in> set (w_automations v)" "Authorise (Some u) (au_Trigger a) (au_Actions a) = None" for v a
    by (rule owners_UpdateAutomation [OF that(1,2)]) (simp add: bound_to_def apply_update_columns no_automation_update_def that(3))
  have v: "w_automations w2 = w_automations w" if "ValidateDefinition env t as w = (x, w2)" for t as x w w2
    using frame_validateSteps [OF automations_frame, of env 0 as w] that by (auto simp: ValidateDefinition_def split: option.splits if_splits)
  obtain x w1 where l: "loadAutomation r w = (x, w1)" by force
  have w1: "accounted_in as0 (Some u) w1" using owners_load [OF l assms] Some by simp
  show ?thesis
  proof (cases x)
    case (Inr a)
    obtain y w2 where y: "ValidateDefinition env (au_Trigger a) (au_Actions a) w1 = (y, w2)" by force
    have w2: "accounted_in as0 (Some u) w2" "a \<in> set (w_automations w2)"
      using owners.kept_validate [OF w1, of env "au_Trigger a" "au_Actions a"] v [OF y] loadAutomation_found [OF l] Inr y by simp_all
    then show ?thesis using Some l Inr y enabled [OF w2] unfolding HandleEnableAutomation_def
      by (auto split: option.split sum.split prod.split intro!: owners_answer dest!: owners.keptD [rotated])
  qed (use Some l w1 in \<open>simp add: HandleEnableAutomation_def\<close>)
qed (use assms in \<open>simp add: HandleEnableAutomation_def\<close>)

lemma owners_inert_update:
  assumes "accounted_in as0 ou w" "a \<in> set (w_automations w)"
    and "ur_Trigger upd = None" "ur_Actions upd = None" "ur_RunAsUserID upd = None" "ur_Enabled upd \<noteq> Some True"
  shows "accounted_in as0 ou (snd (UpdateAutomation (au_ID a) upd w))"
  by (rule owners_UpdateAutomation [OF assms(1,2)], rule accounted_keep [OF assms(1,2)])
    (use assms(3-) in \<open>auto simp: apply_update_columns split: option.split\<close>)

lemma loaded:
  assumes "accounted_in as0 ou w" "loadAutomation r w = (Inr a, w1)"
  shows "accounted_in as0 ou w1" "a \<in> set (w_automations w1)"
  using owners_load [OF assms(2,1)] loadAutomation_found [OF assms(2)] by simp_all

lemma owners_DeleteAutomation:
  assumes "accounted_in as0 ou w"
  shows "accounted_in as0 ou (snd (DeleteAutomation i w))"
  unfolding DeleteAutomation_def
proof (rule owners.kept_exec_unit [OF assms])
  fix v :: "'a auto_world_scheme"
  assume v: "accounted_in as0 ou v"
  have "accounted as0 ou (update_where (\<lambda>a. au_ID a = i) (\<lambda>a. a\<lparr>au_Active := False, au_Enabled := False, au_WebhookTokenHash := None,
      au_UpdatedAt := db_time (clock v)\<rparr>) (w_automations v)) (w_next_id v)"
    by (rule accounted_update [OF v [unfolded accounted_in_def]]) (auto simp: inherited_def bound_to_def)
  then show "accounted_in as0 ou (v\<lparr>w_automations := update_where (\<lambda>a. au_ID a = i) (\<lambda>a. a\<lparr>au_Active := False, au_Enabled := False,
      au_WebhookTokenHash := None, au_UpdatedAt := db_time (clock v)\<rparr>) (w_automations v)\<rparr>)"
    using v by (simp add: accounted_in_def)
qed

lemma owners_HandleDelete: "accounted_in as0 ou w \<Longrightarrow> accounted_in as0 ou (snd (HandleDeleteAutomation r w))"
  by (auto simp: HandleDeleteAutomation_def split: sum.split prod.split option.split
      dest: owners_load dest!: owners_DeleteAutomation [THEN owners.keptD, rotated -1])

lemma owners_HandleDisable:
  assumes "accounted_in as0 ou w"
  shows "accounted_in as0 ou (snd (HandleDisableAutomation r w))"
proof (cases "loadAutomation r w")
  case (Pair x w1)
  show ?thesis
  proof (cases x)
    case (Inr a)
    then have "accounted_in as0 ou (snd (UpdateAutomation (au_ID a) (no_automation_update\<lparr>ur_Enabled := Some False\<rparr>) w1))"
      using loaded [OF assms Pair [unfolded Inr]] by (intro owners_inert_update) (simp_all add: no_automation_update_def)
    then show ?thesis using Pair Inr unfolding HandleDisableAutomation_def
      by (auto split: prod.split sum.split intro!: owners_answer)
  qed (use Pair owners_load [OF Pair assms] in \<open>simp add: HandleDisableAutomation_def\<close>)
qed

lemma owners_HandleRotate:
  assumes "accounted_in as0 ou w"
  shows "accounted_in as0 ou (snd (HandleRotateAutomationToken env r w))"
proof (cases "hr_User r")
  case (Some u)
  obtain x w1 where l: "loadAutomation r w = (x, w1)" by force
  show ?thesis
  proof (cases x)
    case (Inr a)
    note a = loaded [OF assms l [unfolded Inr]]
    obtain y w2 where y: "webhook_token env w1 = (y, w2)" by force
    have w2: "accounted_in as0 ou w2" "a \<in> set (w_automations w2)" using a webhook_token_rows [OF y] by (simp_all add: accounted_in_def)
    have "accounted_in as0 ou (snd (UpdateAutomation (au_ID a) (no_automation_update\<lparr>ur_WebhookTokenHash := Some h\<rparr>) w2))" for h
      using w2 by (intro owners_inert_update) (simp_all add: no_automation_update_def)
    from owners.keptD [OF this] show ?thesis using Some l Inr y a w2 unfolding HandleRotateAutomationToken_def
      by (auto split: option.split sum.split prod.split intro!: owners_answer)
  qed (use Some l owners_load [OF l assms] in \<open>simp add: HandleRotateAutomationToken_def\<close>)
qed (use assms in \<open>simp add: HandleRotateAutomationToken_def\<close>)

lemma owners_HandleRun: "accounted_in as0 ou w \<Longrightarrow> accounted_in as0 ou (snd (HandleRunAutomation env r w))"
  by (auto simp: HandleRunAutomation_def split: sum.split prod.split option.split
      dest: owners_load dest!: owners.kept_fire [THEN owners.keptD, rotated -1])

lemma owners_HandleWebhook: "accounted_in as0 ou w \<Longrightarrow> accounted_in as0 ou (snd (HandleAutomationWebhook env r w))"
  by (auto simp: HandleAutomationWebhook_def Let_def split: sum.split prod.split dest!: owners.kept_FireWebhook [THEN owners.keptD, rotated -1])

lemma owners_decorate_list: "accounted_in as0 ou w \<Longrightarrow> accounted_in as0 ou (snd (decorate_list v latest as actors w))"
proof (induction as arbitrary: actors w)
  case (Cons a as)
  show ?case using Cons.IH owners_decorate [OF Cons.prems, of v "latest (au_ID a)" a actors]
    by (simp add: case_prod_beta Let_def)
qed simp

lemma owners_lists:
  assumes "accounted_in as0 ou w"
  shows "accounted_in as0 ou (snd (ListAutomations req w))" "accounted_in as0 ou (snd (ListLatestAutomationRuns is w))"
    "accounted_in as0 ou (snd (ListAutomationRuns i l n w))"
  by (auto simp: ListAutomations_def ListLatestAutomationRuns_def ListAutomationRuns_def Let_def owners.kept_query [OF assms] assms
      split: prod.split sum.split dest!: owners.kept_query [OF assms, THEN owners.keptD, rotated -1] arg_cong [where f = snd])

lemma owners_decorated: "decorateAutomation v l a actors w = (x, m, w1) \<Longrightarrow> accounted_in as0 ou w \<Longrightarrow> accounted_in as0 ou w1"
  using owners_decorate [of as0 ou w v l a actors] by simp

lemma owners_HandleReads:
  assumes "accounted_in as0 ou w"
  shows "accounted_in as0 ou (snd (HandleListAutomations r w))" "accounted_in as0 ou (snd (HandleGetAutomation r w))"
    "accounted_in as0 ou (snd (HandleListAutomationRuns r w))"
  using assms by (auto simp: HandleListAutomations_def HandleGetAutomation_def HandleListAutomationRuns_def Let_def
      split: sum.split prod.split dest: owners_load owners_decorated
      dest!: owners_lists [THEN owners.keptD, rotated -1] owners_decorate_list [THEN owners.keptD, rotated -1])

section \<open>Sequences of operations\<close>

datatype automation_op =
    ListOp httpRequest
  | GetOp httpRequest
  | RunsOp httpRequest
  | CreateOp httpRequest
  | UpdateOp httpRequest
  | DeleteOp httpRequest
  | EnableOp httpRequest
  | DisableOp httpRequest
  | RotateOp httpRequest
  | RunOp httpRequest
  | WebhookOp httpRequest
  | SlotOp automation time string
  | SweepOp
  | WaitOp nat

fun op_caller :: "automation_op \<Rightarrow> user option" where
  "op_caller (CreateOp r) = hr_User r"
| "op_caller (UpdateOp r) = hr_User r"
| "op_caller (EnableOp r) = hr_User r"
| "op_caller _ = None"

fun automation_step :: "exec_env \<Rightarrow> automation_op \<Rightarrow> 'a aapi_world_scheme \<Rightarrow> 'a aapi_world_scheme" where
  "automation_step env (ListOp r) w = snd (HandleListAutomations r w)"
| "automation_step env (GetOp r) w = snd (HandleGetAutomation r w)"
| "automation_step env (RunsOp r) w = snd (HandleListAutomationRuns r w)"
| "automation_step env (CreateOp r) w = snd (HandleCreateAutomation env r w)"
| "automation_step env (UpdateOp r) w = snd (HandleUpdateAutomation env r w)"
| "automation_step env (DeleteOp r) w = snd (HandleDeleteAutomation r w)"
| "automation_step env (EnableOp r) w = snd (HandleEnableAutomation env r w)"
| "automation_step env (DisableOp r) w = snd (HandleDisableAutomation r w)"
| "automation_step env (RotateOp r) w = snd (HandleRotateAutomationToken env r w)"
| "automation_step env (RunOp r) w = snd (HandleRunAutomation env r w)"
| "automation_step env (WebhookOp r) w = snd (HandleAutomationWebhook env r w)"
| "automation_step env (SlotOp a slot reason) w = FireScheduled env a slot reason w"
| "automation_step env SweepOp w = FailStuckRuns w"
| "automation_step env (WaitOp n) w = w\<lparr>clock := clock w + int n\<rparr>"

lemma owners_step: "accounted_in as0 (op_caller oper) w \<Longrightarrow> accounted_in as0 (op_caller oper) (automation_step env oper w)"
  by (cases oper) (simp_all add: owners_HandleReads owners_HandleCreate owners_HandleUpdate owners_HandleDelete owners_HandleEnable
      owners_HandleDisable owners_HandleRotate owners_HandleRun owners_HandleWebhook owners.kept_FireScheduled owners.kept_FailStuckRuns owners.time)

text \<open>The primary key of the automations' table: ids are unique and below the next one.\<close>

definition keyed :: "'a auto_world_scheme \<Rightarrow> bool" where
  "keyed w \<longleftrightarrow> distinct (map au_ID (w_automations w)) \<and> (\<forall>a \<in> set (w_automations w). au_ID a < w_next_id w)"

lemma keyed_accounted: "keyed w \<Longrightarrow> accounted_in (w_automations w) ou w"
  by (auto simp: keyed_def accounted_in_def accounted_def inherited_def)

lemma inherited_trans:
  assumes "inherited as1 a" "\<And>b. b \<in> set as1 \<Longrightarrow> inherited as0 b \<or> Q b"
    and "\<And>b. Q b \<Longrightarrow> au_Trigger b = au_Trigger a \<Longrightarrow> au_Actions b = au_Actions a \<Longrightarrow> au_RunAsUserID b = au_RunAsUserID a \<Longrightarrow> Q a"
  shows "inherited as0 a \<or> Q a"
proof -
  obtain b where b: "b \<in> set as1" "au_ID b = au_ID a" "au_Trigger b = au_Trigger a" "au_Actions b = au_Actions a"
    "au_RunAsUserID b = au_RunAsUserID a" "au_Enabled a \<longrightarrow> au_Enabled b"
    using assms(1) unfolding inherited_def by blast
  then show ?thesis using assms(2) [OF b(1)] assms(3) [OF _ b(3-5)] inherited_mono [of as0 b a] by auto
qed

lemma owned_after:
  assumes "keyed w" "a \<in> set (w_automations (fold (automation_step env) ops w))"
  shows "inherited (w_automations w) a \<or> (\<exists>oper \<in> set ops. \<exists>u. op_caller oper = Some u \<and> bound_to u a)"
  using assms
proof (induction ops arbitrary: w)
  case Nil
  then show ?case by (auto simp: inherited_def)
next
  case (Cons oper ops)
  have acc: "accounted_in (w_automations w) (op_caller oper) (automation_step env oper w)"
    by (rule owners_step [OF keyed_accounted [OF Cons.prems(1)]])
  then have k: "keyed (automation_step env oper w)" by (simp add: accounted_in_def accounted_def keyed_def)
  from Cons.IH [OF k] Cons.prems(2)
  have "inherited (w_automations (automation_step env oper w)) a \<or> (\<exists>oper \<in> set ops. \<exists>u. op_caller oper = Some u \<and> bound_to u a)" by simp
  then show ?case
  proof
    assume "inherited (w_automations (automation_step env oper w)) a"
    then have "inherited (w_automations w) a \<or> (\<exists>u. op_caller oper = Some u \<and> bound_to u a)"
      by (rule inherited_trans) (use acc in \<open>auto simp: accounted_in_def accounted_def bound_to_def\<close>)
    then show ?thesis by auto
  qed auto
qed

text \<open>
  C3. Nobody's authority is borrowed. Whatever sequence of requests, webhooks, scheduled firings,
  sweeps and waits runs, with every SQL statement free to fail, to be lost or to take effect with
  its answer lost: every automation in the table either has the trigger, the steps and the owner it
  had at the start and was switched on then if it is now, or it runs as a caller of one of the
  create, update and enable requests of the sequence, who was authorised for every one of its steps.
\<close>

theorem every_definition_is_owned:
  assumes "keyed w" "a \<in> set (w_automations (fold (automation_step env) ops w))"
  shows "(\<exists>a0 \<in> set (w_automations w). au_ID a0 = au_ID a \<and> au_Trigger a0 = au_Trigger a \<and> au_Actions a0 = au_Actions a
             \<and> au_RunAsUserID a0 = au_RunAsUserID a \<and> (au_Enabled a \<longrightarrow> au_Enabled a0))
       \<or> (\<exists>oper \<in> set ops. \<exists>u. op_caller oper = Some u \<and> au_RunAsUserID a = u_ID u
             \<and> Authorise (Some u) (au_Trigger a) (au_Actions a) = None)"
  using owned_after [OF assms] unfolding inherited_def bound_to_def .

text \<open>An administrator's automation is off; another administrator enables it and becomes its owner.\<close>

definition owner_env :: exec_env where
  "owner_env = \<lparr>ee_validateURL = (\<lambda>_. None), ee_HashToken = (\<lambda>s. s), ee_parseURL = (\<lambda>_. None), ee_hmac = (\<lambda>_ _. [])\<rparr>"

definition owner_row :: automation where
  "owner_row = a_row\<lparr>au_Actions := [ping_action]\<rparr>"

definition owner_world :: aapi_world where
  "owner_world = \<lparr>clock = 0, db_script = [], hub = \<lparr>hub_sessions = [], hub_objs = (\<lambda>_. undefined)\<rparr>, picks = [],
     users = [admin_user, admin_user\<lparr>u_ID := 9\<rparr>], stacks = [], containers = [], registries = [],
     w_automations = [owner_row\<lparr>au_Enabled := False\<rparr>], w_runs = [], w_next_id = 2,
     w_audit = [], w_slots = 0, w_http = [], w_http_sent = [], x_audits = [], x_rand = (\<lambda>_. Inr ''secret''), x_drawn = 0\<rparr>"

definition owner_request :: "user \<Rightarrow> httpRequest" where
  "owner_request u = \<lparr>hr_Vars = [(''id'', ''1'')], hr_Query = [], hr_Path = [], hr_Body = Inl ''EOF'', hr_User = Some u, hr_IP = []\<rparr>"

lemma answer_rows: "w_automations (snd (answer r act a d say w)) = w_automations w"
proof -
  have g: "w_automations w2 = w_automations w1" if "GetUserByID i w1 = (x, w2)" for i x and w1 w2 :: "'a aapi_world_scheme"
    using frame_GetUserByID [OF automations_frame, of i w1] that by simp
  show ?thesis
    by (auto simp: answer_def shown_def decorateAutomation_def Let_def audit_row_def dest!: g split: prod.split option.split sum.split)
qed

lemma ping_parts:
  "kindFor (ac_Type ping_action) = Inr HttpRequest" "validateHTTP owner_env (ac_Config ping_action) = None"
proof -
  show "kindFor (ac_Type ping_action) = Inr HttpRequest" by code_simp
  define cfg where "cfg = projr (decodeHTTP (ac_Config ping_action))"
  have d: "decodeHTTP (ac_Config ping_action) = Inr cfg" unfolding cfg_def by code_simp
  have c: "hc_Method cfg = ''GET''" "hc_Body cfg = []" "hc_TimeoutSeconds cfg = 0" "validateHeaders (hc_Headers cfg) = None"
    unfolding cfg_def by code_simp+
  have m: "map to_upper ''GET'' \<in> set httpRequestMethods" by code_simp
  show "validateHTTP owner_env (ac_Config ping_action) = None"
    using m by (simp add: validateHTTP_def d c Let_def owner_env_def seconds_duration_def HTTP_ACTION_MAX_TIMEOUT_def Second_def wrap_int64_def)
qed

lemma owner_valid: "ValidateDefinition owner_env (au_Trigger owner_row) (au_Actions owner_row) owner_world = (None, owner_world)"
  by (simp add: ValidateDefinition_def ping_parts owner_row_def a_row_def validateTrigger_def AutomationTriggerWebhook_def MAX_ACTIONS_def)

lemma owner_parts:
  "loadAutomation (owner_request u) owner_world = (Inr (owner_row\<lparr>au_Enabled := False\<rparr>), owner_world)"
  "UpdateAutomation 1 (no_automation_update\<lparr>ur_Enabled := Some True, ur_RunAsUserID := Some 9\<rparr>) owner_world
     = (Inr (owner_row\<lparr>au_RunAsUserID := 9\<rparr>), owner_world\<lparr>w_automations := [owner_row\<lparr>au_RunAsUserID := 9\<rparr>]\<rparr>)"
proof -
  have q: "query g owner_world = (Inr (g owner_world), owner_world)" for g :: "aapi_world \<Rightarrow> 'c" by (simp add: query_quiet owner_world_def)
  have p: "path_int (owner_request u) ''id'' = Some 1" by (simp add: path_int_def owner_request_def) code_simp
  show "loadAutomation (owner_request u) owner_world = (Inr (owner_row\<lparr>au_Enabled := False\<rparr>), owner_world)"
    by (simp add: loadAutomation_def p GetAutomationByID_def one_row_def q) (simp add: owner_world_def owner_row_def a_row_def)
  show "UpdateAutomation 1 (no_automation_update\<lparr>ur_Enabled := Some True, ur_RunAsUserID := Some 9\<rparr>) owner_world
     = (Inr (owner_row\<lparr>au_RunAsUserID := 9\<rparr>), owner_world\<lparr>w_automations := [owner_row\<lparr>au_RunAsUserID := 9\<rparr>]\<rparr>)"
    by (simp add: UpdateAutomation_def automation_update_has_def no_automation_update_def exec_quiet owner_world_def update_automation_def
        GetAutomationByID_def one_row_def query_quiet owner_row_def a_row_def apply_automation_update_def automation_sets_def set_opt_def
        update_where_def db_time_def truncate_to_def)
qed

lemma owner_rows:
  "w_automations (automation_step owner_env (EnableOp (owner_request (admin_user\<lparr>u_ID := 9\<rparr>))) owner_world) = [owner_row\<lparr>au_RunAsUserID := 9\<rparr>]"
proof -
  have a: "Authorise (Some (admin_user\<lparr>u_ID := 9\<rparr>)) (au_Trigger owner_row) (au_Actions owner_row) = None" by code_simp
  have i: "au_ID owner_row = 1" by (simp add: owner_row_def a_row_def)
  have u: "hr_User (owner_request v) = Some v" for v by (simp add: owner_request_def)
  show ?thesis
    by (simp add: HandleEnableAutomation_def owner_parts owner_valid a i u answer_rows)
qed

theorem every_definition_is_owned_witness:
  "\<exists>u. op_caller (EnableOp (owner_request (admin_user\<lparr>u_ID := 9\<rparr>))) = Some u \<and> u_ID u = 9
      \<and> Authorise (Some u) (au_Trigger owner_row) (au_Actions owner_row) = None"
proof -
  have k: "keyed owner_world" by (simp add: keyed_def owner_world_def owner_row_def a_row_def)
  have m: "owner_row\<lparr>au_RunAsUserID := 9\<rparr> \<in> set (w_automations
      (fold (automation_step owner_env) [EnableOp (owner_request (admin_user\<lparr>u_ID := 9\<rparr>))] owner_world))"
    using owner_rows by simp
  have o: "\<not> (\<exists>a0 \<in> set (w_automations owner_world). au_RunAsUserID a0 = 9)" by (simp add: owner_world_def owner_row_def a_row_def)
  from every_definition_is_owned [OF k m] o show ?thesis by auto
qed

end
