(* ===== verification/Stack_Secrets.thy ===== *)
theory Stack_Secrets
  imports Deploy_Spec
begin

text \<open>
  Secret environment variables of a stack (\<^verbatim>\<open>routers/stack_secrets.go\<close>): which keys are secret, what
  a caller who may not read them is shown, and how a shown document is merged back. A JSON column is
  the document it holds. Parameters: \<open>parse\<close> is \<^verbatim>\<open>encoding/json\<close> reading a text as a document,
  \<open>renum\<close> the document of a number's nearest float (none when it is out of range).
\<close>

section \<open>Documents as Go values\<close>

definition column_of :: "(string \<Rightarrow> json option) \<Rightarrow> string \<Rightarrow> jsonColumn" where
  "column_of parse s = (if s = [] then EmptyText else case parse s of None \<Rightarrow> BadText | Some v \<Rightarrow> JsonText v)"

text \<open>A decoded and encoded \<^verbatim>\<open>any\<close>: numbers become floats (nil when out of range), members are sorted.\<close>

definition any_number :: "(string \<Rightarrow> json option) \<Rightarrow> string \<Rightarrow> json" where
  "any_number renum s = (case renum s of None \<Rightarrow> JNull | Some v \<Rightarrow> v)"

fun any_value :: "(string \<Rightarrow> json option) \<Rightarrow> json \<Rightarrow> json" and any_members :: "(string \<Rightarrow> json option) \<Rightarrow> (string \<times> json) list \<Rightarrow> (string \<times> json) list" where
  "any_value renum (JInt n) = (if \<bar>n\<bar> \<le> 9007199254740992 then JInt n else any_number renum (show_int n))"
| "any_value renum (JFloat s) = any_number renum s"
| "any_value renum (JList xs) = JList (map (any_value renum) xs)"
| "any_value renum (JObj kvs) = JObj (sort_key fst (to_map (any_members renum kvs)))"
| "any_value renum JNull = JNull"
| "any_value renum (JBool b) = JBool b"
| "any_value renum (JStr s) = JStr s"
| "any_members renum [] = []"
| "any_members renum ((k, v) # kvs) = (k, any_value renum v) # any_members renum kvs"

fun any_ok :: "(string \<Rightarrow> json option) \<Rightarrow> json \<Rightarrow> bool" and any_members_ok :: "(string \<Rightarrow> json option) \<Rightarrow> (string \<times> json) list \<Rightarrow> bool" where
  "any_ok renum (JInt n) = (\<bar>n\<bar> \<le> 9007199254740992 \<or> renum (show_int n) \<noteq> None)"
| "any_ok renum (JFloat s) = (renum s \<noteq> None)"
| "any_ok renum (JList xs) = list_all (any_ok renum) xs"
| "any_ok renum (JObj kvs) = any_members_ok renum kvs"
| "any_ok renum JNull = True"
| "any_ok renum (JBool b) = True"
| "any_ok renum (JStr s) = True"
| "any_members_ok renum [] = True"
| "any_members_ok renum ((k, v) # kvs) = (any_ok renum v \<and> any_members_ok renum kvs)"

text \<open>\<^verbatim>\<open>json.Unmarshal\<close> into a \<^verbatim>\<open>map[string]any\<close>: whether it succeeds, and the map it leaves (or nil).\<close>

definition read_map :: "(string \<Rightarrow> json option) \<Rightarrow> jsonColumn \<Rightarrow> bool \<times> (string \<times> json) list option" where
  "read_map renum col =
     (case col of
        JsonText JNull \<Rightarrow> (True, None)
      | JsonText (JObj kvs) \<Rightarrow> (any_members_ok renum kvs, Some (to_map (any_members renum kvs)))
      | _ \<Rightarrow> (False, None))"

definition write_map :: "(string \<times> json) list option \<Rightarrow> jsonColumn" where
  "write_map m = JsonText (case m of None \<Rightarrow> JNull | Some kvs \<Rightarrow> JObj (sort_key fst kvs))"

section \<open>Secret keys\<close>

definition secretMask :: string where "secretMask = ''***''"

definition parseSecretKeys :: "jsonColumn \<Rightarrow> string list" where
  "parseSecretKeys raw =
     (if raw = NullColumn \<or> raw = EmptyText then []
      else case unmarshal_strings raw of Inl _ \<Rightarrow> [] | Inr ks \<Rightarrow> filter (\<lambda>k. k \<noteq> []) ks)"

definition normalizeSecretKeys :: "jsonColumn \<Rightarrow> go_error + jsonColumn" where
  "normalizeSecretKeys raw =
     (if raw = EmptyText then Inr EmptyText
      else case unmarshal_strings raw of
        Inl _ \<Rightarrow> Inl ''secret_env_keys must be a JSON array of key names''
      | Inr ks \<Rightarrow>
          (let out = sort (remdups (filter (\<lambda>k. k \<noteq> []) ks))
           in if out = [] then Inr EmptyText else Inr (JsonText (JList (map JStr out)))))"

section \<open>Masking and merging\<close>

definition mask_member :: "string list \<Rightarrow> string \<Rightarrow> string \<times> json \<Rightarrow> string \<times> json" where
  "mask_member secret replacement kv = (if fst kv \<in> set secret then (fst kv, JStr replacement) else kv)"

definition maskEnvVars :: "(string \<Rightarrow> json option) \<Rightarrow> jsonColumn \<Rightarrow> string list \<Rightarrow> string \<Rightarrow> jsonColumn" where
  "maskEnvVars renum envVars secret replacement =
     (if envVars = NullColumn \<or> envVars = EmptyText \<or> secret = [] then envVars
      else case read_map renum envVars of
        (False, _) \<Rightarrow> EmptyText
      | (True, m) \<Rightarrow> write_map (map_option (map (mask_member secret replacement)) m))"

definition merge_member :: "(string \<times> json) list option \<Rightarrow> string \<times> json \<Rightarrow> string \<times> json" where
  "merge_member old kv =
     (if snd kv = JStr secretMask
      then (case map_of (case old of None \<Rightarrow> [] | Some m \<Rightarrow> m) (fst kv) of None \<Rightarrow> kv | Some prev \<Rightarrow> (fst kv, prev)) else kv)"

definition mergeMaskedEnvVars :: "(string \<Rightarrow> json option) \<Rightarrow> jsonColumn \<Rightarrow> jsonColumn \<Rightarrow> go_error + jsonColumn" where
  "mergeMaskedEnvVars renum stored incoming =
     (if incoming = EmptyText then Inr EmptyText
      else case read_map renum incoming of
        (False, _) \<Rightarrow> Inl ''env_vars must be a JSON object''
      | (True, m) \<Rightarrow>
          (let old = (if stored = NullColumn \<or> stored = EmptyText then None else snd (read_map renum stored))
           in Inr (write_map (map_option (map (merge_member old)) m))))"

definition canReadSecrets :: "httpRequest \<Rightarrow> bool" where
  "canReadSecrets r \<longleftrightarrow> (case hr_User r of None \<Rightarrow> False | Some u \<Rightarrow> u_Role u = ''admin'')"

definition masked_stack :: "(string \<Rightarrow> json option) \<Rightarrow> stack \<Rightarrow> stack" where
  "masked_stack renum s = s\<lparr>st_EnvVars := maskEnvVars renum (st_EnvVars s) (parseSecretKeys (st_SecretEnvKeys s)) secretMask\<rparr>"

definition stackForUser :: "(string \<Rightarrow> json option) \<Rightarrow> httpRequest \<Rightarrow> stack \<Rightarrow> stack" where
  "stackForUser renum r s = (if canReadSecrets r then s else masked_stack renum s)"

definition stacksForUser :: "(string \<Rightarrow> json option) \<Rightarrow> httpRequest \<Rightarrow> stack list \<Rightarrow> stack list" where
  "stacksForUser renum r ss = (if canReadSecrets r then ss else map (stackForUser renum r) ss)"

end
