(* ===== verification/Compose.thy ===== *)
theory Compose
  imports Complex_Main Stack_Secrets
begin

text \<open>
  Compose files (\<^verbatim>\<open>routers/HandleImportCompose.router.go\<close>, \<^verbatim>\<open>routers/command.go\<close>,
  \<^verbatim>\<open>routers/compose_networks.go\<close>): the readers that turn a service into the columns of a container.
  The YAML and shell-word parsers, the float scanner and renderer and the defaults of the baseline
  schema, which is not in the repository, are parameters. A YAML value is a JSON value; a Go map
  is visited in the order of its list, and a float64 is the rational it stands for.
\<close>

section \<open>The compose file\<close>

record composeNetwork =
  cn_Driver :: string
  cn_Name :: string

record composeHealth =
  ch_Disable :: bool
  ch_Test :: json
  ch_Interval :: string
  ch_Timeout :: string
  ch_Retries :: int
  ch_StartPeriod :: string

record composeResourceLimit =
  cl_CPUs :: string
  cl_Memory :: string

record composeResource =
  co_Limits :: "composeResourceLimit option"

record composeDeploy =
  cd_Replicas :: int
  cd_Resources :: "composeResource option"

record composeService =
  cs_Image :: string
  cs_ContainerName :: string
  cs_Ports :: "string list"
  cs_Environment :: json
  cs_Volumes :: "string list"
  cs_Command :: json
  cs_Entrypoint :: json
  cs_Restart :: string
  cs_Deploy :: "composeDeploy option"
  cs_Labels :: json
  cs_Healthcheck :: "composeHealth option"
  cs_Ulimits :: json
  cs_Networks :: json

record composeFile =
  cf_Services :: "(string \<times> composeService) list"
  cf_Networks :: "(string \<times> composeNetwork) list"

record compose_env =
  ce_yaml :: "string \<Rightarrow> go_error + composeFile"
  ce_words :: "string \<Rightarrow> go_error + (string list \<times> int)"
  ce_scan :: "string \<Rightarrow> rat \<times> string"
  ce_show :: "rat \<Rightarrow> string"
  ce_fmt :: "string \<Rightarrow> string"
  ce_float_int :: "string \<Rightarrow> int option"
  ce_parse :: "string \<Rightarrow> json option"
  ce_renum :: "string \<Rightarrow> json option"
  ce_stack :: stack
  ce_container :: container

section \<open>Images, ports, environment, volumes\<close>

definition parseImageRef :: "string \<Rightarrow> string \<times> string" where
  "parseImageRef imageRef =
     (let parts = split_on (CHR '':'') imageRef in
      if length parts \<ge> 2 \<and> \<not> str_contains (last parts) ''/''
      then (join_with '':'' (butlast parts), last parts) else (imageRef, ''latest''))"

definition parsePortMapping :: "string \<Rightarrow> json option" where
  "parsePortMapping port =
     (let parts = split_on (CHR '':'') port in
      if length parts < 2 then None
      else let hostPort = parts ! (length parts - 2); proto = last parts;
               (containerPort, protocol) = (case str_index (CHR ''/'') proto of None \<Rightarrow> (proto, ''tcp'') | Some i \<Rightarrow> (take i proto, drop (Suc i) proto))
           in Some (JObj [(''container_port'', JStr containerPort), (''host_port'', JStr hostPort), (''protocol'', JStr protocol)]))"

definition split_two :: "char \<Rightarrow> string \<Rightarrow> (string \<times> string) option" where
  "split_two c s = (case str_index c s of None \<Rightarrow> None | Some i \<Rightarrow> Some (take i s, drop (Suc i) s))"

text \<open>\<^verbatim>\<open>fmt.Sprintf("%v", val)\<close> of a YAML value, whose integers stay integers.\<close>

fun sprint_yaml :: "(string \<Rightarrow> string) \<Rightarrow> json \<Rightarrow> string" and sprint_yaml_members :: "(string \<Rightarrow> string) \<Rightarrow> (string \<times> json) list \<Rightarrow> (string \<times> string) list" where
  "sprint_yaml ff JNull = ''<nil>''"
| "sprint_yaml ff (JBool b) = (if b then ''true'' else ''false'')"
| "sprint_yaml ff (JInt n) = show_int n"
| "sprint_yaml ff (JFloat s) = ff s"
| "sprint_yaml ff (JStr s) = s"
| "sprint_yaml ff (JList xs) = ''['' @ join_with '' '' (map (sprint_yaml ff) xs) @ '']''"
| "sprint_yaml ff (JObj kvs) =
     ''map['' @ join_with '' '' (map (\<lambda>(k, s). k @ '':'' @ s) (sort_key fst (sprint_yaml_members ff kvs))) @ '']''"
| "sprint_yaml_members ff [] = []"
| "sprint_yaml_members ff ((k, v) # kvs) = (k, sprint_yaml ff v) # sprint_yaml_members ff kvs"

definition env_items :: "json list \<Rightarrow> (string \<times> json) list" where
  "env_items items = List.map_filter (\<lambda>v. case v of JStr s \<Rightarrow> map_option (\<lambda>(k, x). (k, JStr x)) (split_two (CHR ''='') s) | _ \<Rightarrow> None) items"

definition parseComposeEnv :: "(string \<Rightarrow> string) \<Rightarrow> json \<Rightarrow> (string \<times> json) list" where
  "parseComposeEnv ff env =
     (case env of
        JObj kvs \<Rightarrow> to_map (map (\<lambda>(k, v). (k, JStr (sprint_yaml ff v))) kvs)
      | JList items \<Rightarrow> to_map (env_items items)
      | _ \<Rightarrow> [])"

definition volume_map :: "string list \<Rightarrow> (string \<times> json) list" where
  "volume_map vs = to_map (List.map_filter (\<lambda>v. map_option (\<lambda>(k, x). (k, JStr x)) (split_two (CHR '':'') v)) vs)"

text \<open>A map that has entries is stored as its JSON text, with the keys in order.\<close>

definition stored_map :: "(string \<times> json) list \<Rightarrow> jsonColumn option" where
  "stored_map m = (if m = [] then None else Some (JsonText (JObj (sort_key fst m))))"

definition stored_list :: "json list \<Rightarrow> jsonColumn option" where
  "stored_list xs = (if xs = [] then None else Some (JsonText (JList xs)))"

section \<open>Commands\<close>

definition parseCommand :: "compose_env \<Rightarrow> string \<Rightarrow> go_error + string list" where
  "parseCommand env raw =
     (let s = trim_space raw in
      if s = [] then Inr []
      else if has_prefix s ''['' then
        (case unmarshal_strings (column_of (ce_parse env) s) of
           Inl e \<Rightarrow> Inl (''looks like a JSON array but is not a list of strings: '' @ e)
         | Inr argv \<Rightarrow> Inr argv)
      else case ce_words env s of
        Inl e \<Rightarrow> Inl (''cannot split '' @ go_quote s @ '' into arguments: '' @ e)
      | Inr (argv, position) \<Rightarrow>
          if position \<noteq> -1
          then Inl (go_quote s @ '' contains an unquoted shell operator (&&, |, ;, <, >), which only a shell understands; wrap it: sh -c \"...\"'')
          else Inr argv)"

definition commandFromBody :: "compose_env \<Rightarrow> string \<Rightarrow> string option \<Rightarrow> go_error + jsonColumn option" where
  "commandFromBody env field raw =
     (case raw of
        None \<Rightarrow> Inr None
      | Some s \<Rightarrow>
          if s = [] then Inr (Some EmptyText)
          else case parseCommand env s of
            Inl e \<Rightarrow> Inl (field @ '': '' @ e)
          | Inr argv \<Rightarrow> Inr (Some (if argv = [] then EmptyText else JsonText (JList (map JStr argv)))))"

fun string_items :: "(string \<Rightarrow> string) \<Rightarrow> json list \<Rightarrow> go_error + string list" where
  "string_items ff [] = Inr []"
| "string_items ff (v # vs) =
     (case v of
        JStr s \<Rightarrow> map_sum id (\<lambda>ss. s # ss) (string_items ff vs)
      | _ \<Rightarrow> Inl (''list items must be strings, got '' @ sprint_yaml ff v))"

definition composeArgv :: "compose_env \<Rightarrow> json \<Rightarrow> go_error + string list" where
  "composeArgv env v =
     (case v of
        JNull \<Rightarrow> Inr []
      | JStr s \<Rightarrow> parseCommand env s
      | JList items \<Rightarrow> string_items (ce_fmt env) items
      | _ \<Rightarrow> Inl ''must be a string or a list'')"

fun validateComposeCommands :: "compose_env \<Rightarrow> (string \<times> composeService) list \<Rightarrow> go_error option" where
  "validateComposeCommands env [] = None"
| "validateComposeCommands env ((name, svc) # svcs) =
     (case composeArgv env (cs_Command svc) of
        Inl e \<Rightarrow> Some (''service '' @ name @ '': command '' @ e)
      | Inr _ \<Rightarrow>
          (case composeArgv env (cs_Entrypoint svc) of
             Inl e \<Rightarrow> Some (''service '' @ name @ '': entrypoint '' @ e)
           | Inr _ \<Rightarrow> validateComposeCommands env svcs))"

definition parseStringOrList :: "compose_env \<Rightarrow> json \<Rightarrow> string list" where
  "parseStringOrList env v = (case composeArgv env v of Inl _ \<Rightarrow> [] | Inr argv \<Rightarrow> argv)"

section \<open>Health checks, ulimits and limits\<close>

definition normalizeHealthTest :: "json \<Rightarrow> json" where
  "normalizeHealthTest v =
     (case v of
        JStr s \<Rightarrow> if s = [] then JNull else JList [JStr ''CMD-SHELL'', JStr s]
      | JList items \<Rightarrow> JList (filter (\<lambda>x. case x of JStr _ \<Rightarrow> True | _ \<Rightarrow> False) items)
      | _ \<Rightarrow> JNull)"

text \<open>\<open>test\<close> is the member \<^verbatim>\<open>test\<close>, left out when the field holds no value at all.\<close>

definition health_json :: "json option \<Rightarrow> composeHealth \<Rightarrow> json" where
  "health_json test h = JObj
     ((if ch_Disable h then [(''disable'', JBool True)] else []) @
      (case test of None \<Rightarrow> [] | Some v \<Rightarrow> [(''test'', v)]) @
      (if ch_Interval h = [] then [] else [(''interval'', JStr (ch_Interval h))]) @
      (if ch_Timeout h = [] then [] else [(''timeout'', JStr (ch_Timeout h))]) @
      (if ch_Retries h = 0 then [] else [(''retries'', JInt (ch_Retries h))]) @
      (if ch_StartPeriod h = [] then [] else [(''start_period'', JStr (ch_StartPeriod h))]))"

text \<open>An import and a sync rewrite the test to a list of strings, which may be nil but is always there.\<close>

definition normalized_health :: "composeHealth \<Rightarrow> jsonColumn" where
  "normalized_health h = JsonText (health_json (Some (normalizeHealthTest (ch_Test h))) h)"

definition raw_health :: "composeHealth \<Rightarrow> jsonColumn" where
  "raw_health h = JsonText (health_json (if ch_Test h = JNull then None else Some (ch_Test h)) h)"

definition integer_text :: "string \<Rightarrow> bool" where
  "integer_text s \<longleftrightarrow> (let ds = (case s of [] \<Rightarrow> [] | c # cs \<Rightarrow> if c = CHR ''-'' then cs else s) in ds \<noteq> [] \<and> list_all is_digit ds)"

definition yaml_int :: "compose_env \<Rightarrow> string \<Rightarrow> int option" where
  "yaml_int env s = (if integer_text s then atoi s else ce_float_int env s)"

fun composeUlimits :: "compose_env \<Rightarrow> (string \<times> composeService) list \<Rightarrow> go_error + (string \<times> jsonColumn) list" where
  "composeUlimits env [] = Inr []"
| "composeUlimits env ((name, svc) # svcs) =
     (case normalizeUlimits (yaml_int env) (cs_Ulimits svc) of
        Inl e \<Rightarrow> Inl (''service '' @ name @ '': '' @ e)
      | Inr u \<Rightarrow> map_sum id (\<lambda>us. (name, u) # us) (composeUlimits env svcs))"

definition blankToNil :: "jsonColumn \<Rightarrow> jsonColumn" where
  "blankToNil c = (if c = EmptyText then NullColumn else c)"

definition trunc_rat :: "rat \<Rightarrow> int" where
  "trunc_rat x = (if x \<ge> 0 then \<lfloor>x\<rfloor> else \<lceil>x\<rceil>)"

definition parseMemoryString :: "compose_env \<Rightarrow> string \<Rightarrow> int" where
  "parseMemoryString env mem =
     (let (v, unit) = ce_scan env (trim_space (map to_lower mem)) in
      if has_prefix unit ''g'' then trunc_rat (v * 1024)
      else if has_prefix unit ''m'' then trunc_rat v
      else if has_prefix unit ''k'' then trunc_rat (v / 1024)
      else trunc_rat v)"

definition service_limits :: "composeService \<Rightarrow> composeResourceLimit option" where
  "service_limits svc =
     (case cs_Deploy svc of None \<Rightarrow> None | Some d \<Rightarrow> (case cd_Resources d of None \<Rightarrow> None | Some res \<Rightarrow> co_Limits res))"

definition service_cpus :: "compose_env \<Rightarrow> composeService \<Rightarrow> string option" where
  "service_cpus env svc =
     (case service_limits svc of
        None \<Rightarrow> None
      | Some l \<Rightarrow> if cl_CPUs l = [] then None else let v = fst (ce_scan env (cl_CPUs l)) in if v > 0 then Some (ce_show env v) else None)"

definition service_memory :: "compose_env \<Rightarrow> composeService \<Rightarrow> int option" where
  "service_memory env svc =
     (case service_limits svc of
        None \<Rightarrow> None
      | Some l \<Rightarrow> if cl_Memory l = [] then None else let m = parseMemoryString env (cl_Memory l) in if m > 0 then Some m else None)"

section \<open>The columns of a service\<close>

definition service_name :: "string \<times> composeService \<Rightarrow> string" where
  "service_name ks = (if cs_ContainerName (snd ks) \<noteq> [] then cs_ContainerName (snd ks) else fst ks)"

definition service_alias :: "string \<times> composeService \<Rightarrow> jsonColumn option" where
  "service_alias ks =
     (if cs_ContainerName (snd ks) \<noteq> [] \<and> cs_ContainerName (snd ks) \<noteq> fst ks then Some (JsonText (JList [JStr (fst ks)])) else None)"

definition service_restart :: "composeService \<Rightarrow> string option" where
  "service_restart svc = (if cs_Restart svc = [] then None else Some (cs_Restart svc))"

definition service_ports :: "composeService \<Rightarrow> jsonColumn option" where
  "service_ports svc = stored_list (List.map_filter parsePortMapping (cs_Ports svc))"

definition service_env :: "compose_env \<Rightarrow> composeService \<Rightarrow> jsonColumn option" where
  "service_env env svc = stored_map (parseComposeEnv (ce_fmt env) (cs_Environment svc))"

definition service_volumes :: "composeService \<Rightarrow> jsonColumn option" where
  "service_volumes svc = stored_map (volume_map (cs_Volumes svc))"

definition service_argv :: "compose_env \<Rightarrow> json \<Rightarrow> jsonColumn option" where
  "service_argv env v = stored_list (map JStr (parseStringOrList env v))"

definition service_replicas :: "composeService \<Rightarrow> int" where
  "service_replicas svc = (case cs_Deploy svc of None \<Rightarrow> 1 | Some d \<Rightarrow> if cd_Replicas d > 0 then cd_Replicas d else 1)"

section \<open>Networks\<close>

definition network_driver :: "composeNetwork \<Rightarrow> string" where
  "network_driver n = (if cn_Driver n = [] then ''bridge'' else cn_Driver n)"

definition network_name :: "string \<times> composeNetwork \<Rightarrow> string" where
  "network_name kn = (if cn_Name (snd kn) = [] then fst kn else cn_Name (snd kn))"

definition composeNetworkRequests :: "compose_env \<Rightarrow> string \<Rightarrow> go_error + (string \<times> string) list" where
  "composeNetworkRequests env composeYAML =
     (if composeYAML = [] then Inr []
      else case ce_yaml env composeYAML of
        Inl e \<Rightarrow> Inl (''invalid compose yaml: '' @ e)
      | Inr cf \<Rightarrow> Inr (sort_key fst (map (\<lambda>kn. (network_name kn, network_driver (snd kn))) (cf_Networks cf))))"

end
