(* ===== verification/Stack_Router.thy ===== *)
theory Stack_Router
  imports Compose Accounts Deploy_Router
begin

text \<open>
  The HTTP handlers of stacks and containers (\<^verbatim>\<open>routers/HandleCreateStack.router.go\<close>,
  \<^verbatim>\<open>HandleUpdateStack\<close>, \<^verbatim>\<open>HandleExportStack\<close>, \<^verbatim>\<open>HandleImportStackExport\<close>, \<^verbatim>\<open>HandleImportCompose\<close>,
  \<^verbatim>\<open>HandleUpdateCompose\<close>, \<^verbatim>\<open>HandleSyncCompose\<close>, the container handlers and the reads) with the
  inserts they make. A JSON text in a body becomes the column it is stored in.
\<close>

section \<open>Statements\<close>

record listStacksRequest =
  ls_Limit :: int
  ls_Offset :: int
  ls_Active :: "bool option"
  ls_WorkerID :: "int option"
  ls_Status :: "string option"

definition stack_listed :: "listStacksRequest \<Rightarrow> stack \<Rightarrow> bool" where
  "stack_listed q s \<longleftrightarrow> st_Active s = (case ls_Active q of None \<Rightarrow> True | Some b \<Rightarrow> b) \<and>
     (case ls_WorkerID q of None \<Rightarrow> True | Some i \<Rightarrow> st_WorkerID s = Some i) \<and>
     (case ls_Status q of None \<Rightarrow> True | Some x \<Rightarrow> st_Status s = x)"

definition ListStacks :: "listStacksRequest \<Rightarrow> 'a tables_scheme \<Rightarrow> (go_error + stack list) \<times> 'a tables_scheme" where
  "ListStacks q w =
     wrap_err ''failed to execute sql query: ''
       (query (\<lambda>w. page (ls_Limit q) (ls_Offset q) (rev (sort_key st_ID (filter (stack_listed q) (stacks w))))) w)"

record createStackRequest =
  ks_Name :: string
  ks_Description :: "string option"
  ks_WorkerID :: "int option"
  ks_DeploymentStrategy :: string
  ks_AutoDeploy :: bool
  ks_EnvVars :: jsonColumn
  ks_SecretEnvKeys :: jsonColumn
  ks_ComposeYAML :: "string option"
  ks_PlacementConstraints :: jsonColumn

definition new_stack :: "compose_env \<Rightarrow> createStackRequest \<Rightarrow> int \<Rightarrow> stack" where
  "new_stack env req i = (ce_stack env)\<lparr>st_ID := i, st_Name := ks_Name req, st_Description := ks_Description req, st_WorkerID := ks_WorkerID req,
     st_DeploymentStrategy := ks_DeploymentStrategy req, st_AutoDeploy := ks_AutoDeploy req, st_EnvVars := ks_EnvVars req,
     st_SecretEnvKeys := ks_SecretEnvKeys req, st_ComposeYAML := ks_ComposeYAML req, st_PlacementConstraints := ks_PlacementConstraints req\<rparr>"

definition CreateStack :: "compose_env \<Rightarrow> createStackRequest \<Rightarrow> 'a deploy_world_scheme \<Rightarrow> (go_error + stack) \<times> 'a deploy_world_scheme" where
  "CreateStack env req w =
     (case exec (\<lambda>w. (w_next_stack w, w\<lparr>stacks := stacks w @ [new_stack env req (w_next_stack w)], w_next_stack := w_next_stack w + 1\<rparr>)) w of
        (Inl e, w1) \<Rightarrow> (Inl (''failed to execute sql query: '' @ e), w1)
      | (Inr i, w1) \<Rightarrow> GetStackByID i w1)"

record createContainerRequest =
  kc_StackID :: int
  kc_Name :: string
  kc_Image :: string
  kc_Tag :: string
  kc_PortMappings :: jsonColumn
  kc_EnvVars :: jsonColumn
  kc_Volumes :: jsonColumn
  kc_CPULimit :: "string option"
  kc_MemoryLimit :: "int option"
  kc_Replicas :: int
  kc_RestartPolicy :: "string option"
  kc_Command :: jsonColumn
  kc_Entrypoint :: jsonColumn
  kc_HealthCheck :: jsonColumn
  kc_Ulimits :: jsonColumn
  kc_RegistryID :: "int option"
  kc_DependsOn :: jsonColumn
  kc_NetworkAliases :: jsonColumn

definition new_container :: "compose_env \<Rightarrow> createContainerRequest \<Rightarrow> int \<Rightarrow> container" where
  "new_container env req i = (ce_container env)\<lparr>c_ID := i, c_StackID := kc_StackID req, c_Name := kc_Name req, c_Image := kc_Image req,
     c_Tag := kc_Tag req, c_PortMappings := kc_PortMappings req, c_EnvVars := kc_EnvVars req, c_Volumes := kc_Volumes req,
     c_CPULimit := kc_CPULimit req, c_MemoryLimit := kc_MemoryLimit req, c_Replicas := kc_Replicas req, c_RestartPolicy := kc_RestartPolicy req,
     c_Command := kc_Command req, c_Entrypoint := kc_Entrypoint req, c_HealthCheck := kc_HealthCheck req, c_Ulimits := kc_Ulimits req,
     c_RegistryID := kc_RegistryID req, c_DependsOn := kc_DependsOn req, c_NetworkAliases := kc_NetworkAliases req\<rparr>"

definition CreateContainer ::
  "compose_env \<Rightarrow> createContainerRequest \<Rightarrow> 'a deploy_world_scheme \<Rightarrow> (go_error + container) \<times> 'a deploy_world_scheme" where
  "CreateContainer env req w =
     (case exec (\<lambda>w. (w_next_container w, w\<lparr>containers := containers w @ [new_container env req (w_next_container w)],
                                             w_next_container := w_next_container w + 1\<rparr>)) w of
        (Inl e, w1) \<Rightarrow> (Inl (''failed to execute sql query: '' @ e), w1)
      | (Inr i, w1) \<Rightarrow> GetContainerByID i w1)"

definition ContainerNameExists :: "string \<Rightarrow> int option \<Rightarrow> 'a tables_scheme \<Rightarrow> (go_error + bool) \<times> 'a tables_scheme" where
  "ContainerNameExists name excludeID w =
     query (\<lambda>w. list_ex (\<lambda>c. c_Name c = name \<and> c_Active c \<and> excludeID \<noteq> Some (c_ID c)) (containers w)) w"

text \<open>The id of a network row only orders the rows: it is above every id in the table.\<close>

definition CreateNetwork :: "int \<Rightarrow> string \<Rightarrow> string \<Rightarrow> 'a deploy_world_scheme \<Rightarrow> go_error option \<times> 'a deploy_world_scheme" where
  "CreateNetwork stackID name driver w =
     exec_unit (\<lambda>w. w\<lparr>w_networks := w_networks w @
       [\<lparr>nw_ID = fold max (map nw_ID (w_networks w)) 0 + 1, nw_StackID = stackID, nw_Name = name, nw_Driver = driver\<rparr>]\<rparr>) w"

definition DeleteNetworksByStack :: "int \<Rightarrow> 'a deploy_world_scheme \<Rightarrow> go_error option \<times> 'a deploy_world_scheme" where
  "DeleteNetworksByStack stackID w = exec_unit (\<lambda>w. w\<lparr>w_networks := filter (\<lambda>n. nw_StackID n \<noteq> stackID) (w_networks w)\<rparr>) w"

section \<open>Transactions and loops that stop at the first error\<close>

definition transaction :: "('a world_scheme \<Rightarrow> (response + 'b) \<times> 'a world_scheme) \<Rightarrow> 'a world_scheme \<Rightarrow> (response + 'b) \<times> 'a world_scheme" where
  "transaction body w =
     (case begin_tx w of
        (Some e, w1) \<Rightarrow> (Inl (SendError 500 ''failed to start transaction'' (Some e)), w1)
      | (None, w1) \<Rightarrow>
          (case body w1 of
             (Inl resp, w2) \<Rightarrow> (Inl resp, rollback w1 w2)
           | (Inr x, w2) \<Rightarrow>
               (case commit w1 w2 of
                  (Some e, w3) \<Rightarrow> (Inl (SendError 500 ''failed to commit transaction'' (Some e)), w3)
                | (None, w3) \<Rightarrow> (Inr x, w3))))"

fun each :: "('x \<Rightarrow> 'w \<Rightarrow> response option \<times> 'w) \<Rightarrow> 'x list \<Rightarrow> 'w \<Rightarrow> response option \<times> 'w" where
  "each step [] w = (None, w)"
| "each step (x # xs) w = (case step x w of (Some resp, w1) \<Rightarrow> (Some resp, w1) | (None, w1) \<Rightarrow> each step xs w1)"

definition after :: "response option \<times> 'w \<Rightarrow> ('w \<Rightarrow> (response + 'b) \<times> 'w) \<Rightarrow> (response + 'b) \<times> 'w" where
  "after r k = (case r of (Some resp, w) \<Rightarrow> (Inl resp, w) | (None, w) \<Rightarrow> k w)"

section \<open>Stacks\<close>

definition validStackStatuses :: "string list" where
  "validStackStatuses = [''active'', ''stopped'', ''deploying'', ''deployed'', ''failed'', ''error'']"

definition strategy_valid :: "string \<Rightarrow> bool" where
  "strategy_valid s \<longleftrightarrow> s = ''rolling'' \<or> s = ''blue-green'' \<or> s = ''canary''"

definition INVALID_DEPLOYMENT_STRATEGY :: string where
  "INVALID_DEPLOYMENT_STRATEGY = ''deployment_strategy must be one of: rolling, blue-green, canary''"

definition text_column :: "compose_env \<Rightarrow> string option \<Rightarrow> jsonColumn" where
  "text_column env t = (case t of None \<Rightarrow> NullColumn | Some s \<Rightarrow> column_of (ce_parse env) s)"

text \<open>The keys a new stack declares: none declared is NULL.\<close>

definition new_secret_keys :: "compose_env \<Rightarrow> string option \<Rightarrow> go_error + jsonColumn" where
  "new_secret_keys env keys =
     (case keys of
        None \<Rightarrow> Inr NullColumn
      | Some s \<Rightarrow> map_sum id (\<lambda>nkeys. if nkeys = EmptyText then NullColumn else nkeys) (normalizeSecretKeys (column_of (ce_parse env) s)))"

record stackBody =
  sbd_Name :: string
  sbd_Description :: "string option"
  sbd_WorkerID :: "int option"
  sbd_DeploymentStrategy :: string
  sbd_AutoDeploy :: bool
  sbd_EnvVars :: "string option"
  sbd_SecretEnvKeys :: "string option"
  sbd_ComposeYAML :: "string option"
  sbd_PlacementConstraints :: "string option"

definition empty_stackBody :: stackBody where
  "empty_stackBody = \<lparr>sbd_Name = [], sbd_Description = None, sbd_WorkerID = None, sbd_DeploymentStrategy = [], sbd_AutoDeploy = False,
     sbd_EnvVars = None, sbd_SecretEnvKeys = None, sbd_ComposeYAML = None, sbd_PlacementConstraints = None\<rparr>"

abbreviation ptr_string where "ptr_string \<equiv> store_ptr store_string []"
abbreviation ptr_int where "ptr_int \<equiv> store_ptr store_int 0"
abbreviation ptr_bool where "ptr_bool \<equiv> store_ptr store_bool False"
abbreviation ptr_float where "ptr_float \<equiv> store_ptr store_float []"

definition createStack_fields :: "stackBody body_field list" where
  "createStack_fields =
     [(''name'', into store_string sbd_Name (\<lambda>x b. b\<lparr>sbd_Name := x\<rparr>)),
      (''description'', into ptr_string sbd_Description (\<lambda>x b. b\<lparr>sbd_Description := x\<rparr>)),
      (''worker_id'', into ptr_int sbd_WorkerID (\<lambda>x b. b\<lparr>sbd_WorkerID := x\<rparr>)),
      (''deployment_strategy'', into store_string sbd_DeploymentStrategy (\<lambda>x b. b\<lparr>sbd_DeploymentStrategy := x\<rparr>)),
      (''auto_deploy'', into store_bool sbd_AutoDeploy (\<lambda>x b. b\<lparr>sbd_AutoDeploy := x\<rparr>)),
      (''env_vars'', into ptr_string sbd_EnvVars (\<lambda>x b. b\<lparr>sbd_EnvVars := x\<rparr>)),
      (''secret_env_keys'', into ptr_string sbd_SecretEnvKeys (\<lambda>x b. b\<lparr>sbd_SecretEnvKeys := x\<rparr>))]"

definition HandleCreateStack :: "compose_env \<Rightarrow> httpRequest \<Rightarrow> 'a deploy_world_scheme \<Rightarrow> response \<times> 'a deploy_world_scheme" where
  "HandleCreateStack env r w =
     (case decode_body createStack_fields empty_stackBody r of
        Inl e \<Rightarrow> (BadBody e, w)
      | Inr b \<Rightarrow>
          if sbd_Name b = [] then (MissingBodyFields ''name'', w)
          else case ValidateName (sbd_Name b) of
            Some e \<Rightarrow> (SendError 400 e None, w)
          | None \<Rightarrow>
              (let strategy = (if sbd_DeploymentStrategy b = [] then ''rolling'' else sbd_DeploymentStrategy b) in
               if \<not> strategy_valid strategy then (SendError 400 INVALID_DEPLOYMENT_STRATEGY None, w)
               else case StackNameExists (sbd_Name b) None w of
                 (Inl e, w1) \<Rightarrow> (QueryError e ''failed to check stack name'', w1)
               | (Inr True, w1) \<Rightarrow> (SendError 409 ''a stack with that name already exists'' None, w1)
               | (Inr False, w1) \<Rightarrow>
                   (case new_secret_keys env (sbd_SecretEnvKeys b) of
                      Inl e \<Rightarrow> (SendError 400 e None, w1)
                    | Inr keys \<Rightarrow>
                        (case CreateStack env
                                \<lparr>ks_Name = sbd_Name b, ks_Description = sbd_Description b, ks_WorkerID = sbd_WorkerID b,
                                 ks_DeploymentStrategy = strategy, ks_AutoDeploy = sbd_AutoDeploy b,
                                 ks_EnvVars = text_column env (sbd_EnvVars b), ks_SecretEnvKeys = keys,
                                 ks_ComposeYAML = None, ks_PlacementConstraints = NullColumn\<rparr> w1 of
                           (Inl e, w2) \<Rightarrow> (QueryError e ''failed to create stack'', w2)
                         | (Inr s, w2) \<Rightarrow>
                             (NewCreated (DataStack (stackForUser (ce_renum env) r s)) ''stack created'',
                              logAudit r ''create'' ''stack'' (Some (st_ID s)) (Some (st_Name s)) w2)))))"

definition HandleGetStack :: "compose_env \<Rightarrow> httpRequest \<Rightarrow> 'a deploy_world_scheme \<Rightarrow> response \<times> 'a deploy_world_scheme" where
  "HandleGetStack env r w =
     (case path_int r ''id'' of
        None \<Rightarrow> (SendError 400 ''invalid stack id'' None, w)
      | Some i \<Rightarrow>
          (case GetStackByID i w of
             (Inl _, w1) \<Rightarrow> (NotFound, w1)
           | (Inr s, w1) \<Rightarrow> (New (DataStack (stackForUser (ce_renum env) r s)) ''stack retrieved'', w1)))"

definition HandleGetStacks :: "compose_env \<Rightarrow> httpRequest \<Rightarrow> 'a deploy_world_scheme \<Rightarrow> response \<times> 'a deploy_world_scheme" where
  "HandleGetStacks env r w =
     (case ListStacks
             \<lparr>ls_Limit = (case int_param r ''limit'' of None \<Rightarrow> 0 | Some n \<Rightarrow> n), ls_Offset = (case int_param r ''offset'' of None \<Rightarrow> 0 | Some n \<Rightarrow> n),
              ls_Active = (if query_param r ''active'' = [] then None else parse_bool (query_param r ''active'')),
              ls_WorkerID = int_param r ''worker_id'', ls_Status = opt_param r ''status''\<rparr> w of
        (Inl e, w1) \<Rightarrow> (QueryError e ''failed to list stacks'', w1)
      | (Inr ss, w1) \<Rightarrow> (New (DataStacks (stacksForUser (ce_renum env) r ss)) ''stacks retrieved'', w1))"

record updateStackBody =
  usb_Name :: "string option"
  usb_Description :: "string option"
  usb_WorkerID :: "int option"
  usb_Status :: "string option"
  usb_DeploymentStrategy :: "string option"
  usb_AutoDeploy :: "bool option"
  usb_EnvVars :: "string option"
  usb_SecretEnvKeys :: "string option"
  usb_PlacementConstraints :: "string option"
  usb_Active :: "bool option"

definition empty_updateStackBody :: updateStackBody where
  "empty_updateStackBody = \<lparr>usb_Name = None, usb_Description = None, usb_WorkerID = None, usb_Status = None, usb_DeploymentStrategy = None,
     usb_AutoDeploy = None, usb_EnvVars = None, usb_SecretEnvKeys = None, usb_PlacementConstraints = None, usb_Active = None\<rparr>"

definition updateStack_fields :: "updateStackBody body_field list" where
  "updateStack_fields =
     [(''name'', into ptr_string usb_Name (\<lambda>x b. b\<lparr>usb_Name := x\<rparr>)),
      (''description'', into ptr_string usb_Description (\<lambda>x b. b\<lparr>usb_Description := x\<rparr>)),
      (''worker_id'', into ptr_int usb_WorkerID (\<lambda>x b. b\<lparr>usb_WorkerID := x\<rparr>)),
      (''status'', into ptr_string usb_Status (\<lambda>x b. b\<lparr>usb_Status := x\<rparr>)),
      (''deployment_strategy'', into ptr_string usb_DeploymentStrategy (\<lambda>x b. b\<lparr>usb_DeploymentStrategy := x\<rparr>)),
      (''auto_deploy'', into ptr_bool usb_AutoDeploy (\<lambda>x b. b\<lparr>usb_AutoDeploy := x\<rparr>)),
      (''env_vars'', into ptr_string usb_EnvVars (\<lambda>x b. b\<lparr>usb_EnvVars := x\<rparr>)),
      (''secret_env_keys'', into ptr_string usb_SecretEnvKeys (\<lambda>x b. b\<lparr>usb_SecretEnvKeys := x\<rparr>)),
      (''placement_constraints'', into ptr_string usb_PlacementConstraints (\<lambda>x b. b\<lparr>usb_PlacementConstraints := x\<rparr>)),
      (''active'', into ptr_bool usb_Active (\<lambda>x b. b\<lparr>usb_Active := x\<rparr>))]"

text \<open>The environment to store: a document that comes back masked keeps what it masks.\<close>

definition merged_env ::
  "compose_env \<Rightarrow> int \<Rightarrow> string option \<Rightarrow> 'a deploy_world_scheme \<Rightarrow> (response + jsonColumn option) \<times> 'a deploy_world_scheme" where
  "merged_env env i envVars w =
     (case envVars of
        None \<Rightarrow> (Inr None, w)
      | Some t \<Rightarrow>
          (case GetStackByID i w of
             (Inl _, w1) \<Rightarrow> (Inl NotFound, w1)
           | (Inr existing, w1) \<Rightarrow>
               (case mergeMaskedEnvVars (ce_renum env) (st_EnvVars existing) (column_of (ce_parse env) t) of
                  Inl e \<Rightarrow> (Inl (SendError 400 e None), w1)
                | Inr merged \<Rightarrow> (Inr (Some merged), w1))))"

text \<open>The keys to store: only who reads secrets may take one off the list.\<close>

definition checked_keys ::
  "compose_env \<Rightarrow> httpRequest \<Rightarrow> int \<Rightarrow> string option \<Rightarrow> 'a deploy_world_scheme \<Rightarrow> (response + jsonColumn option) \<times> 'a deploy_world_scheme" where
  "checked_keys env r i keys w =
     (case keys of
        None \<Rightarrow> (Inr None, w)
      | Some t \<Rightarrow>
          (case normalizeSecretKeys (column_of (ce_parse env) t) of
             Inl e \<Rightarrow> (Inl (SendError 400 e None), w)
           | Inr nkeys \<Rightarrow>
               if canReadSecrets r then (Inr (Some nkeys), w)
               else (case GetStackByID i w of
                       (Inl _, w1) \<Rightarrow> (Inl NotFound, w1)
                     | (Inr existing, w1) \<Rightarrow>
                         if list_all (\<lambda>k. k \<in> set (parseSecretKeys nkeys)) (parseSecretKeys (st_SecretEnvKeys existing))
                         then (Inr (Some nkeys), w1)
                         else (Inl (SendError 403 ''only admins can unmark a secret env var'' None), w1))))"

definition stack_update :: "compose_env \<Rightarrow> updateStackBody \<Rightarrow> jsonColumn option \<Rightarrow> jsonColumn option \<Rightarrow> updateStackRequest" where
  "stack_update env b envVars keys =
     \<lparr>us_Name = usb_Name b, us_Description = usb_Description b, us_WorkerID = usb_WorkerID b, us_Status = usb_Status b,
      us_DeploymentStrategy = usb_DeploymentStrategy b, us_AutoDeploy = usb_AutoDeploy b, us_EnvVars = envVars, us_SecretEnvKeys = keys,
      us_ComposeYAML = None, us_PlacementConstraints = map_option (column_of (ce_parse env)) (usb_PlacementConstraints b),
      us_Active = usb_Active b\<rparr>"

definition HandleUpdateStack :: "compose_env \<Rightarrow> httpRequest \<Rightarrow> 'a deploy_world_scheme \<Rightarrow> response \<times> 'a deploy_world_scheme" where
  "HandleUpdateStack env r w =
     (case path_int r ''id'' of
        None \<Rightarrow> (SendError 400 ''invalid stack id'' None, w)
      | Some i \<Rightarrow>
          (case decode_body updateStack_fields empty_updateStackBody r of
             Inl e \<Rightarrow> (BadBody e, w)
           | Inr b \<Rightarrow>
               if (case usb_Status b of None \<Rightarrow> False | Some s \<Rightarrow> s \<notin> set validStackStatuses)
               then (SendError 400 ''invalid status value'' None, w)
               else if (case usb_DeploymentStrategy b of None \<Rightarrow> False | Some s \<Rightarrow> \<not> strategy_valid s)
               then (SendError 400 INVALID_DEPLOYMENT_STRATEGY None, w)
               else case merged_env env i (usb_EnvVars b) w of
                 (Inl resp, w1) \<Rightarrow> (resp, w1)
               | (Inr envVars, w1) \<Rightarrow>
                   (case checked_keys env r i (usb_SecretEnvKeys b) w1 of
                      (Inl resp, w2) \<Rightarrow> (resp, w2)
                    | (Inr keys, w2) \<Rightarrow>
                        (case UpdateStack i (stack_update env b envVars keys) w2 of
                           (Inl e, w3) \<Rightarrow> (QueryError e ''failed to update stack'', w3)
                         | (Inr s, w3) \<Rightarrow>
                             (New (DataStack (stackForUser (ce_renum env) r s)) ''stack updated'', logAudit r ''update'' ''stack'' (Some i) None w3)))))"

section \<open>Export and import\<close>

definition HandleExportStack :: "compose_env \<Rightarrow> httpRequest \<Rightarrow> 'a deploy_world_scheme \<Rightarrow> response \<times> 'a deploy_world_scheme" where
  "HandleExportStack env r w =
     (case path_int r ''id'' of
        None \<Rightarrow> (SendError 400 ''invalid stack id'' None, w)
      | Some i \<Rightarrow>
          (case GetStackByID i w of
             (Inl _, w1) \<Rightarrow> (NotFound, w1)
           | (Inr s, w1) \<Rightarrow>
               (case ListContainersByStack i w1 of
                  (Inl e, w2) \<Rightarrow> (QueryError e ''failed to list containers'', w2)
                | (Inr cs, w2) \<Rightarrow>
                    (New (DataExport (stackForUser (ce_renum env) r s) (map (\<lambda>c. c\<lparr>c_Ulimits := blankToNil (c_Ulimits c)\<rparr>) cs)) ''stack exported'', w2))))"

record containerBody =
  cb_Name :: string
  cb_Image :: string
  cb_Tag :: string
  cb_PortMappings :: "string option"
  cb_EnvVars :: "string option"
  cb_Volumes :: "string option"
  cb_CPULimit :: "string option"
  cb_MemoryLimit :: "int option"
  cb_Replicas :: int
  cb_RestartPolicy :: "string option"
  cb_Command :: "string option"
  cb_Entrypoint :: "string option"
  cb_HealthCheck :: "string option"
  cb_Ulimits :: "string option"
  cb_RegistryID :: "int option"
  cb_DependsOn :: "string option"

definition empty_containerBody :: containerBody where
  "empty_containerBody = \<lparr>cb_Name = [], cb_Image = [], cb_Tag = [], cb_PortMappings = None, cb_EnvVars = None, cb_Volumes = None,
     cb_CPULimit = None, cb_MemoryLimit = None, cb_Replicas = 0, cb_RestartPolicy = None, cb_Command = None, cb_Entrypoint = None,
     cb_HealthCheck = None, cb_Ulimits = None, cb_RegistryID = None, cb_DependsOn = None\<rparr>"

definition container_fields :: "containerBody body_field list" where
  "container_fields =
     [(''name'', into store_string cb_Name (\<lambda>x b. b\<lparr>cb_Name := x\<rparr>)),
      (''image'', into store_string cb_Image (\<lambda>x b. b\<lparr>cb_Image := x\<rparr>)),
      (''tag'', into store_string cb_Tag (\<lambda>x b. b\<lparr>cb_Tag := x\<rparr>)),
      (''port_mappings'', into ptr_string cb_PortMappings (\<lambda>x b. b\<lparr>cb_PortMappings := x\<rparr>)),
      (''env_vars'', into ptr_string cb_EnvVars (\<lambda>x b. b\<lparr>cb_EnvVars := x\<rparr>)),
      (''volumes'', into ptr_string cb_Volumes (\<lambda>x b. b\<lparr>cb_Volumes := x\<rparr>)),
      (''cpu_limit'', into ptr_float cb_CPULimit (\<lambda>x b. b\<lparr>cb_CPULimit := x\<rparr>)),
      (''memory_limit'', into ptr_int cb_MemoryLimit (\<lambda>x b. b\<lparr>cb_MemoryLimit := x\<rparr>)),
      (''replicas'', into store_int cb_Replicas (\<lambda>x b. b\<lparr>cb_Replicas := x\<rparr>)),
      (''restart_policy'', into ptr_string cb_RestartPolicy (\<lambda>x b. b\<lparr>cb_RestartPolicy := x\<rparr>)),
      (''command'', into ptr_string cb_Command (\<lambda>x b. b\<lparr>cb_Command := x\<rparr>)),
      (''entrypoint'', into ptr_string cb_Entrypoint (\<lambda>x b. b\<lparr>cb_Entrypoint := x\<rparr>)),
      (''health_check'', into ptr_string cb_HealthCheck (\<lambda>x b. b\<lparr>cb_HealthCheck := x\<rparr>)),
      (''ulimits'', into ptr_string cb_Ulimits (\<lambda>x b. b\<lparr>cb_Ulimits := x\<rparr>)),
      (''registry_id'', into ptr_int cb_RegistryID (\<lambda>x b. b\<lparr>cb_RegistryID := x\<rparr>))]"

definition imported_fields :: "containerBody body_field list" where
  "imported_fields = container_fields @ [(''depends_on'', into ptr_string cb_DependsOn (\<lambda>x b. b\<lparr>cb_DependsOn := x\<rparr>))]"

text \<open>Command, entrypoint and ulimits of a body, in the order the handlers check them.\<close>

definition argv_columns ::
  "compose_env \<Rightarrow> string option \<Rightarrow> string option \<Rightarrow> string option \<Rightarrow> go_error + (jsonColumn option \<times> jsonColumn option \<times> jsonColumn option)" where
  "argv_columns env command entrypoint ulimits =
     (case commandFromBody env ''command'' command of
        Inl e \<Rightarrow> Inl e
      | Inr cmd \<Rightarrow>
          (case commandFromBody env ''entrypoint'' entrypoint of
             Inl e \<Rightarrow> Inl e
           | Inr ep \<Rightarrow>
               (case ulimits of
                  None \<Rightarrow> Inr (cmd, ep, None)
                | Some t \<Rightarrow> map_sum id (\<lambda>u. (cmd, ep, Some u)) (ulimitsFromBody (ce_float_int env) (column_of (ce_parse env) t)))))"

definition or_null :: "jsonColumn option \<Rightarrow> jsonColumn" where
  "or_null c = (case c of None \<Rightarrow> NullColumn | Some v \<Rightarrow> v)"

definition container_request ::
  "compose_env \<Rightarrow> int \<Rightarrow> containerBody \<Rightarrow> jsonColumn option \<times> jsonColumn option \<times> jsonColumn option \<Rightarrow> createContainerRequest" where
  "container_request env stackID b argv =
     (case argv of (cmd, ep, ul) \<Rightarrow>
      \<lparr>kc_StackID = stackID, kc_Name = cb_Name b, kc_Image = cb_Image b, kc_Tag = (if cb_Tag b = [] then ''latest'' else cb_Tag b),
       kc_PortMappings = text_column env (cb_PortMappings b), kc_EnvVars = text_column env (cb_EnvVars b),
       kc_Volumes = text_column env (cb_Volumes b), kc_CPULimit = cb_CPULimit b, kc_MemoryLimit = cb_MemoryLimit b,
       kc_Replicas = (if cb_Replicas b \<le> 0 then 1 else cb_Replicas b), kc_RestartPolicy = cb_RestartPolicy b,
       kc_Command = or_null cmd, kc_Entrypoint = or_null ep, kc_HealthCheck = text_column env (cb_HealthCheck b),
       kc_Ulimits = or_null ul, kc_RegistryID = cb_RegistryID b, kc_DependsOn = text_column env (cb_DependsOn b),
       kc_NetworkAliases = NullColumn\<rparr>)"

definition HandleCreateContainer :: "compose_env \<Rightarrow> httpRequest \<Rightarrow> 'a deploy_world_scheme \<Rightarrow> response \<times> 'a deploy_world_scheme" where
  "HandleCreateContainer env r w =
     (case path_int r ''id'' of
        None \<Rightarrow> (SendError 400 ''invalid stack id'' None, w)
      | Some stackID \<Rightarrow>
          (case decode_body container_fields empty_containerBody r of
             Inl e \<Rightarrow> (BadBody e, w)
           | Inr b \<Rightarrow>
               if cb_Name b = [] then (MissingBodyFields ''name'', w)
               else case ValidateName (cb_Name b) of
                 Some e \<Rightarrow> (SendError 400 e None, w)
               | None \<Rightarrow>
                   if cb_Image b = [] then (MissingBodyFields ''image'', w)
                   else case ContainerNameExists (cb_Name b) None w of
                     (Inl e, w1) \<Rightarrow> (QueryError e ''failed to check container name'', w1)
                   | (Inr True, w1) \<Rightarrow> (SendError 409 ''a container with that name already exists'' None, w1)
                   | (Inr False, w1) \<Rightarrow>
                       (case argv_columns env (cb_Command b) (cb_Entrypoint b) (cb_Ulimits b) of
                          Inl e \<Rightarrow> (SendError 400 e None, w1)
                        | Inr argv \<Rightarrow>
                            (case CreateContainer env (container_request env stackID b argv) w1 of
                               (Inl e, w2) \<Rightarrow> (QueryError e ''failed to create container'', w2)
                             | (Inr c, w2) \<Rightarrow>
                                 (NewCreated (DataContainer c) ''container created'', logAudit r ''create'' ''container'' (Some (c_ID c)) (Some (c_Name c)) w2)))))"

record importBody =
  ib_Version :: string
  ib_Stack :: stackBody
  ib_Containers :: "containerBody list"

definition exportedStack_fields :: "stackBody body_field list" where
  "exportedStack_fields =
     [(''name'', into store_string sbd_Name (\<lambda>x b. b\<lparr>sbd_Name := x\<rparr>)),
      (''description'', into ptr_string sbd_Description (\<lambda>x b. b\<lparr>sbd_Description := x\<rparr>)),
      (''deployment_strategy'', into store_string sbd_DeploymentStrategy (\<lambda>x b. b\<lparr>sbd_DeploymentStrategy := x\<rparr>)),
      (''auto_deploy'', into store_bool sbd_AutoDeploy (\<lambda>x b. b\<lparr>sbd_AutoDeploy := x\<rparr>)),
      (''env_vars'', into ptr_string sbd_EnvVars (\<lambda>x b. b\<lparr>sbd_EnvVars := x\<rparr>)),
      (''secret_env_keys'', into ptr_string sbd_SecretEnvKeys (\<lambda>x b. b\<lparr>sbd_SecretEnvKeys := x\<rparr>)),
      (''compose_yaml'', into ptr_string sbd_ComposeYAML (\<lambda>x b. b\<lparr>sbd_ComposeYAML := x\<rparr>)),
      (''placement_constraints'', into ptr_string sbd_PlacementConstraints (\<lambda>x b. b\<lparr>sbd_PlacementConstraints := x\<rparr>))]"

definition store_containers :: "string \<Rightarrow> json \<Rightarrow> containerBody list \<Rightarrow> go_error option \<times> containerBody list" where
  "store_containers field v old =
     (case v of
        JList vs \<Rightarrow> store_each (\<lambda>c x. store_struct ''struct'' imported_fields field x c) empty_containerBody vs
      | JNull \<Rightarrow> (None, [])
      | _ \<Rightarrow> (Some (type_error (json_kind v) field ''[]struct''), old))"

definition importBody_fields :: "importBody body_field list" where
  "importBody_fields =
     [(''version'', into store_string ib_Version (\<lambda>x b. b\<lparr>ib_Version := x\<rparr>)),
      (''stack'', into (store_struct ''struct'' exportedStack_fields) ib_Stack (\<lambda>x b. b\<lparr>ib_Stack := x\<rparr>)),
      (''containers'', into store_containers ib_Containers (\<lambda>x b. b\<lparr>ib_Containers := x\<rparr>))]"

definition import_container :: "compose_env \<Rightarrow> int \<Rightarrow> containerBody \<Rightarrow> 'a deploy_world_scheme \<Rightarrow> response option \<times> 'a deploy_world_scheme" where
  "import_container env stackID b w =
     (if cb_Name b = [] \<or> cb_Image b = [] then (None, w)
      else case argv_columns env (cb_Command b) (cb_Entrypoint b) (cb_Ulimits b) of
        Inl e \<Rightarrow> (Some (SendError 400 (''container '' @ cb_Name b @ '': '' @ e) None), w)
      | Inr argv \<Rightarrow>
          (case CreateContainer env (container_request env stackID b argv) w of
             (Inl e, w1) \<Rightarrow> (Some (QueryError e ''failed to create container from import''), w1)
           | (Inr _, w1) \<Rightarrow> (None, w1)))"

definition create_network :: "int \<Rightarrow> string \<times> string \<Rightarrow> 'a deploy_world_scheme \<Rightarrow> response option \<times> 'a deploy_world_scheme" where
  "create_network stackID nd w =
     (case CreateNetwork stackID (fst nd) (snd nd) w of
        (Some e, w1) \<Rightarrow> (Some (SendError 500 ''failed to create stack network'' (Some e)), w1)
      | (None, w1) \<Rightarrow> (None, w1))"

definition import_networks :: "compose_env \<Rightarrow> int \<Rightarrow> string option \<Rightarrow> 'a deploy_world_scheme \<Rightarrow> response option \<times> 'a deploy_world_scheme" where
  "import_networks env stackID yaml w =
     (case yaml of
        None \<Rightarrow> (None, w)
      | Some y \<Rightarrow>
          (case composeNetworkRequests env y of
             Inl e \<Rightarrow> (Some (SendError 400 e None), w)
           | Inr nets \<Rightarrow> each (create_network stackID) nets w))"

definition import_export :: "compose_env \<Rightarrow> string \<Rightarrow> importBody \<Rightarrow> 'a deploy_world_scheme \<Rightarrow> (response + stack) \<times> 'a deploy_world_scheme" where
  "import_export env strategy b w =
     (case new_secret_keys env (sbd_SecretEnvKeys (ib_Stack b)) of
        Inl e \<Rightarrow> (Inl (SendError 400 e None), w)
      | Inr keys \<Rightarrow>
          (case CreateStack env
                  \<lparr>ks_Name = sbd_Name (ib_Stack b), ks_Description = sbd_Description (ib_Stack b), ks_WorkerID = None,
                   ks_DeploymentStrategy = strategy, ks_AutoDeploy = sbd_AutoDeploy (ib_Stack b),
                   ks_EnvVars = text_column env (sbd_EnvVars (ib_Stack b)), ks_SecretEnvKeys = keys,
                   ks_ComposeYAML = sbd_ComposeYAML (ib_Stack b),
                   ks_PlacementConstraints = text_column env (sbd_PlacementConstraints (ib_Stack b))\<rparr> w of
             (Inl e, w1) \<Rightarrow> (Inl (QueryError e ''failed to create stack from import''), w1)
           | (Inr s, w1) \<Rightarrow>
               after (each (import_container env (st_ID s)) (ib_Containers b) w1)
                 (\<lambda>w2. after (import_networks env (st_ID s) (sbd_ComposeYAML (ib_Stack b)) w2) (\<lambda>w3. (Inr s, w3)))))"

definition HandleImportStackExport :: "compose_env \<Rightarrow> httpRequest \<Rightarrow> 'a deploy_world_scheme \<Rightarrow> response \<times> 'a deploy_world_scheme" where
  "HandleImportStackExport env r w =
     (case decode_body importBody_fields \<lparr>ib_Version = [], ib_Stack = empty_stackBody, ib_Containers = []\<rparr> r of
        Inl e \<Rightarrow> (BadBody e, w)
      | Inr b \<Rightarrow>
          if sbd_Name (ib_Stack b) = [] then (MissingBodyFields ''stack.name'', w)
          else case ValidateName (sbd_Name (ib_Stack b)) of
            Some e \<Rightarrow> (SendError 400 e None, w)
          | None \<Rightarrow>
              (let strategy = (if sbd_DeploymentStrategy (ib_Stack b) = [] then ''rolling'' else sbd_DeploymentStrategy (ib_Stack b)) in
               if \<not> strategy_valid strategy then (SendError 400 INVALID_DEPLOYMENT_STRATEGY None, w)
               else case transaction (import_export env strategy b) w of
                 (Inl resp, w1) \<Rightarrow> (resp, w1)
               | (Inr s, w1) \<Rightarrow>
                   (NewCreated (DataStack (stackForUser (ce_renum env) r s)) ''stack imported'',
                    logAudit r ''import'' ''stack'' (Some (st_ID s)) (Some (sbd_Name (ib_Stack b))) w1)))"

section \<open>Containers\<close>

text \<open>\<^verbatim>\<open>tools.Optional\<close>: whether the field is there, and its value unless it is null.\<close>

definition store_optional :: "(string \<Rightarrow> json \<Rightarrow> 'v \<Rightarrow> go_error option \<times> 'v) \<Rightarrow> 'v \<Rightarrow> string \<Rightarrow> json \<Rightarrow> bool \<times> 'v option \<Rightarrow> go_error option \<times> bool \<times> 'v option" where
  "store_optional st zero field v old =
     (if v = JNull then (None, True, None)
      else case st [] v zero of (Some e, _) \<Rightarrow> (Some e, True, snd old) | (None, x) \<Rightarrow> (None, True, Some x))"

definition optional_clear :: "bool \<times> 'v option \<Rightarrow> bool" where
  "optional_clear x \<longleftrightarrow> fst x \<and> snd x = None"

record updateContainerBody =
  ub_Name :: "string option"
  ub_Image :: "string option"
  ub_Tag :: "string option"
  ub_Status :: "string option"
  ub_PortMappings :: "string option"
  ub_EnvVars :: "string option"
  ub_Volumes :: "string option"
  ub_CPULimit :: "bool \<times> string option"
  ub_MemoryLimit :: "bool \<times> int option"
  ub_Replicas :: "int option"
  ub_RestartPolicy :: "string option"
  ub_Command :: "string option"
  ub_Entrypoint :: "string option"
  ub_HealthCheck :: "string option"
  ub_Ulimits :: "string option"
  ub_RegistryID :: "bool \<times> int option"
  ub_DependsOn :: "string option"
  ub_Active :: "bool option"

definition empty_updateContainerBody :: updateContainerBody where
  "empty_updateContainerBody = \<lparr>ub_Name = None, ub_Image = None, ub_Tag = None, ub_Status = None, ub_PortMappings = None, ub_EnvVars = None,
     ub_Volumes = None, ub_CPULimit = (False, None), ub_MemoryLimit = (False, None), ub_Replicas = None, ub_RestartPolicy = None,
     ub_Command = None, ub_Entrypoint = None, ub_HealthCheck = None, ub_Ulimits = None, ub_RegistryID = (False, None), ub_DependsOn = None,
     ub_Active = None\<rparr>"

definition updateContainer_fields :: "updateContainerBody body_field list" where
  "updateContainer_fields =
     [(''name'', into ptr_string ub_Name (\<lambda>x b. b\<lparr>ub_Name := x\<rparr>)),
      (''image'', into ptr_string ub_Image (\<lambda>x b. b\<lparr>ub_Image := x\<rparr>)),
      (''tag'', into ptr_string ub_Tag (\<lambda>x b. b\<lparr>ub_Tag := x\<rparr>)),
      (''status'', into ptr_string ub_Status (\<lambda>x b. b\<lparr>ub_Status := x\<rparr>)),
      (''port_mappings'', into ptr_string ub_PortMappings (\<lambda>x b. b\<lparr>ub_PortMappings := x\<rparr>)),
      (''env_vars'', into ptr_string ub_EnvVars (\<lambda>x b. b\<lparr>ub_EnvVars := x\<rparr>)),
      (''volumes'', into ptr_string ub_Volumes (\<lambda>x b. b\<lparr>ub_Volumes := x\<rparr>)),
      (''cpu_limit'', into (store_optional store_float []) ub_CPULimit (\<lambda>x b. b\<lparr>ub_CPULimit := x\<rparr>)),
      (''memory_limit'', into (store_optional store_int 0) ub_MemoryLimit (\<lambda>x b. b\<lparr>ub_MemoryLimit := x\<rparr>)),
      (''replicas'', into ptr_int ub_Replicas (\<lambda>x b. b\<lparr>ub_Replicas := x\<rparr>)),
      (''restart_policy'', into ptr_string ub_RestartPolicy (\<lambda>x b. b\<lparr>ub_RestartPolicy := x\<rparr>)),
      (''command'', into ptr_string ub_Command (\<lambda>x b. b\<lparr>ub_Command := x\<rparr>)),
      (''entrypoint'', into ptr_string ub_Entrypoint (\<lambda>x b. b\<lparr>ub_Entrypoint := x\<rparr>)),
      (''health_check'', into ptr_string ub_HealthCheck (\<lambda>x b. b\<lparr>ub_HealthCheck := x\<rparr>)),
      (''ulimits'', into ptr_string ub_Ulimits (\<lambda>x b. b\<lparr>ub_Ulimits := x\<rparr>)),
      (''registry_id'', into (store_optional store_int 0) ub_RegistryID (\<lambda>x b. b\<lparr>ub_RegistryID := x\<rparr>)),
      (''depends_on'', into ptr_string ub_DependsOn (\<lambda>x b. b\<lparr>ub_DependsOn := x\<rparr>)),
      (''active'', into ptr_bool ub_Active (\<lambda>x b. b\<lparr>ub_Active := x\<rparr>))]"

definition container_update ::
  "compose_env \<Rightarrow> updateContainerBody \<Rightarrow> jsonColumn option \<times> jsonColumn option \<times> jsonColumn option \<Rightarrow> updateContainerRequest" where
  "container_update env b argv =
     (let col = map_option (column_of (ce_parse env)) in
      case argv of (cmd, ep, ul) \<Rightarrow>
      \<lparr>uc_Name = ub_Name b, uc_Image = ub_Image b, uc_Tag = ub_Tag b, uc_Status = ub_Status b, uc_PortMappings = col (ub_PortMappings b),
       uc_EnvVars = col (ub_EnvVars b), uc_Volumes = col (ub_Volumes b), uc_CPULimit = snd (ub_CPULimit b),
       uc_MemoryLimit = snd (ub_MemoryLimit b), uc_Replicas = ub_Replicas b, uc_RestartPolicy = ub_RestartPolicy b, uc_Command = cmd,
       uc_Entrypoint = ep, uc_HealthCheck = col (ub_HealthCheck b), uc_Ulimits = ul,
       uc_HealthStatus = (if ub_HealthCheck b = Some [] then Some ''none'' else None), uc_RegistryID = snd (ub_RegistryID b),
       uc_DependsOn = col (ub_DependsOn b), uc_NetworkAliases = None, uc_StartedAt = None, uc_Active = ub_Active b,
       uc_ClearCPULimit = optional_clear (ub_CPULimit b), uc_ClearMemoryLimit = optional_clear (ub_MemoryLimit b),
       uc_ClearRegistryID = optional_clear (ub_RegistryID b)\<rparr>)"

definition HandleUpdateContainer :: "compose_env \<Rightarrow> httpRequest \<Rightarrow> 'a deploy_world_scheme \<Rightarrow> response \<times> 'a deploy_world_scheme" where
  "HandleUpdateContainer env r w =
     (case path_int r ''id'' of
        None \<Rightarrow> (SendError 400 ''invalid container id'' None, w)
      | Some i \<Rightarrow>
          (case decode_body updateContainer_fields empty_updateContainerBody r of
             Inl e \<Rightarrow> (BadBody e, w)
           | Inr b \<Rightarrow>
               (case argv_columns env (ub_Command b) (ub_Entrypoint b) (ub_Ulimits b) of
                  Inl e \<Rightarrow> (SendError 400 e None, w)
                | Inr argv \<Rightarrow>
                    (case UpdateContainer i (container_update env b argv) w of
                       (Inl e, w1) \<Rightarrow> (QueryError e ''failed to update container'', w1)
                     | (Inr c, w1) \<Rightarrow> (New (DataContainer c) ''container updated'', logAudit r ''update'' ''container'' (Some i) None w1)))))"

definition HandleDeleteContainer :: "httpRequest \<Rightarrow> 'a deploy_world_scheme \<Rightarrow> response \<times> 'a deploy_world_scheme" where
  "HandleDeleteContainer r w =
     (case path_int r ''id'' of
        None \<Rightarrow> (SendError 400 ''invalid container id'' None, w)
      | Some i \<Rightarrow>
          (case GetContainerByID i w of
             (Inl e, w1) \<Rightarrow> (QueryError e ''failed to get container'', w1)
           | (Inr c, w1) \<Rightarrow>
               (let (st, w2) = GetStackByID (c_StackID c) w1;
                    w3 = (case st of
                            Inl _ \<Rightarrow> w2
                          | Inr s \<Rightarrow> (case st_WorkerID s of
                                       None \<Rightarrow> w2
                                     | Some workerID \<Rightarrow> if worker_connected workerID w2 then remove_container workerID c w2 else w2))
                in case DeleteContainer i w3 of
                     (Some e, w4) \<Rightarrow> (QueryError e ''failed to delete container'', w4)
                   | (None, w4) \<Rightarrow> (New NoData ''container deleted'', logAudit r ''delete'' ''container'' (Some i) (Some (c_Name c)) w4))))"

definition HandleGetContainer :: "httpRequest \<Rightarrow> 'a deploy_world_scheme \<Rightarrow> response \<times> 'a deploy_world_scheme" where
  "HandleGetContainer r w =
     (case path_int r ''id'' of
        None \<Rightarrow> (SendError 400 ''invalid container id'' None, w)
      | Some i \<Rightarrow>
          (case GetContainerByID i w of
             (Inl e, w1) \<Rightarrow> (QueryError e ''failed to get container'', w1)
           | (Inr c, w1) \<Rightarrow> (New (DataContainer c) ''container retrieved'', w1)))"

definition HandleGetContainers :: "httpRequest \<Rightarrow> 'a deploy_world_scheme \<Rightarrow> response \<times> 'a deploy_world_scheme" where
  "HandleGetContainers r w =
     (case path_int r ''id'' of
        None \<Rightarrow> (SendError 400 ''invalid stack id'' None, w)
      | Some i \<Rightarrow>
          (case ListContainersByStack i w of
             (Inl e, w1) \<Rightarrow> (QueryError e ''failed to list containers'', w1)
           | (Inr cs, w1) \<Rightarrow> (New (DataContainers cs) ''containers retrieved'', w1)))"

end
