(* ===== verification/Compose_Router.thy ===== *)
theory Compose_Router
  imports Stack_Router
begin

text \<open>
  The three ways a compose file reaches the containers of a stack (\<^verbatim>\<open>HandleImportCompose\<close>,
  \<^verbatim>\<open>HandleUpdateCompose\<close>, \<^verbatim>\<open>HandleSyncCompose\<close>) and the backfill of networks at startup
  (\<^verbatim>\<open>routers/backfill_networks.go\<close>).
\<close>

section \<open>Reading the file\<close>

text \<open>What import and update check before they touch the database: the file and its services' ulimits.\<close>

definition checked_compose :: "compose_env \<Rightarrow> string \<Rightarrow> string \<Rightarrow> string \<Rightarrow> response + (composeFile \<times> (string \<times> jsonColumn) list)" where
  "checked_compose env prefix none yaml =
     (case ce_yaml env yaml of
        Inl e \<Rightarrow> Inl (SendError 400 (prefix @ e) None)
      | Inr cf \<Rightarrow>
          if cf_Services cf = [] then Inl (SendError 400 none None)
          else case composeUlimits env (cf_Services cf) of
            Inl e \<Rightarrow> Inl (SendError 400 e None)
          | Inr us \<Rightarrow>
              (case validateComposeCommands env (cf_Services cf) of
                 Some e \<Rightarrow> Inl (SendError 400 e None)
               | None \<Rightarrow> Inr (cf, us)))"

definition service_ulimits :: "(string \<times> jsonColumn) list \<Rightarrow> string \<Rightarrow> jsonColumn" where
  "service_ulimits us k = (case map_of us k of None \<Rightarrow> EmptyText | Some u \<Rightarrow> u)"

text \<open>The container of a service; an update stores the health test as written and no alias.\<close>

definition service_request :: "compose_env \<Rightarrow> bool \<Rightarrow> int \<Rightarrow> (string \<times> jsonColumn) list \<Rightarrow> string \<times> composeService \<Rightarrow> createContainerRequest" where
  "service_request env importing stackID us ks =
     (let svc = snd ks; img = parseImageRef (cs_Image svc); ul = service_ulimits us (fst ks) in
      \<lparr>kc_StackID = stackID, kc_Name = service_name ks, kc_Image = fst img, kc_Tag = snd img,
       kc_PortMappings = or_null (service_ports svc), kc_EnvVars = or_null (service_env env svc), kc_Volumes = or_null (service_volumes svc),
       kc_CPULimit = service_cpus env svc, kc_MemoryLimit = service_memory env svc, kc_Replicas = service_replicas svc,
       kc_RestartPolicy = service_restart svc, kc_Command = or_null (service_argv env (cs_Command svc)),
       kc_Entrypoint = or_null (service_argv env (cs_Entrypoint svc)),
       kc_HealthCheck = (case cs_Healthcheck svc of
                           None \<Rightarrow> NullColumn
                         | Some h \<Rightarrow> if ch_Disable h then NullColumn else if importing then normalized_health h else raw_health h),
       kc_Ulimits = (if ul = EmptyText then NullColumn else ul), kc_RegistryID = None, kc_DependsOn = NullColumn,
       kc_NetworkAliases = (if importing then or_null (service_alias ks) else NullColumn)\<rparr>)"

definition create_service ::
  "compose_env \<Rightarrow> bool \<Rightarrow> int \<Rightarrow> (string \<times> jsonColumn) list \<Rightarrow> string \<times> composeService \<Rightarrow> 'a deploy_world_scheme \<Rightarrow> response option \<times> 'a deploy_world_scheme" where
  "create_service env importing stackID us ks w =
     (case CreateContainer env (service_request env importing stackID us ks) w of
        (Inl e, w1) \<Rightarrow> (Some (QueryError e (''failed to create container '' @ fst ks)), w1)
      | (Inr _, w1) \<Rightarrow> (None, w1))"

definition file_networks :: "composeFile \<Rightarrow> (string \<times> string) list" where
  "file_networks cf = map (\<lambda>kn. (network_name kn, network_driver (snd kn))) (cf_Networks cf)"

section \<open>Import\<close>

record composeBody =
  mb_Name :: string
  mb_Description :: "string option"
  mb_WorkerID :: "int option"
  mb_DeploymentStrategy :: string
  mb_ComposeYAML :: string

definition empty_composeBody :: composeBody where
  "empty_composeBody = \<lparr>mb_Name = [], mb_Description = None, mb_WorkerID = None, mb_DeploymentStrategy = [], mb_ComposeYAML = []\<rparr>"

definition importCompose_fields :: "composeBody body_field list" where
  "importCompose_fields =
     [(''name'', into store_string mb_Name (\<lambda>x b. b\<lparr>mb_Name := x\<rparr>)),
      (''description'', into ptr_string mb_Description (\<lambda>x b. b\<lparr>mb_Description := x\<rparr>)),
      (''worker_id'', into ptr_int mb_WorkerID (\<lambda>x b. b\<lparr>mb_WorkerID := x\<rparr>)),
      (''deployment_strategy'', into store_string mb_DeploymentStrategy (\<lambda>x b. b\<lparr>mb_DeploymentStrategy := x\<rparr>)),
      (''compose_yaml'', into store_string mb_ComposeYAML (\<lambda>x b. b\<lparr>mb_ComposeYAML := x\<rparr>))]"

definition import_compose ::
  "compose_env \<Rightarrow> composeBody \<Rightarrow> string \<Rightarrow> composeFile \<times> (string \<times> jsonColumn) list \<Rightarrow> 'a deploy_world_scheme \<Rightarrow> (response + stack) \<times> 'a deploy_world_scheme" where
  "import_compose env b strategy cfu w =
     (let cf = fst cfu; name = (if mb_Name b = [] then fst (hd (cf_Services cf)) else mb_Name b) in
      case CreateStack env
             \<lparr>ks_Name = name, ks_Description = mb_Description b, ks_WorkerID = mb_WorkerID b, ks_DeploymentStrategy = strategy,
              ks_AutoDeploy = False, ks_EnvVars = NullColumn, ks_SecretEnvKeys = NullColumn, ks_ComposeYAML = Some (mb_ComposeYAML b),
              ks_PlacementConstraints = NullColumn\<rparr> w of
        (Inl e, w1) \<Rightarrow> (Inl (QueryError e ''failed to create stack''), w1)
      | (Inr s, w1) \<Rightarrow>
          after (each (create_service env True (st_ID s) (snd cfu)) (cf_Services cf) w1)
            (\<lambda>w2. after (each (create_network (st_ID s)) (file_networks cf) w2) (\<lambda>w3. (Inr s, w3))))"

definition HandleImportCompose :: "compose_env \<Rightarrow> httpRequest \<Rightarrow> 'a deploy_world_scheme \<Rightarrow> response \<times> 'a deploy_world_scheme" where
  "HandleImportCompose env r w =
     (case decode_body importCompose_fields empty_composeBody r of
        Inl e \<Rightarrow> (BadBody e, w)
      | Inr b \<Rightarrow>
          if mb_ComposeYAML b = [] then (MissingBodyFields ''compose_yaml'', w)
          else case ValidateYAMLSize (mb_ComposeYAML b) of
            Some e \<Rightarrow> (SendError 400 e None, w)
          | None \<Rightarrow>
              (let strategy = (if mb_DeploymentStrategy b = [] then ''rolling'' else mb_DeploymentStrategy b) in
               if \<not> strategy_valid strategy then (SendError 400 INVALID_DEPLOYMENT_STRATEGY None, w)
               else case checked_compose env ''invalid docker-compose YAML: '' ''no services found in compose file'' (mb_ComposeYAML b) of
                 Inl resp \<Rightarrow> (resp, w)
               | Inr cfu \<Rightarrow>
                   (case transaction (import_compose env b strategy cfu) w of
                      (Inl resp, w1) \<Rightarrow> (resp, w1)
                    | (Inr s, w1) \<Rightarrow>
                        (case GetStackByID (st_ID s) w1 of
                           (Inl e, w2) \<Rightarrow> (QueryError e ''failed to fetch created stack'', w2)
                         | (Inr s', w2) \<Rightarrow>
                             (NewCreated (DataStack (stackForUser (ce_renum env) r s')) ''stack imported from compose file'',
                              logAudit r ''import'' ''stack'' (Some (st_ID s')) (Some (st_Name s')) w2)))))"

section \<open>Update\<close>

text \<open>The configuration of a container, as the update compares it.\<close>

definition containerConfigFingerprint :: "container \<Rightarrow> container" where
  "containerConfigFingerprint c =
     c\<lparr>c_ID := 0, c_StackID := 0, c_Name := [], c_Status := [], c_Ulimits := blankToNil (c_Ulimits c), c_HealthStatus := [],
       c_RegistryID := None, c_Active := True, c_StartedAt := None\<rparr>"

definition changed_ids :: "container list \<Rightarrow> container list \<Rightarrow> int list" where
  "changed_ids old new =
     (let oldConfigs = map_of (rev (map (\<lambda>c. (c_Name c, containerConfigFingerprint c)) old))
      in map c_ID (filter (\<lambda>c. oldConfigs (c_Name c) \<noteq> Some (containerConfigFingerprint c)) new))"

definition delete_existing :: "container \<Rightarrow> 'a deploy_world_scheme \<Rightarrow> response option \<times> 'a deploy_world_scheme" where
  "delete_existing c w =
     (case DeleteContainer (c_ID c) w of
        (Some e, w1) \<Rightarrow> (Some (SendError 500 ''failed to remove existing container'' (Some e)), w1)
      | (None, w1) \<Rightarrow> (None, w1))"

definition replace_networks :: "int \<Rightarrow> composeFile \<Rightarrow> 'a deploy_world_scheme \<Rightarrow> response option \<times> 'a deploy_world_scheme" where
  "replace_networks stackID cf w =
     (case DeleteNetworksByStack stackID w of
        (Some e, w1) \<Rightarrow> (Some (SendError 500 ''failed to replace stack networks'' (Some e)), w1)
      | (None, w1) \<Rightarrow> each (create_network stackID) (file_networks cf) w1)"

definition replace_stack ::
  "compose_env \<Rightarrow> string \<Rightarrow> composeFile \<times> (string \<times> jsonColumn) list \<Rightarrow> stack \<Rightarrow> 'a deploy_world_scheme \<Rightarrow>
   (response + (stack \<times> container list)) \<times> 'a deploy_world_scheme" where
  "replace_stack env yaml cfu s w =
     (case ListContainersByStack (st_ID s) w of
        (Inl e, w1) \<Rightarrow> (Inl (QueryError e ''failed to list containers''), w1)
      | (Inr existing, w1) \<Rightarrow>
          after (each delete_existing existing w1) (\<lambda>w2.
          after (each (create_service env False (st_ID s) (snd cfu)) (cf_Services (fst cfu)) w2) (\<lambda>w3.
          after (replace_networks (st_ID s) (fst cfu) w3) (\<lambda>w4.
            case UpdateStack (st_ID s) (no_stack_update\<lparr>us_ComposeYAML := Some yaml\<rparr>) w4 of
              (Inl e, w5) \<Rightarrow> (Inl (QueryError e ''failed to update stack compose''), w5)
            | (Inr s', w5) \<Rightarrow> (Inr (s', existing), w5)))))"

definition HandleUpdateCompose :: "compose_env \<Rightarrow> httpRequest \<Rightarrow> 'a deploy_world_scheme \<Rightarrow> response \<times> 'a deploy_world_scheme" where
  "HandleUpdateCompose env r w =
     (case path_int r ''id'' of
        None \<Rightarrow> (SendError 400 ''invalid stack id'' None, w)
      | Some i \<Rightarrow>
          (case decode_body [(''compose_yaml'', into store_string mb_ComposeYAML (\<lambda>x b. b\<lparr>mb_ComposeYAML := x\<rparr>))] empty_composeBody r of
             Inl e \<Rightarrow> (BadBody e, w)
           | Inr b \<Rightarrow>
               if mb_ComposeYAML b = [] then (MissingBodyFields ''compose_yaml'', w)
               else case ValidateYAMLSize (mb_ComposeYAML b) of
                 Some e \<Rightarrow> (SendError 400 e None, w)
               | None \<Rightarrow>
                   (case checked_compose env ''invalid docker-compose YAML: '' ''no services found in compose file'' (mb_ComposeYAML b) of
                      Inl resp \<Rightarrow> (resp, w)
                    | Inr cfu \<Rightarrow>
                        (case GetStackByID i w of
                           (Inl e, w1) \<Rightarrow> (QueryError e ''stack not found'', w1)
                         | (Inr s, w1) \<Rightarrow>
                             (case transaction (replace_stack env (mb_ComposeYAML b) cfu s) w1 of
                                (Inl resp, w2) \<Rightarrow> (resp, w2)
                              | (Inr (s', existing), w2) \<Rightarrow>
                                  (let (new, w3) = ListContainersByStack (st_ID s') w2;
                                       changed = (case new of Inl _ \<Rightarrow> [] | Inr cs \<Rightarrow> changed_ids existing cs)
                                   in (New (DataCompose s' changed) ''stack updated from compose file'',
                                       logAudit r ''update_compose'' ''stack'' (Some i) None w3)))))))"

section \<open>Sync\<close>

definition sync_request :: "compose_env \<Rightarrow> (string \<times> jsonColumn) list \<Rightarrow> string \<times> composeService \<Rightarrow> updateContainerRequest" where
  "sync_request env us ks =
     (let svc = snd ks in
      no_container_update\<lparr>uc_NetworkAliases := service_alias ks,
        uc_HealthCheck := map_option (\<lambda>h. if ch_Disable h then EmptyText else normalized_health h) (cs_Healthcheck svc),
        uc_Ulimits := Some (service_ulimits us (fst ks)), uc_RestartPolicy := service_restart svc, uc_PortMappings := service_ports svc,
        uc_EnvVars := service_env env svc, uc_Volumes := service_volumes svc, uc_Command := service_argv env (cs_Command svc),
        uc_Entrypoint := service_argv env (cs_Entrypoint svc), uc_CPULimit := service_cpus env svc, uc_MemoryLimit := service_memory env svc\<rparr>)"

definition sync_result :: "string \<Rightarrow> bool \<Rightarrow> string \<Rightarrow> json" where
  "sync_result name updated reason =
     JObj ([(''container_name'', JStr name), (''updated'', JBool updated)] @ (if reason = [] then [] else [(''reason'', JStr reason)]))"

fun sync_services ::
  "compose_env \<Rightarrow> (string \<times> jsonColumn) list \<Rightarrow> container list \<Rightarrow> (string \<times> composeService) list \<Rightarrow> 'a deploy_world_scheme \<Rightarrow> json list \<times> 'a deploy_world_scheme" where
  "sync_services env us existing [] w = ([], w)"
| "sync_services env us existing (ks # svcs) w =
     (let name = service_name ks;
          (result, w1) = (case map_of (rev (map (\<lambda>c. (c_Name c, c_ID c)) existing)) name of
             None \<Rightarrow> (sync_result name False ''no matching container found in stack'', w)
           | Some i \<Rightarrow>
               (case UpdateContainer i (sync_request env us ks) w of
                  (Inl e, w1) \<Rightarrow> (sync_result name False (''db update failed: '' @ e), w1)
                | (Inr _, w1) \<Rightarrow> (sync_result name True [], w1)));
          (results, w2) = sync_services env us existing svcs w1
      in (result # results, w2))"

definition HandleSyncCompose :: "compose_env \<Rightarrow> httpRequest \<Rightarrow> 'a deploy_world_scheme \<Rightarrow> response \<times> 'a deploy_world_scheme" where
  "HandleSyncCompose env r w =
     (case path_int r ''id'' of
        None \<Rightarrow> (SendError 400 ''invalid stack id'' None, w)
      | Some i \<Rightarrow>
          (case GetStackByID i w of
             (Inl e, w1) \<Rightarrow> (QueryError e ''stack not found'', w1)
           | (Inr s, w1) \<Rightarrow>
               (case (case st_ComposeYAML s of None \<Rightarrow> [] | Some y \<Rightarrow> y) of
                  [] \<Rightarrow> (SendError 400 ''stack has no compose YAML stored'' None, w1)
                | y # ys \<Rightarrow>
                    (case checked_compose env ''failed to parse stored compose YAML: '' ''no services found in compose YAML'' (y # ys) of
                       Inl resp \<Rightarrow> (resp, w1)
                     | Inr cfu \<Rightarrow>
                         (case ListContainersByStack i w1 of
                            (Inl e, w2) \<Rightarrow> (QueryError e ''failed to list containers'', w2)
                          | (Inr existing, w2) \<Rightarrow>
                              (case sync_services env (snd cfu) existing (cf_Services (fst cfu)) w2 of
                                 (results, w3) \<Rightarrow>
                                   (New (DataList results) ''compose sync complete'', logAudit r ''sync_compose'' ''stack'' (Some i) None w3)))))))"

section \<open>Backfill\<close>

text \<open>A network that cannot be created is logged and the loop goes on.\<close>

definition backfill_network :: "int \<Rightarrow> string \<times> string \<Rightarrow> 'a deploy_world_scheme \<Rightarrow> 'a deploy_world_scheme" where
  "backfill_network stackID nd w = snd (CreateNetwork stackID (fst nd) (snd nd) w)"

definition backfill_stack :: "compose_env \<Rightarrow> stack \<Rightarrow> 'a deploy_world_scheme \<Rightarrow> 'a deploy_world_scheme" where
  "backfill_stack env s w =
     (case st_ComposeYAML s of
        None \<Rightarrow> w
      | Some y \<Rightarrow>
          if y = [] then w
          else case ListNetworksByStack (st_ID s) w of
            (existing, w1) \<Rightarrow>
              if (case existing of Inl _ \<Rightarrow> False | Inr ns \<Rightarrow> ns \<noteq> []) then w1
              else (case ce_yaml env y of
                      Inl _ \<Rightarrow> w1
                    | Inr cf \<Rightarrow> fold (backfill_network (st_ID s)) (file_networks cf) w1))"

definition BackfillNetworksFromCompose :: "compose_env \<Rightarrow> 'a deploy_world_scheme \<Rightarrow> 'a deploy_world_scheme" where
  "BackfillNetworksFromCompose env w =
     (case ListStacks \<lparr>ls_Limit = 10000, ls_Offset = 0, ls_Active = None, ls_WorkerID = None, ls_Status = None\<rparr> w of
        (Inl _, w1) \<Rightarrow> w1
      | (Inr ss, w1) \<Rightarrow> fold (backfill_stack env) ss w1)"

end
