(* ===== verification/Stack_Safety.thy ===== *)
theory Stack_Safety
  imports Compose_Router
begin

text \<open>
  Two runs side by side: worlds that differ only in the values of secret environment variables give
  a caller who may not read them the same answers. The locale lists what a relation between worlds
  must respect for the statements on the other tables to run in lockstep; its interpretation is the
  equality of everything but secret values.
\<close>

section \<open>Lockstep\<close>

definition lock :: "('w \<Rightarrow> 'w \<Rightarrow> bool) \<Rightarrow> ('x \<Rightarrow> 'x \<Rightarrow> bool) \<Rightarrow> 'x \<times> 'w \<Rightarrow> 'x \<times> 'w \<Rightarrow> bool" where
  "lock A R p q \<longleftrightarrow> R (fst p) (fst q) \<and> A (snd p) (snd q)"

lemma lockI: "R x y \<Longrightarrow> A w w' \<Longrightarrow> lock A R (x, w) (y, w')"
  by (simp add: lock_def)

lemma lock_sumE:
  assumes "lock A (rel_sum (=) R) p q"
  obtains (err) e w1 w2 where "p = (Inl e, w1)" "q = (Inl e, w2)" "A w1 w2"
  | (ok) x y w1 w2 where "p = (Inr x, w1)" "q = (Inr y, w2)" "R x y" "A w1 w2"
  using assms unfolding lock_def by (cases p; cases q) (auto elim: rel_sum.cases)

lemma lock_eqE:
  assumes "lock A (=) p q"
  obtains x w1 w2 where "p = (x, w1)" "q = (x, w2)" "A w1 w2"
  using assms unfolding lock_def by (cases p; cases q) auto

locale lockstep =
  fixes A :: "'a deploy_world_scheme \<Rightarrow> 'a deploy_world_scheme \<Rightarrow> bool"
  assumes connection: "A w w' \<Longrightarrow> clock w' = clock w \<and> db_script w' = db_script w"
    and elapsed: "A w w' \<Longrightarrow> A (w\<lparr>clock := c, db_script := s\<rparr>) (w'\<lparr>clock := c, db_script := s\<rparr>)"
    and others: "A w w' \<Longrightarrow> containers w' = containers w \<and> w_next_container w' = w_next_container w \<and> w_networks w' = w_networks w"
    and set_containers_only: "A w w' \<Longrightarrow> A (w\<lparr>containers := cs\<rparr>) (w'\<lparr>containers := cs\<rparr>)"
    and set_containers: "A w w' \<Longrightarrow> A (w\<lparr>containers := cs, w_next_container := n\<rparr>) (w'\<lparr>containers := cs, w_next_container := n\<rparr>)"
    and set_networks: "A w w' \<Longrightarrow> A (w\<lparr>w_networks := ns\<rparr>) (w'\<lparr>w_networks := ns\<rparr>)"
    and audits: "A w w' \<Longrightarrow> A (logAudit r act res i d w) (logAudit r act res i d w')"
    and hub: "A w w' \<Longrightarrow> hub w' = hub w \<and> picks w' = picks w"
    and set_hub: "A w w' \<Longrightarrow> A (w\<lparr>hub := h, picks := p\<rparr>) (w'\<lparr>hub := h, picks := p\<rparr>)"
begin

lemma exec_lock_at:
  assumes "A w w'" "\<And>c s. lock A R (f (w\<lparr>clock := c, db_script := s\<rparr>)) (g (w'\<lparr>clock := c, db_script := s\<rparr>))"
  shows "lock A (rel_sum (=) R) (exec f w) (exec g w')"
proof (cases "db_script w")
  case Nil
  have "w'\<lparr>clock := clock w, db_script := db_script w\<rparr> = w'" using connection [OF assms(1)] by simp
  then have "lock A R (f w) (g w')" using assms(2) [where c = "clock w" and s = "db_script w"] by simp
  then show ?thesis using connection [OF assms(1)] Nil by (simp add: exec_def lock_def)
next
  case (Cons d rest)
  obtain dt out where d: "d = (dt, out)" by force
  show ?thesis using Cons d connection [OF assms(1)] elapsed [OF assms(1), where c = "clock w + int dt" and s = rest] assms(2) [where c = "clock w + int dt" and s = rest]
    by (cases out) (simp_all add: exec_def Let_def lock_def)
qed

lemma exec_lock:
  assumes "A w w'" "\<And>v v'. A v v' \<Longrightarrow> lock A R (f v) (g v')"
  shows "lock A (rel_sum (=) R) (exec f w) (exec g w')"
  by (rule exec_lock_at [OF assms(1)]) (rule assms(2), rule elapsed [OF assms(1)])

lemma query_lock: "A w w' \<Longrightarrow> (\<And>v v'. A v v' \<Longrightarrow> R (q v) (q v')) \<Longrightarrow> lock A (rel_sum (=) R) (query q w) (query q w')"
  unfolding query_def by (rule exec_lock) (simp_all add: lock_def)

lemma exec_unit_lock_at:
  assumes "A w w'" "\<And>c s. A (f (w\<lparr>clock := c, db_script := s\<rparr>)) (g (w'\<lparr>clock := c, db_script := s\<rparr>))"
  shows "lock A (=) (exec_unit f w) (exec_unit g w')"
proof -
  have "lock A (rel_sum (=) (=)) (exec (\<lambda>w. ((), f w)) w) (exec (\<lambda>w. ((), g w)) w')"
    by (rule exec_lock_at [OF assms(1)]) (simp add: lock_def assms(2))
  then show ?thesis by (rule lock_sumE) (auto simp: exec_unit_def lock_def)
qed

lemma exec_unit_lock:
  assumes "A w w'" "\<And>v v'. A v v' \<Longrightarrow> A (f v) (g v')"
  shows "lock A (=) (exec_unit f w) (exec_unit g w')"
  by (rule exec_unit_lock_at [OF assms(1)]) (rule assms(2), rule elapsed [OF assms(1)])

lemma one_row_lock:
  assumes "A w w'" "\<And>v v'. A v v' \<Longrightarrow> rel_option R (q v) (q v')"
  shows "lock A (rel_sum (=) R) (one_row pre q w) (one_row pre q w')"
  by (rule lock_sumE [OF query_lock [where q = q and R = "rel_option R", OF assms]]) (auto simp: one_row_def lock_def elim: option.rel_cases)

lemma containers_lock:
  assumes "A w w'"
  shows "lock A (rel_sum (=) (=)) (GetContainerByID i w) (GetContainerByID i w')"
    "lock A (rel_sum (=) (=)) (ListContainersByStack i w) (ListContainersByStack i w')"
    "lock A (rel_sum (=) (=)) (ContainerNameExists n x w) (ContainerNameExists n x w')"
proof -
  show "lock A (rel_sum (=) (=)) (GetContainerByID i w) (GetContainerByID i w')"
    unfolding GetContainerByID_def by (rule one_row_lock [OF assms]) (simp add: others option.rel_refl)
  show "lock A (rel_sum (=) (=)) (ListContainersByStack i w) (ListContainersByStack i w')"
    unfolding ListContainersByStack_def
    by (rule lock_sumE [OF query_lock [where R = "(=)" and q = "\<lambda>w. take MAX_LIMIT (sort_key c_ID (filter (\<lambda>c. c_StackID c = i \<and> c_Active c) (containers w)))", OF assms]])
      (auto simp: others lock_def)
  show "lock A (rel_sum (=) (=)) (ContainerNameExists n x w) (ContainerNameExists n x w')"
    unfolding ContainerNameExists_def by (rule query_lock [OF assms]) (simp add: others)
qed

lemma writes_lock:
  assumes "A w w'"
  shows "lock A (rel_sum (=) (=)) (CreateContainer env req w) (CreateContainer env req w')"
    "lock A (rel_sum (=) (=)) (UpdateContainer i ureq w) (UpdateContainer i ureq w')"
    "lock A (=) (DeleteContainer i w) (DeleteContainer i w')"
    "lock A (=) (CreateNetwork i n d w) (CreateNetwork i n d w')"
proof -
  let ?ins = "\<lambda>w. (w_next_container w, w\<lparr>containers := containers w @ [new_container env req (w_next_container w)], w_next_container := w_next_container w + 1\<rparr>)"
  have "lock A (rel_sum (=) (=)) (exec ?ins w) (exec ?ins w')"
    by (rule exec_lock [OF assms]) (auto simp: lock_def others set_containers)
  then show "lock A (rel_sum (=) (=)) (CreateContainer env req w) (CreateContainer env req w')"
    by (rule lock_sumE) (auto simp: CreateContainer_def containers_lock intro: lockI)
  have "lock A (=) (exec_unit (\<lambda>w. w\<lparr>containers := update_where (\<lambda>c. c_ID c = i) (container_sets ureq) (containers w)\<rparr>) w)
      (exec_unit (\<lambda>w. w\<lparr>containers := update_where (\<lambda>c. c_ID c = i) (container_sets ureq) (containers w)\<rparr>) w')"
    by (rule exec_unit_lock [OF assms]) (auto simp: others set_containers_only)
  then show "lock A (rel_sum (=) (=)) (UpdateContainer i ureq w) (UpdateContainer i ureq w')"
    by (rule lock_eqE) (auto simp: UpdateContainer_def containers_lock assms split: option.split intro: lockI)
  show "lock A (=) (DeleteContainer i w) (DeleteContainer i w')"
    unfolding DeleteContainer_def by (rule exec_unit_lock [OF assms]) (auto simp: others set_containers_only)
  show "lock A (=) (CreateNetwork i n d w) (CreateNetwork i n d w')"
    unfolding CreateNetwork_def by (rule exec_unit_lock [OF assms]) (auto simp: others set_networks)
qed

lemma transaction_lock:
  assumes "\<And>w w'. A w w' \<Longrightarrow> lock A (rel_sum (=) R) (body w) (body w')" "A w w'"
  shows "lock A (rel_sum (=) R) (transaction body w) (transaction body w')"
proof -
  have b: "lock A (=) (begin_tx w) (begin_tx w')" unfolding begin_tx_def by (rule exec_unit_lock [OF assms(2)])
  have undone: "A (rollback w1 w2) (rollback w1' w2')" if "A w1 w1'" "A w2 w2'" for w1 w1' w2 w2'
    using elapsed [OF that(1)] connection [OF that(2)] by (simp add: rollback_def)
  have c: "lock A (=) (commit w1 w2) (commit w1' w2')" if "A w1 w1'" "A w2 w2'" for w1 w1' w2 w2'
    unfolding commit_def by (rule exec_unit_lock [OF undone [OF that]]) (simp add: connection elapsed [OF that(2)])
  show ?thesis
  proof (rule lock_eqE [OF b])
    fix x w1 w1' assume b: "begin_tx w = (x, w1)" "begin_tx w' = (x, w1')" "A w1 w1'"
    show ?thesis
    proof (rule lock_sumE [OF assms(1) [OF b(3)]])
      fix e w2 w2' assume "body w1 = (Inl e, w2)" "body w1' = (Inl e, w2')" "A w2 w2'"
      then show ?thesis using b undone [OF b(3)] by (auto simp: transaction_def split: option.split intro: lockI)
    next
      fix y y' w2 w2' assume fine: "body w1 = (Inr y, w2)" "body w1' = (Inr y', w2')" "R y y'" "A w2 w2'"
      show ?thesis
        by (rule lock_eqE [OF c [OF b(3) fine(4)]]) (use b fine in \<open>auto simp: transaction_def split: option.split intro: lockI\<close>)
    qed
  qed
qed

end

section \<open>Worlds alike but for secrets\<close>

definition same_outside :: "string list \<Rightarrow> (string \<times> json) list \<Rightarrow> (string \<times> json) list \<Rightarrow> bool" where
  "same_outside K = list_all2 (\<lambda>a b. fst a = fst b \<and> (fst a \<notin> set K \<longrightarrow> snd a = snd b))"

definition env_alike :: "(string \<Rightarrow> json option) \<Rightarrow> string list \<Rightarrow> jsonColumn \<Rightarrow> jsonColumn \<Rightarrow> bool" where
  "env_alike rn K e1 e2 \<longleftrightarrow> e1 = e2 \<or>
     K \<noteq> [] \<and> (\<exists>b m1 m2. read_map rn e1 = (b, Some m1) \<and> read_map rn e2 = (b, Some m2) \<and> same_outside K m1 m2)"

definition stack_alike :: "(string \<Rightarrow> json option) \<Rightarrow> stack \<Rightarrow> stack \<Rightarrow> bool" where
  "stack_alike rn s1 s2 \<longleftrightarrow> s2 = s1\<lparr>st_EnvVars := st_EnvVars s2\<rparr> \<and>
     env_alike rn (parseSecretKeys (st_SecretEnvKeys s1)) (st_EnvVars s1) (st_EnvVars s2)"

definition alike :: "(string \<Rightarrow> json option) \<Rightarrow> 'a deploy_world_scheme \<Rightarrow> 'a deploy_world_scheme \<Rightarrow> bool" where
  "alike rn w w' \<longleftrightarrow> (\<exists>ss. list_all2 (stack_alike rn) (stacks w) ss \<and> w' = w\<lparr>stacks := ss\<rparr>) \<and>
     distinct (map st_ID (stacks w)) \<and> (\<forall>s \<in> set (stacks w). st_ID s < w_next_stack w)"

interpretation secrets: lockstep "alike rn :: 'a deploy_world_scheme \<Rightarrow> 'a deploy_world_scheme \<Rightarrow> bool"
  by unfold_locales ((auto simp: alike_def logAudit_def)[1], (rule exI, rule conjI, assumption, simp)?)+

lemma env_alike_refl [simp]: "env_alike rn K e e"
  by (simp add: env_alike_def)

lemma stack_alike_refl [simp]: "stack_alike rn s s"
  by (simp add: stack_alike_def)

lemma env_alike_mono: "env_alike rn K e1 e2 \<Longrightarrow> set K \<subseteq> set K' \<Longrightarrow> env_alike rn K' e1 e2"
  unfolding env_alike_def same_outside_def by (auto elim!: list_all2_mono)

lemma stack_alike_fields:
  assumes "stack_alike rn s1 s2"
  shows "st_ID s2 = st_ID s1" "st_Name s2 = st_Name s1" "st_WorkerID s2 = st_WorkerID s1" "st_Status s2 = st_Status s1"
    "st_SecretEnvKeys s2 = st_SecretEnvKeys s1" "st_ComposeYAML s2 = st_ComposeYAML s1" "st_Active s2 = st_Active s1"
proof -
  obtain e where e: "s2 = s1\<lparr>st_EnvVars := e\<rparr>" using assms unfolding stack_alike_def by blast
  show "st_ID s2 = st_ID s1" "st_Name s2 = st_Name s1" "st_WorkerID s2 = st_WorkerID s1" "st_Status s2 = st_Status s1"
    "st_SecretEnvKeys s2 = st_SecretEnvKeys s1" "st_ComposeYAML s2 = st_ComposeYAML s1" "st_Active s2 = st_Active s1"
    by (simp_all add: e)
qed

text \<open>Masking hides what two such environments differ in.\<close>

lemma mask_members_alike: "same_outside K m1 m2 \<Longrightarrow> map (mask_member K x) m1 = map (mask_member K x) m2"
  unfolding same_outside_def by (induction rule: list_all2_induct) (auto simp: mask_member_def prod_eq_iff)

lemma read_map_document: "read_map rn e = (b, Some m) \<Longrightarrow> e \<noteq> NullColumn \<and> e \<noteq> EmptyText"
  by (auto simp: read_map_def)

lemma mask_alike: "env_alike rn K e1 e2 \<Longrightarrow> maskEnvVars rn e1 K x = maskEnvVars rn e2 K x"
  unfolding env_alike_def
  by (auto simp: maskEnvVars_def mask_members_alike [of K _ _ x] split: bool.split dest: read_map_document)

lemma masked_alike:
  assumes "stack_alike rn s1 s2"
  shows "masked_stack rn s1 = masked_stack rn s2"
proof -
  obtain e where e: "s2 = s1\<lparr>st_EnvVars := e\<rparr>" "env_alike rn (parseSecretKeys (st_SecretEnvKeys s1)) (st_EnvVars s1) e"
    using assms unfolding stack_alike_def by (metis stack.select_convs(8) stack.surjective stack.update_convs(8))
  show ?thesis using mask_alike [OF e(2)] by (simp add: masked_stack_def e(1))
qed

text \<open>Reading and writing a document keeps the difference at secret keys.\<close>

lemma same_outside_put:
  "same_outside K m1 m2 \<Longrightarrow> (k \<notin> set K \<longrightarrow> v1 = v2) \<Longrightarrow> same_outside K (put_member k v1 m1) (put_member k v2 m2)"
proof -
  assume m: "same_outside K m1 m2" and v: "k \<notin> set K \<longrightarrow> v1 = v2"
  have "map fst m1 = map fst m2" using m unfolding same_outside_def by (induction rule: list_all2_induct) auto
  then have "k \<in> fst ` set m1 \<longleftrightarrow> k \<in> fst ` set m2" by (metis list.set_map)
  then show ?thesis using m v unfolding same_outside_def put_member_def
    by (auto simp: list_all2_map1 list_all2_map2 list_all2_appendI split: prod.splits elim!: list_all2_mono)
qed

lemma same_outside_to_map: "same_outside K xs ys \<Longrightarrow> same_outside K (to_map xs) (to_map ys)"
proof -
  have "same_outside K (fold (\<lambda>(k, v). put_member k v) xs m1) (fold (\<lambda>(k, v). put_member k v) ys m2)"
    if "same_outside K xs ys" "same_outside K m1 m2" for m1 m2
    using that(1)[unfolded same_outside_def] that(2)
  proof (induction arbitrary: m1 m2 rule: list_all2_induct)
    case (Cons a xs b ys)
    have "same_outside K (put_member (fst a) (snd a) m1) (put_member (fst b) (snd b) m2)"
      using same_outside_put [OF Cons.prems, of "fst a" "snd a" "snd b"] Cons.hyps(1) by simp
    from Cons.IH [OF this] show ?case by (simp add: case_prod_beta)
  qed simp
  then show "same_outside K xs ys \<Longrightarrow> same_outside K (to_map xs) (to_map ys)"
    unfolding to_map_def by (simp add: same_outside_def)
qed

lemma same_outside_insort:
  assumes "same_outside K xs ys" "fst a = fst b" "fst a \<notin> set K \<longrightarrow> snd a = snd b"
  shows "same_outside K (insort_key fst a xs) (insort_key fst b ys)"
  using assms(1)[unfolded same_outside_def]
  by (induction rule: list_all2_induct) (use assms(2,3) in \<open>auto simp: same_outside_def\<close>)

lemma same_outside_sort: "same_outside K xs ys \<Longrightarrow> same_outside K (sort_key fst xs) (sort_key fst ys)"
  unfolding same_outside_def
proof (induction rule: list_all2_induct)
  case (Cons a xs b ys)
  then show ?case using same_outside_insort [of K "sort_key fst xs" "sort_key fst ys" a b] by (simp add: same_outside_def)
qed simp

lemma same_outside_members: "same_outside K xs ys \<Longrightarrow> same_outside K (any_members rn xs) (any_members rn ys)"
  unfolding same_outside_def by (induction rule: list_all2_induct) auto

lemma map_of_outside:
  assumes "same_outside K m1 m2"
  shows "map_of m1 k = None \<longleftrightarrow> map_of m2 k = None" "k \<notin> set K \<Longrightarrow> map_of m1 k = map_of m2 k"
  using assms[unfolded same_outside_def] by (induction rule: list_all2_induct) (auto split: prod.splits)

lemma merge_members_alike:
  assumes "same_outside K m1 m2"
  shows "same_outside K (map (merge_member (Some m1)) m) (map (merge_member (Some m2)) m)"
proof -
  have "fst (merge_member (Some m1) kv) = fst (merge_member (Some m2) kv) \<and>
      (fst (merge_member (Some m1) kv) \<notin> set K \<longrightarrow> snd (merge_member (Some m1) kv) = snd (merge_member (Some m2) kv))" for kv
    using map_of_outside [OF assms, of "fst kv"] by (auto simp: merge_member_def split: option.split)
  then show ?thesis by (simp add: same_outside_def list_all2_map1 list_all2_map2 list.rel_refl)
qed

text \<open>A number the encoder wrote reads back, so a written document always reads.\<close>

definition stable :: "(string \<Rightarrow> json option) \<Rightarrow> bool" where
  "stable rn \<longleftrightarrow> (\<forall>s v. rn s = Some v \<longrightarrow> any_ok rn v)"

lemma members_ok: "any_members_ok rn kvs \<longleftrightarrow> (\<forall>v \<in> snd ` set kvs. any_ok rn v)"
  by (induction kvs) auto

lemma put_ok: "any_members_ok rn m \<Longrightarrow> any_ok rn v \<Longrightarrow> any_members_ok rn (put_member k v m)"
  by (auto simp: members_ok put_member_def)

lemma to_map_ok: "any_members_ok rn kvs \<Longrightarrow> any_members_ok rn (to_map kvs)"
proof -
  have "any_members_ok rn kvs \<Longrightarrow> any_members_ok rn m \<Longrightarrow> any_members_ok rn (fold (\<lambda>(k, v). put_member k v) kvs m)" for m
    by (induction kvs arbitrary: m) (auto simp: put_ok)
  then show "any_members_ok rn kvs \<Longrightarrow> any_members_ok rn (to_map kvs)" by (simp add: to_map_def)
qed

lemma any_value_ok:
  "stable rn \<Longrightarrow> any_ok rn (any_value rn v)" "stable rn \<Longrightarrow> any_members_ok rn (any_members rn kvs)"
proof (induction rn v and rn kvs rule: any_value_any_members.induct)
  case (4 renum kvs)
  have "any_members_ok renum kvs' \<Longrightarrow> any_members_ok renum (sort_key fst kvs')" for kvs' by (simp add: members_ok)
  then show ?case using 4 to_map_ok by simp
qed (auto simp: any_number_def stable_def list_all_iff split: option.split)

text \<open>A map as decoding leaves it.\<close>

definition decoded :: "(string \<Rightarrow> json option) \<Rightarrow> (string \<times> json) list option \<Rightarrow> bool" where
  "decoded rn m \<longleftrightarrow> (case m of None \<Rightarrow> True | Some kvs \<Rightarrow> any_members_ok rn kvs)"

lemma read_decoded: "stable rn \<Longrightarrow> decoded rn (snd (read_map rn e))"
  by (auto simp: read_map_def decoded_def any_value_ok to_map_ok split: jsonColumn.split json.split)

lemma write_alike:
  assumes "same_outside K m1 m2" "K \<noteq> []" "decoded rn (Some m1)" "decoded rn (Some m2)"
  shows "env_alike rn K (write_map (Some m1)) (write_map (Some m2))"
proof -
  have "any_members_ok rn (sort_key fst m)" if "decoded rn (Some m)" for m using that by (simp add: decoded_def members_ok)
  then show ?thesis using assms same_outside_to_map [OF same_outside_members [OF same_outside_sort [OF assms(1)]], of rn]
    by (auto simp: env_alike_def read_map_def write_map_def)
qed

lemma merge_decoded:
  assumes "decoded rn old" "any_members_ok rn m"
  shows "any_members_ok rn (map (merge_member old) m)"
proof -
  have "any_ok rn (snd (merge_member old kv))" if "kv \<in> set m" for kv
    using assms that by (auto simp: merge_member_def decoded_def members_ok split: option.splits dest: map_of_SomeD)
      (metis image_eqI map_of_SomeD snd_conv)+
  then show ?thesis by (auto simp: members_ok)
qed

lemma merge_alike:
  assumes "env_alike rn K e1 e2" "stable rn"
  shows "rel_sum (=) (env_alike rn K) (mergeMaskedEnvVars rn e1 t) (mergeMaskedEnvVars rn e2 t)"
proof (cases "e1 = e2")
  case True
  then show ?thesis by (auto simp: mergeMaskedEnvVars_def Let_def split: prod.split bool.split)
next
  case False
  then obtain b m1 m2 where m: "K \<noteq> []" "read_map rn e1 = (b, Some m1)" "read_map rn e2 = (b, Some m2)" "same_outside K m1 m2"
    using assms(1) unfolding env_alike_def by blast
  have old: "e1 \<noteq> NullColumn \<and> e1 \<noteq> EmptyText" "e2 \<noteq> NullColumn \<and> e2 \<noteq> EmptyText"
    using read_map_document m(2,3) by blast+
  have d: "decoded rn (Some m1)" "decoded rn (Some m2)" using read_decoded [OF assms(2)] m(2,3) by (metis snd_conv)+
  show ?thesis
  proof (cases "read_map rn t")
    case (Pair ok x)
    have "env_alike rn K (write_map (Some (map (merge_member (Some m1)) kvs))) (write_map (Some (map (merge_member (Some m2)) kvs)))"
      if "ok" "x = Some kvs" for kvs
    proof -
      have "any_members_ok rn kvs" using read_decoded [OF assms(2), of t] Pair that by (simp add: decoded_def)
      then show ?thesis using merge_decoded d
        by (intro write_alike merge_members_alike m(1,4)) (simp_all add: decoded_def)
    qed
    then show ?thesis using m old Pair
      by (cases x) (auto simp: mergeMaskedEnvVars_def Let_def write_map_def split: bool.split)
  qed
qed

section \<open>Stacks in lockstep\<close>

lemma find_alike:
  assumes "list_all2 R xs ys" "\<And>x y. R x y \<Longrightarrow> P x = P y"
  shows "rel_option R (List.find P xs) (List.find P ys)"
  using assms(1) by (induction rule: list_all2_induct) (auto simp: assms(2))

lemma filter_alike:
  assumes "list_all2 R xs ys" "\<And>x y. R x y \<Longrightarrow> P x = P y"
  shows "list_all2 R (filter P xs) (filter P ys)"
  using assms(1) by (induction rule: list_all2_induct) (auto simp: assms(2))

lemma insort_alike:
  assumes "list_all2 R xs ys" "R x y" "\<And>x y. R x y \<Longrightarrow> k x = k y"
  shows "list_all2 R (insort_key k x xs) (insort_key k y ys)"
  using assms(1) by (induction rule: list_all2_induct) (auto simp: assms(2) assms(3) [OF assms(2)] assms(3))

lemma sort_alike:
  assumes "list_all2 R xs ys" "\<And>x y. R x y \<Longrightarrow> k x = k y"
  shows "list_all2 R (sort_key k xs) (sort_key k ys)"
  using assms(1) by (induction rule: list_all2_induct) (auto intro: insort_alike [OF _ _ assms(2)])

lemma page_alike: "list_all2 R xs ys \<Longrightarrow> list_all2 R (page l n xs) (page l n ys)"
  by (auto simp: page_def Let_def list_all2_takeI list_all2_dropI)

lemma alike_stacks: "alike rn w w' \<Longrightarrow> list_all2 (stack_alike rn) (stacks w) (stacks w')"
  by (auto simp: alike_def)

lemma stack_reads_lock:
  assumes "alike rn w w'"
  shows "lock (alike rn) (rel_sum (=) (stack_alike rn)) (GetStackByID i w) (GetStackByID i w')"
    "lock (alike rn) (rel_sum (=) (list_all2 (stack_alike rn))) (ListStacks q w) (ListStacks q w')"
    "lock (alike rn) (rel_sum (=) (=)) (StackNameExists n x w) (StackNameExists n x w')"
proof -
  have g: "lock (alike rn) (rel_sum (=) (rel_option (stack_alike rn))) (query (\<lambda>w. select_stack i (stacks w)) w) (query (\<lambda>w. select_stack i (stacks w)) w')"
    unfolding select_stack_def
    by (rule secrets.query_lock [OF assms]) (rule find_alike [OF alike_stacks], auto simp: stack_alike_fields)
  show "lock (alike rn) (rel_sum (=) (stack_alike rn)) (GetStackByID i w) (GetStackByID i w')"
    by (rule lock_sumE [OF g]) (auto simp: GetStackByID_def lock_def elim: option.rel_cases)
  have l: "lock (alike rn) (rel_sum (=) (list_all2 (stack_alike rn)))
      (query (\<lambda>w. page (ls_Limit q) (ls_Offset q) (rev (sort_key st_ID (filter (stack_listed q) (stacks w))))) w)
      (query (\<lambda>w. page (ls_Limit q) (ls_Offset q) (rev (sort_key st_ID (filter (stack_listed q) (stacks w))))) w')"
  proof (rule secrets.query_lock [OF assms])
    fix v v' :: "'a deploy_world_scheme"
    assume "alike rn v v'"
    then show "list_all2 (stack_alike rn) (page (ls_Limit q) (ls_Offset q) (rev (sort_key st_ID (filter (stack_listed q) (stacks v)))))
        (page (ls_Limit q) (ls_Offset q) (rev (sort_key st_ID (filter (stack_listed q) (stacks v')))))"
      by (intro page_alike) (simp add: list_all2_rev, intro sort_alike filter_alike alike_stacks, simp_all add: stack_listed_def stack_alike_fields split: option.split)
  qed
  show "lock (alike rn) (rel_sum (=) (list_all2 (stack_alike rn))) (ListStacks q w) (ListStacks q w')"
    by (rule lock_sumE [OF l]) (auto simp: ListStacks_def wrap_err_def lock_def)
  have ex: "list_ex P xs = list_ex P ys" if "list_all2 R xs ys" "\<And>x y. R x y \<Longrightarrow> P x = P y" for P R and xs ys :: "stack list"
    using that(1) by (induction rule: list_all2_induct) (auto simp: that(2))
  show "lock (alike rn) (rel_sum (=) (=)) (StackNameExists n x w) (StackNameExists n x w')"
    unfolding StackNameExists_def
    by (rule secrets.query_lock [OF assms]) (rule ex [OF alike_stacks], auto simp: stack_alike_fields split: option.split)
qed

lemma new_stack_row: "st_ID (new_stack env req i) = i"
  by (simp add: new_stack_def)

lemma create_stack_lock:
  assumes "alike rn w w'"
  shows "lock (alike rn) (rel_sum (=) (stack_alike rn)) (CreateStack env req w) (CreateStack env req w')"
proof -
  let ?ins = "\<lambda>w. (w_next_stack w, w\<lparr>stacks := stacks w @ [new_stack env req (w_next_stack w)], w_next_stack := w_next_stack w + 1\<rparr>)"
  have "lock (alike rn) (rel_sum (=) (=)) (exec ?ins w) (exec ?ins w')"
  proof (rule secrets.exec_lock [OF assms])
    fix v v' :: "'a deploy_world_scheme"
    assume v: "alike rn v v'"
    then obtain ss where ss: "list_all2 (stack_alike rn) (stacks v) ss" "v' = v\<lparr>stacks := ss\<rparr>" by (auto simp: alike_def)
    have "list_all2 (stack_alike rn) (stacks v @ [new_stack env req (w_next_stack v)]) (ss @ [new_stack env req (w_next_stack v)])"
      using ss by (simp add: list_all2_appendI)
    then show "lock (alike rn) (=) (?ins v) (?ins v')"
      using v ss(2) by (auto simp: lock_def alike_def new_stack_row)
  qed
  then show ?thesis by (rule lock_sumE) (auto simp: CreateStack_def stack_reads_lock intro: lockI)
qed

lemma set_opt_env:
  "(\<And>v s. f v (s\<lparr>st_EnvVars := e\<rparr>) = (f v s)\<lparr>st_EnvVars := e\<rparr>) \<Longrightarrow> set_opt y f (s\<lparr>st_EnvVars := e\<rparr>) = (set_opt y f s)\<lparr>st_EnvVars := e\<rparr>"
  by (simp add: set_opt_def split: option.split)

lemma set_opt_absent: "set_opt None f s = s"
  by (simp add: set_opt_def)

lemma stack_sets_env:
  "stack_sets (req\<lparr>us_EnvVars := None\<rparr>) (s\<lparr>st_EnvVars := e\<rparr>) = (stack_sets (req\<lparr>us_EnvVars := None\<rparr>) s)\<lparr>st_EnvVars := e\<rparr>"
  by (simp add: stack_sets_def set_opt_absent set_opt_env set_stack_status_def)

lemma stack_sets_given: "us_EnvVars req = Some v \<Longrightarrow> stack_sets req s = (stack_sets (req\<lparr>us_EnvVars := None\<rparr>) s)\<lparr>st_EnvVars := v\<rparr>"
proof -
  assume "us_EnvVars req = Some v"
  then have "stack_sets req s = set_opt (us_Active req) (\<lambda>v s. s\<lparr>st_Active := v\<rparr>)
      (set_opt (us_PlacementConstraints req) (\<lambda>v s. s\<lparr>st_PlacementConstraints := v\<rparr>)
      (set_opt (us_ComposeYAML req) (\<lambda>v s. s\<lparr>st_ComposeYAML := Some v\<rparr>)
      (set_opt (us_SecretEnvKeys req) (\<lambda>v s. s\<lparr>st_SecretEnvKeys := (if v = EmptyText then NullColumn else v)\<rparr>)
      ((set_opt (us_AutoDeploy req) (\<lambda>v s. s\<lparr>st_AutoDeploy := v\<rparr>)
      (set_opt (us_DeploymentStrategy req) (\<lambda>v s. s\<lparr>st_DeploymentStrategy := v\<rparr>)
      (set_opt (us_Status req) set_stack_status
      (set_opt (us_WorkerID req) (\<lambda>v s. s\<lparr>st_WorkerID := (if v = 0 then None else Some v)\<rparr>)
      (set_opt (us_Description req) (\<lambda>v s. s\<lparr>st_Description := Some v\<rparr>)
      (set_opt (us_Name req) (\<lambda>v s. s\<lparr>st_Name := v\<rparr>) s))))))\<lparr>st_EnvVars := v\<rparr>))))"
    by (simp add: stack_sets_def set_opt_def)
  also have "\<dots> = (stack_sets (req\<lparr>us_EnvVars := None\<rparr>) s)\<lparr>st_EnvVars := v\<rparr>"
    by (simp add: stack_sets_def set_opt_absent set_opt_env)
  finally show ?thesis .
qed

lemma stack_sets_kept: "us_EnvVars req = None \<Longrightarrow> st_EnvVars (stack_sets req s) = st_EnvVars s"
  using stack_sets_env [of req "st_EnvVars s" s] by (metis stack.select_convs(8) stack.surjective stack.update_convs(8) updateStackRequest.surjective updateStackRequest.update_convs(7))

lemma stack_sets_keys:
  "st_SecretEnvKeys (stack_sets req s) = (case us_SecretEnvKeys req of None \<Rightarrow> st_SecretEnvKeys s | Some v \<Rightarrow> if v = EmptyText then NullColumn else v)"
  "st_ID (stack_sets req s) = st_ID s"
  by (simp_all add: stack_sets_def set_opt_def set_stack_status_def split: option.split)

lemma blank_keys: "parseSecretKeys (if v = EmptyText then NullColumn else v) = parseSecretKeys v"
  by (simp add: parseSecretKeys_def)

lemma stack_sets_alike:
  assumes "stack_alike rn s1 s2" "req2 = req1\<lparr>us_EnvVars := us_EnvVars req2\<rparr>"
    and "rel_option (env_alike rn (parseSecretKeys (st_SecretEnvKeys s1))) (us_EnvVars req1) (us_EnvVars req2)"
    and "\<And>v. us_SecretEnvKeys req1 = Some v \<Longrightarrow> set (parseSecretKeys (st_SecretEnvKeys s1)) \<subseteq> set (parseSecretKeys v)"
  shows "stack_alike rn (stack_sets req1 s1) (stack_sets req2 s2)"
proof -
  let ?K = "parseSecretKeys (st_SecretEnvKeys s1)"
  obtain e2 where e2: "s2 = s1\<lparr>st_EnvVars := e2\<rparr>" "env_alike rn ?K (st_EnvVars s1) e2"
    using assms(1) unfolding stack_alike_def by (metis stack.select_convs(8) stack.surjective stack.update_convs(8))
  define req where "req = req1\<lparr>us_EnvVars := None\<rparr>"
  define t where "t = stack_sets req s1"
  have req2: "req2\<lparr>us_EnvVars := None\<rparr> = req" by (subst assms(2)) (simp add: req_def)
  have whole: "stack_sets q s = (stack_sets (q\<lparr>us_EnvVars := None\<rparr>) s)\<lparr>st_EnvVars := (case us_EnvVars q of None \<Rightarrow> st_EnvVars s | Some v \<Rightarrow> v)\<rparr>" for q s
  proof (cases "us_EnvVars q")
    case None
    then have same: "q\<lparr>us_EnvVars := None\<rparr> = q" by (cases q) simp
    have "stack_sets q s = (stack_sets q s)\<lparr>st_EnvVars := st_EnvVars (stack_sets q s)\<rparr>" by (cases "stack_sets q s") simp
    then show ?thesis using None stack_sets_kept [OF None, of s] by (simp add: same)
  next
    case (Some v)
    then show ?thesis using stack_sets_given [OF Some] by simp
  qed
  let ?E1 = "case us_EnvVars req1 of None \<Rightarrow> st_EnvVars s1 | Some v \<Rightarrow> v"
  let ?E2 = "case us_EnvVars req2 of None \<Rightarrow> e2 | Some v \<Rightarrow> v"
  have r1: "stack_sets req1 s1 = t\<lparr>st_EnvVars := ?E1\<rparr>" using whole [of req1 s1] by (simp add: t_def req_def)
  have r2: "stack_sets req2 s2 = t\<lparr>st_EnvVars := ?E2\<rparr>"
  proof -
    have s2: "st_EnvVars s2 = e2" by (simp add: e2(1))
    have "stack_sets req2 s2 = (stack_sets req s2)\<lparr>st_EnvVars := ?E2\<rparr>" using whole [of req2 s2] unfolding req2 s2 .
    also have "stack_sets req s2 = t\<lparr>st_EnvVars := e2\<rparr>" using stack_sets_env [of req1 e2 s1] by (simp add: t_def req_def e2(1))
    finally show ?thesis by simp
  qed
  have env: "env_alike rn ?K ?E1 ?E2" using assms(3) e2(2) by (auto elim: option.rel_cases)
  have keys: "set ?K \<subseteq> set (parseSecretKeys (st_SecretEnvKeys t))"
    using assms(4) by (simp add: t_def req_def stack_sets_keys blank_keys split: option.split)
  show ?thesis using env_alike_mono [OF env keys] by (simp add: stack_alike_def r1 r2)
qed

lemma update_stack_lock:
  assumes "alike rn w w'" "req2 = req1\<lparr>us_EnvVars := us_EnvVars req2\<rparr>"
    and "\<And>s. s \<in> set (stacks w) \<Longrightarrow> st_ID s = i \<Longrightarrow> rel_option (env_alike rn (parseSecretKeys (st_SecretEnvKeys s))) (us_EnvVars req1) (us_EnvVars req2)"
    and "\<And>s v. s \<in> set (stacks w) \<Longrightarrow> st_ID s = i \<Longrightarrow> us_SecretEnvKeys req1 = Some v \<Longrightarrow> set (parseSecretKeys (st_SecretEnvKeys s)) \<subseteq> set (parseSecretKeys v)"
    and "us_EnvVars req1 = None \<longleftrightarrow> us_EnvVars req2 = None"
  shows "lock (alike rn) (rel_sum (=) (stack_alike rn)) (UpdateStack i req1 w) (UpdateStack i req2 w')"
proof -
  obtain ss where ss: "list_all2 (stack_alike rn) (stacks w) ss" "w' = w\<lparr>stacks := ss\<rparr>" using assms(1) by (auto simp: alike_def)
  have none: "req1 = no_stack_update \<longleftrightarrow> req2 = no_stack_update"
  proof (cases "us_EnvVars req1")
    case None
    then have same: "req1\<lparr>us_EnvVars := None\<rparr> = req1" by (cases req1) simp
    have "req2 = req1" using assms(2,5) None same by simp
    then show ?thesis by simp
  next
    case (Some v)
    then show ?thesis using assms(5) by (auto simp: no_stack_update_def)
  qed
  have "list_all2 (stack_alike rn) (update_where (\<lambda>s. st_ID s = i) (stack_sets req1) xs) (update_where (\<lambda>s. st_ID s = i) (stack_sets req2) ys)"
    if "list_all2 (stack_alike rn) xs ys" "set xs \<subseteq> set (stacks w)" for xs ys
    using that
  proof (induction rule: list_all2_induct)
    case (Cons x xs y ys)
    have "st_ID y = st_ID x" using Cons.hyps(1) by (simp add: stack_alike_fields)
    moreover have "stack_alike rn (stack_sets req1 x) (stack_sets req2 y)" if "st_ID x = i"
      by (rule stack_sets_alike [OF Cons.hyps(1) assms(2)]) (use assms(3,4) Cons.prems that in auto)
    ultimately show ?case using Cons by (simp add: update_where_def)
  qed (simp add: update_where_def)
  then have rows: "list_all2 (stack_alike rn) (update_where (\<lambda>s. st_ID s = i) (stack_sets req1) (stacks w))
      (update_where (\<lambda>s. st_ID s = i) (stack_sets req2) ss)" using ss(1) by simp
  have ids: "map st_ID (update_where (\<lambda>s. st_ID s = i) (stack_sets req1) (stacks w)) = map st_ID (stacks w)"
    by (simp add: update_where_map_key stack_sets_keys)
  have "lock (alike rn) (=) (exec_unit (\<lambda>w. w\<lparr>stacks := update_where (\<lambda>s. st_ID s = i) (stack_sets req1) (stacks w)\<rparr>) w)
      (exec_unit (\<lambda>w. w\<lparr>stacks := update_where (\<lambda>s. st_ID s = i) (stack_sets req2) (stacks w)\<rparr>) w')"
  proof (rule secrets.exec_unit_lock_at [OF assms(1)])
    fix c s
    have "\<forall>s \<in> set (update_where (\<lambda>s. st_ID s = i) (stack_sets req1) (stacks w)). st_ID s < w_next_stack w"
      using assms(1) ids unfolding alike_def by (metis (no_types, lifting) image_iff list.set_map)
    then show "alike rn ((\<lambda>w. w\<lparr>stacks := update_where (\<lambda>s. st_ID s = i) (stack_sets req1) (stacks w)\<rparr>) (w\<lparr>clock := c, db_script := s\<rparr>))
        ((\<lambda>w. w\<lparr>stacks := update_where (\<lambda>s. st_ID s = i) (stack_sets req2) (stacks w)\<rparr>) (w'\<lparr>clock := c, db_script := s\<rparr>))"
      using assms(1) ids rows ss(2) by (auto simp: alike_def)
  qed
  then show ?thesis
    by (rule lock_eqE) (use none assms(1) in \<open>auto simp: UpdateStack_def stack_reads_lock split: option.split intro: lockI\<close>)
qed

end
