(* ===== verification/Stack_Privacy.thy ===== *)
theory Stack_Privacy
  imports Stack_Safety
begin

text \<open>
  What a caller without the right to read secrets can learn from the stack and container routes:
  nothing about the values of secret variables. Each handler is run on two worlds that differ only in
  such values; the one route that answers with an unmasked stack is shown apart.
\<close>

section \<open>What an update is given\<close>

lemma stacks_frame: "frame_field stacks"
  by (simp add: frame_field_def)

lemma read_stack:
  assumes "GetStackByID i w = (Inr s, w1)"
  shows "s \<in> set (stacks w)" "st_ID s = i" "stacks w1 = stacks w"
proof -
  have q: "query (\<lambda>w. select_stack i (stacks w)) w = (Inr (Some s), w1)"
    using assms by (auto simp: GetStackByID_def split: prod.splits sum.splits option.splits)
  have "select_stack i (stacks w) = Some s" using query_Inr [OF q] by auto
  then show "s \<in> set (stacks w)" "st_ID s = i" by (auto simp: select_stack_def find_Some_iff)
  show "stacks w1 = stacks w" using frame_queryD [OF stacks_frame q] .
qed

lemma alike_row:
  assumes "alike rn w w'" "s \<in> set (stacks w)" "t \<in> set (stacks w)" "st_ID s = st_ID t"
  shows "s = t"
proof -
  have "inj_on st_ID (set (stacks w))" using assms(1) by (simp add: alike_def distinct_map)
  then show ?thesis using assms(2-4) by (auto dest: inj_onD)
qed

text \<open>Both columns of an update agree outside the keys the row declares secret.\<close>

definition safe_envs :: "(string \<Rightarrow> json option) \<Rightarrow> stack list \<Rightarrow> int \<Rightarrow> jsonColumn option \<Rightarrow> jsonColumn option \<Rightarrow> bool" where
  "safe_envs rn ss i e1 e2 \<longleftrightarrow> (e1 = None \<longleftrightarrow> e2 = None) \<and>
     (\<forall>s \<in> set ss. st_ID s = i \<longrightarrow> rel_option (env_alike rn (parseSecretKeys (st_SecretEnvKeys s))) e1 e2)"

definition safe_keys :: "stack list \<Rightarrow> int \<Rightarrow> jsonColumn option \<Rightarrow> jsonColumn option \<Rightarrow> bool" where
  "safe_keys ss i k1 k2 \<longleftrightarrow> k2 = k1 \<and>
     (\<forall>s \<in> set ss. \<forall>v. st_ID s = i \<longrightarrow> k1 = Some v \<longrightarrow> set (parseSecretKeys (st_SecretEnvKeys s)) \<subseteq> set (parseSecretKeys v))"

definition still :: "(string \<Rightarrow> json option) \<Rightarrow> stack list \<Rightarrow> 'a deploy_world_scheme \<Rightarrow> 'a deploy_world_scheme \<Rightarrow> bool" where
  "still rn ss w w' \<longleftrightarrow> alike rn w w' \<and> stacks w = ss"

lemma merged_env_lock:
  assumes "still (ce_renum env) ss w w'" "stable (ce_renum env)"
  shows "lock (still (ce_renum env) ss) (rel_sum (=) (safe_envs (ce_renum env) ss i)) (merged_env env i t w) (merged_env env i t w')"
proof (cases t)
  case None
  then show ?thesis using assms(1) by (auto simp: merged_env_def safe_envs_def intro: lockI)
next
  case (Some x)
  have w: "alike (ce_renum env) w w'" "stacks w = ss" using assms(1) by (auto simp: still_def)
  show ?thesis
  proof (rule lock_sumE [OF stack_reads_lock(1) [OF w(1), of i]])
    fix e w1 w1' assume g: "GetStackByID i w = (Inl e, w1)" "GetStackByID i w' = (Inl e, w1')" "alike (ce_renum env) w1 w1'"
    have "stacks w1 = ss" using frame_GetStackByID [OF stacks_frame, of i w] g(1) w(2) by simp
    then show ?thesis using g Some by (auto simp: merged_env_def still_def intro: lockI)
  next
    fix s s' w1 w1' assume g: "GetStackByID i w = (Inr s, w1)" "GetStackByID i w' = (Inr s', w1')" "stack_alike (ce_renum env) s s'" "alike (ce_renum env) w1 w1'"
    note row = read_stack [OF g(1)]
    have e: "env_alike (ce_renum env) (parseSecretKeys (st_SecretEnvKeys s)) (st_EnvVars s) (st_EnvVars s')"
      using g(3) by (simp add: stack_alike_def)
    have "safe_envs (ce_renum env) ss i (Some v) (Some v')" if "env_alike (ce_renum env) (parseSecretKeys (st_SecretEnvKeys s)) v v'" for v v'
      using that alike_row [OF w(1) _ row(1)] row(2) w(2) by (auto simp: safe_envs_def)
    then show ?thesis using merge_alike [OF e assms(2), of "column_of (ce_parse env) x"] g Some row(3) w(2)
      by (auto simp: merged_env_def still_def lock_def elim!: rel_sum.cases)
  qed
qed

lemma checked_keys_lock:
  assumes "still (ce_renum env) ss w w'" "\<not> canReadSecrets r"
  shows "lock (still (ce_renum env) ss) (rel_sum (=) (safe_keys ss i)) (checked_keys env r i t w) (checked_keys env r i t w')"
proof (cases t)
  case None
  then show ?thesis using assms(1) by (auto simp: checked_keys_def safe_keys_def intro: lockI)
next
  case (Some x)
  have w: "alike (ce_renum env) w w'" "stacks w = ss" using assms(1) by (auto simp: still_def)
  show ?thesis
  proof (cases "normalizeSecretKeys (column_of (ce_parse env) x)")
    case (Inl e)
    then show ?thesis using Some assms(1) by (auto simp: checked_keys_def intro: lockI)
  next
    case (Inr nkeys)
    show ?thesis
    proof (rule lock_sumE [OF stack_reads_lock(1) [OF w(1), of i]])
      fix e w1 w1' assume g: "GetStackByID i w = (Inl e, w1)" "GetStackByID i w' = (Inl e, w1')" "alike (ce_renum env) w1 w1'"
      have "stacks w1 = ss" using frame_GetStackByID [OF stacks_frame, of i w] g(1) w(2) by simp
      then show ?thesis using g Some Inr assms(2) by (auto simp: checked_keys_def still_def intro: lockI)
    next
      fix s s' w1 w1' assume g: "GetStackByID i w = (Inr s, w1)" "GetStackByID i w' = (Inr s', w1')" "stack_alike (ce_renum env) s s'" "alike (ce_renum env) w1 w1'"
      note row = read_stack [OF g(1)]
      have "safe_keys ss i (Some nkeys) (Some nkeys)" if "\<forall>k \<in> set (parseSecretKeys (st_SecretEnvKeys s)). k \<in> set (parseSecretKeys nkeys)"
        using that alike_row [OF w(1) _ row(1)] row(2) w(2) by (auto simp: safe_keys_def)
      then show ?thesis using g Some Inr assms(2) row(3) w(2) stack_alike_fields(5) [OF g(3)]
        by (auto simp: checked_keys_def still_def list_all_iff intro: lockI)
    qed
  qed
qed

section \<open>Handlers in lockstep\<close>

lemma case_lock:
  assumes "lock A (rel_sum (=) R) p q" "\<And>e w w'. A w w' \<Longrightarrow> lock B S (f e w) (f' e w')" "\<And>x y w w'. R x y \<Longrightarrow> A w w' \<Longrightarrow> lock B S (g x w) (g' y w')"
  shows "lock B S (case p of (Inl e, w) \<Rightarrow> f e w | (Inr x, w) \<Rightarrow> g x w) (case q of (Inl e, w) \<Rightarrow> f' e w | (Inr x, w) \<Rightarrow> g' x w)"
  by (rule lock_sumE [OF assms(1)]) (auto simp: assms(2,3))

lemma answer_lock: "A w w' \<Longrightarrow> x = y \<Longrightarrow> lock A (=) (x, w) (y, w')"
  by (simp add: lock_def)

lemma shown_alike: "\<not> canReadSecrets r \<Longrightarrow> stack_alike rn s1 s2 \<Longrightarrow> stackForUser rn r s2 = stackForUser rn r s1"
  using masked_alike [of rn s1 s2] by (simp add: stackForUser_def)

lemma seen_alike:
  "\<not> canReadSecrets r \<Longrightarrow> stack_alike rn s1 s2 \<Longrightarrow>
     stackForUser rn r s2 = stackForUser rn r s1 \<and> st_ID s2 = st_ID s1 \<and> st_Name s2 = st_Name s1 \<and> st_WorkerID s2 = st_WorkerID s1 \<and> st_ComposeYAML s2 = st_ComposeYAML s1"
  by (simp add: shown_alike stack_alike_fields)

lemma shown_alikes:
  assumes "\<not> canReadSecrets r" "list_all2 (stack_alike rn) ss ss'"
  shows "stacksForUser rn r ss' = stacksForUser rn r ss"
  using assms(2) by (induction rule: list_all2_induct) (auto simp: stacksForUser_def assms(1) shown_alike)

lemma branch_lock:
  "(b \<Longrightarrow> lock A S p q) \<Longrightarrow> (\<not> b \<Longrightarrow> lock A S p' q') \<Longrightarrow> lock A S (if b then p else p') (if b then q else q')"
  "(y = None \<Longrightarrow> lock A S p q) \<Longrightarrow> (\<And>x. y = Some x \<Longrightarrow> lock A S (f x) (g x)) \<Longrightarrow>
     lock A S (case y of None \<Rightarrow> p | Some x \<Rightarrow> f x) (case y of None \<Rightarrow> q | Some x \<Rightarrow> g x)"
  "(\<And>x. z = Inl x \<Longrightarrow> lock A S (k x) (l x)) \<Longrightarrow> (\<And>x. z = Inr x \<Longrightarrow> lock A S (m x) (n x)) \<Longrightarrow>
     lock A S (case z of Inl x \<Rightarrow> k x | Inr x \<Rightarrow> m x) (case z of Inl x \<Rightarrow> l x | Inr x \<Rightarrow> n x)"
  "(b \<Longrightarrow> lock A S p q) \<Longrightarrow> (\<not> b \<Longrightarrow> lock A S p' q') \<Longrightarrow> lock A S (case b of True \<Rightarrow> p | False \<Rightarrow> p') (case b of True \<Rightarrow> q | False \<Rightarrow> q')"
  by (simp_all split: option.split sum.split bool.split)

lemma list_stacks_hides:
  assumes "\<not> canReadSecrets r" "alike (ce_renum env) w w'"
  shows "lock (alike (ce_renum env)) (=) (HandleGetStacks env r w) (HandleGetStacks env r w')"
  unfolding HandleGetStacks_def
  by (rule case_lock [OF stack_reads_lock(2) [OF assms(2)]]) (simp_all add: answer_lock shown_alikes [OF assms(1)])

lemma get_stack_hides:
  assumes "\<not> canReadSecrets r" "alike (ce_renum env) w w'"
  shows "lock (alike (ce_renum env)) (=) (HandleGetStack env r w) (HandleGetStack env r w')"
  unfolding HandleGetStack_def
  by (intro branch_lock case_lock [OF stack_reads_lock(1)] answer_lock) (auto simp: assms(2) dest!: seen_alike [OF assms(1)])

lemma export_stack_hides:
  assumes "\<not> canReadSecrets r" "alike (ce_renum env) w w'"
  shows "lock (alike (ce_renum env)) (=) (HandleExportStack env r w) (HandleExportStack env r w')"
  unfolding HandleExportStack_def
  by (intro branch_lock case_lock [OF stack_reads_lock(1)] case_lock [OF secrets.containers_lock(2)] answer_lock)
    (auto simp: assms(2) dest!: seen_alike [OF assms(1)])

lemma create_stack_hides:
  assumes "\<not> canReadSecrets r" "alike (ce_renum env) w w'"
  shows "lock (alike (ce_renum env)) (=) (HandleCreateStack env r w) (HandleCreateStack env r w')"
  unfolding HandleCreateStack_def Let_def
  by (intro branch_lock case_lock [OF create_stack_lock] case_lock [OF stack_reads_lock(3)]; (simp only: simp_thms)?; (intro branch_lock case_lock [OF create_stack_lock] answer_lock)?)
    (auto simp: assms(2) secrets.audits dest!: seen_alike [OF assms(1)])

lemma update_stack_hides:
  assumes "\<not> canReadSecrets r" "stable (ce_renum env)" "alike (ce_renum env) w w'"
  shows "lock (alike (ce_renum env)) (=) (HandleUpdateStack env r w) (HandleUpdateStack env r w')"
proof -
  let ?rn = "ce_renum env"
  have w: "still ?rn (stacks w) w w'" using assms(3) by (simp add: still_def)
  have held: "alike ?rn v v'" if "still ?rn (stacks w) v v'" for v v' using that by (simp add: still_def)
  have u: "lock (alike ?rn) (rel_sum (=) (stack_alike ?rn)) (UpdateStack i (stack_update env b e1 k1) v) (UpdateStack i (stack_update env b e2 k2) v')"
    if "safe_envs ?rn (stacks w) i e1 e2" "safe_keys (stacks w) i k1 k2" "still ?rn (stacks w) v v'" for i b e1 e2 k1 k2 v v'
    by (rule update_stack_lock) (use that in \<open>auto simp: still_def stack_update_def safe_envs_def safe_keys_def\<close>)
  show ?thesis
    unfolding HandleUpdateStack_def
    by (intro branch_lock case_lock [OF merged_env_lock [OF w assms(2)]] case_lock [OF checked_keys_lock [OF _ assms(1)]] case_lock [OF u] answer_lock)
      (auto simp: assms(3) held secrets.audits dest!: seen_alike [OF assms(1)])
qed

text \<open>Imports make their stack in a transaction.\<close>

lemma step_lock:
  "lock A (=) p q \<Longrightarrow> (\<And>e w w'. A w w' \<Longrightarrow> lock A S (f e w) (f' e w')) \<Longrightarrow> (\<And>w w'. A w w' \<Longrightarrow> lock A S (g w) (g' w')) \<Longrightarrow>
     lock A S (case p of (Some e, w) \<Rightarrow> f e w | (None, w) \<Rightarrow> g w) (case q of (Some e, w) \<Rightarrow> f' e w | (None, w) \<Rightarrow> g' w)"
  by (erule lock_eqE) (auto split: option.split)

lemma after_lock:
  "lock A (=) p q \<Longrightarrow> (\<And>w w'. A w w' \<Longrightarrow> lock A (rel_sum (=) R) (k w) (k' w')) \<Longrightarrow> lock A (rel_sum (=) R) (after p k) (after q k')"
  unfolding after_def by (rule step_lock) (auto simp: lock_def)

lemma each_lock:
  "A w w' \<Longrightarrow> (\<And>x v v'. A v v' \<Longrightarrow> lock A (=) (step x v) (step' x v')) \<Longrightarrow> lock A (=) (each step xs w) (each step' xs w')"
  by (induction xs arbitrary: w w') (auto simp: answer_lock intro!: step_lock)

lemma create_service_lock:
  "alike rn w w' \<Longrightarrow> j = i \<Longrightarrow> lock (alike rn) (=) (create_service env m i us ks w) (create_service env m j us ks w')"
  unfolding create_service_def by (hypsubst, intro case_lock [OF secrets.writes_lock(1)] answer_lock) auto

lemma import_container_lock:
  "alike rn w w' \<Longrightarrow> j = i \<Longrightarrow> lock (alike rn) (=) (import_container env i b w) (import_container env j b w')"
  unfolding import_container_def by (hypsubst, intro branch_lock case_lock [OF secrets.writes_lock(1)] answer_lock) auto

lemma create_network_lock:
  "alike rn w w' \<Longrightarrow> j = i \<Longrightarrow> lock (alike rn) (=) (create_network i nd w) (create_network j nd w')"
  unfolding create_network_def by (simp, intro step_lock [OF secrets.writes_lock(4)] answer_lock) auto

lemma import_networks_lock:
  "alike rn w w' \<Longrightarrow> j = i \<Longrightarrow> lock (alike rn) (=) (import_networks env i y w) (import_networks env j y w')"
  unfolding import_networks_def by (intro branch_lock answer_lock each_lock create_network_lock) auto

lemma made_lock: "R x y \<Longrightarrow> A w w' \<Longrightarrow> lock A (rel_sum (=) R) (Inr x, w) (Inr y, w')"
  by (simp add: lock_def)

lemma refused_lock: "A w w' \<Longrightarrow> x = y \<Longrightarrow> lock A (rel_sum (=) R) (Inl x, w) (Inl y, w')"
  by (simp add: lock_def)

lemma import_export_lock:
  "alike rn w w' \<Longrightarrow> lock (alike rn) (rel_sum (=) (stack_alike rn)) (import_export env st b w) (import_export env st b w')"
  unfolding import_export_def
  by (intro branch_lock case_lock [OF create_stack_lock] after_lock each_lock import_container_lock import_networks_lock made_lock refused_lock)
    (auto simp: stack_alike_fields)

lemma import_compose_lock:
  "alike rn w w' \<Longrightarrow> lock (alike rn) (rel_sum (=) (stack_alike rn)) (import_compose env b st cfu w) (import_compose env b st cfu w')"
  unfolding import_compose_def Let_def
  by (intro branch_lock case_lock [OF create_stack_lock] after_lock each_lock create_service_lock create_network_lock made_lock refused_lock)
    (auto simp: stack_alike_fields)

lemma import_export_hides:
  assumes "\<not> canReadSecrets r" "alike (ce_renum env) w w'"
  shows "lock (alike (ce_renum env)) (=) (HandleImportStackExport env r w) (HandleImportStackExport env r w')"
  unfolding HandleImportStackExport_def Let_def
  by (intro branch_lock case_lock [OF secrets.transaction_lock [OF import_export_lock]] answer_lock)
    (auto simp: assms(2) secrets.audits dest!: seen_alike [OF assms(1)])

lemma import_compose_hides:
  assumes "\<not> canReadSecrets r" "alike (ce_renum env) w w'"
  shows "lock (alike (ce_renum env)) (=) (HandleImportCompose env r w) (HandleImportCompose env r w')"
  unfolding HandleImportCompose_def Let_def
  by (intro branch_lock case_lock [OF secrets.transaction_lock [OF import_compose_lock]] answer_lock)
    (auto simp: assms(2) secrets.audits intro!: case_lock [OF stack_reads_lock(1)] answer_lock dest!: seen_alike [OF assms(1)])

section \<open>Containers\<close>

lemma pair_lock:
  "lock A (=) p q \<Longrightarrow> (\<And>x w w'. A w w' \<Longrightarrow> lock B S (f x w) (f' x w')) \<Longrightarrow> lock B S (case p of (x, w) \<Rightarrow> f x w) (case q of (x, w) \<Rightarrow> f' x w)"
  by (erule lock_eqE) auto

lemma sync_services_lock:
  fixes w w' :: "'a deploy_world_scheme"
  shows "alike rn w w' \<Longrightarrow> lock (alike rn) (=) (sync_services env us cs svcs w) (sync_services env us cs svcs w')"
proof (induction svcs arbitrary: w w')
  case (Cons ks svcs)
  have rest: "lock (alike rn) (=) (case sync_services env us cs svcs v of (results, w2) \<Rightarrow> (x # results, w2)) (case sync_services env us cs svcs v' of (results, w2) \<Rightarrow> (x # results, w2))"
    if "alike rn v v'" for x and v v' :: "'a deploy_world_scheme" by (rule pair_lock [OF Cons.IH [OF that]]) (simp add: lock_def)
  show ?case
  proof (cases "map_of (rev (map (\<lambda>c. (c_Name c, c_ID c)) cs)) (service_name ks)")
    case None
    then show ?thesis using rest [OF Cons.prems] by (simp add: Let_def)
  next
    case (Some i)
    show ?thesis
      by (rule lock_sumE [OF secrets.writes_lock(2) [OF Cons.prems, of i "sync_request env us ks"]]) (simp_all add: Let_def Some rest)
  qed
qed (simp add: lock_def)

lemma sync_compose_hides:
  assumes "alike (ce_renum env) w w'"
  shows "lock (alike (ce_renum env)) (=) (HandleSyncCompose env r w) (HandleSyncCompose env r w')"
proof -
  have synced: "lock (alike (ce_renum env)) (=)
      (case sync_services env us cs svcs v of (results, w3) \<Rightarrow> (New (DataList results) m, logAudit r a t i d w3))
      (case sync_services env us cs svcs v' of (results, w3) \<Rightarrow> (New (DataList results) m, logAudit r a t i d w3))"
    if "alike (ce_renum env) v v'" for us cs svcs v v' m a t i d
    by (rule pair_lock [OF sync_services_lock [OF that]]) (simp add: lock_def secrets.audits)
  show ?thesis
    unfolding HandleSyncCompose_def
    by (intro branch_lock case_lock [OF stack_reads_lock(1)] answer_lock)
      (auto simp: assms stack_alike_fields synced intro!: branch_lock answer_lock case_lock [OF secrets.containers_lock(2)] split: list.split)
qed

lemma container_handlers_hide:
  assumes "alike rn w w'"
  shows "lock (alike rn) (=) (HandleCreateContainer env r w) (HandleCreateContainer env r w')"
    "lock (alike rn) (=) (HandleUpdateContainer env r w) (HandleUpdateContainer env r w')"
    "lock (alike rn) (=) (HandleGetContainer r w) (HandleGetContainer r w')"
    "lock (alike rn) (=) (HandleGetContainers r w) (HandleGetContainers r w')"
proof -
  show "lock (alike rn) (=) (HandleCreateContainer env r w) (HandleCreateContainer env r w')"
    unfolding HandleCreateContainer_def
    by (intro branch_lock case_lock [OF secrets.containers_lock(3)] answer_lock; (simp only: simp_thms)?;
        (intro branch_lock case_lock [OF secrets.writes_lock(1)] answer_lock)?) (auto simp: assms secrets.audits)
  show "lock (alike rn) (=) (HandleUpdateContainer env r w) (HandleUpdateContainer env r w')"
    unfolding HandleUpdateContainer_def
    by (intro branch_lock case_lock [OF secrets.writes_lock(2)] answer_lock) (auto simp: assms secrets.audits)
  show "lock (alike rn) (=) (HandleGetContainer r w) (HandleGetContainer r w')"
    unfolding HandleGetContainer_def by (intro branch_lock case_lock [OF secrets.containers_lock(1)] answer_lock) (auto simp: assms)
  show "lock (alike rn) (=) (HandleGetContainers r w) (HandleGetContainers r w')"
    unfolding HandleGetContainers_def by (intro branch_lock case_lock [OF secrets.containers_lock(2)] answer_lock) (auto simp: assms)
qed

lemma delete_container_hides:
  assumes "alike rn w w'"
  shows "lock (alike rn) (=) (HandleDeleteContainer r w) (HandleDeleteContainer r w')"
proof -
  have send: "alike rn (remove_container wid c v) (remove_container wid c v')" if "alike rn v v'" for wid c v v'
    using secrets.hub [OF that] secrets.set_hub [OF that]
    by (simp add: remove_container_def SendJSONToWorker_def Let_def case_prod_beta)
  have deleted: "lock (alike rn) (=)
      (case DeleteContainer i v of (Some e, w4) \<Rightarrow> (QueryError e m, w4) | (None, w4) \<Rightarrow> (x, logAudit r a t y d w4))
      (case DeleteContainer i v' of (Some e, w4) \<Rightarrow> (QueryError e m, w4) | (None, w4) \<Rightarrow> (x, logAudit r a t y d w4))"
    if "alike rn v v'" for i v v' m x a t y d
    by (rule step_lock [OF secrets.writes_lock(3) [OF that]]) (simp_all add: lock_def secrets.audits)
  have told: "lock (alike rn) (=)
      (let (st, w2) = GetStackByID (c_StackID c) v;
           w3 = (case st of Inl _ \<Rightarrow> w2 | Inr s \<Rightarrow> (case st_WorkerID s of None \<Rightarrow> w2 | Some wid \<Rightarrow> if worker_connected wid w2 then remove_container wid c w2 else w2))
       in case DeleteContainer i w3 of (Some e, w4) \<Rightarrow> (QueryError e m, w4) | (None, w4) \<Rightarrow> (x, logAudit r a t y (d c) w4))
      (let (st, w2) = GetStackByID (c_StackID c') v';
           w3 = (case st of Inl _ \<Rightarrow> w2 | Inr s \<Rightarrow> (case st_WorkerID s of None \<Rightarrow> w2 | Some wid \<Rightarrow> if worker_connected wid w2 then remove_container wid c' w2 else w2))
       in case DeleteContainer i w3 of (Some e, w4) \<Rightarrow> (QueryError e m, w4) | (None, w4) \<Rightarrow> (x, logAudit r a t y (d c') w4))"
    if "alike rn v v'" "c' = c" for c c' i v v' m x a t y d
    unfolding that(2)
    by (rule lock_sumE [OF stack_reads_lock(1) [OF that(1), of "c_StackID c"]])
      (auto simp: Let_def stack_alike_fields worker_connected_def secrets.hub intro!: deleted send split: option.split)
  show ?thesis
    unfolding HandleDeleteContainer_def
    by (intro branch_lock case_lock [OF secrets.containers_lock(1)] told answer_lock) (simp_all add: assms)
qed

section \<open>A session of requests\<close>

datatype stackRoute = ListStacksRoute | GetStackRoute | CreateStackRoute | UpdateStackRoute | ExportStackRoute | ImportExportRoute
  | ImportComposeRoute | SyncComposeRoute | CreateContainerRoute | UpdateContainerRoute | DeleteContainerRoute | GetContainerRoute
  | ListContainersRoute

fun answer :: "compose_env \<Rightarrow> stackRoute \<Rightarrow> httpRequest \<Rightarrow> 'a deploy_world_scheme \<Rightarrow> response \<times> 'a deploy_world_scheme" where
  "answer env ListStacksRoute = HandleGetStacks env"
| "answer env GetStackRoute = HandleGetStack env"
| "answer env CreateStackRoute = HandleCreateStack env"
| "answer env UpdateStackRoute = HandleUpdateStack env"
| "answer env ExportStackRoute = HandleExportStack env"
| "answer env ImportExportRoute = HandleImportStackExport env"
| "answer env ImportComposeRoute = HandleImportCompose env"
| "answer env SyncComposeRoute = HandleSyncCompose env"
| "answer env CreateContainerRoute = HandleCreateContainer env"
| "answer env UpdateContainerRoute = HandleUpdateContainer env"
| "answer env DeleteContainerRoute = HandleDeleteContainer"
| "answer env GetContainerRoute = HandleGetContainer"
| "answer env ListContainersRoute = HandleGetContainers"

fun answers :: "compose_env \<Rightarrow> (stackRoute \<times> httpRequest) list \<Rightarrow> 'a deploy_world_scheme \<Rightarrow> response list" where
  "answers env [] w = []"
| "answers env ((route, r) # reqs) w = (case answer env route r w of (resp, w1) \<Rightarrow> resp # answers env reqs w1)"

lemma answer_hides:
  "\<not> canReadSecrets r \<Longrightarrow> stable (ce_renum env) \<Longrightarrow> alike (ce_renum env) w w' \<Longrightarrow>
     lock (alike (ce_renum env)) (=) (answer env route r w) (answer env route r w')"
  by (cases route) (simp_all add: list_stacks_hides get_stack_hides create_stack_hides update_stack_hides export_stack_hides
    import_export_hides import_compose_hides sync_compose_hides container_handlers_hide delete_container_hides)


definition sample_env :: compose_env where
  "sample_env = \<lparr>ce_yaml = (\<lambda>_. Inl ''no parser''), ce_words = (\<lambda>s. Inr ([s], 1)), ce_scan = (\<lambda>s. (0, s)), ce_show = (\<lambda>_. ''0''), ce_fmt = id,
     ce_float_int = (\<lambda>_. None), ce_parse = (\<lambda>_. None), ce_renum = (\<lambda>_. None), ce_stack = web_stack, ce_container = web_container\<rparr>"

definition vault_stack :: "string \<Rightarrow> stack" where
  "vault_stack secret = web_stack\<lparr>st_EnvVars := JsonText (JObj [(''DB_PASSWORD'', JStr secret), (''DB_USER'', JStr ''app'')]),
     st_SecretEnvKeys := JsonText (JList [JStr ''DB_PASSWORD''])\<rparr>"

definition vault_world :: "string \<Rightarrow> deploy_world" where
  "vault_world secret = deploy_world0\<lparr>stacks := [vault_stack secret], w_next_stack := 6\<rparr>"

definition editor_request :: httpRequest where
  "editor_request = \<lparr>hr_Vars = [(''id'', ''5'')], hr_Query = [], hr_Path = [],
     hr_Body = Inr (JObj [(''compose_yaml'', JStr ''services: {web: {image: nginx}}'')]),
     hr_User = Some (admin_user\<lparr>u_Role := ''editor''\<rparr>), hr_IP = []\<rparr>"

lemma editor_cannot_read: "\<not> canReadSecrets editor_request"
  by (simp add: editor_request_def canReadSecrets_def admin_user_def)

lemma vaults_alike: "alike (\<lambda>_. None) (vault_world a) (vault_world b)"
proof -
  have "read_map (\<lambda>_. None) (st_EnvVars (vault_stack s)) = (True, Some [(''DB_PASSWORD'', JStr s), (''DB_USER'', JStr ''app'')])" for s
    by (simp add: read_map_def vault_stack_def to_map_def put_member_def)
  then have "stack_alike (\<lambda>_. None) (vault_stack a) (vault_stack b)"
    by (auto simp: stack_alike_def env_alike_def same_outside_def vault_stack_def parseSecretKeys_def unmarshal_strings_def)
  then show ?thesis by (auto simp: alike_def vault_world_def vault_stack_def web_stack_def intro!: exI [of _ "[vault_stack b]"])
qed


section \<open>The route that does not mask\<close>

lemma committed_stacks: "commit b w = (None, w1) \<Longrightarrow> stacks w1 = stacks w"
  by (auto simp: commit_def exec_unit_def exec_def rollback_def Let_def split: list.splits prod.splits stmt_outcome.splits sum.splits if_splits)

lemma replaced_row:
  assumes "fst (transaction (replace_stack env yaml cfu s) w) = Inr (s', existing)"
  shows "s' \<in> set (stacks (snd (transaction (replace_stack env yaml cfu s) w)))"
proof -
  obtain w1 where x: "transaction (replace_stack env yaml cfu s) w = (Inr (s', existing), w1)"
    using assms by (metis prod.collapse)
  obtain w0 w2 where t: "replace_stack env yaml cfu s w0 = (Inr (s', existing), w2)" "commit w0 w2 = (None, w1)"
    using x by (auto simp: transaction_def split: prod.splits option.splits sum.splits)
  obtain w4 where "UpdateStack (st_ID s) (no_stack_update\<lparr>us_ComposeYAML := Some yaml\<rparr>) w4 = (Inr s', w2)"
    using t(1) by (auto simp: replace_stack_def after_def split: prod.splits option.splits sum.splits)
  then obtain w5 where "GetStackByID (st_ID s) w5 = (Inr s', w2)" by (auto simp: UpdateStack_def split: prod.splits option.splits if_splits)
  then have "s' \<in> set (stacks w2)" using read_stack by metis
  then show ?thesis using committed_stacks [OF t(2)] x by simp
qed

text \<open>Nothing but an error stops the transaction.\<close>

definition refusal :: "response \<Rightarrow> bool" where
  "refusal resp \<longleftrightarrow> (case resp of Failure _ _ _ _ \<Rightarrow> True | _ \<Rightarrow> False)"

lemma refusals [simp]: "refusal (SendError c m e0)" "refusal NotFound" "refusal (QueryError e m)" "\<not> refusal (New x m)"
  by (simp_all add: refusal_def SendError_def NotFound_def QueryError_def New_def)

lemma each_refuses: "fst (each step xs w) = Some resp \<Longrightarrow> (\<And>x v resp. fst (step x v) = Some resp \<Longrightarrow> refusal resp) \<Longrightarrow> refusal resp"
proof (induction xs arbitrary: w)
  case (Cons x xs)
  obtain y v where y: "step x w = (y, v)" by force
  show ?case
  proof (cases y)
    case None
    then show ?thesis using Cons.IH [of v] Cons.prems y by simp
  next
    case (Some resp')
    then show ?thesis using Cons.prems(1) Cons.prems(2) [of x w resp'] y by simp
  qed
qed simp

lemma after_refuses:
  "fst (after p k) = Inl resp \<Longrightarrow> (fst p = Some resp \<Longrightarrow> refusal resp) \<Longrightarrow> (\<And>v. fst (k v) = Inl resp \<Longrightarrow> refusal resp) \<Longrightarrow> refusal resp"
  by (auto simp: after_def split: prod.splits option.splits)

lemma step_refuses:
  "fst (delete_existing c v) = Some resp \<Longrightarrow> refusal resp" "fst (create_service env b i us ks v) = Some resp \<Longrightarrow> refusal resp"
  "fst (create_network i nd v) = Some resp \<Longrightarrow> refusal resp"
  by (auto simp: delete_existing_def create_service_def create_network_def split: prod.splits option.splits sum.splits)

lemma replace_networks_refuses: "fst (replace_networks i cf v) = Some resp \<Longrightarrow> refusal resp"
  by (auto simp: replace_networks_def split: prod.splits option.splits intro: each_refuses [where step = "create_network i"] step_refuses(3))

lemma replace_stack_refuses: "fst (replace_stack env yaml cfu s w) = Inl resp \<Longrightarrow> refusal resp"
proof -
  assume r: "fst (replace_stack env yaml cfu s w) = Inl resp"
  have last: "refusal resp" if "fst (case UpdateStack (st_ID s) req v of (Inl e, w5) \<Rightarrow> (Inl (QueryError e m), w5) | (Inr s', w5) \<Rightarrow> (Inr (s', existing), w5)) = Inl resp"
    for req m existing v using that by (auto split: prod.splits sum.splits)
  show ?thesis
  proof (cases "ListContainersByStack (st_ID s) w")
    case (Pair x w1)
    show ?thesis
    proof (cases x)
      case (Inl e)
      then show ?thesis using r Pair by (auto simp: replace_stack_def)
    next
      case (Inr existing)
      show ?thesis
        by (rule after_refuses [OF r [unfolded replace_stack_def Pair Inr, simplified]], erule each_refuses, erule step_refuses(1),
            erule after_refuses, erule each_refuses, erule step_refuses(2), erule after_refuses, erule replace_networks_refuses, erule last)
    qed
  qed
qed

lemma transaction_refuses:
  "fst (transaction body w) = Inl resp \<Longrightarrow> (\<And>v. fst (body v) = Inl resp \<Longrightarrow> refusal resp) \<Longrightarrow> refusal resp"
proof -
  assume t: "fst (transaction body w) = Inl resp" and law: "\<And>v. fst (body v) = Inl resp \<Longrightarrow> refusal resp"
  have "refusal resp" if "body v = (Inl resp, v')" for v v' using law [of v] that by simp
  then show "refusal resp" using t by (auto simp: transaction_def split: prod.splits option.splits sum.splits)
qed

text \<open>
  C38. The answer of the compose update is the stack's own row, environment values included, whoever
  asks: the one response of the stack routes that is not masked for the caller.
\<close>

theorem compose_update_reveals_secrets:
  assumes "fst (HandleUpdateCompose env r w) = New (DataCompose s ids) m"
  shows "s \<in> set (stacks (snd (HandleUpdateCompose env r w)))"
proof -
  have no: "fst (transaction (replace_stack env yaml cfu x) v) \<noteq> Inl (New d m)" for yaml cfu x d m and v :: "'a deploy_world_scheme"
    using transaction_refuses [OF _ replace_stack_refuses, where resp = "New d m"] by auto
  have plain: "BadBody e0 \<noteq> New (DataCompose s ids) m" "MissingBodyFields x \<noteq> New (DataCompose s ids) m" "SendError c y e' \<noteq> New (DataCompose s ids) m"
    "QueryError e y \<noteq> New (DataCompose s ids) m" for e e0 x c y e'
    by (simp_all add: BadBody_def MissingBodyFields_def New_def SendError_def QueryError_def NotFound_def)
  have same: "New (DataCompose s' ids') m' = New (DataCompose s ids) m \<Longrightarrow> s' = s" for s' ids' m' by (simp add: New_def)
  show ?thesis
    using assms no plain
    by (auto simp: HandleUpdateCompose_def checked_compose_def Let_def case_prod_beta
        logAudit_def frame_ListContainersByStack [OF stacks_frame] replaced_row split: option.splits sum.splits if_splits dest!: same)
qed

definition compose_service :: composeService where
  "compose_service = \<lparr>cs_Image = ''nginx'', cs_ContainerName = [], cs_Ports = [], cs_Environment = JNull, cs_Volumes = [], cs_Command = JNull,
     cs_Entrypoint = JNull, cs_Restart = [], cs_Deploy = None, cs_Labels = JNull, cs_Healthcheck = None, cs_Ulimits = JNull, cs_Networks = JNull\<rparr>"

definition compose_sample_env :: compose_env where
  "compose_sample_env = sample_env\<lparr>ce_yaml := \<lambda>_. Inr \<lparr>cf_Services = [(''web'', compose_service)], cf_Networks = []\<rparr>\<rparr>"

lemma transaction_quiet:
  "db_script w = [] \<Longrightarrow> body w = (Inr x, w2) \<Longrightarrow> db_script w2 = [] \<Longrightarrow> transaction body w = (Inr x, w2)"
  by (simp add: transaction_def begin_tx_def commit_def rollback_def exec_unit_quiet)

lemma vault_decoded:
  "decode_body [(''compose_yaml'', into store_string mb_ComposeYAML (\<lambda>x b. b\<lparr>mb_ComposeYAML := x\<rparr>))] empty_composeBody editor_request =
     Inr (empty_composeBody\<lparr>mb_ComposeYAML := ''services: {web: {image: nginx}}''\<rparr>)"
  by code_simp

lemma vault_checked:
  "checked_compose compose_sample_env p n y = Inr (\<lparr>cf_Services = [(''web'', compose_service)], cf_Networks = []\<rparr>, [(''web'', EmptyText)])"
  by code_simp

lemma vault_id: "path_int editor_request ''id'' = Some 5"
  by (simp add: path_int_def editor_request_def atoi_def is_digit_def digits_val_def digit_val_def max_int64_def min_int64_def)

lemma vault_world_simps [simp]: "db_script (vault_world s) = []" "containers (vault_world s) = []" "stacks (vault_world s) = [vault_stack s]"
    "w_networks (vault_world s) = []" "w_next_container (vault_world s) = 1"
  by (simp_all add: vault_world_def deploy_world0_def log_start_def sched_world_def log_world.defs deploy_world.defs
    api_world.defs backup_world.defs backup_empty_def db_empty_def db_world.defs)

lemma vault_stack_simps [simp]: "st_ID (vault_stack s) = 5" "st_Active (vault_stack s)"
  by (simp_all add: vault_stack_def web_stack_def)

definition web_file :: composeFile where
  "web_file = \<lparr>cf_Services = [(''web'', compose_service)], cf_Networks = []\<rparr>"

definition vault_updated :: "string \<Rightarrow> string \<Rightarrow> deploy_world" where
  "vault_updated s yaml = (vault_world s)\<lparr>containers := [new_container compose_sample_env (service_request compose_sample_env False 5 [(''web'', EmptyText)] (''web'', compose_service)) 1],
     w_next_container := 2, w_networks := [], stacks := [(vault_stack s)\<lparr>st_ComposeYAML := Some yaml\<rparr>]\<rparr>"

lemma vault_replaced:
  "replace_stack compose_sample_env yaml (web_file, [(''web'', EmptyText)]) (vault_stack s) (vault_world s) =
     (Inr ((vault_stack s)\<lparr>st_ComposeYAML := Some yaml\<rparr>, []), vault_updated s yaml)"
proof -
  define c where "c = new_container compose_sample_env (service_request compose_sample_env False 5 [(''web'', EmptyText)] (''web'', compose_service)) 1"
  define w1 where "w1 = (vault_world s)\<lparr>containers := [c], w_next_container := 2\<rparr>"
  have c: "c_ID c = 1" "c_Active c" by (simp_all add: c_def new_container_def compose_sample_env_def sample_env_def web_container_def)
  have "CreateContainer compose_sample_env (service_request compose_sample_env False 5 [(''web'', EmptyText)] (''web'', compose_service)) (vault_world s) = (Inr c, w1)"
    by (simp add: CreateContainer_def exec_quiet flip: c_def w1_def) (simp add: GetContainerByID_def one_row_def query_quiet w1_def c)
  then have made: "create_service compose_sample_env False 5 [(''web'', EmptyText)] (''web'', compose_service) (vault_world s) = (None, w1)"
    by (simp add: create_service_def)
  have svcs: "cf_Services web_file = [(''web'', compose_service)]" by (simp add: web_file_def)
  have nets: "replace_networks 5 web_file w1 = (None, w1\<lparr>w_networks := []\<rparr>)"
    by (simp add: replace_networks_def DeleteNetworksByStack_def exec_unit_quiet w1_def web_file_def file_networks_def)
  have sets: "stack_sets (no_stack_update\<lparr>us_ComposeYAML := Some yaml\<rparr>) (vault_stack s) = (vault_stack s)\<lparr>st_ComposeYAML := Some yaml\<rparr>"
    by (simp add: stack_sets_def no_stack_update_def set_opt_def)
  have "UpdateStack 5 (no_stack_update\<lparr>us_ComposeYAML := Some yaml\<rparr>) (w1\<lparr>w_networks := []\<rparr>) =
      (Inr ((vault_stack s)\<lparr>st_ComposeYAML := Some yaml\<rparr>), vault_updated s yaml)"
    by (simp add: UpdateStack_def sets exec_unit_quiet w1_def update_where_def GetStackByID_def query_quiet select_stack_def vault_updated_def c_def)
      (simp add: no_stack_update_def)
  then show ?thesis
    by (simp add: replace_stack_def ListContainersByStack_def query_quiet after_def svcs made nets)
qed

theorem compose_update_reveals_secrets_witness:
  "\<exists>s ids m. fst (HandleUpdateCompose compose_sample_env editor_request (vault_world ''hunter2'')) = New (DataCompose s ids) m \<and>
     \<not> canReadSecrets editor_request \<and>
     st_EnvVars s = JsonText (JObj [(''DB_PASSWORD'', JStr ''hunter2''), (''DB_USER'', JStr ''app'')]) \<and>
     s \<in> set (stacks (snd (HandleUpdateCompose compose_sample_env editor_request (vault_world ''hunter2''))))"
proof -
  let ?y = "''services: {web: {image: nginx}}''"
  let ?s = "(vault_stack ''hunter2'')\<lparr>st_ComposeYAML := Some ?y\<rparr>"
  have size: "ValidateYAMLSize ?y = None" by (simp add: ValidateYAMLSize_def MaxYAMLSize_def)
  have get: "GetStackByID 5 (vault_world ''hunter2'') = (Inr (vault_stack ''hunter2''), vault_world ''hunter2'')"
    by (simp add: GetStackByID_def query_quiet select_stack_def)
  have quiet: "db_script (vault_updated ''hunter2'' ?y) = []" by (simp add: vault_updated_def)
  have tx: "transaction (replace_stack compose_sample_env ?y (web_file, [(''web'', EmptyText)]) (vault_stack ''hunter2'')) (vault_world ''hunter2'') =
      (Inr (?s, []), vault_updated ''hunter2'' ?y)"
    by (rule transaction_quiet) (simp_all add: vault_replaced quiet)
  have "\<exists>ids m. fst (HandleUpdateCompose compose_sample_env editor_request (vault_world ''hunter2'')) = New (DataCompose ?s ids) m"
    by (simp add: HandleUpdateCompose_def vault_id vault_decoded size vault_checked flip: web_file_def)
       (simp add: get tx ListContainersByStack_def query_quiet quiet empty_composeBody_def, blast)
  then obtain ids m where r: "fst (HandleUpdateCompose compose_sample_env editor_request (vault_world ''hunter2'')) = New (DataCompose ?s ids) m" by blast
  have "st_EnvVars ?s = JsonText (JObj [(''DB_PASSWORD'', JStr ''hunter2''), (''DB_USER'', JStr ''app'')])" by (simp add: vault_stack_def)
  then show ?thesis using r editor_cannot_read compose_update_reveals_secrets [OF r] by blast
qed

end
