(* ===== verification/Worker_Commands.thy ===== *)
theory Worker_Commands
  imports Deploy_Router Accounts
begin

text \<open>
  Commands an operator sends to a worker (\<^verbatim>\<open>routers/HandleContainerActions.router.go\<close>,
  \<^verbatim>\<open>HandleStackActions\<close>, \<^verbatim>\<open>HandleWorkerActions\<close>, \<^verbatim>\<open>HandleNetworks\<close>, \<^verbatim>\<open>HandleVolumes\<close>,
  \<^verbatim>\<open>HandleForceRemoveContainer\<close>) and the rows of workers (\<^verbatim>\<open>query/workers.query.go\<close> with the handlers
  that create, change, list and retire them).
\<close>

section \<open>Message types\<close>

definition MsgStart :: string where "MsgStart = ''start''"
definition MsgStop :: string where "MsgStop = ''stop''"
definition MsgKill :: string where "MsgKill = ''kill''"
definition MsgRestart :: string where "MsgRestart = ''restart''"
definition MsgPause :: string where "MsgPause = ''pause''"
definition MsgUnpause :: string where "MsgUnpause = ''unpause''"
definition MsgRebootOS :: string where "MsgRebootOS = ''reboot_os''"
definition MsgUpgradeRunner :: string where "MsgUpgradeRunner = ''upgrade_runner''"
definition MsgStopAll :: string where "MsgStopAll = ''stop_all''"
definition MsgStartAll :: string where "MsgStartAll = ''start_all''"
definition MsgListVolumes :: string where "MsgListVolumes = ''list_volumes''"
definition MsgCreateVolume :: string where "MsgCreateVolume = ''create_volume''"
definition MsgRemoveVolume :: string where "MsgRemoveVolume = ''remove_volume''"
definition MsgListNetworks :: string where "MsgListNetworks = ''list_networks''"
definition MsgCreateNetwork :: string where "MsgCreateNetwork = ''create_network''"
definition MsgRemoveNetwork :: string where "MsgRemoveNetwork = ''remove_network''"
definition MsgForceRemove :: string where "MsgForceRemove = ''force_remove''"

section \<open>One container\<close>

text \<open>The container, the worker of its stack and whether that worker is connected.\<close>

definition with_worker_of ::
  "httpRequest \<Rightarrow> (container \<Rightarrow> int \<Rightarrow> 'a deploy_world_scheme \<Rightarrow> response \<times> 'a deploy_world_scheme) \<Rightarrow> 'a deploy_world_scheme \<Rightarrow> response \<times> 'a deploy_world_scheme" where
  "with_worker_of r k w =
     (case path_int r ''id'' of
        None \<Rightarrow> (SendError 400 ''invalid container id'' None, w)
      | Some i \<Rightarrow>
          (case GetContainerByID i w of
             (Inl _, w1) \<Rightarrow> (NotFound, w1)
           | (Inr c, w1) \<Rightarrow>
               (case GetStackByID (c_StackID c) w1 of
                  (Inl _, w2) \<Rightarrow> (NotFound, w2)
                | (Inr s, w2) \<Rightarrow>
                    (case st_WorkerID s of
                       None \<Rightarrow> (SendError 400 ''stack has no worker assigned'' None, w2)
                     | Some wid \<Rightarrow>
                         if \<not> worker_connected wid w2 then (SendError 400 ''worker is not connected'' None, w2)
                         else k c wid w2))))"

definition sendContainerAction :: "string \<Rightarrow> httpRequest \<Rightarrow> 'a deploy_world_scheme \<Rightarrow> response \<times> 'a deploy_world_scheme" where
  "sendContainerAction action r =
     with_worker_of r (\<lambda>c wid w.
       case SendJSONToWorker wid (NewCommand action [(''container_name'', JStr (c_Name c)), (''container_id'', JInt (c_ID c))]) w of
         (Some e, w1) \<Rightarrow> (sendDispatchError action e, w1)
       | (None, w1) \<Rightarrow>
           (New NoData (''container '' @ action @ '' command sent''),
            logAudit r action ''container'' (path_int r ''id'') (Some (c_Name c)) w1))"

definition HandleStartContainer where "HandleStartContainer = sendContainerAction MsgStart"
definition HandleStopContainer where "HandleStopContainer = sendContainerAction MsgStop"
definition HandleKillContainer where "HandleKillContainer = sendContainerAction MsgKill"
definition HandleRestartContainer where "HandleRestartContainer = sendContainerAction MsgRestart"
definition HandlePauseContainer where "HandlePauseContainer = sendContainerAction MsgPause"
definition HandleUnpauseContainer where "HandleUnpauseContainer = sendContainerAction MsgUnpause"
definition HandleRemoveContainer where "HandleRemoveContainer = sendContainerAction Deploy_Router.MsgRemove"

definition HandleRecreateContainer :: "httpRequest \<Rightarrow> 'a deploy_world_scheme \<Rightarrow> response \<times> 'a deploy_world_scheme" where
  "HandleRecreateContainer r =
     with_worker_of r (\<lambda>c wid w.
       case RecreateContainer c wid w of
         (Some e, w1) \<Rightarrow> (sendDispatchError ''recreate'' e, w1)
       | (None, w1) \<Rightarrow>
           (New NoData ''container recreate command sent'',
            logAudit r ''recreate'' ''container'' (path_int r ''id'') (Some (c_Name c)) w1))"

section \<open>All containers of a stack\<close>

text \<open>How many sends went through, how many failed and the first error.\<close>

fun send_each :: "int \<Rightarrow> string \<Rightarrow> container list \<Rightarrow> 'a world_scheme \<Rightarrow> (nat \<times> nat \<times> go_error option) \<times> 'a world_scheme" where
  "send_each wid action [] w = ((0, 0, None), w)"
| "send_each wid action (c # cs) w =
     (case SendJSONToWorker wid (NewCommand action [(''container_name'', JStr (c_Name c))]) w of
        (Some e, w1) \<Rightarrow> (case send_each wid action cs w1 of ((n, f, _), w2) \<Rightarrow> ((n, f + 1, Some e), w2))
      | (None, w1) \<Rightarrow> (case send_each wid action cs w1 of ((n, f, e), w2) \<Rightarrow> ((n + 1, f, e), w2)))"

definition stackBulkAction ::
  "string \<Rightarrow> string \<Rightarrow> (container \<Rightarrow> bool) \<Rightarrow> httpRequest \<Rightarrow> 'a deploy_world_scheme \<Rightarrow> response \<times> 'a deploy_world_scheme" where
  "stackBulkAction action label keep r w =
     (case path_int r ''id'' of
        None \<Rightarrow> (SendError 400 ''invalid stack id'' None, w)
      | Some stackID \<Rightarrow>
          (case GetStackByID stackID w of
             (Inl _, w1) \<Rightarrow> (NotFound, w1)
           | (Inr s, w1) \<Rightarrow>
               (case st_WorkerID s of
                  None \<Rightarrow> (SendError 400 ''stack has no worker assigned'' None, w1)
                | Some wid \<Rightarrow>
                    if \<not> worker_connected wid w1 then (SendError 400 ''worker is not connected'' None, w1)
                    else case ListContainersByStack stackID w1 of
                      (Inl e, w2) \<Rightarrow> (QueryError e ''failed to list containers'', w2)
                    | (Inr cs, w2) \<Rightarrow>
                        (case send_each wid action (filter keep cs) w2 of
                           ((sent, failed, firstErr), w3) \<Rightarrow>
                             if failed > 0 \<and> sent = 0 then (SendError 500 (''failed to send '' @ label @ '' command'') firstErr, w3)
                             else (New (DataMap [(''count'', JInt (int sent)), (''failed'', JInt (int failed))])
                                     (label @ '' command sent to '' @ show_int (int sent) @ '' containers''),
                                   logAudit r label ''stack'' (Some stackID) (Some (show_int (int sent) @ '' containers'')) w3)))))"

definition HandleRestartStack where "HandleRestartStack = stackBulkAction MsgRestart ''restart_all'' (\<lambda>c. c_Status c = ''running'')"
definition HandleStopStack where "HandleStopStack = stackBulkAction MsgStop ''stop_all'' (\<lambda>c. c_Status c = ''running'')"
definition HandleStartStack where "HandleStartStack = stackBulkAction MsgStart ''start_all'' (\<lambda>c. c_Status c = ''stopped'' \<or> c_Status c = ''error'')"

section \<open>Workers\<close>

text \<open>
  Workers are never deleted, so the next id is one above the greatest. The columns an insert leaves
  out take the defaults of the schema, which is not part of the repository: a row is the parameter.
\<close>

record createWorkerRequest =
  kw_Name :: string
  kw_Hostname :: string
  kw_IPAddress :: "string option"
  kw_Labels :: "string option"

definition next_worker_id :: "worker list \<Rightarrow> int" where
  "next_worker_id ks = fold max (map wk_ID ks) 0 + 1"

definition new_worker :: "worker \<Rightarrow> createWorkerRequest \<Rightarrow> int \<Rightarrow> worker" where
  "new_worker blank req i = blank\<lparr>wk_ID := i, wk_Name := kw_Name req, wk_Hostname := kw_Hostname req, wk_IPAddress := kw_IPAddress req,
     wk_Labels := kw_Labels req\<rparr>"

definition CreateWorker :: "worker \<Rightarrow> createWorkerRequest \<Rightarrow> 'a api_world_scheme \<Rightarrow> (go_error + worker) \<times> 'a api_world_scheme" where
  "CreateWorker blank req w =
     (case exec (\<lambda>w. (next_worker_id (a_workers w), w\<lparr>a_workers := a_workers w @ [new_worker blank req (next_worker_id (a_workers w))]\<rparr>)) w of
        (Inl e, w1) \<Rightarrow> (Inl (''failed to execute sql query: '' @ e), w1)
      | (Inr i, w1) \<Rightarrow> GetWorkerByID i w1)"

record updateWorkerRequest =
  uw_Name :: "string option"
  uw_Hostname :: "string option"
  uw_IPAddress :: "string option"
  uw_Status :: "string option"
  uw_Labels :: "string option"
  uw_Active :: "bool option"

definition no_worker_update :: updateWorkerRequest where
  "no_worker_update = \<lparr>uw_Name = None, uw_Hostname = None, uw_IPAddress = None, uw_Status = None, uw_Labels = None, uw_Active = None\<rparr>"

definition worker_sets :: "updateWorkerRequest \<Rightarrow> worker \<Rightarrow> worker" where
  "worker_sets req =
     set_opt (uw_Active req) (\<lambda>v k. k\<lparr>wk_Active := v\<rparr>) \<circ> set_opt (uw_Labels req) (\<lambda>v k. k\<lparr>wk_Labels := Some v\<rparr>) \<circ>
     set_opt (uw_Status req) (\<lambda>v k. k\<lparr>wk_Status := v\<rparr>) \<circ> set_opt (uw_IPAddress req) (\<lambda>v k. k\<lparr>wk_IPAddress := Some v\<rparr>) \<circ>
     set_opt (uw_Hostname req) (\<lambda>v k. k\<lparr>wk_Hostname := v\<rparr>) \<circ> set_opt (uw_Name req) (\<lambda>v k. k\<lparr>wk_Name := v\<rparr>)"

definition UpdateWorker :: "int \<Rightarrow> updateWorkerRequest \<Rightarrow> 'a api_world_scheme \<Rightarrow> (go_error + worker) \<times> 'a api_world_scheme" where
  "UpdateWorker i req w =
     (if req = no_worker_update then (Inl ErrNoChanges, w)
      else case update_worker i (worker_sets req) w of
        (Some e, w1) \<Rightarrow> (Inl (''failed to execute sql query: '' @ e), w1)
      | (None, w1) \<Rightarrow> GetWorkerByID i w1)"

definition DeleteWorker :: "int \<Rightarrow> 'a api_world_scheme \<Rightarrow> go_error option \<times> 'a api_world_scheme" where
  "DeleteWorker i w = update_worker i (\<lambda>k. k\<lparr>wk_Active := False\<rparr>) w"

record listWorkersRequest =
  lk_Limit :: int
  lk_Offset :: int
  lk_Active :: "bool option"
  lk_Status :: "string option"

definition worker_listed :: "listWorkersRequest \<Rightarrow> worker \<Rightarrow> bool" where
  "worker_listed q k \<longleftrightarrow> (case lk_Active q of None \<Rightarrow> True | Some b \<Rightarrow> wk_Active k = b) \<and>
     (case lk_Status q of None \<Rightarrow> True | Some s \<Rightarrow> wk_Status k = s)"

definition ListWorkers :: "listWorkersRequest \<Rightarrow> 'a api_world_scheme \<Rightarrow> (go_error + worker list) \<times> 'a api_world_scheme" where
  "ListWorkers q w =
     wrap_err ''failed to execute sql query: ''
       (query (\<lambda>w. page (lk_Limit q) (lk_Offset q) (rev (sort_key wk_ID (filter (worker_listed q) (a_workers w))))) w)"

definition WorkerNameExists :: "string \<Rightarrow> int option \<Rightarrow> 'a api_world_scheme \<Rightarrow> (go_error + bool) \<times> 'a api_world_scheme" where
  "WorkerNameExists name excludeID w =
     query (\<lambda>w. list_ex (\<lambda>k. wk_Name k = name \<and> wk_Active k \<and> excludeID \<noteq> Some (wk_ID k)) (a_workers w)) w"

section \<open>Handlers of worker rows\<close>

definition HandleGetWorker :: "httpRequest \<Rightarrow> 'a api_world_scheme \<Rightarrow> response \<times> 'a api_world_scheme" where
  "HandleGetWorker r w =
     (case path_int r ''id'' of
        None \<Rightarrow> (SendError 400 ''invalid worker id'' None, w)
      | Some i \<Rightarrow>
          (case GetWorkerByID i w of
             (Inl _, w1) \<Rightarrow> (NotFound, w1)
           | (Inr k, w1) \<Rightarrow> (New (DataWorker k) ''worker retrieved'', w1)))"

definition HandleGetWorkers :: "httpRequest \<Rightarrow> 'a api_world_scheme \<Rightarrow> response \<times> 'a api_world_scheme" where
  "HandleGetWorkers r w =
     (case ListWorkers
             \<lparr>lk_Limit = (case int_param r ''limit'' of None \<Rightarrow> 0 | Some n \<Rightarrow> n), lk_Offset = (case int_param r ''offset'' of None \<Rightarrow> 0 | Some n \<Rightarrow> n),
              lk_Active = (if query_param r ''active'' = [] then None else parse_bool (query_param r ''active'')), lk_Status = opt_param r ''status''\<rparr> w of
        (Inl e, w1) \<Rightarrow> (QueryError e ''failed to list workers'', w1)
      | (Inr ks, w1) \<Rightarrow> (New (DataWorkers ks) ''workers retrieved'', w1))"

definition createWorker_fields :: "createWorkerRequest body_field list" where
  "createWorker_fields =
     [(''name'', into store_string kw_Name (\<lambda>x b. b\<lparr>kw_Name := x\<rparr>)),
      (''hostname'', into store_string kw_Hostname (\<lambda>x b. b\<lparr>kw_Hostname := x\<rparr>)),
      (''ip_address'', into (store_ptr store_string []) kw_IPAddress (\<lambda>x b. b\<lparr>kw_IPAddress := x\<rparr>)),
      (''labels'', into (store_ptr store_string []) kw_Labels (\<lambda>x b. b\<lparr>kw_Labels := x\<rparr>))]"

definition HandleCreateWorker :: "worker \<Rightarrow> httpRequest \<Rightarrow> 'a api_world_scheme \<Rightarrow> response \<times> 'a api_world_scheme" where
  "HandleCreateWorker blank r w =
     (case decode_body createWorker_fields \<lparr>kw_Name = [], kw_Hostname = [], kw_IPAddress = None, kw_Labels = None\<rparr> r of
        Inl e \<Rightarrow> (BadBody e, w)
      | Inr b \<Rightarrow>
          if kw_Name b = [] then (MissingBodyFields ''name'', w)
          else case ValidateName (kw_Name b) of
            Some e \<Rightarrow> (SendError 400 e None, w)
          | None \<Rightarrow>
              if kw_Hostname b = [] then (MissingBodyFields ''hostname'', w)
              else case WorkerNameExists (kw_Name b) None w of
                (Inl e, w1) \<Rightarrow> (QueryError e ''failed to check worker name'', w1)
              | (Inr True, w1) \<Rightarrow> (SendError 409 ''a worker with that name already exists'' None, w1)
              | (Inr False, w1) \<Rightarrow>
                  (case CreateWorker blank b w1 of
                     (Inl e, w2) \<Rightarrow> (QueryError e ''failed to create worker'', w2)
                   | (Inr k, w2) \<Rightarrow>
                       (NewCreated (DataWorker k) ''worker created'', logAudit r ''create'' ''worker'' (Some (wk_ID k)) (Some (wk_Name k)) w2)))"

definition updateWorker_fields :: "updateWorkerRequest body_field list" where
  "updateWorker_fields =
     [(''name'', into (store_ptr store_string []) uw_Name (\<lambda>x b. b\<lparr>uw_Name := x\<rparr>)),
      (''hostname'', into (store_ptr store_string []) uw_Hostname (\<lambda>x b. b\<lparr>uw_Hostname := x\<rparr>)),
      (''ip_address'', into (store_ptr store_string []) uw_IPAddress (\<lambda>x b. b\<lparr>uw_IPAddress := x\<rparr>)),
      (''status'', into (store_ptr store_string []) uw_Status (\<lambda>x b. b\<lparr>uw_Status := x\<rparr>)),
      (''labels'', into (store_ptr store_string []) uw_Labels (\<lambda>x b. b\<lparr>uw_Labels := x\<rparr>)),
      (''active'', into (store_ptr store_bool False) uw_Active (\<lambda>x b. b\<lparr>uw_Active := x\<rparr>))]"

definition HandleUpdateWorker :: "httpRequest \<Rightarrow> 'a api_world_scheme \<Rightarrow> response \<times> 'a api_world_scheme" where
  "HandleUpdateWorker r w =
     (case path_int r ''id'' of
        None \<Rightarrow> (SendError 400 ''invalid worker id'' None, w)
      | Some i \<Rightarrow>
          (case decode_body updateWorker_fields no_worker_update r of
             Inl e \<Rightarrow> (BadBody e, w)
           | Inr b \<Rightarrow>
               if (case uw_Status b of None \<Rightarrow> False | Some s \<Rightarrow> s \<notin> {''online'', ''offline'', ''maintenance''})
               then (SendError 400 ''status must be online, offline, or maintenance'' None, w)
               else case UpdateWorker i b w of
                 (Inl e, w1) \<Rightarrow> (QueryError e ''failed to update worker'', w1)
               | (Inr k, w1) \<Rightarrow> (New (DataWorker k) ''worker updated'', logAudit r ''update'' ''worker'' (Some i) None w1)))"

definition HandleDeleteWorker :: "httpRequest \<Rightarrow> 'a api_world_scheme \<Rightarrow> response \<times> 'a api_world_scheme" where
  "HandleDeleteWorker r w =
     (case path_int r ''id'' of
        None \<Rightarrow> (SendError 400 ''invalid worker id'' None, w)
      | Some i \<Rightarrow>
          (case DeleteWorker i w of
             (Some e, w1) \<Rightarrow> (QueryError e ''failed to delete worker'', w1)
           | (None, w1) \<Rightarrow> (New NoData ''worker deleted'', logAudit r ''delete'' ''worker'' (Some i) None w1)))"

section \<open>Commands to a worker\<close>

text \<open>\<open>script\<close> is the hash of the embedded install script, none when the binary has none.\<close>

definition pending_action :: "string \<Rightarrow> string \<Rightarrow> string \<Rightarrow> jsonColumn" where
  "pending_action action status now =
     JsonText (JObj [(''action'', JStr action), (''started_at'', JStr now), (''status'', JStr status)])"

definition sendWorkerAction ::
  "string option \<Rightarrow> (time \<Rightarrow> string) \<Rightarrow> string \<Rightarrow> string \<Rightarrow> httpRequest \<Rightarrow> 'a api_world_scheme \<Rightarrow> response \<times> 'a api_world_scheme" where
  "sendWorkerAction script show_time action label r w =
     (case path_int r ''id'' of
        None \<Rightarrow> (SendError 400 ''invalid worker id'' None, w)
      | Some wid \<Rightarrow>
          (case GetWorkerByID wid w of
             (Inl _, w1) \<Rightarrow> (NotFound, w1)
           | (Inr k, w1) \<Rightarrow>
               if (action = MsgUpgradeRunner \<or> action = MsgRebootOS) \<and> wk_PendingAction k \<noteq> NullColumn
               then (SendError 409 ''an action is already in progress for this worker'' None, w1)
               else if \<not> worker_connected wid w1 then (SendError 400 ''worker is not connected'' None, w1)
               else let payload = (case script of
                          Some h \<Rightarrow> if action = MsgUpgradeRunner then [(''expected_hash'', JStr h)] else []
                        | None \<Rightarrow> []) in
                 case SendJSONToWorker wid (NewCommand action payload) w1 of
                   (Some e, w2) \<Rightarrow> (sendDispatchError label e, w2)
                 | (None, w2) \<Rightarrow>
                     (let w3 = (if action = MsgUpgradeRunner \<or> action = MsgRebootOS
                                then snd (SetWorkerPendingAction wid (pending_action action ''accepted'' (show_time (clock w2))) w2) else w2)
                      in (New NoData (label @ '' command sent to worker''), logAudit r label ''worker'' (Some wid) None w3))))"

definition HandleRebootWorker where "HandleRebootWorker script st = sendWorkerAction script st MsgRebootOS ''reboot''"
definition HandleUpgradeRunner where "HandleUpgradeRunner script st = sendWorkerAction script st MsgUpgradeRunner ''upgrade runner''"
definition HandleStopAllContainers where "HandleStopAllContainers script st = sendWorkerAction script st MsgStopAll ''stop all containers''"
definition HandleStartAllContainers where "HandleStartAllContainers script st = sendWorkerAction script st MsgStartAll ''start all containers''"

text \<open>Networks and volumes of a worker: the row must exist and the worker be connected.\<close>

definition with_worker ::
  "(httpRequest \<Rightarrow> go_error option) \<Rightarrow> httpRequest \<Rightarrow> (int \<Rightarrow> 'a api_world_scheme \<Rightarrow> response \<times> 'a api_world_scheme) \<Rightarrow> 'a api_world_scheme \<Rightarrow> response \<times> 'a api_world_scheme" where
  "with_worker refuse r k w =
     (case path_int r ''id'' of
        None \<Rightarrow> (SendError 400 ''invalid worker id'' None, w)
      | Some wid \<Rightarrow>
          (case refuse r of
             Some e \<Rightarrow> (SendError 400 e None, w)
           | None \<Rightarrow>
               (case GetWorkerByID wid w of
                  (Inl _, w1) \<Rightarrow> (NotFound, w1)
                | (Inr _, w1) \<Rightarrow>
                    if \<not> worker_connected wid w1 then (SendError 400 ''worker is not connected'' None, w1) else k wid w1)))"

definition send_list :: "string \<Rightarrow> httpRequest \<Rightarrow> 'a api_world_scheme \<Rightarrow> response \<times> 'a api_world_scheme" where
  "send_list command r =
     with_worker (\<lambda>_. None) r (\<lambda>wid w.
       case SendJSONToWorker wid (NewCommand command []) w of
         (Some e, w1) \<Rightarrow> (sendDispatchError command e, w1)
       | (None, w1) \<Rightarrow> (New NoData (command @ '' command sent to worker''), w1))"

record resourceBody =
  rb_Name :: string
  rb_Driver :: string

definition resource_fields :: "resourceBody body_field list" where
  "resource_fields =
     [(''name'', into store_string rb_Name (\<lambda>x b. b\<lparr>rb_Name := x\<rparr>)), (''driver'', into store_string rb_Driver (\<lambda>x b. b\<lparr>rb_Driver := x\<rparr>))]"

definition send_create :: "string \<Rightarrow> string \<Rightarrow> httpRequest \<Rightarrow> 'a api_world_scheme \<Rightarrow> response \<times> 'a api_world_scheme" where
  "send_create command kind r =
     with_worker (\<lambda>_. None) r (\<lambda>wid w.
       case decode_body resource_fields \<lparr>rb_Name = [], rb_Driver = []\<rparr> r of
         Inl e \<Rightarrow> (BadBody e, w)
       | Inr b \<Rightarrow>
           if rb_Name b = [] then (MissingBodyFields ''name'', w)
           else case SendJSONToWorker wid (NewCommand command [(''name'', JStr (rb_Name b)), (''driver'', JStr (rb_Driver b))]) w of
             (Some e, w1) \<Rightarrow> (sendDispatchError command e, w1)
           | (None, w1) \<Rightarrow>
               (New NoData (command @ '' command sent to worker''), logAudit r (''create '' @ kind) kind (Some wid) (Some (rb_Name b)) w1))"

definition path_name :: "httpRequest \<Rightarrow> string" where
  "path_name r = (case map_of (hr_Vars r) ''name'' of None \<Rightarrow> [] | Some v \<Rightarrow> v)"

definition send_remove :: "string \<Rightarrow> string \<Rightarrow> (httpRequest \<Rightarrow> (string \<times> json) list) \<Rightarrow> httpRequest \<Rightarrow> 'a api_world_scheme \<Rightarrow> response \<times> 'a api_world_scheme" where
  "send_remove command kind extra r =
     with_worker (\<lambda>r. if path_name r = [] then Some (kind @ '' name is required'') else None) r (\<lambda>wid w.
       case SendJSONToWorker wid (NewCommand command ((''name'', JStr (path_name r)) # extra r)) w of
         (Some e, w1) \<Rightarrow> (sendDispatchError command e, w1)
       | (None, w1) \<Rightarrow>
           (New NoData (command @ '' command sent to worker''), logAudit r (''delete '' @ kind) kind (Some wid) (Some (path_name r)) w1))"

definition HandleListNetworks where "HandleListNetworks = send_list MsgListNetworks"
definition HandleCreateNetwork where "HandleCreateNetwork = send_create MsgCreateNetwork ''network''"
definition HandleDeleteNetwork where "HandleDeleteNetwork = send_remove MsgRemoveNetwork ''network'' (\<lambda>_. [])"
definition HandleListVolumes where "HandleListVolumes = send_list MsgListVolumes"
definition HandleCreateVolume where "HandleCreateVolume = send_create MsgCreateVolume ''volume''"
definition HandleDeleteVolume where
  "HandleDeleteVolume = send_remove MsgRemoveVolume ''volume'' (\<lambda>r. [(''force'', JBool (query_param r ''force'' = ''true''))])"

definition HandleDeleteNetworkByID :: "httpRequest \<Rightarrow> 'a deploy_world_scheme \<Rightarrow> response \<times> 'a deploy_world_scheme" where
  "HandleDeleteNetworkByID r w =
     (case path_int r ''id'' of
        None \<Rightarrow> (SendError 400 ''invalid network id'' None, w)
      | Some i \<Rightarrow>
          (case exec_unit (\<lambda>w. w\<lparr>w_networks := filter (\<lambda>n. nw_ID n \<noteq> i) (w_networks w)\<rparr>) w of
             (Some e, w1) \<Rightarrow> (QueryError e ''failed to delete network'', w1)
           | (None, w1) \<Rightarrow> (New NoData ''network record deleted'', logAudit r ''delete network record'' ''network'' (Some i) None w1)))"

record forceRemoveBody =
  fb_ContainerName :: string

definition HandleForceRemoveContainer :: "httpRequest \<Rightarrow> 'a api_world_scheme \<Rightarrow> response \<times> 'a api_world_scheme" where
  "HandleForceRemoveContainer r w =
     (case path_int r ''id'' of
        None \<Rightarrow> (SendError 400 ''invalid worker id'' None, w)
      | Some wid \<Rightarrow>
          if \<not> worker_connected wid w then (SendError 400 ''worker is not connected'' None, w)
          else let name = (case decode_body [(''container_name'', into store_string fb_ContainerName (\<lambda>x b. b\<lparr>fb_ContainerName := x\<rparr>))] \<lparr>fb_ContainerName = []\<rparr> r of
                             Inl _ \<Rightarrow> [] | Inr b \<Rightarrow> fb_ContainerName b) in
            if name = [] then (SendError 400 ''container_name is required'' None, w)
            else case SendJSONToWorker wid (NewCommand MsgForceRemove [(''container_name'', JStr name)]) w of
              (Some e, w1) \<Rightarrow> (sendDispatchError ''force-remove'' e, w1)
            | (None, w1) \<Rightarrow> (New NoData ''force-remove command sent'', logAudit r ''force_remove'' ''container'' None (Some name) w1))"

definition HandleListAllContainers :: "httpRequest \<Rightarrow> 'a tables_scheme \<Rightarrow> response \<times> 'a tables_scheme" where
  "HandleListAllContainers r w =
     (case ListAllContainers \<lparr>la_StackID = int_param r ''stack_id'', la_WorkerID = int_param r ''worker_id'', la_Name = opt_param r ''name'',
             la_Status = opt_param r ''status'', la_Limit = 0\<rparr> w of
        (Inl e, w1) \<Rightarrow> (QueryError e ''failed to list containers'', w1)
      | (Inr cs, w1) \<Rightarrow> (New (DataContainers cs) ''containers retrieved'', w1))"

section \<open>Every route that sends one command\<close>

text \<open>
  The routes with the type of the command they send and the worker it is for, as the tables have it
  when the request comes in. \<open>queued\<close>: the message is the last one of the queue of the worker's live
  session and nothing else of the hub has changed.
\<close>

definition container_target :: "httpRequest \<Rightarrow> 'a deploy_world_scheme \<Rightarrow> int option" where
  "container_target r w =
     (case path_int r ''id'' of
        None \<Rightarrow> None
      | Some i \<Rightarrow>
          (case List.find (\<lambda>c. c_ID c = i) (containers w) of
             None \<Rightarrow> None
           | Some c \<Rightarrow> (case select_stack (c_StackID c) (stacks w) of None \<Rightarrow> None | Some s \<Rightarrow> st_WorkerID s)))"

definition worker_target :: "httpRequest \<Rightarrow> 'a deploy_world_scheme \<Rightarrow> int option" where
  "worker_target r w = path_int r ''id''"

definition container_routes :: "(string \<times> (httpRequest \<Rightarrow> 'a deploy_world_scheme \<Rightarrow> response \<times> 'a deploy_world_scheme)) list" where
  "container_routes =
     [(MsgStart, HandleStartContainer), (MsgStop, HandleStopContainer), (MsgKill, HandleKillContainer),
      (MsgRestart, HandleRestartContainer), (MsgPause, HandlePauseContainer), (MsgUnpause, HandleUnpauseContainer),
      (Deploy_Router.MsgRemove, HandleRemoveContainer), (Structs.MsgRecreate, HandleRecreateContainer)]"

definition worker_routes ::
  "string option \<Rightarrow> (time \<Rightarrow> string) \<Rightarrow> (string \<times> (httpRequest \<Rightarrow> 'a deploy_world_scheme \<Rightarrow> response \<times> 'a deploy_world_scheme)) list" where
  "worker_routes script st =
     [(MsgRebootOS, HandleRebootWorker script st), (MsgUpgradeRunner, HandleUpgradeRunner script st),
      (MsgStopAll, HandleStopAllContainers script st), (MsgStartAll, HandleStartAllContainers script st),
      (MsgListNetworks, HandleListNetworks), (MsgCreateNetwork, HandleCreateNetwork), (MsgRemoveNetwork, HandleDeleteNetwork),
      (MsgListVolumes, HandleListVolumes), (MsgCreateVolume, HandleCreateVolume), (MsgRemoveVolume, HandleDeleteVolume),
      (MsgForceRemove, HandleForceRemoveContainer)]"

definition command_routes ::
  "string option \<Rightarrow> (time \<Rightarrow> string) \<Rightarrow>
   (string \<times> (httpRequest \<Rightarrow> 'a deploy_world_scheme \<Rightarrow> int option) \<times> (httpRequest \<Rightarrow> 'a deploy_world_scheme \<Rightarrow> response \<times> 'a deploy_world_scheme)) list" where
  "command_routes script st =
     map (\<lambda>(ty, f). (ty, container_target, f)) container_routes @ map (\<lambda>(ty, f). (ty, worker_target, f)) (worker_routes script st)"

definition queued :: "int \<Rightarrow> envelope \<Rightarrow> workerHub \<Rightarrow> workerHub \<Rightarrow> bool" where
  "queued wid m h h' \<longleftrightarrow>
     (case map_of (hub_sessions h) wid of
        None \<Rightarrow> False
      | Some sid \<Rightarrow> h' = upd_session sid (\<lambda>s. s\<lparr>ws_Send := ws_Send s @ [m]\<rparr>) h \<and> length (ws_Send (hub_objs h sid)) < sendBufferSize)"

definition accepted :: "response \<Rightarrow> bool" where
  "accepted resp \<longleftrightarrow> (case resp of Success _ _ _ _ \<Rightarrow> True | Failure _ _ _ _ \<Rightarrow> False)"

text \<open>What an answer says of the hub: one command for the target, or nothing.\<close>

definition delivers :: "string \<Rightarrow> int option \<Rightarrow> 'a world_scheme \<Rightarrow> response \<times> 'a world_scheme \<Rightarrow> bool" where
  "delivers ty target w res \<longleftrightarrow>
     (if accepted (fst res) then \<exists>wid m. target = Some wid \<and> env_Type m = ty \<and> queued wid m (hub w) (hub (snd res))
      else hub (snd res) = hub w)"

named_theorems delivery \<open>how a call leaves the hub\<close>

lemma accepted_simps [simp]:
  "accepted (Success a b c d)" "\<not> accepted (Failure a b k f)" "accepted (New d m)" "\<not> accepted (SendError n m x)" "\<not> accepted NotFound"
  "\<not> accepted (QueryError er m)" "\<not> accepted (BadBody er)" "\<not> accepted (MissingBodyFields m)" "\<not> accepted (sendDispatchError cm er)"
  by (simp_all add: accepted_def New_def SendError_def NotFound_def QueryError_def BadBody_def MissingBodyFields_def sendDispatchError_def)

lemma hub_query: "query q w = (x, w1) \<Longrightarrow> hub w1 = hub w"
  using query_frame [of hub q w] by simp

lemma send_delivers:
  "SendJSONToWorker wid m w = (e, w1) \<Longrightarrow> (case e of None \<Rightarrow> queued wid m (hub w) (hub w1) | Some _ \<Rightarrow> hub w1 = hub w)"
  by (auto simp: SendJSONToWorker_def SendToWorker_def queued_def Let_def split: option.splits prod.splits if_splits)

lemma hub_GetWorkerByID: "GetWorkerByID i w = (x, w1) \<Longrightarrow> hub w1 = hub w"
  by (auto simp: GetWorkerByID_def one_row_def dest: hub_query split: prod.splits sum.splits option.splits)

lemma hub_GetContainerByID:
  assumes "GetContainerByID i w = (x, w1)"
  shows "hub w1 = hub w \<and> stacks w1 = stacks w \<and> (case x of Inl _ \<Rightarrow> True | Inr c \<Rightarrow> List.find (\<lambda>c. c_ID c = i) (containers w) = Some c)"
  using assms query_frame [of stacks "\<lambda>w. List.find (\<lambda>c. c_ID c = i) (containers w)" w]
    query_Inr [of "\<lambda>w. List.find (\<lambda>c. c_ID c = i) (containers w)" w]
  by (auto simp: GetContainerByID_def one_row_def dest: hub_query split: prod.splits sum.splits option.splits)

lemma hub_GetStackByID:
  assumes "GetStackByID i w = (x, w1)"
  shows "hub w1 = hub w \<and> (case x of Inl _ \<Rightarrow> True | Inr s \<Rightarrow> select_stack i (stacks w) = Some s)"
  using assms query_Inr [of "\<lambda>w. select_stack i (stacks w)" w]
  by (auto simp: GetStackByID_def dest: hub_query split: prod.splits sum.splits option.splits)

lemma hub_logAudit [simp]: "hub (logAudit r a t i d w) = hub w"
  by (simp add: logAudit_def)

lemma hub_SetWorkerPendingAction [simp]: "hub (snd (SetWorkerPendingAction i v w)) = hub w"
  unfolding SetWorkerPendingAction_def update_worker_def snd_exec_unit by (rule exec_frame) simp_all

lemma hub_recreateContainerPayload: "recreateContainerPayload c w = (x, w1) \<Longrightarrow> hub w1 = hub w"
  by (auto simp: recreateContainerPayload_def Let_def dest: hub_query split: option.splits prod.splits sum.splits)

text \<open>The guards in front of a command: a refusal leaves the hub alone, what follows decides otherwise.\<close>

lemma with_worker_of_delivers:
  assumes "\<And>c wid w. delivers ty (Some wid) w (k c wid w)"
  shows "delivers ty (container_target r w) w (with_worker_of r k w)"
proof (cases "path_int r ''id''")
  case (Some i)
  obtain x w1 where c: "GetContainerByID i w = (x, w1)" by force
  note c' = hub_GetContainerByID [OF c]
  show ?thesis
  proof (cases x)
    case (Inr cn)
    obtain y w2 where s: "GetStackByID (c_StackID cn) w1 = (y, w2)" by force
    note s' = hub_GetStackByID [OF s]
    show ?thesis
      using assms [of "the (st_WorkerID (projr y))" w2 cn] c' s' Some c Inr s
      by (auto simp: with_worker_of_def container_target_def delivers_def split: sum.splits option.splits)
  qed (use Some c c' in \<open>simp add: with_worker_of_def delivers_def\<close>)
qed (simp add: with_worker_of_def delivers_def)

lemma with_worker_delivers:
  assumes "\<And>wid w. delivers ty (Some wid) w (k wid w)"
  shows "delivers ty (worker_target r w) w (with_worker refuse r k w)"
proof (cases "path_int r ''id''")
  case (Some i)
  obtain x w1 where c: "GetWorkerByID i w = (x, w1)" by force
  show ?thesis
    using assms [of i w1] hub_GetWorkerByID [OF c] Some c
    by (auto simp: with_worker_def worker_target_def delivers_def split: sum.splits option.splits)
qed (simp add: with_worker_def delivers_def)

lemma delivers_send:
  assumes "SendJSONToWorker wid m w = (e, w1)" "env_Type m = ty" "hub w2 = hub w1" "accepted resp \<longleftrightarrow> e = None"
  shows "delivers ty (Some wid) w (resp, w2)"
  using send_delivers [OF assms(1)] assms(2-) by (cases e) (auto simp: delivers_def)

lemma env_Type_NewCommand [simp]: "env_Type (NewCommand t p) = t"
  by (simp add: NewCommand_def)

lemma delivers_refused: "\<not> accepted resp \<Longrightarrow> delivers ty t w (resp, w)"
  by (simp add: delivers_def)

lemma sendContainerAction_delivers: "delivers action (container_target r w) w (sendContainerAction action r w)"
  unfolding sendContainerAction_def
  by (rule with_worker_of_delivers) (auto split: prod.split option.split elim!: delivers_send)

lemma HandleRecreateContainer_delivers: "delivers Structs.MsgRecreate (container_target r w) w (HandleRecreateContainer r w)"
  unfolding HandleRecreateContainer_def
proof (rule with_worker_of_delivers)
  fix c wid and w :: "'a deploy_world_scheme"
  obtain p w1 where p: "recreateContainerPayload c w = (p, w1)" by force
  obtain e w2 where s: "SendJSONToWorker wid (NewCommand Structs.MsgRecreate p) w1 = (e, w2)" by force
  show "delivers Structs.MsgRecreate (Some wid) w
     (case RecreateContainer c wid w of
        (None, w1) \<Rightarrow> (New NoData ''container recreate command sent'', logAudit r ''recreate'' ''container'' (path_int r ''id'') (Some (c_Name c)) w1)
      | (Some e, w1) \<Rightarrow> (sendDispatchError ''recreate'' e, w1))"
    using send_delivers [OF s] hub_recreateContainerPayload [OF p] p s
    by (cases e) (auto simp: RecreateContainer_def delivers_def intro!: exI [of _ "NewCommand Structs.MsgRecreate p"])
qed

lemma send_list_delivers: "delivers ty (worker_target r w) w (send_list ty r w)"
  unfolding send_list_def by (rule with_worker_delivers) (auto split: prod.split option.split elim!: delivers_send)

lemma send_create_delivers: "delivers ty (worker_target r w) w (send_create ty kind r w)"
  unfolding send_create_def
  by (rule with_worker_delivers) (auto simp: delivers_refused split: prod.split option.split sum.split elim!: delivers_send)

lemma send_remove_delivers: "delivers ty (worker_target r w) w (send_remove ty kind extra r w)"
  unfolding send_remove_def by (rule with_worker_delivers) (auto split: prod.split option.split elim!: delivers_send)

lemma sendWorkerAction_delivers: "delivers action (worker_target r w) w (sendWorkerAction script st action label r w)"
proof (cases "path_int r ''id''")
  case (Some wid)
  obtain x w1 where c: "GetWorkerByID wid w = (x, w1)" by force
  note c' = hub_GetWorkerByID [OF c]
  show ?thesis
  proof (cases x)
    case (Inr k)
    define payload where "payload = (case script of Some h \<Rightarrow> if action = MsgUpgradeRunner then [(''expected_hash'', JStr h)] else [] | None \<Rightarrow> [])"
    obtain e w2 where s: "SendJSONToWorker wid (NewCommand action payload) w1 = (e, w2)" by force
    show ?thesis
      using send_delivers [OF s] c c' Inr Some s
      by (cases e) (auto simp: sendWorkerAction_def delivers_def worker_target_def Let_def simp flip: payload_def intro!: exI [of _ "NewCommand action payload"])
  qed (use Some c c' in \<open>simp add: sendWorkerAction_def delivers_def\<close>)
qed (simp add: sendWorkerAction_def delivers_def)

lemma HandleForceRemoveContainer_delivers: "delivers MsgForceRemove (worker_target r w) w (HandleForceRemoveContainer r w)"
proof (cases "path_int r ''id''")
  case (Some wid)
  have send: "delivers MsgForceRemove (Some wid) w
      (case SendJSONToWorker wid (NewCommand MsgForceRemove p) w of
         (None, w1) \<Rightarrow> (New NoData m, logAudit r a k None n w1) | (Some e, w1) \<Rightarrow> (sendDispatchError c e, w1))" for p m a k n c
    by (auto split: prod.split option.split elim!: delivers_send)
  show ?thesis
    using Some send by (simp add: HandleForceRemoveContainer_def worker_target_def Let_def delivers_refused)
qed (simp add: HandleForceRemoveContainer_def delivers_def)

lemmas route_delivers = sendContainerAction_delivers HandleRecreateContainer_delivers send_list_delivers send_create_delivers
  send_remove_delivers sendWorkerAction_delivers HandleForceRemoveContainer_delivers

lemmas route_defs = HandleStartContainer_def HandleStopContainer_def HandleKillContainer_def HandleRestartContainer_def
  HandlePauseContainer_def HandleUnpauseContainer_def HandleRemoveContainer_def HandleRebootWorker_def HandleUpgradeRunner_def
  HandleStopAllContainers_def HandleStartAllContainers_def HandleListNetworks_def HandleCreateNetwork_def HandleDeleteNetwork_def
  HandleListVolumes_def HandleCreateVolume_def HandleDeleteVolume_def

text \<open>
  C10. A command route never answers success for a command it did not hand over, and never hands one over
  without saying so: on success exactly one message of the route's type is at the end of the send queue of the live
  session of the worker the request is about, and nothing else of the hub changed; any other answer leaves
  the hub as it was. This holds for every pattern of database failures.
\<close>

theorem commands_are_delivered:
  assumes "(ty, target, f) \<in> set (command_routes script st)"
  shows "let (resp, w') = f r w in
     if accepted resp then \<exists>wid m. target r w = Some wid \<and> env_Type m = ty \<and> queued wid m (hub w) (hub w') else hub w' = hub w"
proof -
  have "delivers ty (target r w) w (f r w)"
    using assms unfolding command_routes_def container_routes_def worker_routes_def route_defs
    by (auto simp only: set_append set_map list.set Un_iff image_iff insert_iff empty_iff prod.case prod.inject bex_simps simp_thms
        intro!: route_delivers)
  then show ?thesis by (simp add: delivers_def case_prod_beta Let_def split: if_splits)
qed

definition command_world :: deploy_world where
  "command_world = deploy_world0\<lparr>stacks := [web_stack], containers := [web_container],
     hub := example_hub\<lparr>hub_sessions := [(2, 0)]\<rparr>\<rparr>"

definition id_request :: "string \<Rightarrow> httpRequest" where
  "id_request i = \<lparr>hr_Vars = [(''id'', i)], hr_Query = [], hr_Path = [], hr_Body = Inl ''EOF'', hr_User = None, hr_IP = []\<rparr>"

theorem commands_are_delivered_witness:
  "\<exists>m. env_Type m = ''stop'' \<and> queued 2 m (hub command_world) (hub (snd (HandleStopContainer (id_request ''9'') command_world)))"
proof -
  have route: "(MsgStop, container_target, HandleStopContainer) \<in> set (command_routes None show_int)"
    by (simp add: command_routes_def container_routes_def)
  have target: "path_int (id_request ''9'') ''id'' = Some 9"
    by (simp add: path_int_def id_request_def atoi_def digits_val_def digit_val_def is_digit_def max_int64_def min_int64_def)
  have db: "db_script command_world = []" "stacks command_world = [web_stack]" "containers command_world = [web_container]"
    "hub command_world = example_hub\<lparr>hub_sessions := [(2, 0)]\<rparr>"
    by (simp_all add: command_world_def deploy_world0_def log_start_def sched_world_def log_world.defs deploy_world.defs
      api_world.defs backup_world.defs backup_empty_def db_empty_def db_world.defs)
  have rows: "c_ID web_container = 9" "c_StackID web_container = 5" "st_ID web_stack = 5" "st_Active web_stack" "st_WorkerID web_stack = Some 2"
    by (simp_all add: web_container_def web_stack_def)
  have acc: "accepted (fst (HandleStopContainer (id_request ''9'') command_world))"
    by (simp add: HandleStopContainer_def sendContainerAction_def with_worker_of_def target GetContainerByID_def GetStackByID_def
        one_row_def query_quiet db rows select_stack_def worker_connected_def IsConnected_def SendJSONToWorker_def SendToWorker_def
        example_hub_def sendBufferSize_def Let_def split: prod.split)
  have tg: "container_target (id_request ''9'') command_world = Some 2"
    by (simp add: container_target_def target db rows select_stack_def)
  show ?thesis
    using commands_are_delivered [OF route, of "id_request ''9''" command_world] acc tg
    by (auto simp: case_prod_beta Let_def MsgStop_def)
qed

end
