(* ===== verification/Health_Scan.thy ===== *)
theory Health_Scan
  imports Worker_Commands Deploy_Safety
begin

text \<open>
  The periodic audit of workers against the tables (\<^verbatim>\<open>src/healthscan/scanner.go\<close>). Heartbeats and
  \<^verbatim>\<open>db_sync\<close> reports leave what each worker runs in two maps; a scan lists the workers, drops the entries of the
  others, and replaces the list of anomalies with what it finds, telling the dashboards when the set of anomaly ids
  differs. A broadcast without a worker carries worker 0 and its payload under \<open>payload\<close>; an instant is shown as its count of nanoseconds.
\<close>

section \<open>State\<close>

definition AnomalyOrphaned :: string where "AnomalyOrphaned = ''orphaned_container''"
definition AnomalyMissing :: string where "AnomalyMissing = ''missing_container''"
definition AnomalyUnmanaged :: string where "AnomalyUnmanaged = ''unmanaged_container''"
definition AnomalyStaleState :: string where "AnomalyStaleState = ''stale_state''"
definition AnomalyOrphanedDatabase :: string where "AnomalyOrphanedDatabase = ''orphaned_database''"
definition AnomalyOrphanedDatabaseVolume :: string where "AnomalyOrphanedDatabaseVolume = ''orphaned_database_volume''"

definition dbOrphanFreshness :: duration where "dbOrphanFreshness = 3 * Minute"

record anomaly =
  an_ID :: string
  an_Type :: string
  an_WorkerID :: int
  an_WorkerName :: string
  an_ContainerName :: string
  an_Message :: string
  an_DetectedAt :: time
  an_Details :: "(string \<times> json) list"

record workerContainerState =
  cs_Containers :: "string list"
  cs_UpdatedAt :: time

record workerDatabaseOrphans =
  wo_Orphans :: databaseOrphans
  wo_UpdatedAt :: time

record fleet_world = auth_world +
  h_anomalies :: "anomaly list"
  h_containerState :: "int \<rightharpoonup> workerContainerState"
  h_dbOrphans :: "int \<rightharpoonup> workerDatabaseOrphans"

definition anomalyID :: "int \<Rightarrow> string \<Rightarrow> string \<Rightarrow> string" where
  "anomalyID workerID anomalyType containerName = show_int workerID @ '':'' @ anomalyType @ '':'' @ containerName"

definition mk_anomaly :: "string \<Rightarrow> int \<Rightarrow> string \<Rightarrow> string \<Rightarrow> string \<Rightarrow> time \<Rightarrow> (string \<times> json) list \<Rightarrow> anomaly" where
  "mk_anomaly ty wid wname name msg now details =
     \<lparr>an_ID = anomalyID wid ty name, an_Type = ty, an_WorkerID = wid, an_WorkerName = wname, an_ContainerName = name,
      an_Message = msg, an_DetectedAt = now, an_Details = details\<rparr>"

section \<open>What workers report\<close>

definition UpdateWorkerContainers :: "int \<Rightarrow> string list \<Rightarrow> 'a fleet_world_scheme \<Rightarrow> 'a fleet_world_scheme" where
  "UpdateWorkerContainers workerID names w =
     w\<lparr>h_containerState := (h_containerState w)(workerID \<mapsto> \<lparr>cs_Containers = names, cs_UpdatedAt = clock w\<rparr>)\<rparr>"

definition UpdateWorkerDatabaseOrphans :: "int \<Rightarrow> databaseOrphans \<Rightarrow> 'a fleet_world_scheme \<Rightarrow> 'a fleet_world_scheme" where
  "UpdateWorkerDatabaseOrphans workerID orphans w =
     w\<lparr>h_dbOrphans := (h_dbOrphans w)(workerID \<mapsto> \<lparr>wo_Orphans = orphans, wo_UpdatedAt = clock w\<rparr>)\<rparr>"

definition stat_name :: "json \<Rightarrow> string option" where
  "stat_name v =
     (case v of
        JObj m \<Rightarrow> (if payload_str m ''name'' = [] then None else Some (payload_str m ''name''))
      | _ \<Rightarrow> None)"

definition ParseContainerNames :: "(string \<times> json) list \<Rightarrow> string list" where
  "ParseContainerNames payload =
     (case map_of payload ''container_stats'' of Some (JList xs) \<Rightarrow> List.map_filter stat_name xs | _ \<Rightarrow> [])"

section \<open>Findings of one worker\<close>

definition orphan_container_anomaly :: "int \<Rightarrow> string \<Rightarrow> time \<Rightarrow> string \<times> int \<times> string \<Rightarrow> anomaly" where
  "orphan_container_anomaly wid wname now c =
     (case c of (name, inst, state) \<Rightarrow>
        if inst > 0
        then mk_anomaly AnomalyOrphanedDatabase wid wname name
               (''Database container belongs to instance '' @ show_int inst @ '', which no longer exists'') now
               [(''state'', JStr state), (''database_instance_id'', JInt inst)]
        else mk_anomaly AnomalyOrphanedDatabase wid wname name
               ''Database container on worker is not owned by any database instance'' now [(''state'', JStr state)])"

definition orphan_volume_anomaly :: "int \<Rightarrow> string \<Rightarrow> time \<Rightarrow> string \<Rightarrow> anomaly" where
  "orphan_volume_anomaly wid wname now v =
     (mk_anomaly AnomalyOrphanedDatabaseVolume wid wname v
        ''Database data volume on worker is not owned by any database instance'' now [(''volume_name'', JStr v)])
       \<lparr>an_ContainerName := []\<rparr>"

definition databaseOrphanAnomalies :: "int \<Rightarrow> string \<Rightarrow> workerDatabaseOrphans \<Rightarrow> time \<Rightarrow> anomaly list" where
  "databaseOrphanAnomalies wid wname o1 now =
     (if now - wo_UpdatedAt o1 > dbOrphanFreshness then []
      else map (orphan_container_anomaly wid wname now) (or_Containers (wo_Orphans o1)) @
           map (orphan_volume_anomaly wid wname now) (or_Volumes (wo_Orphans o1)))"

definition managedDatabaseNames :: "int \<Rightarrow> 'a db_world_scheme \<Rightarrow> string list \<times> 'a db_world_scheme" where
  "managedDatabaseNames workerID w =
     (case ListDatabaseInstancesByWorker workerID w of
        (Inl _, w1) \<Rightarrow> ([], w1)
      | (Inr ds, w1) \<Rightarrow> (map di_ContainerName ds, w1))"

definition worker_containers :: "int \<Rightarrow> 'a tables_scheme \<Rightarrow> (go_error + container list) \<times> 'a tables_scheme" where
  "worker_containers workerID w =
     ListAllContainers \<lparr>la_StackID = None, la_WorkerID = Some workerID, la_Name = None, la_Status = None, la_Limit = 0\<rparr> w"

definition checkStaleWorker :: "int \<Rightarrow> string \<Rightarrow> 'a tables_scheme \<Rightarrow> anomaly list \<times> 'a tables_scheme" where
  "checkStaleWorker wid wname w =
     (case worker_containers wid w of
        (Inl _, w1) \<Rightarrow> ([], w1)
      | (Inr cs, w1) \<Rightarrow>
          (map (\<lambda>c. mk_anomaly AnomalyStaleState wid wname (c_Name c) ''Container shows as running but worker is offline'' (clock w1) [])
             (filter (\<lambda>c. c_Status c = ''running'') cs), w1))"

text \<open>The map from container names to their status: a later row of the same name overwrites the status.\<close>

definition put_status :: "container \<Rightarrow> (string \<times> string) list \<Rightarrow> (string \<times> string) list" where
  "put_status c m =
     (if c_Name c \<in> fst ` set m then map (\<lambda>(n, s). (n, if n = c_Name c then c_Status c else s)) m else m @ [(c_Name c, c_Status c)])"

definition expectedNames :: "container list \<Rightarrow> (string \<times> string) list" where
  "expectedNames cs = fold put_status cs []"

definition left_by_deploy :: "string \<Rightarrow> bool" where
  "left_by_deploy name \<longleftrightarrow> str_contains name ''-retired-'' \<or> has_suffix name ''-lattice-retired'' \<or> has_suffix name ''-lattice-updating''"

definition untracked_anomaly :: "int \<Rightarrow> string \<Rightarrow> time \<Rightarrow> string \<Rightarrow> anomaly" where
  "untracked_anomaly wid wname now name =
     (if left_by_deploy name then mk_anomaly AnomalyOrphaned wid wname name ''Orphaned container from a failed deployment'' now []
      else mk_anomaly AnomalyUnmanaged wid wname name ''Container running on worker but not tracked in any stack'' now [])"

definition missing_anomaly :: "int \<Rightarrow> string \<Rightarrow> time \<Rightarrow> string \<times> string \<Rightarrow> anomaly" where
  "missing_anomaly wid wname now e =
     mk_anomaly AnomalyMissing wid wname (fst e) ''Container expected to be running but not found on worker'' now
       [(''expected_status'', JStr (snd e))]"

text \<open>Go visits the map of expected names in any order; here it is the order of the rows.\<close>

definition compare_state ::
  "int \<Rightarrow> string \<Rightarrow> time \<Rightarrow> string list \<Rightarrow> string list \<Rightarrow> (string \<times> string) list \<Rightarrow> anomaly list" where
  "compare_state wid wname now reported excused expected =
     map (untracked_anomaly wid wname now) (filter (\<lambda>n. n \<notin> set excused \<and> n \<notin> fst ` set expected) reported) @
     map (missing_anomaly wid wname now) (filter (\<lambda>(n, s). s = ''running'' \<and> n \<notin> set reported) expected)"

definition scan_connected :: "worker \<Rightarrow> 'a fleet_world_scheme \<Rightarrow> anomaly list \<times> 'a fleet_world_scheme" where
  "scan_connected k w =
     (let wid = wk_ID k;
          found = (case h_dbOrphans w wid of None \<Rightarrow> [] | Some o1 \<Rightarrow> databaseOrphanAnomalies wid (wk_Name k) o1 (clock w));
          orphaned = filter (\<lambda>n. n \<noteq> []) (map an_ContainerName found) in
      case h_containerState w wid of
        None \<Rightarrow> (found, w)
      | Some st \<Rightarrow>
          if clock w - cs_UpdatedAt st > 2 * Minute then (found, w)
          else case worker_containers wid w of
            (Inl _, w1) \<Rightarrow> (found, w1)
          | (Inr cs, w1) \<Rightarrow>
              (case managedDatabaseNames wid w1 of
                 (managed, w2) \<Rightarrow>
                   (found @ compare_state wid (wk_Name k) (clock w2) (cs_Containers st) (managed @ orphaned) (expectedNames cs), w2)))"

definition scan_worker :: "worker \<Rightarrow> 'a fleet_world_scheme \<Rightarrow> anomaly list \<times> 'a fleet_world_scheme" where
  "scan_worker k w = (if \<not> worker_connected (wk_ID k) w then checkStaleWorker (wk_ID k) (wk_Name k) w else scan_connected k w)"

fun scan_workers :: "worker list \<Rightarrow> 'a fleet_world_scheme \<Rightarrow> anomaly list \<times> 'a fleet_world_scheme" where
  "scan_workers [] w = ([], w)"
| "scan_workers (k # ks) w = (case scan_worker k w of (xs, w1) \<Rightarrow> case scan_workers ks w1 of (ys, w2) \<Rightarrow> (xs @ ys, w2))"

section \<open>A scan\<close>

definition kept_entry :: "int set \<Rightarrow> time \<Rightarrow> ('v \<Rightarrow> time) \<Rightarrow> (int \<rightharpoonup> 'v) \<Rightarrow> (int \<rightharpoonup> 'v)" where
  "kept_entry ids now at m = (\<lambda>i. case m i of None \<Rightarrow> None | Some v \<Rightarrow> if i \<notin> ids \<or> now - at v > Hour then None else Some v)"

definition pruneContainerState :: "worker list \<Rightarrow> 'a fleet_world_scheme \<Rightarrow> 'a fleet_world_scheme" where
  "pruneContainerState ks w =
     w\<lparr>h_containerState := kept_entry (wk_ID ` set ks) (clock w) cs_UpdatedAt (h_containerState w),
       h_dbOrphans := kept_entry (wk_ID ` set ks) (clock w) wo_UpdatedAt (h_dbOrphans w)\<rparr>"

definition anomaly_json :: "anomaly \<Rightarrow> json" where
  "anomaly_json a = JObj
     ([(''id'', JStr (an_ID a)), (''type'', JStr (an_Type a)), (''worker_id'', JInt (an_WorkerID a)), (''worker_name'', JStr (an_WorkerName a))] @
      (if an_ContainerName a = [] then [] else [(''container_name'', JStr (an_ContainerName a))]) @
      [(''message'', JStr (an_Message a)), (''detected_at'', JInt (an_DetectedAt a))] @
      (if an_Details a = [] then [] else [(''details'', JObj (an_Details a))]))"

definition broadcast_anomalies :: "anomaly list \<Rightarrow> 'a alert_world_scheme \<Rightarrow> 'a alert_world_scheme" where
  "broadcast_anomalies xs w = emit (Broadcast ''health_anomalies'' 0 [(''payload'', if xs = [] then JNull else JList (map anomaly_json xs))]) w"

definition anomalies_changed :: "anomaly list \<Rightarrow> anomaly list \<Rightarrow> bool" where
  "anomalies_changed old xs \<longleftrightarrow> length xs \<noteq> length old \<or> \<not> an_ID ` set xs \<subseteq> an_ID ` set old"

definition scan :: "'a fleet_world_scheme \<Rightarrow> 'a fleet_world_scheme" where
  "scan w =
     (case ListWorkers \<lparr>lk_Limit = 0, lk_Offset = 0, lk_Active = None, lk_Status = None\<rparr> w of
        (Inl _, w1) \<Rightarrow> w1
      | (Inr ks, w1) \<Rightarrow>
          (case scan_workers ks (pruneContainerState ks w1) of
             (xs, w2) \<Rightarrow>
               (let w3 = w2\<lparr>h_anomalies := xs\<rparr> in
                if anomalies_changed (h_anomalies w2) xs then broadcast_anomalies xs w3 else w3)))"

definition HandleGetAnomalies :: "httpRequest \<Rightarrow> 'a fleet_world_scheme \<Rightarrow> response \<times> 'a fleet_world_scheme" where
  "HandleGetAnomalies r w = (New (DataList (map anomaly_json (h_anomalies w))) ''anomalies retrieved'', w)"

section \<open>What a scan reports\<close>

text \<open>The rows of active stacks placed on a worker, and what it says it runs while the report is fresh.\<close>

definition placed :: "int \<Rightarrow> container \<Rightarrow> 'a tables_scheme \<Rightarrow> bool" where
  "placed wid c w \<longleftrightarrow> c \<in> set (containers w) \<and> c_Active c \<and>
     (\<exists>s \<in> set (stacks w). st_ID s = c_StackID c \<and> st_Active s \<and> st_WorkerID s = Some wid)"

definition reported :: "int \<Rightarrow> 'a fleet_world_scheme \<Rightarrow> string set option" where
  "reported wid w =
     (case h_containerState w wid of
        None \<Rightarrow> None | Some st \<Rightarrow> if clock w - cs_UpdatedAt st > 2 * Minute then None else Some (set (cs_Containers st)))"

text \<open>Names that are no fault of their own: live databases of the worker, and database containers reported as orphans.\<close>

definition excused_names :: "int \<Rightarrow> 'a fleet_world_scheme \<Rightarrow> string set" where
  "excused_names wid w =
     {di_ContainerName d |d. d \<in> set (d_instances w) \<and> di_WorkerID d = wid \<and> di_Active d} \<union>
     {n. \<exists>o1 inst state. h_dbOrphans w wid = Some o1 \<and> clock w - wo_UpdatedAt o1 \<le> dbOrphanFreshness \<and>
           (n, inst, state) \<in> set (or_Containers (wo_Orphans o1)) \<and> n \<noteq> []}"

definition expected_faults :: "int \<Rightarrow> 'a fleet_world_scheme \<Rightarrow> (string \<times> string) set" where
  "expected_faults wid w =
     (if \<not> worker_connected wid w then {(AnomalyStaleState, c_Name c) |c. placed wid c w \<and> c_Status c = ''running''}
      else case reported wid w of
        None \<Rightarrow> {}
      | Some ns \<Rightarrow>
          {(AnomalyMissing, c_Name c) |c. placed wid c w \<and> c_Status c = ''running'' \<and> c_Name c \<notin> ns} \<union>
          {(if left_by_deploy n then AnomalyOrphaned else AnomalyUnmanaged, n) |n.
             n \<in> ns \<and> (\<nexists>c. placed wid c w \<and> c_Name c = n) \<and> n \<notin> excused_names wid w})"

definition database_anomaly :: "anomaly \<Rightarrow> bool" where
  "database_anomaly a \<longleftrightarrow> an_Type a \<in> {AnomalyOrphanedDatabase, AnomalyOrphanedDatabaseVolume}"

definition faults_of :: "int \<Rightarrow> anomaly list \<Rightarrow> (string \<times> string) set" where
  "faults_of wid xs = {(an_Type a, an_ContainerName a) |a. a \<in> set xs \<and> an_WorkerID a = wid \<and> \<not> database_anomaly a}"

lemmas anomaly_types = AnomalyOrphaned_def AnomalyMissing_def AnomalyUnmanaged_def AnomalyStaleState_def AnomalyOrphanedDatabase_def
  AnomalyOrphanedDatabaseVolume_def

lemma mk_anomaly_simps [simp]:
  "an_Type (mk_anomaly ty wid wn n m t d) = ty" "an_WorkerID (mk_anomaly ty wid wn n m t d) = wid"
  "an_ContainerName (mk_anomaly ty wid wn n m t d) = n"
  by (simp_all add: mk_anomaly_def)

lemma fst_put_status: "fst ` set (put_status c m) = insert (c_Name c) (fst ` set m)"
  by (force simp: put_status_def)

lemma fst_expectedNames: "fst ` set (fold put_status cs m) = fst ` set m \<union> c_Name ` set cs"
  by (induction cs arbitrary: m) (auto simp: fst_put_status)

text \<open>When rows of one name agree on their status, the map holds exactly the names with their status.\<close>

lemma set_put_status:
  assumes "\<And>s. (c_Name c, s) \<in> set m \<Longrightarrow> s = c_Status c"
  shows "set (put_status c m) = insert (c_Name c, c_Status c) (set m)"
proof (cases "c_Name c \<in> fst ` set m")
  case True
  have "map (\<lambda>(n, s). (n, if n = c_Name c then c_Status c else s)) m = m"
    using assms by (intro map_idI) auto
  moreover have "(c_Name c, c_Status c) \<in> set m" using True assms by auto
  ultimately show ?thesis using True by (auto simp: put_status_def)
qed (simp add: put_status_def)

lemma set_expectedNames:
  assumes "\<And>c c'. c \<in> set cs \<Longrightarrow> c' \<in> set cs \<Longrightarrow> c_Name c = c_Name c' \<Longrightarrow> c_Status c = c_Status c'"
    and "\<And>c s. c \<in> set cs \<Longrightarrow> (c_Name c, s) \<in> set m \<Longrightarrow> s = c_Status c"
  shows "set (fold put_status cs m) = set m \<union> (\<lambda>c. (c_Name c, c_Status c)) ` set cs"
  using assms
proof (induction cs arbitrary: m)
  case (Cons c cs)
  have p: "set (put_status c m) = insert (c_Name c, c_Status c) (set m)"
    by (rule set_put_status, rule Cons.prems(2)) simp_all
  have "set (fold put_status cs (put_status c m)) = set (put_status c m) \<union> (\<lambda>c. (c_Name c, c_Status c)) ` set cs"
  proof (rule Cons.IH)
    show "c_Status d = c_Status d'" if "d \<in> set cs" "d' \<in> set cs" "c_Name d = c_Name d'" for d d'
      by (rule Cons.prems(1)) (simp_all add: that)
    show "s = c_Status d" if d: "d \<in> set cs" "(c_Name d, s) \<in> set (put_status c m)" for d s
    proof (cases "(c_Name d, s) \<in> set m")
      case True
      then show ?thesis by (rule Cons.prems(2) [rotated]) (simp add: d)
    next
      case False
      with d(2) p have "c_Name d = c_Name c" "s = c_Status c" by simp_all
      moreover have "c_Status d = c_Status c" by (rule Cons.prems(1)) (simp_all add: d calculation)
      ultimately show ?thesis by simp
    qed
  qed
  with p show ?case by simp
qed simp

lemma set_all_containers_of:
  "set (all_containers \<lparr>la_StackID = None, la_WorkerID = Some wid, la_Name = None, la_Status = None, la_Limit = 0\<rparr> w) = {c. placed wid c w}"
  by (auto simp: all_containers_def placed_def)

text \<open>With a database that answers, looking at a worker changes nothing.\<close>

definition few_rows :: "int \<Rightarrow> 'a tables_scheme \<Rightarrow> bool" where
  "few_rows wid w \<longleftrightarrow>
     length (all_containers \<lparr>la_StackID = None, la_WorkerID = Some wid, la_Name = None, la_Status = None, la_Limit = 0\<rparr> w) \<le> MAX_LIMIT"

lemma worker_containers_quiet:
  "db_script w = [] \<Longrightarrow> worker_containers wid w =
     (Inr (take MAX_LIMIT (all_containers \<lparr>la_StackID = None, la_WorkerID = Some wid, la_Name = None, la_Status = None, la_Limit = 0\<rparr> w)), w)"
  by (simp add: worker_containers_def ListAllContainers_def query_quiet)

lemma scan_rows_names: "scan_rows w ds = Inr xs \<Longrightarrow> map di_ContainerName xs = map di_ContainerName ds"
  by (induction ds arbitrary: xs) (auto simp: scanDatabaseInstance_def split: sum.splits)

text \<open>The passwords of the worker's databases can be read.\<close>

definition readable :: "int \<Rightarrow> 'a db_world_scheme \<Rightarrow> bool" where
  "readable wid w \<longleftrightarrow> (case scan_rows w (sort_key di_ID (filter (\<lambda>d. di_WorkerID d = wid \<and> di_Active d) (d_instances w))) of Inl _ \<Rightarrow> False | Inr _ \<Rightarrow> True)"

lemma managedDatabaseNames_quiet:
  assumes "db_script w = []" "readable wid w"
  obtains managed where "managedDatabaseNames wid w = (managed, w)"
    "set managed = {di_ContainerName d |d. d \<in> set (d_instances w) \<and> di_WorkerID d = wid \<and> di_Active d}"
proof -
  obtain ds where ds: "scan_rows w (sort_key di_ID (filter (\<lambda>d. di_WorkerID d = wid \<and> di_Active d) (d_instances w))) = Inr ds"
    using assms(2) by (auto simp: readable_def split: sum.splits)
  have "set (map di_ContainerName ds) = {di_ContainerName d |d. d \<in> set (d_instances w) \<and> di_WorkerID d = wid \<and> di_Active d}"
    unfolding scan_rows_names [OF ds] by auto
  with that show ?thesis
    using assms(1) ds by (simp add: managedDatabaseNames_def ListDatabaseInstancesByWorker_def query_instances_def query_quiet)
qed

lemma managedDatabaseNames_same: "db_script w = [] \<Longrightarrow> snd (managedDatabaseNames wid w) = w"
  by (simp add: managedDatabaseNames_def ListDatabaseInstancesByWorker_def query_instances_def query_quiet split: sum.split)

lemma scan_worker_same: "db_script w = [] \<Longrightarrow> snd (scan_worker k w) = w"
  using managedDatabaseNames_same [of w "wk_ID k"]
  by (simp add: scan_worker_def scan_connected_def checkStaleWorker_def worker_containers_quiet Let_def case_prod_beta split: option.split)

lemma scan_workers_quiet:
  "db_script w = [] \<Longrightarrow> scan_workers ks w = (concat (map (\<lambda>k. fst (scan_worker k w)) ks), w)"
proof (induction ks)
  case (Cons k ks)
  then have "scan_worker k w = (fst (scan_worker k w), w)" using scan_worker_same [of w k] by (metis prod.collapse)
  with Cons show ?case by (metis (no_types, lifting) case_prod_conv concat.simps(2) list.simps(9) scan_workers.simps(2))
qed simp

lemma orphan_anomaly_simps [simp]:
  "an_WorkerID (orphan_container_anomaly wid wn t c) = wid" "an_WorkerID (orphan_volume_anomaly wid wn t v) = wid"
  "an_WorkerID (untracked_anomaly wid wn t n) = wid" "an_WorkerID (missing_anomaly wid wn t e) = wid"
  "database_anomaly (orphan_container_anomaly wid wn t c)" "database_anomaly (orphan_volume_anomaly wid wn t v)"
  "\<not> database_anomaly (untracked_anomaly wid wn t n)" "\<not> database_anomaly (missing_anomaly wid wn t e)"
  "an_ContainerName (orphan_container_anomaly wid wn t c) = fst c" "an_ContainerName (orphan_volume_anomaly wid wn t v) = []"
  "an_Type (untracked_anomaly wid wn t n) = (if left_by_deploy n then AnomalyOrphaned else AnomalyUnmanaged)"
  "an_ContainerName (untracked_anomaly wid wn t n) = n" "an_Type (missing_anomaly wid wn t e) = AnomalyMissing"
  "an_ContainerName (missing_anomaly wid wn t e) = fst e"
  by (auto simp: orphan_container_anomaly_def orphan_volume_anomaly_def untracked_anomaly_def missing_anomaly_def database_anomaly_def
      anomaly_types mk_anomaly_def split: prod.split)

lemma found_anomalies:
  "a \<in> set (databaseOrphanAnomalies wid wn o1 t) \<Longrightarrow> an_WorkerID a = wid \<and> database_anomaly a"
  by (auto simp: databaseOrphanAnomalies_def split: if_splits)

lemma found_names:
  "n \<noteq> [] \<and> n \<in> an_ContainerName ` set (databaseOrphanAnomalies wid wn o1 t) \<longleftrightarrow>
   t - wo_UpdatedAt o1 \<le> dbOrphanFreshness \<and> n \<noteq> [] \<and> n \<in> fst ` set (or_Containers (wo_Orphans o1))"
  by (auto simp: databaseOrphanAnomalies_def image_Un image_image intro: rev_image_eqI)

lemma scan_worker_ids: "a \<in> set (fst (scan_worker k w)) \<Longrightarrow> an_WorkerID a = wk_ID k"
  by (auto simp: scan_worker_def scan_connected_def checkStaleWorker_def compare_state_def Let_def case_prod_beta
      split: if_splits option.splits sum.splits prod.splits dest: found_anomalies)

lemma faults_of_append: "faults_of wid (xs @ ys) = faults_of wid xs \<union> faults_of wid ys"
  by (auto simp: faults_of_def)

lemma faults_of_none: "(\<And>a. a \<in> set xs \<Longrightarrow> an_WorkerID a \<noteq> wid \<or> database_anomaly a) \<Longrightarrow> faults_of wid xs = {}"
  by (auto simp: faults_of_def)

lemma faults_of_scan:
  assumes "distinct (map wk_ID ks)" "k \<in> set ks"
  shows "faults_of (wk_ID k) (concat (map (\<lambda>k. fst (scan_worker k w)) ks)) = faults_of (wk_ID k) (fst (scan_worker k w))"
  using assms
proof (induction ks)
  case (Cons j ks)
  show ?case
  proof (cases "j = k")
    case True
    have "faults_of (wk_ID k) (concat (map (\<lambda>k. fst (scan_worker k w)) ks)) = {}"
    proof (rule faults_of_none)
      fix a assume "a \<in> set (concat (map (\<lambda>k. fst (scan_worker k w)) ks))"
      then obtain i where "i \<in> set ks" "an_WorkerID a = wk_ID i" by (auto dest: scan_worker_ids)
      with Cons.prems(1) True show "an_WorkerID a \<noteq> wk_ID k \<or> database_anomaly a" by force
    qed
    with True show ?thesis by (simp add: faults_of_append)
  next
    case False
    with Cons.prems have "wk_ID j \<noteq> wk_ID k" "k \<in> set ks" by auto
    then have "faults_of (wk_ID k) (fst (scan_worker j w)) = {}" by (intro faults_of_none) (auto dest: scan_worker_ids)
    with Cons \<open>k \<in> set ks\<close> show ?thesis by (simp add: faults_of_append)
  qed
qed simp

lemma faults_of_map:
  "(\<And>x. an_WorkerID (f x) = wid \<and> \<not> database_anomaly (f x)) \<Longrightarrow>
   faults_of wid (map f xs) = (\<lambda>x. (an_Type (f x), an_ContainerName (f x))) ` set xs"
  by (auto simp: faults_of_def)

lemma set_compare_state:
  "faults_of wid (compare_state wid wn t ns ex expected) =
     {(if left_by_deploy n then AnomalyOrphaned else AnomalyUnmanaged, n) |n. n \<in> set ns \<and> n \<notin> set ex \<and> n \<notin> fst ` set expected} \<union>
     {(AnomalyMissing, n) |n. (n, ''running'') \<in> set expected \<and> n \<notin> set ns}"
  unfolding compare_state_def faults_of_append by (subst faults_of_map, simp)+ (force simp: image_iff)

definition same_status :: "int \<Rightarrow> 'a tables_scheme \<Rightarrow> bool" where
  "same_status wid w \<longleftrightarrow> (\<forall>c c'. placed wid c w \<and> placed wid c' w \<and> c_Name c = c_Name c' \<longrightarrow> c_Status c = c_Status c')"

lemma scan_worker_exact:
  assumes q: "db_script w = []" and few: "few_rows (wk_ID k) w" and same: "same_status (wk_ID k) w" and rd: "readable (wk_ID k) w"
  shows "faults_of (wk_ID k) (fst (scan_worker k w)) = expected_faults (wk_ID k) w"
proof -
  define wid where "wid = wk_ID k"
  define cs where "cs = all_containers \<lparr>la_StackID = None, la_WorkerID = Some wid, la_Name = None, la_Status = None, la_Limit = 0\<rparr> w"
  have cs: "set cs = {c. placed wid c w}" "worker_containers wid w = (Inr cs, w)"
    using few by (simp_all add: cs_def set_all_containers_of worker_containers_quiet [OF q] few_rows_def wid_def)
  obtain managed where m: "managedDatabaseNames wid w = (managed, w)"
    "set managed = {di_ContainerName d |d. d \<in> set (d_instances w) \<and> di_WorkerID d = wid \<and> di_Active d}"
    using managedDatabaseNames_quiet [OF q rd] unfolding wid_def by blast
  show ?thesis
  proof (cases "worker_connected wid w")
    case False
    then have "fst (scan_worker k w) = map (\<lambda>c. mk_anomaly AnomalyStaleState wid (wk_Name k) (c_Name c)
        ''Container shows as running but worker is offline'' (clock w) []) (filter (\<lambda>c. c_Status c = ''running'') cs)"
      using cs(2) by (simp add: scan_worker_def checkStaleWorker_def wid_def [symmetric])
    then have "faults_of wid (fst (scan_worker k w)) = (\<lambda>c. (AnomalyStaleState, c_Name c)) ` {c. placed wid c w \<and> c_Status c = ''running''}"
      using cs(1) by (simp add: faults_of_map database_anomaly_def anomaly_types)
    with False show ?thesis by (auto simp: expected_faults_def wid_def)
  next
    case True
    define found where "found = (case h_dbOrphans w wid of None \<Rightarrow> [] | Some o1 \<Rightarrow> databaseOrphanAnomalies wid (wk_Name k) o1 (clock w))"
    define orphaned where "orphaned = filter (\<lambda>n. n \<noteq> []) (map an_ContainerName found)"
    have none: "faults_of wid found = {}"
      by (rule faults_of_none) (auto simp: found_def dest: found_anomalies split: option.splits)
    have ex: "set (managed @ orphaned) = excused_names wid w"
    proof -
      have "set orphaned = {n. \<exists>o1 inst state. h_dbOrphans w wid = Some o1 \<and> clock w - wo_UpdatedAt o1 \<le> dbOrphanFreshness \<and>
           (n, inst, state) \<in> set (or_Containers (wo_Orphans o1)) \<and> n \<noteq> []}"
      proof (cases "h_dbOrphans w wid")
        case (Some o1)
        have "n \<in> set orphaned \<longleftrightarrow> clock w - wo_UpdatedAt o1 \<le> dbOrphanFreshness \<and> n \<noteq> [] \<and> n \<in> fst ` set (or_Containers (wo_Orphans o1))" for n
          using found_names [of n wid "wk_Name k" o1 "clock w"] Some by (auto simp: orphaned_def found_def)
        then have "set orphaned = {n. clock w - wo_UpdatedAt o1 \<le> dbOrphanFreshness \<and> n \<noteq> [] \<and> n \<in> fst ` set (or_Containers (wo_Orphans o1))}"
          by blast
        also have "\<dots> = {n. \<exists>inst state. clock w - wo_UpdatedAt o1 \<le> dbOrphanFreshness \<and> (n, inst, state) \<in> set (or_Containers (wo_Orphans o1)) \<and> n \<noteq> []}"
          by force
        finally show ?thesis using Some by simp
      qed (simp add: orphaned_def found_def)
      with m(2) show ?thesis by (simp add: excused_names_def)
    qed
    show ?thesis
    proof (cases "reported wid w")
      case None
      then have "fst (scan_connected k w) = found"
        by (auto simp: scan_connected_def wid_def [symmetric] found_def reported_def Let_def split: option.splits if_splits)
      with True None none show ?thesis by (simp add: scan_worker_def wid_def [symmetric] expected_faults_def)
    next
      case (Some ns)
      then obtain st where st: "h_containerState w wid = Some st" "\<not> clock w - cs_UpdatedAt st > 2 * Minute" "ns = set (cs_Containers st)"
        by (auto simp: reported_def split: option.splits if_splits)
      have run: "fst (scan_connected k w) =
          found @ compare_state wid (wk_Name k) (clock w) (cs_Containers st) (managed @ orphaned) (expectedNames cs)"
        using st m(1) cs(2) by (simp add: scan_connected_def wid_def [symmetric] found_def orphaned_def Let_def)
      have names: "fst ` set (expectedNames cs) = c_Name ` {c. placed wid c w}"
        using fst_expectedNames [of cs "[]"] cs(1) by (simp add: expectedNames_def)
      have stats: "set (expectedNames cs) = (\<lambda>c. (c_Name c, c_Status c)) ` {c. placed wid c w}"
        unfolding expectedNames_def cs(1) [symmetric]
      proof (subst set_expectedNames)
        fix c c' assume "c \<in> set cs" "c' \<in> set cs" "c_Name c = c_Name c'"
        then have "placed wid c w" "placed wid c' w" "c_Name c = c_Name c'" using cs(1) by simp_all
        with same show "c_Status c = c_Status c'" unfolding same_status_def wid_def by blast
      qed simp_all
      have "faults_of wid (fst (scan_connected k w)) =
          {(if left_by_deploy n then AnomalyOrphaned else AnomalyUnmanaged, n) |n. n \<in> ns \<and> n \<notin> excused_names wid w \<and> n \<notin> c_Name ` {c. placed wid c w}} \<union>
          {(AnomalyMissing, n) |n. (n, ''running'') \<in> (\<lambda>c. (c_Name c, c_Status c)) ` {c. placed wid c w} \<and> n \<notin> ns}"
        unfolding run faults_of_append none set_compare_state ex names stats st(3) by (simp add: image_image)
      also have "{(AnomalyMissing, n) |n. (n, ''running'') \<in> (\<lambda>c. (c_Name c, c_Status c)) ` {c. placed wid c w} \<and> n \<notin> ns} =
          {(AnomalyMissing, c_Name c) |c. placed wid c w \<and> c_Status c = ''running'' \<and> c_Name c \<notin> ns}"
        by force
      also have "(\<lambda>n. n \<in> ns \<and> n \<notin> excused_names wid w \<and> n \<notin> c_Name ` {c. placed wid c w}) =
          (\<lambda>n. n \<in> ns \<and> (\<nexists>c. placed wid c w \<and> c_Name c = n) \<and> n \<notin> excused_names wid w)"
        by auto
      also have "{(if left_by_deploy n then AnomalyOrphaned else AnomalyUnmanaged, n) |n.
             n \<in> ns \<and> (\<nexists>c. placed wid c w \<and> c_Name c = n) \<and> n \<notin> excused_names wid w} \<union>
          {(AnomalyMissing, c_Name c) |c. placed wid c w \<and> c_Status c = ''running'' \<and> c_Name c \<notin> ns} = expected_faults wid w"
        using True Some unfolding expected_faults_def by (simp only: Un_commute if_False option.case not_not simp_thms)
      finally show ?thesis using True by (simp add: scan_worker_def wid_def)
    qed
  qed
qed

lemma pruned_quiet [simp]: "db_script (pruneContainerState ks w) = db_script w" "clock (pruneContainerState ks w) = clock w"
  "d_instances (pruneContainerState ks w) = d_instances w" "hub (pruneContainerState ks w) = hub w" "d_decrypt (pruneContainerState ks w) = d_decrypt w"
  "containers (pruneContainerState ks w) = containers w" "stacks (pruneContainerState ks w) = stacks w"
  "h_anomalies (pruneContainerState ks w) = h_anomalies w"
  by (simp_all add: pruneContainerState_def)

lemma ListWorkers_page:
  assumes "db_script w = []" "length (a_workers w) \<le> DEFAULT_LIMIT"
  shows "ListWorkers \<lparr>lk_Limit = 0, lk_Offset = 0, lk_Active = None, lk_Status = None\<rparr> w = (Inr (rev (sort_key wk_ID (a_workers w))), w)"
  using assms by (simp add: ListWorkers_def query_quiet wrap_err_def page_def worker_listed_def)

lemma scan_rows_io: "d_decrypt w' = d_decrypt w \<Longrightarrow> scan_rows w' ds = scan_rows w ds"
proof (induction ds)
  case (Cons d ds)
  have dec: "decrypt_column what w' = decrypt_column what w" for what unfolding decrypt_column_def Cons.prems ..
  have row: "scanDatabaseInstance w' d = scanDatabaseInstance w d" unfolding scanDatabaseInstance_def dec ..
  show ?case unfolding scan_rows.simps row Cons.IH [OF Cons.prems] ..
qed simp

text \<open>Dropping the entries of workers that are not listed, or an hour old, changes nothing a scan compares.\<close>

lemma expected_faults_pruned:
  assumes "wid \<in> wk_ID ` set ks"
  shows "expected_faults wid (pruneContainerState ks w) = expected_faults wid w"
proof -
  have "reported wid (pruneContainerState ks w) = reported wid w"
    using assms by (auto simp: reported_def pruneContainerState_def kept_entry_def duration_simps split: option.split)
  moreover have "excused_names wid (pruneContainerState ks w) = excused_names wid w"
    using assms by (auto simp: excused_names_def pruneContainerState_def kept_entry_def dbOrphanFreshness_def duration_simps split: option.splits if_splits)
  moreover have "placed i c (pruneContainerState ks w) = placed i c w" for i c by (simp add: placed_def)
  moreover have "worker_connected wid (pruneContainerState ks w) = worker_connected wid w" by (simp add: worker_connected_def)
  ultimately show ?thesis unfolding expected_faults_def by (simp only:)
qed


text \<open>A fleet of one connected worker with one container recorded as running, which reports it under another name.\<close>

definition sample_worker :: worker where
  "sample_worker = \<lparr>wk_ID = 2, wk_Name = ''edge'', wk_Hostname = ''edge'', wk_IPAddress = None, wk_Status = ''online'', wk_OS = None, wk_Arch = None,
     wk_DockerVersion = None, wk_RunnerVersion = Some ''v1'', wk_LastHeartbeatAt = None, wk_Labels = None, wk_PendingAction = NullColumn,
     wk_Active = True\<rparr>"

definition fleet_world0 :: fleet_world where
  "fleet_world0 = auth_world.extend
     (ops_world.extend (ops_world0\<lparr>stacks := [web_stack], containers := [web_container], a_workers := [sample_worker], d_instances := [],
          hub := example_hub\<lparr>hub_sessions := [(2, 0)]\<rparr>\<rparr>)
        \<lparr>t_next_user = 1, t_api_tokens = [], t_next_api_token = 1, t_worker_tokens = [], t_next_worker_token = 1, t_next_deploy_token = 1\<rparr>)
     \<lparr>h_anomalies = [], h_containerState = [2 \<mapsto> \<lparr>cs_Containers = [''web-x7k2m9''], cs_UpdatedAt = 0\<rparr>], h_dbOrphans = Map.empty\<rparr>"

lemma fleet_world0_simps [simp]:
  "db_script fleet_world0 = []" "clock fleet_world0 = 0" "a_workers fleet_world0 = [sample_worker]" "stacks fleet_world0 = [web_stack]"
  "containers fleet_world0 = [web_container]" "hub fleet_world0 = example_hub\<lparr>hub_sessions := [(2, 0)]\<rparr>" "d_instances fleet_world0 = []"
  "h_containerState fleet_world0 = [2 \<mapsto> \<lparr>cs_Containers = [''web-x7k2m9''], cs_UpdatedAt = 0\<rparr>]" "h_dbOrphans fleet_world0 = Map.empty"
  "h_anomalies fleet_world0 = []" "s_notices fleet_world0 = []"
  by (simp_all add: fleet_world0_def auth_world.defs ops_world.defs ops_world0_defs)

lemma sample_rows [simp]: "wk_ID sample_worker = 2" "c_ID web_container = 9" "c_StackID web_container = 5" "c_Name web_container = ''web''"
  "c_Status web_container = ''running''" "c_Active web_container" "st_ID web_stack = 5" "st_Active web_stack" "st_WorkerID web_stack = Some 2"
  by (simp_all add: sample_worker_def web_container_def web_stack_def)


section \<open>Workers beyond the first page\<close>

lemma desc_prefix:
  "sorted_wrt (\<ge>) (map f xs) \<Longrightarrow> n \<le> length (filter (\<lambda>x. c < f x) xs) \<Longrightarrow> x \<in> set (take n xs) \<Longrightarrow> (c :: int) < f x"
proof (induction xs arbitrary: n)
  case (Cons y ys)
  show ?case
  proof (cases n)
    case (Suc m)
    show ?thesis
    proof (cases "c < f y")
      case True
      with Cons Suc show ?thesis by auto
    next
      case False
      with Cons.prems(1) have "filter (\<lambda>x. c < f x) (y # ys) = []" by (auto simp: filter_empty_conv)
      with Cons.prems(2) Suc show ?thesis by (metis le_zero_eq list.size(3) nat.distinct(1))
    qed
  qed (use Cons in simp)
qed simp

lemma worker_containers_maps:
  "worker_containers i w = (x, w1) \<Longrightarrow> h_containerState w1 = h_containerState w"
  using query_frame [of h_containerState "\<lambda>w. take MAX_LIMIT (all_containers \<lparr>la_StackID = None, la_WorkerID = Some i, la_Name = None, la_Status = None, la_Limit = 0\<rparr> w)" w]
  by (auto simp: worker_containers_def ListAllContainers_def split: prod.splits sum.splits)

lemma managedDatabaseNames_maps:
  "managedDatabaseNames i w = (x, w1) \<Longrightarrow> h_containerState w1 = h_containerState w"
  using query_frame [of h_containerState "\<lambda>w. scan_rows w (sort_key di_ID (filter (\<lambda>d. di_WorkerID d = i \<and> di_Active d) (d_instances w)))" w]
  by (auto simp: managedDatabaseNames_def ListDatabaseInstancesByWorker_def query_instances_def split: prod.splits sum.splits)

lemma scan_worker_maps: "scan_worker k w = (xs, w1) \<Longrightarrow> h_containerState w1 = h_containerState w"
  by (auto simp: scan_worker_def checkStaleWorker_def scan_connected_def Let_def split: if_splits option.splits prod.splits sum.splits
      dest!: worker_containers_maps managedDatabaseNames_maps)

lemma scan_workers_maps:
  "scan_workers ks w = (xs, w1) \<Longrightarrow> h_containerState w1 = h_containerState w \<and> (\<forall>a \<in> set xs. an_WorkerID a \<in> wk_ID ` set ks)"
proof (induction ks arbitrary: w w1 xs)
  case (Cons k ks)
  obtain ys w2 where y: "scan_worker k w = (ys, w2)" by force
  obtain zs w3 where z: "scan_workers ks w2 = (zs, w3)" by force
  have "\<forall>a \<in> set ys. an_WorkerID a = wk_ID k" using scan_worker_ids [of _ k w] y by simp
  with Cons.IH [OF z] scan_worker_maps [OF y] Cons.prems y z show ?case by auto
qed simp

text \<open>
  C39. A worker with fifty or more newer ones is out of the audit for good. The scan lists workers
  with the default limit, newest first, so once fifty rows of any kind, retired ones included, have a greater
  id, every scan that gets its list, whatever the database does afterwards, ends with no anomaly about the
  worker and drops what its heartbeats reported.
\<close>

theorem older_workers_unaudited:
  assumes "DEFAULT_LIMIT \<le> length (filter (\<lambda>j. wid < wk_ID j) (a_workers w))"
    and "fst (ListWorkers \<lparr>lk_Limit = 0, lk_Offset = 0, lk_Active = None, lk_Status = None\<rparr> w) = Inr ks"
  shows "(\<forall>a \<in> set (h_anomalies (scan w)). an_WorkerID a \<noteq> wid) \<and> h_containerState (scan w) wid = None"
proof -
  let ?q = "\<lambda>w. page 0 0 (rev (sort_key wk_ID (filter (worker_listed \<lparr>lk_Limit = 0, lk_Offset = 0, lk_Active = None, lk_Status = None\<rparr>) (a_workers w))))"
  obtain w1 where q: "query ?q w = (Inr ks, w1)"
    using assms(2) by (cases "query ?q w") (auto simp: ListWorkers_def wrap_err_def split: sum.splits)
  have "ks = ?q w" by (rule query_Inr [OF q]) simp
  then have ks: "ks = take DEFAULT_LIMIT (rev (sort_key wk_ID (a_workers w)))" by (simp add: page_def worker_listed_def)
  have "wid < wk_ID j" if "j \<in> set ks" for j
  proof (rule desc_prefix [of wk_ID _ DEFAULT_LIMIT])
    show "sorted_wrt (\<ge>) (map wk_ID (rev (sort_key wk_ID (a_workers w))))"
      by (simp add: rev_map [symmetric] sorted_wrt_rev)
    show "DEFAULT_LIMIT \<le> length (filter (\<lambda>x. wid < wk_ID x) (rev (sort_key wk_ID (a_workers w))))"
      using assms by (simp add: rev_filter [symmetric] filter_sort)
    show "j \<in> set (take DEFAULT_LIMIT (rev (sort_key wk_ID (a_workers w))))" using that ks by simp
  qed
  then have out: "wid \<notin> wk_ID ` set ks" by force
  obtain xs w2 where s: "scan_workers ks (pruneContainerState ks w1) = (xs, w2)" by force
  have "h_containerState w2 wid = None" "\<forall>a \<in> set xs. an_WorkerID a \<noteq> wid"
    using scan_workers_maps [OF s] out by (auto simp: pruneContainerState_def kept_entry_def split: option.split)
  with q s show ?thesis by (simp add: scan_def ListWorkers_def wrap_err_def Let_def broadcast_anomalies_def emit_def)
qed

definition crowded_world :: fleet_world where
  "crowded_world = fleet_world0\<lparr>a_workers := sample_worker # map (\<lambda>i. sample_worker\<lparr>wk_ID := int i\<rparr>) [3..<53]\<rparr>"

theorem older_workers_unaudited_witness:
  "h_containerState crowded_world 2 \<noteq> None \<and> h_containerState (scan crowded_world) 2 = None"
proof -
  have "length (filter (\<lambda>j. 2 < wk_ID j) (a_workers crowded_world)) = 50"
    by (simp add: crowded_world_def filter_map o_def)
  then have big: "DEFAULT_LIMIT \<le> length (filter (\<lambda>j. 2 < wk_ID j) (a_workers crowded_world))" by (simp add: DEFAULT_LIMIT_def)
  have db: "db_script crowded_world = []" by (simp add: crowded_world_def)
  obtain ks where "fst (ListWorkers \<lparr>lk_Limit = 0, lk_Offset = 0, lk_Active = None, lk_Status = None\<rparr> crowded_world) = Inr ks"
    by (simp add: ListWorkers_def query_quiet [OF db] wrap_err_def)
  from older_workers_unaudited [OF big this] show ?thesis by (simp add: crowded_world_def)
qed

end
