(* ===== verification/Metrics.thy ===== *)
theory Metrics
  imports Health_Scan Stack_Router Db_Router
begin

text \<open>
  Resource samples (\<^verbatim>\<open>message_handlers.go\<close>, \<^verbatim>\<open>query/worker_metrics.query.go\<close>,
  \<^verbatim>\<open>query/container_metrics.query.go\<close> and their handlers): a heartbeat is clamped, given network rates
  against the previous one and stored; charts read the newest samples or time buckets of them.

  A \<^verbatim>\<open>float64\<close> is an exact rational. Parameters: \<open>fnum\<close> is the value of a JSON number as a \<^verbatim>\<open>float64\<close>, \<open>trunc\<close> its
  conversion to an integer and \<open>ff\<close> its text. \<^verbatim>\<open>recorded_at\<close> is the time of the insert in whole seconds. Names
  are compared byte by byte.
\<close>

section \<open>Samples\<close>

record createMetricsRequest =
  mr_WorkerID :: int
  mr_CPUPercent :: "rat option"
  mr_CPUCores :: "int option"
  mr_LoadAvg1 :: "rat option"
  mr_LoadAvg5 :: "rat option"
  mr_LoadAvg15 :: "rat option"
  mr_MemoryUsedMB :: "rat option"
  mr_MemoryTotalMB :: "rat option"
  mr_MemoryFreeMB :: "rat option"
  mr_SwapUsedMB :: "rat option"
  mr_SwapTotalMB :: "rat option"
  mr_DiskUsedMB :: "rat option"
  mr_DiskTotalMB :: "rat option"
  mr_ContainerCount :: "int option"
  mr_ContainerRunningCount :: "int option"
  mr_NetworkRxBytes :: "int option"
  mr_NetworkTxBytes :: "int option"
  mr_NetworkRxRate :: "rat option"
  mr_NetworkTxRate :: "rat option"
  mr_UptimeSeconds :: "rat option"
  mr_ProcessCount :: "int option"
  mr_RunnerGoroutines :: "int option"
  mr_RunnerHeapMB :: "rat option"
  mr_RunnerSysMB :: "rat option"

record workerMetrics = createMetricsRequest +
  wm_ID :: int
  wm_RecordedAt :: time

record networkSnapshot =
  ns_rxBytes :: int
  ns_txBytes :: int
  ns_at :: time

record createContainerMetricsRequest =
  cr_WorkerID :: int
  cr_ContainerID :: "int option"
  cr_ContainerName :: string
  cr_CPUPercent :: "rat option"
  cr_MemUsageMB :: "rat option"
  cr_MemLimitMB :: "rat option"
  cr_MemPercent :: "rat option"

record containerMetrics = createContainerMetricsRequest +
  cm_ID :: int
  cm_RecordedAt :: time

record metrics_world = fleet_world +
  m_prevNetworkState :: "int \<rightharpoonup> networkSnapshot"
  m_metrics :: "workerMetrics list"
  m_next_metric :: int
  m_samples :: "containerMetrics list"
  m_next_sample :: int

section \<open>A heartbeat\<close>

definition clampFloat :: "rat option \<Rightarrow> rat \<Rightarrow> rat \<Rightarrow> rat option" where
  "clampFloat v lo hi = map_option (\<lambda>x. max lo (min hi x)) v"

definition clampFloatMin :: "rat option \<Rightarrow> rat \<Rightarrow> rat option" where
  "clampFloatMin v lo = map_option (\<lambda>x. max lo x) v"

definition extractFloat :: "(json \<Rightarrow> rat) \<Rightarrow> (string \<times> json) list \<Rightarrow> string \<Rightarrow> rat option" where
  "extractFloat fnum p key =
     (case map_of p key of Some (JInt n) \<Rightarrow> Some (fnum (JInt n)) | Some (JFloat s) \<Rightarrow> Some (fnum (JFloat s)) | _ \<Rightarrow> None)"

definition heartbeat_request :: "(json \<Rightarrow> rat) \<Rightarrow> (string \<Rightarrow> int) \<Rightarrow> int \<Rightarrow> (string \<times> json) list \<Rightarrow> createMetricsRequest" where
  "heartbeat_request fnum trunc workerID p =
     (let gauge = (\<lambda>k. clampFloatMin (extractFloat fnum p k) 0); num = payload_number trunc p in
      \<lparr>mr_WorkerID = workerID, mr_CPUPercent = clampFloat (extractFloat fnum p ''cpu_percent'') 0 100, mr_CPUCores = num ''cpu_cores'',
       mr_LoadAvg1 = gauge ''load_avg_1'', mr_LoadAvg5 = gauge ''load_avg_5'', mr_LoadAvg15 = gauge ''load_avg_15'',
       mr_MemoryUsedMB = gauge ''memory_used_mb'', mr_MemoryTotalMB = gauge ''memory_total_mb'', mr_MemoryFreeMB = gauge ''memory_free_mb'',
       mr_SwapUsedMB = gauge ''swap_used_mb'', mr_SwapTotalMB = gauge ''swap_total_mb'', mr_DiskUsedMB = gauge ''disk_used_mb'',
       mr_DiskTotalMB = gauge ''disk_total_mb'', mr_ContainerCount = num ''container_count'',
       mr_ContainerRunningCount = num ''container_running_count'', mr_NetworkRxBytes = num ''network_rx_bytes'',
       mr_NetworkTxBytes = num ''network_tx_bytes'', mr_NetworkRxRate = None, mr_NetworkTxRate = None,
       mr_UptimeSeconds = gauge ''uptime_seconds'', mr_ProcessCount = num ''process_count'', mr_RunnerGoroutines = num ''runner_goroutines'',
       mr_RunnerHeapMB = gauge ''runner_heap_mb'', mr_RunnerSysMB = gauge ''runner_sys_mb''\<rparr>)"

text \<open>\<^verbatim>\<open>math.Round\<close>: to the nearest integer, halves away from zero.\<close>

definition math_Round :: "rat \<Rightarrow> int" where
  "math_Round x = (if x < 0 then - \<lfloor>1 / 2 - x\<rfloor> else \<lfloor>x + 1 / 2\<rfloor>)"

definition byte_rate :: "int \<Rightarrow> duration \<Rightarrow> rat" where
  "byte_rate delta elapsed = of_int (math_Round (of_int delta / (of_int elapsed / of_int Second) * 10)) / 10"

text \<open>Bytes per second against the previous heartbeat; a counter that went back gives none.\<close>

definition network_rates :: "networkSnapshot option \<Rightarrow> int \<Rightarrow> int \<Rightarrow> time \<Rightarrow> (rat \<times> rat) option" where
  "network_rates prev rx tx now =
     (case prev of
        None \<Rightarrow> None
      | Some s \<Rightarrow>
          (let elapsed = now - ns_at s; rxDelta = wrap_int64 (rx - ns_rxBytes s); txDelta = wrap_int64 (tx - ns_txBytes s) in
           if elapsed > 0 \<and> rxDelta \<ge> 0 \<and> txDelta \<ge> 0 then Some (byte_rate rxDelta elapsed, byte_rate txDelta elapsed) else None))"

definition CreateMetrics :: "createMetricsRequest \<Rightarrow> 'a metrics_world_scheme \<Rightarrow> go_error option \<times> 'a metrics_world_scheme" where
  "CreateMetrics req w =
     exec_unit (\<lambda>w. w\<lparr>m_metrics := m_metrics w @
         [createMetricsRequest.extend req \<lparr>wm_ID = m_next_metric w, wm_RecordedAt = db_time (clock w)\<rparr>], m_next_metric := m_next_metric w + 1\<rparr>) w"

section \<open>Samples of containers\<close>

definition sample_request :: "(json \<Rightarrow> rat) \<Rightarrow> int \<Rightarrow> (string \<times> json) list \<Rightarrow> createContainerMetricsRequest" where
  "sample_request fnum workerID s =
     \<lparr>cr_WorkerID = workerID, cr_ContainerID = None, cr_ContainerName = payload_str s ''name'',
      cr_CPUPercent = clampFloatMin (extractFloat fnum s ''cpu_percent'') 0, cr_MemUsageMB = clampFloatMin (extractFloat fnum s ''mem_usage_mb'') 0,
      cr_MemLimitMB = clampFloatMin (extractFloat fnum s ''mem_limit_mb'') 0,
      cr_MemPercent = map_option (\<lambda>v. min 100 (max 0 v)) (extractFloat fnum s ''mem_percent'')\<rparr>"

fun sample_requests ::
  "(json \<Rightarrow> rat) \<Rightarrow> int \<Rightarrow> json list \<Rightarrow> 'a log_world_scheme \<Rightarrow> createContainerMetricsRequest list \<times> 'a log_world_scheme" where
  "sample_requests fnum workerID [] w = ([], w)"
| "sample_requests fnum workerID (v # vs) w =
     (case v of
        JObj s \<Rightarrow>
          if payload_str s ''name'' = [] then sample_requests fnum workerID vs w
          else (case cache_GetContainerByName (stripDeploySuffix (payload_str s ''name'')) w of
                  (res, w1) \<Rightarrow>
                    (case sample_requests fnum workerID vs w1 of
                       (reqs, w2) \<Rightarrow>
                         ((sample_request fnum workerID s)\<lparr>cr_ContainerID := (case res of Inl _ \<Rightarrow> None | Inr c \<Rightarrow> Some (c_ID c))\<rparr> # reqs, w2)))
      | _ \<Rightarrow> sample_requests fnum workerID vs w)"

fun insert_samples :: "createContainerMetricsRequest list \<Rightarrow> 'a metrics_world_scheme \<Rightarrow> 'a metrics_world_scheme" where
  "insert_samples [] w = w"
| "insert_samples (r # rs) w =
     insert_samples rs (w\<lparr>m_samples := m_samples w @ [createContainerMetricsRequest.extend r \<lparr>cm_ID = m_next_sample w, cm_RecordedAt = db_time (clock w)\<rparr>],
       m_next_sample := m_next_sample w + 1\<rparr>)"

definition CreateContainerMetricsBatch ::
  "createContainerMetricsRequest list \<Rightarrow> 'a metrics_world_scheme \<Rightarrow> go_error option \<times> 'a metrics_world_scheme" where
  "CreateContainerMetricsBatch reqs w = (if reqs = [] then (None, w) else exec_unit (insert_samples reqs) w)"

definition handleContainerMetrics :: "(json \<Rightarrow> rat) \<Rightarrow> int \<Rightarrow> (string \<times> json) list \<Rightarrow> 'a metrics_world_scheme \<Rightarrow> 'a metrics_world_scheme" where
  "handleContainerMetrics fnum workerID p w =
     (case map_of p ''container_stats'' of
        Some (JList vs) \<Rightarrow>
          (case sample_requests fnum workerID vs w of
             (reqs, w1) \<Rightarrow> snd (CreateContainerMetricsBatch reqs w1))
      | _ \<Rightarrow> w)"

text \<open>The payload comes back with the rates written into it.\<close>

definition handleHeartbeatMetrics ::
  "(rat \<Rightarrow> string) \<Rightarrow> (json \<Rightarrow> rat) \<Rightarrow> (string \<Rightarrow> int) \<Rightarrow> int \<Rightarrow> (string \<times> json) list \<Rightarrow> 'a metrics_world_scheme \<Rightarrow>
   (string \<times> json) list \<times> 'a metrics_world_scheme" where
  "handleHeartbeatMetrics ff fnum trunc workerID p w =
     (let req = heartbeat_request fnum trunc workerID p;
          (rates, w1) =
            (case (mr_NetworkRxBytes req, mr_NetworkTxBytes req) of
               (Some rx, Some tx) \<Rightarrow>
                 (network_rates (m_prevNetworkState w workerID) rx tx (clock w),
                  w\<lparr>m_prevNetworkState := (m_prevNetworkState w)(workerID \<mapsto> \<lparr>ns_rxBytes = rx, ns_txBytes = tx, ns_at = clock w\<rparr>)\<rparr>)
             | _ \<Rightarrow> (None, w));
          p1 = (case rates of
                  None \<Rightarrow> p
                | Some (rx, tx) \<Rightarrow> put_member ''network_tx_rate'' (JFloat (ff tx)) (put_member ''network_rx_rate'' (JFloat (ff rx)) p));
          w2 = snd (CreateMetrics (req\<lparr>mr_NetworkRxRate := map_option fst rates, mr_NetworkTxRate := map_option snd rates\<rparr>) w1)
      in (p1, handleContainerMetrics fnum workerID p1 w2))"

section \<open>Reading samples of a worker\<close>

definition newest_first :: "('b \<Rightarrow> time) \<Rightarrow> 'b list \<Rightarrow> 'b list" where
  "newest_first stamp xs = sort_key (\<lambda>x. - stamp x) xs"

definition GetLatestMetrics :: "int \<Rightarrow> 'a metrics_world_scheme \<Rightarrow> (go_error + workerMetrics) \<times> 'a metrics_world_scheme" where
  "GetLatestMetrics workerID w =
     scan_row ''failed to scan metrics: ''
       (\<lambda>w. case newest_first wm_RecordedAt (filter (\<lambda>m. mr_WorkerID m = workerID) (m_metrics w)) of [] \<Rightarrow> None | m # _ \<Rightarrow> Some m) w"

text \<open>The leading run of newest-first samples recorded at or after \<open>since\<close>.\<close>

fun metricsSince :: "time \<Rightarrow> workerMetrics list \<Rightarrow> workerMetrics list" where
  "metricsSince since [] = []"
| "metricsSince since (m # ms) = (if wm_RecordedAt m < since then [] else m # metricsSince since ms)"

record listMetricsRequest =
  lm_WorkerID :: int
  lm_Limit :: int
  lm_Since :: "time option"

definition ListMetrics :: "listMetricsRequest \<Rightarrow> 'a metrics_world_scheme \<Rightarrow> (go_error + workerMetrics list) \<times> 'a metrics_world_scheme" where
  "ListMetrics q w =
     (case query (\<lambda>w. page (lm_Limit q) 0 (newest_first wm_RecordedAt (filter (\<lambda>m. mr_WorkerID m = lm_WorkerID q) (m_metrics w)))) w of
        (Inl e, w1) \<Rightarrow> (Inl (''failed to execute sql query: '' @ e), w1)
      | (Inr ms, w1) \<Rightarrow> (Inr (case lm_Since q of None \<Rightarrow> ms | Some since \<Rightarrow> metricsSince since ms), w1))"

text \<open>The newest samples of every worker heard from in the last two minutes.\<close>

definition GetLatestMetricsForAllWorkers :: "'a metrics_world_scheme \<Rightarrow> (go_error + workerMetrics list) \<times> 'a metrics_world_scheme" where
  "GetLatestMetricsForAllWorkers w =
     (let cutoff = clock w - 2 * Minute in
      wrap_err ''failed to query fleet metrics: ''
        (query (\<lambda>w. filter (\<lambda>m. wm_RecordedAt m \<ge> cutoff \<and>
              (\<forall>m' \<in> set (m_metrics w). mr_WorkerID m' = mr_WorkerID m \<longrightarrow> wm_RecordedAt m' \<le> wm_RecordedAt m)) (m_metrics w)) w))"

section \<open>Buckets\<close>

text \<open>Go's integer division truncates towards zero.\<close>

definition bucketSeconds :: "int \<Rightarrow> int \<Rightarrow> int \<Rightarrow> int" where
  "bucketSeconds windowSec points minSec =
     (let p = (if points < 1 then 1 else points);
          sec = (if windowSec < 0 then - ((- windowSec) div p) else windowSec div p)
      in if sec < minSec then minSec else sec)"

text \<open>\<^verbatim>\<open>recorded_at >= NOW() - INTERVAL n SECOND\<close>, with at least one second.\<close>

definition in_window :: "int \<Rightarrow> time \<Rightarrow> time \<Rightarrow> bool" where
  "in_window windowSec now t \<longleftrightarrow> t \<ge> db_time now - (if windowSec < 1 then 1 else windowSec) * Second"

definition bucket_of :: "int \<Rightarrow> time \<Rightarrow> int" where "bucket_of intervalSec t = t div Second div intervalSec"

text \<open>SQL aggregates: NULLs are left out, and nothing at all gives NULL.\<close>

definition sql_avg :: "rat option list \<Rightarrow> rat option" where
  "sql_avg vs = (let xs = List.map_filter id vs in if xs = [] then None else Some (sum_list xs / of_nat (length xs)))"

definition sql_max :: "('b :: linorder) option list \<Rightarrow> 'b option" where
  "sql_max vs = (case List.map_filter id vs of [] \<Rightarrow> None | x # xs \<Rightarrow> Some (fold max xs x))"

definition sql_sum :: "rat option list \<Rightarrow> rat option" where
  "sql_sum vs = (let xs = List.map_filter id vs in if xs = [] then None else Some (sum_list xs))"

text \<open>\<^verbatim>\<open>CAST(ROUND(AVG(x)) AS SIGNED)\<close>.\<close>

definition sql_round_avg :: "int option list \<Rightarrow> int option" where
  "sql_round_avg vs = map_option math_Round (sql_avg (map (map_option of_int) vs))"

text \<open>The rows of a bucket as one sample: gauges are averaged, capacities and counters take the greatest.\<close>

definition bucket_row :: "workerMetrics list \<Rightarrow> workerMetrics" where
  "bucket_row ms =
     (let avg = (\<lambda>f. sql_avg (map f ms)); mx = (\<lambda>f. sql_max (map f ms)); imx = (\<lambda>f. sql_max (map f ms)); rnd = (\<lambda>f. sql_round_avg (map f ms)) in
      \<lparr>mr_WorkerID = Max (mr_WorkerID ` set ms), mr_CPUPercent = avg mr_CPUPercent, mr_CPUCores = imx mr_CPUCores, mr_LoadAvg1 = avg mr_LoadAvg1,
       mr_LoadAvg5 = avg mr_LoadAvg5, mr_LoadAvg15 = avg mr_LoadAvg15, mr_MemoryUsedMB = avg mr_MemoryUsedMB,
       mr_MemoryTotalMB = mx mr_MemoryTotalMB, mr_MemoryFreeMB = avg mr_MemoryFreeMB, mr_SwapUsedMB = avg mr_SwapUsedMB,
       mr_SwapTotalMB = mx mr_SwapTotalMB, mr_DiskUsedMB = avg mr_DiskUsedMB, mr_DiskTotalMB = mx mr_DiskTotalMB,
       mr_ContainerCount = rnd mr_ContainerCount, mr_ContainerRunningCount = rnd mr_ContainerRunningCount,
       mr_NetworkRxBytes = imx mr_NetworkRxBytes, mr_NetworkTxBytes = imx mr_NetworkTxBytes, mr_NetworkRxRate = avg mr_NetworkRxRate,
       mr_NetworkTxRate = avg mr_NetworkTxRate, mr_UptimeSeconds = mx mr_UptimeSeconds, mr_ProcessCount = rnd mr_ProcessCount,
       mr_RunnerGoroutines = rnd mr_RunnerGoroutines, mr_RunnerHeapMB = avg mr_RunnerHeapMB, mr_RunnerSysMB = avg mr_RunnerSysMB,
       wm_ID = Max (wm_ID ` set ms), wm_RecordedAt = Max (wm_RecordedAt ` set ms)\<rparr>)"

definition grouped :: "('b \<Rightarrow> 'k) \<Rightarrow> 'b list \<Rightarrow> 'b list list" where
  "grouped key xs = map (\<lambda>k. filter (\<lambda>x. key x = k) xs) (remdups (map key xs))"

definition ListMetricsBucketed ::
  "int \<Rightarrow> duration \<Rightarrow> int \<Rightarrow> 'a metrics_world_scheme \<Rightarrow> (go_error + workerMetrics list) \<times> 'a metrics_world_scheme" where
  "ListMetricsBucketed workerID window points w =
     (let windowSec = window div Second; intervalSec = bucketSeconds windowSec points 10 in
      wrap_err ''failed to query bucketed worker metrics: ''
        (query (\<lambda>w. newest_first wm_RecordedAt (map bucket_row (grouped (bucket_of intervalSec \<circ> wm_RecordedAt)
           (filter (\<lambda>m. mr_WorkerID m = workerID \<and> in_window windowSec (clock w) (wm_RecordedAt m)) (m_metrics w))))) w))"

record fleetMetricsPoint =
  fp_Timestamp :: time
  fp_CPUAvg :: rat
  fp_MemoryAvg :: rat
  fp_NetworkRxRate :: rat
  fp_NetworkTxRate :: rat
  fp_ContainerCount :: int
  fp_RunningCount :: int
  fp_OnlineWorkers :: int

definition or_zero :: "('b :: zero) option \<Rightarrow> 'b" where "or_zero v = (case v of None \<Rightarrow> 0 | Some x \<Rightarrow> x)"

definition memory_percent :: "'a createMetricsRequest_scheme \<Rightarrow> rat option" where
  "memory_percent m =
     (case (mr_MemoryUsedMB m, mr_MemoryTotalMB m) of
        (Some u, Some t) \<Rightarrow> if t > 0 then Some (u / t * 100) else None
      | _ \<Rightarrow> None)"

definition sum_counts :: "int option list \<Rightarrow> int" where
  "sum_counts vs = sum_list (List.map_filter id vs)"

text \<open>One point of the fleet's history from the samples of a bucket: averages per worker first.\<close>

definition fleet_point :: "time \<Rightarrow> workerMetrics list \<Rightarrow> fleetMetricsPoint" where
  "fleet_point ts ms =
     (let ws = grouped mr_WorkerID ms; per = (\<lambda>f. map f ws); greatest = (\<lambda>f. map (\<lambda>g. sql_max (map f g)) ws) in
      \<lparr>fp_Timestamp = ts,
       fp_CPUAvg = or_zero (sql_avg (per (\<lambda>g. sql_avg (map mr_CPUPercent g)))),
       fp_MemoryAvg = or_zero (sql_avg (per (\<lambda>g. sql_avg (map memory_percent g)))),
       fp_NetworkRxRate = or_zero (sql_sum (per (\<lambda>g. sql_avg (map (\<lambda>m. Some (or_zero (mr_NetworkRxRate m))) g)))),
       fp_NetworkTxRate = or_zero (sql_sum (per (\<lambda>g. sql_avg (map (\<lambda>m. Some (or_zero (mr_NetworkTxRate m))) g)))),
       fp_ContainerCount = sum_counts (greatest mr_ContainerCount),
       fp_RunningCount = sum_counts (greatest mr_ContainerRunningCount),
       fp_OnlineWorkers = int (length ws)\<rparr>)"

definition GetFleetMetricsHistory ::
  "duration \<Rightarrow> int \<Rightarrow> 'a metrics_world_scheme \<Rightarrow> (go_error + fleetMetricsPoint list) \<times> 'a metrics_world_scheme" where
  "GetFleetMetricsHistory age points w =
     (let windowSec = age div Second; intervalSec = bucketSeconds windowSec points 60; ts = (\<lambda>m. bucket_of intervalSec (wm_RecordedAt m) * intervalSec * Second) in
      wrap_err ''failed to query fleet history: ''
        (query (\<lambda>w. sort_key fp_Timestamp (map (\<lambda>g. fleet_point (ts (hd g)) g) (grouped ts
           (filter (\<lambda>m. in_window windowSec (clock w) (wm_RecordedAt m)) (m_metrics w))))) w))"

section \<open>Reading samples of containers\<close>

record listContainerMetricsRequest =
  lc_ContainerID :: int
  lc_Limit :: int
  lc_Since :: "time option"

definition at_least :: "time option \<Rightarrow> time \<Rightarrow> bool" where
  "at_least since t \<longleftrightarrow> (case since of None \<Rightarrow> True | Some s \<Rightarrow> t \<ge> s)"

definition ListContainerMetrics ::
  "listContainerMetricsRequest \<Rightarrow> 'a metrics_world_scheme \<Rightarrow> (go_error + containerMetrics list) \<times> 'a metrics_world_scheme" where
  "ListContainerMetrics q w =
     wrap_err ''failed to execute sql query: ''
       (query (\<lambda>w. page (lc_Limit q) 0 (newest_first cm_RecordedAt
          (filter (\<lambda>m. cr_ContainerID m = Some (lc_ContainerID q) \<and> at_least (lc_Since q) (cm_RecordedAt m)) (m_samples w)))) w)"

definition ListContainerMetricsByName ::
  "int \<Rightarrow> string \<Rightarrow> time option \<Rightarrow> int \<Rightarrow> 'a metrics_world_scheme \<Rightarrow> (go_error + containerMetrics list) \<times> 'a metrics_world_scheme" where
  "ListContainerMetricsByName workerID name since limit w =
     wrap_err ''failed to execute sql query: ''
       (query (\<lambda>w. page limit 0 (newest_first cm_RecordedAt
          (filter (\<lambda>m. cr_WorkerID m = workerID \<and> cr_ContainerName m = name \<and> at_least since (cm_RecordedAt m)) (m_samples w)))) w)"

definition containerStatsMaxLag :: duration where "containerStatsMaxLag = 5 * Minute"

definition currentContainerSamples :: "duration \<Rightarrow> containerMetrics list \<Rightarrow> containerMetrics list" where
  "currentContainerSamples maxLag rows =
     (case rows of
        [] \<Rightarrow> []
      | r # rs \<Rightarrow>
          (let newest = fold (\<lambda>r t. if cm_RecordedAt r > t then cm_RecordedAt r else t) rs (cm_RecordedAt r) in
           filter (\<lambda>r. newest - cm_RecordedAt r \<le> maxLag) rows))"

definition latest_per_name :: "int \<Rightarrow> containerMetrics list \<Rightarrow> containerMetrics list" where
  "latest_per_name workerID ms =
     (let own = filter (\<lambda>m. cr_WorkerID m = workerID) ms in
      sort_key cr_ContainerName (filter (\<lambda>m. \<forall>m' \<in> set own. cr_ContainerName m' = cr_ContainerName m \<longrightarrow> cm_ID m' \<le> cm_ID m) own))"

definition GetLatestWorkerContainerMetrics ::
  "int \<Rightarrow> 'a metrics_world_scheme \<Rightarrow> (go_error + containerMetrics list) \<times> 'a metrics_world_scheme" where
  "GetLatestWorkerContainerMetrics workerID w =
     (case query (\<lambda>w. latest_per_name workerID (m_samples w)) w of
        (Inl e, w1) \<Rightarrow> (Inl (''failed to query latest worker container metrics: '' @ e), w1)
      | (Inr rows, w1) \<Rightarrow> (Inr (currentContainerSamples containerStatsMaxLag rows), w1))"

definition GetLatestContainerMetrics ::
  "int \<Rightarrow> 'a metrics_world_scheme \<Rightarrow> (go_error + containerMetrics) \<times> 'a metrics_world_scheme" where
  "GetLatestContainerMetrics containerID w =
     scan_row []
       (\<lambda>w. case newest_first cm_RecordedAt (filter (\<lambda>m. cr_ContainerID m = Some containerID) (m_samples w)) of [] \<Rightarrow> None | m # _ \<Rightarrow> Some m) w"

section \<open>Handlers\<close>

definition float_json :: "(rat \<Rightarrow> string) \<Rightarrow> rat option \<Rightarrow> json" where
  "float_json ff v = (case v of None \<Rightarrow> JNull | Some x \<Rightarrow> JFloat (ff x))"

definition metrics_json :: "(rat \<Rightarrow> string) \<Rightarrow> workerMetrics \<Rightarrow> json" where
  "metrics_json ff m =
     (let f = (\<lambda>k g. (k, float_json ff (g m))); i = (\<lambda>k g. (k, opt_json (g m))) in JObj
      [(''id'', JInt (wm_ID m)), (''worker_id'', JInt (mr_WorkerID m)), f ''cpu_percent'' mr_CPUPercent, i ''cpu_cores'' mr_CPUCores,
       f ''load_avg_1'' mr_LoadAvg1, f ''load_avg_5'' mr_LoadAvg5, f ''load_avg_15'' mr_LoadAvg15, f ''memory_used_mb'' mr_MemoryUsedMB,
       f ''memory_total_mb'' mr_MemoryTotalMB, f ''memory_free_mb'' mr_MemoryFreeMB, f ''swap_used_mb'' mr_SwapUsedMB,
       f ''swap_total_mb'' mr_SwapTotalMB, f ''disk_used_mb'' mr_DiskUsedMB, f ''disk_total_mb'' mr_DiskTotalMB,
       i ''container_count'' mr_ContainerCount, i ''container_running_count'' mr_ContainerRunningCount,
       i ''network_rx_bytes'' mr_NetworkRxBytes, i ''network_tx_bytes'' mr_NetworkTxBytes, f ''network_rx_rate'' mr_NetworkRxRate,
       f ''network_tx_rate'' mr_NetworkTxRate, f ''uptime_seconds'' mr_UptimeSeconds, i ''process_count'' mr_ProcessCount,
       i ''runner_goroutines'' mr_RunnerGoroutines, f ''runner_heap_mb'' mr_RunnerHeapMB, f ''runner_sys_mb'' mr_RunnerSysMB,
       (''recorded_at'', JInt (wm_RecordedAt m))])"

definition sample_json :: "(rat \<Rightarrow> string) \<Rightarrow> containerMetrics \<Rightarrow> json" where
  "sample_json ff m = JObj
     [(''id'', JInt (cm_ID m)), (''worker_id'', JInt (cr_WorkerID m)), (''container_id'', opt_json (cr_ContainerID m)),
      (''container_name'', JStr (cr_ContainerName m)), (''cpu_percent'', float_json ff (cr_CPUPercent m)),
      (''mem_usage_mb'', float_json ff (cr_MemUsageMB m)), (''mem_limit_mb'', float_json ff (cr_MemLimitMB m)),
      (''mem_percent'', float_json ff (cr_MemPercent m)), (''recorded_at'', JInt (cm_RecordedAt m))]"

definition point_json :: "(rat \<Rightarrow> string) \<Rightarrow> fleetMetricsPoint \<Rightarrow> json" where
  "point_json ff p = JObj
     [(''timestamp'', JInt (fp_Timestamp p)), (''cpu_avg'', JFloat (ff (fp_CPUAvg p))), (''memory_avg'', JFloat (ff (fp_MemoryAvg p))),
      (''network_rx_rate'', JFloat (ff (fp_NetworkRxRate p))), (''network_tx_rate'', JFloat (ff (fp_NetworkTxRate p))),
      (''container_count'', JInt (fp_ContainerCount p)), (''running_count'', JInt (fp_RunningCount p)), (''online_workers'', JInt (fp_OnlineWorkers p))]"

definition workerChartPoints :: int where "workerChartPoints = 300"

definition rangeDurations :: "string \<Rightarrow> duration option" where
  "rangeDurations = map_of [(''1h'', Hour), (''6h'', 6 * Hour), (''24h'', 24 * Hour), (''7d'', 7 * 24 * Hour)]"

definition chart_limit :: "httpRequest \<Rightarrow> int" where
  "chart_limit r = (case int_param r ''limit'' of Some l \<Rightarrow> if l > 0 then l else 100 | None \<Rightarrow> 100)"

definition HandleGetWorkerMetrics :: "(rat \<Rightarrow> string) \<Rightarrow> httpRequest \<Rightarrow> 'a metrics_world_scheme \<Rightarrow> response \<times> 'a metrics_world_scheme" where
  "HandleGetWorkerMetrics ff r w =
     (case path_int r ''id'' of
        None \<Rightarrow> (SendError 400 ''invalid worker id'' None, w)
      | Some workerID \<Rightarrow>
          (case (case rangeDurations (query_param r ''range'') of
                   Some d \<Rightarrow> ListMetricsBucketed workerID d workerChartPoints w
                 | None \<Rightarrow> ListMetrics \<lparr>lm_WorkerID = workerID, lm_Limit = chart_limit r, lm_Since = None\<rparr> w) of
             (Inl e, w1) \<Rightarrow> (QueryError e ''failed to list worker metrics'', w1)
           | (Inr ms, w1) \<Rightarrow> (New (DataList (map (metrics_json ff) ms)) ''worker metrics retrieved'', w1)))"

definition HandleGetContainerMetrics :: "(rat \<Rightarrow> string) \<Rightarrow> httpRequest \<Rightarrow> 'a metrics_world_scheme \<Rightarrow> response \<times> 'a metrics_world_scheme" where
  "HandleGetContainerMetrics ff r w =
     (case path_int r ''id'' of
        None \<Rightarrow> (SendError 400 ''invalid container id'' None, w)
      | Some i \<Rightarrow>
          (case ListContainerMetrics
                  (case rangeDurations (query_param r ''range'') of
                     Some d \<Rightarrow> \<lparr>lc_ContainerID = i, lc_Limit = 500, lc_Since = Some (clock w - d)\<rparr>
                   | None \<Rightarrow> \<lparr>lc_ContainerID = i, lc_Limit = chart_limit r, lc_Since = None\<rparr>) w of
             (Inl e, w1) \<Rightarrow> (QueryError e ''failed to list container metrics'', w1)
           | (Inr ms, w1) \<Rightarrow> (New (DataList (map (sample_json ff) ms)) ''container metrics retrieved'', w1)))"

definition HandleGetWorkerContainerStats :: "(rat \<Rightarrow> string) \<Rightarrow> httpRequest \<Rightarrow> 'a metrics_world_scheme \<Rightarrow> response \<times> 'a metrics_world_scheme" where
  "HandleGetWorkerContainerStats ff r w =
     (case path_int r ''id'' of
        None \<Rightarrow> (SendError 400 ''invalid worker id'' None, w)
      | Some workerID \<Rightarrow>
          (case GetLatestWorkerContainerMetrics workerID w of
             (Inl e, w1) \<Rightarrow> (QueryError e ''failed to get worker container stats'', w1)
           | (Inr ms, w1) \<Rightarrow> (New (DataList (map (sample_json ff) ms)) ''worker container stats retrieved'', w1)))"

definition fleet_range :: "string \<Rightarrow> duration \<times> int" where
  "fleet_range s =
     (if s = ''1h'' then (Hour, 60) else if s = ''6h'' then (6 * Hour, 72) else if s = ''7d'' then (7 * 24 * Hour, 168) else (24 * Hour, 96))"

definition HandleGetFleetMetrics :: "(rat \<Rightarrow> string) \<Rightarrow> httpRequest \<Rightarrow> 'a metrics_world_scheme \<Rightarrow> response \<times> 'a metrics_world_scheme" where
  "HandleGetFleetMetrics ff r w =
     (case fleet_range (query_param r ''range'') of
        (age, points) \<Rightarrow>
          (case GetFleetMetricsHistory age points w of
             (Inl e, w1) \<Rightarrow> (QueryError e ''failed to fetch fleet metrics history'', w1)
           | (Inr ps, w1) \<Rightarrow> (New (DataList (map (point_json ff) ps)) ''fleet metrics history retrieved'', w1)))"

definition HandleGetDatabaseInstanceMetrics ::
  "(rat \<Rightarrow> string) \<Rightarrow> (string \<Rightarrow> time option) \<Rightarrow> httpRequest \<Rightarrow> 'a metrics_world_scheme \<Rightarrow> response \<times> 'a metrics_world_scheme" where
  "HandleGetDatabaseInstanceMetrics ff parse_time r w =
     loadInstanceForObservability r (\<lambda>i d w1.
       case ListContainerMetricsByName (di_WorkerID d) (di_ContainerName d)
              (if query_param r ''since'' = [] then None else parse_time (query_param r ''since''))
              (case int_param r ''limit'' of None \<Rightarrow> 0 | Some n \<Rightarrow> n) w1 of
         (Inl e, w2) \<Rightarrow> (QueryError e ''failed to fetch database metrics'', w2)
       | (Inr ms, w2) \<Rightarrow> (New (DataList (map (sample_json ff) ms)) ''database metrics retrieved'', w2)) w"

section \<open>What the range filter keeps\<close>

lemma metricsSince_takeWhile: "metricsSince since ms = takeWhile (\<lambda>m. since \<le> wm_RecordedAt m) ms"
  by (induction ms) auto

lemma takeWhile_take: "takeWhile P (take n xs) = take n (takeWhile P xs)"
  by (induction xs arbitrary: n) (auto simp: take_Cons split: nat.split)

lemma takeWhile_desc: "sorted_wrt (\<ge>) (map f xs) \<Longrightarrow> takeWhile (\<lambda>x. (c :: int) \<le> f x) xs = filter (\<lambda>x. c \<le> f x) xs"
proof (induction xs)
  case (Cons x xs)
  show ?case
  proof (cases "c \<le> f x")
    case False
    with Cons.prems have "filter (\<lambda>x. c \<le> f x) (x # xs) = []" by (auto simp: filter_empty_conv)
    with False show ?thesis by simp
  qed (use Cons in simp)
qed simp

lemma newest_first_desc: "sorted_wrt (\<ge>) (map stamp (newest_first stamp xs))"
proof -
  have "sorted (map (\<lambda>x. - stamp x) (newest_first stamp xs))" by (simp add: newest_first_def)
  then show ?thesis by (simp add: sorted_wrt_map)
qed

lemma filter_newest_first: "filter P (newest_first stamp xs) = newest_first stamp (filter P xs)"
  by (simp add: newest_first_def filter_sort)

lemma page_takeWhile: "takeWhile P (page limit 0 xs) = page limit 0 (takeWhile P xs)"
  by (simp add: page_def takeWhile_take Let_def)

text \<open>
  C40. Filtering a worker's samples by time in Go gives what the WHERE clause it replaces would: for
  every limit, cutting the newest samples at the first one older than \<open>since\<close> yields exactly the newest
  samples, up to the limit, among those recorded at or after \<open>since\<close>.
\<close>

theorem range_filter_matches_where:
  assumes "ListMetrics \<lparr>lm_WorkerID = wid, lm_Limit = limit, lm_Since = Some since\<rparr> w = (Inr ms, w')"
  shows "ms = page limit 0 (newest_first wm_RecordedAt (filter (\<lambda>m. mr_WorkerID m = wid \<and> since \<le> wm_RecordedAt m) (m_metrics w)))"
proof -
  let ?q = "\<lambda>w. page limit 0 (newest_first wm_RecordedAt (filter (\<lambda>m. mr_WorkerID m = wid) (m_metrics w)))"
  obtain rows where q: "query ?q w = (Inr rows, w')" and ms: "ms = metricsSince since rows"
    using assms by (auto simp: ListMetrics_def split: prod.splits sum.splits)
  have "rows = ?q w" by (rule query_Inr [OF q]) simp
  then show ?thesis
    unfolding ms metricsSince_takeWhile
    by (simp add: page_takeWhile takeWhile_desc newest_first_desc filter_newest_first conj_commute)
qed

definition sample_metrics :: "int \<Rightarrow> time \<Rightarrow> workerMetrics" where
  "sample_metrics i t = createMetricsRequest.extend (heartbeat_request (\<lambda>_. 0) (\<lambda>_. 0) 2 []) \<lparr>wm_ID = i, wm_RecordedAt = t\<rparr>"

definition metrics_world0 :: metrics_world where
  "metrics_world0 = fleet_world.extend fleet_world0
     \<lparr>m_prevNetworkState = Map.empty, m_metrics = [sample_metrics 1 10, sample_metrics 2 20, sample_metrics 3 30], m_next_metric = 4,
      m_samples = [], m_next_sample = 1\<rparr>"

lemma metrics_world0_simps [simp]:
  "db_script metrics_world0 = []" "m_metrics metrics_world0 = [sample_metrics 1 10, sample_metrics 2 20, sample_metrics 3 30]"
  using fleet_world0_simps(1) by (simp_all add: metrics_world0_def fleet_world.defs)

lemma sample_metrics_simps [simp]: "mr_WorkerID (sample_metrics i t) = 2" "wm_RecordedAt (sample_metrics i t) = t"
  by (simp_all add: sample_metrics_def heartbeat_request_def Let_def createMetricsRequest.defs)

theorem range_filter_matches_where_witness:
  "fst (ListMetrics \<lparr>lm_WorkerID = 2, lm_Limit = 2, lm_Since = Some 15\<rparr> metrics_world0) = Inr [sample_metrics 3 30, sample_metrics 2 20]"
proof -
  obtain ms where run: "ListMetrics \<lparr>lm_WorkerID = 2, lm_Limit = 2, lm_Since = Some 15\<rparr> metrics_world0 = (Inr ms, metrics_world0)"
    by (simp add: ListMetrics_def query_quiet)
  from range_filter_matches_where [OF run] have "ms = [sample_metrics 3 30, sample_metrics 2 20]"
    by (simp add: newest_first_def page_def MAX_LIMIT_def)
  with run show ?thesis by simp
qed

end
