(* ===== verification/Spec2Isabelle.thy ===== *)
theory Spec2Isabelle
  imports Cron Worker_Hub Rate_Limit Automation_Concurrency Db_Lifecycle Scheduler Db_Router Log_Pipeline Retention Versions Account_Safety Automation_Ownership Stack_Privacy Metrics
begin

text \<open>
  A model of the Lattice control plane (the Go program under \<^verbatim>\<open>src/\<close>) and the theorems about it.

  \<^bold>\<open>The program.\<close> Lattice runs stacks of containers and managed databases on workers. A worker's runner
  holds a WebSocket to the control plane, reports what it sees and receives commands; operators use an HTTP
  API; schedulers and webhooks start automations and backups. All state that survives is in MySQL tables; a
  process keeps the table of connected workers, caches, timers and counters. The parts meet in three places:
  the tables, the hub of workers, through which every command goes, and the claims (a conditional
  UPDATE, or an INSERT under a unique key) by which concurrent requests exclude each other.

  \<^bold>\<open>The world.\<close> Stateful code is a function on a record that is extended from theory to theory: \<open>world\<close> (clock,
  hub, script of the database; \<open>Platform\<close>), \<open>tables\<close> (\<open>Structs\<close>), \<open>auto_world\<close> for automations, and in one line
  \<open>db_world\<close>, \<open>backup_world\<close>, \<open>api_world\<close>, \<open>log_world\<close>, \<open>deploy_world\<close>, \<open>alert_world\<close>, \<open>runner_world\<close>,
  \<open>ops_world\<close>, \<open>auth_world\<close>, \<open>fleet_world\<close>, \<open>metrics_world\<close>. An operation is stated at the least extension it
  needs, so it applies to every later one. Each SQL statement consumes an entry of \<open>db_script\<close>: it takes some
  time and is done, refused without effect, or lost (done, with the caller told of an error). A theorem without
  a hypothesis on the script holds for every pattern of failures. Errors are values: \<open>Inl\<close> of a message, or an
  optional one where Go returns only an error. A request that several handlers serve concurrently is an
  interleaving of their statements where a theorem is about interleaving (\<open>Automation_Concurrency\<close>,
  \<open>Account_Safety\<close>), and one step elsewhere.

  \<^bold>\<open>Theories and sources.\<close>
  \<^item> \<open>Go_Prelude\<close>: the strings, numbers, instants and the UTC calendar of Go's library. \<open>Platform\<close>: the world, a
    SQL statement, and two contracts as locales, \<open>claim_guard\<close> and \<open>slot_ledger\<close>. \<open>Structs\<close>: rows of
    \<^verbatim>\<open>structs/\<close> and the shared reads of \<^verbatim>\<open>query/\<close>. \<open>Http\<close>: \<^verbatim>\<open>responder/\<close>, JSON bodies, \<^verbatim>\<open>tools/validate.go\<close>.
  \<^item> \<open>Cron\<close>: \<^verbatim>\<open>cron/cron.go\<close>. \<open>Worker_Hub\<close>: \<^verbatim>\<open>socket/hub.go\<close>. \<open>Rate_Limit\<close>: \<^verbatim>\<open>middleware/ratelimit.go\<close>.
    \<open>Retention\<close>: \<^verbatim>\<open>retention/retention.go\<close>. \<open>Versions\<close>: \<^verbatim>\<open>versions/versions.go\<close>.
  \<^item> \<open>Automation_Store\<close>, \<open>Automation_Policy\<close>, \<open>Automation_Executor\<close>, \<open>Automation_Concurrency\<close>,
    \<open>Automation_Router\<close>, \<open>Automation_Ownership\<close>: \<^verbatim>\<open>automations/\<close>, its queries, \<^verbatim>\<open>webhooks/dispatcher.go\<close> as a
    request, \<^verbatim>\<open>routers/HandleAutomations.router.go\<close>.
  \<^item> \<open>Db_Instances\<close>, \<open>Db_Lifecycle\<close>, \<open>Db_Backups\<close>, \<open>Scheduler\<close>, \<open>Db_Router\<close>: managed databases, that is
    \<^verbatim>\<open>database_lifecycle.go\<close>, \<^verbatim>\<open>database_handlers.go\<close>, \<^verbatim>\<open>database_reconciler.go\<close>, the two schedulers,
    their queries and handlers.
  \<^item> \<open>Log_Pipeline\<close>: \<^verbatim>\<open>container_log_batcher.go\<close> and \<^verbatim>\<open>container_cache.go\<close>. \<open>Alerts\<close>: \<^verbatim>\<open>mailer/\<close>.
    \<open>Runner_Messages\<close>, \<open>Deployments\<close>: \<^verbatim>\<open>message_handlers.go\<close> and \<^verbatim>\<open>routers/deployment_monitor.go\<close>.
  \<^item> \<open>Stack_Store\<close>, \<open>Deploy_Spec\<close>, \<open>Deploy_Router\<close>, \<open>Deploy_Invariants\<close>, \<open>Deploy_Safety\<close>: deployments, their
    payload and handlers. \<open>Stack_Secrets\<close>, \<open>Compose\<close>, \<open>Compose_Router\<close>, \<open>Stack_Router\<close>, \<open>Stack_Safety\<close>,
    \<open>Stack_Privacy\<close>: stacks, containers and compose files.
  \<^item> \<open>Accounts\<close>, \<open>Account_Safety\<close>, \<open>Auth_Gate\<close>, \<open>Auth_Safety\<close>: users, tokens, sessions, and the middleware with
    the route table of \<^verbatim>\<open>main.go\<close>.
  \<^item> \<open>Worker_Commands\<close>, \<open>Health_Scan\<close>, \<open>Metrics\<close>: the commands to workers with the worker rows,
    \<^verbatim>\<open>healthscan/scanner.go\<close>, and the resource samples with their charts.

  Definitions carry the names of the Go functions and types; a field has a prefix for its struct. Loops over
  slices are structural recursion or \<open>fold\<close>, a Go map is a partial function or, where its iteration shows, an
  association list.

  \<^bold>\<open>What the lemmas show.\<close> \<open>claim_guard\<close> and \<open>slot_ledger\<close> state what a claim promises (a
  winner holds it until it is released or stale, a key is won once) and are interpreted on the run guard of
  automations, the deploy claim of stacks and the ledger of scheduled runs. The other locales (\<open>row_property\<close>,
  \<open>retirable\<close>, \<open>automation_statements\<close>, \<open>account_statements\<close>, \<open>account_writes\<close>, \<open>deploy_writes\<close>, \<open>deploy_invariant\<close>,
  \<open>lockstep\<close>) lift a property that the statements of a component keep to every handler built from them; each
  is interpreted on the invariants of the model. \<open>log_sink\<close> is the contract of the batcher with the table it
  writes. Around them are invariants kept by every
  operation (hub, automation rows, statuses, owners, an administrator remains, errors are explained);
  safety over sessions of requests (no mutation without authority, secrets do not reach callers who may not
  see them, revoked tokens stay out, settled deployments stay settled, one run per slot, newer snapshots
  outlive older ones); liveness of the monitor, the scheduler and the sweep of dead runs; equivalences of a
  routine with a reference (versions, range filter of samples, log lines against the storage they must
  reach); functional statements of schedules, of what a command route does to the hub, and of what
  the health scan reports; and, as theorems about the code as it is, the behaviours the code does not
  intend. A sentence before each numbered theorem says what it states.

  \<^bold>\<open>Parameters.\<close> Code outside the repository is an argument: \<open>exec_env\<close>, \<open>auth_env\<close> and \<open>compose_env\<close> collect
  signing and hashing, the SSO session, the YAML parser (its maps come as lists in some order), renumbering
  and the default columns of an insert; \<open>d_encrypt\<close> and \<open>d_decrypt\<close> are the column encryption, \<open>a_rand\<close> and
  \<open>x_rand\<close> random draws, \<open>b_unmarshal\<close> and \<open>b_uuid\<close> parsing of stored documents and fresh ids; \<open>trunc\<close>,
  \<open>fnum\<close>, \<open>ff\<close> and \<open>float_int\<close> convert a \<^verbatim>\<open>float64\<close>, which is opaque text, or an exact rational in \<open>Rate_Limit\<close> and
  \<open>Metrics\<close>; \<open>parse_time\<close>, \<open>hash\<close>, \<open>services\<close>, \<open>get\<close> and \<open>marshal\<close> stand for the library calls of those names.
  What the network answers and which branch a Go \<^verbatim>\<open>select\<close> takes are scripts (\<open>picks\<close>). The theorems are for
  all values of these unless a hypothesis says otherwise.

  \<^bold>\<open>Bounds.\<close> Integers are unbounded where the code cannot leave 64 bits, and \<open>wrap_int64\<close> writes the
  wrap-around where it can. There is no fuel: loops are structural, or a \<open>function\<close> with
  a measure (the search of \<open>Cron\<close> that stops at its horizon, the eviction of buckets, the search for a free port,
  the interpolation of variables), or the purge of \<open>Retention\<close>, a partial function whose termination is
  proved.

  \<^bold>\<open>Not modelled.\<close> The WebSocket pumps and the server (network I/O), rendering of answers and mails, the
  self-update and the registry client (behaviour of the Docker and registry APIs), the OAuth
  exchange, telemetry and logging other than structured events, the migration runner and AES, start-up and
  environment; the pages of registries, templates, webhooks, global variables, settings and the
  read-only pages (overview, search, audit log), which are rows without logic that the invariants
  are about. Panics are modelled where the code recovers from them, in the executor. The order in which the
  runtime starts pooled message handlers is not modelled: each handler is one step.
\<close>

end
